(* ===== verification/Prelude.thy ===== *)
theory Prelude
  imports Main "HOL-Library.Word" "HOL-Library.Multiset"
begin

unbundle bit_operations_syntax

text \<open>
  Shared vocabulary of the development: the integer widths of \<^verbatim>\<open>tdsystem.h\<close>, the
  result type of operations that may end in \<^verbatim>\<open>::abort()\<close>, the \<^verbatim>\<open>errno\<close> codes the
  library returns, \<^verbatim>\<open>std::multimap\<close> as the ordered association list it iterates as,
  number printing as done by \<^verbatim>\<open>snprintf\<close>, and the generic lemmas on them.
\<close>

section \<open>Collections of facts\<close>

named_theorems result_simps \<open>how results of fallible operations compose\<close>
named_theorems multimap_simps \<open>how lookups see insertions and removals\<close>

section \<open>Integer types\<close>

type_synonym card8 = "8 word"
type_synonym card16 = "16 word"
type_synonym card32 = "32 word"
type_synonym card64 = "64 word"
type_synonym byte = "8 word"

text \<open>The conversion of a (possibly negative) \<^verbatim>\<open>integer\<close> to a \<^verbatim>\<open>cardinal\<close> wraps at 32 bits.\<close>

definition cardinal_of_int :: "int \<Rightarrow> nat" where
  "cardinal_of_int i = nat (i mod 2 ^ 32)"

section \<open>Results of operations that may kill the process\<close>

text \<open>
  \<open>ProcessAbort\<close> is a call of \<^verbatim>\<open>::abort()\<close> in the source, \<open>BadPointer\<close> the use of a
  null pointer or of a freed object, \<open>StillWaiting\<close> says that a blocking call had not
  returned when the given events were used up, and \<open>OutOfFuel\<close> that a bound of the model
  (the nesting depth of callbacks) was hit; the last one is no behaviour of the program.
\<close>

datatype fault = ProcessAbort | BadPointer | StillWaiting | OutOfFuel

type_synonym 'a result = "fault + 'a"

definition andThen :: "'a result \<Rightarrow> ('a \<Rightarrow> 'b result) \<Rightarrow> 'b result" where
  "andThen r f = (case r of Inl e \<Rightarrow> Inl e | Inr x \<Rightarrow> f x)"

definition ofOption :: "'a option \<Rightarrow> 'a result" where
  "ofOption x = (case x of None \<Rightarrow> Inl BadPointer | Some y \<Rightarrow> Inr y)"

text \<open>A loop over a list whose body changes a state and may fail.\<close>

fun forEach :: "('a \<Rightarrow> 's \<Rightarrow> 's result) \<Rightarrow> 'a list \<Rightarrow> 's \<Rightarrow> 's result" where
  "forEach f [] s = Inr s"
| "forEach f (x # xs) s = andThen (f x s) (forEach f xs)"

section \<open>Error codes\<close>

text \<open>The numbers are those of Linux's \<^verbatim>\<open>errno.h\<close>.\<close>

definition EIO :: int where "EIO = 5"
definition ENXIO :: int where "ENXIO = 6"
definition EBADF :: int where "EBADF = 9"
definition EAGAIN :: int where "EAGAIN = 11"
definition ENOMEM :: int where "ENOMEM = 12"
definition EINVAL :: int where "EINVAL = 22"
definition EMFILE :: int where "EMFILE = 24"
definition EPROTONOSUPPORT :: int where "EPROTONOSUPPORT = 93"
definition EADDRINUSE :: int where "EADDRINUSE = 98"
definition ECONNABORTED :: int where "ECONNABORTED = 103"
definition ECONNRESET :: int where "ECONNRESET = 104"
definition ENOBUFS :: int where "ENOBUFS = 105"
definition EISCONN :: int where "EISCONN = 106"

lemmas errno_defs = EIO_def ENXIO_def EBADF_def EAGAIN_def ENOMEM_def EINVAL_def EMFILE_def
  EPROTONOSUPPORT_def EADDRINUSE_def ECONNABORTED_def ECONNRESET_def ENOBUFS_def EISCONN_def

section \<open>Multimaps\<close>

text \<open>
  A \<^verbatim>\<open>std::multimap\<close> is the list of its pairs in iteration order. An insertion goes
  behind the pairs with the same key, \<^verbatim>\<open>find\<close> gives the first pair with the key and
  \<^verbatim>\<open>erase(find(k))\<close> removes that pair.
\<close>

type_synonym ('k, 'v) multimap = "('k \<times> 'v) list"

fun mm_insert :: "'k::linorder \<Rightarrow> 'v \<Rightarrow> ('k, 'v) multimap \<Rightarrow> ('k, 'v) multimap" where
  "mm_insert k v [] = [(k, v)]"
| "mm_insert k v ((k', v') # m) =
     (if k < k' then (k, v) # (k', v') # m else (k', v') # mm_insert k v m)"

fun mm_find :: "'k \<Rightarrow> ('k, 'v) multimap \<Rightarrow> 'v option" where
  "mm_find k [] = None"
| "mm_find k ((k', v) # m) = (if k = k' then Some v else mm_find k m)"

fun mm_erase :: "'k \<Rightarrow> ('k, 'v) multimap \<Rightarrow> ('k, 'v) multimap" where
  "mm_erase k [] = []"
| "mm_erase k ((k', v) # m) = (if k = k' then m else (k', v) # mm_erase k m)"

definition mm_ordered :: "('k::linorder, 'v) multimap \<Rightarrow> bool" where
  "mm_ordered m = sorted (map fst m)"

definition mm_unique :: "('k, 'v) multimap \<Rightarrow> bool" where
  "mm_unique m = distinct (map fst m)"

section \<open>Printing numbers\<close>

definition digit_char :: "nat \<Rightarrow> char" where
  "digit_char d = char_of (if d < 10 then 48 + d else 87 + d)"

fun radix_string :: "nat \<Rightarrow> nat \<Rightarrow> string" where
  "radix_string b n =
     (if b < 2 \<or> n < b then [digit_char n]
      else radix_string b (n div b) @ [digit_char (n mod b)])"

declare radix_string.simps [simp del]

text \<open>The conversions \<^verbatim>\<open>%u\<close>/\<^verbatim>\<open>%d\<close> of a non-negative value and \<^verbatim>\<open>%x\<close>.\<close>

definition dec_string :: "nat \<Rightarrow> string" where
  "dec_string n = radix_string 10 n"

definition hex_string :: "nat \<Rightarrow> string" where
  "hex_string n = radix_string 16 n"

fun radix_value :: "nat \<Rightarrow> (char \<Rightarrow> nat) \<Rightarrow> nat \<Rightarrow> string \<Rightarrow> nat" where
  "radix_value b f acc [] = acc"
| "radix_value b f acc (c # cs) = radix_value b f (acc * b + f c) cs"

definition digit_value :: "char \<Rightarrow> nat" where
  "digit_value c = (if of_char c < (58::nat) then of_char c - 48 else of_char c - 87)"

section \<open>Lemmas on results\<close>

lemma andThen_Inl [simp, result_simps]: "andThen (Inl e) f = Inl e"
  by (simp add: andThen_def)

lemma andThen_Inr [simp, result_simps]: "andThen (Inr x) f = f x"
  by (simp add: andThen_def)

lemma andThen_eq_Inr [result_simps]:
  "andThen r f = Inr y \<longleftrightarrow> (\<exists>x. r = Inr x \<and> f x = Inr y)"
  by (cases r) simp_all

lemma andThen_eq_Inl [result_simps]:
  "andThen r f = Inl e \<longleftrightarrow> r = Inl e \<or> (\<exists>x. r = Inr x \<and> f x = Inl e)"
  by (cases r) auto

lemma andThen_assoc: "andThen (andThen r f) g = andThen r (\<lambda>x. andThen (f x) g)"
  by (cases r) simp_all

lemma ofOption_simps [simp, result_simps]:
  "ofOption None = Inl BadPointer" "ofOption (Some x) = Inr x"
  by (simp_all add: ofOption_def)

lemma ofOption_eq_Inr [result_simps]: "ofOption x = Inr y \<longleftrightarrow> x = Some y"
  by (cases x) simp_all

section \<open>Lemmas on multimaps\<close>

lemma mset_mm_insert: "mset (mm_insert k v m) = add_mset (k, v) (mset m)"
  by (induction m) auto

lemma set_mm_insert [simp]: "set (mm_insert k v m) = insert (k, v) (set m)"
  using mset_mm_insert [of k v m] by (metis set_mset_add_mset_insert set_mset_mset)

lemma mm_find_None_iff [multimap_simps]: "mm_find k m = None \<longleftrightarrow> k \<notin> fst ` set m"
  by (induction m) (auto split: if_splits)

lemma mm_find_SomeD: "mm_find k m = Some v \<Longrightarrow> (k, v) \<in> set m"
  by (induction m) (auto split: if_splits)

lemma mm_find_unique:
  "mm_unique m \<Longrightarrow> mm_find k m = Some v \<longleftrightarrow> (k, v) \<in> set m"
  by (induction m) (auto simp: mm_unique_def image_iff rev_image_eqI split: if_splits)

lemma mm_find_insert_other [multimap_simps]:
  "k \<noteq> k' \<Longrightarrow> mm_find k (mm_insert k' v m) = mm_find k m"
  by (induction m) auto

lemma mm_find_insert_fresh [multimap_simps]:
  "mm_find k m = None \<Longrightarrow> mm_find k (mm_insert k v m) = Some v"
  by (induction m) (auto split: if_splits)

lemma mm_find_insert_dup:
  "mm_ordered m \<Longrightarrow> mm_find k m = Some v \<Longrightarrow> mm_find k (mm_insert k v' m) = Some v"
  by (induction m) (fastforce simp: mm_ordered_def dest: mm_find_SomeD split: if_splits)+

lemma mm_find_erase_other [multimap_simps]:
  "k \<noteq> k' \<Longrightarrow> mm_find k (mm_erase k' m) = mm_find k m"
  by (induction m) auto

lemma mm_find_erase_same [multimap_simps]:
  "mm_unique m \<Longrightarrow> mm_find k (mm_erase k m) = None"
  by (induction m) (force simp: mm_unique_def mm_find_None_iff split: if_splits)+

lemma set_mm_erase_subset: "set (mm_erase k m) \<subseteq> set m"
  by (induction m) (auto split: if_splits)

lemma set_mm_erase:
  "mm_unique m \<Longrightarrow> set (mm_erase k m) = {p \<in> set m. fst p \<noteq> k}"
  by (induction m) (force simp: mm_unique_def split: if_splits)+

lemma mm_ordered_insert: "mm_ordered m \<Longrightarrow> mm_ordered (mm_insert k v m)"
  by (induction m) (force simp: mm_ordered_def)+

lemma mm_ordered_erase: "mm_ordered m \<Longrightarrow> mm_ordered (mm_erase k m)"
  using set_mm_erase_subset by (induction m) (fastforce simp: mm_ordered_def)+

lemma mm_unique_insert:
  "mm_unique m \<Longrightarrow> mm_find k m = None \<Longrightarrow> mm_unique (mm_insert k v m)"
  by (induction m) (force simp: mm_unique_def mm_find_None_iff split: if_splits)+

lemma mm_unique_erase: "mm_unique m \<Longrightarrow> mm_unique (mm_erase k m)"
  using set_mm_erase_subset by (induction m) (fastforce simp: mm_unique_def)+

lemma mm_erase_None: "mm_find k m = None \<Longrightarrow> mm_erase k m = m"
  by (induction m) (auto split: if_splits)


section \<open>Three-way comparisons\<close>

text \<open>
  The contract of a three-way comparison in the style of \<^verbatim>\<open>strcmp\<close>: zero means equal,
  exchanging the arguments flips the sign, and \<open>< 0\<close> is transitive.
\<close>

locale comparison =
  fixes cmp :: "'a \<Rightarrow> 'a \<Rightarrow> int"
  assumes cmp_zero: "cmp a b = 0 \<longleftrightarrow> a = b"
    and cmp_flip: "cmp b a = - cmp a b"
    and cmp_trans: "cmp a b < 0 \<Longrightarrow> cmp b c < 0 \<Longrightarrow> cmp a c < 0"
begin

lemma cmp_total: "cmp a b < 0 \<or> a = b \<or> cmp b a < 0"
  using cmp_zero [of a b] cmp_flip [of b a] by linarith

lemma cmp_asym: "cmp a b < 0 \<Longrightarrow> \<not> cmp b a < 0"
  using cmp_flip [of a b] by linarith

lemma cmp_le_iff: "cmp a b \<le> 0 \<longleftrightarrow> cmp a b < 0 \<or> a = b"
  using cmp_zero [of a b] by linarith

lemma cmp_le_trans: "cmp a b \<le> 0 \<Longrightarrow> cmp b c \<le> 0 \<Longrightarrow> cmp a c \<le> 0"
  by (auto simp: cmp_le_iff dest: cmp_trans)

end

section \<open>Printed numbers read back\<close>

lemma digit_value_char: "d < 16 \<Longrightarrow> digit_value (digit_char d) = d"
  by (auto simp: digit_value_def digit_char_def of_char_of)

lemma radix_value_append:
  "radix_value b f acc (xs @ ys) = radix_value b f (radix_value b f acc xs) ys"
  by (induction xs arbitrary: acc) auto

lemma radix_value_string:
  assumes "2 \<le> b" "b \<le> 16"
  shows "radix_value b digit_value 0 (radix_string b n) = n"
proof (induction n rule: less_induct)
  case (less n)
  show ?case
  proof (cases "n < b")
    case True
    with assms show ?thesis by (simp add: radix_string.simps [of b n] digit_value_char)
  next
    case False
    with assms less.IH [of "n div b"]
    have "radix_value b digit_value 0 (radix_string b (n div b)) = n div b" by simp
    moreover from assms have "n mod b < 16"
      by (metis less_le_trans mod_less_divisor not_numeral_le_zero order_less_le_trans zero_less_iff_neq_zero)
    ultimately show ?thesis
      using False assms by (simp add: radix_string.simps [of b n] radix_value_append digit_value_char)
  qed
qed

lemma radix_string_digits:
  assumes "2 \<le> b"
  shows "set (radix_string b n) \<subseteq> digit_char ` {..<b}"
proof (induction n rule: less_induct)
  case (less n)
  with assms show ?case by (auto simp: radix_string.simps [of b n])
qed

lemma radix_string_ne: "radix_string b n \<noteq> []"
  by (simp add: radix_string.simps [of b n])

lemma length_radix_string:
  assumes "2 \<le> b" "n < b ^ k" "0 < k"
  shows "length (radix_string b n) \<le> k"
  using assms(2,3)
proof (induction k arbitrary: n)
  case 0
  then show ?case by simp
next
  case (Suc k)
  show ?case
  proof (cases "n < b")
    case True
    then show ?thesis by (simp add: radix_string.simps [of b n])
  next
    case False
    with Suc.prems have "0 < k" by (cases k) simp_all
    moreover have "n div b < b ^ k" using Suc.prems(1) assms(1)
      by (simp add: less_mult_imp_div_less mult.commute)
    ultimately show ?thesis
      using Suc.IH [of "n div b"] False assms(1) by (simp add: radix_string.simps [of b n])
  qed
qed

end
