(* ===== verification/TDStrings.thy ===== *)
theory TDStrings
  imports Prelude
begin

text \<open>
  The class \<^verbatim>\<open>String\<close> of \<^verbatim>\<open>socketapi/tdstrings.{h,icc,cc}\<close>: a possibly null pointer to a
  NUL-terminated character array. A \<open>String\<close> is \<open>None\<close> for the null pointer and otherwise
  the characters before the terminator. Positions and lengths are natural numbers; where
  the source hands a negative value to an unsigned parameter the wrap-around is written
  out with \<^const>\<open>cardinal_of_int\<close>.
\<close>

section \<open>Characters and C strings\<close>

type_synonym cstring = "char list"
type_synonym String = "cstring option"

abbreviation NUL :: char where "NUL \<equiv> CHR 0x00"

text \<open>What a C string function sees of a character array: everything before the first NUL.\<close>

definition cstr :: "char list \<Rightarrow> cstring" where
  "cstr cs = takeWhile (\<lambda>c. c \<noteq> NUL) cs"

text \<open>\<^verbatim>\<open>Data[i]\<close> of a non-null string, the terminator included.\<close>

definition char_at :: "cstring \<Rightarrow> nat \<Rightarrow> char" where
  "char_at cs i = (if i < length cs then cs ! i else NUL)"

definition tolower :: "char \<Rightarrow> char" where
  "tolower c = (if 65 \<le> (of_char c :: nat) \<and> (of_char c :: nat) \<le> 90
     then char_of (of_char c + 32 :: nat) else c)"

definition toupper :: "char \<Rightarrow> char" where
  "toupper c = (if 97 \<le> (of_char c :: nat) \<and> (of_char c :: nat) \<le> 122
     then char_of (of_char c - 32 :: nat) else c)"

text \<open>The sign of \<^verbatim>\<open>strcmp\<close>: the first differing pair of unsigned characters decides.\<close>

fun strcmp :: "cstring \<Rightarrow> cstring \<Rightarrow> int" where
  "strcmp [] [] = 0"
| "strcmp [] (_ # _) = -1"
| "strcmp (_ # _) [] = 1"
| "strcmp (a # as) (b # bs) =
     (if (of_char a :: nat) < of_char b then -1
      else if (of_char b :: nat) < of_char a then 1
      else strcmp as bs)"

text \<open>\<^verbatim>\<open>strstr\<close>: the offset of the first occurrence.\<close>

fun prefix_of :: "cstring \<Rightarrow> cstring \<Rightarrow> bool" where
  "prefix_of [] ys = True"
| "prefix_of (x # xs) [] = False"
| "prefix_of (x # xs) (y # ys) = (x = y \<and> prefix_of xs ys)"

fun strstr :: "cstring \<Rightarrow> cstring \<Rightarrow> nat option" where
  "strstr [] needle = (if needle = [] then Some 0 else None)"
| "strstr (c # cs) needle =
     (if prefix_of needle (c # cs) then Some 0 else map_option Suc (strstr cs needle))"

section \<open>Construction and access\<close>

definition stringDuplicate :: "char list option \<Rightarrow> String" where
  "stringDuplicate s = (case s of None \<Rightarrow> None | Some cs \<Rightarrow> Some (cstr cs))"

definition String_default :: String where
  "String_default = None"

definition String_copy :: "String \<Rightarrow> String" where
  "String_copy s = stringDuplicate s"

definition String_of :: "char list option \<Rightarrow> String" where
  "String_of s = stringDuplicate s"

definition String_of_length :: "char list option \<Rightarrow> nat \<Rightarrow> String" where
  "String_of_length s n =
     (case s of None \<Rightarrow> None | Some cs \<Rightarrow> stringDuplicate (Some (take n cs)))"

definition String_of_cardinal :: "card32 \<Rightarrow> String" where
  "String_of_cardinal v = stringDuplicate (Some (dec_string (unat v)))"

text \<open>The assignment prints with \<^verbatim>\<open>%d\<close>, so it reads the value as a signed number.\<close>

definition String_assign_cardinal :: "String \<Rightarrow> card32 \<Rightarrow> String" where
  "String_assign_cardinal this v =
     stringDuplicate (Some
       (if sint v < 0 then CHR ''-'' # dec_string (nat (- sint v)) else dec_string (nat (sint v))))"

definition stringLength :: "String \<Rightarrow> nat" where
  "stringLength s = (case s of None \<Rightarrow> 0 | Some cs \<Rightarrow> length cs)"

definition isNull :: "String \<Rightarrow> bool" where
  "isNull s = (s = None)"

definition data_at :: "String \<Rightarrow> nat \<Rightarrow> char" where
  "data_at s i = (case s of None \<Rightarrow> NUL | Some cs \<Rightarrow> char_at cs i)"

definition stringCompare :: "String \<Rightarrow> String \<Rightarrow> int" where
  "stringCompare s t =
     (case s of
        None \<Rightarrow> (case t of None \<Rightarrow> 0 | Some _ \<Rightarrow> -1)
      | Some a \<Rightarrow> (case t of None \<Rightarrow> 1 | Some b \<Rightarrow> strcmp a b))"

definition String_eq :: "String \<Rightarrow> String \<Rightarrow> bool" where
  "String_eq s t = (stringCompare s t = 0)"

definition String_less :: "String \<Rightarrow> String \<Rightarrow> bool" where
  "String_less s t = (stringCompare s t < 0)"

definition String_less_eq :: "String \<Rightarrow> String \<Rightarrow> bool" where
  "String_less_eq s t = (stringCompare s t \<le> 0)"

section \<open>Searching\<close>

text \<open>The loop of \<^verbatim>\<open>index()\<close> from a position on: it compares before it tests for the end.\<close>

fun index_loop :: "char \<Rightarrow> nat \<Rightarrow> cstring \<Rightarrow> int" where
  "index_loop c pos [] = (if c = NUL then int pos else -1)"
| "index_loop c pos (d # ds) = (if d = c then int pos else index_loop c (Suc pos) ds)"

definition index :: "String \<Rightarrow> char \<Rightarrow> int" where
  "index s c = (case s of None \<Rightarrow> -1 | Some cs \<Rightarrow> index_loop c 0 cs)"

text \<open>The loop of \<^verbatim>\<open>rindex()\<close> starts at the terminator and counts down.\<close>

fun rindex_loop :: "char \<Rightarrow> cstring \<Rightarrow> nat \<Rightarrow> int" where
  "rindex_loop c cs 0 = (if char_at cs 0 = c then 0 else -1)"
| "rindex_loop c cs (Suc p) = (if char_at cs (Suc p) = c then int (Suc p) else rindex_loop c cs p)"

definition rindex :: "String \<Rightarrow> char \<Rightarrow> int" where
  "rindex s c = (case s of None \<Rightarrow> -1 | Some cs \<Rightarrow> rindex_loop c cs (length cs))"

definition sfind :: "String \<Rightarrow> String \<Rightarrow> int" where
  "sfind s t =
     (case s of
        None \<Rightarrow> -1
      | Some cs \<Rightarrow>
          (case t of
             None \<Rightarrow> -1
           | Some n \<Rightarrow> (case strstr cs n of None \<Rightarrow> -1 | Some p \<Rightarrow> int p)))"

section \<open>Parts and conversions\<close>

text \<open>Each fills a fresh buffer character by character, as the loops of the source do.\<close>

definition toLower :: "String \<Rightarrow> String" where
  "toLower s = String_of (Some (map (\<lambda>i. tolower (data_at s i)) [0..<stringLength s]))"

definition toUpper :: "String \<Rightarrow> String" where
  "toUpper s = String_of (Some (map (\<lambda>i. toupper (data_at s i)) [0..<stringLength s]))"

definition left :: "String \<Rightarrow> nat \<Rightarrow> String" where
  "left s maxChars =
     (let len = min (stringLength s) maxChars
      in String_of (Some (map (data_at s) [0..<len])))"

definition mid :: "String \<Rightarrow> nat \<Rightarrow> nat \<Rightarrow> String" where
  "mid s start maxChars =
     (let strlen = stringLength s
      in if strlen \<le> start then String_of (Some '''')
         else let len = min (strlen - start) maxChars
              in String_of (Some (map (\<lambda>i. data_at s (i + start)) [0..<len])))"

definition mid_from :: "String \<Rightarrow> nat \<Rightarrow> String" where
  "mid_from s start = mid s start 0xffffffff"

definition right :: "String \<Rightarrow> nat \<Rightarrow> String" where
  "right s maxChars =
     (let strlen = stringLength s; len = min strlen maxChars
      in String_of (Some (map (\<lambda>i. data_at s (strlen - len + i)) [0..<len])))"

text \<open>\<^verbatim>\<open>while((Data[i] == ' ') && (i < strlen)) i++;\<close>\<close>

fun skip_spaces :: "cstring \<Rightarrow> nat \<Rightarrow> nat" where
  "skip_spaces [] i = i"
| "skip_spaces (c # cs) i = (if c = CHR '' '' then skip_spaces cs (Suc i) else i)"

text \<open>\<^verbatim>\<open>while((j >= i) && (Data[j] == ' ')) j--;\<close> with \<open>k = j + 1\<close>.\<close>

fun skip_spaces_back :: "cstring \<Rightarrow> nat \<Rightarrow> nat \<Rightarrow> nat" where
  "skip_spaces_back cs i 0 = 0"
| "skip_spaces_back cs i (Suc k) =
     (if i \<le> k \<and> char_at cs k = CHR '' '' then skip_spaces_back cs i k else Suc k)"

text \<open>The first access to \<^verbatim>\<open>Data[0]\<close> is unguarded: a null string is dereferenced.\<close>

definition stripWhiteSpace :: "String \<Rightarrow> String result" where
  "stripWhiteSpace s =
     (case s of
        None \<Rightarrow> Inl BadPointer
      | Some cs \<Rightarrow>
          (let i = skip_spaces cs 0;
               k = skip_spaces_back cs i (length cs)
           in Inr (mid s i (cardinal_of_int (int k - int i)))))"

text \<open>
  \<^verbatim>\<open>scanSetting\<close> fills its two reference parameters, also when it then returns false.
\<close>

definition scanSetting :: "String \<Rightarrow> String \<Rightarrow> String \<Rightarrow> (bool \<times> String \<times> String) result" where
  "scanSetting this s1 s2 =
     (let found = index this (CHR ''='')
      in if found \<ge> 1 then
           andThen (stripWhiteSpace (left this (nat found))) (\<lambda>l.
           andThen (stripWhiteSpace
                (right this (cardinal_of_int (int (stringLength this) - found - 1)))) (\<lambda>s2.
           let s1 = toUpper l in
             if stringLength s1 > 0 \<and> stringLength s2 > 0 then
               let len = stringLength s2 in
                 if data_at s2 0 = CHR ''\"'' \<and> data_at s2 (len - 1) = CHR ''\"''
                 then Inr (True, s1, mid s2 1 (cardinal_of_int (int len - 2)))
                 else Inr (True, s1, s2)
             else Inr (False, s1, s2)))
         else Inr (False, s1, s2))"

definition String_plus :: "String \<Rightarrow> String \<Rightarrow> String" where
  "String_plus s t =
     String_of (Some ((case s of None \<Rightarrow> [] | Some cs \<Rightarrow> cs) @ (case t of None \<Rightarrow> [] | Some cs \<Rightarrow> cs)))"

section \<open>Well-formed strings\<close>

definition wf_String :: "String \<Rightarrow> bool" where
  "wf_String s = (case s of None \<Rightarrow> True | Some cs \<Rightarrow> NUL \<notin> set cs)"


definition chars :: "String \<Rightarrow> cstring" where
  "chars s = (case s of None \<Rightarrow> [] | Some cs \<Rightarrow> cs)"

lemma wf_String_simps [simp]:
  "wf_String None" "wf_String (Some cs) \<longleftrightarrow> NUL \<notin> set cs"
  by (simp_all add: wf_String_def)

lemma chars_simps [simp]: "chars None = []" "chars (Some cs) = cs"
  by (simp_all add: chars_def)

lemma cstr_id: "NUL \<notin> set cs \<Longrightarrow> cstr cs = cs"
  by (auto simp: cstr_def intro!: takeWhile_eq_all_conv [THEN iffD2])

lemma NUL_notin_cstr: "NUL \<notin> set (cstr cs)"
  by (auto simp: cstr_def dest: set_takeWhileD)

lemma String_of_wf: "NUL \<notin> set cs \<Longrightarrow> String_of (Some cs) = Some cs"
  by (simp add: String_of_def stringDuplicate_def cstr_id)

lemma wf_String_of [simp]: "wf_String (String_of s)"
  by (cases s) (simp_all add: String_of_def stringDuplicate_def NUL_notin_cstr)

lemma stringLength_chars: "stringLength s = length (chars s)"
  by (cases s) (simp_all add: stringLength_def)

lemma data_at_chars: "i < length (chars s) \<Longrightarrow> data_at s i = chars s ! i"
  by (cases s) (simp_all add: data_at_def char_at_def)

lemma map_data_at:
  assumes "k + n \<le> length (chars s)"
  shows "map (\<lambda>i. data_at s (i + k)) [0..<n] = take n (drop k (chars s))"
  using assms by (intro nth_equalityI) (auto simp: data_at_chars add.commute)

lemma wf_chars: "wf_String s \<Longrightarrow> NUL \<notin> set (chars s)"
  by (cases s) simp_all

lemma mid_eq:
  assumes "wf_String s"
  shows "mid s start n = Some (take n (drop start (chars s)))"
proof (cases "length (chars s) \<le> start")
  case True
  then show ?thesis by (simp add: mid_def stringLength_chars String_of_wf)
next
  case False
  let ?len = "min (length (chars s) - start) n"
  have "NUL \<notin> set (take ?len (drop start (chars s)))"
    using wf_chars [OF assms] by (meson in_set_dropD in_set_takeD)
  moreover have "take ?len (drop start (chars s)) = take n (drop start (chars s))"
    by (simp add: min_def)
  ultimately show ?thesis
    using False map_data_at [of start ?len s]
    by (simp add: mid_def stringLength_chars String_of_wf Let_def)
qed

lemma left_eq:
  assumes "wf_String s"
  shows "left s n = Some (take n (chars s))"
proof -
  have "map (data_at s) [0..<min (length (chars s)) n] = take n (chars s)"
    using map_data_at [of 0 "min (length (chars s)) n" s] by (simp add: min_def)
  moreover have "NUL \<notin> set (take n (chars s))"
    using wf_chars [OF assms] by (meson in_set_takeD)
  ultimately show ?thesis
    by (simp add: left_def stringLength_chars String_of_wf)
qed

lemma right_eq:
  assumes "wf_String s"
  shows "right s n = Some (drop (length (chars s) - n) (chars s))"
proof -
  let ?l = "length (chars s)" and ?n = "min (length (chars s)) n"
  have "map (\<lambda>i. data_at s (?l - ?n + i)) [0..<?n] = drop (?l - ?n) (chars s)"
    using map_data_at [of "?l - ?n" ?n s] by (simp add: add.commute)
  moreover have "NUL \<notin> set (drop (?l - n) (chars s))"
    using wf_chars [OF assms] by (meson in_set_dropD)
  moreover have "?l - ?n = ?l - n" by simp
  ultimately show ?thesis
    unfolding right_def Let_def stringLength_chars by (simp only: String_of_wf not_False_eq_True)
qed

section \<open>Searching finds the first and the last occurrence\<close>

lemma index_loop_notin: "c \<noteq> NUL \<Longrightarrow> c \<notin> set cs \<Longrightarrow> index_loop c pos cs = -1"
  by (induction cs arbitrary: pos) auto

lemma index_loop_append:
  "c \<notin> set xs \<Longrightarrow> index_loop c pos (xs @ c # ys) = int (pos + length xs)"
  by (induction xs arbitrary: pos) auto

lemma index_eq_first:
  "c \<notin> set xs \<Longrightarrow> index (Some (xs @ c # ys)) c = int (length xs)"
  using index_loop_append [of c xs 0 ys] by (simp add: index_def)

lemma index_loop_cases:
  "index_loop c pos cs \<noteq> -1 \<Longrightarrow> c \<noteq> NUL \<Longrightarrow>
   \<exists>xs ys. cs = xs @ c # ys \<and> c \<notin> set xs \<and> index_loop c pos cs = int (pos + length xs)"
proof (induction cs arbitrary: pos)
  case Nil
  then show ?case by simp
next
  case (Cons d ds)
  show ?case
  proof (cases "d = c")
    case True
    then show ?thesis by (intro exI [of _ "[]"] exI [of _ ds]) simp
  next
    case False
    with Cons.prems have "index_loop c (Suc pos) ds \<noteq> -1" by simp
    from Cons.IH [OF this Cons.prems(2)] obtain xs ys
      where "ds = xs @ c # ys" "c \<notin> set xs" "index_loop c (Suc pos) ds = int (Suc pos + length xs)"
      by blast
    with False show ?thesis by (intro exI [of _ "d # xs"] exI [of _ ys]) simp
  qed
qed

lemma rindex_loop_append:
  assumes "c \<noteq> NUL" "c \<notin> set ys" "length xs \<le> p" "p \<le> length (xs @ c # ys)"
  shows "rindex_loop c (xs @ c # ys) p = int (length xs)"
  using assms(3,4)
proof (induction p)
  case 0
  then show ?case by (simp add: char_at_def)
next
  case (Suc p)
  show ?case
  proof (cases "length xs = Suc p")
    case True
    then show ?thesis by (simp add: char_at_def nth_append)
  next
    case False
    with Suc.prems have le: "length xs \<le> p" by simp
    have "char_at (xs @ c # ys) (Suc p) \<noteq> c"
      using assms(1,2) le by (auto simp: char_at_def nth_append nth_Cons' dest: nth_mem)
    with Suc le show ?thesis by simp
  qed
qed

lemma rindex_eq_last:
  "c \<noteq> NUL \<Longrightarrow> c \<notin> set ys \<Longrightarrow> rindex (Some (xs @ c # ys)) c = int (length xs)"
  using rindex_loop_append [of c ys xs "length (xs @ c # ys)"] by (simp add: rindex_def)

lemma rindex_loop_notin:
  "c \<noteq> NUL \<Longrightarrow> c \<notin> set cs \<Longrightarrow> rindex_loop c cs p = -1"
  by (induction p) (auto simp: char_at_def dest: nth_mem)

lemma rindex_notin: "c \<noteq> NUL \<Longrightarrow> c \<notin> set cs \<Longrightarrow> rindex (Some cs) c = -1"
  by (simp add: rindex_def rindex_loop_notin)

section \<open>Removing white space\<close>

abbreviation is_space :: "char \<Rightarrow> bool" where
  "is_space c \<equiv> c = CHR '' ''"

definition trim :: "cstring \<Rightarrow> cstring" where
  "trim cs = rev (dropWhile is_space (rev (dropWhile is_space cs)))"

lemma cardinal_of_int_diff:
  "i \<le> k \<Longrightarrow> k < 2 ^ 32 \<Longrightarrow> cardinal_of_int (int k - int i) = k - i"
  by (simp add: cardinal_of_int_def flip: of_nat_diff)

lemma skip_spaces_eq: "skip_spaces cs i = i + length (takeWhile is_space cs)"
  by (induction cs arbitrary: i) auto

lemma skip_spaces_back_eq:
  assumes "i \<le> k" "k \<le> length cs"
  shows "skip_spaces_back cs i k
    = i + length (dropWhile is_space (rev (take (k - i) (drop i cs))))"
  using assms
proof (induction k)
  case 0
  then show ?case by simp
next
  case (Suc k)
  show ?case
  proof (cases "i = Suc k")
    case True
    then show ?thesis by simp
  next
    case False
    with Suc.prems have ik: "i \<le> k" "k < length cs" by simp_all
    then have "take (Suc k - i) (drop i cs) = take (k - i) (drop i cs) @ [cs ! k]"
      by (simp add: Suc_diff_le take_Suc_conv_app_nth)
    with Suc.IH ik show ?thesis by (simp add: char_at_def)
  qed
qed

lemma take_length_trim: "take (length (dropWhile P (rev xs))) xs = rev (dropWhile P (rev xs))"
proof -
  have "xs = rev (dropWhile P (rev xs)) @ rev (takeWhile P (rev xs))"
    by (metis rev_append rev_rev_ident takeWhile_dropWhile_id)
  then show ?thesis
    by (metis append_eq_conv_conj length_rev)
qed

lemma stripWhiteSpace_trim:
  assumes "NUL \<notin> set cs" "length cs < 2 ^ 32"
  shows "stripWhiteSpace (Some cs) = Inr (Some (trim cs))"
proof -
  let ?i = "length (takeWhile is_space cs)" and ?ds = "dropWhile is_space cs"
  let ?t = "length (dropWhile is_space (rev ?ds))"
  have i: "skip_spaces cs 0 = ?i" by (simp add: skip_spaces_eq)
  have ds: "drop ?i cs = ?ds" by (simp add: dropWhile_eq_drop)
  have le: "?i \<le> length cs" by (rule length_takeWhile_le)
  have t: "?t \<le> length ?ds" using length_dropWhile_le [of is_space "rev ?ds"] by simp
  have len: "length ?ds = length cs - ?i" by (metis ds length_drop)
  have k: "skip_spaces_back cs ?i (length cs) = ?i + ?t"
    using skip_spaces_back_eq [OF le order_refl] by (simp add: ds flip: len)
  have "cardinal_of_int (int (?i + ?t) - int ?i) = ?t"
    using cardinal_of_int_diff [of ?i "?i + ?t"] t le len assms(2) by linarith
  with i k assms(1) ds show ?thesis
    by (simp add: stripWhiteSpace_def Let_def mid_eq trim_def take_length_trim)
qed

lemma trim_decomp: "\<exists>n m. cs = replicate n (CHR '' '') @ trim cs @ replicate m (CHR '' '')"
proof -
  let ?ds = "dropWhile is_space cs"
  have rep: "takeWhile is_space xs = replicate (length (takeWhile is_space xs)) (CHR '' '')" for xs
    by (rule replicate_length_same [symmetric]) (auto dest: set_takeWhileD)
  let ?n = "length (takeWhile is_space cs)" and ?m = "length (takeWhile is_space (rev ?ds))"
  have "cs = takeWhile is_space cs @ ?ds" by simp
  also have "takeWhile is_space cs = replicate ?n (CHR '' '')" by (rule rep)
  also have "?ds = trim cs @ rev (takeWhile is_space (rev ?ds))"
    unfolding trim_def by (metis rev_append rev_rev_ident takeWhile_dropWhile_id)
  also have "rev (takeWhile is_space (rev ?ds)) = replicate ?m (CHR '' '')"
    by (subst rep) (rule rev_replicate)
  finally show ?thesis by blast
qed

lemma trim_ends: "trim cs \<noteq> [] \<Longrightarrow> hd (trim cs) \<noteq> CHR '' '' \<and> last (trim cs) \<noteq> CHR '' ''"
proof -
  assume ne: "trim cs \<noteq> []"
  let ?ds = "dropWhile is_space cs"
  have ds: "?ds = trim cs @ rev (takeWhile is_space (rev ?ds))"
    unfolding trim_def by (metis rev_append rev_rev_ident takeWhile_dropWhile_id)
  with ne have "hd (trim cs) = hd ?ds" "?ds \<noteq> []" by (metis hd_append2, force)
  moreover have "last (trim cs) = hd (dropWhile is_space (rev ?ds))"
    using ne by (simp add: trim_def last_rev)
  ultimately show ?thesis
    using ne hd_dropWhile [of is_space cs] hd_dropWhile [of is_space "rev ?ds"]
    by (auto simp: trim_def)
qed

lemma trim_id: "cs \<noteq> [] \<Longrightarrow> hd cs \<noteq> CHR '' '' \<Longrightarrow> last cs \<noteq> CHR '' '' \<Longrightarrow> trim cs = cs"
  by (simp add: trim_def dropWhile_eq_self_iff [THEN iffD2] hd_rev)

lemma set_trim: "set (trim cs) \<subseteq> set cs"
  by (auto simp: trim_def dest!: set_dropWhileD)

section \<open>Case conversion and concatenation\<close>

lemma of_char_less_256: "(of_char c :: nat) < 256"
  by simp

lemma toupper_NUL: "toupper c = NUL \<longleftrightarrow> c = NUL"
proof
  assume "toupper c = NUL"
  then have "(of_char (toupper c) :: nat) = 0" by simp
  then have "(of_char c :: nat) = 0"
    by (auto simp: toupper_def of_char_of split: if_splits)
  then have "(of_char c :: nat) = of_char NUL" by simp
  then show "c = NUL" by (simp only: of_char_eq_iff)
qed (simp add: toupper_def)

lemma tolower_NUL: "tolower c = NUL \<longleftrightarrow> c = NUL"
proof
  assume "tolower c = NUL"
  then have "(of_char (tolower c) :: nat) = 0" by simp
  then have "(of_char c :: nat) = 0"
    by (auto simp: tolower_def of_char_of split: if_splits)
  then have "(of_char c :: nat) = of_char NUL" by simp
  then show "c = NUL" by (simp only: of_char_eq_iff)
qed (simp add: tolower_def)

lemma map_upt_data_at: "map (\<lambda>i. f (data_at s i)) [0..<length (chars s)] = map f (chars s)"
  by (intro nth_equalityI) (simp_all add: data_at_chars)

lemma toUpper_eq:
  assumes "wf_String s"
  shows "toUpper s = Some (map toupper (chars s))"
proof -
  have "NUL \<notin> set (map toupper (chars s))"
    using wf_chars [OF assms] by (auto simp: image_iff eq_commute [of NUL] toupper_NUL)
  then show ?thesis
    by (simp only: toUpper_def stringLength_chars map_upt_data_at String_of_wf not_False_eq_True)
qed

lemma toLower_eq:
  assumes "wf_String s"
  shows "toLower s = Some (map tolower (chars s))"
proof -
  have "NUL \<notin> set (map tolower (chars s))"
    using wf_chars [OF assms] by (auto simp: image_iff eq_commute [of NUL] tolower_NUL)
  then show ?thesis
    by (simp only: toLower_def stringLength_chars map_upt_data_at String_of_wf not_False_eq_True)
qed

lemma tolower_idem: "tolower (tolower c) = tolower c"
  by (auto simp: tolower_def of_char_of)

lemma String_plus_eq:
  "wf_String s \<Longrightarrow> wf_String t \<Longrightarrow> String_plus s t = Some (chars s @ chars t)"
  by (simp add: String_plus_def String_of_wf wf_chars flip: chars_def)

section \<open>The comparison operators are a linear order\<close>

lemma strcmp_eq_0_iff: "strcmp a b = 0 \<longleftrightarrow> a = b"
  by (induction a b rule: strcmp.induct)
    (auto simp: not_less_iff_gr_or_eq dest: order.antisym [THEN of_char_eq_iff [THEN iffD1]])

lemma strcmp_flip: "strcmp b a = - strcmp a b"
  by (induction a b rule: strcmp.induct) auto

lemma strcmp_range: "strcmp a b \<in> {-1, 0, 1}"
  by (induction a b rule: strcmp.induct) auto

lemma strcmp_Cons_neg:
  "strcmp (a # as) (b # bs) < 0 \<longleftrightarrow>
   (of_char a :: nat) < of_char b \<or> (of_char a :: nat) = of_char b \<and> strcmp as bs < 0"
  by (simp only: strcmp.simps) (auto simp del: of_char_eq_iff)

lemma strcmp_trans: "strcmp a b < 0 \<Longrightarrow> strcmp b c < 0 \<Longrightarrow> strcmp a c < 0"
proof (induction a b arbitrary: c rule: strcmp.induct)
  case (2 b bs)
  then show ?case by (cases c) simp_all
next
  case (4 a as b bs)
  show ?case
  proof (cases c)
    case Nil
    with "4.prems" show ?thesis by simp
  next
    case (Cons d ds)
    note * = "4.prems" [unfolded Cons strcmp_Cons_neg]
    show ?thesis
      using * "4.IH" [of ds] unfolding Cons strcmp_Cons_neg by linarith
  qed
qed simp_all

interpretation cstring_cmp: comparison strcmp
  by unfold_locales (rule strcmp_eq_0_iff, rule strcmp_flip, rule strcmp_trans)

interpretation String_cmp: comparison stringCompare
proof unfold_locales
  fix a b c :: String
  show "stringCompare a b = 0 \<longleftrightarrow> a = b"
    by (simp add: stringCompare_def strcmp_eq_0_iff split: option.splits)
  show "stringCompare b a = - stringCompare a b"
    using cstring_cmp.cmp_flip [of "the b" "the a"]
    by (cases a; cases b) (simp_all add: stringCompare_def)
  show "stringCompare a b < 0 \<Longrightarrow> stringCompare b c < 0 \<Longrightarrow> stringCompare a c < 0"
    by (auto simp: stringCompare_def split: option.splits dest: cstring_cmp.cmp_trans)
qed

section \<open>Properties\<close>

text \<open>
  Comparison operators of \<^verbatim>\<open>String\<close>: \<open>==\<close> is equality of the represented strings, and
  \<open><\<close> with \<open><=\<close> is a linear order on all strings, the null string included.
\<close>

theorem String_linear_order:
  "(String_eq s t \<longleftrightarrow> s = t) \<and>
   (String_less s t \<or> String_eq s t \<or> String_less t s) \<and>
   (String_less_eq s t \<longleftrightarrow> String_less s t \<or> String_eq s t) \<and>
   (String_less s t \<longrightarrow> \<not> String_less t s) \<and>
   (String_less s t \<and> String_less t u \<longrightarrow> String_less s u)"
  unfolding String_eq_def String_less_def String_less_eq_def
  using String_cmp.cmp_total String_cmp.cmp_asym String_cmp.cmp_trans String_cmp.cmp_le_iff
    String_cmp.cmp_zero by blast

theorem String_linear_order_witness:
  "String_less None (Some ''a'') \<and> String_less (Some ''a'') (Some ''ab'') \<and>
   String_less None (Some ''ab'') \<and> \<not> String_less (Some ''a'') None"
  using String_linear_order [of None "Some ''a''" "Some ''ab''"]
  by (simp add: String_less_def String_eq_def stringCompare_def)

text \<open>
  \<^verbatim>\<open>stripWhiteSpace\<close> on a non-null string removes exactly the blanks at both ends, and
  never one inside: the result starts and ends with a non-blank (or is empty) and the
  argument is the result between two runs of blanks.
\<close>

theorem stripWhiteSpace_correct:
  assumes "NUL \<notin> set cs" "length cs < 2 ^ 32"
  shows "\<exists>t n m. stripWhiteSpace (Some cs) = Inr (Some t) \<and>
    cs = replicate n (CHR '' '') @ t @ replicate m (CHR '' '') \<and>
    (t = [] \<or> hd t \<noteq> CHR '' '' \<and> last t \<noteq> CHR '' '')"
  using stripWhiteSpace_trim [OF assms] trim_decomp [of cs] trim_ends [of cs] by blast

theorem stripWhiteSpace_correct_witness:
  "stripWhiteSpace (Some ''  a b '') = Inr (Some ''a b'') \<and>
   (\<exists>t n m. stripWhiteSpace (Some ''  a b '') = Inr (Some t) \<and>
    ''  a b '' = replicate n (CHR '' '') @ t @ replicate m (CHR '' '') \<and>
    (t = [] \<or> hd t \<noteq> CHR '' '' \<and> last t \<noteq> CHR '' ''))"
  by (intro conjI stripWhiteSpace_correct) (simp_all add: stripWhiteSpace_trim trim_def)

lemma mid_unquote:
  assumes "wf_String (Some t)" "t \<noteq> []" "length t < 2 ^ 32"
  shows "mid (Some t) 1 (cardinal_of_int (int (length t) - 2)) = Some (butlast (tl t))"
proof (cases "length t = 1")
  case True
  then have "tl t = []" by (cases t) simp_all
  with True assms(1) show ?thesis by (simp add: mid_eq drop_Suc)
next
  case False
  with assms(2) have "2 \<le> length t" by (cases t) (auto simp: Suc_le_eq)
  with assms(3) have "cardinal_of_int (int (length t) - 2) = length t - 2"
    using cardinal_of_int_diff [of 2 "length t"] by simp
  with assms(1) show ?thesis
    by (simp add: mid_eq drop_Suc butlast_conv_take numeral_2_eq_2)
qed

text \<open>
  \<^verbatim>\<open>scanSetting\<close> on \<open>key=value\<close> (split at the first \<open>=\<close>): the name is stripped and
  upper-cased, the value stripped and, if it is enclosed in double quotes, unquoted; the
  call succeeds exactly if both are non-empty.
\<close>

theorem scanSetting_correct:
  assumes "NUL \<notin> set k" "NUL \<notin> set v" "CHR ''='' \<notin> set k" "k \<noteq> []"
    and "length k + length v + 1 < 2 ^ 32"
  shows "scanSetting (Some (k @ CHR ''='' # v)) s1 s2 =
    Inr (trim k \<noteq> [] \<and> trim v \<noteq> [], Some (map toupper (trim k)),
         Some (if trim k \<noteq> [] \<and> trim v \<noteq> [] \<and> hd (trim v) = CHR ''\"'' \<and> last (trim v) = CHR ''\"''
               then butlast (tl (trim v)) else trim v))"
proof -
  let ?s = "Some (k @ CHR ''='' # v)"
  have idx: "index ?s (CHR ''='') = int (length k)" using assms(3) by (rule index_eq_first)
  have wf: "wf_String ?s" using assms(1,2) by simp
  have l: "left ?s (length k) = Some k" by (simp add: left_eq [OF wf])
  have c: "cardinal_of_int (int (stringLength ?s) - int (length k) - 1) = length v"
    using assms(5) by (simp add: stringLength_def cardinal_of_int_def)
  have r: "right ?s (length v) = Some v" by (simp add: right_eq [OF wf])
  have lv: "length (trim v) \<le> length v"
    using length_dropWhile_le [of is_space v]
      length_dropWhile_le [of is_space "rev (dropWhile is_space v)"] by (simp add: trim_def)
  have wt: "NUL \<notin> set (trim k)" "NUL \<notin> set (trim v)" using assms(1,2) set_trim by blast+
  have q: "trim v \<noteq> [] \<Longrightarrow> mid (Some (trim v)) 1 (cardinal_of_int (int (length (trim v)) - 2))
      = Some (butlast (tl (trim v)))"
    using wt(2) lv assms(5) by (intro mid_unquote) simp_all
  have e: "data_at (Some (trim v)) 0 = hd (trim v)"
    "data_at (Some (trim v)) (length (trim v) - Suc 0) = last (trim v)" if "trim v \<noteq> []"
    using that by (simp_all add: data_at_def char_at_def hd_conv_nth last_conv_nth)
  have "1 \<le> length k" using assms(4) by (simp add: Suc_le_eq)
  then show ?thesis
    unfolding scanSetting_def Let_def idx nat_int l c r
    using assms(1,2,5) wt q e
    by (simp add: stripWhiteSpace_trim toUpper_eq stringLength_def)
qed

theorem scanSetting_correct_witness:
  "scanSetting (Some (''port '' @ CHR ''='' # '' \"80\"'')) None None
     = Inr (True, Some ''PORT'', Some ''80'')"
proof -
  have "map toupper ''port'' = ''PORT''" by code_simp
  then show ?thesis
    using scanSetting_correct [of "''port ''" "'' \"80\"''" None None] by (simp add: trim_def)
qed

end
