(* ===== verification/Tools.thy ===== *)
theory Tools
  imports TDStrings
begin

text \<open>
  The helpers of \<^verbatim>\<open>socketapi/tools.{icc,cc}\<close>: byte-order translation (the shift and mask
  versions for a little-endian host, which is the host the development models),
  \<^verbatim>\<open>scanURL\<close>, and \<^verbatim>\<open>removeDuplicates\<close> on arrays.
\<close>

section \<open>Byte order\<close>

definition translate16 :: "card16 \<Rightarrow> card16" where
  "translate16 x = push_bit 8 x OR drop_bit 8 x"

definition translate32 :: "card32 \<Rightarrow> card32" where
  "translate32 x =
     push_bit 24 x OR push_bit 8 (x AND 0x0000ff00) OR drop_bit 8 (x AND 0x00ff0000) OR drop_bit 24 x"

definition translate64 :: "card64 \<Rightarrow> card64" where
  "translate64 x =
     (let a = (ucast (drop_bit 32 x) :: card32);
          b = (ucast (x AND 0xffffffff) :: card32)
      in (ucast (push_bit 24 a OR push_bit 8 (a AND 0x0000ff00) OR
                 drop_bit 8 (a AND 0x00ff0000) OR drop_bit 24 a) :: card64) OR
         push_bit 32 (ucast (push_bit 24 b OR push_bit 8 (b AND 0x0000ff00) OR
                             drop_bit 8 (b AND 0x00ff0000) OR drop_bit 24 b) :: card64))"

text \<open>\<^verbatim>\<open>htons\<close>, \<^verbatim>\<open>ntohs\<close>, \<^verbatim>\<open>htonl\<close> and \<^verbatim>\<open>ntohl\<close> of a little-endian host.\<close>

abbreviation ntohs :: "card16 \<Rightarrow> card16" where "ntohs \<equiv> translate16"
abbreviation htons :: "card16 \<Rightarrow> card16" where "htons \<equiv> translate16"
abbreviation ntohl :: "card32 \<Rightarrow> card32" where "ntohl \<equiv> translate32"

section \<open>URLs\<close>

text \<open>The result is the return value with the three reference parameters.\<close>

definition scanURL ::
  "String \<Rightarrow> String \<Rightarrow> String \<Rightarrow> String \<Rightarrow> bool \<times> String \<times> String \<times> String" where
  "scanURL location protocol host path =
     (let p1 = sfind location (Some ''://'')
      in if p1 < 0 \<and> isNull protocol then (False, protocol, host, path)
         else
           let protocol = (if p1 < 0 then protocol else left location (nat p1));
               url = mid_from location (if p1 < 0 then 0 else nat (p1 + 3));
               p2 = index url (CHR ''/'')
           in if p2 < 0 then (False, protocol, host, path)
              else
                let host = left url (nat p2);
                    path = mid_from url (nat (p2 + 1))
                in (True, toLower protocol, toLower host, path))"

section \<open>Removing duplicates from an array\<close>

text \<open>
  The loop of \<^verbatim>\<open>removeDuplicates\<close>: \<open>i\<close> reads, \<open>counter\<close> is the last kept position.
\<close>

function removeDuplicates_loop :: "'a list \<Rightarrow> nat \<Rightarrow> nat \<Rightarrow> nat \<Rightarrow> 'a list \<times> nat" where
  "removeDuplicates_loop array len i counter =
     (if i < len then
        if array ! counter \<noteq> array ! i
        then removeDuplicates_loop (array[Suc counter := array ! i]) len (Suc i) (Suc counter)
        else removeDuplicates_loop array len (Suc i) counter
      else (array, counter))"
  by pat_completeness auto
termination
  by (relation "measure (\<lambda>(array, len, i, counter). len - i)") auto

declare removeDuplicates_loop.simps [simp del]

definition removeDuplicates :: "'a list \<Rightarrow> nat \<Rightarrow> 'a list \<times> nat" where
  "removeDuplicates array len =
     (if len \<le> 1 then (array, len)
      else let (array, counter) = removeDuplicates_loop array len 1 0 in (array, Suc counter))"

section \<open>Translating the byte order twice gives the value back\<close>

locale byte_order =
  fixes translate :: "'a::len word \<Rightarrow> 'a word"
  assumes involution: "translate (translate x) = x"
begin

lemma inj: "translate x = translate y \<longleftrightarrow> x = y"
  by (metis involution)

lemma eq_swap: "translate x = y \<longleftrightarrow> x = translate y"
  by (metis involution)

end

lemma bit_translate16:
  "bit (translate16 x) n \<longleftrightarrow> n < 16 \<and> bit x (if n < 8 then n + 8 else n - 8)"
  by (auto simp: translate16_def bit_simps add.commute dest: bit_imp_le_length)

lemma translate16_involution: "translate16 (translate16 x) = x"
  by (rule bit_word_eqI) (auto simp: bit_translate16)

interpretation order16: byte_order translate16
  by unfold_locales (rule translate16_involution)

text \<open>Byte \<open>k\<close> of the result is byte \<open>3 - k\<close> of the argument.\<close>

lemma mask32_bytes:
  "(0x0000ff00 :: card32) = push_bit 8 (mask 8)" "(0x00ff0000 :: card32) = push_bit 16 (mask 8)"
  by (simp_all add: mask_eq_exp_minus_1 push_bit_eq_mult)

lemma bit_translate32:
  "bit (translate32 x) n \<longleftrightarrow> n < 32 \<and>
     bit x (if n < 8 then n + 24 else if n < 16 then n + 8 else if n < 24 then n - 8 else n - 24)"
  unfolding translate32_def mask32_bytes
  by (auto simp: bit_simps add.commute dest: bit_imp_le_length)

lemma translate32_involution: "translate32 (translate32 x) = x"
  by (rule bit_word_eqI) (auto simp: bit_translate32)

interpretation order32: byte_order translate32
  by unfold_locales (rule translate32_involution)

lemma translate64_halves:
  "translate64 x =
     ucast (translate32 (ucast (drop_bit 32 x))) OR
     push_bit 32 (ucast (translate32 (ucast (x AND mask 32))))"
proof -
  have "(0xffffffff :: card64) = mask 32" by (simp add: mask_eq_exp_minus_1)
  then show ?thesis by (simp add: translate64_def translate32_def Let_def)
qed

lemma bit_translate64:
  "bit (translate64 x) n \<longleftrightarrow> n < 64 \<and>
     (if n < 32 then bit (translate32 (ucast (drop_bit 32 x))) n
      else bit (translate32 (ucast x)) (n - 32))"
  unfolding translate64_halves
  by (auto simp: bit_simps bit_translate32 dest: bit_imp_le_length split: if_splits)

lemma translate64_involution: "translate64 (translate64 x) = x"
proof (rule bit_word_eqI)
  fix n assume n: "n < LENGTH(64)"
  have lo: "ucast (translate64 x) = translate32 (ucast (drop_bit 32 x))"
    by (rule bit_word_eqI) (simp add: bit_simps bit_translate64)
  have hi: "ucast (drop_bit 32 (translate64 x)) = translate32 (ucast x)"
    by (rule bit_word_eqI) (simp add: bit_simps bit_translate64 add.commute)
  show "bit (translate64 (translate64 x)) n = bit x n"
    using n unfolding bit_translate64 [of "translate64 x"] lo hi
    by (auto simp: order32.involution bit_simps)
qed

interpretation order64: byte_order translate64
  by unfold_locales (rule translate64_involution)

section \<open>URLs come apart at their separators\<close>

lemma prefix_of_append: "prefix_of xs (xs @ ys)"
  by (induction xs) auto

lemma strstr_first:
  "c \<notin> set xs \<Longrightarrow> strstr (xs @ c # needle @ ys) (c # needle) = Some (length xs)"
  by (induction xs) (simp_all add: prefix_of_append)

lemma mid_from_eq:
  "wf_String s \<Longrightarrow> length (chars s) < 2 ^ 32 \<Longrightarrow> mid_from s n = Some (drop n (chars s))"
  by (simp add: mid_from_def mid_eq)

section \<open>The kept positions hold the list without adjacent duplicates\<close>

lemma remdups_adj_snoc:
  "xs \<noteq> [] \<Longrightarrow> remdups_adj (xs @ [y]) = remdups_adj xs @ (if last xs = y then [] else [y])"
  by (cases xs rule: rev_cases) (auto simp: remdups_adj_append_two)

lemma removeDuplicates_loop_inv:
  assumes "counter < i" "i \<le> len" "len \<le> length array" "length array = length a0"
    and "take (Suc counter) array = remdups_adj (take i a0)"
    and "\<forall>j. i \<le> j \<and> j < len \<longrightarrow> array ! j = a0 ! j"
    and "removeDuplicates_loop array len i counter = (array', counter')"
  shows "take (Suc counter') array' = remdups_adj (take len a0) \<and>
    length array' = length a0 \<and> counter' < len"
  using assms
proof (induction array len i counter rule: removeDuplicates_loop.induct)
  case (1 array len i counter)
  show ?case
  proof (cases "i < len")
    case False
    then have "array' = array" "counter' = counter"
      using "1.prems"(7) by (simp_all add: removeDuplicates_loop.simps [of array len i counter])
    with False "1.prems" show ?thesis by simp
  next
    case True
    let ?x = "array ! i"
    have x: "?x = a0 ! i" using "1.prems"(6) True by simp
    have ne: "take i a0 \<noteq> []" using "1.prems"(1,2,3,4) by auto
    have last: "last (take i a0) = array ! counter"
      using "1.prems"(1-5) ne by (metis (no_types, lifting) Suc_leD Suc_le_lessD last_remdups_adj
          last_snoc order.strict_trans2 take_Suc_conv_app_nth)
    have snoc: "take (Suc i) a0 = take i a0 @ [?x]"
      using "1.prems"(3,4) True by (simp add: take_Suc_conv_app_nth x)
    show ?thesis
    proof (cases "array ! counter \<noteq> ?x")
      case neq: True
      let ?a = "array[Suc counter := ?x]"
      have "take (Suc (Suc counter)) ?a = take (Suc counter) array @ [?x]"
        using "1.prems"(1,2,3) True by (simp add: take_Suc_conv_app_nth)
      then have "take (Suc (Suc counter)) ?a = remdups_adj (take (Suc i) a0)"
        using "1.prems"(5) snoc ne last neq by (simp add: remdups_adj_snoc)
      then show ?thesis
        using "1.IH"(1) [OF True neq] "1.prems" True neq
        by (simp add: removeDuplicates_loop.simps [of array len i counter])
    next
      case eq: False
      have "take (Suc counter) array = remdups_adj (take (Suc i) a0)"
        using "1.prems"(5) snoc ne last eq by (simp add: remdups_adj_snoc)
      then show ?thesis
        using "1.IH"(2) [OF True] "1.prems" True eq
        by (simp add: removeDuplicates_loop.simps [of array len i counter])
    qed
  qed
qed

section \<open>Properties\<close>

lemma byte_bit_cases:
  fixes n :: nat
  obtains q r where "n = 8 * q + r" "r < 8" "n div 8 = q" "n mod 8 = r"
  using that [of "n div 8" "n mod 8"] by simp

lemma mirror16:
  assumes "n < 16"
  shows "8 * (1 - n div 8) + n mod 8 = (if n < 8 then n + 8 else n - (8::nat))"
proof -
  obtain q r where n: "n = 8 * q + r" "r < 8" "n div 8 = q" "n mod 8 = r"
    by (rule byte_bit_cases)
  with assms have "q = 0 \<or> q = 1" by linarith
  with n show ?thesis by (elim disjE) simp_all
qed

lemma mirror32:
  assumes "n < 32"
  shows "8 * (3 - n div 8) + n mod 8 =
     (if n < 8 then n + 24 else if n < 16 then n + 8 else if n < 24 then n - 8 else n - (24::nat))"
proof -
  obtain q r where n: "n = 8 * q + r" "r < 8" "n div 8 = q" "n mod 8 = r"
    by (rule byte_bit_cases)
  with assms have "q = 0 \<or> q = 1 \<or> q = 2 \<or> q = 3" by linarith
  with n show ?thesis by (elim disjE) simp_all
qed

lemma mirror64:
  assumes "n < 64"
  shows "8 * (7 - n div 8) + n mod 8 =
     (if n < 32 then 32 + (8 * (3 - n div 8) + n mod 8)
      else 8 * (3 - (n - 32) div 8) + (n - 32) mod (8::nat))"
proof (cases "n < 32")
  case True
  then have "n div 8 < 4" by (simp add: less_mult_imp_div_less)
  then have "7 - n div 8 = 4 + (3 - n div 8)" by linarith
  with True show ?thesis by simp
next
  case False
  then obtain m where n: "n = 32 + m" using le_Suc_ex [of 32 n] by auto
  then have "n div 8 = 4 + m div 8" "n mod 8 = m mod 8" by presburger+
  with n show ?thesis by simp
qed

lemma bit_translate16_mirror:
  "bit (translate16 x) n \<longleftrightarrow> n < 16 \<and> bit x (8 * (1 - n div 8) + n mod 8)"
  using mirror16 [of n] by (cases "n < 16") (simp_all only: bit_translate16 simp_thms)

lemma bit_translate32_mirror:
  "bit (translate32 y) n \<longleftrightarrow> n < 32 \<and> bit y (8 * (3 - n div 8) + n mod 8)"
  by (cases "n < 32") (simp_all add: bit_translate32 mirror32)

lemma bit_translate64_mirror:
  "bit (translate64 z) n \<longleftrightarrow> n < 64 \<and> bit z (8 * (7 - n div 8) + n mod 8)"
proof (cases "n < 64")
  case lt: True
  show ?thesis
  proof (cases "n < 32")
    case True
    have m: "8 * (7 - n div 8) + n mod 8 = 32 + (8 * (3 - n div 8) + n mod 8)"
      using mirror64 [OF lt] True by simp
    have "8 * (3 - n div 8) + n mod 8 < 32" by (cases n rule: byte_bit_cases) simp
    with True lt show ?thesis
      unfolding m by (simp add: bit_translate64 bit_translate32_mirror bit_simps)
  next
    case False
    have m: "8 * (7 - n div 8) + n mod 8 = 8 * (3 - (n - 32) div 8) + (n - 32) mod 8"
      using mirror64 [OF lt] False by simp
    have "8 * (3 - (n - 32) div 8) + (n - 32) mod 8 < 32"
      by (cases "n - 32" rule: byte_bit_cases) simp
    moreover have "n - 32 < 32" using lt by linarith
    ultimately show ?thesis
      unfolding m using False lt by (simp add: bit_translate64 bit_translate32_mirror bit_simps)
  qed
qed (simp add: bit_translate64)

text \<open>
  The byte-order translations of 16, 32 and 64 bits are involutions that move byte
  \<open>k\<close> to the mirrored position.
\<close>

theorem byte_order_translations:
  "translate16 (translate16 x) = x \<and> translate32 (translate32 y) = y \<and>
   translate64 (translate64 z) = z \<and>
   (bit (translate16 x) n \<longleftrightarrow> n < 16 \<and> bit x (8 * (1 - n div 8) + n mod 8)) \<and>
   (bit (translate32 y) n \<longleftrightarrow> n < 32 \<and> bit y (8 * (3 - n div 8) + n mod 8)) \<and>
   (bit (translate64 z) n \<longleftrightarrow> n < 64 \<and> bit z (8 * (7 - n div 8) + n mod 8))"
  by (intro conjI translate16_involution translate32_involution translate64_involution
      bit_translate16_mirror bit_translate32_mirror bit_translate64_mirror)

text \<open>
  \<^verbatim>\<open>scanURL\<close> takes \<open>protocol://host/path\<close> apart: the protocol is what stands before the
  first \<open>://\<close>, the host what stands between it and the next slash, both lower-cased; the
  path is the rest, unchanged.
\<close>

theorem scanURL_correct:
  assumes "NUL \<notin> set (p @ h @ f)" "CHR '':'' \<notin> set p" "CHR ''/'' \<notin> set h"
    and "length p + length h + length f + 4 < 2 ^ 32"
  shows "scanURL (Some (p @ ''://'' @ h @ ''/'' @ f)) protocol host path =
    (True, Some (map tolower p), Some (map tolower h), Some f)"
proof -
  let ?url = "Some (p @ ''://'' @ h @ ''/'' @ f)"
  have f: "sfind ?url (Some ''://'') = int (length p)"
    using strstr_first [OF assms(2), of "''//''" "h @ ''/'' @ f"] by (simp add: sfind_def)
  have wf: "wf_String ?url" "wf_String (Some (h @ ''/'' @ f))" using assms(1) by simp_all
  have l: "left ?url (length p) = Some p" using wf(1) by (simp add: left_eq)
  have m: "mid_from ?url (nat (int (length p) + 3)) = Some (h @ ''/'' @ f)"
    using assms(4) wf(1) by (simp add: mid_from_eq nat_add_distrib numeral_3_eq_3)
  have i: "index (Some (h @ ''/'' @ f)) (CHR ''/'') = int (length h)"
    using index_eq_first [OF assms(3), of f] by simp
  have l': "left (Some (h @ ''/'' @ f)) (length h) = Some h" using wf(2) by (simp add: left_eq)
  have m': "mid_from (Some (h @ ''/'' @ f)) (nat (int (length h) + 1)) = Some f"
    using assms(4) wf(2) by (simp add: mid_from_eq nat_add_distrib)
  have "wf_String (Some p)" "wf_String (Some h)" using assms(1) by simp_all
  then show ?thesis
    using f l m i l' m' by (simp add: scanURL_def Let_def toLower_eq)
qed

theorem scanURL_correct_witness:
  "scanURL (Some ''HTTP://Host/a/B'') None None None = (True, Some ''http'', Some ''host'', Some ''a/B'')"
proof -
  have "map tolower ''HTTP'' = ''http''" "map tolower ''Host'' = ''host''" by code_simp+
  then show ?thesis
    using scanURL_correct [of "''HTTP''" "''Host''" "''a/B''" None None None] by simp
qed

text \<open>
  \<^verbatim>\<open>removeDuplicates\<close> returns how many elements remain, and these are, in order, the
  given ones without adjacent repetitions; the array keeps its size.
\<close>

theorem removeDuplicates_correct:
  assumes "len \<le> length array" "removeDuplicates array len = (array', n)"
  shows "take n array' = remdups_adj (take len array) \<and> n \<le> len \<and> length array' = length array"
proof (cases "len \<le> 1")
  case True
  then have "remdups_adj (take len array) = take len array"
    by (cases array; cases len) (auto simp: take_Cons')
  with True assms show ?thesis by (simp add: removeDuplicates_def)
next
  case False
  then obtain c where c: "removeDuplicates_loop array len 1 0 = (array', c)" "n = Suc c"
    using assms(2) by (auto simp: removeDuplicates_def split: prod.splits)
  have "take (Suc 0) array = remdups_adj (take 1 array)"
    using False assms(1) by (cases array) auto
  then show ?thesis
    using removeDuplicates_loop_inv [OF _ _ _ _ _ _ c(1), of array] False assms(1) c(2)
    by auto
qed

theorem removeDuplicates_correct_witness:
  "removeDuplicates [1, 1, 2, 2, 1 :: nat] 5 = ([1, 2, 1, 2, 1], 3) \<and>
   take 3 [1, 2, 1, 2, 1 :: nat] = remdups_adj (take 5 [1, 1, 2, 2, 1])"
proof -
  have r: "removeDuplicates [1, 1, 2, 2, 1 :: nat] 5 = ([1, 2, 1, 2, 1], 3)"
    by (simp add: removeDuplicates_def removeDuplicates_loop.simps)
  then show ?thesis
    using removeDuplicates_correct [of 5 "[1, 1, 2, 2, 1 :: nat]", OF _ r] by simp
qed

end
