(* ===== verification/InternetAddresses.thy ===== *)
theory InternetAddresses
  imports Tools
begin

text \<open>
  The class \<^verbatim>\<open>InternetAddress\<close> of \<^verbatim>\<open>socketapi/internetaddress.{h,icc,cc}\<close>. An address is its
  eight 16-bit words and its port as they lie in memory, that is in network byte order;
  the host is little-endian, so \<^verbatim>\<open>ntohs\<close> is \<^const>\<open>translate16\<close>. IPv4 addresses are held
  as IPv4-mapped IPv6 addresses. The static flag \<^verbatim>\<open>UseIPv6\<close> is an argument of the
  functions that read it, the resolver of the C library (\<^verbatim>\<open>getaddrinfo\<close>,
  \<^verbatim>\<open>getnameinfo\<close>, \<^verbatim>\<open>if_indextoname\<close>) is a record of functions.
\<close>

section \<open>Data\<close>

record InternetAddress =
  Host16 :: "card16 list"
  Port :: card16
  ScopeID :: card16
  Valid :: bool
  Format :: card32

definition PF_Address :: card32 where "PF_Address = 1"
definition PF_Hostname :: card32 where "PF_Hostname = 2"
definition PF_Full :: card32 where "PF_Full = PF_Address OR PF_Hostname"
definition PF_HidePort :: card32 where "PF_HidePort = 0x8000"
definition PF_Legacy :: card32 where "PF_Legacy = 0x10000"
definition PF_Default :: card32 where "PF_Default = PF_Address OR PF_Legacy"

definition AF_UNSPEC :: nat where "AF_UNSPEC = 0"
definition AF_UNIX :: nat where "AF_UNIX = 1"
definition AF_INET :: nat where "AF_INET = 2"
definition AF_INET6 :: nat where "AF_INET6 = 10"

lemmas af_defs = AF_UNSPEC_def AF_UNIX_def AF_INET_def AF_INET6_def
lemmas pf_defs = PF_Address_def PF_Hostname_def PF_Full_def PF_HidePort_def PF_Legacy_def PF_Default_def

text \<open>
  The system's address structures: \<^verbatim>\<open>sockaddr_in\<close> with port and the two halves of the
  address, \<^verbatim>\<open>sockaddr_in6\<close> with port, flow label, address and scope, \<^verbatim>\<open>sockaddr_un\<close> with
  its path bytes, and any other family with the two bytes behind the family field.
\<close>

datatype sockaddr =
    SockaddrIn (sin_port: card16) (sin_addr: "card16 list")
  | SockaddrIn6 (sin6_port: card16) (sin6_flowinfo: card32) (sin6_addr: "card16 list") (sin6_scope_id: card32)
  | SockaddrUn (sun_path: "char list")
  | SockaddrOther (other_family: nat) (other_bytes: card16)

fun sa_family :: "sockaddr \<Rightarrow> nat" where
  "sa_family (SockaddrIn _ _) = AF_INET"
| "sa_family (SockaddrIn6 _ _ _ _) = AF_INET6"
| "sa_family (SockaddrUn _) = AF_UNIX"
| "sa_family (SockaddrOther f _) = f"

definition sizeof_sockaddr_in :: nat where "sizeof_sockaddr_in = 16"
definition sizeof_sockaddr_in6 :: nat where "sizeof_sockaddr_in6 = 28"

text \<open>
  The resolver: \<open>getaddrinfo\<close> for a host name (whether only numeric hosts are accepted,
  and whether the family is unspecified or \<^verbatim>\<open>AF_INET\<close>) gives the first address or fails,
  \<open>getservice\<close> is the look-up of a service name, \<open>getnameinfo\<close> gives host and service
  name, \<open>ifname\<close> an interface name.
\<close>

record resolver =
  getaddrinfo :: "bool \<Rightarrow> nat \<Rightarrow> cstring \<Rightarrow> sockaddr option"
  getservice :: "cstring \<Rightarrow> sockaddr option"
  getnameinfo :: "sockaddr \<Rightarrow> (cstring \<times> cstring) option"
  if_indextoname :: "card16 \<Rightarrow> cstring option"

section \<open>Classification\<close>

definition word_at :: "InternetAddress \<Rightarrow> nat \<Rightarrow> card16" where
  "word_at a i = Host16 a ! i"

text \<open>\<^verbatim>\<open>AddrSpec.Host32[3]\<close> overlays the last two words.\<close>

definition Host32_3 :: "InternetAddress \<Rightarrow> card32" where
  "Host32_3 a = ucast (word_at a 6) OR push_bit 16 (ucast (word_at a 7))"

definition isV4Mapped :: "card16 list \<Rightarrow> bool" where
  "isV4Mapped h = (h ! 0 = 0 \<and> h ! 1 = 0 \<and> h ! 2 = 0 \<and> h ! 3 = 0 \<and> h ! 4 = 0 \<and> h ! 5 = 0xffff)"

definition isUnspecified6 :: "card16 list \<Rightarrow> bool" where
  "isUnspecified6 h = (\<forall>i < 8. h ! i = 0)"

definition isIPv6 :: "InternetAddress \<Rightarrow> bool" where
  "isIPv6 a = (\<not> isV4Mapped (Host16 a))"

definition isIPv4 :: "InternetAddress \<Rightarrow> bool" where
  "isIPv4 a = (isV4Mapped (Host16 a) \<or> isUnspecified6 (Host16 a))"

definition isLinkLocal6 :: "card16 list \<Rightarrow> bool" where
  "isLinkLocal6 h = (ntohs (h ! 0) AND 0xffc0 = 0xfe80)"

definition isSiteLocal6 :: "card16 list \<Rightarrow> bool" where
  "isSiteLocal6 h = (ntohs (h ! 0) AND 0xffc0 = 0xfec0)"

definition isMulticast6 :: "card16 list \<Rightarrow> bool" where
  "isMulticast6 h = (drop_bit 8 (ntohs (h ! 0)) = 0xff)"

text \<open>The loops of \<^verbatim>\<open>isNull()\<close> and \<^verbatim>\<open>isUnspecified()\<close>, from word \<open>i\<close> on.\<close>

fun all_zero_from :: "nat \<Rightarrow> card16 list \<Rightarrow> bool" where
  "all_zero_from i [] = True"
| "all_zero_from i (h # hs) =
     (if h \<noteq> 0 \<and> \<not> (i = 5 \<and> h = 0xffff) then False else all_zero_from (Suc i) hs)"

definition isNullAddress :: "InternetAddress \<Rightarrow> bool" where
  "isNullAddress a = (all_zero_from 0 (take 8 (Host16 a)) \<and> Port a = 0)"

definition isUnspecified :: "InternetAddress \<Rightarrow> bool" where
  "isUnspecified a = all_zero_from 0 (take 8 (Host16 a))"

definition isLoopback :: "InternetAddress \<Rightarrow> bool" where
  "isLoopback a =
     (if isIPv6 a then (\<forall>i < 7. word_at a i = 0) \<and> word_at a 7 = htons 1
      else (drop_bit 8 (ntohs (word_at a 6))) = 127)"

definition isMulticast :: "InternetAddress \<Rightarrow> bool" where
  "isMulticast a =
     (if isIPv6 a then isMulticast6 (Host16 a)
      else (ntohl (Host32_3 a) AND 0xf0000000) = 0xe0000000)"

definition isBroadcast :: "InternetAddress \<Rightarrow> bool" where
  "isBroadcast a = (if isIPv6 a then False else ntohl (Host32_3 a) = 0xffffffff)"

definition isUnicast :: "InternetAddress \<Rightarrow> bool" where
  "isUnicast a = (\<not> (isMulticast a \<or> isBroadcast a))"

definition isLinkLocal :: "InternetAddress \<Rightarrow> bool" where
  "isLinkLocal a =
     (if isIPv6 a then isLinkLocal6 (Host16 a) else drop_bit 8 (ntohs (word_at a 6)) = 127)"

definition isSiteLocal :: "InternetAddress \<Rightarrow> bool" where
  "isSiteLocal addr =
     (if isIPv6 addr then isSiteLocal6 (Host16 addr)
      else let a = drop_bit 8 (ntohs (word_at addr 6)); b = ntohs (word_at addr 6) AND 0x00ff
           in a = 127 \<or> a = 10 \<or> (a = 192 \<and> b = 168) \<or> (a = 172 \<and> 13 \<le> b \<and> b \<le> 31))"

definition isGlobal :: "InternetAddress \<Rightarrow> bool" where
  "isGlobal a = (\<not> (isSiteLocal a \<or> isLinkLocal a \<or> isLoopback a))"

section \<open>Comparison\<close>

definition InternetAddress_eq :: "InternetAddress \<Rightarrow> InternetAddress \<Rightarrow> bool" where
  "InternetAddress_eq a b = (Host16 a = Host16 b)"

text \<open>The loops compare word by word; behind the last word the ports decide.\<close>

fun less_loop :: "card16 list \<Rightarrow> card16 list \<Rightarrow> bool \<Rightarrow> bool" where
  "less_loop (x # xs) (y # ys) p =
     (if ntohs x < ntohs y then True else if ntohs x > ntohs y then False else less_loop xs ys p)"
| "less_loop _ _ p = p"

definition InternetAddress_less :: "InternetAddress \<Rightarrow> InternetAddress \<Rightarrow> bool" where
  "InternetAddress_less a b =
     less_loop (Host16 a) (Host16 b) (ntohs (Port a) < ntohs (Port b))"

definition InternetAddress_greater :: "InternetAddress \<Rightarrow> InternetAddress \<Rightarrow> bool" where
  "InternetAddress_greater a b = less_loop (Host16 b) (Host16 a) (Port a > Port b)"

definition InternetAddress_less_eq :: "InternetAddress \<Rightarrow> InternetAddress \<Rightarrow> bool" where
  "InternetAddress_less_eq a b = (InternetAddress_less a b \<or> InternetAddress_eq a b)"

section \<open>Construction\<close>

definition getPort :: "InternetAddress \<Rightarrow> card16" where
  "getPort a = ntohs (Port a)"

definition setPort :: "InternetAddress \<Rightarrow> card16 \<Rightarrow> InternetAddress" where
  "setPort a p = a\<lparr>Port := htons p\<rparr>"

definition setPrintFormat :: "InternetAddress \<Rightarrow> card32 \<Rightarrow> InternetAddress" where
  "setPrintFormat a f = a\<lparr>Format := f\<rparr>"

definition reset :: "InternetAddress \<Rightarrow> InternetAddress" where
  "reset a = setPrintFormat (setPort
     (a\<lparr>Host16 := replicate 8 0, ScopeID := 0, Valid := True\<rparr>) 0) PF_Default"

definition InternetAddress_default :: "InternetAddress \<Rightarrow> InternetAddress" where
  "InternetAddress_default a = (reset a)\<lparr>Valid := False\<rparr>"

definition getFamily :: "bool \<Rightarrow> InternetAddress \<Rightarrow> nat" where
  "getFamily useIPv6 a = (if isIPv6 a then AF_INET6 else if useIPv6 then AF_INET6 else AF_INET)"

definition init_copy :: "InternetAddress \<Rightarrow> InternetAddress \<Rightarrow> InternetAddress" where
  "init_copy a b = setPrintFormat
     (a\<lparr>Port := Port b, Host16 := Host16 b, ScopeID := ScopeID b, Valid := Valid b\<rparr>) (Format b)"

definition init_port :: "InternetAddress \<Rightarrow> card16 \<Rightarrow> InternetAddress" where
  "init_port a p = setPrintFormat (setPort
     (a\<lparr>Host16 := replicate 8 0, ScopeID := 0, Valid := True\<rparr>) p) PF_Default"

text \<open>
  \<^verbatim>\<open>getHostByName\<close>: the number of address bytes (0 for failure), the words it wrote and
  the scope. A name with a colon is an IPv6 literal; one of digits and dots an IPv4 one.
\<close>

definition isNumericHost :: "cstring \<Rightarrow> bool" where
  "isNumericHost name =
     (CHR '':'' \<in> set name \<or>
      (\<forall>c \<in> set name. (48 \<le> (of_char c :: nat) \<and> (of_char c :: nat) \<le> 57) \<or> c = CHR ''.''))"

definition getHostByName :: "resolver \<Rightarrow> bool \<Rightarrow> String \<Rightarrow> nat \<times> card16 list \<times> card16" where
  "getHostByName r useIPv6 hostName =
     (case hostName of
        None \<Rightarrow> (if useIPv6 then 16 else 4, replicate 8 0, 0)
      | Some name \<Rightarrow>
          (case getaddrinfo r (isNumericHost name) (if useIPv6 then AF_UNSPEC else AF_INET) name of
             None \<Rightarrow> (0, [], 0)
           | Some (SockaddrIn p adr) \<Rightarrow> (4, adr, 0)
           | Some (SockaddrIn6 p fl adr scope) \<Rightarrow>
               (if isLinkLocal6 adr \<and> scope = 0 then (0, [], 0) else (16, adr, ucast scope))
           | Some _ \<Rightarrow> (0, [], 0)))"

definition getServiceByName :: "resolver \<Rightarrow> cstring \<Rightarrow> card16" where
  "getServiceByName r name =
     (case getservice r name of Some (SockaddrIn p adr) \<Rightarrow> ntohs p | _ \<Rightarrow> 0)"

definition mapped_host :: "card16 list \<Rightarrow> card16 list" where
  "mapped_host adr = replicate 5 0 @ [0xffff] @ take 2 adr"

definition init_host :: "resolver \<Rightarrow> bool \<Rightarrow> InternetAddress \<Rightarrow> String \<Rightarrow> card16 \<Rightarrow> InternetAddress" where
  "init_host r useIPv6 a hostName p =
     (case getHostByName r useIPv6 hostName of
        (len, address, scope) \<Rightarrow>
          let a = setPrintFormat (setPort (a\<lparr>Valid := True\<rparr>) p) PF_Default;
              a = a\<lparr>ScopeID := scope\<rparr>
          in if len = 4 then a\<lparr>Host16 := mapped_host address\<rparr>
             else if len = 16 then a\<lparr>Host16 := address\<rparr>
             else (reset a)\<lparr>Valid := False\<rparr>)"

text \<open>\<^verbatim>\<open>sscanf(s, "%d", &n)\<close>: leading white space, an optional sign, and at least one digit.\<close>

definition is_digit :: "char \<Rightarrow> bool" where
  "is_digit c = (48 \<le> (of_char c :: nat) \<and> (of_char c :: nat) \<le> 57)"

definition sscanf_d :: "cstring \<Rightarrow> int option" where
  "sscanf_d s =
     (let t = dropWhile (\<lambda>c. c = CHR '' '' \<or> 9 \<le> (of_char c :: nat) \<and> (of_char c :: nat) \<le> 13) s;
          (neg, u) = (case t of
              CHR ''-'' # u \<Rightarrow> (True, u) | CHR ''+'' # u \<Rightarrow> (False, u) | _ \<Rightarrow> (False, t));
          ds = takeWhile is_digit u;
          v = int (radix_value 10 digit_value 0 ds)
      in if ds = [] then None else Some (if neg then - v else v))"

text \<open>
  The constructor from a string. \<open>raw\<close> is the uninitialised object: some error paths
  return with only \<open>Valid\<close> written.
\<close>

definition InternetAddress_of_String ::
  "resolver \<Rightarrow> bool \<Rightarrow> InternetAddress \<Rightarrow> String \<Rightarrow> InternetAddress" where
  "InternetAddress_of_String r useIPv6 raw address =
     (if isNull address then reset raw
      else
        let p1 = index address (CHR ''('');
            host = (if p1 > 0
                    then (let h = mid_from address (nat (p1 + 1)) in left h (stringLength h))
                    else String_copy address);
            finish = (\<lambda>host port.
              case sscanf_d (chars port) of
                Some n \<Rightarrow>
                  if 0 \<le> n \<and> n \<le> 65535 then init_host r useIPv6 raw host (word_of_int n)
                  else let s = getServiceByName r (chars port)
                       in if s \<noteq> 0 then init_host r useIPv6 raw host s else raw\<lparr>Valid := False\<rparr>
              | None \<Rightarrow>
                  let s = getServiceByName r (chars port)
                  in if s \<noteq> 0 then init_host r useIPv6 raw host s else raw\<lparr>Valid := False\<rparr>)
        in if data_at host 0 = CHR ''['' then
             let p1 = index host (CHR '']'')
             in if p1 > 0 then
                  let c = data_at host (nat (p1 + 1));
                      port = (if c = CHR '':'' \<or> c = CHR ''!'' then mid_from host (nat (p1 + 2)) else Some ''0'');
                      h = mid host 1 (nat (p1 - 1))
                  in finish (left h (stringLength h)) port
                else raw\<lparr>Valid := False\<rparr>
           else
             let p1 = rindex address (CHR '':'');
                 p1 = (if p1 < 0 then rindex address (CHR ''!'') else p1)
             in if p1 > 0 then finish (left address (nat p1)) (mid_from address (nat (p1 + 1)))
                else finish host (Some ''0''))"

definition InternetAddress_of_host_port ::
  "resolver \<Rightarrow> bool \<Rightarrow> InternetAddress \<Rightarrow> String \<Rightarrow> card16 \<Rightarrow> InternetAddress" where
  "InternetAddress_of_host_port r useIPv6 raw hostName p =
     (if isNull hostName then init_port raw p else init_host r useIPv6 raw hostName p)"

section \<open>Conversion from and to system addresses\<close>

text \<open>
  The number of bytes written and the structure in the buffer; \<open>None\<close> where the call
  returns 0 and the buffer holds no address.
\<close>

definition getSystemAddress ::
  "bool \<Rightarrow> InternetAddress \<Rightarrow> nat \<Rightarrow> nat \<Rightarrow> nat \<times> sockaddr option" where
  "getSystemAddress useIPv6 a len type =
     (let newType = (if type = AF_UNSPEC then (if useIPv6 then AF_INET6 else AF_INET) else type)
      in if newType = AF_INET6 then
           if sizeof_sockaddr_in6 \<le> len
           then (sizeof_sockaddr_in6, Some (SockaddrIn6 (Port a) 0 (Host16 a) (ucast (ScopeID a))))
           else (0, None)
         else if newType = AF_INET then
           if sizeof_sockaddr_in \<le> len \<and> isIPv4 a
           then (sizeof_sockaddr_in, Some (SockaddrIn (Port a) (drop 6 (Host16 a))))
           else (0, None)
         else (0, None))"

text \<open>The return value and the changed object.\<close>

definition setSystemAddress :: "InternetAddress \<Rightarrow> sockaddr \<Rightarrow> bool \<times> InternetAddress" where
  "setSystemAddress a sa =
     (case sa of
        SockaddrIn p adr \<Rightarrow> (True, a\<lparr>Port := p, Host16 := mapped_host adr, Valid := True\<rparr>)
      | SockaddrIn6 p fl adr scope \<Rightarrow>
          (True, a\<lparr>Port := p, Host16 := adr, ScopeID := ucast scope, Valid := True\<rparr>)
      | _ \<Rightarrow> (False, (reset a)\<lparr>Valid := True\<rparr>))"

definition init_sockaddr :: "InternetAddress \<Rightarrow> sockaddr \<Rightarrow> InternetAddress" where
  "init_sockaddr a sa = setPrintFormat (snd (setSystemAddress a sa)) PF_Default"

definition setIPv4Address :: "bool \<Rightarrow> InternetAddress \<Rightarrow> card16 list option" where
  "setIPv4Address useIPv6 a =
     (case getSystemAddress useIPv6 a sizeof_sockaddr_in AF_INET of
        (n, Some (SockaddrIn p adr)) \<Rightarrow> if n > 0 then Some adr else None
      | _ \<Rightarrow> None)"

definition getIPv4Address :: "InternetAddress \<Rightarrow> card16 list \<Rightarrow> InternetAddress" where
  "getIPv4Address raw adr = init_sockaddr raw (SockaddrIn 0 adr)"

section \<open>Checksum\<close>

definition add_carry :: "card32 \<Rightarrow> card32 \<Rightarrow> card32" where
  "add_carry acc x = (let acc = acc + x in if acc > 0xffff then acc - 0xffff else acc)"

text \<open>A 16-bit load from the buffer on a little-endian host, then \<^verbatim>\<open>ntohs\<close>.\<close>

fun calculateChecksum :: "card8 list \<Rightarrow> card32 \<Rightarrow> card32" where
  "calculateChecksum (b0 # b1 # bs) acc =
     calculateChecksum bs (add_carry acc
       (ucast (ntohs (ucast b0 OR push_bit 8 (ucast b1 :: card16)))))"
| "calculateChecksum [b] acc = add_carry acc (ucast (htons (ucast b)))"
| "calculateChecksum [] acc = acc"

definition wrapChecksum :: "card32 \<Rightarrow> card32" where
  "wrapChecksum acc = ucast (htons (ucast (NOT acc AND 0xffff)))"

section \<open>Printing\<close>

text \<open>\<^verbatim>\<open>for(j = i + 1; j < 8; j++) if(Host16[j] != 0) break;\<close>\<close>

function next_nonzero :: "card16 list \<Rightarrow> nat \<Rightarrow> nat" where
  "next_nonzero h j = (if j < 8 \<and> h ! j = 0 then next_nonzero h (Suc j) else j)"
  by pat_completeness auto
termination
  by (relation "measure (\<lambda>(h, j). 8 - j)") auto

declare next_nonzero.simps [simp del]

lemma next_nonzero_ge: "j \<le> next_nonzero h j"
proof (induction h j rule: next_nonzero.induct)
  case (1 h j)
  then show ?case by (auto simp: next_nonzero.simps [of h j])
qed

text \<open>
  The loop over the words that prints the hexadecimal notation: \<open>acc\<close> is the text so far.
  A run of at least two zero words is replaced once by an empty group.
\<close>

function print_v6_loop :: "card16 list \<Rightarrow> nat \<Rightarrow> nat \<Rightarrow> bool \<Rightarrow> string \<Rightarrow> string" where
  "print_v6_loop h len i compressed acc =
     (if i < len then
        let value = ntohs (h ! i) in
        if value \<noteq> 0 \<or> compressed \<or> i = 7 then
          print_v6_loop h len (Suc i) compressed
            (acc @ hex_string (unat value) @ (if i < 7 then '':'' else ''''))
        else
          let j = next_nonzero h (Suc i) in
          if j = Suc i then
            print_v6_loop h len (Suc i) compressed
              (acc @ hex_string (unat value) @ (if i < 7 then '':'' else ''''))
          else
            print_v6_loop h len j True
              (acc @ (if i = 0 \<or> j = 8 then '':'' else '''') @ (if j - 1 < 7 then '':'' else ''''))
      else acc)"
  by pat_completeness auto
termination
proof (relation "measure (\<lambda>(h, len, i, compressed, acc). len - i)", goal_cases)
  case (4 h len i compressed acc x j)
  then show ?case using next_nonzero_ge [of "Suc i" h] by auto
qed auto

declare print_v6_loop.simps [simp del]

definition print_v6 :: "card16 list \<Rightarrow> nat \<Rightarrow> string" where
  "print_v6 h len =
     (let s = print_v6_loop h len 0 False ''''
      in if length s = 1 then s @ '':'' else s)"

definition print_dotted :: "card32 \<Rightarrow> string" where
  "print_dotted a =
     dec_string (unat (drop_bit 24 (a AND 0xff000000))) @ ''.'' @
     dec_string (unat (drop_bit 16 (a AND 0x00ff0000))) @ ''.'' @
     dec_string (unat (drop_bit 8 (a AND 0x0000ff00))) @ ''.'' @
     dec_string (unat (a AND 0x000000ff))"

definition has_flag :: "card32 \<Rightarrow> card32 \<Rightarrow> bool" where
  "has_flag format f = (format AND f \<noteq> 0)"

text \<open>The text in \<^verbatim>\<open>addressString\<close>.\<close>

definition address_text :: "resolver \<Rightarrow> bool \<Rightarrow> InternetAddress \<Rightarrow> card32 \<Rightarrow> string" where
  "address_text r useIPv6 a format =
     (let port = dec_string (unat (ntohs (Port a)));
          showPort = (\<not> has_flag format PF_HidePort)
      in if (useIPv6 \<and> \<not> has_flag format PF_Legacy) \<or> \<not> isIPv4 a then
           (if showPort then ''['' else '''') @
           print_v6 (Host16 a) (if isIPv6 a then 8 else 6) @
           (if isIPv6 a then '''' else print_dotted (ntohl (Host32_3 a))) @
           (if isIPv6 a \<and> isLinkLocal a
            then ''%'' @ (case if_indextoname r (ScopeID a) of None \<Rightarrow> ''(BAD!)'' | Some n \<Rightarrow> n)
            else '''') @
           (if showPort then '']:'' @ port else '''')
         else
           print_dotted (ntohl (Host32_3 a)) @ (if showPort then '':'' @ port else ''''))"

definition host_text :: "resolver \<Rightarrow> bool \<Rightarrow> InternetAddress \<Rightarrow> card32 \<Rightarrow> string" where
  "host_text r useIPv6 a format =
     (case snd (getSystemAddress useIPv6 a sizeof_sockaddr_in6 AF_UNSPEC) of
        None \<Rightarrow> ''''
      | Some sa \<Rightarrow>
          (case getnameinfo r sa of
             None \<Rightarrow> ''''
           | Some (cname, sname) \<Rightarrow>
               if has_flag format PF_HidePort then cname else cname @ '':'' @ sname))"

definition getAddressString :: "resolver \<Rightarrow> bool \<Rightarrow> InternetAddress \<Rightarrow> card32 \<Rightarrow> String" where
  "getAddressString r useIPv6 a format =
     (if \<not> Valid a then String_of (Some ''(invalid)'')
      else if \<not> (has_flag format PF_Hostname \<or> has_flag format PF_Address)
      then String_of (Some ''(check print format)'')
      else
        let hostString = (if has_flag format PF_Hostname then host_text r useIPv6 a format else '''');
            addressString =
              (if has_flag format PF_Address \<or> has_flag format PF_Hostname \<and> hostString = ''''
               then address_text r useIPv6 a format else '''')
        in if hostString \<noteq> '''' \<and> addressString \<noteq> ''''
           then String_plus (String_plus (String_plus (String_of (Some hostString)) (Some '' (''))
                  (String_of (Some addressString))) (Some '')'')
           else String_plus (String_of (Some hostString)) (String_of (Some addressString)))"

section \<open>Well-formed addresses\<close>

definition wf_address :: "InternetAddress \<Rightarrow> bool" where
  "wf_address a = (length (Host16 a) = 8)"

end
