(* ===== verification/AddressText.thy ===== *)
theory AddressText
  imports InternetAddresses
begin

text \<open>
  What the textual form of an address means, and that the printing loops of
  \<^verbatim>\<open>InternetAddress::getAddressString()\<close> produce a text with that meaning: a reference
  reader for the IPv6 notation with one optional \<open>::\<close>, a closed form of the printing loop,
  and the round trip.
\<close>

section \<open>Reference reader of the IPv6 notation\<close>

fun split_colon :: "string \<Rightarrow> string list" where
  "split_colon [] = [[]]"
| "split_colon (c # cs) =
     (if c = CHR '':'' then [] # split_colon cs
      else case split_colon cs of [] \<Rightarrow> [[c]] | g # gs \<Rightarrow> (c # g) # gs)"

definition is_hex :: "char \<Rightarrow> bool" where
  "is_hex c = (48 \<le> (of_char c :: nat) \<and> (of_char c :: nat) \<le> 57 \<or>
     97 \<le> (of_char c :: nat) \<and> (of_char c :: nat) \<le> 102)"

definition read_group :: "string \<Rightarrow> card16 option" where
  "read_group g =
     (if g \<noteq> [] \<and> length g \<le> 4 \<and> list_all is_hex g
      then Some (of_nat (radix_value 16 digit_value 0 g)) else None)"

fun read_groups :: "string list \<Rightarrow> card16 list option" where
  "read_groups [] = Some []"
| "read_groups (g # gs) =
     (case read_group g of
        None \<Rightarrow> None
      | Some w \<Rightarrow> (case read_groups gs of None \<Rightarrow> None | Some ws \<Rightarrow> Some (w # ws)))"

definition read_side :: "string \<Rightarrow> card16 list option" where
  "read_side s = (if s = [] then Some [] else read_groups (split_colon s))"

text \<open>At most one \<open>::\<close>, which stands for one or more zero words.\<close>

definition read_v6 :: "string \<Rightarrow> card16 list option" where
  "read_v6 s =
     (case strstr s ''::'' of
        None \<Rightarrow>
          (case read_side s of
             Some ws \<Rightarrow> if length ws = 8 then Some ws else None | None \<Rightarrow> None)
      | Some p \<Rightarrow>
          (case (read_side (take p s), read_side (drop (p + 2) s)) of
             (Some l, Some r) \<Rightarrow>
               if length l + length r < 8
               then Some (l @ replicate (8 - length l - length r) 0 @ r) else None
           | _ \<Rightarrow> None))"

section \<open>Closed form of the printing loop\<close>

fun join_colon :: "string list \<Rightarrow> string" where
  "join_colon [] = ''''"
| "join_colon [g] = g"
| "join_colon (g # gs) = g @ '':'' @ join_colon gs"

abbreviation hexw :: "card16 \<Rightarrow> string" where
  "hexw w \<equiv> hex_string (unat (ntohs w))"

text \<open>The start of the first run of two zero words at or behind position \<open>i\<close>.\<close>

function find_run :: "card16 list \<Rightarrow> nat \<Rightarrow> nat option" where
  "find_run h i =
     (if i < 7 then if h ! i = 0 \<and> h ! Suc i = 0 then Some i else find_run h (Suc i) else None)"
  by pat_completeness auto
termination
  by (relation "measure (\<lambda>(h, i). 7 - i)") auto

declare find_run.simps [simp del]

definition v6_text :: "card16 list \<Rightarrow> string" where
  "v6_text h =
     (case find_run h 0 of
        None \<Rightarrow> join_colon (map hexw h)
      | Some k \<Rightarrow>
          join_colon (map hexw (take k h)) @ ''::'' @
          join_colon (map hexw (drop (next_nonzero h (Suc k)) h)))"

lemma ntohs_eq_0 [simp]: "ntohs w = 0 \<longleftrightarrow> w = 0"
proof -
  have "translate16 0 = 0" by (simp add: translate16_def)
  then show ?thesis by (metis order16.inj)
qed

lemma next_nonzero_le: "j \<le> 8 \<Longrightarrow> next_nonzero h j \<le> 8"
proof (induction h j rule: next_nonzero.induct)
  case (1 h j)
  then show ?case by (auto simp: next_nonzero.simps [of h j])
qed

lemma next_nonzero_zeros: "j \<le> m \<Longrightarrow> m < next_nonzero h j \<Longrightarrow> h ! m = 0"
proof (induction h j rule: next_nonzero.induct)
  case (1 h j)
  then show ?case
    using next_nonzero.simps [of h j] by (cases "j = m") (auto split: if_splits)
qed

lemma next_nonzero_run: "j < 8 \<Longrightarrow> next_nonzero h j = j \<longleftrightarrow> h ! j \<noteq> 0"
  using next_nonzero_ge [of "Suc j" h] by (simp add: next_nonzero.simps [of h j])

lemma join_colon_Cons: "gs \<noteq> [] \<Longrightarrow> join_colon (g # gs) = g @ '':'' @ join_colon gs"
  by (cases gs) auto

lemma join_drop:
  assumes "length h = 8" "i < 8"
  shows "join_colon (map hexw (drop i h)) =
    hexw (h ! i) @ (if i < 7 then '':'' else '''') @ join_colon (map hexw (drop (Suc i) h))"
proof -
  have "drop i h = h ! i # drop (Suc i) h" using assms by (simp add: Cons_nth_drop_Suc)
  then show ?thesis using assms by (simp add: join_colon_Cons)
qed

lemma loop_compressed:
  assumes "length h = 8"
  shows "i \<le> 8 \<Longrightarrow> print_v6_loop h 8 i True acc = acc @ join_colon (map hexw (drop i h))"
proof (induction "8 - i" arbitrary: i acc)
  case 0
  then have "i = 8" by simp
  with assms show ?case by (simp add: print_v6_loop.simps)
next
  case (Suc n)
  then have "i < 8" by simp
  moreover have "print_v6_loop h 8 (Suc i) True (acc @ hexw (h ! i) @ (if i < 7 then '':'' else ''''))
      = (acc @ hexw (h ! i) @ (if i < 7 then '':'' else '''')) @ join_colon (map hexw (drop (Suc i) h))"
    using Suc by (intro Suc.hyps(1)) auto
  ultimately show ?case
    using join_drop [OF assms, of i] by (simp add: print_v6_loop.simps [of h 8 i] Let_def)
qed

lemma find_run_SomeD: "find_run h i = Some k \<Longrightarrow> i \<le> k \<and> k < 7 \<and> h ! k = 0 \<and> h ! Suc k = 0"
proof (induction h i rule: find_run.induct)
  case (1 h i)
  then show ?case
    by (cases "h ! i = 0 \<and> h ! Suc i = 0") (auto simp: find_run.simps [of h i] split: if_splits)
qed

lemma find_run_step: "find_run h i \<noteq> Some i \<Longrightarrow> find_run h i = find_run h (Suc i)"
  by (auto simp: find_run.simps [of h i] find_run.simps [of h "Suc i"] split: if_splits)

text \<open>Before a run: the groups up to it each with a colon, then the gap, then the rest.\<close>

definition plain_text :: "card16 list \<Rightarrow> nat \<Rightarrow> string" where
  "plain_text h i =
    (case find_run h i of
       None \<Rightarrow> join_colon (map hexw (drop i h))
     | Some k \<Rightarrow>
         concat (map (\<lambda>w. hexw w @ '':'') (take (k - i) (drop i h))) @
         (if k = 0 \<or> next_nonzero h (Suc k) = 8 then '':'' else '''') @
         (if next_nonzero h (Suc k) < 8 then '':'' else '''') @
         join_colon (map hexw (drop (next_nonzero h (Suc k)) h)))"

lemma plain_text_step:
  assumes "length h = 8" "i < 8" "find_run h i \<noteq> Some i"
  shows "plain_text h i = hexw (h ! i) @ (if i < 7 then '':'' else '''') @ plain_text h (Suc i)"
proof (cases "find_run h i")
  case None
  with assms(3) find_run_step [of h i] join_drop [OF assms(1,2)] show ?thesis
    by (simp add: plain_text_def)
next
  case (Some k)
  with assms(3) find_run_step [of h i] have k: "find_run h (Suc i) = Some k" by simp
  with find_run_SomeD [OF k] have "Suc i \<le> k" "i < 7" by simp_all
  moreover from this assms(1) have "take (k - i) (drop i h) = h ! i # take (k - Suc i) (drop (Suc i) h)"
    by (simp add: Cons_nth_drop_Suc [symmetric] take_Cons' Suc_diff_le)
  ultimately show ?thesis using Some k by (simp add: plain_text_def)
qed

lemma loop_plain:
  assumes "length h = 8"
  shows "i \<le> 8 \<Longrightarrow> print_v6_loop h 8 i False acc = acc @ plain_text h i"
proof (induction "8 - i" arbitrary: i acc)
  case 0
  then have "i = 8" by simp
  with assms show ?case by (simp add: plain_text_def print_v6_loop.simps find_run.simps)
next
  case (Suc n)
  then have i: "i < 8" by simp
  show ?case
  proof (cases "find_run h i = Some i")
    case True
    let ?j = "next_nonzero h (Suc i)"
    have run: "i < 7" "h ! i = 0" "h ! Suc i = 0" using find_run_SomeD [OF True] by simp_all
    then have j: "?j \<noteq> Suc i" "?j \<le> 8" "Suc i \<le> ?j"
      using next_nonzero_run [of "Suc i" h] next_nonzero_le [of "Suc i" h] next_nonzero_ge by simp_all
    then have "?j - 1 < 7 \<longleftrightarrow> ?j < 8" by linarith
    then show ?thesis
      using run j True i loop_compressed [OF assms j(2)]
      by (simp add: print_v6_loop.simps [of h 8 i] Let_def plain_text_def)
  next
    case False
    have skip: "\<not> (h ! i \<noteq> 0 \<or> i = 7) \<Longrightarrow> next_nonzero h (Suc i) = Suc i"
      using False i next_nonzero_run [of "Suc i" h] by (auto simp: find_run.simps [of h i])
    have "print_v6_loop h 8 i False acc = print_v6_loop h 8 (Suc i) False
        (acc @ hexw (h ! i) @ (if i < 7 then '':'' else ''''))"
      using i skip by (subst print_v6_loop.simps) (simp only: Let_def ntohs_eq_0 if_True if_False, auto)
    also have "\<dots> = (acc @ hexw (h ! i) @ (if i < 7 then '':'' else '''')) @ plain_text h (Suc i)"
      using Suc i by (intro Suc.hyps(1)) auto
    finally show ?thesis using plain_text_step [OF assms i False] by simp
  qed
qed

lemma hex_string_ne [simp]: "hex_string n \<noteq> []"
  by (simp add: hex_string_def radix_string_ne)

lemma concat_join:
  "ws \<noteq> [] \<Longrightarrow> concat (map (\<lambda>w. hexw w @ '':'') ws) = join_colon (map hexw ws) @ '':''"
  by (induction ws rule: induct_list012) auto

lemma length_hex_pos: "0 < length (hex_string n)"
  by simp

lemma join_eq_Nil: "join_colon (map hexw ws) = [] \<longleftrightarrow> ws = []"
  by (cases ws; cases "tl ws") (simp_all add: join_colon_Cons)

lemma print_v6_text:
  assumes "length h = 8"
  shows "print_v6 h 8 = v6_text h"
proof (cases "find_run h 0")
  case None
  obtain w v ws where "h = w # v # ws" using assms by (metis length_Suc_conv numeral_eq_Suc pred_numeral_simps)
  then have "length (join_colon (map hexw h)) \<noteq> 1"
    using length_hex_pos [of "unat (ntohs w)"] by (simp add: join_colon_Cons)
  with None loop_plain [OF assms, of 0 "''''"] show ?thesis
    by (simp add: print_v6_def v6_text_def plain_text_def Let_def)
next
  case (Some k)
  have k: "k < 7" using find_run_SomeD [OF Some] by simp
  have j: "next_nonzero h (Suc k) \<le> 8" using k by (intro next_nonzero_le) simp
  show ?thesis
  proof (cases "k = 0")
    case True
    with Some j loop_plain [OF assms, of 0 "''''"] assms show ?thesis
      by (auto simp: print_v6_def v6_text_def plain_text_def Let_def)
  next
    case False
    with k assms have ne: "take k h \<noteq> []" by auto
    then have "0 < length (join_colon (map hexw (take k h)))"
      using join_eq_Nil [of "take k h"] by simp
    with Some j False loop_plain [OF assms, of 0 "''''"] show ?thesis
      by (auto simp: print_v6_def v6_text_def plain_text_def Let_def concat_join [OF ne])
  qed
qed

section \<open>The reader gives the words back\<close>

lemma is_hex_digit: "d < 16 \<Longrightarrow> is_hex (digit_char d)"
  by (auto simp: is_hex_def digit_char_def of_char_of)

lemma hex_string_hex: "c \<in> set (hex_string n) \<Longrightarrow> is_hex c"
  using radix_string_digits [of 16 n] by (auto simp: hex_string_def is_hex_digit)

lemma hex_no_colon: "CHR '':'' \<notin> set (hex_string n)"
  by (auto dest!: hex_string_hex simp: is_hex_def)

lemma read_group_hex: "read_group (hexw w) = Some (ntohs w)"
proof -
  have "unat (ntohs w) < 16 ^ 4" using unsigned_less [of "ntohs w"] by simp
  then have "length (hexw w) \<le> 4" unfolding hex_string_def by (intro length_radix_string) simp_all
  then show ?thesis
    by (simp add: read_group_def list_all_iff hex_string_hex)
      (simp add: hex_string_def radix_value_string)
qed

lemma split_colon_plain: "CHR '':'' \<notin> set g \<Longrightarrow> split_colon g = [g]"
  by (induction g) auto

lemma split_colon_append:
  "CHR '':'' \<notin> set g \<Longrightarrow> split_colon (g @ '':'' @ s) = g # split_colon s"
  by (induction g) auto

lemma split_join:
  "gs \<noteq> [] \<Longrightarrow> \<forall>g \<in> set gs. CHR '':'' \<notin> set g \<Longrightarrow> split_colon (join_colon gs) = gs"
proof (induction gs rule: join_colon.induct)
  case (3 g g' gs)
  then show ?case using split_colon_append [of g] by simp
qed (simp_all add: split_colon_plain)

lemma read_groups_hex: "read_groups (map hexw ws) = Some (map ntohs ws)"
  by (induction ws) (simp_all add: read_group_hex)

lemma read_side_hex: "read_side (join_colon (map hexw ws)) = Some (map ntohs ws)"
proof (cases "ws = []")
  case False
  then show ?thesis
    by (simp add: read_side_def join_eq_Nil split_join hex_no_colon read_groups_hex)
qed (simp add: read_side_def)

lemma strstr_skip:
  "CHR '':'' \<notin> set g \<Longrightarrow>
   strstr (g @ s) ''::'' = map_option (\<lambda>p. length g + p) (strstr s ''::'')"
  by (cases "strstr s ''::''"; induction g) simp_all

lemma strstr_group:
  assumes "g \<noteq> []" "CHR '':'' \<notin> set g"
  shows "strstr ('':'' @ g @ s) ''::'' = map_option Suc (strstr (g @ s) ''::'')"
  using assms by (cases g) auto

lemma join_starts: "ws \<noteq> [] \<Longrightarrow> \<exists>w t. join_colon (map hexw ws) = hexw w @ t"
  by (cases ws; cases "tl ws") (auto simp: join_colon_Cons)

lemma strstr_join:
  "strstr (join_colon (map hexw ws) @ ''::'' @ t) ''::'' = Some (length (join_colon (map hexw ws)))"
proof (induction ws)
  case (Cons w ws)
  show ?case
  proof (cases "ws = []")
    case True
    then show ?thesis using strstr_skip [OF hex_no_colon] by simp
  next
    case False
    obtain v u where v: "join_colon (map hexw ws) = hexw v @ u" using join_starts [OF False] by blast
    have "strstr ('':'' @ join_colon (map hexw ws) @ ''::'' @ t) ''::''
        = Some (Suc (length (join_colon (map hexw ws))))"
      using strstr_group [of "hexw v" "u @ ''::'' @ t"] Cons.IH by (simp add: v hex_no_colon)
    then show ?thesis
      using False strstr_skip [OF hex_no_colon] by (simp add: join_colon_Cons)
  qed
qed simp

lemma strstr_join_None: "strstr (join_colon (map hexw ws)) ''::'' = None"
proof (induction ws)
  case (Cons w ws)
  show ?case
  proof (cases "ws = []")
    case True
    then show ?thesis using strstr_skip [OF hex_no_colon, of _ "[]"] by simp
  next
    case False
    obtain v u where v: "join_colon (map hexw ws) = hexw v @ u" using join_starts [OF False] by blast
    have "strstr ('':'' @ join_colon (map hexw ws)) ''::'' = None"
      using strstr_group [of "hexw v" u] Cons.IH by (simp add: v hex_no_colon)
    then show ?thesis
      using False strstr_skip [OF hex_no_colon] by (simp add: join_colon_Cons)
  qed
qed simp

lemma run_decomp:
  assumes "length h = 8" "find_run h 0 = Some k"
  shows "h = take k h @ replicate (next_nonzero h (Suc k) - k) 0 @ drop (next_nonzero h (Suc k)) h"
proof -
  let ?j = "next_nonzero h (Suc k)"
  have k: "k < 7" "h ! k = 0" using find_run_SomeD [OF assms(2)] by simp_all
  have j: "?j \<le> 8" "Suc k \<le> ?j" using k next_nonzero_le next_nonzero_ge by simp_all
  have "take (?j - k) (drop k h) = replicate (?j - k) 0"
  proof (rule nth_equalityI)
    fix m assume "m < length (take (?j - k) (drop k h))"
    with assms(1) j k have "m < ?j - k" "k + m < 8" by auto
    with k next_nonzero_zeros [of "Suc k" "k + m" h]
    show "take (?j - k) (drop k h) ! m = replicate (?j - k) 0 ! m"
      using assms(1) by (cases m) auto
  qed (use assms(1) j k in auto)
  moreover have "h = take k h @ take (?j - k) (drop k h) @ drop ?j h"
    using j by (metis append_take_drop_id drop_drop le_add_diff_inverse2 Suc_leD)
  ultimately show ?thesis by simp
qed

section \<open>Properties\<close>

text \<open>
  C33. The hexadecimal notation printed for any IPv6 address denotes that address: read
  by the rules of the notation (groups of one to four digits, at most one \<open>::\<close> for a run
  of zero words) it gives the eight words back.
\<close>

theorem print_v6_denotes:
  assumes "length h = 8"
  shows "read_v6 (print_v6 h 8) = Some (map ntohs h)"
proof (cases "find_run h 0")
  case None
  then have t: "print_v6 h 8 = join_colon (map hexw h)"
    using print_v6_text [OF assms] by (simp add: v6_text_def)
  show ?thesis using assms by (simp add: t read_v6_def strstr_join_None read_side_hex)
next
  case (Some k)
  let ?j = "next_nonzero h (Suc k)"
  have t: "print_v6 h 8 =
      join_colon (map hexw (take k h)) @ ''::'' @ join_colon (map hexw (drop ?j h))"
    using print_v6_text [OF assms] Some by (simp add: v6_text_def)
  have k: "k < 7" "Suc k \<le> ?j" "?j \<le> 8"
    using find_run_SomeD [OF Some] next_nonzero_ge next_nonzero_le by simp_all
  have len: "length (take k h) = k" "length (drop ?j h) = 8 - ?j" "8 - k - (8 - ?j) = ?j - k"
    using assms k by simp_all
  have m: "map ntohs h = map ntohs (take k h) @ replicate (?j - k) 0 @ map ntohs (drop ?j h)"
    by (rule trans [OF arg_cong [OF run_decomp [OF assms Some], of "map ntohs"]])
      (simp add: ntohs_eq_0 del: append_take_drop_id)
  have "read_v6 (print_v6 h 8) =
      Some (map ntohs (take k h) @ replicate (?j - k) 0 @ map ntohs (drop ?j h))"
    using k len strstr_join [of "take k h" "join_colon (map hexw (drop ?j h))"]
    by (simp add: t read_v6_def read_side_hex)
  then show ?thesis by (simp only: m [symmetric])
qed

theorem print_v6_denotes_witness:
  "read_v6 (print_v6 [htons 0x2001, 0, 0, 0, htons 5, 0, 0, htons 1] 8)
     = Some [0x2001, 0, 0, 0, 5, 0, 0, 1]"
  using print_v6_denotes [of "[htons 0x2001, 0, 0, 0, htons 5, 0, 0, htons 1]"]
  by (simp add: order16.involution)

end
