(* ===== verification/AddressLaws.thy ===== *)
theory AddressLaws
  imports InternetAddresses "HOL-Library.List_Lexorder"
begin

unbundle bit_operations_syntax

text \<open>
  Laws of the Internet address class: the order of \<^verbatim>\<open>operator<\<close>, the conversions from and
  to the system's address structures and the Internet checksum.
\<close>

section \<open>The order\<close>

text \<open>The key the order compares: the words and the port, in host byte order.\<close>

definition endpoint_key :: "InternetAddress \<Rightarrow> card16 list" where
  "endpoint_key a = map ntohs (Host16 a) @ [ntohs (Port a)]"

lemma less_loop_lexord:
  "length xs = length ys \<Longrightarrow>
   less_loop xs ys (p < q) = (map ntohs xs @ [p] < map ntohs ys @ [q])"
proof (induction xs ys rule: list_induct2)
  case (Cons x xs y ys)
  then show ?case by (auto simp: not_less_iff_gr_or_eq)
qed simp

lemma map_ntohs_eq: "map ntohs xs = map ntohs ys \<longleftrightarrow> xs = ys"
  by (rule inj_map_eq_map) (simp add: inj_def order16.inj)

lemma endpoint_key_eq:
  "endpoint_key a = endpoint_key b \<longleftrightarrow> Host16 a = Host16 b \<and> Port a = Port b"
  by (simp add: endpoint_key_def map_ntohs_eq order16.inj)

lemma less_key:
  "wf_address a \<Longrightarrow> wf_address b \<Longrightarrow> InternetAddress_less a b \<longleftrightarrow> endpoint_key a < endpoint_key b"
  by (simp add: InternetAddress_less_def endpoint_key_def wf_address_def less_loop_lexord)

section \<open>System addresses\<close>

lemma list8:
  "length xs = 8 \<longleftrightarrow> (\<exists>a b c d e f g h. xs = [a, b, c, d, e, f, g, h])"
  by (auto simp: numeral_eq_Suc length_Suc_conv)

lemma mapped_host_drop:
  assumes "length h = 8" "isV4Mapped h"
  shows "mapped_host (drop 6 h) = h"
proof -
  obtain a b c d e f g i where "h = [a, b, c, d, e, f, g, i]" using assms(1) unfolding list8 by blast
  with assms(2) show ?thesis by (simp add: isV4Mapped_def mapped_host_def numeral_eq_Suc)
qed

lemma mapped_host_isV4Mapped: "length adr = 2 \<Longrightarrow> isV4Mapped (mapped_host adr)"
  by (simp add: mapped_host_def isV4Mapped_def numeral_eq_Suc)

lemma scope_roundtrip: "ucast (ucast (s :: card16) :: card32) = s"
  by (rule bit_word_eqI) (auto simp: bit_simps)

section \<open>Checksum\<close>

lemma add_carry_sum:
  assumes "unat s \<le> 0xffff" "unat x \<le> 0xffff"
  shows "unat (add_carry s x) = (if unat s + unat x > 0xffff then unat s + unat x - 0xffff else unat s + unat x)"
proof -
  have n: "unat (s + x) = unat s + unat x"
    using assms by (intro unat_add_lem [THEN iffD1]) simp
  have g: "s + x > 0xffff \<longleftrightarrow> unat s + unat x > 0xffff"
    by (simp add: word_less_nat_alt n)
  show ?thesis
  proof (cases "unat s + unat x > 0xffff")
    case True
    then have "0xffff \<le> s + x" by (simp add: word_le_nat_alt n)
    then have "unat (s + x - 0xffff) = unat s + unat x - 0xffff"
      using n by (simp add: unat_sub)
    with True g show ?thesis by (simp add: add_carry_def Let_def)
  qed (use g n in \<open>simp add: add_carry_def Let_def\<close>)
qed

lemma add_carry_bound:
  "unat s \<le> 0xffff \<Longrightarrow> unat x \<le> 0xffff \<Longrightarrow> unat (add_carry s x) \<le> 0xffff"
  by (auto simp: add_carry_sum)

lemma unat_card16: "unat (w :: card16) \<le> 0xffff"
proof -
  have "unat w < 2 ^ LENGTH(16)" by (rule unsigned_less)
  then show ?thesis by simp
qed

lemma unat_card8: "unat (b :: card8) < 256"
proof -
  have "unat b < 2 ^ LENGTH(8)" by (rule unsigned_less)
  then show ?thesis by simp
qed

lemma unat_ucast16: "unat (ucast (w :: card16) :: card32) = unat w"
  using unat_card16 [of w] by (simp add: unsigned_ucast_eq take_bit_nat_eq_self)

lemma checksum_bound:
  "unat s \<le> 0xffff \<Longrightarrow> unat (calculateChecksum bs s) \<le> 0xffff"
  by (induction bs s rule: calculateChecksum.induct)
    (simp_all add: add_carry_bound unat_ucast16 unat_card16)

lemma checksum_append:
  "even (length bs) \<Longrightarrow> calculateChecksum (bs @ cs) s = calculateChecksum cs (calculateChecksum bs s)"
  by (induction bs s rule: calculateChecksum.induct) simp_all

text \<open>The bytes of a 16-bit word as they lie in memory.\<close>

definition bytes16 :: "card16 \<Rightarrow> card8 list" where
  "bytes16 w = [ucast w, ucast (drop_bit 8 w)]"

lemma bytes16_load:
  "ucast (ucast w :: card8) OR push_bit 8 (ucast (ucast (drop_bit 8 w) :: card8) :: card16) = (w :: card16)"
  by (rule bit_word_eqI) (auto simp: bit_simps)

text \<open>The number the 16-bit words of the buffer add up to.\<close>

fun word_sum :: "card8 list \<Rightarrow> nat" where
  "word_sum (b0 # b1 # bs) = 256 * unat b0 + unat b1 + word_sum bs"
| "word_sum [b] = 256 * unat b"
| "word_sum [] = 0"

lemma load16: "unat (ntohs (ucast (b0 :: card8) OR push_bit 8 (ucast (b1 :: card8) :: card16))) = 256 * unat b0 + unat b1"
proof -
  have "ntohs (ucast b0 OR push_bit 8 (ucast b1 :: card16)) = push_bit 8 (ucast b0) OR ucast b1"
    by (rule bit_word_eqI) (auto simp: translate16_def bit_simps dest: bit_imp_le_length)
  also have "\<dots> = push_bit 8 (ucast b0) + ucast b1"
    by (rule disjunctive_add [symmetric]) (auto simp: bit_simps dest: bit_imp_le_length)
  finally show ?thesis
    using unat_card8 [of b0] unat_card8 [of b1]
    by (simp add: push_bit_eq_mult unat_word_ariths unsigned_ucast_eq take_bit_nat_eq_self)
qed

lemma checksum_cong:
  "unat s \<le> 0xffff \<Longrightarrow>
   unat (calculateChecksum bs s) mod 0xffff = (unat s + word_sum bs) mod 0xffff"
proof (induction bs s rule: calculateChecksum.induct)
  case (1 b0 b1 bs acc)
  let ?x = "ntohs (ucast b0 OR push_bit 8 (ucast b1 :: card16))"
  have "unat (add_carry acc (ucast ?x)) mod 0xffff = (unat acc + unat ?x) mod 0xffff"
    using 1 unat_card16 [of ?x] by (simp add: add_carry_sum unat_ucast16 le_mod_geq)
  moreover have "unat (add_carry acc (ucast ?x)) \<le> 0xffff"
    using 1 by (intro add_carry_bound) (simp_all add: unat_ucast16 unat_card16)
  ultimately show ?case
    using 1 mod_add_cong [of _ "0xffff :: nat" _ "word_sum bs" "word_sum bs"]
    by (simp add: load16 add.assoc)
next
  case (2 b acc)
  have "unat (htons (ucast b)) = 256 * unat b" using load16 [of b 0] by simp
  with 2 unat_card16 [of "htons (ucast b)"] show ?case
    by (simp add: add_carry_sum unat_ucast16 le_mod_geq)
qed simp

lemma mask16: "(0xffff :: card32) = mask 16"
  by (simp add: mask_eq_exp_minus_1)

lemma complement16:
  assumes "unat (s :: card32) \<le> 0xffff"
  shows "unat (NOT s AND 0xffff) = 0xffff - unat s"
proof -
  note m = mask16
  have "unat (take_bit 16 s) = unat s"
    using assms by (simp add: unsigned_take_bit_eq take_bit_nat_eq_self)
  then have t: "take_bit 16 s = s" by (rule unsigned_word_eqI)
  have "n < 16" if "bit s n" for n
    using that by (subst (asm) t [symmetric]) (simp add: bit_simps)
  then have "s OR (NOT s AND mask 16) = mask 16"
    by (intro bit_word_eqI) (auto simp: bit_simps)
  moreover have "s + (NOT s AND mask 16) = s OR (NOT s AND mask 16)"
    by (rule disjunctive_add) (simp add: bit_simps)
  ultimately have "NOT s AND mask 16 = mask 16 - s"
    by (simp add: algebra_simps)
  then have "unat (NOT s AND 0xffff) = unat (0xffff - s)" by (simp only: m)
  then show ?thesis using assms by (simp add: unat_sub word_le_nat_alt)
qed

lemma checksum_complement:
  assumes "unat s \<le> 0xffff"
  shows "calculateChecksum (bytes16 (ucast (wrapChecksum s))) s = 0xffff"
proof -
  let ?c = "ucast (NOT s AND 0xffff) :: card16"
  have "ucast (wrapChecksum s) = htons ?c"
    using scope_roundtrip by (simp add: wrapChecksum_def)
  then have "calculateChecksum (bytes16 (ucast (wrapChecksum s))) s = add_carry s (ucast ?c)"
    by (simp add: bytes16_def bytes16_load order16.involution)
  moreover have c: "unat (ucast ?c :: card32) = 0xffff - unat s"
  proof -
    have "(ucast ?c :: card32) = NOT s AND 0xffff"
      unfolding mask16 by (rule bit_word_eqI) (auto simp: bit_simps)
    then show ?thesis using complement16 [OF assms] by simp
  qed
  then have "unat (add_carry s (ucast ?c)) = 0xffff"
    using assms by (subst add_carry_sum) auto
  then have "add_carry s (ucast ?c) = 0xffff"
    by (intro unsigned_word_eqI [where 'a = nat]) simp
  ultimately show ?thesis by simp
qed

section \<open>Properties\<close>

text \<open>
  \<^verbatim>\<open>operator<\<close> is a strict order of the addresses that is total up to host and port:
  it is irreflexive and transitive, and two addresses neither of which is smaller have the
  same host and the same port.
\<close>

theorem InternetAddress_less_order:
  assumes "wf_address a" "wf_address b" "wf_address c"
  shows "\<not> InternetAddress_less a a \<and>
     (InternetAddress_less a b \<and> InternetAddress_less b c \<longrightarrow> InternetAddress_less a c) \<and>
     (\<not> InternetAddress_less a b \<and> \<not> InternetAddress_less b a \<longleftrightarrow>
        Host16 a = Host16 b \<and> Port a = Port b)"
  using assms by (auto simp: less_key endpoint_key_eq [symmetric])

definition sample_v4 :: InternetAddress where
  "sample_v4 = \<lparr>Host16 = [0, 0, 0, 0, 0, 0xffff, 0x0a0a, 0x0100], Port = 0x5000, ScopeID = 0,
     Valid = True, Format = PF_Default\<rparr>"

definition sample_v6 :: InternetAddress where
  "sample_v6 = \<lparr>Host16 = [0x80fe, 0, 0, 0, 0, 0, 0, 0x0100], Port = 0x5000, ScopeID = 3,
     Valid = True, Format = PF_Default\<rparr>"

theorem InternetAddress_less_order_witness:
  "\<not> InternetAddress_less sample_v4 sample_v4 \<and>
   InternetAddress_less sample_v4 sample_v6 \<and> \<not> InternetAddress_less sample_v6 sample_v4"
  using InternetAddress_less_order [of sample_v4 sample_v6 sample_v4]
  by (simp add: wf_address_def sample_v4_def sample_v6_def InternetAddress_less_def translate16_def)

text \<open>
  C34. Writing an address to a \<^verbatim>\<open>sockaddr\<close> and reading it back gives the same host, port and
  scope: always for \<^verbatim>\<open>AF_INET6\<close>, and host and port for \<^verbatim>\<open>AF_INET\<close> when the address is an
  IPv4-mapped one; an IPv6 address is refused for \<^verbatim>\<open>AF_INET\<close>, and so is a buffer that is
  too small.
\<close>

theorem system_address_roundtrip:
  assumes "wf_address a"
  shows "(28 \<le> len \<longrightarrow> (\<exists>sa b. getSystemAddress useIPv6 a len AF_INET6 = (28, Some sa) \<and>
           setSystemAddress raw sa = (True, b) \<and>
           (Host16 b, Port b, ScopeID b, Valid b) = (Host16 a, Port a, ScopeID a, True))) \<and>
    (16 \<le> len \<and> isV4Mapped (Host16 a) \<longrightarrow>
       (\<exists>sa b. getSystemAddress useIPv6 a len AF_INET = (16, Some sa) \<and>
           setSystemAddress raw sa = (True, b) \<and> (Host16 b, Port b, Valid b) = (Host16 a, Port a, True))) \<and>
    (\<not> isIPv4 a \<or> len < 16 \<longrightarrow> getSystemAddress useIPv6 a len AF_INET = (0, None)) \<and>
    (len < 28 \<longrightarrow> getSystemAddress useIPv6 a len AF_INET6 = (0, None))"
  using assms mapped_host_drop [of "Host16 a"] scope_roundtrip [of "ScopeID a"]
  by (auto simp: getSystemAddress_def setSystemAddress_def sizeof_sockaddr_in6_def
      sizeof_sockaddr_in_def af_defs wf_address_def isIPv4_def Let_def)

theorem system_address_roundtrip_witness:
  "(\<exists>sa b. getSystemAddress True sample_v6 28 AF_INET6 = (28, Some sa) \<and>
      setSystemAddress sample_v4 sa = (True, b) \<and>
      (Host16 b, Port b, ScopeID b, Valid b) = (Host16 sample_v6, Port sample_v6, 3, True)) \<and>
   (\<exists>sa b. getSystemAddress True sample_v4 16 AF_INET = (16, Some sa) \<and>
      setSystemAddress sample_v6 sa = (True, b) \<and>
      (Host16 b, Port b, Valid b) = (Host16 sample_v4, Port sample_v4, True)) \<and>
   getSystemAddress True sample_v6 16 AF_INET = (0, None)"
proof -
  have wf: "wf_address sample_v4" "wf_address sample_v6" and
    v: "isV4Mapped (Host16 sample_v4)" "\<not> isIPv4 sample_v6" "ScopeID sample_v6 = 3"
    by (simp_all add: sample_v4_def sample_v6_def wf_address_def isV4Mapped_def isIPv4_def
        isUnspecified6_def) (rule exI [of _ 0], simp)
  show ?thesis
    using system_address_roundtrip [OF wf(2), of 28 True sample_v4]
      system_address_roundtrip [OF wf(1), of 16 True sample_v6]
      system_address_roundtrip [OF wf(2), of 16 True sample_v4] v
    by simp
qed

text \<open>
  C35. The Internet checksum: the accumulated sum never leaves 16 bits, it is congruent to
  the sum of the 16-bit big-endian words modulo \<^verbatim>\<open>0xffff\<close> (so no carry is lost), and a
  buffer of even length with its wrapped checksum behind it sums up to \<^verbatim>\<open>0xffff\<close>.
\<close>

theorem checksum_verifies:
  "unat (calculateChecksum bs 0) \<le> 0xffff \<and>
   unat (calculateChecksum bs 0) mod 0xffff = word_sum bs mod 0xffff \<and>
   (even (length bs) \<longrightarrow>
     calculateChecksum (bs @ bytes16 (ucast (wrapChecksum (calculateChecksum bs 0)))) 0 = 0xffff)"
proof -
  have "unat (calculateChecksum bs 0) \<le> 0xffff" by (rule checksum_bound) simp
  then show ?thesis
    using checksum_cong [of 0 bs] by (simp add: checksum_append checksum_complement)
qed

theorem checksum_verifies_witness:
  "calculateChecksum [0x45, 0x00, 0xff, 0xfe] 0 = 0x44ff \<and>
   calculateChecksum ([0x45, 0x00, 0xff, 0xfe] @ bytes16 (ucast (wrapChecksum 0x44ff))) 0 = 0xffff"
proof -
  have "calculateChecksum [0x45, 0x00, 0xff, 0xfe] 0 = 0x44ff" by code_simp
  then show ?thesis using checksum_verifies [of "[0x45, 0x00, 0xff, 0xfe]"] by simp
qed

end
