(* ===== verification/SocketAddresses.thy ===== *)
theory SocketAddresses
  imports AddressLaws
begin

text \<open>
  Unix domain addresses (\<^verbatim>\<open>unixaddress.cc\<close>, \<^verbatim>\<open>unixaddress.icc\<close>) and the abstract class
  \<^verbatim>\<open>SocketAddress\<close> with its factories (\<^verbatim>\<open>socketaddress.cc\<close>). A virtual call is a case
  distinction on the class of the object; the unspecified contents of a new object are
  parameters, as are the resolver and the flag that IPv6 is available.
\<close>

section \<open>Unix addresses\<close>

definition MaxNameLength :: nat where "MaxNameLength = 108"

definition sizeof_sockaddr_un :: nat where "sizeof_sockaddr_un = 110"

record UnixAddress =
  Name :: "char list"
  UFormat :: card32

text \<open>\<^verbatim>\<open>strcpy\<close> into the front of an array.\<close>

definition copy_into :: "char list \<Rightarrow> char list \<Rightarrow> char list" where
  "copy_into s dest = s @ drop (length s) dest"

definition Unix_reset :: "UnixAddress \<Rightarrow> UnixAddress" where
  "Unix_reset u = u\<lparr>Name := (Name u)[0 := NUL]\<rparr>"

definition Unix_init :: "UnixAddress \<Rightarrow> String \<Rightarrow> UnixAddress" where
  "Unix_init u name =
     (let u = u\<lparr>Name := (Name u)[0 := NUL]\<rparr>
      in if stringLength name < MaxNameLength then
           if String_eq (left name 5) (Some ''unix:'')
           then u\<lparr>Name := copy_into (chars (mid_from name 5) @ [NUL]) (Name u)\<rparr> else u
         else u)"

text \<open>Copying passes the plain name to the constructor from a string.\<close>

definition Unix_init_copy :: "UnixAddress \<Rightarrow> UnixAddress \<Rightarrow> UnixAddress" where
  "Unix_init_copy u v = Unix_init u (String_of (Some (Name v)))"

definition Unix_duplicate :: "UnixAddress \<Rightarrow> UnixAddress \<Rightarrow> UnixAddress" where
  "Unix_duplicate raw u = Unix_init_copy raw u"

definition Unix_isNull :: "UnixAddress \<Rightarrow> bool" where
  "Unix_isNull u = (Name u ! 0 = NUL)"

definition Unix_isValid :: "UnixAddress \<Rightarrow> bool" where
  "Unix_isValid u = (\<not> Unix_isNull u)"

definition Unix_getAddressString :: "UnixAddress \<Rightarrow> card32 \<Rightarrow> String" where
  "Unix_getAddressString u format =
     (if Name u ! 0 = NUL then String_of (Some ''(invalid)'')
      else String_plus (Some ''unix:'') (String_of (Some (Name u))))"

definition Unix_getSystemAddress :: "UnixAddress \<Rightarrow> nat \<Rightarrow> nat \<Rightarrow> nat \<times> sockaddr option" where
  "Unix_getSystemAddress u len type =
     (if type = AF_UNSPEC \<or> type = AF_UNIX then
        if sizeof_sockaddr_un \<le> len
        then (sizeof_sockaddr_un, Some (SockaddrUn (take MaxNameLength (Name u)))) else (0, None)
      else (0, None))"

definition Unix_setSystemAddress :: "UnixAddress \<Rightarrow> sockaddr \<Rightarrow> bool \<times> UnixAddress" where
  "Unix_setSystemAddress u sa =
     (case sa of
        SockaddrUn path \<Rightarrow> (True, u\<lparr>Name := take MaxNameLength path @ [NUL]\<rparr>)
      | _ \<Rightarrow> (False, Unix_reset u))"

definition Unix_eq :: "UnixAddress \<Rightarrow> UnixAddress \<Rightarrow> bool" where
  "Unix_eq u v = (strcmp (cstr (Name u)) (cstr (Name v)) = 0)"

definition Unix_less :: "UnixAddress \<Rightarrow> UnixAddress \<Rightarrow> bool" where
  "Unix_less u v = (strcmp (cstr (Name u)) (cstr (Name v)) < 0)"

text \<open>The array has its full length and holds a terminated string.\<close>

definition wf_unix :: "UnixAddress \<Rightarrow> bool" where
  "wf_unix u = (length (Name u) = Suc MaxNameLength \<and> NUL \<in> set (Name u))"

section \<open>Socket addresses\<close>

datatype SocketAddress = Internet (internet: InternetAddress) | UnixDomain (unix_domain: UnixAddress)

text \<open>What the addresses need of their environment.\<close>

record addrenv =
  Resolver :: resolver
  UseIPv6 :: bool
  RawInternet :: InternetAddress
  RawUnix :: UnixAddress

fun SA_getPort :: "SocketAddress \<Rightarrow> card16" where
  "SA_getPort (Internet a) = getPort a"
| "SA_getPort (UnixDomain u) = 0"

fun SA_setPort :: "SocketAddress \<Rightarrow> card16 \<Rightarrow> SocketAddress" where
  "SA_setPort (Internet a) p = Internet (setPort a p)"
| "SA_setPort (UnixDomain u) p = UnixDomain u"

fun SA_getFamily :: "bool \<Rightarrow> SocketAddress \<Rightarrow> nat" where
  "SA_getFamily v6 (Internet a) = getFamily v6 a"
| "SA_getFamily v6 (UnixDomain u) = AF_UNIX"

fun SA_isValid :: "SocketAddress \<Rightarrow> bool" where
  "SA_isValid (Internet a) = Valid a"
| "SA_isValid (UnixDomain u) = Unix_isValid u"

fun SA_getAddressString :: "addrenv \<Rightarrow> SocketAddress \<Rightarrow> card32 \<Rightarrow> String" where
  "SA_getAddressString e (Internet a) format = getAddressString (Resolver e) (UseIPv6 e) a format"
| "SA_getAddressString e (UnixDomain u) format = Unix_getAddressString u format"

fun SA_getSystemAddress :: "bool \<Rightarrow> SocketAddress \<Rightarrow> nat \<Rightarrow> nat \<Rightarrow> nat \<times> sockaddr option" where
  "SA_getSystemAddress v6 (Internet a) len type = getSystemAddress v6 a len type"
| "SA_getSystemAddress v6 (UnixDomain u) len type = Unix_getSystemAddress u len type"

fun SA_duplicate :: "addrenv \<Rightarrow> SocketAddress \<Rightarrow> SocketAddress" where
  "SA_duplicate e (Internet a) = Internet (init_copy (RawInternet e) a)"
| "SA_duplicate e (UnixDomain u) = UnixDomain (Unix_duplicate (RawUnix e) u)"

section \<open>Factories\<close>

definition createSocketAddress_family :: "addrenv \<Rightarrow> nat \<Rightarrow> SocketAddress option" where
  "createSocketAddress_family e family =
     (if family = AF_INET \<or> family = AF_INET6 then Some (Internet (InternetAddress_default (RawInternet e)))
      else if family = AF_UNIX then Some (UnixDomain (Unix_reset (RawUnix e)))
      else None)"

definition createSocketAddress_name :: "addrenv \<Rightarrow> card32 \<Rightarrow> String \<Rightarrow> SocketAddress option" where
  "createSocketAddress_name e flags name =
     (let internetAddress =
            (if has_flag flags PF_HidePort
             then InternetAddress_of_host_port (Resolver e) (UseIPv6 e) (RawInternet e) name 0
             else InternetAddress_of_String (Resolver e) (UseIPv6 e) (RawInternet e) name)
      in if Valid internetAddress then Some (Internet internetAddress)
         else let unixAddress = Unix_init (RawUnix e) name
              in if Unix_isValid unixAddress then Some (UnixDomain unixAddress) else None)"

definition createSocketAddress_port :: "addrenv \<Rightarrow> card32 \<Rightarrow> String \<Rightarrow> card16 \<Rightarrow> SocketAddress option" where
  "createSocketAddress_port e flags name port =
     (let internetAddress = InternetAddress_of_host_port (Resolver e) (UseIPv6 e) (RawInternet e) name port
      in if Valid internetAddress then Some (Internet internetAddress) else None)"

definition createSocketAddress_sockaddr :: "addrenv \<Rightarrow> card32 \<Rightarrow> sockaddr \<Rightarrow> SocketAddress option" where
  "createSocketAddress_sockaddr e flags sa =
     (if sa_family sa = AF_INET \<or> sa_family sa = AF_INET6 then
        let internetAddress = init_sockaddr (RawInternet e) sa
        in if Valid internetAddress then Some (Internet internetAddress) else None
      else if sa_family sa = AF_UNIX then
        let unixAddress = snd (Unix_setSystemAddress (RawUnix e) sa)
        in if Unix_isValid unixAddress then Some (UnixDomain unixAddress) else None
      else None)"

section \<open>Null-terminated address arrays\<close>

type_synonym address_array = "SocketAddress option list"

definition newAddressList :: "nat \<Rightarrow> address_array" where
  "newAddressList entries = replicate (entries + 1) None"

text \<open>
  Deleting walks to the terminating null pointer; it reads behind the array when there is
  none. The result counts the deleted addresses.
\<close>

fun deleteAddressList_loop :: "address_array \<Rightarrow> nat \<Rightarrow> nat result" where
  "deleteAddressList_loop [] i = Inl BadPointer"
| "deleteAddressList_loop (None # as) i = Inr i"
| "deleteAddressList_loop (Some a # as) i = deleteAddressList_loop as (Suc i)"

definition deleteAddressList :: "address_array option \<Rightarrow> (nat \<times> address_array option) result" where
  "deleteAddressList list =
     (case list of
        None \<Rightarrow> Inr (0, None)
      | Some as \<Rightarrow> andThen (deleteAddressList_loop as 0) (\<lambda>n. Inr (n, None)))"

text \<open>The addresses in front of the first null pointer.\<close>

fun listed :: "address_array \<Rightarrow> SocketAddress list" where
  "listed (Some a # as) = a # listed as"
| "listed _ = []"

section \<open>Laws\<close>

lemma cstr_append_NUL: "NUL \<notin> set s \<Longrightarrow> cstr (s @ NUL # t) = s"
  by (induction s) (auto simp: cstr_def)

lemma cstr_take: "NUL \<in> set (take n s) \<Longrightarrow> cstr (take n s @ t) = cstr s"
proof -
  assume "NUL \<in> set (take n s)"
  then have "takeWhile (\<lambda>c. c \<noteq> NUL) (take n s @ t) = takeWhile (\<lambda>c. c \<noteq> NUL) (take n s @ drop n s)"
    by (subst (1 2) takeWhile_append1 [of NUL]) auto
  then show ?thesis by (simp add: cstr_def)
qed

lemma Unix_init_name:
  assumes "length (Name raw) = Suc MaxNameLength" "NUL \<notin> set name" "length name + 5 < MaxNameLength"
  shows "Name (Unix_init raw (Some (''unix:'' @ name))) = name @ NUL # drop (Suc (length name)) (Name raw)"
proof -
  have "wf_String (Some (''unix:'' @ name))" using assms(2) by (simp add: wf_String_def)
  then have "left (Some (''unix:'' @ name)) 5 = Some ''unix:''"
    "chars (mid_from (Some (''unix:'' @ name)) 5) = name"
    using assms(3) by (simp_all add: left_eq mid_eq mid_from_def MaxNameLength_def chars_def)
  with assms show ?thesis
    by (simp add: Unix_init_def copy_into_def stringLength_def String_eq_def stringCompare_def
        Let_def drop_update_cancel)
qed

lemma Unix_text:
  assumes "NUL \<notin> set name" "name \<noteq> []" "Name u = name @ NUL # t"
  shows "Unix_isValid u \<and> Unix_getAddressString u f = Some (''unix:'' @ name)"
proof -
  have "Name u ! 0 \<noteq> NUL" using assms by (cases name) auto
  moreover have "String_of (Some (Name u)) = Some name"
    using assms by (simp add: String_of_def stringDuplicate_def cstr_append_NUL)
  ultimately show ?thesis
    using assms(1) by (simp add: Unix_isValid_def Unix_isNull_def Unix_getAddressString_def String_plus_eq)
qed

lemma Unix_init_invalid:
  assumes "length (Name raw) = Suc MaxNameLength"
    "MaxNameLength \<le> stringLength name \<or> \<not> String_eq (left name 5) (Some ''unix:'')"
  shows "\<not> Unix_isValid (Unix_init raw name)"
proof -
  have "Name raw \<noteq> []" using assms(1) by auto
  with assms(2) show ?thesis
    by (auto simp: Unix_init_def Unix_isValid_def Unix_isNull_def Let_def)
qed

lemma take_name:
  assumes "length name < n"
  shows "take n (name @ NUL # t) @ [NUL] = name @ NUL # (take (n - Suc (length name)) t @ [NUL])"
proof -
  obtain k where "n = length name + Suc k" using less_imp_Suc_add [OF assms] by auto
  then show ?thesis by simp
qed

lemma String_eq_Some: "String_eq (Some a) (Some b) \<longleftrightarrow> a = b"
  using cstring_cmp.cmp_zero by (simp add: String_eq_def stringCompare_def)

section \<open>Properties\<close>

text \<open>
  Unix addresses: a name behind the prefix \<^verbatim>\<open>unix:\<close> that fits into the name field gives
  a valid address whose text is that name again, also after a round trip through a
  \<^verbatim>\<open>sockaddr_un\<close>; a string that is too long or has no such prefix gives an invalid one.
\<close>

theorem unix_address_roundtrip:
  assumes "wf_unix raw" "wf_unix raw'" "NUL \<notin> set name"
  shows "(name \<noteq> [] \<and> length name + 5 < MaxNameLength \<longrightarrow>
      (let u = Unix_init raw (Some (''unix:'' @ name));
           sa = snd (Unix_getSystemAddress u sizeof_sockaddr_un AF_UNIX);
           v = snd (Unix_setSystemAddress raw' (the sa))
       in Unix_isValid u \<and> Unix_getAddressString u f = Some (''unix:'' @ name) \<and>
          sa \<noteq> None \<and> Unix_isValid v \<and> Unix_getAddressString v f = Some (''unix:'' @ name))) \<and>
    (MaxNameLength \<le> length name \<or> take 5 name \<noteq> ''unix:'' \<longrightarrow>
      \<not> Unix_isValid (Unix_init raw (Some name)))"
proof (intro conjI impI)
  assume n: "name \<noteq> [] \<and> length name + 5 < MaxNameLength"
  let ?u = "Unix_init raw (Some (''unix:'' @ name))"
  have u: "Name ?u = name @ NUL # drop (Suc (length name)) (Name raw)"
    using assms n by (intro Unix_init_name) (auto simp: wf_unix_def)
  have "take MaxNameLength (Name ?u) @ [NUL] =
      name @ NUL # (take (MaxNameLength - Suc (length name)) (drop (Suc (length name)) (Name raw)) @ [NUL])"
    unfolding u using n by (intro take_name) auto
  then show "let u = ?u; sa = snd (Unix_getSystemAddress u sizeof_sockaddr_un AF_UNIX);
           v = snd (Unix_setSystemAddress raw' (the sa))
       in Unix_isValid u \<and> Unix_getAddressString u f = Some (''unix:'' @ name) \<and>
          sa \<noteq> None \<and> Unix_isValid v \<and> Unix_getAddressString v f = Some (''unix:'' @ name)"
    using Unix_text [OF assms(3) _ u] n
      Unix_text [OF assms(3), of "raw'\<lparr>Name := take MaxNameLength (Name ?u) @ [NUL]\<rparr>"]
    by (simp add: Let_def Unix_getSystemAddress_def Unix_setSystemAddress_def af_defs)
next
  assume "MaxNameLength \<le> length name \<or> take 5 name \<noteq> ''unix:''"
  with assms show "\<not> Unix_isValid (Unix_init raw (Some name))"
    by (intro Unix_init_invalid) (auto simp: wf_unix_def stringLength_def left_eq String_eq_Some)
qed

definition sample_unix :: UnixAddress where
  "sample_unix = \<lparr>Name = replicate 109 NUL, UFormat = PF_Default\<rparr>"

theorem unix_address_roundtrip_witness:
  "Unix_getAddressString (Unix_init sample_unix (Some ''unix:/tmp/s'')) 0 = Some ''unix:/tmp/s'' \<and>
   \<not> Unix_isValid (Unix_init sample_unix (Some ''/tmp/s''))"
  using unix_address_roundtrip [of sample_unix sample_unix "''/tmp/s''" 0]
  by (simp add: wf_unix_def sample_unix_def MaxNameLength_def Let_def)

text \<open>
  Copying a Unix address does not copy it: since the copy constructor hands the plain
  name to the constructor that requires the prefix \<^verbatim>\<open>unix:\<close>, the duplicate of every address
  whose name does not itself start with that prefix is invalid.
\<close>

theorem Unix_duplicate_drops_name:
  assumes "wf_unix raw" "take 5 (cstr (Name u)) \<noteq> ''unix:''"
  shows "\<not> Unix_isValid (Unix_duplicate raw u) \<and>
    Unix_getAddressString (Unix_duplicate raw u) f = Some ''(invalid)''"
proof -
  have s: "String_of (Some (Name u)) = Some (cstr (Name u))"
    by (simp add: String_of_def stringDuplicate_def)
  have "\<not> Unix_isValid (Unix_duplicate raw u)"
    unfolding Unix_duplicate_def Unix_init_copy_def s using assms
    by (intro Unix_init_invalid) (auto simp: wf_unix_def left_eq String_eq_Some NUL_notin_cstr)
  then show ?thesis
    by (simp add: Unix_isValid_def Unix_isNull_def Unix_getAddressString_def String_of_wf)
qed

theorem Unix_duplicate_drops_name_witness:
  "Unix_getAddressString
     (Unix_duplicate sample_unix (sample_unix\<lparr>Name := ''/tmp/s'' @ replicate 102 NUL\<rparr>)) 0 = Some ''(invalid)''"
  using Unix_duplicate_drops_name [of sample_unix "sample_unix\<lparr>Name := ''/tmp/s'' @ replicate 102 NUL\<rparr>" 0]
  by (simp add: wf_unix_def sample_unix_def MaxNameLength_def cstr_def)

text \<open>
  The factory for system addresses undoes \<^verbatim>\<open>getSystemAddress\<close>: an Internet address written
  as \<^verbatim>\<open>AF_INET6\<close> comes back with its host, port and scope, a Unix address with a non-empty name
  with its name, and a structure of another family gives no object.
\<close>

theorem sockaddr_factory_roundtrip:
  "(length (Host16 a) = 8 \<longrightarrow>
      (\<exists>sa b. SA_getSystemAddress v6 (Internet a) 128 AF_INET6 = (28, Some sa) \<and>
        createSocketAddress_sockaddr e flags sa = Some (Internet b) \<and>
        (Host16 b, Port b, ScopeID b) = (Host16 a, Port a, ScopeID a))) \<and>
   (wf_unix u \<and> NUL \<in> set (take MaxNameLength (Name u)) \<and> \<not> Unix_isNull u \<longrightarrow>
      (\<exists>sa v. SA_getSystemAddress v6 (UnixDomain u) 128 AF_UNIX = (110, Some sa) \<and>
        createSocketAddress_sockaddr e flags sa = Some (UnixDomain v) \<and> cstr (Name v) = cstr (Name u))) \<and>
   (sa_family sa \<notin> {AF_INET, AF_INET6, AF_UNIX} \<longrightarrow> createSocketAddress_sockaddr e flags sa = None)"
proof (intro conjI impI)
  assume "length (Host16 a) = 8"
  then show "\<exists>sa b. SA_getSystemAddress v6 (Internet a) 128 AF_INET6 = (28, Some sa) \<and>
        createSocketAddress_sockaddr e flags sa = Some (Internet b) \<and>
        (Host16 b, Port b, ScopeID b) = (Host16 a, Port a, ScopeID a)"
    using scope_roundtrip [of "ScopeID a"]
    by (simp add: getSystemAddress_def createSocketAddress_sockaddr_def init_sockaddr_def
        setSystemAddress_def setPrintFormat_def sizeof_sockaddr_in6_def af_defs Let_def)
next
  assume u: "wf_unix u \<and> NUL \<in> set (take MaxNameLength (Name u)) \<and> \<not> Unix_isNull u"
  then have "take MaxNameLength (Name u) \<noteq> []" by (auto simp: MaxNameLength_def)
  with u have "(take MaxNameLength (Name u) @ [NUL]) ! 0 \<noteq> NUL"
    by (auto simp: nth_append Unix_isNull_def)
  then show "\<exists>sa v. SA_getSystemAddress v6 (UnixDomain u) 128 AF_UNIX = (110, Some sa) \<and>
        createSocketAddress_sockaddr e flags sa = Some (UnixDomain v) \<and> cstr (Name v) = cstr (Name u)"
    using u cstr_take [of MaxNameLength "Name u" "[NUL]"]
    by (simp add: Unix_getSystemAddress_def createSocketAddress_sockaddr_def sizeof_sockaddr_un_def
        Unix_setSystemAddress_def Unix_isValid_def Unix_isNull_def af_defs Let_def)
qed (simp add: createSocketAddress_sockaddr_def)

definition sample_env :: addrenv where
  "sample_env = \<lparr>
     Resolver = \<lparr>getaddrinfo = (\<lambda>n f h. None), getservice = (\<lambda>s. None), getnameinfo = (\<lambda>s. None),
       if_indextoname = (\<lambda>i. None)\<rparr>,
     UseIPv6 = True, RawInternet = sample_v4, RawUnix = sample_unix\<rparr>"

theorem sockaddr_factory_roundtrip_witness:
  "(\<exists>sa b. SA_getSystemAddress True (Internet sample_v6) 128 AF_INET6 = (28, Some sa) \<and>
      createSocketAddress_sockaddr sample_env 0 sa = Some (Internet b) \<and> ScopeID b = 3) \<and>
   createSocketAddress_sockaddr sample_env 0 (SockaddrOther 77 0) = None"
  using sockaddr_factory_roundtrip
    [of sample_v6 True sample_env 0 "sample_unix" "SockaddrOther 77 0"]
  by (auto simp: sample_v6_def af_defs)

end
