(* ===== verification/NotificationQueue.thy ===== *)
theory NotificationQueue
  imports InternetAddresses
begin

unbundle bit_operations_syntax

text \<open>
  The queue of notifications of a socket or an association
  (\<^verbatim>\<open>sctpnotificationqueue.h\<close>, \<^verbatim>\<open>sctpnotificationqueue.cc\<close>): a singly linked list with
  pointers to its first and last node and a counter. The nodes live in a store of their own,
  so that \<^verbatim>\<open>new\<close>, \<^verbatim>\<open>delete\<close> and every use of a pointer are visible; the update condition
  that an insertion fires belongs to the caller.

  The locale \<open>fifo\<close> states what clients rely on; it is interpreted by the linked list.
\<close>

section \<open>Notifications\<close>

definition SCTP_UNDEFINED :: nat where "SCTP_UNDEFINED = 0"
definition SCTP_ASSOC_CHANGE :: nat where "SCTP_ASSOC_CHANGE = 1"
definition SCTP_PEER_ADDR_CHANGE :: nat where "SCTP_PEER_ADDR_CHANGE = 2"
definition SCTP_REMOTE_ERROR :: nat where "SCTP_REMOTE_ERROR = 3"
definition SCTP_SEND_FAILED :: nat where "SCTP_SEND_FAILED = 4"
definition SCTP_SHUTDOWN_EVENT :: nat where "SCTP_SHUTDOWN_EVENT = 5"
definition SCTP_DATA_ARRIVE :: nat where "SCTP_DATA_ARRIVE = 8"

lemmas sn_type_defs = SCTP_UNDEFINED_def SCTP_ASSOC_CHANGE_def SCTP_PEER_ADDR_CHANGE_def
  SCTP_REMOTE_ERROR_def SCTP_SEND_FAILED_def SCTP_SHUTDOWN_EVENT_def SCTP_DATA_ARRIVE_def

definition SCTP_RECVDATAIOEVNT :: card32 where "SCTP_RECVDATAIOEVNT = 1"
definition SCTP_RECVASSOCEVNT :: card32 where "SCTP_RECVASSOCEVNT = 2"
definition SCTP_RECVPADDREVNT :: card32 where "SCTP_RECVPADDREVNT = 4"
definition SCTP_RECVPEERERR :: card32 where "SCTP_RECVPEERERR = 8"
definition SCTP_RECVSENDFAILEVNT :: card32 where "SCTP_RECVSENDFAILEVNT = 16"
definition SCTP_RECVSHUTDOWNEVNT :: card32 where "SCTP_RECVSHUTDOWNEVNT = 32"

lemmas recv_flag_defs = SCTP_RECVDATAIOEVNT_def SCTP_RECVASSOCEVNT_def SCTP_RECVPADDREVNT_def
  SCTP_RECVPEERERR_def SCTP_RECVSENDFAILEVNT_def SCTP_RECVSHUTDOWNEVNT_def

text \<open>
  The union \<^verbatim>\<open>sctp_notification\<close>: the common header and the struct last written to it.
\<close>

datatype notification_body =
    NoBody
  | AssocChange (sac_state: nat) (sac_error: card16) (sac_outbound_streams: card16)
      (sac_inbound_streams: card16) (sac_assoc_id: card32)
  | PaddrChange (spc_aaddr: "sockaddr option") (spc_state: int) (spc_error: int) (spc_assoc_id: card32)
  | RemoteError (sre_error: card16) (sre_assoc_id: card32)
  | SendFailed (ssf_error: card32) (sinfo_stream: card16) (sinfo_ssn: card16) (ssf_assoc_id: card32)
  | ShutdownEvent (sse_assoc_id: card32)
  | DataArrive (sda_assoc_id: card32) (sda_stream: card16) (sda_ppid: card32) (sda_bytes_arrived: nat)

record sctp_notification =
  sn_type :: nat
  sn_flags :: card16
  sn_length :: nat
  sn_body :: notification_body

text \<open>
  The 32-bit word that \<^verbatim>\<open>sre_assoc_id\<close> names (offset 12); in a \<^verbatim>\<open>sctp_send_failed\<close> the words
  \<^verbatim>\<open>sinfo_stream\<close> and \<^verbatim>\<open>sinfo_ssn\<close> lie there.
\<close>

fun remote_error_assoc_id :: "notification_body \<Rightarrow> card32" where
  "remote_error_assoc_id (SendFailed e stream ssn a) = ucast stream OR push_bit 16 (ucast ssn)"
| "remote_error_assoc_id (RemoteError e a) = a"
| "remote_error_assoc_id _ = 0"

record SCTPNotification =
  RemotePort :: card16
  RemoteAddresses :: nat
  RemoteAddress :: "cstring list"
  Content :: sctp_notification
  ContentPosition :: nat

text \<open>Whether a notification of a type is data or one that the flags ask for.\<close>

definition flag_set :: "card32 \<Rightarrow> card32 \<Rightarrow> bool" where
  "flag_set flags f = (flags AND f \<noteq> 0)"

definition subscribed :: "card32 \<Rightarrow> nat \<Rightarrow> bool" where
  "subscribed notificationFlags type =
     ((type = SCTP_ASSOC_CHANGE \<and> flag_set notificationFlags SCTP_RECVASSOCEVNT) \<or>
      (type = SCTP_PEER_ADDR_CHANGE \<and> flag_set notificationFlags SCTP_RECVPADDREVNT) \<or>
      (type = SCTP_REMOTE_ERROR \<and> flag_set notificationFlags SCTP_RECVPEERERR) \<or>
      (type = SCTP_SEND_FAILED \<and> flag_set notificationFlags SCTP_RECVSENDFAILEVNT) \<or>
      (type = SCTP_SHUTDOWN_EVENT \<and> flag_set notificationFlags SCTP_RECVSHUTDOWNEVNT))"

definition wanted :: "card32 \<Rightarrow> SCTPNotification \<Rightarrow> bool" where
  "wanted notificationFlags n =
     (sn_type (Content n) = SCTP_DATA_ARRIVE \<or> subscribed notificationFlags (sn_type (Content n)))"

section \<open>The linked list\<close>

record 'n nqueue =
  Nodes :: "nat \<Rightarrow> ('n \<times> nat option) option"
  NextFree :: nat
  Count :: nat
  First :: "nat option"
  Last :: "nat option"

definition queue_new :: "'n nqueue" where
  "queue_new = \<lparr>Nodes = Map.empty, NextFree = 0, Count = 0, First = None, Last = None\<rparr>"

text \<open>Writing the link of a node; the node must exist.\<close>

definition set_next :: "nat \<Rightarrow> nat option \<Rightarrow> 'n nqueue \<Rightarrow> 'n nqueue result" where
  "set_next p nx q =
     andThen (ofOption (Nodes q p)) (\<lambda>(n, _). Inr (q\<lparr>Nodes := (Nodes q)(p \<mapsto> (n, nx))\<rparr>))"

definition addNotification :: "'n nqueue \<Rightarrow> 'n \<Rightarrow> 'n nqueue result" where
  "addNotification q n =
     (let p = NextFree q;
          q = q\<lparr>Nodes := (Nodes q)(p \<mapsto> (n, None)), NextFree := Suc p\<rparr>
      in andThen (case Last q of None \<Rightarrow> Inr q | Some l \<Rightarrow> set_next l (Some p) q) (\<lambda>q.
         let q = q\<lparr>Last := Some p\<rparr>;
             q = (if First q = None then q\<lparr>First := Some p\<rparr> else q)
         in Inr (q\<lparr>Count := Count q + 1\<rparr>)))"

definition getNotification :: "'n nqueue \<Rightarrow> 'n option result" where
  "getNotification q =
     (case First q of
        None \<Rightarrow> Inr None
      | Some f \<Rightarrow> andThen (ofOption (Nodes q f)) (\<lambda>(n, _). Inr (Some n)))"

definition updateNotification :: "'n nqueue \<Rightarrow> 'n \<Rightarrow> 'n nqueue result" where
  "updateNotification q n =
     (case First q of
        None \<Rightarrow> Inr q
      | Some f \<Rightarrow> andThen (ofOption (Nodes q f)) (\<lambda>(_, nx).
          Inr (q\<lparr>Nodes := (Nodes q)(f \<mapsto> (n, nx))\<rparr>)))"

definition dropNotification :: "'n nqueue \<Rightarrow> 'n nqueue result" where
  "dropNotification q =
     (case First q of
        None \<Rightarrow> Inr q
      | Some f \<Rightarrow> andThen (ofOption (Nodes q f)) (\<lambda>(_, nx).
          let q = (if Last q = First q then q\<lparr>Last := nx\<rparr> else q)
          in Inr (q\<lparr>Nodes := (Nodes q)(f := None), First := nx, Count := Count q - 1\<rparr>)))"

text \<open>
  The loops over the nodes. The number of nodes ever allocated bounds them, unless the links
  form a cycle.
\<close>

fun flush_loop :: "nat \<Rightarrow> nat option \<Rightarrow> 'n nqueue \<Rightarrow> 'n nqueue result" where
  "flush_loop k None q = Inr q"
| "flush_loop 0 (Some p) q = Inl OutOfFuel"
| "flush_loop (Suc k) (Some p) q =
     andThen (ofOption (Nodes q p)) (\<lambda>(_, nx). flush_loop k nx (q\<lparr>Nodes := (Nodes q)(p := None)\<rparr>))"

definition flush :: "'n nqueue \<Rightarrow> 'n nqueue result" where
  "flush q = andThen (flush_loop (NextFree q) (First q) q) (\<lambda>q.
     Inr (q\<lparr>First := None, Last := None, Count := 0\<rparr>))"

fun hasData_loop :: "('n \<Rightarrow> bool) \<Rightarrow> nat \<Rightarrow> nat option \<Rightarrow> 'n nqueue \<Rightarrow> bool result" where
  "hasData_loop f k None q = Inr False"
| "hasData_loop f 0 (Some p) q = Inl OutOfFuel"
| "hasData_loop f (Suc k) (Some p) q =
     andThen (ofOption (Nodes q p)) (\<lambda>(n, nx). if f n then Inr True else hasData_loop f k nx q)"

definition queue_any :: "('n \<Rightarrow> bool) \<Rightarrow> 'n nqueue \<Rightarrow> bool result" where
  "queue_any f q = hasData_loop f (NextFree q) (First q) q"

definition queue_hasData :: "SCTPNotification nqueue \<Rightarrow> card32 \<Rightarrow> bool result" where
  "queue_hasData q notificationFlags = queue_any (wanted notificationFlags) q"

section \<open>Abstraction and invariant\<close>

fun walk :: "(nat \<Rightarrow> ('n \<times> nat option) option) \<Rightarrow> nat \<Rightarrow> nat option \<Rightarrow> 'n list" where
  "walk h 0 p = []"
| "walk h (Suc k) None = []"
| "walk h (Suc k) (Some p) = (case h p of None \<Rightarrow> [] | Some (n, nx) \<Rightarrow> n # walk h k nx)"

definition items :: "'n nqueue \<Rightarrow> 'n list" where
  "items q = walk (Nodes q) (Count q) (First q)"

fun linked :: "(nat \<Rightarrow> ('n \<times> nat option) option) \<Rightarrow> nat option \<Rightarrow> (nat \<times> 'n) list \<Rightarrow> bool" where
  "linked h p [] = (p = None)"
| "linked h p ((a, n) # xs) = (p = Some a \<and> (\<exists>nx. h a = Some (n, nx) \<and> linked h nx xs))"

definition represents :: "'n nqueue \<Rightarrow> (nat \<times> 'n) list \<Rightarrow> bool" where
  "represents q xs =
     (linked (Nodes q) (First q) xs \<and> distinct (map fst xs) \<and> dom (Nodes q) = fst ` set xs \<and>
      Last q = (if xs = [] then None else Some (fst (last xs))) \<and> Count q = length xs \<and>
      (\<forall>a \<in> fst ` set xs. a < NextFree q))"

text \<open>The chain of nodes is sound: no cycle, no dangling pointer, and no node is lost.\<close>

definition queue_inv :: "'n nqueue \<Rightarrow> bool" where
  "queue_inv q = (\<exists>xs. represents q xs)"

lemma walk_linked: "linked h p xs \<Longrightarrow> walk h (length xs) p = map snd xs"
  by (induction h p xs rule: linked.induct) auto

lemma items_represents: "represents q xs \<Longrightarrow> items q = map snd xs"
  using walk_linked by (auto simp: represents_def items_def)

lemma linked_frame: "a \<notin> fst ` set xs \<Longrightarrow> linked (h(a := v)) p xs = linked h p xs"
  by (induction h p xs rule: linked.induct) auto

lemma linked_snoc:
  "linked h p (xs @ [(l, m)]) \<Longrightarrow> distinct (map fst (xs @ [(l, m)])) \<Longrightarrow> a \<notin> fst ` set (xs @ [(l, m)]) \<Longrightarrow>
   linked (h(a \<mapsto> (n, None), l \<mapsto> (m, Some a))) p (xs @ [(l, m), (a, n)])"
proof (induction h p xs rule: linked.induct)
  case (2 h p b k xs)
  then obtain nx where "h b = Some (k, nx)" "linked h nx (xs @ [(l, m)])" "p = Some b" by auto
  with 2 show ?case by auto
qed auto

lemma linked_last: "linked h p (xs @ [(l, m)]) \<Longrightarrow> h l = Some (m, None)"
  by (induction h p xs rule: linked.induct) auto

lemma represents_new: "represents queue_new []"
  by (simp add: represents_def queue_new_def)

lemma represents_add:
  assumes "represents q xs"
  shows "\<exists>q'. addNotification q n = Inr q' \<and> represents q' (xs @ [(NextFree q, n)])"
proof (cases xs rule: rev_cases)
  case Nil
  then show ?thesis using assms by (auto simp: represents_def addNotification_def Let_def)
next
  case (snoc ys y)
  obtain l m where y: "y = (l, m)" by fastforce
  let ?a = "NextFree q"
  have fresh: "?a \<notin> fst ` set xs" "l \<noteq> ?a" using assms snoc y by (auto simp: represents_def)
  have "Nodes q l = Some (m, None)" "Last q = Some l" "First q \<noteq> None"
    using assms snoc y linked_last [of "Nodes q" "First q" ys l m]
    by (auto simp: represents_def) (cases ys; auto)
  moreover have "linked ((Nodes q)(?a \<mapsto> (n, None), l \<mapsto> (m, Some ?a))) (First q) (xs @ [(?a, n)])"
    using assms fresh(1) linked_snoc [of "Nodes q" "First q" ys l m ?a n]
    by (simp add: represents_def snoc y)
  ultimately show ?thesis
    using assms fresh snoc y by (auto simp: represents_def addNotification_def set_next_def Let_def)
qed

lemma represents_get:
  "represents q xs \<Longrightarrow> getNotification q = Inr (case xs of [] \<Rightarrow> None | x # _ \<Rightarrow> Some (snd x))"
  by (cases xs) (auto simp: represents_def getNotification_def)

lemma represents_update:
  assumes "represents q xs"
  shows "\<exists>q'. updateNotification q n = Inr q' \<and>
    represents q' (case xs of [] \<Rightarrow> [] | x # ys \<Rightarrow> (fst x, n) # ys)"
proof (cases xs)
  case Nil
  with assms show ?thesis by (simp add: represents_def updateNotification_def)
next
  case (Cons x ys)
  obtain a m where x: "x = (a, m)" by fastforce
  from assms Cons x obtain nx where "Nodes q a = Some (m, nx)" "linked (Nodes q) nx ys" "First q = Some a"
    by (auto simp: represents_def)
  with assms Cons x show ?thesis
    by (auto simp: represents_def updateNotification_def linked_frame)
qed

lemma represents_drop:
  assumes "represents q xs"
  shows "\<exists>q'. dropNotification q = Inr q' \<and> represents q' (tl xs)"
proof (cases xs)
  case Nil
  with assms show ?thesis by (simp add: represents_def dropNotification_def)
next
  case (Cons x ys)
  obtain a m where x: "x = (a, m)" by fastforce
  from assms Cons x obtain nx where n: "Nodes q a = Some (m, nx)" "linked (Nodes q) nx ys" "First q = Some a"
    by (auto simp: represents_def)
  have "ys \<noteq> [] \<Longrightarrow> Last q \<noteq> First q" using assms Cons x n(3) by (auto simp: represents_def)
  moreover have "ys = [] \<Longrightarrow> nx = None \<and> Last q = First q" using assms Cons x n by (auto simp: represents_def)
  ultimately show ?thesis
    using assms Cons x n
    by (cases "ys = []") (auto simp: represents_def dropNotification_def linked_frame Let_def dom_eq_singleton_conv)
qed

lemma flush_linked:
  "linked (Nodes q) p xs \<Longrightarrow> distinct (map fst xs) \<Longrightarrow> length xs \<le> k \<Longrightarrow>
   flush_loop k p q = Inr (q\<lparr>Nodes := (Nodes q) |` (- (fst ` set xs))\<rparr>)"
proof (induction k p q arbitrary: xs rule: flush_loop.induct)
  case (1 k q)
  then show ?case by (cases xs) auto
next
  case (2 p q)
  then show ?case by (cases xs) auto
next
  case (3 k p q)
  then obtain n ys where xs: "xs = (p, n) # ys" by (cases xs) auto
  with 3 obtain nx where n: "Nodes q p = Some (n, nx)" "linked (Nodes q) nx ys" by auto
  have "(Nodes q)(p := None) |` (- (fst ` set ys)) = Nodes q |` (- (fst ` set xs))"
    by (auto simp: xs restrict_map_def)
  moreover have "flush_loop k nx (q\<lparr>Nodes := (Nodes q)(p := None)\<rparr>)
      = Inr (q\<lparr>Nodes := (Nodes q)(p := None) |` (- (fst ` set ys))\<rparr>)"
    using 3 n xs by (subst 3(1) [where xs = ys]) (auto simp: linked_frame)
  ultimately show ?case using n(1) by simp
qed

lemma any_linked:
  "linked (Nodes q) p xs \<Longrightarrow> length xs \<le> k \<Longrightarrow> hasData_loop f k p q = Inr (\<exists>x \<in> set xs. f (snd x))"
proof (induction f k p q arbitrary: xs rule: hasData_loop.induct)
  case (1 f k q)
  then show ?case by (cases xs) auto
next
  case (2 f p q)
  then show ?case by (cases xs) auto
next
  case (3 f k p q)
  then obtain n ys where "xs = (p, n) # ys" by (cases xs) auto
  with 3 show ?case by auto
qed

lemma represents_length: "represents q xs \<Longrightarrow> length xs \<le> NextFree q"
proof -
  assume r: "represents q xs"
  then have "distinct (map fst xs)" by (simp add: represents_def)
  from distinct_card [OF this] have "card (set (map fst xs)) = length xs" by simp
  moreover have "card (set (map fst xs)) \<le> card {..<NextFree q}"
    using r by (intro card_mono) (auto simp: represents_def)
  ultimately show ?thesis by simp
qed

lemma represents_flush:
  assumes "represents q xs"
  shows "\<exists>q'. flush q = Inr q' \<and> represents q' []"
proof -
  have "Nodes q |` (- (fst ` set xs)) = Map.empty"
    using assms by (auto simp: represents_def restrict_map_def dom_def fun_eq_iff)
  with assms represents_length [OF assms] flush_linked [of q "First q" xs "NextFree q"] show ?thesis
    by (simp add: represents_def flush_def)
qed

lemma represents_any:
  "represents q xs \<Longrightarrow> queue_any f q = Inr (\<exists>x \<in> set xs. f (snd x))"
  using represents_length [of q xs] any_linked [of q "First q" xs "NextFree q" f]
  by (simp add: represents_def queue_any_def)

section \<open>The interface\<close>

locale fifo =
  fixes inv :: "'q \<Rightarrow> bool" and contents :: "'q \<Rightarrow> 'n list"
    and new :: 'q and add :: "'q \<Rightarrow> 'n \<Rightarrow> 'q result" and get :: "'q \<Rightarrow> 'n option result"
    and upd :: "'q \<Rightarrow> 'n \<Rightarrow> 'q result" and drp :: "'q \<Rightarrow> 'q result"
    and clear :: "'q \<Rightarrow> 'q result" and any :: "('n \<Rightarrow> bool) \<Rightarrow> 'q \<Rightarrow> bool result"
  assumes new_ok: "inv new \<and> contents new = []"
    and add_ok: "inv q \<Longrightarrow> \<exists>q'. add q n = Inr q' \<and> inv q' \<and> contents q' = contents q @ [n]"
    and get_ok: "inv q \<Longrightarrow> get q = Inr (case contents q of [] \<Rightarrow> None | n # _ \<Rightarrow> Some n)"
    and upd_ok: "inv q \<Longrightarrow> \<exists>q'. upd q n = Inr q' \<and> inv q' \<and>
      contents q' = (case contents q of [] \<Rightarrow> [] | _ # ns \<Rightarrow> n # ns)"
    and drp_ok: "inv q \<Longrightarrow> \<exists>q'. drp q = Inr q' \<and> inv q' \<and> contents q' = tl (contents q)"
    and clear_ok: "inv q \<Longrightarrow> \<exists>q'. clear q = Inr q' \<and> inv q' \<and> contents q' = []"
    and any_ok: "inv q \<Longrightarrow> any f q = Inr (\<exists>n \<in> set (contents q). f n)"
begin

lemma add_all:
  "inv q \<Longrightarrow> \<exists>q'. forEach (\<lambda>n q. add q n) ns q = Inr q' \<and> inv q' \<and> contents q' = contents q @ ns"
proof (induction ns arbitrary: q)
  case (Cons n ns)
  from add_ok [OF Cons.prems, of n] obtain q1
    where "add q n = Inr q1" "inv q1" "contents q1 = contents q @ [n]" by blast
  with Cons.IH [of q1] show ?case by auto
qed simp

lemma drp_many:
  "inv q \<Longrightarrow> \<exists>q'. forEach (\<lambda>_ q. drp q) us q = Inr q' \<and> inv q' \<and> contents q' = drop (length us) (contents q)"
proof (induction us arbitrary: q)
  case (Cons u us)
  from drp_ok [OF Cons.prems] obtain q1
    where "drp q = Inr q1" "inv q1" "contents q1 = tl (contents q)" by blast
  with Cons.IH [of q1] show ?case by (auto simp: drop_Suc)
qed simp

lemma first_in_first_out:
  assumes "inv q" "contents q = []" "k < length ns"
  shows "\<exists>q1 q2. forEach (\<lambda>n q. add q n) ns q = Inr q1 \<and> forEach (\<lambda>_ q. drp q) (replicate k ()) q1 = Inr q2 \<and>
    get q2 = Inr (Some (ns ! k)) \<and> contents q2 = drop k ns"
proof -
  from add_all [OF assms(1), of ns] obtain q1
    where q1: "forEach (\<lambda>n q. add q n) ns q = Inr q1" "inv q1" "contents q1 = ns"
    using assms(2) by auto
  from drp_many [OF q1(2), of "replicate k ()"] obtain q2
    where q2: "forEach (\<lambda>_ q. drp q) (replicate k ()) q1 = Inr q2" "inv q2" "contents q2 = drop k ns"
    using q1(3) by auto
  have "drop k ns = ns ! k # drop (Suc k) ns" using assms(3) by (rule Cons_nth_drop_Suc [symmetric])
  then show ?thesis using q1(1) q2 get_ok [OF q2(2)] by auto
qed

end

interpretation nq: fifo queue_inv items queue_new addNotification getNotification
  updateNotification dropNotification flush queue_any
proof
  show "queue_inv queue_new \<and> items queue_new = []"
    using represents_new items_represents [OF represents_new] by (auto simp: queue_inv_def)
next
  fix q :: "'a nqueue" and n :: 'a and f :: "'a \<Rightarrow> bool" assume "queue_inv q"
  then obtain xs where r: "represents q xs" by (auto simp: queue_inv_def)
  note i = items_represents [OF r]
  show "\<exists>q'. addNotification q n = Inr q' \<and> queue_inv q' \<and> items q' = items q @ [n]"
    using represents_add [OF r, of n] i items_represents by (fastforce simp: queue_inv_def)
  show "getNotification q = Inr (case items q of [] \<Rightarrow> None | n # _ \<Rightarrow> Some n)"
    using represents_get [OF r] i by (cases xs) auto
  show "\<exists>q'. updateNotification q n = Inr q' \<and> queue_inv q' \<and>
      items q' = (case items q of [] \<Rightarrow> [] | _ # ns \<Rightarrow> n # ns)"
    using represents_update [OF r, of n] i items_represents
    by (cases xs) (fastforce simp: queue_inv_def)+
  show "\<exists>q'. dropNotification q = Inr q' \<and> queue_inv q' \<and> items q' = tl (items q)"
    using represents_drop [OF r] i items_represents by (fastforce simp: queue_inv_def map_tl)
  show "\<exists>q'. flush q = Inr q' \<and> queue_inv q' \<and> items q' = []"
    using represents_flush [OF r] items_represents by (fastforce simp: queue_inv_def)
  show "queue_any f q = Inr (\<exists>n \<in> set (items q). f n)"
    using represents_any [OF r, of f] i by auto
qed

section \<open>Properties\<close>

text \<open>
  C8. The linked list implements a sequence: on every sound list each operation succeeds
  (no dangling pointer is used), leaves a sound list without lost nodes behind, and acts on the
  sequence of notifications as appending, reading, replacing and removing the head, clearing,
  and searching for a notification the flags ask for.
\<close>

theorem queue_refines_list:
  assumes "queue_inv q"
  shows "(\<exists>q'. addNotification q n = Inr q' \<and> queue_inv q' \<and> items q' = items q @ [n]) \<and>
    getNotification q = Inr (case items q of [] \<Rightarrow> None | m # _ \<Rightarrow> Some m) \<and>
    (\<exists>q'. updateNotification q n = Inr q' \<and> queue_inv q' \<and>
       items q' = (case items q of [] \<Rightarrow> [] | _ # ms \<Rightarrow> n # ms)) \<and>
    (\<exists>q'. dropNotification q = Inr q' \<and> queue_inv q' \<and> items q' = tl (items q)) \<and>
    (\<exists>q'. flush q = Inr q' \<and> queue_inv q' \<and> items q' = [] \<and> Nodes q' = Map.empty) \<and>
    queue_hasData q flags = Inr (\<exists>m \<in> set (items q). wanted flags m)"
proof -
  obtain xs where r: "represents q xs" using assms by (auto simp: queue_inv_def)
  from represents_flush [OF r] obtain q' where q': "flush q = Inr q'" "represents q' []" by blast
  then have "queue_inv q'" "items q' = []" "Nodes q' = Map.empty"
    using items_represents [OF q'(2)] by (auto simp: queue_inv_def represents_def)
  with q'(1) show ?thesis
    using nq.add_ok [OF assms] nq.get_ok [OF assms] nq.upd_ok [OF assms] nq.drp_ok [OF assms]
      nq.any_ok [OF assms]
    by (simp add: queue_hasData_def)
qed

definition sample_notification :: SCTPNotification where
  "sample_notification = \<lparr>RemotePort = 80, RemoteAddresses = 0, RemoteAddress = [],
     Content = \<lparr>sn_type = SCTP_DATA_ARRIVE, sn_flags = 0, sn_length = 24, sn_body = DataArrive 1 0 0 5\<rparr>,
     ContentPosition = 0\<rparr>"

theorem queue_refines_list_witness:
  "\<exists>q'. addNotification queue_new sample_notification = Inr q' \<and> queue_inv q' \<and> items q' = [sample_notification]"
proof -
  have "queue_inv (queue_new :: SCTPNotification nqueue)" "items (queue_new :: SCTPNotification nqueue) = []"
    using nq.new_ok by auto
  then show ?thesis using queue_refines_list [of queue_new sample_notification 0] by auto
qed

text \<open>
  The queue is first-in first-out: after any sequence of insertions into an empty queue
  and \<open>k\<close> removals, the next notification read is the one inserted at position \<open>k\<close>.
\<close>

theorem queue_fifo:
  assumes "k < length ns"
  shows "\<exists>q1 q2. forEach (\<lambda>n q. addNotification q n) ns queue_new = Inr q1 \<and>
    forEach (\<lambda>_ q. dropNotification q) (replicate k ()) q1 = Inr q2 \<and>
    getNotification q2 = Inr (Some (ns ! k)) \<and> items q2 = drop k ns"
proof -
  have "queue_inv queue_new" "items queue_new = []" using nq.new_ok by auto
  then show ?thesis by (rule nq.first_in_first_out) (rule assms)
qed

theorem queue_fifo_witness:
  "\<exists>q1 q2. forEach (\<lambda>n q. addNotification q n) [7, 8, 9 :: nat] queue_new = Inr q1 \<and>
    forEach (\<lambda>_ q. dropNotification q) (replicate 1 ()) q1 = Inr q2 \<and>
    getNotification q2 = Inr (Some 8) \<and> items q2 = [8, 9]"
  using queue_fifo [of 1 "[7, 8, 9 :: nat]"] by simp

end
