(* ===== verification/Conditions.thy ===== *)
theory Conditions
  imports Prelude
begin

text \<open>
  Condition variables with parents (\<^verbatim>\<open>condition.cc\<close>, \<^verbatim>\<open>condition.icc\<close>). A store gives each
  condition its \<^verbatim>\<open>Fired\<close> flag and its set of parents, listed in the order of the
  \<^verbatim>\<open>std::set\<close>. Firing a condition fires its parents recursively; the recursion carries a
  bound, since nothing in the code excludes a cyclic parent relation.
\<close>

section \<open>State\<close>

record 'c condition =
  Fired :: bool
  ParentSet :: "'c list"

type_synonym 'c conditions = "'c \<Rightarrow> 'c condition"

definition Condition_new :: "'c condition" where
  "Condition_new = \<lparr>Fired = False, ParentSet = []\<rparr>"

section \<open>Firing\<close>

primrec broadcast :: "nat \<Rightarrow> 'c \<Rightarrow> 'c conditions \<Rightarrow> 'c conditions result" where
  "broadcast 0 c s = Inl OutOfFuel"
| "broadcast (Suc n) c s =
     (let s = s(c := (s c)\<lparr>Fired := True\<rparr>) in forEach (broadcast n) (ParentSet (s c)) s)"

text \<open>
  \<^verbatim>\<open>signal()\<close> differs in waking one waiter instead of all, and it signals its parents.
\<close>

primrec signal :: "nat \<Rightarrow> 'c \<Rightarrow> 'c conditions \<Rightarrow> 'c conditions result" where
  "signal 0 c s = Inl OutOfFuel"
| "signal (Suc n) c s =
     (let s = s(c := (s c)\<lparr>Fired := True\<rparr>) in forEach (signal n) (ParentSet (s c)) s)"

section \<open>Parents\<close>

definition set_insert :: "'c \<Rightarrow> 'c list \<Rightarrow> 'c list" where
  "set_insert c cs = (if c \<in> set cs then cs else cs @ [c])"

definition addParent :: "nat \<Rightarrow> 'c \<Rightarrow> 'c option \<Rightarrow> 'c conditions \<Rightarrow> 'c conditions result" where
  "addParent n c parent s =
     (case parent of
        None \<Rightarrow> Inr s
      | Some p \<Rightarrow>
          let s = s(c := (s c)\<lparr>ParentSet := set_insert p (ParentSet (s c))\<rparr>)
          in if Fired (s c) then broadcast n p s else Inr s)"

definition removeParent :: "'c \<Rightarrow> 'c option \<Rightarrow> 'c conditions \<Rightarrow> 'c conditions" where
  "removeParent c parent s =
     (case parent of
        None \<Rightarrow> s
      | Some p \<Rightarrow> s(c := (s c)\<lparr>ParentSet := filter (\<lambda>q. q \<noteq> p) (ParentSet (s c))\<rparr>))"

section \<open>Testing and waiting\<close>

definition fired :: "'c \<Rightarrow> 'c conditions \<Rightarrow> bool \<times> 'c conditions" where
  "fired c s = (Fired (s c), s(c := (s c)\<lparr>Fired := False\<rparr>))"

definition peekFired :: "'c \<Rightarrow> 'c conditions \<Rightarrow> bool" where
  "peekFired c s = Fired (s c)"

text \<open>The absolute time limit \<^verbatim>\<open>(tv_sec, tv_nsec)\<close> for a wait.\<close>

definition deadline :: "nat \<Rightarrow> nat \<Rightarrow> nat \<Rightarrow> nat \<times> nat" where
  "deadline now_sec now_usec microseconds =
     (let sec = now_sec + microseconds div 1000000;
          nsec = (now_usec + microseconds mod 1000000) * 1000
      in if 1000000000 \<le> nsec then (sec + 1, nsec - 1000000000) else (sec, nsec))"

text \<open>
  How a call of \<^verbatim>\<open>pthread_cond_timedwait\<close> ends, with the store other threads leave behind.
\<close>

datatype wakeup = Woken | TimedOut | Interrupted

fun wait_loop :: "'c \<Rightarrow> (wakeup \<times> 'c conditions) list \<Rightarrow> (bool \<times> 'c conditions) result" where
  "wait_loop c [] = Inl StillWaiting"
| "wait_loop c ((Woken, s) # ws) = Inr (True, s(c := (s c)\<lparr>Fired := False\<rparr>))"
| "wait_loop c ((TimedOut, s) # ws) = Inr (False, s)"
| "wait_loop c ((Interrupted, s) # ws) =
     (if Fired (s c) then Inr (True, s(c := (s c)\<lparr>Fired := False\<rparr>)) else wait_loop c ws)"

definition timedWait :: "'c \<Rightarrow> (wakeup \<times> 'c conditions) list \<Rightarrow> 'c conditions \<Rightarrow> (bool \<times> 'c conditions) result" where
  "timedWait c ws s =
     (if Fired (s c) then Inr (True, s(c := (s c)\<lparr>Fired := False\<rparr>)) else wait_loop c ws)"

section \<open>Firing reaches exactly the ancestors\<close>

definition ancestors :: "'c conditions \<Rightarrow> 'c \<Rightarrow> 'c set" where
  "ancestors s c = {x. (\<lambda>c p. p \<in> set (ParentSet (s c)))\<^sup>*\<^sup>* c x}"

definition mark :: "'c conditions \<Rightarrow> 'c set \<Rightarrow> 'c conditions" where
  "mark s X = (\<lambda>x. if x \<in> X then (s x)\<lparr>Fired := True\<rparr> else s x)"

definition ranked :: "('c \<Rightarrow> nat) \<Rightarrow> 'c conditions \<Rightarrow> bool" where
  "ranked r s = (\<forall>c. \<forall>p \<in> set (ParentSet (s c)). r p < r c)"

lemma ParentSet_mark [simp]: "ParentSet (mark s X x) = ParentSet (s x)"
  by (simp add: mark_def)

lemma ancestors_mark [simp]: "ancestors (mark s X) c = ancestors s c"
  by (simp add: ancestors_def)

lemma ranked_mark [simp]: "ranked r (mark s X) = ranked r s"
  by (simp add: ranked_def)

lemma mark_mark [simp]: "mark (mark s X) Y = mark s (X \<union> Y)"
  by (auto simp: mark_def)

lemma mark_empty [simp]: "mark s {} = s"
  by (simp add: mark_def)

lemma mark_singleton: "s(c := (s c)\<lparr>Fired := True\<rparr>) = mark s {c}"
  by (auto simp: mark_def)

lemma Fired_mark: "Fired (mark s X x) \<longleftrightarrow> Fired (s x) \<or> x \<in> X"
  by (simp add: mark_def)

lemma ancestors_step: "ancestors s c = insert c (\<Union>p \<in> set (ParentSet (s c)). ancestors s p)"
  by (auto simp: ancestors_def intro: converse_rtranclp_into_rtranclp elim: converse_rtranclpE)

lemma forEach_mark:
  assumes "\<And>p X. p \<in> set ps \<Longrightarrow> f p (mark s X) = Inr (mark s (X \<union> ancestors s p))"
  shows "forEach f ps (mark s X) = Inr (mark s (X \<union> (\<Union>p \<in> set ps. ancestors s p)))"
  using assms
proof (induction ps arbitrary: X)
  case (Cons p ps)
  then show ?case by (simp add: Un_assoc)
qed simp

lemma broadcast_mark:
  "ranked r s \<Longrightarrow> r c < n \<Longrightarrow> broadcast n c s = Inr (mark s (ancestors s c))"
proof (induction n arbitrary: c s)
  case (Suc n)
  have "broadcast n p (mark s X) = Inr (mark s (X \<union> ancestors s p))"
    if "p \<in> set (ParentSet (s c))" for p X
  proof -
    have "r p < r c" using Suc.prems(1) that by (simp add: ranked_def)
    then show ?thesis using Suc.IH [of "mark s X" p] Suc.prems by simp
  qed
  then have "forEach (broadcast n) (ParentSet (s c)) (mark s {c})
      = Inr (mark s ({c} \<union> (\<Union>p \<in> set (ParentSet (s c)). ancestors s p)))"
    by (intro forEach_mark) auto
  then show ?case
    by (simp add: mark_singleton ancestors_step [of s c])
qed simp

lemma signal_broadcast: "signal n = broadcast n"
proof (induction n)
  case (Suc n)
  show ?case by (intro ext) (simp add: Suc)
qed (simp add: fun_eq_iff)

section \<open>Properties\<close>

text \<open>
  C32. Firing a condition terminates when the parent relation has no cycle (a rank that
  decreases along parents), and it sets the flag of exactly that condition and all its
  ancestors; no flag is cleared and no parent set changes.
\<close>

theorem broadcast_fires_ancestors:
  assumes "ranked r s" "r c < n"
  shows "\<exists>s'. broadcast n c s = Inr s' \<and> signal n c s = Inr s' \<and>
    (\<forall>x. Fired (s' x) \<longleftrightarrow> Fired (s x) \<or> x \<in> ancestors s c) \<and>
    (\<forall>x. ParentSet (s' x) = ParentSet (s x))"
  using broadcast_mark [OF assms] by (simp add: signal_broadcast Fired_mark)

definition sample_conditions :: "nat conditions" where
  "sample_conditions = (\<lambda>c. \<lparr>Fired = False, ParentSet = (if c = 2 then [1] else if c = 1 then [0] else [])\<rparr>)"

theorem broadcast_fires_ancestors_witness:
  "\<exists>s'. broadcast 3 2 sample_conditions = Inr s' \<and> Fired (s' 2) \<and> Fired (s' 0) \<and> \<not> Fired (s' 3)"
proof -
  have r: "ranked (\<lambda>c. c) sample_conditions" by (simp add: ranked_def sample_conditions_def)
  have "ancestors sample_conditions 0 = {0}"
    by (subst ancestors_step) (simp add: sample_conditions_def)
  then have "ancestors sample_conditions 1 = {1, 0}"
    by (subst ancestors_step) (simp add: sample_conditions_def)
  then have a: "ancestors sample_conditions 2 = {2, 1, 0}"
    by (subst ancestors_step) (simp add: sample_conditions_def)
  from broadcast_fires_ancestors [OF r, of 2 3] show ?thesis
    by (auto simp: a) (simp add: sample_conditions_def)
qed

text \<open>
  The time limit of a wait is normalised and denotes the current time plus the given
  number of microseconds.
\<close>

theorem deadline_correct:
  assumes "now_usec < 1000000"
  shows "\<exists>sec nsec. deadline now_sec now_usec microseconds = (sec, nsec) \<and> nsec < 1000000000 \<and>
    sec * 1000000000 + nsec = (now_sec * 1000000 + now_usec + microseconds) * 1000"
proof -
  define q m where "q = microseconds div 1000000" and "m = microseconds mod 1000000"
  then have "microseconds = q * 1000000 + m" "m < 1000000" by simp_all
  then show ?thesis
    using assms unfolding deadline_def q_def [symmetric] m_def [symmetric] by (auto simp: Let_def)
qed

theorem deadline_correct_witness:
  "\<exists>sec nsec. deadline 7 900000 100000 = (sec, nsec) \<and> nsec < 1000000000 \<and>
    sec * 1000000000 + nsec = 8000000000"
  using deadline_correct [of 900000 7 100000] by simp

end
