(* ===== verification/World.thy ===== *)
theory World
  imports SocketAddresses NotificationQueue Conditions
begin

text \<open>
  The state of the SCTP part of the library: the socket and association objects
  (\<^verbatim>\<open>sctpsocket.h\<close>, \<^verbatim>\<open>sctpassociation.h\<close>), the tables of the socket master
  (\<^verbatim>\<open>sctpsocketmaster.h\<close>) and its recursive lock (\<^verbatim>\<open>sctpsocketmaster.icc\<close>).

  Objects live in stores under their addresses; using an address without an object is the
  fault \<open>BadPointer\<close>. The SCTP implementation \<^verbatim>\<open>sctplib\<close> is a parameter: a record of
  functions over a state of its own, in the signature of version 1.3.0. A call may make the
  implementation invoke notification callbacks before it returns; it yields the list of these
  calls, and the operations of the model receive the callback function as an argument. The
  master thread runs while a thread waits: each wait consumes the next list of callbacks from
  \<open>Future\<close>.
\<close>

section \<open>Data\<close>

datatype assoc_cond =
  InQueueUpdate | Establish | ShutdownComplete | ReadyForTransmit | ReadUpdate | WriteUpdate | ExceptUpdate

datatype sock_cond = GlobalQueueUpdate | SEstablish | SReadUpdate | SWriteUpdate | SExceptUpdate

text \<open>
  The conditions of a thread in \<^verbatim>\<open>ext_select\<close> (\<^verbatim>\<open>SelectData\<close>), and the update condition of a
  notification for an ordinary file descriptor.
\<close>

datatype select_cond = GlobalCondition | ReadCondition | WriteCondition | ExceptCondition | UpdateCondition nat

datatype cref = AssocCond nat assoc_cond | SockCond nat sock_cond | SelectCond select_cond

record AssocIODefaults =
  ProtoID :: card32
  StreamID :: card16
  TimeToLive :: card32

record StreamDefaultTimeout =
  STValid :: bool
  STTimeout :: card32

record PreEstablishmentPacket =
  PPtr :: nat
  PFlags :: card32
  PProtoID :: card32
  PStreamID :: card16
  PTimeToLive :: card32
  PData :: "byte list"

record SCTPAssociation =
  Socket :: nat
  InQueue :: "SCTPNotification nqueue"
  LastUsage :: card64
  UseCount :: nat
  AssociationID :: card32
  A_NotificationFlags :: card32
  Defaults :: AssocIODefaults
  StreamDefaultTimeoutArray :: "StreamDefaultTimeout list option"
  StreamDefaultTimeoutCount :: nat
  CommunicationUpNotification :: bool
  CommunicationLostNotification :: bool
  ShutdownCompleteNotification :: bool
  IsShuttingDown :: bool
  A_ReadReady :: bool
  A_WriteReady :: bool
  A_HasException :: bool
  RTOMaxIsInitTimeout :: bool
  InitTimeout :: card32
  RTOMax :: card32
  PreEstablishmentPackets :: "PreEstablishmentPacket list"
  PreEstablishmentAddressList :: "address_array option"
  PeeledOff :: bool

record IncomingConnection =
  IC_Association :: nat
  IC_Notification :: SCTPNotification

record SCTPSocket =
  GlobalQueue :: "SCTPNotification nqueue"
  ConnectionRequests :: "IncomingConnection list"
  AssociationList :: "(card32, nat) multimap"
  InstanceName :: int
  LocalPort :: card16
  NoOfInStreams :: card16
  NoOfOutStreams :: card16
  Flags :: card32
  S_NotificationFlags :: card32
  CorrelationID :: card32
  AutoCloseTimeout :: card64
  ConnectionlessAssociationList :: "(card32, nat) multimap"
  DefaultTrafficClass :: card8
  Family :: nat
  S_WriteReady :: bool
  S_ReadReady :: bool
  S_HasException :: bool
  AutoCloseRecursion :: bool
  AutoCloseNewCheckRequired :: bool

definition SSF_GlobalQueue :: card32 where "SSF_GlobalQueue = 1"
definition SSF_AutoConnect :: card32 where "SSF_AutoConnect = 2"
definition SSF_Listening :: card32 where "SSF_Listening = 0x80000000"

lemmas ssf_defs = SSF_GlobalQueue_def SSF_AutoConnect_def SSF_Listening_def

text \<open>Message flags (\<^verbatim>\<open>ext_socket.h\<close> on Linux).\<close>

definition MSG_NOTIFICATION :: card32 where "MSG_NOTIFICATION = 1"
definition MSG_PEEK :: card32 where "MSG_PEEK = 2"
definition MSG_UNORDERED :: card32 where "MSG_UNORDERED = 4"
definition MSG_UNBUNDLED :: card32 where "MSG_UNBUNDLED = 8"
definition MSG_SEND_TO_ALL :: card32 where "MSG_SEND_TO_ALL = 0x10"
definition MSG_DONTWAIT :: card32 where "MSG_DONTWAIT = 0x40"
definition MSG_EOR :: card32 where "MSG_EOR = 0x80"
definition MSG_EOF :: card32 where "MSG_EOF = 0x200"
definition MSG_ABORT :: card32 where "MSG_ABORT = 0x1000"
definition MSG_ADDR_OVER :: card32 where "MSG_ADDR_OVER = 0x8000"

lemmas msg_defs = MSG_NOTIFICATION_def MSG_PEEK_def MSG_UNORDERED_def MSG_UNBUNDLED_def
  MSG_SEND_TO_ALL_def MSG_DONTWAIT_def MSG_EOR_def MSG_EOF_def MSG_ABORT_def MSG_ADDR_OVER_def

definition set_flag :: "card32 \<Rightarrow> card32 \<Rightarrow> card32" where "set_flag flags f = flags OR f"
definition clear_flag :: "card32 \<Rightarrow> card32 \<Rightarrow> card32" where "clear_flag flags f = flags AND NOT f"

section \<open>The SCTP implementation\<close>

text \<open>The notification callbacks with their arguments.\<close>

datatype event =
    DataArriveEv card32 card16 nat card16 card32 card32 nat
  | SendFailureEv card32
  | NetworkStatusChangeEv card32 int int
  | CommunicationUpEv card32 int nat card16 card16
  | CommunicationLostEv card32 int
  | CommunicationErrorEv card32 int
  | RestartEv card32
  | ShutdownReceivedEv card32
  | ShutdownCompleteEv card32
  | QueueStatusChangeEv card32 int int int

record assoc_status =
  destPort :: card16
  numberOfDestinationPaths :: nat
  destinationPathIDs :: "int list"
  primaryDestinationAddress :: cstring
  rtoMax :: card32
  maxSendQueue :: card32
  maxRecvQueue :: card32
  ipTos :: card8
  outStreams :: card16
  inStreams :: card16
  assoc_state :: int
  currentReceiverWindowSize :: card32
  noOfChunksInRetransmissionQueue :: card32
  noOfChunksInReceptionQueue :: card32
  rtoInitial :: card32
  rtoMin :: card32
  ackDelay :: card32
  assocMaxRetransmits :: card16
  validCookieLife :: card32

record path_status =
  destinationAddress :: cstring
  heartbeatIntervall :: card32
  path_state :: int
  cwnd :: card32
  srtt :: card32
  rto :: card32
  mtu :: card32

record instance_parameters =
  noOfLocalAddresses :: nat
  localAddressList :: "cstring list"
  maxInitRetransmits :: card16
  i_rtoMax :: card32
  i_outStreams :: card16
  i_inStreams :: card16
  i_ackDelay :: card32

record library_parameters =
  sendOotbAborts :: int
  checksumAlgorithm :: int

text \<open>
  Return values are those of the C functions, 0 for success. A reading function gives \<open>None\<close>
  where the C function reports an error and leaves its output argument alone.
\<close>

record 'l sctplib =
  sctp_getAssocStatus :: "'l \<Rightarrow> card32 \<Rightarrow> assoc_status option"
  sctp_setAssocStatus :: "'l \<Rightarrow> card32 \<Rightarrow> assoc_status \<Rightarrow> int \<times> 'l"
  sctp_getPathStatus :: "'l \<Rightarrow> card32 \<Rightarrow> int \<Rightarrow> path_status option"
  sctp_getPrimary :: "'l \<Rightarrow> card32 \<Rightarrow> int"
  sctp_setPrimary :: "'l \<Rightarrow> card32 \<Rightarrow> int \<Rightarrow> int \<times> 'l"
  sctp_setRemotePrimary :: "'l \<Rightarrow> card32 \<Rightarrow> cstring \<Rightarrow> int \<times> 'l"
  sctp_requestHeartbeat :: "'l \<Rightarrow> card32 \<Rightarrow> int \<Rightarrow> int \<times> 'l"
  sctp_changeHeartBeat :: "'l \<Rightarrow> card32 \<Rightarrow> int \<Rightarrow> bool \<Rightarrow> card32 \<Rightarrow> int \<times> 'l"
  sctp_getAssocDefaults :: "'l \<Rightarrow> int \<Rightarrow> instance_parameters option"
  sctp_setAssocDefaults :: "'l \<Rightarrow> int \<Rightarrow> instance_parameters \<Rightarrow> int \<times> 'l"
  sctp_getInstanceID :: "'l \<Rightarrow> card32 \<Rightarrow> int option"
  sctp_registerInstance :: "'l \<Rightarrow> card16 \<Rightarrow> card16 \<Rightarrow> card16 \<Rightarrow> nat \<Rightarrow> cstring list \<Rightarrow> int \<times> 'l"
  sctp_unregisterInstance :: "'l \<Rightarrow> int \<Rightarrow> int \<times> 'l"
  sctp_associatex :: "'l \<Rightarrow> int \<Rightarrow> card16 \<Rightarrow> cstring list \<Rightarrow> card16 \<Rightarrow> card32 \<times> 'l \<times> event list"
  sctp_shutdown :: "'l \<Rightarrow> card32 \<Rightarrow> 'l \<times> event list"
  sctp_abort :: "'l \<Rightarrow> card32 \<Rightarrow> 'l \<times> event list"
  sctp_deleteAssociation :: "'l \<Rightarrow> card32 \<Rightarrow> int \<times> 'l"
  sctp_send_private :: "'l \<Rightarrow> card32 \<Rightarrow> card16 \<Rightarrow> byte list \<Rightarrow> card32 \<Rightarrow> int \<Rightarrow> card32 \<Rightarrow> bool \<Rightarrow> bool
     \<Rightarrow> int \<times> 'l \<times> event list"
  sctp_receive :: "'l \<Rightarrow> card32 \<Rightarrow> card16 \<Rightarrow> nat \<Rightarrow> bool \<Rightarrow> (byte list \<times> card16 \<times> card32) option \<times> 'l \<times> event list"
  sctp_getLibraryParameters :: "'l \<Rightarrow> library_parameters option"
  sctp_setLibraryParameters :: "'l \<Rightarrow> library_parameters \<Rightarrow> int \<times> 'l"
  sctp_initLibrary :: "'l \<Rightarrow> int \<times> 'l"
  sctp_getLibraryVersion :: "'l \<Rightarrow> card32"
  sctp_registerUserCallback :: "'l \<Rightarrow> int \<Rightarrow> card16 \<Rightarrow> int \<times> 'l"
  sctp_unregisterUserCallback :: "'l \<Rightarrow> int \<Rightarrow> int \<times> 'l"
  sctp_startTimer :: "'l \<Rightarrow> card32 \<Rightarrow> card32 \<Rightarrow> int \<times> 'l"
  sctp_stopTimer :: "'l \<Rightarrow> int \<Rightarrow> int \<times> 'l"
  SCTP_COMPILED_VERSION :: card32
  SCTP_QUEUE_EXCEEDED :: int
  SCTP_PARAMETER_PROBLEM :: int
  SCTP_INFINITE_LIFETIME :: card32
  SCTP_PATH_OK :: int
  SCTP_PATH_UNREACHABLE :: int
  SCTP_PATH_ADDED :: int
  SCTP_PATH_REMOVED :: int
  SCTP_ASCONF_SUCCEEDED :: int
  SCTP_ASCONF_FAILED :: int
  SCTP_CHECKSUM_ALGORITHM_CRC32C :: int
  SCTP_CHECKSUM_ALGORITHM_ADLER32 :: int
  SCTP_MAX_NUM_ADDRESSES :: nat
  SCTP_MAX_IP_LEN :: nat

text \<open>
  The environment of the model: the SCTP implementation, name resolution, the random numbers,
  the bytes of a notification structure in memory, and the contents of uninitialised memory.
\<close>

record 'l env =
  SL :: "'l sctplib"
  AE :: addrenv
  random32 :: "nat \<Rightarrow> card32"
  contentImage :: "sctp_notification \<Rightarrow> byte list"
  rawNotification :: SCTPNotification
  rawTimeout :: "nat \<Rightarrow> StreamDefaultTimeout"
  rawParameters :: instance_parameters

section \<open>The state\<close>

record 'l world =
  Lib :: 'l
  Now :: card64
  Sockets :: "nat \<Rightarrow> SCTPSocket option"
  Assocs :: "nat \<Rightarrow> SCTPAssociation option"
  NextPtr :: nat
  Conds :: "cref conditions"
  InitializationResult :: int
  Running :: bool
  StartOK :: bool
  LockLevel :: nat
  CancelEnabled :: bool
  OldCancelState :: bool
  LastGarbageCollection :: card64
  ClosingSockets :: "int list"
  ClosingAssociations :: "(card32, int) multimap"
  SocketList :: "(int, nat) multimap"
  RandomCount :: nat
  Future :: "event list list"

type_synonym 'l callback = "event \<Rightarrow> 'l world \<Rightarrow> 'l world result"

section \<open>The lock\<close>

definition lock :: "'l world \<Rightarrow> 'l world" where
  "lock w =
     (let oldstate = CancelEnabled w;
          w = w\<lparr>CancelEnabled := False, LockLevel := LockLevel w + 1\<rparr>
      in if LockLevel w = 1 then w\<lparr>OldCancelState := oldstate\<rparr> else w)"

definition unlock :: "'l world \<Rightarrow> 'l world result" where
  "unlock w =
     (if LockLevel w = 0 then Inl ProcessAbort
      else let w = w\<lparr>LockLevel := LockLevel w - 1\<rparr>
           in Inr (if LockLevel w = 0 then w\<lparr>CancelEnabled := OldCancelState w\<rparr> else w))"

text \<open>Release the lock and return a value.\<close>

definition unlockReturn :: "'a \<Rightarrow> 'l world \<Rightarrow> ('a \<times> 'l world) result" where
  "unlockReturn r w = andThen (unlock w) (\<lambda>w. Inr (r, w))"

section \<open>Objects\<close>

definition getS :: "nat \<Rightarrow> 'l world \<Rightarrow> SCTPSocket result" where
  "getS s w = ofOption (Sockets w s)"

definition getA :: "nat \<Rightarrow> 'l world \<Rightarrow> SCTPAssociation result" where
  "getA a w = ofOption (Assocs w a)"

definition updS :: "nat \<Rightarrow> (SCTPSocket \<Rightarrow> SCTPSocket) \<Rightarrow> 'l world \<Rightarrow> 'l world result" where
  "updS s f w = andThen (getS s w) (\<lambda>x. Inr (w\<lparr>Sockets := (Sockets w)(s \<mapsto> f x)\<rparr>))"

definition updA :: "nat \<Rightarrow> (SCTPAssociation \<Rightarrow> SCTPAssociation) \<Rightarrow> 'l world \<Rightarrow> 'l world result" where
  "updA a f w = andThen (getA a w) (\<lambda>x. Inr (w\<lparr>Assocs := (Assocs w)(a \<mapsto> f x)\<rparr>))"

section \<open>Conditions\<close>

text \<open>
  The queue conditions have the update conditions of their object as parents; these, and those of
  notifications for file descriptors, have the read, write and exception conditions of a waiting
  thread as parents, whose parent is its global condition. Four levels are the longest chain.
\<close>

definition ConditionDepth :: nat where "ConditionDepth = 4"

fun cond_rank :: "cref \<Rightarrow> nat" where
  "cond_rank (AssocCond a k) = (if k \<in> {ReadUpdate, WriteUpdate, ExceptUpdate} then 2 else 3)"
| "cond_rank (SockCond s k) = (if k \<in> {SReadUpdate, SWriteUpdate, SExceptUpdate} then 2 else 3)"
| "cond_rank (SelectCond GlobalCondition) = 0"
| "cond_rank (SelectCond (UpdateCondition n)) = 2"
| "cond_rank (SelectCond _) = 1"

definition fire :: "cref \<Rightarrow> 'l world \<Rightarrow> 'l world result" where
  "fire c w = andThen (broadcast ConditionDepth c (Conds w)) (\<lambda>s. Inr (w\<lparr>Conds := s\<rparr>))"

definition testFired :: "cref \<Rightarrow> 'l world \<Rightarrow> bool \<times> 'l world" where
  "testFired c w = (case fired c (Conds w) of (b, s) \<Rightarrow> (b, w\<lparr>Conds := s\<rparr>))"

definition condAddParent :: "cref \<Rightarrow> cref \<Rightarrow> 'l world \<Rightarrow> 'l world result" where
  "condAddParent c p w =
     andThen (addParent ConditionDepth c (Some p) (Conds w)) (\<lambda>s. Inr (w\<lparr>Conds := s\<rparr>))"

section \<open>Waiting\<close>

text \<open>
  The master thread executes the next callbacks of \<open>Future\<close> under the lock of its own thread:
  the waiting thread holds none.
\<close>

definition masterRuns :: "'l callback \<Rightarrow> 'l world \<Rightarrow> 'l world result" where
  "masterRuns cb w =
     (case Future w of
        [] \<Rightarrow> Inr w
      | evs # rest \<Rightarrow> andThen (forEach cb evs (lock (w\<lparr>Future := rest\<rparr>))) unlock)"

text \<open>\<^verbatim>\<open>timedWait(100000)\<close>: the flag is tested and reset, before and after the wait.\<close>

definition worldTimedWait :: "'l callback \<Rightarrow> cref \<Rightarrow> 'l world \<Rightarrow> (bool \<times> 'l world) result" where
  "worldTimedWait cb c w =
     (if Fired (Conds w c) then Inr (testFired c w)
      else andThen (masterRuns cb w) (\<lambda>w. Inr (testFired c w)))"

text \<open>
  \<^verbatim>\<open>while(condition.timedWait(100000) == false) { body; }\<close>: every unsuccessful wait consumes an
  element of \<open>Future\<close>, so that its length bounds the loop; at its end the thread still waits.
\<close>

fun waitLoop :: "'l callback \<Rightarrow> cref \<Rightarrow> ('l world \<Rightarrow> 'l world result) \<Rightarrow> nat \<Rightarrow> 'l world \<Rightarrow> 'l world result" where
  "waitLoop cb c body 0 w = Inl StillWaiting"
| "waitLoop cb c body (Suc n) w =
     andThen (worldTimedWait cb c w) (\<lambda>(ok, w).
       if ok then Inr w else andThen (body w) (waitLoop cb c body n))"

definition waitUntil :: "'l callback \<Rightarrow> cref \<Rightarrow> ('l world \<Rightarrow> 'l world result) \<Rightarrow> 'l world \<Rightarrow> 'l world result" where
  "waitUntil cb c body w = waitLoop cb c body (length (Future w) + 1) w"

end
