(* ===== verification/Associations.thy ===== *)
theory Associations
  imports World
begin

text \<open>
  The operations of an association (\<^verbatim>\<open>sctpassociation.cc\<close>, \<^verbatim>\<open>sctpassociation.icc\<close>) with the
  operations of sockets and of the master they call: look-up, path selection, sending,
  and the adding of notifications to a queue.

  Every operation takes the environment \<open>e\<close> and, where the SCTP implementation may call back,
  the callback function \<open>cb\<close>. An object is given by its address.
\<close>

section \<open>Life cycle\<close>

text \<open>\<^verbatim>\<open>ClosingAssociations\<close> and \<^verbatim>\<open>ClosingSockets\<close> keep 16-bit instance numbers.\<close>

definition instance16 :: "int \<Rightarrow> int" where
  "instance16 i = i mod 65536"

definition set_insert_sorted :: "int \<Rightarrow> int list \<Rightarrow> int list" where
  "set_insert_sorted i is = (if i \<in> set is then is else insort i is)"

definition delayedDeleteAssociation :: "int \<Rightarrow> card32 \<Rightarrow> 'l world \<Rightarrow> 'l world" where
  "delayedDeleteAssociation instanceID assocID w =
     w\<lparr>ClosingAssociations := mm_insert assocID (instance16 instanceID) (ClosingAssociations w)\<rparr>"

definition delayedDeleteSocket :: "int \<Rightarrow> 'l world \<Rightarrow> 'l world" where
  "delayedDeleteSocket instanceID w =
     w\<lparr>ClosingSockets := set_insert_sorted (instance16 instanceID) (ClosingSockets w)\<rparr>"

definition newAssociation :: "'l env \<Rightarrow> nat \<Rightarrow> card32 \<Rightarrow> card32 \<Rightarrow> card64 \<Rightarrow> SCTPAssociation" where
  "newAssociation e socket assocID notificationFlags now = \<lparr>
     Socket = socket, InQueue = queue_new, LastUsage = now, UseCount = 0, AssociationID = assocID,
     A_NotificationFlags = notificationFlags,
     Defaults = \<lparr>ProtoID = 0, StreamID = 0, TimeToLive = SCTP_INFINITE_LIFETIME (SL e)\<rparr>,
     StreamDefaultTimeoutArray = None, StreamDefaultTimeoutCount = 0,
     CommunicationUpNotification = False, CommunicationLostNotification = False,
     ShutdownCompleteNotification = False, IsShuttingDown = False,
     A_ReadReady = False, A_WriteReady = False, A_HasException = False,
     RTOMaxIsInitTimeout = False, InitTimeout = 0, RTOMax = 0,
     PreEstablishmentPackets = [], PreEstablishmentAddressList = None, PeeledOff = False\<rparr>"

text \<open>The constructor, giving the address of the new object.\<close>

definition SCTPAssociation_new ::
  "'l env \<Rightarrow> nat \<Rightarrow> card32 \<Rightarrow> card32 \<Rightarrow> bool \<Rightarrow> 'l world \<Rightarrow> (nat \<times> 'l world) result" where
  "SCTPAssociation_new e socket assocID notificationFlags udpLike w =
     (let a = NextPtr w;
          w = w\<lparr>NextPtr := Suc a,
                Assocs := (Assocs w)(a \<mapsto> newAssociation e socket assocID notificationFlags (Now w)),
                Conds := (\<lambda>c. case c of AssocCond b k \<Rightarrow> if b = a then Condition_new else Conds w c | _ \<Rightarrow> Conds w c)\<rparr>
      in andThen (condAddParent (AssocCond a InQueueUpdate) (AssocCond a ReadUpdate) w) (\<lambda>w.
         andThen
           (if \<not> udpLike then
              andThen (condAddParent (AssocCond a ShutdownComplete) (AssocCond a ExceptUpdate) w) (\<lambda>w.
              andThen (condAddParent (AssocCond a Establish) (AssocCond a WriteUpdate) w) (\<lambda>w.
              condAddParent (AssocCond a ReadyForTransmit) (AssocCond a WriteUpdate) w))
            else Inr w) (\<lambda>w.
         andThen (updS socket (\<lambda>s. s\<lparr>AssociationList := mm_insert assocID a (AssociationList s)\<rparr>) (lock w)) (\<lambda>w.
         unlockReturn a w))))"

definition libShutdown :: "'l env \<Rightarrow> 'l callback \<Rightarrow> card32 \<Rightarrow> 'l world \<Rightarrow> 'l world result" where
  "libShutdown e cb assocID w =
     (case sctp_shutdown (SL e) (Lib w) assocID of (l, evs) \<Rightarrow> forEach cb evs (w\<lparr>Lib := l\<rparr>))"

definition libAbort :: "'l env \<Rightarrow> 'l callback \<Rightarrow> card32 \<Rightarrow> 'l world \<Rightarrow> 'l world result" where
  "libAbort e cb assocID w =
     (case sctp_abort (SL e) (Lib w) assocID of (l, evs) \<Rightarrow> forEach cb evs (w\<lparr>Lib := l\<rparr>))"

definition libDelete :: "'l env \<Rightarrow> card32 \<Rightarrow> 'l world \<Rightarrow> int \<times> 'l world" where
  "libDelete e assocID w =
     (case sctp_deleteAssociation (SL e) (Lib w) assocID of (r, l) \<Rightarrow> (r, w\<lparr>Lib := l\<rparr>))"

definition shutdown :: "'l env \<Rightarrow> 'l callback \<Rightarrow> nat \<Rightarrow> 'l world \<Rightarrow> 'l world result" where
  "shutdown e cb a w =
     (let w = lock w in
      andThen (getA a w) (\<lambda>x.
      andThen
        (if \<not> IsShuttingDown x then
           andThen (updA a (\<lambda>x. x\<lparr>IsShuttingDown := True\<rparr>) w) (libShutdown e cb (AssociationID x))
         else Inr w)
      unlock))"

definition abort :: "'l env \<Rightarrow> 'l callback \<Rightarrow> nat \<Rightarrow> 'l world \<Rightarrow> 'l world result" where
  "abort e cb a w =
     (let w = lock w in
      andThen (getA a w) (\<lambda>x.
      andThen (updA a (\<lambda>x. x\<lparr>IsShuttingDown := True\<rparr>) w) (\<lambda>w.
      andThen (libAbort e cb (AssociationID x) w) unlock)))"

text \<open>
  The destructor. The object is gone at its end, and so are the packets, the address list and
  the time-out array it owns.
\<close>

definition SCTPAssociation_delete :: "'l env \<Rightarrow> 'l callback \<Rightarrow> nat \<Rightarrow> 'l world \<Rightarrow> 'l world result" where
  "SCTPAssociation_delete e cb a w =
     (let w = lock w in
      andThen (getA a w) (\<lambda>x.
      if AssociationID x = 0 then Inl ProcessAbort
      else
        andThen
          (if \<not> ShutdownCompleteNotification x then
             andThen (getS (Socket x) w) (\<lambda>s.
             shutdown e cb a (delayedDeleteAssociation (InstanceName s) (AssociationID x) w))
           else (case libDelete e (AssociationID x) w of
                   (r, w) \<Rightarrow> if r \<noteq> 0 then Inl ProcessAbort else Inr w)) (\<lambda>w.
        andThen (getA a w) (\<lambda>x.
        andThen (getS (Socket x) w) (\<lambda>s.
        case mm_find (AssociationID x) (AssociationList s) of
          None \<Rightarrow> Inl ProcessAbort
        | Some _ \<Rightarrow>
            andThen (updS (Socket x) (\<lambda>s. s\<lparr>AssociationList := mm_erase (AssociationID x) (AssociationList s)\<rparr>) w) (\<lambda>w.
            andThen (unlock w) (\<lambda>w.
            Inr (w\<lparr>Assocs := (Assocs w)(a := None)\<rparr>))))))))"

section \<open>Look-up\<close>

definition getAssociationForAssociationID ::
  "nat \<Rightarrow> card32 \<Rightarrow> bool \<Rightarrow> 'l world \<Rightarrow> (nat option \<times> 'l world) result" where
  "getAssociationForAssociationID s assocID activeOnly w =
     (let w = lock w in
      andThen (getS s w) (\<lambda>x.
      andThen
        (case mm_find assocID (AssociationList x) of
           None \<Rightarrow> Inr None
         | Some a \<Rightarrow> andThen (getA a w) (\<lambda>y.
             Inr (if \<not> (IsShuttingDown y \<and> activeOnly) then Some a else None))) (\<lambda>r.
      unlockReturn r w)))"

definition getSocketForAssociationID :: "'l env \<Rightarrow> card32 \<Rightarrow> 'l world \<Rightarrow> nat option" where
  "getSocketForAssociationID e assocID w =
     (case sctp_getInstanceID (SL e) (Lib w) assocID of
        None \<Rightarrow> None
      | Some instanceID \<Rightarrow> if instanceID \<noteq> 0 then mm_find instanceID (SocketList w) else None)"

definition getErrorCode :: "nat \<Rightarrow> card32 \<Rightarrow> 'l world \<Rightarrow> (int \<times> 'l world) result" where
  "getErrorCode s assocID w =
     andThen (getAssociationForAssociationID s assocID False w) (\<lambda>(r, w).
     case r of
       None \<Rightarrow> Inr (0, w)
     | Some a \<Rightarrow>
         andThen (getA a w) (\<lambda>x.
         if ShutdownCompleteNotification x then
           andThen (updA a (\<lambda>x. x\<lparr>A_HasException := True\<rparr>) w) (\<lambda>w. Inr (- ECONNRESET, w))
         else if CommunicationLostNotification x then
           andThen (updA a (\<lambda>x. x\<lparr>A_HasException := True\<rparr>) w) (\<lambda>w. Inr (- ECONNABORTED, w))
         else Inr (0, w)))"

definition Association_hasData :: "nat \<Rightarrow> 'l world \<Rightarrow> (bool \<times> 'l world) result" where
  "Association_hasData a w =
     (let w = lock w in
      andThen (getA a w) (\<lambda>x.
      andThen (queue_hasData (InQueue x) (A_NotificationFlags x)) (\<lambda>r.
      unlockReturn r w)))"

definition Socket_hasData :: "nat \<Rightarrow> 'l world \<Rightarrow> (bool \<times> 'l world) result" where
  "Socket_hasData s w =
     (let w = lock w in
      andThen (getS s w) (\<lambda>x.
      andThen (if flag_set (Flags x) SSF_GlobalQueue
               then queue_hasData (GlobalQueue x) (S_NotificationFlags x) else Inr False) (\<lambda>r.
      unlockReturn r w)))"

section \<open>Paths\<close>

text \<open>\<^verbatim>\<open>status.destinationPathIDs[i]\<close>; the list is the whole array of the structure.\<close>

definition pathID :: "assoc_status \<Rightarrow> nat \<Rightarrow> int result" where
  "pathID status i =
     (if i < length (destinationPathIDs status) then Inr (destinationPathIDs status ! i) else Inl BadPointer)"

definition PF_Path :: card32 where
  "PF_Path = PF_Address OR PF_HidePort OR PF_Legacy"

text \<open>\<^verbatim>\<open>for(i = 0;;i++)\<close>: the loop ends at a match or at the first path without a status.\<close>

fun pathIndex_loop :: "'l env \<Rightarrow> card32 \<Rightarrow> String \<Rightarrow> int list \<Rightarrow> 'l world \<Rightarrow> int result" where
  "pathIndex_loop e assocID addressString [] w = Inl BadPointer"
| "pathIndex_loop e assocID addressString (idx # is) w =
     (case sctp_getPathStatus (SL e) (Lib w) assocID idx of
        None \<Rightarrow> Inr (- 1)
      | Some pathParameters \<Rightarrow>
          if String_eq addressString (String_of (Some (destinationAddress pathParameters))) then Inr idx
          else pathIndex_loop e assocID addressString is w)"

definition getPathIndexForAddress ::
  "'l env \<Rightarrow> card32 \<Rightarrow> SocketAddress option \<Rightarrow> 'l world \<Rightarrow> int result" where
  "getPathIndexForAddress e assocID address w =
     (case address of
        None \<Rightarrow> Inr (sctp_getPrimary (SL e) (Lib w) assocID)
      | Some adr \<Rightarrow>
          (case sctp_getAssocStatus (SL e) (Lib w) assocID of
             None \<Rightarrow> Inr (- 1)
           | Some status \<Rightarrow>
               pathIndex_loop e assocID (SA_getAddressString (AE e) adr PF_Path)
                 (destinationPathIDs status) w))"

section \<open>Notifications\<close>

definition initNotification_clear :: "'l env \<Rightarrow> SCTPNotification" where
  "initNotification_clear e =
     (let n = rawNotification e
      in n\<lparr>Content := (Content n)\<lparr>sn_type := SCTP_UNDEFINED\<rparr>, ContentPosition := 0, RemotePort := 0,
           RemoteAddresses := 0, RemoteAddress := replicate (SCTP_MAX_NUM_ADDRESSES (SL e)) ''''\<rparr>)"

fun remoteAddress_loop :: "'l env \<Rightarrow> card32 \<Rightarrow> assoc_status \<Rightarrow> nat list \<Rightarrow> 'l world \<Rightarrow> cstring list \<Rightarrow> cstring list result" where
  "remoteAddress_loop e assocID status [] w as = Inr as"
| "remoteAddress_loop e assocID status (i # is) w as =
     andThen (pathID status i) (\<lambda>idx.
     remoteAddress_loop e assocID status is w
       (case sctp_getPathStatus (SL e) (Lib w) assocID idx of
          None \<Rightarrow> as
        | Some pathStatus \<Rightarrow> as[i := destinationAddress pathStatus]))"

definition initNotification ::
  "'l env \<Rightarrow> card32 \<Rightarrow> card16 \<Rightarrow> 'l world \<Rightarrow> (bool \<times> SCTPNotification) result" where
  "initNotification e assocID streamID w =
     (let n = rawNotification e;
          n = n\<lparr>Content := (Content n)\<lparr>sn_type := SCTP_UNDEFINED\<rparr>, ContentPosition := 0\<rparr>
      in case sctp_getAssocStatus (SL e) (Lib w) assocID of
           None \<Rightarrow> Inr (False, n)
         | Some status \<Rightarrow>
             let k = min (SCTP_MAX_NUM_ADDRESSES (SL e)) (numberOfDestinationPaths status)
             in andThen (remoteAddress_loop e assocID status [0..<k] w (RemoteAddress n)) (\<lambda>as.
                Inr (True, n\<lparr>RemotePort := destPort status, RemoteAddresses := k, RemoteAddress := as\<rparr>)))"

text \<open>Adding to a queue fires the update condition of the queue.\<close>

definition enqueueA :: "nat \<Rightarrow> SCTPNotification \<Rightarrow> 'l world \<Rightarrow> 'l world result" where
  "enqueueA a n w =
     andThen (getA a w) (\<lambda>x.
     andThen (addNotification (InQueue x) n) (\<lambda>q.
     andThen (updA a (\<lambda>x. x\<lparr>InQueue := q\<rparr>) w) (fire (AssocCond a InQueueUpdate))))"

definition enqueueS :: "nat \<Rightarrow> SCTPNotification \<Rightarrow> 'l world \<Rightarrow> 'l world result" where
  "enqueueS s n w =
     andThen (getS s w) (\<lambda>x.
     andThen (addNotification (GlobalQueue x) n) (\<lambda>q.
     andThen (updS s (\<lambda>x. x\<lparr>GlobalQueue := q\<rparr>) w) (fire (SockCond s GlobalQueueUpdate))))"

definition usesGlobalQueue :: "SCTPSocket \<Rightarrow> SCTPAssociation \<Rightarrow> bool" where
  "usesGlobalQueue s a = (flag_set (Flags s) SSF_GlobalQueue \<and> \<not> PeeledOff a)"

definition Master_addNotification ::
  "nat \<Rightarrow> card32 \<Rightarrow> SCTPNotification \<Rightarrow> 'l world \<Rightarrow> 'l world result" where
  "Master_addNotification s assocID n w =
     andThen (getAssociationForAssociationID s assocID False w) (\<lambda>(r, w).
     case r of
       None \<Rightarrow> Inr w
     | Some a \<Rightarrow>
         andThen (getA a w) (\<lambda>x.
         andThen (getS s w) (\<lambda>y.
         if wanted (A_NotificationFlags x) n then
           andThen (updA a (\<lambda>x. x\<lparr>UseCount := UseCount x + 1\<rparr>) w) (\<lambda>w.
           if usesGlobalQueue y x then
             andThen (enqueueS s n w) (\<lambda>w.
             andThen (Socket_hasData s w) (\<lambda>(d, w).
             updS s (\<lambda>y. y\<lparr>S_ReadReady := d \<or> ConnectionRequests y \<noteq> []\<rparr>) w))
           else
             andThen (enqueueA a n w) (\<lambda>w.
             andThen (Association_hasData a w) (\<lambda>(d, w).
             updA a (\<lambda>x. x\<lparr>A_ReadReady := d\<rparr>) w)))
         else if \<not> usesGlobalQueue y x then fire (AssocCond a InQueueUpdate) w
         else Inr w)))"

section \<open>Sending\<close>

text \<open>
  The loop of \<^verbatim>\<open>internalSend\<close>. A full send queue makes a blocking call wait and try again;
  each wait consumes an element of \<open>Future\<close>.
\<close>

fun send_loop ::
  "'l env \<Rightarrow> 'l callback \<Rightarrow> byte list \<Rightarrow> card32 \<Rightarrow> card32 \<Rightarrow> card16 \<Rightarrow> card32 \<Rightarrow> card32 \<Rightarrow> cref option \<Rightarrow>
   SocketAddress option \<Rightarrow> nat \<Rightarrow> 'l world \<Rightarrow> (int \<times> 'l world) result" where
  "send_loop e cb buffer flags assocID streamID protoID timeToLive waitCondition dest 0 w = Inl StillWaiting"
| "send_loop e cb buffer flags assocID streamID protoID timeToLive waitCondition dest (Suc n) w =
     (let w = lock w in
      andThen (if dest \<noteq> None \<and> flag_set flags MSG_ADDR_OVER
               then getPathIndexForAddress e assocID dest w
               else Inr (sctp_getPrimary (SL e) (Lib w) assocID)) (\<lambda>pathIndex.
      case sctp_send_private (SL e) (Lib w) assocID streamID buffer protoID pathIndex timeToLive
             (flag_set flags MSG_UNORDERED) (flag_set flags MSG_UNBUNDLED) of
        (result, l, evs) \<Rightarrow>
          andThen (forEach cb evs (w\<lparr>Lib := l\<rparr>)) (\<lambda>w.
          andThen
            (if result = SCTP_QUEUE_EXCEEDED (SL e) \<and> \<not> flag_set flags MSG_DONTWAIT then
               (case waitCondition of
                  None \<Rightarrow> Inr w
                | Some c \<Rightarrow>
                    andThen (unlock w) (\<lambda>w.
                    andThen (worldTimedWait cb c w) (\<lambda>(_, w). Inr (lock w))))
             else Inr w) (\<lambda>w.
          andThen (unlock w) (\<lambda>w.
          if \<not> flag_set flags MSG_DONTWAIT \<and> result = SCTP_QUEUE_EXCEEDED (SL e)
          then send_loop e cb buffer flags assocID streamID protoID timeToLive waitCondition dest n w
          else Inr (result, w))))))"

definition send_result :: "'l env \<Rightarrow> int \<Rightarrow> nat \<Rightarrow> int" where
  "send_result e result len =
     (if result = 0 then int len
      else if result = SCTP_PARAMETER_PROBLEM (SL e) then - EINVAL
      else if result = SCTP_QUEUE_EXCEEDED (SL e) then - ENOBUFS
      else - EIO)"

definition internalSend ::
  "'l env \<Rightarrow> 'l callback \<Rightarrow> nat \<Rightarrow> byte list \<Rightarrow> card32 \<Rightarrow> card32 \<Rightarrow> card16 \<Rightarrow> card32 \<Rightarrow> card32 \<Rightarrow> cref option \<Rightarrow>
   SocketAddress option \<Rightarrow> 'l world \<Rightarrow> (int \<times> 'l world) result" where
  "internalSend e cb s buffer flags assocID streamID protoID timeToLive waitCondition dest w =
     andThen (getErrorCode s assocID w) (\<lambda>(errorCode, w).
     if errorCode \<noteq> 0 then Inr (errorCode, w)
     else
       andThen (send_loop e cb buffer flags assocID streamID protoID timeToLive waitCondition dest
                  (length (Future w) + 2) w) (\<lambda>(result, w).
       andThen (updS s (\<lambda>x. x\<lparr>S_WriteReady := (result \<noteq> SCTP_QUEUE_EXCEEDED (SL e))\<rparr>) w) (\<lambda>w.
       Inr (send_result e result (length buffer), w))))"

section \<open>Default settings\<close>

definition Association_getAssocIODefaults :: "nat \<Rightarrow> 'l world \<Rightarrow> (AssocIODefaults \<times> 'l world) result" where
  "Association_getAssocIODefaults a w =
     (let w = lock w in andThen (getA a w) (\<lambda>x. unlockReturn (Defaults x) w))"

definition Association_setAssocIODefaults :: "nat \<Rightarrow> AssocIODefaults \<Rightarrow> 'l world \<Rightarrow> 'l world result" where
  "Association_setAssocIODefaults a d w =
     andThen (updA a (\<lambda>x. x\<lparr>Defaults := d\<rparr>) (lock w)) unlock"

text \<open>
  The time-out array of an association. When it has to grow, the copying loop runs one element
  too far (\<^verbatim>\<open>i <= StreamDefaultTimeoutCount\<close>) and copies what lies behind the old array.
\<close>

definition set_timeouts :: "card32 \<Rightarrow> nat \<Rightarrow> nat \<Rightarrow> StreamDefaultTimeout list \<Rightarrow> StreamDefaultTimeout list" where
  "set_timeouts timeout start end arr =
     fold (\<lambda>i arr. arr[i := \<lparr>STValid = True, STTimeout = timeout\<rparr>]) [start..<Suc end] arr"

definition copy_timeouts ::
  "'l env \<Rightarrow> nat \<Rightarrow> StreamDefaultTimeout list option \<Rightarrow> StreamDefaultTimeout list \<Rightarrow> StreamDefaultTimeout list" where
  "copy_timeouts e cnt old arr =
     (case old of
        None \<Rightarrow> arr
      | Some xs \<Rightarrow> fold (\<lambda>i arr. arr[i := (if i < length xs then xs ! i else rawTimeout e i)]) [0..<Suc cnt] arr)"

definition invalidate_timeouts :: "nat \<Rightarrow> nat \<Rightarrow> StreamDefaultTimeout list \<Rightarrow> StreamDefaultTimeout list" where
  "invalidate_timeouts cnt start arr =
     fold (\<lambda>i arr. arr[i := (arr ! i)\<lparr>STValid := False\<rparr>]) [cnt..<start] arr"

definition Association_setDefaultStreamTimeouts ::
  "'l env \<Rightarrow> nat \<Rightarrow> card32 \<Rightarrow> card16 \<Rightarrow> card16 \<Rightarrow> 'l world \<Rightarrow> (bool \<times> 'l world) result" where
  "Association_setDefaultStreamTimeouts e a timeout start end w =
     (if start > end then Inr (False, w)
      else
        let w = lock w in
        andThen (getA a w) (\<lambda>x.
        andThen
          (if unat end + 1 \<le> StreamDefaultTimeoutCount x then
             andThen (ofOption (StreamDefaultTimeoutArray x)) (\<lambda>arr.
             updA a (\<lambda>x. x\<lparr>StreamDefaultTimeoutArray := Some (set_timeouts timeout (unat start) (unat end) arr)\<rparr>) w)
           else
             let newArray = map (rawTimeout e) [0..<unat end + 1];
                 newArray = copy_timeouts e (StreamDefaultTimeoutCount x) (StreamDefaultTimeoutArray x) newArray;
                 newArray = invalidate_timeouts (StreamDefaultTimeoutCount x) (unat start) newArray;
                 newArray = set_timeouts timeout (unat start) (unat end) newArray
             in updA a (\<lambda>x. x\<lparr>StreamDefaultTimeoutArray := Some newArray,
                               StreamDefaultTimeoutCount := unat end + 1\<rparr>) w) (\<lambda>w.
        unlockReturn True w)))"

definition Association_getDefaultStreamTimeout ::
  "nat \<Rightarrow> card16 \<Rightarrow> 'l world \<Rightarrow> (card32 option \<times> 'l world) result" where
  "Association_getDefaultStreamTimeout a streamID w =
     (let w = lock w in
      andThen (getA a w) (\<lambda>x.
      andThen
        (if unat streamID < StreamDefaultTimeoutCount x then
           andThen (ofOption (StreamDefaultTimeoutArray x)) (\<lambda>arr.
           Inr (if STValid (arr ! unat streamID) then Some (STTimeout (arr ! unat streamID)) else None))
         else Inr None) (\<lambda>r.
      unlockReturn r w)))"

section \<open>Sending on an association\<close>

text \<open>
  Before the association is up, packets are queued. The time-out looked up for a stream is not
  used: the call passes \<^verbatim>\<open>Defaults.TimeToLive\<close>.
\<close>

definition Association_sendTo ::
  "'l env \<Rightarrow> 'l callback \<Rightarrow> nat \<Rightarrow> byte list \<Rightarrow> card32 \<Rightarrow> card16 \<Rightarrow> card32 \<Rightarrow> card32 \<Rightarrow> bool \<Rightarrow>
   SocketAddress option \<Rightarrow> 'l world \<Rightarrow> (int \<times> 'l world) result" where
  "Association_sendTo e cb a buffer flags streamID protoID timeToLive useDefaults dest w =
     andThen (getA a w) (\<lambda>x.
     if \<not> CommunicationUpNotification x then
       let packet = \<lparr>PPtr = NextPtr w, PFlags = flags, PProtoID = protoID, PStreamID = streamID,
                     PTimeToLive = timeToLive, PData = buffer\<rparr>
       in andThen (updA a (\<lambda>x. x\<lparr>PreEstablishmentPackets := PreEstablishmentPackets x @ [packet]\<rparr>)
                    (w\<lparr>NextPtr := Suc (NextPtr w)\<rparr>)) (\<lambda>w.
          Inr (int (length buffer), w))
     else if \<not> useDefaults then
       internalSend e cb (Socket x) buffer flags (AssociationID x) streamID protoID timeToLive
         (Some (AssocCond a ReadyForTransmit)) dest w
     else if buffer \<noteq> [] then
       andThen (Association_getDefaultStreamTimeout a (StreamID (Defaults x)) w) (\<lambda>(_, w).
       internalSend e cb (Socket x) buffer flags (AssociationID x) (StreamID (Defaults x))
         (ProtoID (Defaults x)) (TimeToLive (Defaults x)) (Some (AssocCond a ReadyForTransmit)) dest w)
     else Inr (0, w))"

text \<open>
  The loop over the queued packets. The packet at the head is unlinked after it was sent; it must
  still exist then, since sending may call back.
\<close>

fun preEstablishment_loop :: "'l env \<Rightarrow> 'l callback \<Rightarrow> nat \<Rightarrow> nat \<Rightarrow> 'l world \<Rightarrow> (bool \<times> 'l world) result" where
  "preEstablishment_loop e cb a 0 w = Inl OutOfFuel"
| "preEstablishment_loop e cb a (Suc n) w =
     andThen (getA a w) (\<lambda>x.
     case PreEstablishmentPackets x of
       [] \<Rightarrow> Inr (True, w)
     | packet # _ \<Rightarrow>
         andThen (Association_sendTo e cb a (PData packet) (PFlags packet) (PStreamID packet)
                    (PProtoID packet) (PTimeToLive packet) False None w) (\<lambda>(result, w).
         if result = int (length (PData packet)) then
           andThen (getA a w) (\<lambda>x.
           if packet \<in> set (PreEstablishmentPackets x) then
             andThen (updA a (\<lambda>x. x\<lparr>PreEstablishmentPackets :=
                          tl (dropWhile (\<lambda>p. p \<noteq> packet) (PreEstablishmentPackets x))\<rparr>) w)
               (preEstablishment_loop e cb a n)
           else Inl BadPointer)
         else Inr (False, w)))"

definition sendPreEstablishmentPackets :: "'l env \<Rightarrow> 'l callback \<Rightarrow> nat \<Rightarrow> 'l world \<Rightarrow> (bool \<times> 'l world) result" where
  "sendPreEstablishmentPackets e cb a w =
     andThen (getA a w) (\<lambda>x. preEstablishment_loop e cb a (length (PreEstablishmentPackets x) + 1) w)"

section \<open>Parameters\<close>

definition Socket_getAssocStatus :: "'l env \<Rightarrow> card32 \<Rightarrow> 'l world \<Rightarrow> (assoc_status option \<times> 'l world) result" where
  "Socket_getAssocStatus e assocID w =
     (let w = lock w in unlockReturn (sctp_getAssocStatus (SL e) (Lib w) assocID) w)"

definition Socket_setAssocStatus ::
  "'l env \<Rightarrow> card32 \<Rightarrow> assoc_status \<Rightarrow> 'l world \<Rightarrow> (bool \<times> 'l world) result" where
  "Socket_setAssocStatus e assocID status w =
     (let w = lock w in
      case sctp_setAssocStatus (SL e) (Lib w) assocID status of
        (ok, l) \<Rightarrow> unlockReturn (ok = 0) (w\<lparr>Lib := l\<rparr>))"

definition Association_getAssocStatus :: "'l env \<Rightarrow> nat \<Rightarrow> 'l world \<Rightarrow> (assoc_status option \<times> 'l world) result" where
  "Association_getAssocStatus e a w =
     andThen (getA a w) (\<lambda>x.
     andThen (Socket_getAssocStatus e (AssociationID x) w) (\<lambda>(r, w).
     Inr (case r of
            None \<Rightarrow> (None, w)
          | Some status \<Rightarrow>
              (Some (if RTOMaxIsInitTimeout x then status\<lparr>rtoMax := RTOMax x\<rparr> else status), w))))"

definition Association_setAssocStatus :: "'l env \<Rightarrow> nat \<Rightarrow> assoc_status \<Rightarrow> 'l world \<Rightarrow> (bool \<times> 'l world) result" where
  "Association_setAssocStatus e a assocStatus w =
     andThen (getA a w) (\<lambda>x.
     if RTOMaxIsInitTimeout x then
       andThen (updA a (\<lambda>x. x\<lparr>RTOMax := rtoMax assocStatus\<rparr>) w) (\<lambda>w.
       Socket_setAssocStatus e (AssociationID x) (assocStatus\<lparr>rtoMax := InitTimeout x\<rparr>) w)
     else Socket_setAssocStatus e (AssociationID x) assocStatus w)"

text \<open>Reading or writing one field of the status under the lock.\<close>

definition getStatusField :: "'l env \<Rightarrow> nat \<Rightarrow> (assoc_status \<Rightarrow> int) \<Rightarrow> 'l world \<Rightarrow> (int \<times> 'l world) result" where
  "getStatusField e a f w =
     (let w = lock w in
      andThen (getA a w) (\<lambda>x.
      unlockReturn (case sctp_getAssocStatus (SL e) (Lib w) (AssociationID x) of
                      None \<Rightarrow> - 1 | Some status \<Rightarrow> f status) w))"

definition setStatusField ::
  "'l env \<Rightarrow> nat \<Rightarrow> (assoc_status \<Rightarrow> assoc_status) \<Rightarrow> 'l world \<Rightarrow> (bool \<times> 'l world) result" where
  "setStatusField e a f w =
     (let w = lock w in
      andThen (getA a w) (\<lambda>x.
      case sctp_getAssocStatus (SL e) (Lib w) (AssociationID x) of
        None \<Rightarrow> unlockReturn False w
      | Some status \<Rightarrow>
          (case sctp_setAssocStatus (SL e) (Lib w) (AssociationID x) (f status) of
             (ok, l) \<Rightarrow> unlockReturn (ok = 0) (w\<lparr>Lib := l\<rparr>))))"

definition Association_getSendBuffer :: "'l env \<Rightarrow> nat \<Rightarrow> 'l world \<Rightarrow> (int \<times> 'l world) result" where
  "Association_getSendBuffer e a w = getStatusField e a (\<lambda>s. uint (maxSendQueue s)) w"

definition Association_setSendBuffer :: "'l env \<Rightarrow> nat \<Rightarrow> nat \<Rightarrow> 'l world \<Rightarrow> (bool \<times> 'l world) result" where
  "Association_setSendBuffer e a sz w = setStatusField e a (\<lambda>s. s\<lparr>maxSendQueue := of_nat sz\<rparr>) w"

definition Association_getReceiveBuffer :: "'l env \<Rightarrow> nat \<Rightarrow> 'l world \<Rightarrow> (int \<times> 'l world) result" where
  "Association_getReceiveBuffer e a w = getStatusField e a (\<lambda>s. uint (maxRecvQueue s)) w"

definition Association_setReceiveBuffer :: "'l env \<Rightarrow> nat \<Rightarrow> nat \<Rightarrow> 'l world \<Rightarrow> (bool \<times> 'l world) result" where
  "Association_setReceiveBuffer e a sz w = setStatusField e a (\<lambda>s. s\<lparr>maxRecvQueue := of_nat sz\<rparr>) w"

definition Association_getTrafficClass :: "'l env \<Rightarrow> nat \<Rightarrow> 'l world \<Rightarrow> (int \<times> 'l world) result" where
  "Association_getTrafficClass e a w = getStatusField e a (\<lambda>s. uint (ipTos s)) w"

text \<open>Setting a traffic class is a stub that reports success.\<close>

definition Association_setTrafficClass :: "nat \<Rightarrow> card8 \<Rightarrow> 'l world \<Rightarrow> (bool \<times> 'l world) result" where
  "Association_setTrafficClass a trafficClass w = Inr (True, w)"

section \<open>Addresses of the peer\<close>

fun remoteAddresses_loop ::
  "'l env \<Rightarrow> card32 \<Rightarrow> assoc_status \<Rightarrow> nat list \<Rightarrow> 'l world \<Rightarrow> address_array \<Rightarrow> (bool \<times> address_array option) result" where
  "remoteAddresses_loop e assocID status [] w arr = Inr (True, Some arr)"
| "remoteAddresses_loop e assocID status (i # is) w arr =
     andThen (pathID status i) (\<lambda>idx.
     case sctp_getPathStatus (SL e) (Lib w) assocID idx of
       None \<Rightarrow> andThen (deleteAddressList (Some arr)) (\<lambda>(_, r). Inr (False, r))
     | Some pathStatus \<Rightarrow>
         (case createSocketAddress_port (AE e) 0 (String_of (Some (destinationAddress pathStatus))) (destPort status) of
            None \<Rightarrow> andThen (deleteAddressList (Some (arr[i := None]))) (\<lambda>(_, r). Inr (False, r))
          | Some address \<Rightarrow> remoteAddresses_loop e assocID status is w (arr[i := Some address])))"

definition Association_getRemoteAddresses ::
  "'l env \<Rightarrow> nat \<Rightarrow> 'l world \<Rightarrow> ((bool \<times> address_array option) \<times> 'l world) result" where
  "Association_getRemoteAddresses e a w =
     (let w = lock w in
      andThen (getA a w) (\<lambda>x.
      andThen
        (case sctp_getAssocStatus (SL e) (Lib w) (AssociationID x) of
           None \<Rightarrow> Inr (True, None)
         | Some status \<Rightarrow>
             remoteAddresses_loop e (AssociationID x) status [0..<numberOfDestinationPaths status] w
               (newAddressList (numberOfDestinationPaths status))) (\<lambda>r.
      unlockReturn r w)))"

section \<open>Update conditions\<close>

datatype UpdateConditionType = UCT_Read | UCT_Write | UCT_Except

definition refreshCondition :: "cref \<Rightarrow> bool \<Rightarrow> 'l world \<Rightarrow> 'l world result" where
  "refreshCondition c ready w = (if \<not> ready then Inr (snd (testFired c w)) else fire c w)"

definition Association_getUpdateCondition ::
  "nat \<Rightarrow> UpdateConditionType \<Rightarrow> 'l world \<Rightarrow> (cref \<times> 'l world) result" where
  "Association_getUpdateCondition a type w =
     andThen (getA a w) (\<lambda>x.
     let (c, ready) = (case type of
           UCT_Read \<Rightarrow> (AssocCond a ReadUpdate, A_ReadReady x)
         | UCT_Write \<Rightarrow> (AssocCond a WriteUpdate, A_WriteReady x)
         | UCT_Except \<Rightarrow> (AssocCond a ExceptUpdate, A_HasException x))
     in andThen (refreshCondition c ready w) (\<lambda>w. Inr (c, w)))"

end
