(* ===== verification/Master.thy ===== *)
theory Master
  imports Associations
begin

text \<open>
  The socket master (\<^verbatim>\<open>sctpsocketmaster.cc\<close>): automatic closing of associations, the garbage
  collection of sockets and associations, the notification callbacks of the SCTP
  implementation, and the function \<open>deliver\<close> that runs a callback. A callback may call the
  implementation, which may call back again; \<open>deliver\<close> bounds the depth of this nesting.
\<close>

section \<open>Library parameters\<close>

definition setLibraryParameter ::
  "'l env \<Rightarrow> (library_parameters \<Rightarrow> library_parameters) \<Rightarrow> 'l world \<Rightarrow> (bool \<times> 'l world) result" where
  "setLibraryParameter e f w =
     (let w = lock w in
      case sctp_getLibraryParameters (SL e) (Lib w) of
        None \<Rightarrow> unlockReturn False w
      | Some parameters \<Rightarrow>
          (case sctp_setLibraryParameters (SL e) (Lib w) (f parameters) of
             (ok, l) \<Rightarrow> unlockReturn (ok = 0) (w\<lparr>Lib := l\<rparr>)))"

definition enableOOTBHandling :: "'l env \<Rightarrow> bool \<Rightarrow> 'l world \<Rightarrow> (bool \<times> 'l world) result" where
  "enableOOTBHandling e enable w =
     setLibraryParameter e (\<lambda>p. p\<lparr>sendOotbAborts := (if enable = False then 0 else 1)\<rparr>) w"

definition enableCRC32 :: "'l env \<Rightarrow> bool \<Rightarrow> 'l world \<Rightarrow> (bool \<times> 'l world) result" where
  "enableCRC32 e enable w =
     setLibraryParameter e (\<lambda>p. p\<lparr>checksumAlgorithm :=
       (if enable then SCTP_CHECKSUM_ALGORITHM_CRC32C (SL e) else SCTP_CHECKSUM_ALGORITHM_ADLER32 (SL e))\<rparr>) w"

section \<open>Closing unused associations\<close>

text \<open>
  The loop over \<^verbatim>\<open>ConnectionlessAssociationList\<close> works on the entries the list has at the start of a
  round: while \<^verbatim>\<open>AutoCloseRecursion\<close> is set, only the loop itself removes entries, and callbacks
  insert none.
\<close>

definition autoClose_step ::
  "'l env \<Rightarrow> 'l callback \<Rightarrow> nat \<Rightarrow> card64 \<Rightarrow> card32 \<times> nat \<Rightarrow> 'l world \<Rightarrow> 'l world result" where
  "autoClose_step e cb s now entry w =
     (let a = snd entry in
      andThen (getA a w) (\<lambda>x.
      andThen (getS s w) (\<lambda>y.
      if UseCount x = 0 then
        if ShutdownCompleteNotification x \<or> CommunicationLostNotification x then
          andThen (updS s (\<lambda>y. y\<lparr>ConnectionlessAssociationList := remove1 entry (ConnectionlessAssociationList y)\<rparr>) w)
            (SCTPAssociation_delete e cb a)
        else if AutoCloseTimeout y > 0 \<and> now - LastUsage x > 4 * AutoCloseTimeout y then
          abort e cb a w
        else if AutoCloseTimeout y > 0 \<and> now - LastUsage x > AutoCloseTimeout y \<and> \<not> IsShuttingDown x then
          shutdown e cb a w
        else Inr w
      else Inr w)))"

fun autoClose_rounds :: "'l env \<Rightarrow> 'l callback \<Rightarrow> nat \<Rightarrow> nat \<Rightarrow> 'l world \<Rightarrow> 'l world result" where
  "autoClose_rounds e cb s 0 w = Inl OutOfFuel"
| "autoClose_rounds e cb s (Suc n) w =
     andThen (updS s (\<lambda>y. y\<lparr>AutoCloseNewCheckRequired := False\<rparr>) w) (\<lambda>w.
     andThen (getS s w) (\<lambda>y.
     andThen (forEach (autoClose_step e cb s (Now w)) (ConnectionlessAssociationList y) w) (\<lambda>w.
     andThen (getS s w) (\<lambda>y.
     if AutoCloseNewCheckRequired y then autoClose_rounds e cb s n w else Inr w))))"

definition checkAutoClose :: "'l env \<Rightarrow> 'l callback \<Rightarrow> nat \<Rightarrow> 'l world \<Rightarrow> 'l world result" where
  "checkAutoClose e cb s w =
     andThen (getS s w) (\<lambda>y.
     if AutoCloseRecursion y then updS s (\<lambda>y. y\<lparr>AutoCloseNewCheckRequired := True\<rparr>) w
     else
       andThen (updS s (\<lambda>y. y\<lparr>AutoCloseRecursion := True\<rparr>) w) (\<lambda>w.
       andThen (autoClose_rounds e cb s (2 * length (ConnectionlessAssociationList y) + 2) w)
         (updS s (\<lambda>y. y\<lparr>AutoCloseRecursion := False\<rparr>))))"

section \<open>Garbage collection\<close>

definition unregister_step :: "'l env \<Rightarrow> int \<Rightarrow> 'l world \<Rightarrow> 'l world result" where
  "unregister_step e instanceID w =
     (if instanceID \<in> snd ` set (ClosingAssociations w) then Inr w
      else
        let w = w\<lparr>ClosingSockets := remove1 instanceID (ClosingSockets w)\<rparr>
        in case sctp_unregisterInstance (SL e) (Lib w) instanceID of
             (r, l) \<Rightarrow> if r \<noteq> 0 then Inl ProcessAbort else Inr (w\<lparr>Lib := l\<rparr>))"

definition socketGarbageCollection :: "'l env \<Rightarrow> 'l callback \<Rightarrow> 'l world \<Rightarrow> 'l world result" where
  "socketGarbageCollection e cb w =
     (let w = lock w;
          w = w\<lparr>LastGarbageCollection := Now w\<rparr>
      in andThen (forEach (\<lambda>(_, s). checkAutoClose e cb s) (SocketList w) w) (\<lambda>w.
         andThen (forEach (unregister_step e) (ClosingSockets w) w) unlock))"

definition associationGarbageCollection ::
  "'l env \<Rightarrow> 'l callback \<Rightarrow> card32 \<Rightarrow> bool \<Rightarrow> 'l world \<Rightarrow> (bool \<times> 'l world) result" where
  "associationGarbageCollection e cb assocID sendAbort w =
     (case mm_find assocID (ClosingAssociations w) of
        None \<Rightarrow> Inr (False, w)
      | Some _ \<Rightarrow>
          andThen (if sendAbort then libAbort e cb assocID w else Inr w) (\<lambda>w.
          case libDelete e assocID w of
            (r, w) \<Rightarrow>
              if r \<noteq> 0 then Inl ProcessAbort
              else if mm_find assocID (ClosingAssociations w) = None then Inl BadPointer
              else
                andThen (socketGarbageCollection e cb
                  (w\<lparr>ClosingAssociations := mm_erase assocID (ClosingAssociations w)\<rparr>)) (\<lambda>w.
                Inr (True, w))))"

section \<open>Notification callbacks\<close>

definition with_content :: "SCTPNotification \<Rightarrow> nat \<Rightarrow> card16 \<Rightarrow> nat \<Rightarrow> notification_body \<Rightarrow> SCTPNotification" where
  "with_content n type flags len body =
     n\<lparr>Content := \<lparr>sn_type = type, sn_flags = flags, sn_length = len, sn_body = body\<rparr>\<rparr>"

definition sizeof_sctp_assoc_change :: nat where "sizeof_sctp_assoc_change = 20"
definition sizeof_sctp_paddr_change :: nat where "sizeof_sctp_paddr_change = 152"
definition sizeof_sctp_remote_error :: nat where "sizeof_sctp_remote_error = 16"
definition sizeof_sctp_send_failed :: nat where "sizeof_sctp_send_failed = 48"
definition sizeof_sctp_data_arrive :: nat where "sizeof_sctp_data_arrive = 24"

definition SCTP_ARRIVE_UNORDERED :: card16 where "SCTP_ARRIVE_UNORDERED = 1"

definition SCTP_COMM_UP :: nat where "SCTP_COMM_UP = 11"
definition SCTP_COMM_LOST :: nat where "SCTP_COMM_LOST = 12"
definition SCTP_RESTART :: nat where "SCTP_RESTART = 13"
definition SCTP_SHUTDOWN_COMP :: nat where "SCTP_SHUTDOWN_COMP = 14"

definition SCTP_ADDR_REACHABLE :: int where "SCTP_ADDR_REACHABLE = 21"
definition SCTP_ADDR_UNREACHABLE :: int where "SCTP_ADDR_UNREACHABLE = 22"
definition SCTP_ADDR_REMOVED :: int where "SCTP_ADDR_REMOVED = 23"
definition SCTP_ADDR_ADDED :: int where "SCTP_ADDR_ADDED = 24"
definition SCTP_ADDR_CONFIRMED :: int where "SCTP_ADDR_CONFIRMED = 26"

definition dataArriveNotif ::
  "'l env \<Rightarrow> card32 \<Rightarrow> card16 \<Rightarrow> nat \<Rightarrow> card32 \<Rightarrow> nat \<Rightarrow> 'l world \<Rightarrow> 'l world result" where
  "dataArriveNotif e assocID streamID len protoID unordered w =
     (case getSocketForAssociationID e assocID w of
        None \<Rightarrow> Inr w
      | Some s \<Rightarrow>
          andThen (initNotification e assocID streamID w) (\<lambda>(_, n).
          Master_addNotification s assocID
            (with_content n SCTP_DATA_ARRIVE (if unordered = 1 then SCTP_ARRIVE_UNORDERED else 0)
               sizeof_sctp_data_arrive (DataArrive assocID streamID protoID len)) w))"

definition sendFailureNotif :: "'l env \<Rightarrow> card32 \<Rightarrow> 'l world \<Rightarrow> 'l world result" where
  "sendFailureNotif e assocID w =
     (case getSocketForAssociationID e assocID w of
        None \<Rightarrow> Inr w
      | Some s \<Rightarrow>
          andThen (initNotification e assocID 0 w) (\<lambda>(_, n).
          Master_addNotification s assocID
            (with_content n SCTP_REMOTE_ERROR 0 sizeof_sctp_send_failed (SendFailed 0 0 0 assocID)) w))"

text \<open>The state and the error code of an address change.\<close>

definition addr_change_state :: "'l env \<Rightarrow> int \<Rightarrow> int \<times> int" where
  "addr_change_state e newState =
     (if newState = SCTP_PATH_OK (SL e) then (SCTP_ADDR_REACHABLE, 0)
      else if newState = SCTP_PATH_UNREACHABLE (SL e) then (SCTP_ADDR_UNREACHABLE, 0)
      else if newState = SCTP_PATH_ADDED (SL e) then (SCTP_ADDR_ADDED, 0)
      else if newState = SCTP_PATH_REMOVED (SL e) then (SCTP_ADDR_REMOVED, 0)
      else if newState = SCTP_ASCONF_SUCCEEDED (SL e) then (SCTP_ADDR_CONFIRMED, 0)
      else if newState = SCTP_ASCONF_FAILED (SL e) then (SCTP_ADDR_CONFIRMED, 1)
      else (0, 0))"

definition sizeof_sockaddr_storage :: nat where "sizeof_sockaddr_storage = 128"

text \<open>An IPv4 address is preferred where the address has one.\<close>

definition change_sockaddr :: "'l env \<Rightarrow> SocketAddress \<Rightarrow> sockaddr option" where
  "change_sockaddr e destination =
     (let v6 = UseIPv6 (AE e);
          (addrlen, sa) =
            (if SA_getFamily v6 destination = AF_INET6
             then SA_getSystemAddress v6 destination sizeof_sockaddr_storage AF_INET else (0, None))
      in if addrlen = 0 then snd (SA_getSystemAddress v6 destination sizeof_sockaddr_storage AF_UNSPEC) else sa)"

definition networkStatusChangeNotif ::
  "'l env \<Rightarrow> card32 \<Rightarrow> int \<Rightarrow> int \<Rightarrow> 'l world \<Rightarrow> 'l world result" where
  "networkStatusChangeNotif e assocID affectedPathID newState w =
     (case sctp_getPathStatus (SL e) (Lib w) assocID affectedPathID of
        None \<Rightarrow> Inr w
      | Some pathStatus \<Rightarrow>
          (case createSocketAddress_name (AE e) PF_HidePort (String_of (Some (destinationAddress pathStatus))) of
             None \<Rightarrow> Inr w
           | Some destination \<Rightarrow>
               (case getSocketForAssociationID e assocID w of
                  None \<Rightarrow> Inr w
                | Some s \<Rightarrow>
                    andThen (initNotification e assocID 0 w) (\<lambda>(_, n).
                    let (state, err) = addr_change_state e newState
                    in Master_addNotification s assocID
                         (with_content n SCTP_PEER_ADDR_CHANGE 0 sizeof_sctp_paddr_change
                            (PaddrChange (change_sockaddr e destination) state err assocID)) w))))"

text \<open>
  When the association leaves its set-up phase, the maximum retransmission time-out of the set-up
  is replaced by the saved one.
\<close>

definition correctRTOMax :: "'l env \<Rightarrow> nat \<Rightarrow> card32 \<Rightarrow> 'l world \<Rightarrow> 'l world result" where
  "correctRTOMax e a assocID w =
     andThen (getA a w) (\<lambda>x.
     if RTOMaxIsInitTimeout x then
       andThen (Socket_getAssocStatus e assocID w) (\<lambda>(r, w).
       andThen (case r of
                  None \<Rightarrow> Inr w
                | Some status \<Rightarrow>
                    andThen (Socket_setAssocStatus e assocID (status\<lparr>rtoMax := RTOMax x\<rparr>) w) (\<lambda>(_, w). Inr w))
         (updA a (\<lambda>x. x\<lparr>RTOMaxIsInitTimeout := False\<rparr>)))
     else Inr w)"

definition assocChange :: "nat \<Rightarrow> card16 \<Rightarrow> card16 \<Rightarrow> card32 \<Rightarrow> SCTPNotification \<Rightarrow> SCTPNotification" where
  "assocChange state out inp assocID n =
     with_content n SCTP_ASSOC_CHANGE 0 sizeof_sctp_assoc_change (AssocChange state 0 out inp assocID)"

text \<open>The association started by \<^verbatim>\<open>associate()\<close> is up.\<close>

definition up_outgoing :: "'l env \<Rightarrow> 'l callback \<Rightarrow> nat \<Rightarrow> card32 \<Rightarrow> 'l world \<Rightarrow> 'l world result" where
  "up_outgoing e cb a assocID w =
     andThen (correctRTOMax e a assocID w) (\<lambda>w.
     andThen (updA a (\<lambda>x. x\<lparr>CommunicationUpNotification := True\<rparr>) w) (\<lambda>w.
     andThen (fire (AssocCond a Establish) w) (\<lambda>w.
     andThen (updA a (\<lambda>x. x\<lparr>A_WriteReady := True, A_HasException := False\<rparr>) w) (\<lambda>w.
     andThen (getA a w) (\<lambda>x.
     andThen (deleteAddressList (PreEstablishmentAddressList x)) (\<lambda>(_, as).
     andThen (updA a (\<lambda>x. x\<lparr>PreEstablishmentAddressList := as\<rparr>) w) (\<lambda>w.
     andThen (sendPreEstablishmentPackets e cb a w) (\<lambda>(_, w). Inr w))))))))"

text \<open>A new association of a listening socket is queued for \<^verbatim>\<open>accept()\<close>.\<close>

definition up_incoming ::
  "'l env \<Rightarrow> nat \<Rightarrow> card32 \<Rightarrow> SCTPNotification \<Rightarrow> 'l world \<Rightarrow> (nat \<times> 'l world) result" where
  "up_incoming e s assocID n w =
     andThen (getS s w) (\<lambda>y.
     andThen (SCTPAssociation_new e s assocID (S_NotificationFlags y) (flag_set (Flags y) SSF_GlobalQueue) w) (\<lambda>(a, w).
     andThen (updA a (\<lambda>x. x\<lparr>CommunicationUpNotification := True\<rparr>) w) (\<lambda>w.
     andThen (updS s (\<lambda>y. y\<lparr>ConnectionRequests := ConnectionRequests y @ [\<lparr>IC_Association = a, IC_Notification = n\<rparr>],
                             S_ReadReady := True\<rparr>) w) (\<lambda>w.
     andThen (fire (SockCond s SEstablish) w) (\<lambda>w.
     andThen (updA a (\<lambda>x. x\<lparr>A_WriteReady := True, A_HasException := False\<rparr>) w) (\<lambda>w.
     Inr (a, w)))))))"

text \<open>An unwanted association is aborted and deleted.\<close>

definition up_reject :: "'l env \<Rightarrow> 'l callback \<Rightarrow> card32 \<Rightarrow> 'l world \<Rightarrow> 'l world result" where
  "up_reject e cb assocID w =
     andThen (libAbort e cb assocID w) (\<lambda>w.
     case libDelete e assocID w of (r, w) \<Rightarrow> if r \<noteq> 0 then Inl ProcessAbort else Inr w)"

definition communicationUpNotif ::
  "'l env \<Rightarrow> 'l callback \<Rightarrow> card32 \<Rightarrow> card16 \<Rightarrow> card16 \<Rightarrow> 'l world \<Rightarrow> 'l world result" where
  "communicationUpNotif e cb assocID noOfInStreams noOfOutStreams w =
     andThen (initNotification e assocID 0 w) (\<lambda>(_, n).
     case getSocketForAssociationID e assocID w of
       None \<Rightarrow> up_reject e cb assocID w
     | Some s \<Rightarrow>
         andThen (getAssociationForAssociationID s assocID True w) (\<lambda>(r, w).
         case r of
           Some a \<Rightarrow>
             andThen (up_outgoing e cb a assocID w)
               (Master_addNotification s assocID (assocChange SCTP_COMM_UP noOfOutStreams noOfInStreams assocID n))
         | None \<Rightarrow>
             andThen (getS s w) (\<lambda>y.
             if flag_set (Flags y) SSF_Listening then
               andThen (up_incoming e s assocID n w) (\<lambda>(_, w).
               Master_addNotification s assocID (assocChange SCTP_COMM_UP noOfOutStreams noOfInStreams assocID n) w)
             else up_reject e cb assocID w)))"

definition lost_notify :: "'l env \<Rightarrow> nat \<Rightarrow> nat \<Rightarrow> card32 \<Rightarrow> 'l world \<Rightarrow> 'l world result" where
  "lost_notify e s a assocID w =
     andThen (correctRTOMax e a assocID w) (\<lambda>w.
     andThen (updA a (\<lambda>x. x\<lparr>CommunicationLostNotification := True, ShutdownCompleteNotification := True\<rparr>) w) (\<lambda>w.
     andThen (fire (AssocCond a ShutdownComplete) w) (\<lambda>w.
     andThen (fire (AssocCond a ReadUpdate) w) (\<lambda>w.
     andThen (Master_addNotification s assocID (assocChange SCTP_COMM_LOST 0 0 assocID (initNotification_clear e)) w) (\<lambda>w.
     andThen (updA a (\<lambda>x. x\<lparr>A_HasException := True, A_WriteReady := True, A_ReadReady := True\<rparr>) w) (\<lambda>w.
     andThen (fire (AssocCond a Establish) w) (\<lambda>w.
     fire (AssocCond a ReadyForTransmit) w)))))))"

definition communicationLostNotif :: "'l env \<Rightarrow> 'l callback \<Rightarrow> card32 \<Rightarrow> 'l world \<Rightarrow> 'l world result" where
  "communicationLostNotif e cb assocID w =
     andThen (associationGarbageCollection e cb assocID False w) (\<lambda>(collected, w).
     if collected then Inr w
     else
       (case getSocketForAssociationID e assocID w of
          None \<Rightarrow> Inr w
        | Some s \<Rightarrow>
            andThen (getAssociationForAssociationID s assocID False w) (\<lambda>(r, w).
            andThen (case r of None \<Rightarrow> Inr w | Some a \<Rightarrow> lost_notify e s a assocID w)
              (checkAutoClose e cb s))))"

definition communicationErrorNotif :: "'l env \<Rightarrow> card32 \<Rightarrow> 'l world \<Rightarrow> 'l world result" where
  "communicationErrorNotif e assocID w =
     (case getSocketForAssociationID e assocID w of
        None \<Rightarrow> Inr w
      | Some s \<Rightarrow>
          andThen (initNotification e assocID 0 w) (\<lambda>(_, n).
          Master_addNotification s assocID
            (with_content n SCTP_REMOTE_ERROR 0 sizeof_sctp_remote_error (RemoteError 0 assocID)) w))"

definition restartNotif :: "'l env \<Rightarrow> card32 \<Rightarrow> 'l world \<Rightarrow> 'l world result" where
  "restartNotif e assocID w =
     (case getSocketForAssociationID e assocID w of
        None \<Rightarrow> Inr w
      | Some s \<Rightarrow>
          let (out, inp) = (case sctp_getAssocStatus (SL e) (Lib w) assocID of
                Some status \<Rightarrow> (outStreams status, inStreams status) | None \<Rightarrow> (1, 1))
          in Master_addNotification s assocID
               (assocChange SCTP_RESTART out inp assocID (initNotification_clear e)) w)"

definition shutdownReceivedNotif :: "'l env \<Rightarrow> card32 \<Rightarrow> 'l world \<Rightarrow> 'l world result" where
  "shutdownReceivedNotif e assocID w =
     (case getSocketForAssociationID e assocID w of
        None \<Rightarrow> Inr w
      | Some s \<Rightarrow>
          andThen (getAssociationForAssociationID s assocID False w) (\<lambda>(r, w).
          case r of
            None \<Rightarrow> Inr w
          | Some a \<Rightarrow>
              Master_addNotification s assocID
                (with_content (initNotification_clear e) SCTP_SHUTDOWN_EVENT 0 sizeof_sctp_assoc_change
                   (ShutdownEvent assocID)) w))"

definition complete_notify :: "'l env \<Rightarrow> nat \<Rightarrow> nat \<Rightarrow> card32 \<Rightarrow> 'l world \<Rightarrow> 'l world result" where
  "complete_notify e s a assocID w =
     andThen (updA a (\<lambda>x. x\<lparr>A_WriteReady := True, A_ReadReady := True, A_HasException := True,
                            ShutdownCompleteNotification := True\<rparr>) w) (\<lambda>w.
     andThen (fire (AssocCond a ShutdownComplete) w) (\<lambda>w.
     andThen (fire (AssocCond a ReadyForTransmit) w) (\<lambda>w.
     andThen (fire (AssocCond a ReadUpdate) w) (\<lambda>w.
     Master_addNotification s assocID
       (assocChange SCTP_SHUTDOWN_COMP 0 0 assocID (initNotification_clear e)) w))))"

definition shutdownCompleteNotif :: "'l env \<Rightarrow> 'l callback \<Rightarrow> card32 \<Rightarrow> 'l world \<Rightarrow> 'l world result" where
  "shutdownCompleteNotif e cb assocID w =
     andThen (associationGarbageCollection e cb assocID False w) (\<lambda>(collected, w).
     if collected then Inr w
     else
       (case getSocketForAssociationID e assocID w of
          None \<Rightarrow> Inr w
        | Some s \<Rightarrow>
            andThen (getAssociationForAssociationID s assocID False w) (\<lambda>(r, w).
            andThen (case r of None \<Rightarrow> Inr w | Some a \<Rightarrow> complete_notify e s a assocID w)
              (checkAutoClose e cb s))))"

definition queueStatusChangeNotif :: "'l env \<Rightarrow> 'l callback \<Rightarrow> card32 \<Rightarrow> 'l world \<Rightarrow> 'l world result" where
  "queueStatusChangeNotif e cb assocID w =
     (case getSocketForAssociationID e assocID w of
        None \<Rightarrow> Inr w
      | Some s \<Rightarrow>
          andThen (getAssociationForAssociationID s assocID False w) (\<lambda>(r, w).
          case r of
            None \<Rightarrow> Inr w
          | Some a \<Rightarrow>
              andThen (fire (AssocCond a ReadyForTransmit) w) (\<lambda>w.
              andThen (updA a (\<lambda>x. x\<lparr>A_WriteReady := True\<rparr>) w) (\<lambda>w.
              andThen (sendPreEstablishmentPackets e cb a w) (\<lambda>(_, w). Inr w)))))"

section \<open>Running a callback\<close>

fun handle :: "'l env \<Rightarrow> 'l callback \<Rightarrow> 'l callback" where
  "handle e cb (DataArriveEv assocID streamID len ssn tsn protoID unordered) w =
     dataArriveNotif e assocID streamID len protoID unordered w"
| "handle e cb (SendFailureEv assocID) w = sendFailureNotif e assocID w"
| "handle e cb (NetworkStatusChangeEv assocID path newState) w = networkStatusChangeNotif e assocID path newState w"
| "handle e cb (CommunicationUpEv assocID status noOfDestinations inp out) w =
     communicationUpNotif e cb assocID inp out w"
| "handle e cb (CommunicationLostEv assocID status) w = communicationLostNotif e cb assocID w"
| "handle e cb (CommunicationErrorEv assocID status) w = communicationErrorNotif e assocID w"
| "handle e cb (RestartEv assocID) w = restartNotif e assocID w"
| "handle e cb (ShutdownReceivedEv assocID) w = shutdownReceivedNotif e assocID w"
| "handle e cb (ShutdownCompleteEv assocID) w = shutdownCompleteNotif e cb assocID w"
| "handle e cb (QueueStatusChangeEv assocID queueType queueIdentifier queueLength) w =
     queueStatusChangeNotif e cb assocID w"

primrec deliver :: "'l env \<Rightarrow> nat \<Rightarrow> 'l callback" where
  "deliver e 0 = (\<lambda>ev w. Inl OutOfFuel)"
| "deliver e (Suc n) = handle e (deliver e n)"

end
