(* ===== verification/Sockets.thy ===== *)
theory Sockets
  imports Master
begin

text \<open>
  The operations of a socket (\<^verbatim>\<open>sctpsocket.cc\<close>, \<^verbatim>\<open>sctpsocket.icc\<close>): binding, listening and
  accepting, automatic connections, establishing associations, receiving, sending and peeling
  off. Reference parameters are returned beside the result.
\<close>

section \<open>Life cycle\<close>

definition newSocket :: "nat \<Rightarrow> card32 \<Rightarrow> SCTPSocket" where
  "newSocket family flags = \<lparr>
     GlobalQueue = queue_new, ConnectionRequests = [], AssociationList = [], InstanceName = 0,
     LocalPort = 0, NoOfInStreams = 0, NoOfOutStreams = 0, Flags = flags, S_NotificationFlags = 0,
     CorrelationID = 0, AutoCloseTimeout = 30000000, ConnectionlessAssociationList = [],
     DefaultTrafficClass = 0, Family = family, S_WriteReady = False, S_ReadReady = False,
     S_HasException = False, AutoCloseRecursion = False, AutoCloseNewCheckRequired = False\<rparr>"

definition SCTPSocket_new :: "nat \<Rightarrow> card32 \<Rightarrow> 'l world \<Rightarrow> (nat \<times> 'l world) result" where
  "SCTPSocket_new family flags w =
     (let s = NextPtr w;
          w = w\<lparr>NextPtr := Suc s, Sockets := (Sockets w)(s \<mapsto> newSocket family flags),
                Conds := (\<lambda>c. case c of SockCond t k \<Rightarrow> if t = s then Condition_new else Conds w c | _ \<Rightarrow> Conds w c)\<rparr>
      in andThen (condAddParent (SockCond s SEstablish) (SockCond s SReadUpdate) w) (\<lambda>w.
         andThen (condAddParent (SockCond s GlobalQueueUpdate) (SockCond s SReadUpdate) w) (\<lambda>w.
         Inr (s, w))))"

text \<open>
  The loops of \<^verbatim>\<open>unbind\<close> take the first entry of a list until it is empty. Running out of
  the given number of steps means that callbacks added entries.
\<close>

fun unbind_connectionless :: "'l env \<Rightarrow> 'l callback \<Rightarrow> nat \<Rightarrow> bool \<Rightarrow> nat \<Rightarrow> 'l world \<Rightarrow> 'l world result" where
  "unbind_connectionless e cb s sendAbort n w =
     andThen (getS s w) (\<lambda>y.
     case (ConnectionlessAssociationList y, n) of
       ([], _) \<Rightarrow> Inr w
     | (_, 0) \<Rightarrow> Inl OutOfFuel
     | ((_, a) # rest, Suc n) \<Rightarrow>
         andThen (updS s (\<lambda>y. y\<lparr>ConnectionlessAssociationList := rest\<rparr>) w) (\<lambda>w.
         andThen (if sendAbort then abort e cb a w else Inr w) (\<lambda>w.
         andThen (SCTPAssociation_delete e cb a w) (unbind_connectionless e cb s sendAbort n))))"

fun unbind_associations :: "'l env \<Rightarrow> 'l callback \<Rightarrow> nat \<Rightarrow> bool \<Rightarrow> nat \<Rightarrow> 'l world \<Rightarrow> 'l world result" where
  "unbind_associations e cb s sendAbort n w =
     andThen (getS s w) (\<lambda>y.
     case (AssociationList y, n) of
       ([], _) \<Rightarrow> Inr w
     | (_, 0) \<Rightarrow> Inl OutOfFuel
     | ((_, a) # rest, Suc n) \<Rightarrow>
         andThen (updS s (\<lambda>y. y\<lparr>AssociationList := rest\<rparr>) w) (\<lambda>w.
         andThen (if sendAbort then abort e cb a w else Inr w) (\<lambda>w.
         andThen (SCTPAssociation_delete e cb a w) (unbind_associations e cb s sendAbort n))))"

fun unbind_requests :: "'l env \<Rightarrow> 'l callback \<Rightarrow> nat \<Rightarrow> nat \<Rightarrow> 'l world \<Rightarrow> 'l world result" where
  "unbind_requests e cb s n w =
     andThen (getS s w) (\<lambda>y.
     case (ConnectionRequests y, n) of
       ([], _) \<Rightarrow> Inr w
     | (_, 0) \<Rightarrow> Inl OutOfFuel
     | (c # rest, Suc n) \<Rightarrow>
         andThen (updS s (\<lambda>y. y\<lparr>ConnectionRequests := rest\<rparr>) w) (\<lambda>w.
         andThen (SCTPAssociation_delete e cb (IC_Association c) w) (unbind_requests e cb s n)))"

declare unbind_connectionless.simps [simp del] unbind_associations.simps [simp del]
  unbind_requests.simps [simp del]

definition unbind_list :: "nat \<Rightarrow> 'l world \<Rightarrow> 'l world result" where
  "unbind_list s w =
     andThen (getS s w) (\<lambda>y.
     case mm_find (InstanceName y) (SocketList w) of
       None \<Rightarrow> Inl ProcessAbort
     | Some _ \<Rightarrow> Inr (delayedDeleteSocket (InstanceName y)
         (w\<lparr>SocketList := mm_erase (InstanceName y) (SocketList w)\<rparr>)))"

definition unbind_finish :: "nat \<Rightarrow> 'l world \<Rightarrow> 'l world result" where
  "unbind_finish s w =
     andThen (getS s w) (\<lambda>y.
     andThen (flush (GlobalQueue y)) (\<lambda>q.
     updS s (\<lambda>y. y\<lparr>GlobalQueue := q, InstanceName := 0, CorrelationID := 0,
                    Flags := clear_flag (Flags y) SSF_Listening\<rparr>) w))"

definition unbind :: "'l env \<Rightarrow> 'l callback \<Rightarrow> nat \<Rightarrow> bool \<Rightarrow> 'l world \<Rightarrow> 'l world result" where
  "unbind e cb s sendAbort w =
     andThen (getS s w) (\<lambda>y.
     if InstanceName y > 0 then
       andThen (unbind_connectionless e cb s sendAbort (length (ConnectionlessAssociationList y)) (lock w)) (\<lambda>w.
       andThen (getS s w) (\<lambda>y.
       andThen (unbind_associations e cb s sendAbort (length (AssociationList y)) w) (\<lambda>w.
       andThen (getS s w) (\<lambda>y.
       andThen (unbind_requests e cb s (length (ConnectionRequests y)) w) (\<lambda>w.
       andThen (unbind_list s w) (\<lambda>w.
       andThen (unlock w) (unbind_finish s)))))))
     else Inr w)"

definition SCTPSocket_delete :: "'l env \<Rightarrow> 'l callback \<Rightarrow> nat \<Rightarrow> 'l world \<Rightarrow> 'l world result" where
  "SCTPSocket_delete e cb s w =
     andThen (unbind e cb s False w) (\<lambda>w. Inr (w\<lparr>Sockets := (Sockets w)(s := None)\<rparr>))"

section \<open>Binding\<close>

text \<open>\<^verbatim>\<open>snprintf(buffer, size, "%s", text)\<close>\<close>

definition snprintf_s :: "nat \<Rightarrow> String \<Rightarrow> cstring" where
  "snprintf_s sz s = take (sz - 1) (chars s)"

text \<open>The text of an address for the SCTP implementation: the legacy form unless both are IPv6.\<close>

definition lib_address :: "'l env \<Rightarrow> nat \<Rightarrow> SocketAddress \<Rightarrow> cstring" where
  "lib_address e family adr =
     (let v6 = (case adr of Internet a \<Rightarrow> isIPv6 a | UnixDomain _ \<Rightarrow> False)
      in snprintf_s (SCTP_MAX_IP_LEN (SL e))
           (SA_getAddressString (AE e) adr
              (if v6 \<and> family = AF_INET6 then PF_HidePort OR PF_Address
               else PF_HidePort OR PF_Address OR PF_Legacy)))"

definition register :: "'l env \<Rightarrow> nat \<Rightarrow> card16 \<Rightarrow> nat \<Rightarrow> cstring list \<Rightarrow> 'l world \<Rightarrow> 'l world result" where
  "register e s port n as w =
     andThen (getS s w) (\<lambda>y.
     case sctp_registerInstance (SL e) (Lib w) port (NoOfInStreams y) (NoOfOutStreams y) n as of
       (i, l) \<Rightarrow> updS s (\<lambda>y. y\<lparr>InstanceName := i\<rparr>) (w\<lparr>Lib := l\<rparr>))"

definition random_port :: "card32 \<Rightarrow> card16" where
  "random_port r = of_nat (16384 + unat r mod (61000 - 16384))"

fun bind_random :: "'l env \<Rightarrow> nat \<Rightarrow> nat \<Rightarrow> cstring list \<Rightarrow> nat \<Rightarrow> 'l world \<Rightarrow> 'l world result" where
  "bind_random e s n as 0 w = Inr w"
| "bind_random e s n as (Suc i) w =
     (let port = random_port (random32 e (RandomCount w)) in
      andThen (register e s port n as (w\<lparr>RandomCount := RandomCount w + 1\<rparr>)) (\<lambda>w.
      andThen (getS s w) (\<lambda>y.
      if InstanceName y > 0 then updS s (\<lambda>y. y\<lparr>LocalPort := port\<rparr>) w
      else bind_random e s n as i w)))"

definition bind_fixed :: "'l env \<Rightarrow> 'l callback \<Rightarrow> nat \<Rightarrow> nat \<Rightarrow> cstring list \<Rightarrow> 'l world \<Rightarrow> 'l world result" where
  "bind_fixed e cb s n as w =
     andThen (getS s w) (\<lambda>y.
     andThen (register e s (LocalPort y) n as w) (\<lambda>w.
     andThen (getS s w) (\<lambda>y.
     if InstanceName y \<le> 0 then
       andThen (socketGarbageCollection e cb w) (register e s (LocalPort y) n as)
     else Inr w)))"

definition startMaster :: "'l world \<Rightarrow> (bool \<times> 'l world) result" where
  "startMaster w =
     (let w = lock w in
      if \<not> Running w then
        if StartOK w then unlockReturn True (w\<lparr>Running := True\<rparr>) else unlockReturn False w
      else unlockReturn True w)"

definition bind_locked ::
  "'l env \<Rightarrow> 'l callback \<Rightarrow> nat \<Rightarrow> card16 \<Rightarrow> card16 \<Rightarrow> card16 \<Rightarrow> SocketAddress list \<Rightarrow> 'l world \<Rightarrow> (int \<times> 'l world) result" where
  "bind_locked e cb s localPort noOfInStreams noOfOutStreams addrs w =
     andThen (unbind e cb s False (lock w)) (\<lambda>w.
     andThen (updS s (\<lambda>y. y\<lparr>LocalPort := localPort, NoOfInStreams := noOfInStreams,
                            NoOfOutStreams := noOfOutStreams, CorrelationID := 0\<rparr>) w) (\<lambda>w.
     andThen (getS s w) (\<lambda>y.
     let as = map (lib_address e (Family y)) (take (SCTP_MAX_NUM_ADDRESSES (SL e)) addrs) in
     if length addrs < 1 then unlockReturn (- EINVAL) w
     else
       andThen (if localPort = 0 then bind_random e s (length addrs) as 50000 w
                else bind_fixed e cb s (length addrs) as w) (\<lambda>w.
       andThen (getS s w) (\<lambda>y.
       if InstanceName y \<le> 0 then unlockReturn (- EADDRINUSE) w
       else unlockReturn 0 (w\<lparr>SocketList := mm_insert (instance16 (InstanceName y)) s (SocketList w)\<rparr>))))))"

definition bind ::
  "'l env \<Rightarrow> 'l callback \<Rightarrow> nat \<Rightarrow> card16 \<Rightarrow> card16 \<Rightarrow> card16 \<Rightarrow> SocketAddress list \<Rightarrow> 'l world \<Rightarrow> (int \<times> 'l world) result" where
  "bind e cb s localPort noOfInStreams noOfOutStreams addrs w =
     (if InitializationResult w \<noteq> 0 then Inr (- EPROTONOSUPPORT, w)
      else
        andThen (startMaster w) (\<lambda>(started, w).
        if \<not> started then Inr (- EPROTONOSUPPORT, w)
        else bind_locked e cb s localPort noOfInStreams noOfOutStreams addrs w))"

section \<open>Listening and accepting\<close>

definition listen :: "nat \<Rightarrow> nat \<Rightarrow> 'l world \<Rightarrow> 'l world result" where
  "listen s backlog w =
     andThen (updS s (\<lambda>y. y\<lparr>Flags := (if backlog > 0 then set_flag (Flags y) SSF_Listening
                                          else clear_flag (Flags y) SSF_Listening)\<rparr>) (lock w))
       unlock"

text \<open>
  The address array for the caller of \<^verbatim>\<open>accept\<close>. A bad address deletes the array and the loop
  goes on with a null pointer.
\<close>

fun acceptAddresses_loop :: "'l env \<Rightarrow> SCTPNotification \<Rightarrow> nat list \<Rightarrow> address_array option \<Rightarrow> address_array option result" where
  "acceptAddresses_loop e n [] arr = Inr arr"
| "acceptAddresses_loop e n (i # is) arr =
     andThen (ofOption arr) (\<lambda>as.
     case createSocketAddress_port (AE e) 0 (String_of (Some (RemoteAddress n ! i))) (RemotePort n) of
       Some address \<Rightarrow> acceptAddresses_loop e n is (Some (as[i := Some address]))
     | None \<Rightarrow>
         andThen (deleteAddressList (Some (as[i := None]))) (\<lambda>(_, arr). acceptAddresses_loop e n is arr))"

definition acceptAddresses :: "'l env \<Rightarrow> bool \<Rightarrow> SCTPNotification \<Rightarrow> address_array option result" where
  "acceptAddresses e wantAddresses n =
     (if \<not> wantAddresses then Inr None
      else acceptAddresses_loop e n [0..<RemoteAddresses n] (Some (newAddressList (RemoteAddresses n))))"

text \<open>The part of \<^verbatim>\<open>accept\<close> that takes the first request; the lock is held.\<close>

definition accept_take ::
  "'l env \<Rightarrow> nat \<Rightarrow> bool \<Rightarrow> IncomingConnection \<Rightarrow> 'l world \<Rightarrow> ((nat option \<times> address_array option) \<times> 'l world) result" where
  "accept_take e s wantAddresses c w =
     andThen (acceptAddresses e wantAddresses (IC_Notification c)) (\<lambda>arr.
     andThen (updS s (\<lambda>y. y\<lparr>ConnectionRequests := tl (ConnectionRequests y)\<rparr>) w) (\<lambda>w.
     andThen (Socket_hasData s w) (\<lambda>(d, w).
     andThen (updS s (\<lambda>y. y\<lparr>S_ReadReady := d \<or> ConnectionRequests y \<noteq> []\<rparr>) w) (\<lambda>w.
     unlockReturn (Some (IC_Association c), arr) w))))"

text \<open>\<^verbatim>\<open>accept(addressArray, false)\<close>. Without listen mode the call returns with the lock held.\<close>

definition accept_nonblocking ::
  "'l env \<Rightarrow> nat \<Rightarrow> bool \<Rightarrow> 'l world \<Rightarrow> ((nat option \<times> address_array option) \<times> 'l world) result" where
  "accept_nonblocking e s wantAddresses w =
     (let w = lock w in
      andThen (getS s w) (\<lambda>y.
      if \<not> flag_set (Flags y) SSF_Listening then Inr ((None, None), w)
      else
        (case ConnectionRequests y of
           [] \<Rightarrow> unlockReturn (None, None) w
         | c # _ \<Rightarrow> accept_take e s wantAddresses c w)))"

fun autoConnect_loop :: "'l env \<Rightarrow> nat \<Rightarrow> nat \<Rightarrow> 'l world \<Rightarrow> 'l world result" where
  "autoConnect_loop e s 0 w = Inl OutOfFuel"
| "autoConnect_loop e s (Suc n) w =
     andThen (accept_nonblocking e s False w) (\<lambda>((r, _), w).
     case r of
       None \<Rightarrow> Inr w
     | Some a \<Rightarrow>
         andThen (getA a w) (\<lambda>x.
         andThen (updS s (\<lambda>y. y\<lparr>ConnectionlessAssociationList :=
                     mm_insert (AssociationID x) a (ConnectionlessAssociationList y)\<rparr>) w)
           (autoConnect_loop e s n)))"

definition checkAutoConnect :: "'l env \<Rightarrow> nat \<Rightarrow> 'l world \<Rightarrow> 'l world result" where
  "checkAutoConnect e s w =
     andThen (getS s w) (\<lambda>y.
     if flag_set (Flags y) SSF_AutoConnect then
       andThen (updS s (\<lambda>y. y\<lparr>Flags := set_flag (Flags y) SSF_Listening\<rparr>) (lock w)) (\<lambda>w.
       andThen (autoConnect_loop e s (length (ConnectionRequests y) + 1) w) (\<lambda>w.
       andThen (updS s (\<lambda>z. z\<lparr>Flags := Flags y\<rparr>) w) unlock))
     else Inr w)"

fun accept_loop ::
  "'l env \<Rightarrow> 'l callback \<Rightarrow> nat \<Rightarrow> bool \<Rightarrow> nat \<Rightarrow> 'l world \<Rightarrow> ((nat option \<times> address_array option) \<times> 'l world) result" where
  "accept_loop e cb s wantAddresses 0 w = Inl StillWaiting"
| "accept_loop e cb s wantAddresses (Suc n) w =
     andThen (getS s w) (\<lambda>y.
     case ConnectionRequests y of
       c # _ \<Rightarrow> accept_take e s wantAddresses c w
     | [] \<Rightarrow>
         andThen (unlock w) (\<lambda>w.
         andThen (waitUntil cb (SockCond s SEstablish) (checkAutoConnect e s) w) (\<lambda>w.
         accept_loop e cb s wantAddresses n (lock w))))"

definition accept ::
  "'l env \<Rightarrow> 'l callback \<Rightarrow> nat \<Rightarrow> bool \<Rightarrow> bool \<Rightarrow> 'l world \<Rightarrow> ((nat option \<times> address_array option) \<times> 'l world) result" where
  "accept e cb s wantAddresses wait w =
     (if \<not> wait then accept_nonblocking e s wantAddresses w
      else
        let w = lock w in
        andThen (getS s w) (\<lambda>y.
        if \<not> flag_set (Flags y) SSF_Listening then Inr ((None, None), w)
        else accept_loop e cb s wantAddresses (length (Future w) + 2) w))"

section \<open>Instance parameters\<close>

definition getAssocDefaults :: "'l env \<Rightarrow> nat \<Rightarrow> 'l world \<Rightarrow> (instance_parameters option \<times> 'l world) result" where
  "getAssocDefaults e s w =
     (let w = lock w in
      andThen (getS s w) (\<lambda>y. unlockReturn (sctp_getAssocDefaults (SL e) (Lib w) (InstanceName y)) w))"

definition setAssocDefaults :: "'l env \<Rightarrow> nat \<Rightarrow> instance_parameters \<Rightarrow> 'l world \<Rightarrow> (bool \<times> 'l world) result" where
  "setAssocDefaults e s p w =
     (let w = lock w in
      andThen (getS s w) (\<lambda>y.
      case sctp_setAssocDefaults (SL e) (Lib w) (InstanceName y) p of
        (ok, l) \<Rightarrow> unlockReturn (ok = 0) (w\<lparr>Lib := l\<rparr>)))"

fun localAddresses_loop ::
  "'l env \<Rightarrow> card16 \<Rightarrow> instance_parameters \<Rightarrow> nat list \<Rightarrow> address_array \<Rightarrow> address_array option result" where
  "localAddresses_loop e port p [] arr = Inr (Some arr)"
| "localAddresses_loop e port p (i # is) arr =
     (case createSocketAddress_port (AE e) 0 (String_of (Some (localAddressList p ! i))) port of
        Some address \<Rightarrow> localAddresses_loop e port p is (arr[i := Some address])
      | None \<Rightarrow> andThen (deleteAddressList (Some (arr[i := None]))) (\<lambda>(_, arr). Inr arr))"

text \<open>The result is \<^verbatim>\<open>false\<close> on every path; the array is what the caller may look at.\<close>

definition Socket_getLocalAddresses ::
  "'l env \<Rightarrow> nat \<Rightarrow> address_array option \<Rightarrow> 'l world \<Rightarrow> ((bool \<times> address_array option) \<times> 'l world) result" where
  "Socket_getLocalAddresses e s arr w =
     andThen (getAssocDefaults e s (lock w)) (\<lambda>(r, w).
     andThen (getS s w) (\<lambda>y.
     andThen (case r of
                None \<Rightarrow> Inr arr
              | Some p \<Rightarrow>
                  localAddresses_loop e (LocalPort y) p [0..<noOfLocalAddresses p]
                    (newAddressList (noOfLocalAddresses p))) (\<lambda>arr.
     unlockReturn (False, arr) w)))"

definition Socket_getRemoteAddresses ::
  "'l env \<Rightarrow> nat \<Rightarrow> card32 \<Rightarrow> address_array option \<Rightarrow> 'l world \<Rightarrow> ((bool \<times> address_array option) \<times> 'l world) result" where
  "Socket_getRemoteAddresses e s assocID arr w =
     andThen (getAssociationForAssociationID s assocID False (lock w)) (\<lambda>(r, w).
     andThen (getS s w) (\<lambda>y.
     let r = (case r of Some a \<Rightarrow> Some a | None \<Rightarrow> mm_find assocID (ConnectionlessAssociationList y)) in
     andThen (case r of
                None \<Rightarrow> Inr ((False, arr), w)
              | Some a \<Rightarrow> Association_getRemoteAddresses e a w) (\<lambda>(res, w).
     unlockReturn res w)))"

section \<open>Establishing an association\<close>

definition init_retransmits :: "card16 \<Rightarrow> card16" where
  "init_retransmits maxAttempts =
     (let n = (if maxAttempts > 0 then maxAttempts - 1 else maxAttempts)
      in if n \<le> 0 then 1 else n)"

text \<open>The instance parameters for the set-up; the old ones are returned.\<close>

definition associate_parameters ::
  "'l env \<Rightarrow> nat \<Rightarrow> card16 \<Rightarrow> card16 \<Rightarrow> 'l world \<Rightarrow> (instance_parameters \<times> 'l world) result" where
  "associate_parameters e s maxAttempts maxInitTimeout w =
     andThen (getAssocDefaults e s w) (\<lambda>(r, w).
     case r of
       None \<Rightarrow> Inr (rawParameters e, w)
     | Some p \<Rightarrow>
         andThen (setAssocDefaults e s (p\<lparr>maxInitRetransmits := init_retransmits maxAttempts,
                                          i_rtoMax := ucast maxInitTimeout\<rparr>) w) (\<lambda>(_, w).
         Inr (p, w)))"

text \<open>\<^verbatim>\<open>UseCount--\<close> on an unsigned counter.\<close>

definition decUseCount :: "nat \<Rightarrow> nat" where
  "decUseCount n = (if n = 0 then 2 ^ 32 - 1 else n - 1)"

definition associate_object ::
  "'l env \<Rightarrow> nat \<Rightarrow> card32 \<Rightarrow> instance_parameters \<Rightarrow> card16 \<Rightarrow> SocketAddress list \<Rightarrow> 'l world \<Rightarrow> (nat \<times> 'l world) result" where
  "associate_object e s assocID oldParameters maxInitTimeout dests w =
     andThen (getS s w) (\<lambda>y.
     andThen (SCTPAssociation_new e s assocID (S_NotificationFlags y) (flag_set (Flags y) SSF_GlobalQueue) w) (\<lambda>(a, w).
     andThen (updA a (\<lambda>x. x\<lparr>UseCount := UseCount x + 1, RTOMaxIsInitTimeout := True,
                            RTOMax := i_rtoMax oldParameters, InitTimeout := ucast maxInitTimeout,
                            PreEstablishmentAddressList :=
                              Some (map (\<lambda>d. Some (SA_duplicate (AE e) d)) dests @ [None])\<rparr>) w) (\<lambda>w.
     Inr (a, w))))"

definition associate_start ::
  "'l env \<Rightarrow> 'l callback \<Rightarrow> nat \<Rightarrow> card16 \<Rightarrow> card16 \<Rightarrow> card16 \<Rightarrow> SocketAddress list \<Rightarrow> 'l world \<Rightarrow> (nat option \<times> 'l world) result" where
  "associate_start e cb s noOfOutStreams maxAttempts maxInitTimeout dests w =
     andThen (associate_parameters e s maxAttempts maxInitTimeout (lock w)) (\<lambda>(old, w).
     andThen (getS s w) (\<lambda>y.
     andThen
       (case dests of
          [] \<Rightarrow> Inr (0, w)
        | d # _ \<Rightarrow>
            (case sctp_associatex (SL e) (Lib w) (InstanceName y) (if noOfOutStreams < 1 then 1 else noOfOutStreams)
                    (map (lib_address e (Family y)) dests) (SA_getPort d) of
               (assocID, l, evs) \<Rightarrow> andThen (forEach cb evs (w\<lparr>Lib := l\<rparr>)) (\<lambda>w. Inr (assocID, w)))) (\<lambda>(assocID, w).
     andThen (setAssocDefaults e s old w) (\<lambda>(_, w).
     andThen (if assocID \<noteq> 0
              then andThen (associate_object e s assocID old maxInitTimeout dests w) (\<lambda>(a, w). Inr (Some a, w))
              else Inr (None, w)) (\<lambda>(r, w).
     unlockReturn r w)))))"

text \<open>A blocking call waits for the result of the set-up.\<close>

definition associate_wait ::
  "'l env \<Rightarrow> 'l callback \<Rightarrow> nat \<Rightarrow> nat \<Rightarrow> 'l world \<Rightarrow> (nat option \<times> 'l world) result" where
  "associate_wait e cb s a w =
     andThen (waitUntil cb (AssocCond a Establish) (checkAutoConnect e s) w) (\<lambda>w.
     andThen (getA a w) (\<lambda>x.
     if \<not> CommunicationUpNotification x
     then andThen (SCTPAssociation_delete e cb a w) (\<lambda>w. Inr (None, w))
     else Inr (Some a, w)))"

definition associate ::
  "'l env \<Rightarrow> 'l callback \<Rightarrow> nat \<Rightarrow> card16 \<Rightarrow> card16 \<Rightarrow> card16 \<Rightarrow> SocketAddress list \<Rightarrow> bool \<Rightarrow> 'l world
   \<Rightarrow> (nat option \<times> 'l world) result" where
  "associate e cb s noOfOutStreams maxAttempts maxInitTimeout dests blocking w =
     andThen (associate_start e cb s noOfOutStreams maxAttempts maxInitTimeout dests w) (\<lambda>(r, w).
     andThen (case r of
                Some a \<Rightarrow> if blocking then associate_wait e cb s a w else Inr (Some a, w)
              | None \<Rightarrow> Inr (None, w)) (\<lambda>(r, w).
     let w = lock w in
     andThen (case r of
                None \<Rightarrow> Inr w
              | Some a \<Rightarrow> updA a (\<lambda>x. x\<lparr>UseCount := decUseCount (UseCount x)\<rparr>) w) (\<lambda>w.
     unlockReturn r w)))"

section \<open>Receiving\<close>

datatype queue_ref = SockQueue nat | AssocQueue nat

fun getQ :: "queue_ref \<Rightarrow> 'l world \<Rightarrow> SCTPNotification nqueue result" where
  "getQ (SockQueue s) w = andThen (getS s w) (\<lambda>y. Inr (GlobalQueue y))"
| "getQ (AssocQueue a) w = andThen (getA a w) (\<lambda>x. Inr (InQueue x))"

fun putQ :: "queue_ref \<Rightarrow> SCTPNotification nqueue \<Rightarrow> 'l world \<Rightarrow> 'l world result" where
  "putQ (SockQueue s) q w = updS s (\<lambda>y. y\<lparr>GlobalQueue := q\<rparr>) w"
| "putQ (AssocQueue a) q w = updA a (\<lambda>x. x\<lparr>InQueue := q\<rparr>) w"

fun condQ :: "queue_ref \<Rightarrow> cref" where
  "condQ (SockQueue s) = SockCond s GlobalQueueUpdate"
| "condQ (AssocQueue a) = AssocCond a InQueueUpdate"

text \<open>The reference parameters of a receiving call, and the bytes written to the buffer.\<close>

record recv_io =
  R_buffer :: "byte list"
  R_bufferSize :: nat
  R_flags :: card32
  R_assocID :: card32
  R_streamID :: card16
  R_protoID :: card32
  R_ssn :: card16
  R_tsn :: card32
  R_address :: "SocketAddress option"

text \<open>
  Waiting for a notification. The lock is held at the start; it is released when the call returns
  early with a result.
\<close>

fun recv_loop ::
  "'l env \<Rightarrow> 'l callback \<Rightarrow> nat \<Rightarrow> queue_ref \<Rightarrow> card32 \<Rightarrow> nat \<Rightarrow> recv_io \<Rightarrow> 'l world
   \<Rightarrow> ((int + SCTPNotification) \<times> recv_io \<times> 'l world) result" where
  "recv_loop e cb s qr notificationFlags 0 io w = Inl StillWaiting"
| "recv_loop e cb s qr notificationFlags (Suc n) io w =
     andThen (getQ qr w) (\<lambda>q.
     andThen (getNotification q) (\<lambda>r.
     case r of
       Some notification \<Rightarrow> Inr (Inr notification, io, w)
     | None \<Rightarrow>
         andThen (getErrorCode s (R_assocID io) w) (\<lambda>(errorCode, w).
         andThen (unlock w) (\<lambda>w.
         if errorCode \<noteq> 0 then
           andThen (getQ qr w) (\<lambda>q.
           andThen (queue_hasData q notificationFlags) (\<lambda>d.
           let io = io\<lparr>R_bufferSize := 0\<rparr> in
           if errorCode = - ECONNRESET \<and> \<not> d
           then Inr (Inl 0, io\<lparr>R_flags := clear_flag (R_flags io) MSG_NOTIFICATION\<rparr>, w)
           else Inr (Inl errorCode, io, w)))
         else if flag_set (R_flags io) MSG_DONTWAIT then Inr (Inl (- EAGAIN), io, w)
         else
           andThen (waitUntil cb (condQ qr) (checkAutoConnect e s) w) (\<lambda>w.
           recv_loop e cb s qr notificationFlags n io (lock w))))))"

definition update_queue :: "queue_ref \<Rightarrow> SCTPNotification \<Rightarrow> 'l world \<Rightarrow> 'l world result" where
  "update_queue qr n w = andThen (getQ qr w) (\<lambda>q. andThen (updateNotification q n) (\<lambda>q. putQ qr q w))"

definition drop_queue :: "queue_ref \<Rightarrow> 'l world \<Rightarrow> 'l world result" where
  "drop_queue qr w = andThen (getQ qr w) (\<lambda>q. andThen (dropNotification q) (\<lambda>q. putQ qr q w))"

text \<open>The address of the sender: the primary path of the association.\<close>

definition sender_address :: "'l env \<Rightarrow> card32 \<Rightarrow> SocketAddress option \<Rightarrow> 'l world \<Rightarrow> SocketAddress option" where
  "sender_address e assocID old w =
     (case sctp_getPathStatus (SL e) (Lib w) assocID (sctp_getPrimary (SL e) (Lib w) assocID) of
        None \<Rightarrow> old
      | Some pathStatus \<Rightarrow>
          (case sctp_getAssocStatus (SL e) (Lib w) assocID of
             None \<Rightarrow> old
           | Some assocStatus \<Rightarrow>
               createSocketAddress_port (AE e) 0 (String_of (Some (destinationAddress pathStatus))) (destPort assocStatus)))"

text \<open>
  Data. The result is the return value, whether the notification stays in the queue, the
  reference parameters and the state.
\<close>

definition set_bytes_arrived :: "SCTPNotification \<Rightarrow> nat \<Rightarrow> SCTPNotification" where
  "set_bytes_arrived n k =
     n\<lparr>Content := (Content n)\<lparr>sn_body := (case sn_body (Content n) of
         DataArrive a st pp b \<Rightarrow> DataArrive a st pp k | b \<Rightarrow> b)\<rparr>\<rparr>"

definition recv_data ::
  "'l env \<Rightarrow> 'l callback \<Rightarrow> queue_ref \<Rightarrow> bool \<Rightarrow> SCTPNotification \<Rightarrow> recv_io \<Rightarrow> 'l world
   \<Rightarrow> (int \<times> bool \<times> recv_io \<times> 'l world) result" where
  "recv_data e cb qr wantAddress n io w =
     (let io = io\<lparr>R_flags := clear_flag (R_flags io) MSG_NOTIFICATION\<rparr> in
      case sn_body (Content n) of
        DataArrive assocID streamID protoID bytes \<Rightarrow>
          if bytes > 0 then
            let io = io\<lparr>R_assocID := assocID, R_streamID := streamID, R_protoID := protoID,
                        R_flags := (if sn_flags (Content n) AND SCTP_ARRIVE_UNORDERED \<noteq> 0
                                    then set_flag (R_flags io) MSG_UNORDERED else R_flags io)\<rparr>;
                peek = flag_set (R_flags io) MSG_PEEK
            in (case sctp_receive (SL e) (Lib w) assocID streamID (min bytes (R_bufferSize io)) peek of
                  (r, l, evs) \<Rightarrow>
                    andThen (forEach cb evs (w\<lparr>Lib := l\<rparr>)) (\<lambda>w.
                    case r of
                      None \<Rightarrow> Inr (- ECONNABORTED, False, io, w)
                    | Some (received, ssn, tsn) \<Rightarrow>
                        let k = length received;
                            io = io\<lparr>R_buffer := received, R_bufferSize := k, R_ssn := ssn, R_tsn := tsn,
                                    R_address := (if wantAddress then sender_address e assocID (R_address io) w
                                                  else R_address io)\<rparr>
                        in if peek then
                             andThen (update_queue qr n w) (\<lambda>w. Inr (int k, True, io, w))
                           else if bytes - k > 0 then
                             andThen (update_queue qr (set_bytes_arrived n (bytes - k)) w) (\<lambda>w. Inr (int k, True, io, w))
                           else Inr (int k, False, io\<lparr>R_flags := set_flag (R_flags io) MSG_EOR\<rparr>, w)))
          else Inr (0, False, io\<lparr>R_bufferSize := 0\<rparr>, w)
      | _ \<Rightarrow> Inl BadPointer)"

text \<open>The association a notification is about, as the code reads it out of the union.\<close>

definition notification_assoc_id :: "sctp_notification \<Rightarrow> card32 result" where
  "notification_assoc_id c =
     (if sn_type c = SCTP_REMOTE_ERROR then Inr (remote_error_assoc_id (sn_body c))
      else if sn_type c \<in> {SCTP_ASSOC_CHANGE, SCTP_SEND_FAILED, SCTP_SHUTDOWN_EVENT, SCTP_PEER_ADDR_CHANGE} then
        (case sn_body c of
           AssocChange st er o' i' a \<Rightarrow> Inr a
         | SendFailed er st ssn a \<Rightarrow> Inr a
         | ShutdownEvent a \<Rightarrow> Inr a
         | PaddrChange sa st er a \<Rightarrow> Inr a
         | _ \<Rightarrow> Inl BadPointer)
      else Inl ProcessAbort)"

definition recv_notification ::
  "'l env \<Rightarrow> nat \<Rightarrow> queue_ref \<Rightarrow> card32 \<Rightarrow> SCTPNotification \<Rightarrow> recv_io \<Rightarrow> 'l world
   \<Rightarrow> (int \<times> bool \<times> recv_io \<times> 'l world) result" where
  "recv_notification e s qr notificationFlags n io w =
     andThen (notification_assoc_id (Content n)) (\<lambda>assocID.
     let receiveNotifications = flag_set (R_flags io) MSG_NOTIFICATION;
         io = io\<lparr>R_assocID := assocID\<rparr>
     in if receiveNotifications \<and> subscribed notificationFlags (sn_type (Content n)) then
          let toCopy = min (sn_length (Content n) - ContentPosition n) (R_bufferSize io);
              io = io\<lparr>R_buffer := take toCopy (drop (ContentPosition n) (contentImage e (Content n))),
                      R_bufferSize := toCopy\<rparr>;
              n = n\<lparr>ContentPosition := ContentPosition n + toCopy\<rparr>;
              peek = flag_set (R_flags io) MSG_PEEK
          in if ContentPosition n < sn_length (Content n) then
               andThen (update_queue qr (if peek then n\<lparr>ContentPosition := 0\<rparr> else n) w) (\<lambda>w.
               Inr (int toCopy, True, io\<lparr>R_flags := set_flag (R_flags io) MSG_NOTIFICATION\<rparr>, w))
             else
               let io' = io\<lparr>R_flags := set_flag (R_flags io) (MSG_EOR OR MSG_NOTIFICATION)\<rparr> in
               if peek then
                 andThen (update_queue qr (n\<lparr>ContentPosition := 0\<rparr>) w) (\<lambda>w. Inr (int toCopy, True, io', w))
               else Inr (int toCopy, False, io', w)
        else
          andThen (getErrorCode s assocID w) (\<lambda>(result, w).
          if result = 0
          then Inr (- EAGAIN, False, io\<lparr>R_flags := clear_flag (R_flags io) MSG_NOTIFICATION\<rparr>, w)
          else Inr (result, False, io, w)))"

text \<open>After a notification was consumed, it is dropped and the use of the association ends.\<close>

definition recv_drop :: "nat \<Rightarrow> queue_ref \<Rightarrow> card32 \<Rightarrow> 'l world \<Rightarrow> 'l world result" where
  "recv_drop s qr assocID w =
     andThen (drop_queue qr w) (\<lambda>w.
     andThen (getAssociationForAssociationID s assocID False w) (\<lambda>(r, w).
     andThen
       (case r of
          None \<Rightarrow> Inr w
        | Some a \<Rightarrow>
            andThen (updA a (\<lambda>x. x\<lparr>LastUsage := Now w\<rparr>) w) (\<lambda>w.
            andThen (getA a w) (\<lambda>x.
            if UseCount x > 0 then
              andThen (updA a (\<lambda>x. x\<lparr>UseCount := UseCount x - 1\<rparr>) w) (\<lambda>w.
              andThen (Association_hasData a w) (\<lambda>(d, w).
              andThen (if d then Inr (True, w)
                       else andThen (getErrorCode s (AssociationID x) w) (\<lambda>(c, w). Inr (c < 0, w))) (\<lambda>(ready, w).
              updA a (\<lambda>x. x\<lparr>A_ReadReady := ready\<rparr>) w)))
            else Inl ProcessAbort))) (\<lambda>w.
     andThen (Socket_hasData s w) (\<lambda>(d, w).
     updS s (\<lambda>y. y\<lparr>S_ReadReady := d \<or> ConnectionRequests y \<noteq> []\<rparr>) w))))"

definition internalReceive ::
  "'l env \<Rightarrow> 'l callback \<Rightarrow> nat \<Rightarrow> queue_ref \<Rightarrow> bool \<Rightarrow> card32 \<Rightarrow> recv_io \<Rightarrow> 'l world
   \<Rightarrow> (int \<times> recv_io \<times> 'l world) result" where
  "internalReceive e cb s qr wantAddress notificationFlags io w =
     (if R_bufferSize io = 0 then Inr (- EINVAL, io, w)
      else
        andThen (recv_loop e cb s qr notificationFlags (length (Future w) + 2) io (lock w)) (\<lambda>(r, io, w).
        case r of
          Inl result \<Rightarrow> Inr (result, io, w)
        | Inr n \<Rightarrow>
            andThen (if sn_type (Content n) = SCTP_DATA_ARRIVE
                     then recv_data e cb qr wantAddress n io w
                     else recv_notification e s qr notificationFlags n io w) (\<lambda>(result, updated, io, w).
            andThen (if \<not> updated then recv_drop s qr (R_assocID io) w else Inr w) (\<lambda>w.
            andThen (unlock w) (\<lambda>w. Inr (result, io, w))))))"

definition Association_receiveFrom ::
  "'l env \<Rightarrow> 'l callback \<Rightarrow> nat \<Rightarrow> bool \<Rightarrow> recv_io \<Rightarrow> 'l world \<Rightarrow> (int \<times> recv_io \<times> 'l world) result" where
  "Association_receiveFrom e cb a wantAddress io w =
     andThen (getA a w) (\<lambda>x.
     internalReceive e cb (Socket x) (AssocQueue a) wantAddress (A_NotificationFlags x)
       (io\<lparr>R_assocID := AssociationID x, R_streamID := - 1\<rparr>) w)"

definition Socket_receiveFrom ::
  "'l env \<Rightarrow> 'l callback \<Rightarrow> nat \<Rightarrow> bool \<Rightarrow> recv_io \<Rightarrow> 'l world \<Rightarrow> (int \<times> recv_io \<times> 'l world) result" where
  "Socket_receiveFrom e cb s wantAddress io w =
     andThen (getS s w) (\<lambda>y.
     if \<not> flag_set (Flags y) SSF_GlobalQueue then Inr (- EBADF, io, w)
     else
       andThen (internalReceive e cb s (SockQueue s) wantAddress (S_NotificationFlags y)
                  (io\<lparr>R_assocID := 0\<rparr>) w) (\<lambda>(result, io, w).
       andThen (checkAutoConnect e s w) (\<lambda>w. Inr (result, io, w))))"

section \<open>Finding an association by address\<close>

text \<open>The path index is kept in a \<^verbatim>\<open>short\<close>.\<close>

definition to_short :: "int \<Rightarrow> int" where
  "to_short i = (i + 32768) mod 65536 - 32768"

fun find_established ::
  "'l env \<Rightarrow> SCTPAssociation \<Rightarrow> assoc_status \<Rightarrow> SocketAddress list \<Rightarrow> 'l world \<Rightarrow> bool result" where
  "find_established e x status [] w = Inr False"
| "find_established e x status (d # ds) w =
     (if \<not> IsShuttingDown x \<and> SA_getPort d = destPort status then
        andThen (getPathIndexForAddress e (AssociationID x) (Some d) w) (\<lambda>i.
        if to_short i \<ge> 0 then Inr True else find_established e x status ds w)
      else find_established e x status ds w)"

definition PF_Compare :: card32 where "PF_Compare = PF_Address OR PF_Legacy"

text \<open>
  The comparison with the addresses of an association under construction. The inner index is not
  reset: after the first destination address it stays at the end of the list.
\<close>

fun find_pending_inner :: "'l env \<Rightarrow> SocketAddress \<Rightarrow> SocketAddress list \<Rightarrow> bool" where
  "find_pending_inner e d [] = False"
| "find_pending_inner e d (p # ps) =
     (String_eq (SA_getAddressString (AE e) d PF_Compare) (SA_getAddressString (AE e) p PF_Compare) \<or>
      find_pending_inner e d ps)"

fun find_pending :: "'l env \<Rightarrow> SocketAddress list \<Rightarrow> SocketAddress list \<Rightarrow> bool" where
  "find_pending e [] ps = False"
| "find_pending e (d # ds) ps = (if find_pending_inner e d ps then True else find_pending e ds [])"

definition association_matches :: "'l env \<Rightarrow> SCTPAssociation \<Rightarrow> SocketAddress list \<Rightarrow> 'l world \<Rightarrow> bool result" where
  "association_matches e x dests w =
     (case PreEstablishmentAddressList x of
        None \<Rightarrow>
          (case sctp_getAssocStatus (SL e) (Lib w) (AssociationID x) of
             None \<Rightarrow> Inr False
           | Some status \<Rightarrow> find_established e x status dests w)
      | Some as \<Rightarrow> Inr (find_pending e dests (listed as)))"

fun findAssociationForDestinationAddress ::
  "'l env \<Rightarrow> (card32, nat) multimap \<Rightarrow> SocketAddress list \<Rightarrow> 'l world \<Rightarrow> nat option result" where
  "findAssociationForDestinationAddress e [] dests w = Inr None"
| "findAssociationForDestinationAddress e ((_, a) # list) dests w =
     andThen (getA a w) (\<lambda>x.
     andThen (association_matches e x dests w) (\<lambda>found.
     if found then Inr (Some a) else findAssociationForDestinationAddress e list dests w))"

section \<open>Sending\<close>

definition sendTo_lookup ::
  "'l env \<Rightarrow> nat \<Rightarrow> card32 \<Rightarrow> SocketAddress list option \<Rightarrow> 'l world \<Rightarrow> nat option result" where
  "sendTo_lookup e s assocID dests w =
     andThen (getS s w) (\<lambda>y.
     case dests of
       None \<Rightarrow> Inr (mm_find assocID (AssociationList y))
     | Some ds \<Rightarrow>
         andThen (if flag_set (Flags y) SSF_AutoConnect
                  then findAssociationForDestinationAddress e (ConnectionlessAssociationList y) ds w
                  else Inr None) (\<lambda>r.
         case r of
           Some a \<Rightarrow> Inr (Some a)
         | None \<Rightarrow> findAssociationForDestinationAddress e (AssociationList y) ds w))"

text \<open>A destination without an association starts one when the socket connects automatically.\<close>

definition sendTo_connect ::
  "'l env \<Rightarrow> 'l callback \<Rightarrow> nat \<Rightarrow> card32 \<Rightarrow> card16 \<Rightarrow> card16 \<Rightarrow> card16 \<Rightarrow> SocketAddress list option \<Rightarrow> nat option \<Rightarrow>
   'l world \<Rightarrow> (nat option \<times> 'l world) result" where
  "sendTo_connect e cb s flags streams maxAttempts maxInitTimeout dests r w =
     andThen (getS s w) (\<lambda>y.
     case (r, dests) of
       (None, Some ds) \<Rightarrow>
         if flag_set (Flags y) SSF_AutoConnect then
           andThen (associate e cb s streams maxAttempts maxInitTimeout ds
                      (\<not> flag_set flags MSG_DONTWAIT) w) (\<lambda>(r, w).
           case r of
             None \<Rightarrow> Inr (None, w)
           | Some a \<Rightarrow>
               andThen (updA a (\<lambda>x. x\<lparr>UseCount := UseCount x + 1\<rparr>) (lock w)) (\<lambda>w.
               andThen (getA a w) (\<lambda>x.
               andThen (updS s (\<lambda>y. y\<lparr>ConnectionlessAssociationList :=
                          mm_insert (AssociationID x) a (ConnectionlessAssociationList y)\<rparr>) w) (\<lambda>w.
               unlockReturn (Some a) w))))
         else Inr (None, w)
     | _ \<Rightarrow> Inr (r, w))"

text \<open>\<^verbatim>\<open>MSG_EOF\<close> and \<^verbatim>\<open>MSG_ABORT\<close> end the association after the data was sent.\<close>

definition sendTo_close ::
  "'l env \<Rightarrow> 'l callback \<Rightarrow> nat \<Rightarrow> card32 \<Rightarrow> nat \<Rightarrow> 'l world \<Rightarrow> (nat option \<times> 'l world) result" where
  "sendTo_close e cb s flags a w =
     (if flag_set flags MSG_EOF \<or> flag_set flags MSG_ABORT then
        andThen (if flag_set flags MSG_ABORT then abort e cb a w else Inr w) (\<lambda>w.
        andThen (if flag_set flags MSG_EOF then shutdown e cb a w else Inr w) (\<lambda>w.
        andThen (getS s w) (\<lambda>y.
        andThen
          (if flag_set (Flags y) SSF_AutoConnect then
             andThen (getA a w) (\<lambda>x.
             andThen (updS s (\<lambda>y. y\<lparr>ConnectionlessAssociationList :=
                        mm_erase (AssociationID x) (ConnectionlessAssociationList y)\<rparr>) (lock w)) (\<lambda>w.
             andThen (unlock w) (\<lambda>w.
             andThen (SCTPAssociation_delete e cb a w) (\<lambda>w. Inr (None, w)))))
           else Inr (Some a, w)) (\<lambda>(r, w).
        andThen (checkAutoConnect e s w) (\<lambda>w. Inr (r, w))))))
      else Inr (Some a, w))"

definition sendTo_release :: "nat option \<Rightarrow> 'l world \<Rightarrow> 'l world result" where
  "sendTo_release r w =
     (let w = lock w in
      andThen (case r of
                 None \<Rightarrow> Inr w
               | Some a \<Rightarrow>
                   andThen (updA a (\<lambda>x. x\<lparr>LastUsage := Now w\<rparr>) w) (\<lambda>w.
                   andThen (getA a w) (\<lambda>x.
                   if UseCount x > 0 then updA a (\<lambda>x. x\<lparr>UseCount := UseCount x - 1\<rparr>) w
                   else Inl ProcessAbort))) unlock)"

definition sendTo_one ::
  "'l env \<Rightarrow> 'l callback \<Rightarrow> nat \<Rightarrow> byte list \<Rightarrow> card32 \<Rightarrow> card32 \<Rightarrow> card16 \<Rightarrow> card32 \<Rightarrow> card32 \<Rightarrow> card16 \<Rightarrow> card16 \<Rightarrow>
   bool \<Rightarrow> SocketAddress list option \<Rightarrow> card16 \<Rightarrow> nat option \<Rightarrow> 'l world \<Rightarrow> (int \<times> card32 \<times> 'l world) result" where
  "sendTo_one e cb s buffer flags assocID streamID protoID timeToLive maxAttempts maxInitTimeout
     useDefaults dests streams r w =
     andThen (sendTo_connect e cb s flags streams maxAttempts maxInitTimeout dests r w) (\<lambda>(r, w).
     andThen
       (case r of
          None \<Rightarrow> Inr (- EIO, assocID, None, w)
        | Some a \<Rightarrow>
            andThen (getA a w) (\<lambda>x.
            andThen (if buffer \<noteq> []
                     then Association_sendTo e cb a buffer flags streamID protoID timeToLive useDefaults
                            (case dests of Some (d # _) \<Rightarrow> Some d | _ \<Rightarrow> None) w
                     else Inr (0, w)) (\<lambda>(result, w).
            andThen (sendTo_close e cb s flags a w) (\<lambda>(r, w).
            Inr (result, AssociationID x, r, w))))) (\<lambda>(result, assocID, r, w).
     andThen (sendTo_release r w) (\<lambda>w. Inr (result, assocID, w))))"

definition sendTo_all ::
  "'l env \<Rightarrow> 'l callback \<Rightarrow> nat \<Rightarrow> byte list \<Rightarrow> card32 \<Rightarrow> card16 \<Rightarrow> card32 \<Rightarrow> card32 \<Rightarrow> bool \<Rightarrow> 'l world \<Rightarrow> 'l world result" where
  "sendTo_all e cb s buffer flags streamID protoID timeToLive useDefaults w =
     andThen (getS s w) (\<lambda>y.
     andThen (forEach (\<lambda>(_, a) w.
                andThen (Association_sendTo e cb a buffer flags streamID protoID timeToLive useDefaults None w)
                  (\<lambda>(_, w). Inr w)) (ConnectionlessAssociationList y) w) unlock)"

text \<open>The return value, the association ID for the caller and the state.\<close>

definition Socket_sendTo ::
  "'l env \<Rightarrow> 'l callback \<Rightarrow> nat \<Rightarrow> byte list \<Rightarrow> card32 \<Rightarrow> card32 \<Rightarrow> card16 \<Rightarrow> card32 \<Rightarrow> card32 \<Rightarrow> card16 \<Rightarrow> card16 \<Rightarrow>
   bool \<Rightarrow> SocketAddress list option \<Rightarrow> card16 \<Rightarrow> 'l world \<Rightarrow> (int \<times> card32 \<times> 'l world) result" where
  "Socket_sendTo e cb s buffer flags assocID streamID protoID timeToLive maxAttempts maxInitTimeout
     useDefaults dests streams w =
     (let w = lock w in
      if \<not> flag_set flags MSG_SEND_TO_ALL then
        andThen (sendTo_lookup e s assocID dests w) (\<lambda>r.
        case r of
          Some a \<Rightarrow>
            if buffer = [] \<and> \<not> (flag_set flags MSG_ABORT \<or> flag_set flags MSG_EOF) then
              andThen (unlock w) (\<lambda>w. Inr (- EISCONN, assocID, w))
            else
              andThen (updA a (\<lambda>x. x\<lparr>UseCount := UseCount x + 1\<rparr>) w) (\<lambda>w.
              if flag_set flags MSG_ABORT then
                andThen (abort e cb a w) (\<lambda>w.
                andThen (unlock w) (\<lambda>w. Inr (0, assocID, w)))
              else
                andThen (unlock w) (sendTo_one e cb s buffer flags assocID streamID protoID timeToLive
                  maxAttempts maxInitTimeout useDefaults dests streams (Some a)))
        | None \<Rightarrow>
            andThen (unlock w) (sendTo_one e cb s buffer flags assocID streamID protoID timeToLive
              maxAttempts maxInitTimeout useDefaults dests streams None))
      else
        andThen (sendTo_all e cb s buffer flags streamID protoID timeToLive useDefaults w) (\<lambda>w.
        Inr (int (length buffer), assocID, w)))"

section \<open>Peeling off\<close>

definition peelOff :: "nat \<Rightarrow> card32 \<Rightarrow> 'l world \<Rightarrow> (nat option \<times> 'l world) result" where
  "peelOff s assocID w =
     (let w = lock w in
      andThen (getS s w) (\<lambda>y.
      case mm_find assocID (ConnectionlessAssociationList y) of
        None \<Rightarrow> unlockReturn None w
      | Some a \<Rightarrow>
          andThen (getA a w) (\<lambda>x.
          if IsShuttingDown x then unlockReturn None w
          else
            andThen (updA a (\<lambda>x. x\<lparr>PeeledOff := True\<rparr>) w) (\<lambda>w.
            andThen (updS s (\<lambda>y. y\<lparr>ConnectionlessAssociationList :=
                       mm_erase assocID (ConnectionlessAssociationList y)\<rparr>) w) (unlockReturn (Some a))))))"

fun peelOff_find ::
  "'l env \<Rightarrow> SocketAddress \<Rightarrow> (card32, nat) multimap \<Rightarrow> 'l world \<Rightarrow> (card32 \<times> nat) option result" where
  "peelOff_find e d [] w = Inr None"
| "peelOff_find e d ((k, a) # list) w =
     andThen (getA a w) (\<lambda>x.
     case sctp_getAssocStatus (SL e) (Lib w) (AssociationID x) of
       None \<Rightarrow> peelOff_find e d list w
     | Some status \<Rightarrow>
         if \<not> IsShuttingDown x \<and> SA_getPort d = destPort status \<and>
            String_eq (SA_getAddressString (AE e) d (PF_HidePort OR PF_Address OR PF_Legacy))
              (String_of (Some (primaryDestinationAddress status)))
         then Inr (Some (k, a)) else peelOff_find e d list w)"

definition peelOff_address :: "'l env \<Rightarrow> nat \<Rightarrow> SocketAddress \<Rightarrow> 'l world \<Rightarrow> (nat option \<times> 'l world) result" where
  "peelOff_address e s d w =
     (let w = lock w in
      andThen (getS s w) (\<lambda>y.
      andThen (peelOff_find e d (ConnectionlessAssociationList y) w) (\<lambda>r.
      case r of
        None \<Rightarrow> unlockReturn None w
      | Some entry \<Rightarrow>
          andThen (updA (snd entry) (\<lambda>x. x\<lparr>PeeledOff := True\<rparr>) w) (\<lambda>w.
          andThen (updS s (\<lambda>y. y\<lparr>ConnectionlessAssociationList :=
                     remove1 entry (ConnectionlessAssociationList y)\<rparr>) w) (unlockReturn (Some (snd entry)))))))"

section \<open>Parameters of associations\<close>

definition getPathParameters ::
  "'l env \<Rightarrow> card32 \<Rightarrow> SocketAddress option \<Rightarrow> 'l world \<Rightarrow> ((bool \<times> path_status option) \<times> 'l world) result" where
  "getPathParameters e assocID address w =
     (let w = lock w in
      andThen (getPathIndexForAddress e assocID address w) (\<lambda>i.
      unlockReturn (if i \<ge> 0 then (True, sctp_getPathStatus (SL e) (Lib w) assocID i) else (False, None)) w))"

definition setPathParameters ::
  "'l env \<Rightarrow> card32 \<Rightarrow> SocketAddress option \<Rightarrow> path_status \<Rightarrow> 'l world \<Rightarrow> (bool \<times> 'l world) result" where
  "setPathParameters e assocID address p w =
     (let w = lock w in
      andThen (getPathIndexForAddress e assocID address w) (\<lambda>i.
      if i \<ge> 0 then
        (case (if heartbeatIntervall p = - 1 then sctp_requestHeartbeat (SL e) (Lib w) assocID i
               else sctp_changeHeartBeat (SL e) (Lib w) assocID i (heartbeatIntervall p > 0) (heartbeatIntervall p)) of
           (r, l) \<Rightarrow> unlockReturn (r = 0) (w\<lparr>Lib := l\<rparr>))
      else unlockReturn False w))"

text \<open>
  The settings of the first association of \<^verbatim>\<open>ConnectionlessAssociationList\<close>, whatever the
  given ID; the calls return with the lock held.
\<close>

definition first_connectionless :: "nat \<Rightarrow> 'l world \<Rightarrow> nat option result" where
  "first_connectionless s w =
     andThen (getS s w) (\<lambda>y.
     Inr (case ConnectionlessAssociationList y of [] \<Rightarrow> None | (_, a) # _ \<Rightarrow> Some a))"

definition Socket_getAssocIODefaults ::
  "nat \<Rightarrow> card32 \<Rightarrow> 'l world \<Rightarrow> (AssocIODefaults option \<times> 'l world) result" where
  "Socket_getAssocIODefaults s assocID w =
     (let w = lock w in
      andThen (first_connectionless s w) (\<lambda>r.
      case r of
        None \<Rightarrow> Inr (None, w)
      | Some a \<Rightarrow> andThen (Association_getAssocIODefaults a w) (\<lambda>(d, w). Inr (Some d, w))))"

definition Socket_setAssocIODefaults ::
  "nat \<Rightarrow> card32 \<Rightarrow> AssocIODefaults \<Rightarrow> 'l world \<Rightarrow> (bool \<times> 'l world) result" where
  "Socket_setAssocIODefaults s assocID d w =
     (let w = lock w in
      andThen (first_connectionless s w) (\<lambda>r.
      case r of
        None \<Rightarrow> Inr (False, w)
      | Some a \<Rightarrow> andThen (Association_setAssocIODefaults a d w) (\<lambda>w. Inr (True, w))))"

definition Socket_setDefaultStreamTimeouts ::
  "'l env \<Rightarrow> nat \<Rightarrow> card32 \<Rightarrow> card32 \<Rightarrow> card16 \<Rightarrow> card16 \<Rightarrow> 'l world \<Rightarrow> (bool \<times> 'l world) result" where
  "Socket_setDefaultStreamTimeouts e s assocID timeout start end w =
     (let w = lock w in
      andThen (first_connectionless s w) (\<lambda>r.
      case r of
        None \<Rightarrow> Inr (False, w)
      | Some a \<Rightarrow> andThen (Association_setDefaultStreamTimeouts e a timeout start end w) (\<lambda>(_, w). Inr (True, w))))"

definition Socket_getDefaultStreamTimeout ::
  "nat \<Rightarrow> card32 \<Rightarrow> card16 \<Rightarrow> 'l world \<Rightarrow> ((bool \<times> card32 option) \<times> 'l world) result" where
  "Socket_getDefaultStreamTimeout s assocID streamID w =
     (let w = lock w in
      andThen (first_connectionless s w) (\<lambda>r.
      case r of
        None \<Rightarrow> Inr ((False, None), w)
      | Some a \<Rightarrow> andThen (Association_getDefaultStreamTimeout a streamID w) (\<lambda>(t, w). Inr ((True, t), w))))"

text \<open>An operation on the first association of that list, with the lock released.\<close>

definition on_first ::
  "(nat \<Rightarrow> 'l world \<Rightarrow> (bool \<times> 'l world) result) \<Rightarrow> nat \<Rightarrow> 'l world \<Rightarrow> (bool \<times> 'l world) result" where
  "on_first f s w =
     andThen (first_connectionless s w) (\<lambda>r.
     andThen (case r of None \<Rightarrow> Inr (True, w) | Some a \<Rightarrow> f a w) (\<lambda>(ok, w). unlockReturn ok w))"

definition Socket_setSendBuffer :: "'l env \<Rightarrow> nat \<Rightarrow> nat \<Rightarrow> 'l world \<Rightarrow> (bool \<times> 'l world) result" where
  "Socket_setSendBuffer e s sz w = on_first (\<lambda>a. Association_setSendBuffer e a sz) s (lock w)"

definition Socket_setReceiveBuffer :: "'l env \<Rightarrow> nat \<Rightarrow> nat \<Rightarrow> 'l world \<Rightarrow> (bool \<times> 'l world) result" where
  "Socket_setReceiveBuffer e s sz w = on_first (\<lambda>a. Association_setReceiveBuffer e a sz) s (lock w)"

definition Socket_setTrafficClass :: "nat \<Rightarrow> card8 \<Rightarrow> 'l world \<Rightarrow> (bool \<times> 'l world) result" where
  "Socket_setTrafficClass s trafficClass w =
     andThen (updS s (\<lambda>y. y\<lparr>DefaultTrafficClass := trafficClass\<rparr>) (lock w))
       (on_first (\<lambda>a. Association_setTrafficClass a trafficClass) s)"

definition getPrimaryAddress :: "'l env \<Rightarrow> card32 \<Rightarrow> 'l world \<Rightarrow> (SocketAddress option \<times> 'l world) result" where
  "getPrimaryAddress e assocID w =
     (let w = lock w; i = sctp_getPrimary (SL e) (Lib w) assocID
      in unlockReturn
           (if i \<ge> 0 then
              (case sctp_getPathStatus (SL e) (Lib w) assocID i of
                 None \<Rightarrow> None
               | Some p \<Rightarrow> createSocketAddress_name (AE e) 0 (String_of (Some (destinationAddress p))))
            else None) w)"

definition setPrimary :: "'l env \<Rightarrow> card32 \<Rightarrow> SocketAddress \<Rightarrow> 'l world \<Rightarrow> (bool \<times> 'l world) result" where
  "setPrimary e assocID primary w =
     (let w = lock w in
      andThen (getPathIndexForAddress e assocID (Some primary) w) (\<lambda>i.
      if i \<ge> 0 then
        (case sctp_setPrimary (SL e) (Lib w) assocID i of (r, l) \<Rightarrow> unlockReturn (r = 0) (w\<lparr>Lib := l\<rparr>))
      else unlockReturn False w))"

definition setPeerPrimary :: "'l env \<Rightarrow> card32 \<Rightarrow> SocketAddress \<Rightarrow> 'l world \<Rightarrow> (bool \<times> 'l world) result" where
  "setPeerPrimary e assocID primary w =
     (let w = lock w in
      case sctp_setRemotePrimary (SL e) (Lib w) assocID
             (snprintf_s (SCTP_MAX_IP_LEN (SL e)) (SA_getAddressString (AE e) primary PF_Default)) of
        (r, l) \<Rightarrow> unlockReturn (r = 0) (w\<lparr>Lib := l\<rparr>))"

text \<open>
  \<^verbatim>\<open>addAddress\<close> and \<^verbatim>\<open>deleteAddress\<close> have no implementation in this version; a call with an ID
  fails and counts the correlation ID up, one without goes to the first association.
\<close>

definition changeAddress_id :: "nat \<Rightarrow> 'l world \<Rightarrow> (bool \<times> 'l world) result" where
  "changeAddress_id s w =
     andThen (updS s (\<lambda>y. y\<lparr>CorrelationID := CorrelationID y + 1\<rparr>) (lock w)) (unlockReturn False)"

definition changeAddress :: "nat \<Rightarrow> card32 \<Rightarrow> 'l world \<Rightarrow> (bool \<times> 'l world) result" where
  "changeAddress s assocID w =
     (if assocID = 0
      then on_first (\<lambda>a w. andThen (getA a w) (\<lambda>x.
             if AssociationID x = 0 then Inl OutOfFuel else changeAddress_id (Socket x) w)) s (lock w)
      else changeAddress_id s w)"

definition Socket_addAddress :: "nat \<Rightarrow> card32 \<Rightarrow> SocketAddress \<Rightarrow> 'l world \<Rightarrow> (bool \<times> 'l world) result" where
  "Socket_addAddress s assocID adr w = changeAddress s assocID w"

definition Socket_deleteAddress :: "nat \<Rightarrow> card32 \<Rightarrow> SocketAddress \<Rightarrow> 'l world \<Rightarrow> (bool \<times> 'l world) result" where
  "Socket_deleteAddress s assocID adr w = changeAddress s assocID w"

definition Socket_getUpdateCondition ::
  "nat \<Rightarrow> UpdateConditionType \<Rightarrow> 'l world \<Rightarrow> (cref \<times> 'l world) result" where
  "Socket_getUpdateCondition s type w =
     andThen (getS s w) (\<lambda>y.
     let (c, ready) = (case type of
           UCT_Read \<Rightarrow> (SockCond s SReadUpdate, S_ReadReady y)
         | UCT_Write \<Rightarrow> (SockCond s SWriteUpdate, S_WriteReady y)
         | UCT_Except \<Rightarrow> (SockCond s SExceptUpdate, S_HasException y))
     in andThen (refreshCondition c ready w) (\<lambda>w. Inr (c, w)))"

end
