(* ===== verification/Delegates.thy ===== *)
theory Delegates
  imports Sockets
begin

text \<open>
  The operations of an association that its socket carries out for it, the calls without the
  optional arguments, and the settings that are plain members (\<^verbatim>\<open>sctpassociation.cc\<close>,
  \<^verbatim>\<open>sctpassociation.icc\<close>, \<^verbatim>\<open>sctpsocket.icc\<close>).
\<close>

section \<open>Members\<close>

definition Association_getID :: "nat \<Rightarrow> 'l world \<Rightarrow> card32 result" where
  "Association_getID a w = andThen (getA a w) (\<lambda>x. Inr (AssociationID x))"

definition Association_getNotificationFlags :: "nat \<Rightarrow> 'l world \<Rightarrow> card32 result" where
  "Association_getNotificationFlags a w = andThen (getA a w) (\<lambda>x. Inr (A_NotificationFlags x))"

definition Association_setNotificationFlags :: "nat \<Rightarrow> card32 \<Rightarrow> 'l world \<Rightarrow> 'l world result" where
  "Association_setNotificationFlags a flags w = updA a (\<lambda>x. x\<lparr>A_NotificationFlags := flags\<rparr>) w"

definition Socket_getID :: "nat \<Rightarrow> 'l world \<Rightarrow> int result" where
  "Socket_getID s w = andThen (getS s w) (\<lambda>y. Inr (InstanceName y))"

definition Socket_getNotificationFlags :: "nat \<Rightarrow> 'l world \<Rightarrow> card32 result" where
  "Socket_getNotificationFlags s w = andThen (getS s w) (\<lambda>y. Inr (S_NotificationFlags y))"

definition Socket_setNotificationFlags :: "nat \<Rightarrow> card32 \<Rightarrow> 'l world \<Rightarrow> 'l world result" where
  "Socket_setNotificationFlags s flags w = updS s (\<lambda>y. y\<lparr>S_NotificationFlags := flags\<rparr>) w"

definition Socket_getAutoClose :: "nat \<Rightarrow> 'l world \<Rightarrow> card64 result" where
  "Socket_getAutoClose s w = andThen (getS s w) (\<lambda>y. Inr (AutoCloseTimeout y))"

definition Socket_setAutoClose :: "nat \<Rightarrow> card64 \<Rightarrow> 'l world \<Rightarrow> 'l world result" where
  "Socket_setAutoClose s timeout w = updS s (\<lambda>y. y\<lparr>AutoCloseTimeout := timeout\<rparr>) w"

definition Socket_getDefaultTrafficClass :: "nat \<Rightarrow> 'l world \<Rightarrow> card8 result" where
  "Socket_getDefaultTrafficClass s w = andThen (getS s w) (\<lambda>y. Inr (DefaultTrafficClass y))"

section \<open>Calls without optional arguments\<close>

definition Association_receive ::
  "'l env \<Rightarrow> 'l callback \<Rightarrow> nat \<Rightarrow> recv_io \<Rightarrow> 'l world \<Rightarrow> (int \<times> recv_io \<times> 'l world) result" where
  "Association_receive e cb a io w =
     andThen (getA a w) (\<lambda>x.
     internalReceive e cb (Socket x) (AssocQueue a) False (A_NotificationFlags x)
       (io\<lparr>R_assocID := AssociationID x, R_streamID := - 1\<rparr>) w)"

definition Socket_receive ::
  "'l env \<Rightarrow> 'l callback \<Rightarrow> nat \<Rightarrow> recv_io \<Rightarrow> 'l world \<Rightarrow> (int \<times> recv_io \<times> 'l world) result" where
  "Socket_receive e cb s io w = Socket_receiveFrom e cb s False io w"

definition Association_send ::
  "'l env \<Rightarrow> 'l callback \<Rightarrow> nat \<Rightarrow> byte list \<Rightarrow> card32 \<Rightarrow> card16 \<Rightarrow> card32 \<Rightarrow> card32 \<Rightarrow> bool \<Rightarrow> 'l world
   \<Rightarrow> (int \<times> 'l world) result" where
  "Association_send e cb a buffer flags streamID protoID timeToLive useDefaults w =
     Association_sendTo e cb a buffer flags streamID protoID timeToLive useDefaults None w"

section \<open>Operations the socket carries out\<close>

definition Association_getLocalAddresses ::
  "'l env \<Rightarrow> nat \<Rightarrow> address_array option \<Rightarrow> 'l world \<Rightarrow> ((bool \<times> address_array option) \<times> 'l world) result" where
  "Association_getLocalAddresses e a arr w =
     andThen (getA a w) (\<lambda>x. Socket_getLocalAddresses e (Socket x) arr w)"

definition Association_getPathParameters ::
  "'l env \<Rightarrow> nat \<Rightarrow> SocketAddress option \<Rightarrow> 'l world \<Rightarrow> ((bool \<times> path_status option) \<times> 'l world) result" where
  "Association_getPathParameters e a address w =
     andThen (getA a w) (\<lambda>x. getPathParameters e (AssociationID x) address w)"

definition Association_setPathParameters ::
  "'l env \<Rightarrow> nat \<Rightarrow> SocketAddress option \<Rightarrow> path_status \<Rightarrow> 'l world \<Rightarrow> (bool \<times> 'l world) result" where
  "Association_setPathParameters e a address p w =
     andThen (getA a w) (\<lambda>x. setPathParameters e (AssociationID x) address p w)"

definition Association_getPrimaryAddress ::
  "'l env \<Rightarrow> nat \<Rightarrow> 'l world \<Rightarrow> (SocketAddress option \<times> 'l world) result" where
  "Association_getPrimaryAddress e a w = andThen (getA a w) (\<lambda>x. getPrimaryAddress e (AssociationID x) w)"

definition Association_setPrimary :: "'l env \<Rightarrow> nat \<Rightarrow> SocketAddress \<Rightarrow> 'l world \<Rightarrow> (bool \<times> 'l world) result" where
  "Association_setPrimary e a primary w = andThen (getA a w) (\<lambda>x. setPrimary e (AssociationID x) primary w)"

definition Association_setPeerPrimary :: "'l env \<Rightarrow> nat \<Rightarrow> SocketAddress \<Rightarrow> 'l world \<Rightarrow> (bool \<times> 'l world) result" where
  "Association_setPeerPrimary e a primary w =
     andThen (getA a w) (\<lambda>x. setPeerPrimary e (AssociationID x) primary w)"

definition Association_addAddress :: "nat \<Rightarrow> SocketAddress \<Rightarrow> 'l world \<Rightarrow> (bool \<times> 'l world) result" where
  "Association_addAddress a adr w = andThen (getA a w) (\<lambda>x. Socket_addAddress (Socket x) (AssociationID x) adr w)"

definition Association_deleteAddress :: "nat \<Rightarrow> SocketAddress \<Rightarrow> 'l world \<Rightarrow> (bool \<times> 'l world) result" where
  "Association_deleteAddress a adr w =
     andThen (getA a w) (\<lambda>x. Socket_deleteAddress (Socket x) (AssociationID x) adr w)"

end
