(* ===== verification/Contract.thy ===== *)
theory Contract
  imports World
begin

text \<open>
  The contract every operation keeps: when it returns, the recursive lock is at the level at which
  it was called and the cancellation state of the thread is restored, the chains of the
  notification queues are sound, the parent relation of the conditions has no cycle, and the tables
  are ordered by their keys.

  \<open>holds P r\<close> says that a result satisfies \<open>P\<close> unless the process died or still waits. The collection
  \<open>contract\<close> has for each operation the rule that reduces \<open>holds P (op w)\<close> to \<open>P\<close> on all states
  that meet the contract; the proofs about composed operations apply these rules.
\<close>

named_theorems contract \<open>rules that reduce a statement about an operation to one about its results\<close>

section \<open>Statements about results\<close>

definition holds :: "('a \<Rightarrow> bool) \<Rightarrow> 'a result \<Rightarrow> bool" where
  "holds P r = (case r of Inl _ \<Rightarrow> True | Inr x \<Rightarrow> P x)"

lemma holds_simps [simp]: "holds P (Inl f)" "holds P (Inr x) = P x"
  by (simp_all add: holds_def)

lemma holds_andThen [contract]: "holds (\<lambda>x. holds P (f x)) r \<Longrightarrow> holds P (andThen r f)"
  by (cases r) auto

lemma holds_ofOption [contract]: "(\<And>x. r = Some x \<Longrightarrow> P x) \<Longrightarrow> holds P (ofOption r)"
  by (cases r) auto

lemma holds_if [contract]:
  "(b \<Longrightarrow> holds P x) \<Longrightarrow> (\<not> b \<Longrightarrow> holds P y) \<Longrightarrow> holds P (if b then x else y)"
  by simp

lemma holds_option [contract]:
  "(r = None \<Longrightarrow> holds P x) \<Longrightarrow> (\<And>a. r = Some a \<Longrightarrow> holds P (f a)) \<Longrightarrow> holds P (case r of None \<Rightarrow> x | Some a \<Rightarrow> f a)"
  by (cases r) auto

lemma holds_prod [contract]:
  "(\<And>a b. p = (a, b) \<Longrightarrow> holds P (f a b)) \<Longrightarrow> holds P (case p of (a, b) \<Rightarrow> f a b)"
  by (cases p) auto

lemma holds_list [contract]:
  "(xs = [] \<Longrightarrow> holds P x) \<Longrightarrow> (\<And>a as. xs = a # as \<Longrightarrow> holds P (f a as)) \<Longrightarrow>
   holds P (case xs of [] \<Rightarrow> x | a # as \<Rightarrow> f a as)"
  by (cases xs) auto

lemma holds_sum [contract]:
  "(\<And>a. s = Inl a \<Longrightarrow> holds P (f a)) \<Longrightarrow> (\<And>b. s = Inr b \<Longrightarrow> holds P (g b)) \<Longrightarrow>
   holds P (case s of Inl a \<Rightarrow> f a | Inr b \<Rightarrow> g b)"
  by (cases s) auto

lemma holds_nat [contract]:
  "(n = 0 \<Longrightarrow> holds P x) \<Longrightarrow> (\<And>m. n = Suc m \<Longrightarrow> holds P (f m)) \<Longrightarrow> holds P (case n of 0 \<Rightarrow> x | Suc m \<Rightarrow> f m)"
  by (cases n) auto

lemma holds_mono: "holds P r \<Longrightarrow> (\<And>x. P x \<Longrightarrow> Q x) \<Longrightarrow> holds Q r"
  by (cases r) auto

lemma holdsD: "holds P (Inr x) \<Longrightarrow> P x"
  by simp

lemma holds_True [simp]: "holds (\<lambda>_. True) r"
  by (cases r) auto

section \<open>The lock\<close>

text \<open>What an operation leaves as it is: the level of the lock, the cancellation state and, while the
  lock is held, the state to restore; and which sockets exist.\<close>

type_synonym lock_state = "nat \<times> bool \<times> bool option \<times> nat set"

definition lstate :: "'l world \<Rightarrow> lock_state" where
  "lstate w = (LockLevel w, CancelEnabled w, if LockLevel w = 0 then None else Some (OldCancelState w),
     dom (Sockets w))"

fun lockL :: "lock_state \<Rightarrow> lock_state" where
  "lockL (n, c, o', d) = (Suc n, False, Some (if n = 0 then c else the o'), d)"

fun unlockL :: "lock_state \<Rightarrow> lock_state" where
  "unlockL (n, c, o', d) = (n - 1, if n = 1 then the o' else c, if n = 1 then None else o', d)"

definition lock_inv :: "'l world \<Rightarrow> bool" where
  "lock_inv w = (LockLevel w > 0 \<longrightarrow> \<not> CancelEnabled w)"

lemma lstate_lock [simp]: "lstate (lock w) = lockL (lstate w)"
  by (simp add: lstate_def lock_def Let_def)

lemma unlockL_lockL: "lock_inv w \<Longrightarrow> unlockL (lockL (lstate w)) = lstate w"
  by (simp add: lstate_def lock_inv_def)

lemma lock_inv_lock [simp]: "lock_inv (lock w)"
  by (simp add: lock_inv_def lock_def Let_def)

lemma lock_fields [simp]:
  "Sockets (lock w) = Sockets w" "Assocs (lock w) = Assocs w" "Lib (lock w) = Lib w"
  "Future (lock w) = Future w" "Now (lock w) = Now w" "Conds (lock w) = Conds w"
  "SocketList (lock w) = SocketList w" "NextPtr (lock w) = NextPtr w"
  "ClosingSockets (lock w) = ClosingSockets w" "ClosingAssociations (lock w) = ClosingAssociations w"
  "Running (lock w) = Running w" "StartOK (lock w) = StartOK w" "RandomCount (lock w) = RandomCount w"
  by (simp_all add: lock_def Let_def)

lemma unlock_fields:
  assumes "unlock w = Inr w'"
  shows "Sockets w' = Sockets w" "Assocs w' = Assocs w" "Lib w' = Lib w" "Future w' = Future w"
    "Now w' = Now w" "Conds w' = Conds w" "SocketList w' = SocketList w" "NextPtr w' = NextPtr w"
    "ClosingSockets w' = ClosingSockets w" "ClosingAssociations w' = ClosingAssociations w"
  using assms by (auto simp: unlock_def Let_def split: if_splits)

section \<open>Well-formed states\<close>

definition wfS :: "SCTPSocket \<Rightarrow> bool" where
  "wfS y = (queue_inv (GlobalQueue y) \<and> mm_ordered (AssociationList y) \<and> mm_ordered (ConnectionlessAssociationList y))"

definition wfA :: "SCTPAssociation \<Rightarrow> bool" where
  "wfA x = queue_inv (InQueue x)"

definition wf :: "'l world \<Rightarrow> bool" where
  "wf w = ((\<forall>s y. Sockets w s = Some y \<longrightarrow> wfS y) \<and> (\<forall>a x. Assocs w a = Some x \<longrightarrow> wfA x) \<and>
     ranked cond_rank (Conds w) \<and> mm_ordered (SocketList w) \<and> mm_ordered (ClosingAssociations w) \<and>
     sorted (ClosingSockets w) \<and> distinct (ClosingSockets w) \<and>
     (\<forall>p \<in> dom (Sockets w) \<union> dom (Assocs w). p < NextPtr w))"

definition good :: "'l world \<Rightarrow> bool" where
  "good w = (lock_inv w \<and> wf w)"

lemma good_lock [simp]: "good w \<Longrightarrow> good (lock w)"
  by (simp add: good_def wf_def)

lemma good_unlockL [simp]: "good w \<Longrightarrow> unlockL (lockL (lstate w)) = lstate w"
  by (simp add: good_def unlockL_lockL)

text \<open>The lock and the sockets that exist, while and after a socket is created or destroyed.\<close>

definition addSocket :: "nat \<Rightarrow> lock_state \<Rightarrow> lock_state" where
  "addSocket s = (\<lambda>(n, c, o', d). (n, c, o', insert s d))"

definition removeSocket :: "nat \<Rightarrow> lock_state \<Rightarrow> lock_state" where
  "removeSocket s = (\<lambda>(n, c, o', d). (n, c, o', d - {s}))"

lemma removeSocket_lstate [simp]: "lstate (w\<lparr>Sockets := (Sockets w)(s := None)\<rparr>) = removeSocket s (lstate w)"
  by (simp add: lstate_def removeSocket_def)

lemma addSocket_lstate [simp]: "lstate (w\<lparr>Sockets := (Sockets w)(s \<mapsto> y)\<rparr>) = addSocket s (lstate w)"
  by (simp add: lstate_def addSocket_def)

lemma addSocket_exists: "Sockets w s = Some y \<Longrightarrow> addSocket s (lstate w) = lstate w"
  by (auto simp: lstate_def addSocket_def)

text \<open>Updates of the other components.\<close>

lemma lstate_updates [simp]:
  "lstate (w\<lparr>Lib := l\<rparr>) = lstate w"
  "lstate (w\<lparr>Assocs := as\<rparr>) = lstate w" "lstate (w\<lparr>Conds := cs\<rparr>) = lstate w"
  "lstate (w\<lparr>NextPtr := n\<rparr>) = lstate w" "lstate (w\<lparr>Running := r\<rparr>) = lstate w"
  "lstate (w\<lparr>LastGarbageCollection := t\<rparr>) = lstate w" "lstate (w\<lparr>ClosingSockets := c\<rparr>) = lstate w"
  "lstate (w\<lparr>ClosingAssociations := ca\<rparr>) = lstate w" "lstate (w\<lparr>SocketList := sl\<rparr>) = lstate w"
  "lstate (w\<lparr>RandomCount := k\<rparr>) = lstate w" "lstate (w\<lparr>Future := f\<rparr>) = lstate w"
  by (simp_all add: lstate_def)

lemma good_updates [simp]:
  "good (w\<lparr>Lib := l\<rparr>) = good w" "good (w\<lparr>Running := r\<rparr>) = good w"
  "good (w\<lparr>LastGarbageCollection := t\<rparr>) = good w" "good (w\<lparr>RandomCount := k\<rparr>) = good w"
  "good (w\<lparr>Future := f\<rparr>) = good w"
  by (simp_all add: good_def lock_inv_def wf_def)

lemma good_NextPtr [simp]: "good w \<Longrightarrow> NextPtr w \<le> n \<Longrightarrow> good (w\<lparr>NextPtr := n\<rparr>)"
  by (simp add: good_def lock_inv_def wf_def) (meson UnCI less_le_trans)

lemma wfS_updates [simp]:
  "wfS (y\<lparr>ConnectionRequests := c\<rparr>) = wfS y" "wfS (y\<lparr>InstanceName := i\<rparr>) = wfS y"
  "wfS (y\<lparr>LocalPort := p\<rparr>) = wfS y" "wfS (y\<lparr>NoOfInStreams := ni\<rparr>) = wfS y"
  "wfS (y\<lparr>NoOfOutStreams := no\<rparr>) = wfS y" "wfS (y\<lparr>Flags := f\<rparr>) = wfS y"
  "wfS (y\<lparr>CorrelationID := ci\<rparr>) = wfS y" "wfS (y\<lparr>DefaultTrafficClass := tc\<rparr>) = wfS y"
  "wfS (y\<lparr>S_WriteReady := sw\<rparr>) = wfS y" "wfS (y\<lparr>S_ReadReady := sr\<rparr>) = wfS y"
  "wfS (y\<lparr>AutoCloseRecursion := r\<rparr>) = wfS y" "wfS (y\<lparr>AutoCloseNewCheckRequired := n\<rparr>) = wfS y"
  by (simp_all add: wfS_def)

lemma wfA_updates [simp]:
  "wfA (x\<lparr>LastUsage := t\<rparr>) = wfA x" "wfA (x\<lparr>UseCount := u\<rparr>) = wfA x"
  "wfA (x\<lparr>Defaults := d\<rparr>) = wfA x" "wfA (x\<lparr>StreamDefaultTimeoutArray := sa\<rparr>) = wfA x"
  "wfA (x\<lparr>StreamDefaultTimeoutCount := sc\<rparr>) = wfA x" "wfA (x\<lparr>CommunicationUpNotification := cu\<rparr>) = wfA x"
  "wfA (x\<lparr>CommunicationLostNotification := cl\<rparr>) = wfA x" "wfA (x\<lparr>ShutdownCompleteNotification := sn\<rparr>) = wfA x"
  "wfA (x\<lparr>IsShuttingDown := s\<rparr>) = wfA x" "wfA (x\<lparr>A_ReadReady := r\<rparr>) = wfA x"
  "wfA (x\<lparr>A_WriteReady := aw\<rparr>) = wfA x" "wfA (x\<lparr>A_HasException := he\<rparr>) = wfA x"
  "wfA (x\<lparr>RTOMaxIsInitTimeout := ri\<rparr>) = wfA x" "wfA (x\<lparr>InitTimeout := it\<rparr>) = wfA x"
  "wfA (x\<lparr>RTOMax := rm\<rparr>) = wfA x" "wfA (x\<lparr>PreEstablishmentPackets := pp\<rparr>) = wfA x"
  "wfA (x\<lparr>PreEstablishmentAddressList := pa\<rparr>) = wfA x" "wfA (x\<lparr>PeeledOff := po\<rparr>) = wfA x"
  by (simp_all add: wfA_def)

section \<open>Primitive operations\<close>

lemma unlock_contract [contract]:
  assumes "good w" "\<And>w'. good w' \<Longrightarrow> lstate w' = unlockL (lstate w) \<Longrightarrow> P w'"
  shows "holds P (unlock w)"
proof (cases "LockLevel w = 0")
  case False
  let ?w = "if LockLevel w = 1 then w\<lparr>LockLevel := 0, CancelEnabled := OldCancelState w\<rparr>
     else w\<lparr>LockLevel := LockLevel w - 1\<rparr>"
  have "unlock w = Inr ?w" using False by (auto simp: unlock_def Let_def)
  moreover have "good ?w" "lstate ?w = unlockL (lstate w)"
    using assms(1) False by (auto simp: good_def lock_inv_def wf_def lstate_def)
  ultimately show ?thesis using assms(2) by simp
qed (simp add: unlock_def)

lemma unlockReturn_contract [contract]:
  "good w \<Longrightarrow> (\<And>w'. good w' \<Longrightarrow> lstate w' = unlockL (lstate w) \<Longrightarrow> P (r, w')) \<Longrightarrow> holds P (unlockReturn r w)"
  unfolding unlockReturn_def by (intro contract) auto

lemma getS_contract [contract]:
  "good w \<Longrightarrow> (\<And>y. Sockets w s = Some y \<Longrightarrow> wfS y \<Longrightarrow> P y) \<Longrightarrow> holds P (getS s w)"
  unfolding getS_def by (intro contract) (auto simp: good_def wf_def)

lemma getA_contract [contract]:
  "good w \<Longrightarrow> (\<And>x. Assocs w a = Some x \<Longrightarrow> wfA x \<Longrightarrow> P x) \<Longrightarrow> holds P (getA a w)"
  unfolding getA_def by (intro contract) (auto simp: good_def wf_def)

lemma good_allocated:
  "good w \<Longrightarrow> Sockets w s = Some y \<Longrightarrow> s < NextPtr w" "good w \<Longrightarrow> Assocs w a = Some x \<Longrightarrow> a < NextPtr w"
  by (auto simp: good_def wf_def)

lemma good_Sockets:
  "good w \<Longrightarrow> wfS y \<Longrightarrow> Sockets w s = Some z \<Longrightarrow> good (w\<lparr>Sockets := (Sockets w)(s \<mapsto> y)\<rparr>)"
  by (frule (1) good_allocated(1)) (auto simp: good_def lock_inv_def wf_def)

lemma good_Assocs:
  "good w \<Longrightarrow> wfA x \<Longrightarrow> Assocs w a = Some z \<Longrightarrow> good (w\<lparr>Assocs := (Assocs w)(a \<mapsto> x)\<rparr>)"
  by (frule (1) good_allocated(2)) (auto simp: good_def lock_inv_def wf_def)

lemma good_Sockets_None [simp]: "good w \<Longrightarrow> good (w\<lparr>Sockets := (Sockets w)(s := None)\<rparr>)"
  by (auto simp: good_def lock_inv_def wf_def)

lemma good_Assocs_None [simp]: "good w \<Longrightarrow> good (w\<lparr>Assocs := (Assocs w)(a := None)\<rparr>)"
  by (auto simp: good_def lock_inv_def wf_def)

lemma updS_contract [contract]:
  "good w \<Longrightarrow> (\<And>y. wfS y \<Longrightarrow> wfS (f y)) \<Longrightarrow> (\<And>w'. good w' \<Longrightarrow> lstate w' = lstate w \<Longrightarrow> P w') \<Longrightarrow>
   holds P (updS s f w)"
  unfolding updS_def by (intro contract) (auto simp: good_Sockets addSocket_exists)

lemma updA_contract [contract]:
  "good w \<Longrightarrow> (\<And>x. wfA x \<Longrightarrow> wfA (f x)) \<Longrightarrow> (\<And>w'. good w' \<Longrightarrow> lstate w' = lstate w \<Longrightarrow> P w') \<Longrightarrow>
   holds P (updA a f w)"
  unfolding updA_def by (intro contract) (auto simp: good_Assocs)

lemma good_Conds: "good w \<Longrightarrow> ranked cond_rank s \<Longrightarrow> good (w\<lparr>Conds := s\<rparr>)"
  by (simp add: good_def lock_inv_def wf_def)

lemma cond_rank_le: "cond_rank c < ConditionDepth"
  by (cases c rule: cond_rank.cases) (simp_all add: ConditionDepth_def)

text \<open>Firing a condition always succeeds.\<close>

lemma fire_good:
  assumes "good w"
  shows "fire c w = Inr (w\<lparr>Conds := mark (Conds w) (ancestors (Conds w) c)\<rparr>)"
proof -
  have "ranked cond_rank (Conds w)" using assms by (simp add: good_def wf_def)
  then show ?thesis by (simp add: fire_def broadcast_mark [where r = cond_rank] cond_rank_le)
qed

lemma fire_contract [contract]:
  "good w \<Longrightarrow> (\<And>w'. good w' \<Longrightarrow> lstate w' = lstate w \<Longrightarrow> P w') \<Longrightarrow> holds P (fire c w)"
  by (simp add: fire_good) (simp add: good_def lock_inv_def wf_def)

lemma testFired_good [simp]:
  "good w \<Longrightarrow> good (snd (testFired c w))" "lstate (snd (testFired c w)) = lstate w"
  by (auto simp: testFired_def fired_def good_def lock_inv_def wf_def ranked_def)

lemma testFired_contract:
  "testFired c w = (b, w') \<Longrightarrow> good w \<Longrightarrow> good w' \<and> lstate w' = lstate w"
  using testFired_good by (metis snd_conv)

lemma condAddParent_contract [contract]:
  assumes "good w" "cond_rank p < cond_rank c" "\<And>w'. good w' \<Longrightarrow> lstate w' = lstate w \<Longrightarrow> P w'"
  shows "holds P (condAddParent c p w)"
proof -
  let ?s = "(Conds w)(c := (Conds w c)\<lparr>ParentSet := set_insert p (ParentSet (Conds w c))\<rparr>)"
  have r: "ranked cond_rank ?s"
    using assms(1,2) by (auto simp: good_def wf_def ranked_def set_insert_def)
  then have "broadcast ConditionDepth p ?s = Inr (mark ?s (ancestors ?s p))"
    by (rule broadcast_mark) (rule cond_rank_le)
  with r show ?thesis
    using assms(1,3) good_Conds [OF assms(1)]
    by (simp add: condAddParent_def addParent_def Let_def)
qed

text \<open>Queues.\<close>

lemma addNotification_contract [contract]:
  "queue_inv q \<Longrightarrow> (\<And>q'. queue_inv q' \<Longrightarrow> items q' = items q @ [n] \<Longrightarrow> P q') \<Longrightarrow> holds P (addNotification q n)"
  using nq.add_ok [of q n] by auto

lemma getNotification_contract [contract]:
  "queue_inv q \<Longrightarrow> (\<And>r. P r) \<Longrightarrow> holds P (getNotification q)"
  using nq.get_ok [of q] by auto

lemma updateNotification_contract [contract]:
  "queue_inv q \<Longrightarrow> (\<And>q'. queue_inv q' \<Longrightarrow> P q') \<Longrightarrow> holds P (updateNotification q n)"
  using nq.upd_ok [of q n] by auto

lemma dropNotification_contract [contract]:
  "queue_inv q \<Longrightarrow> (\<And>q'. queue_inv q' \<Longrightarrow> P q') \<Longrightarrow> holds P (dropNotification q)"
  using nq.drp_ok [of q] by auto

lemma flush_contract [contract]:
  "queue_inv q \<Longrightarrow> (\<And>q'. queue_inv q' \<Longrightarrow> P q') \<Longrightarrow> holds P (flush q)"
  using nq.clear_ok [of q] by auto

lemma queue_hasData_contract [contract]:
  "queue_inv q \<Longrightarrow> (\<And>d. P d) \<Longrightarrow> holds P (queue_hasData q f)"
  using nq.any_ok [of q] by (auto simp: queue_hasData_def)

text \<open>Loops.\<close>

lemma forEach_contract:
  assumes "\<And>x w. x \<in> set xs \<Longrightarrow> good w \<Longrightarrow> holds (\<lambda>w'. good w' \<and> lstate w' = lstate w) (f x w)"
    "good w" "\<And>w'. good w' \<Longrightarrow> lstate w' = lstate w \<Longrightarrow> P w'"
  shows "holds P (forEach f xs w)"
  using assms
proof (induction xs arbitrary: w)
  case (Cons x xs)
  have "holds (\<lambda>w'. good w' \<and> lstate w' = lstate w) (f x w)"
    using Cons.prems(1) [of x w] Cons.prems(2) by simp
  then have "holds (\<lambda>w'. holds P (forEach f xs w')) (f x w)"
    by (rule holds_mono) (rule Cons.IH; use Cons.prems in simp)
  then show ?case by (simp add: holds_andThen)
qed simp

end
