(* ===== verification/Samples.thy ===== *)
theory Samples
  imports Sockets
begin

text \<open>
  A small SCTP implementation and states over it, on which the properties with hypotheses are
  applied. Its own state counts the registered instances; every call succeeds, received data is a
  run of equal bytes, and no call calls back.
\<close>

definition sample_status :: assoc_status where
  "sample_status = \<lparr>destPort = 80, numberOfDestinationPaths = 1, destinationPathIDs = [0, 1],
     primaryDestinationAddress = ''10.10.0.1'', rtoMax = 60000, maxSendQueue = 0, maxRecvQueue = 0,
     ipTos = 0, outStreams = 1, inStreams = 1, assoc_state = 4, currentReceiverWindowSize = 65535,
     noOfChunksInRetransmissionQueue = 0, noOfChunksInReceptionQueue = 0, rtoInitial = 3000,
     rtoMin = 1000, ackDelay = 200, assocMaxRetransmits = 10, validCookieLife = 60000\<rparr>"

definition sample_parameters :: instance_parameters where
  "sample_parameters = \<lparr>noOfLocalAddresses = 0, localAddressList = [], maxInitRetransmits = 8,
     i_rtoMax = 60000, i_outStreams = 10, i_inStreams = 10, i_ackDelay = 200\<rparr>"

definition sample_lib :: "nat sctplib" where
  "sample_lib = \<lparr>
     sctp_getAssocStatus = (\<lambda>l k. Some sample_status),
     sctp_setAssocStatus = (\<lambda>l k s. (0, l)),
     sctp_getPathStatus = (\<lambda>l k i. if i = 0 then Some \<lparr>destinationAddress = ''10.10.0.1'', heartbeatIntervall = 30,
       path_state = 0, cwnd = 4000, srtt = 10, rto = 1000, mtu = 1500\<rparr> else None),
     sctp_getPrimary = (\<lambda>l k. 0),
     sctp_setPrimary = (\<lambda>l k i. (0, l)),
     sctp_setRemotePrimary = (\<lambda>l k s. (0, l)),
     sctp_requestHeartbeat = (\<lambda>l k i. (0, l)),
     sctp_changeHeartBeat = (\<lambda>l k i b n. (0, l)),
     sctp_getAssocDefaults = (\<lambda>l i. Some sample_parameters),
     sctp_setAssocDefaults = (\<lambda>l i p. (0, l)),
     sctp_getInstanceID = (\<lambda>l k. Some 1),
     sctp_registerInstance = (\<lambda>l p i o' n as. (1, l + 1)),
     sctp_unregisterInstance = (\<lambda>l i. (0, l - 1)),
     sctp_associatex = (\<lambda>l i o' as p. (7, l, [])),
     sctp_shutdown = (\<lambda>l k. (l, [])),
     sctp_abort = (\<lambda>l k. (l, [])),
     sctp_deleteAssociation = (\<lambda>l k. (0, l)),
     sctp_send_private = (\<lambda>l k st b pp i t u n. (0, l, [])),
     sctp_receive = (\<lambda>l k st n peek. (Some (replicate n 65, 1, 2), l, [])),
     sctp_getLibraryParameters = (\<lambda>l. None),
     sctp_setLibraryParameters = (\<lambda>l p. (0, l)),
     sctp_initLibrary = (\<lambda>l. (0, l)), sctp_getLibraryVersion = (\<lambda>l. 0x10003),
     sctp_registerUserCallback = (\<lambda>l fd m. (0, l)), sctp_unregisterUserCallback = (\<lambda>l fd. (0, l)),
     sctp_startTimer = (\<lambda>l s u. (1, l)), sctp_stopTimer = (\<lambda>l i. (0, l)),
     SCTP_COMPILED_VERSION = 0x10003,
     SCTP_QUEUE_EXCEEDED = 16, SCTP_PARAMETER_PROBLEM = 4, SCTP_INFINITE_LIFETIME = - 1,
     SCTP_PATH_OK = 0, SCTP_PATH_UNREACHABLE = 1, SCTP_PATH_ADDED = 2, SCTP_PATH_REMOVED = 3,
     SCTP_ASCONF_SUCCEEDED = 4, SCTP_ASCONF_FAILED = 5,
     SCTP_CHECKSUM_ALGORITHM_CRC32C = 1, SCTP_CHECKSUM_ALGORITHM_ADLER32 = 0,
     SCTP_MAX_NUM_ADDRESSES = 4, SCTP_MAX_IP_LEN = 46\<rparr>"

definition sample :: "nat env" where
  "sample = \<lparr>SL = sample_lib, AE = sample_env, random32 = (\<lambda>n. of_nat n),
     contentImage = (\<lambda>c. replicate (sn_length c) 66),
     rawNotification = \<lparr>RemotePort = 0, RemoteAddresses = 0, RemoteAddress = replicate 4 '''',
       Content = \<lparr>sn_type = 0, sn_flags = 0, sn_length = 0, sn_body = NoBody\<rparr>, ContentPosition = 0\<rparr>,
     rawTimeout = (\<lambda>i. \<lparr>STValid = True, STTimeout = 99\<rparr>),
     rawParameters = sample_parameters\<rparr>"

text \<open>A state without objects, and one with a socket (address 1) and an association (address 2).\<close>

definition empty_world :: "nat world" where
  "empty_world = \<lparr>Lib = 0, Now = 1000, Sockets = Map.empty, Assocs = Map.empty, NextPtr = 3,
     Conds = (\<lambda>_. Condition_new), InitializationResult = 0, Running = True, StartOK = True,
     LockLevel = 0, CancelEnabled = True, OldCancelState = True, LastGarbageCollection = 0,
     ClosingSockets = [], ClosingAssociations = [], SocketList = [], RandomCount = 0, Future = []\<rparr>"

definition sample_socket :: SCTPSocket where
  "sample_socket = (newSocket AF_INET6 SSF_GlobalQueue)
     \<lparr>InstanceName := 1, AssociationList := [(7, 2)], S_NotificationFlags := 63\<rparr>"

definition sample_assoc :: SCTPAssociation where
  "sample_assoc = (newAssociation sample 1 7 63 500)\<lparr>CommunicationUpNotification := True\<rparr>"

definition sample_world :: "nat world" where
  "sample_world = empty_world\<lparr>Sockets := [1 \<mapsto> sample_socket], Assocs := [2 \<mapsto> sample_assoc],
     SocketList := [(1, 1)]\<rparr>"

lemmas sample_defs = sample_world_def empty_world_def sample_socket_def sample_assoc_def sample_def
  sample_lib_def newSocket_def newAssociation_def

end
