(* ===== verification/AssociationLaws.thy ===== *)
theory AssociationLaws
  imports Contract Samples
begin

text \<open>
  What the operations of an association do: the stream time-outs, the packets sent before an
  association is up, sending on an established association, and the adding of notifications.
\<close>

section \<open>Releasing the lock\<close>

lemma unlock_ok:
  "LockLevel w = Suc n \<Longrightarrow> \<exists>w'. unlock w = Inr w' \<and> LockLevel w' = n \<and> Assocs w' = Assocs w \<and>
     Sockets w' = Sockets w \<and> Lib w' = Lib w \<and> Conds w' = Conds w \<and> Now w' = Now w \<and> Future w' = Future w \<and>
     SocketList w' = SocketList w"
  by (auto simp: unlock_def Let_def)

lemma LockLevel_lock [simp]: "LockLevel (lock w) = Suc (LockLevel w)"
  by (simp add: lock_def Let_def)

section \<open>Stream time-outs\<close>

lemma length_fold_update [simp]:
  "length (fold (\<lambda>i arr. arr[i := g i (arr ! i)]) is arr) = length arr"
  by (induction "is" arbitrary: arr) simp_all

lemma nth_fold_update:
  "j < length arr \<Longrightarrow> fold (\<lambda>i arr. arr[i := g i (arr ! i)]) [a..<b] arr ! j =
     (if a \<le> j \<and> j < b then g j (arr ! j) else arr ! j)"
proof (induction b arbitrary: j)
  case (Suc b)
  then show ?case
    using Suc.IH [of b] by (cases "a \<le> b"; cases "j = b") (auto simp: nth_list_update)
qed simp

lemma set_timeouts_nth:
  "length (set_timeouts t a b arr) = length arr"
  "j < length arr \<Longrightarrow> set_timeouts t a b arr ! j =
     (if a \<le> j \<and> j \<le> b then \<lparr>STValid = True, STTimeout = t\<rparr> else arr ! j)"
  using length_fold_update [of "\<lambda>_ _. \<lparr>STValid = True, STTimeout = t\<rparr>"]
    nth_fold_update [of j arr "\<lambda>_ _. \<lparr>STValid = True, STTimeout = t\<rparr>" a "Suc b"]
  unfolding set_timeouts_def by auto

lemma copy_timeouts_nth:
  "length (copy_timeouts e n old arr) = length arr"
  "length xs = n \<Longrightarrow> j < length arr \<Longrightarrow> j < n \<Longrightarrow> copy_timeouts e n (Some xs) arr ! j = xs ! j"
  using length_fold_update [of "\<lambda>i _. if i < length xs then xs ! i else rawTimeout e i" for xs]
    nth_fold_update [of j arr "\<lambda>i _. if i < length xs then xs ! i else rawTimeout e i" 0 "Suc n"]
  unfolding copy_timeouts_def by (auto split: option.splits)

lemma invalidate_timeouts_nth:
  "length (invalidate_timeouts n a arr) = length arr"
  "j < length arr \<Longrightarrow> invalidate_timeouts n a arr ! j =
     (if n \<le> j \<and> j < a then (arr ! j)\<lparr>STValid := False\<rparr> else arr ! j)"
  using length_fold_update [of "\<lambda>_ x. x\<lparr>STValid := False\<rparr>"]
    nth_fold_update [of j arr "\<lambda>_ x. x\<lparr>STValid := False\<rparr>" n a]
  unfolding invalidate_timeouts_def by auto

text \<open>The time-out an association has for a stream, and the consistency of array and counter.\<close>

definition stream_timeout :: "SCTPAssociation \<Rightarrow> nat \<Rightarrow> card32 option" where
  "stream_timeout x i =
     (case StreamDefaultTimeoutArray x of
        None \<Rightarrow> None
      | Some arr \<Rightarrow> if i < length arr \<and> STValid (arr ! i) then Some (STTimeout (arr ! i)) else None)"

definition wf_timeouts :: "SCTPAssociation \<Rightarrow> bool" where
  "wf_timeouts x = (StreamDefaultTimeoutCount x =
     (case StreamDefaultTimeoutArray x of None \<Rightarrow> 0 | Some arr \<Rightarrow> length arr))"

lemma get_stream_timeout:
  assumes "Assocs w a = Some x" "wf_timeouts x"
  shows "\<exists>w'. Association_getDefaultStreamTimeout a i w = Inr (stream_timeout x (unat i), w') \<and> Assocs w' = Assocs w"
  using assms unlock_ok [of "lock w"]
  by (auto simp: Association_getDefaultStreamTimeout_def getA_def unlockReturn_def stream_timeout_def wf_timeouts_def
      Let_def split: option.splits)

definition grown_timeouts :: "'l env \<Rightarrow> card32 \<Rightarrow> nat \<Rightarrow> nat \<Rightarrow> SCTPAssociation \<Rightarrow> StreamDefaultTimeout list" where
  "grown_timeouts e t a b x =
     set_timeouts t a b (invalidate_timeouts (StreamDefaultTimeoutCount x) a
       (copy_timeouts e (StreamDefaultTimeoutCount x) (StreamDefaultTimeoutArray x)
          (map (rawTimeout e) [0..<b + 1])))"

lemma grown_timeouts_length: "length (grown_timeouts e t a b x) = Suc b"
  by (simp add: grown_timeouts_def set_timeouts_nth copy_timeouts_nth invalidate_timeouts_nth)

lemma grown_timeouts_nth:
  assumes "wf_timeouts x" "StreamDefaultTimeoutCount x \<le> b" "j \<le> b"
  shows "STValid (grown_timeouts e t a b x ! j) \<longleftrightarrow> a \<le> j \<or> stream_timeout x j \<noteq> None"
    "a \<le> j \<Longrightarrow> STTimeout (grown_timeouts e t a b x ! j) = t"
    "\<not> a \<le> j \<Longrightarrow> stream_timeout x j = Some u \<Longrightarrow> STTimeout (grown_timeouts e t a b x ! j) = u"
proof -
  define n old where "n = StreamDefaultTimeoutCount x" and "old = StreamDefaultTimeoutArray x"
  define c where "c = copy_timeouts e n old (map (rawTimeout e) [0..<b + 1])"
  define d where "d = invalidate_timeouts n a c"
  have len: "j < length c" "length d = length c" using assms(3)
    by (simp_all add: c_def d_def copy_timeouts_nth invalidate_timeouts_nth)
  have g: "grown_timeouts e t a b x ! j = (if a \<le> j then \<lparr>STValid = True, STTimeout = t\<rparr> else d ! j)"
    using set_timeouts_nth(2) [of j d t a b] len assms(3)
    by (simp add: grown_timeouts_def c_def d_def n_def old_def)
  have d: "d ! j = (if n \<le> j \<and> j < a then (c ! j)\<lparr>STValid := False\<rparr> else c ! j)"
    unfolding d_def using len by (simp add: invalidate_timeouts_nth)
  have c: "c ! j = xs ! j" if "old = Some xs" "j < n" for xs
    using that assms len(1) copy_timeouts_nth(2) [of xs n j "map (rawTimeout e) [0..<b + 1]" e]
    by (simp add: c_def wf_timeouts_def n_def old_def)
  show "STValid (grown_timeouts e t a b x ! j) \<longleftrightarrow> a \<le> j \<or> stream_timeout x j \<noteq> None"
    "a \<le> j \<Longrightarrow> STTimeout (grown_timeouts e t a b x ! j) = t"
    "\<not> a \<le> j \<Longrightarrow> stream_timeout x j = Some u \<Longrightarrow> STTimeout (grown_timeouts e t a b x ! j) = u"
    using assms(1) c by (auto simp: g d stream_timeout_def wf_timeouts_def n_def old_def split: option.splits if_splits)
qed

lemma grown_timeouts_timeout:
  assumes "wf_timeouts x" "StreamDefaultTimeoutCount x \<le> b"
    "y = x\<lparr>StreamDefaultTimeoutArray := Some (grown_timeouts e t a b x), StreamDefaultTimeoutCount := Suc b\<rparr>"
  shows "stream_timeout y j = (if a \<le> j \<and> j \<le> b then Some t else stream_timeout x j)"
proof (cases "j \<le> b")
  case True
  note n = grown_timeouts_nth [OF assms(1,2) True, where e = e and t = t and a = a]
  have "stream_timeout y j = (if STValid (grown_timeouts e t a b x ! j)
      then Some (STTimeout (grown_timeouts e t a b x ! j)) else None)"
    using True by (simp add: assms(3) stream_timeout_def grown_timeouts_length)
  then show ?thesis using n True by (cases "stream_timeout x j") auto
next
  case False
  then show ?thesis
    using assms by (auto simp: stream_timeout_def grown_timeouts_length wf_timeouts_def split: option.splits)
qed

lemma set_timeouts_timeout:
  assumes "StreamDefaultTimeoutArray x = Some arr" "b < length arr"
    "y = x\<lparr>StreamDefaultTimeoutArray := Some (set_timeouts t a b arr)\<rparr>"
  shows "stream_timeout y j = (if a \<le> j \<and> j \<le> b then Some t else stream_timeout x j)"
  using assms by (auto simp: stream_timeout_def set_timeouts_nth)

text \<open>
  Setting a default time-out for a range of streams and reading the time-outs afterwards:
  every stream in the range has the new time-out and every other stream the one it had before
  (or none), whether or not the array had to grow. The element the copying loop reads behind the
  old array never becomes visible. An empty range is refused and changes nothing.
\<close>

theorem stream_timeouts_set_get:
  assumes "Assocs w a = Some x" "wf_timeouts x"
  shows "(start \<le> end \<longrightarrow> (\<exists>w1 y.
      Association_setDefaultStreamTimeouts e a timeout start end w = Inr (True, w1) \<and>
      Assocs w1 a = Some y \<and> wf_timeouts y \<and>
      (\<forall>i. \<exists>w2. Association_getDefaultStreamTimeout a i w1 =
         Inr (if start \<le> i \<and> i \<le> end then Some timeout else stream_timeout x (unat i), w2)))) \<and>
    (end < start \<longrightarrow> Association_setDefaultStreamTimeouts e a timeout start end w = Inr (False, w))"
proof (intro conjI impI)
  assume "start \<le> end"
  let ?a = "unat start" and ?b = "unat end"
  define y where "y = (if ?b + 1 \<le> StreamDefaultTimeoutCount x
     then x\<lparr>StreamDefaultTimeoutArray := Some (set_timeouts timeout ?a ?b (the (StreamDefaultTimeoutArray x)))\<rparr>
     else x\<lparr>StreamDefaultTimeoutArray := Some (grown_timeouts e timeout ?a ?b x), StreamDefaultTimeoutCount := Suc ?b\<rparr>)"
  have y: "wf_timeouts y" "stream_timeout y j = (if ?a \<le> j \<and> j \<le> ?b then Some timeout else stream_timeout x j)" for j
    using assms(2) grown_timeouts_timeout [OF assms(2), of ?b y e timeout ?a j]
      set_timeouts_timeout [of x "the (StreamDefaultTimeoutArray x)" ?b y timeout ?a j]
    by (auto simp: y_def wf_timeouts_def grown_timeouts_length set_timeouts_nth split: option.splits if_splits)
  let ?w = "(lock w)\<lparr>Assocs := (Assocs w)(a \<mapsto> y)\<rparr>"
  obtain w1 where w1: "unlock ?w = Inr w1" "Assocs w1 = (Assocs w)(a \<mapsto> y)"
    using unlock_ok [of ?w "LockLevel w"] by auto
  have "StreamDefaultTimeoutCount x > 0 \<Longrightarrow> StreamDefaultTimeoutArray x \<noteq> None"
    using assms(2) by (cases "StreamDefaultTimeoutArray x") (auto simp: wf_timeouts_def)
  then have "Association_setDefaultStreamTimeouts e a timeout start end w = Inr (True, w1)"
    using assms(1) \<open>start \<le> end\<close> w1(1)
    by (auto simp: Association_setDefaultStreamTimeouts_def getA_def updA_def unlockReturn_def Let_def
        y_def grown_timeouts_def)
  moreover have "\<exists>w2. Association_getDefaultStreamTimeout a i w1 =
         Inr (if start \<le> i \<and> i \<le> end then Some timeout else stream_timeout x (unat i), w2)" for i
    using get_stream_timeout [of w1 a y i] w1(2) y by (auto simp: word_le_nat_alt)
  ultimately show "\<exists>w1 y. Association_setDefaultStreamTimeouts e a timeout start end w = Inr (True, w1) \<and>
      Assocs w1 a = Some y \<and> wf_timeouts y \<and>
      (\<forall>i. \<exists>w2. Association_getDefaultStreamTimeout a i w1 =
         Inr (if start \<le> i \<and> i \<le> end then Some timeout else stream_timeout x (unat i), w2))"
    using w1(2) y(1) by auto
next
  assume "end < start"
  then show "Association_setDefaultStreamTimeouts e a timeout start end w = Inr (False, w)"
    by (simp add: Association_setDefaultStreamTimeouts_def)
qed

theorem stream_timeouts_set_get_witness:
  "\<exists>w1 y. Association_setDefaultStreamTimeouts sample 2 500 1 3 sample_world = Inr (True, w1) \<and>
      Assocs w1 2 = Some y \<and> wf_timeouts y \<and>
      (\<exists>w2. Association_getDefaultStreamTimeout 2 2 w1 = Inr (Some 500, w2)) \<and>
      (\<exists>w2. Association_getDefaultStreamTimeout 2 0 w1 = Inr (None, w2))"
proof -
  have a: "Assocs sample_world 2 = Some sample_assoc" "wf_timeouts sample_assoc"
    by (simp_all add: sample_defs wf_timeouts_def)
  have none: "stream_timeout sample_assoc i = None" for i
    by (simp add: sample_defs stream_timeout_def)
  obtain w1 y where w: "Association_setDefaultStreamTimeouts sample 2 500 1 3 sample_world = Inr (True, w1)"
    "Assocs w1 2 = Some y" "wf_timeouts y"
    and all: "\<And>i. \<exists>w2. Association_getDefaultStreamTimeout 2 i w1 =
      Inr (if (1 :: 16 word) \<le> i \<and> i \<le> 3 then Some 500 else None, w2)"
    using stream_timeouts_set_get [OF a, of 1 3 sample 500] by (auto simp: none cong: if_cong)
  have "(1 :: 16 word) \<le> 2 \<and> (2 :: 16 word) \<le> 3" "\<not> (1 :: 16 word) \<le> 0" by simp_all
  then show ?thesis using w all [of 2] all [of 0] by (intro exI [of _ w1] exI [of _ y]) simp
qed

end
