(* ===== verification/Randomizers.thy ===== *)
theory Randomizers
  imports Prelude
begin

text \<open>
  The random numbers of \<^verbatim>\<open>randomizer.cc\<close> and \<^verbatim>\<open>randomizer.icc\<close>: a linear congruential generator
  over 32 bits, its draws of 8, 16, 32 and 64 bits and the draw from an interval. The functions that return
  floating point numbers are left out.
\<close>

section \<open>The generator\<close>

record Randomizer =
  Value :: card32

text \<open>The time in microseconds seeds a new generator.\<close>

definition setSeed_time :: "card64 \<Rightarrow> Randomizer \<Rightarrow> Randomizer" where
  "setSeed_time microTime r = r\<lparr>Value := ucast microTime\<rparr>"

definition Randomizer_new :: "card64 \<Rightarrow> Randomizer" where
  "Randomizer_new microTime = setSeed_time microTime \<lparr>Value = 0\<rparr>"

definition setSeed :: "card32 \<Rightarrow> Randomizer \<Rightarrow> Randomizer" where
  "setSeed seed r = r\<lparr>Value := seed\<rparr>"

definition random8 :: "Randomizer \<Rightarrow> card8 \<times> Randomizer" where
  "random8 r = (let v = Value r * 31415821 + 1 in (ucast (v AND 0xff), r\<lparr>Value := v\<rparr>))"

definition random16 :: "Randomizer \<Rightarrow> card16 \<times> Randomizer" where
  "random16 r = (let v = Value r * 31415821 + 1 in (ucast (v AND 0xffff), r\<lparr>Value := v\<rparr>))"

definition random32 :: "Randomizer \<Rightarrow> card32 \<times> Randomizer" where
  "random32 r = (let v = Value r * 31415821 + 1 in (v AND 0xffffffff, r\<lparr>Value := v\<rparr>))"

definition random64 :: "Randomizer \<Rightarrow> card64 \<times> Randomizer" where
  "random64 r =
     (let v1 = Value r * 31415821 + 1; v = v1 * 31415821 + 1
      in (push_bit 32 (ucast v1) OR ucast v, r\<lparr>Value := v\<rparr>))"

text \<open>A number of \<open>[a, b]\<close>; a \<^verbatim>\<open>cardinal\<close> has four bytes.\<close>

definition random_cardinal :: "card32 \<Rightarrow> card32 \<Rightarrow> Randomizer \<Rightarrow> card32 \<times> Randomizer" where
  "random_cardinal a b r =
     (let c = b - a + 1; (number, r) = random32 r
      in (if c = 0 then a else number mod c + a, r))"

section \<open>The period\<close>

text \<open>The effect of \<open>n\<close> steps is \<open>x + S n * ((m - 1) * x + 1)\<close> with \<open>S n\<close> the sum of the first powers of the factor \<open>m\<close>.\<close>

definition geo :: "nat \<Rightarrow> int" where
  "geo n = (\<Sum>i<n. 31415821 ^ i)"

lemma geo_power: "31415820 * geo n = 31415821 ^ n - 1"
  unfolding geo_def by (induction n) (simp_all add: algebra_simps)

lemma geo_double: "geo (2 * n) = geo n * (1 + 31415821 ^ n)"
proof -
  have "31415820 * geo (2 * n) = 31415820 * (geo n * (1 + 31415821 ^ n))"
    unfolding geo_power mult.assoc [symmetric] by (simp add: power_mult power2_eq_square algebra_simps)
  then show ?thesis by simp
qed

lemma odd_geo: "odd (geo n) = odd n"
  unfolding geo_def by (induction n) auto

lemma odd_factor: "odd u \<Longrightarrow> 2 ^ j dvd x * u \<longleftrightarrow> 2 ^ j dvd x" for u :: int
  by (rule coprime_dvd_mult_left_iff) (simp only: coprime_power_left_iff coprime_left_2_iff_odd, simp)

lemma power2_dvd_geo: "2 ^ k dvd geo n \<longleftrightarrow> 2 ^ k dvd n"
proof (induction n arbitrary: k rule: less_induct)
  case (less n)
  show ?case
  proof (cases "even n \<and> n \<noteq> 0 \<and> k \<noteq> 0")
    case True
    then obtain m j where m: "n = 2 * m" "m < n" and j: "k = Suc j" by (cases k) (auto elim!: evenE)
    have "(31415821 :: int) ^ m mod 4 = 1" using power_mod [of "31415821 :: int" 4 m] by simp
    then obtain u where u: "1 + (31415821 :: int) ^ m = 2 * u" "odd u"
      by (intro that [of "(1 + 31415821 ^ m) div 2"]) presburger+
    have "2 ^ k dvd geo n \<longleftrightarrow> 2 ^ j dvd geo m * u"
      unfolding m(1) geo_double j u(1) by (simp add: mult.left_commute)
    also have "\<dots> \<longleftrightarrow> 2 ^ j dvd geo m" by (rule odd_factor [OF u(2)])
    finally show ?thesis using less.IH [OF m(2), of j] by (simp add: m(1) j)
  next
    case False
    then show ?thesis
    proof (cases "n = 0 \<or> k = 0")
      case False
      with \<open>\<not> (even n \<and> n \<noteq> 0 \<and> k \<noteq> 0)\<close> have "odd n" "odd (geo n)" "k \<noteq> 0" by (auto simp: odd_geo)
      then show ?thesis by (meson dvd_power dvd_trans gr0I)
    qed (auto simp: geo_def)
  qed
qed

lemma state_after:
  fixes f :: "Randomizer \<Rightarrow> Randomizer"
  assumes "\<And>r. Value (f r) = Value r * 31415821 + 1"
  shows "Value ((f ^^ n) r) = of_int (uint (Value r) + geo n * (31415820 * uint (Value r) + 1))"
proof (induction n)
  case 0
  then show ?case by (simp add: geo_def)
next
  case (Suc n)
  have "geo (Suc n) = 31415821 * geo n + 1"
    using geo_power [of n] geo_power [of "Suc n"] by simp
  then show ?case by (simp add: Suc.IH assms algebra_simps)
qed

lemma ucast_of_int: "LENGTH('b :: len) \<le> LENGTH('a :: len) \<Longrightarrow> ucast (of_int i :: 'a word) = (of_int i :: 'b word)"
  by transfer simp

lemma of_int_word_eq: "(of_int a :: 'b :: len word) = of_int b \<longleftrightarrow> 2 ^ LENGTH('b) dvd a - b"
  by (simp add: word_of_int_eq_iff take_bit_eq_mod mod_eq_dvd_iff)

text \<open>A draw of the \<open>w\<close> low bits is repeated after \<open>n\<close> draws exactly if \<open>2 ^ w\<close> divides \<open>n\<close>.\<close>

lemma draw_period:
  fixes f :: "Randomizer \<Rightarrow> Randomizer"
  assumes "\<And>r. Value (f r) = Value r * 31415821 + 1" "LENGTH('b :: len) \<le> 32"
  shows "(ucast (Value (f ((f ^^ n) r))) :: 'b word) = ucast (Value (f r)) \<longleftrightarrow> 2 ^ LENGTH('b) dvd n"
proof -
  let ?x = "uint (Value (f r))"
  have "f ((f ^^ n) r) = (f ^^ n) (f r)" by (simp add: funpow_swap1)
  then have "(ucast (Value (f ((f ^^ n) r))) :: 'b word) = of_int (?x + geo n * (31415820 * ?x + 1))"
    using assms(2) by (simp only: state_after [OF assms(1)]) (rule ucast_of_int, simp)
  moreover have "(ucast (Value (f r)) :: 'b word) = of_int ?x"
    using assms(2) ucast_of_int [where 'a = 32 and 'b = 'b, of ?x] by simp
  ultimately have "(ucast (Value (f ((f ^^ n) r))) :: 'b word) = ucast (Value (f r)) \<longleftrightarrow>
      2 ^ LENGTH('b) dvd geo n * (31415820 * ?x + 1)"
    by (simp only: of_int_word_eq add_diff_cancel_left')
  also have "\<dots> \<longleftrightarrow> 2 ^ LENGTH('b) dvd geo n" by (rule odd_factor) simp
  finally show ?thesis by (simp add: power2_dvd_geo)
qed

lemma draws:
  "fst (random8 r) = ucast (Value (snd (random8 r)))" "Value (snd (random8 r)) = Value r * 31415821 + 1"
  "fst (random16 r) = ucast (Value (snd (random16 r)))" "Value (snd (random16 r)) = Value r * 31415821 + 1"
  "fst (random32 r) = Value (snd (random32 r))" "Value (snd (random32 r)) = Value r * 31415821 + 1"
proof -
  have masks: "(0xff :: card32) = mask 8" "(0xffff :: card32) = mask 16" "(0xffffffff :: card32) = mask 32"
    by (simp_all add: mask_eq_exp_minus_1)
  have "ucast (v AND 0xff) = (ucast v :: card8)" "ucast (v AND 0xffff) = (ucast v :: card16)" "v AND 0xffffffff = v" for v :: card32
    unfolding masks by (auto simp: bit_eq_iff bit_simps)
  then show "fst (random8 r) = ucast (Value (snd (random8 r)))" "fst (random16 r) = ucast (Value (snd (random16 r)))"
    "fst (random32 r) = Value (snd (random32 r))"
    by (simp_all add: random8_def random16_def random32_def Let_def)
qed (simp_all add: random8_def random16_def random32_def Let_def)

section \<open>Properties\<close>

text \<open>
  C39. The generator has the longest period: after \<open>n\<close> draws of 32 bits the next one is the first one again
  exactly if \<open>2 ^ 32\<close> divides \<open>n\<close>. The draws of 8 and 16 bits take the low bits of the state, and have the
  periods 256 and 65536 only.
\<close>

theorem generator_periods:
  "(fst (random32 (((\<lambda>r. snd (random32 r)) ^^ n) r)) = fst (random32 r) \<longleftrightarrow> 2 ^ 32 dvd n) \<and>
   (fst (random16 (((\<lambda>r. snd (random16 r)) ^^ n) r)) = fst (random16 r) \<longleftrightarrow> 2 ^ 16 dvd n) \<and>
   (fst (random8 (((\<lambda>r. snd (random8 r)) ^^ n) r)) = fst (random8 r) \<longleftrightarrow> 2 ^ 8 dvd n)"
  using draw_period [OF draws(6), where 'b = 32, of n r] draw_period [OF draws(4), where 'b = 16, of n r]
    draw_period [OF draws(2), where 'b = 8, of n r]
  unfolding draws(1,3,5) by simp

text \<open>
  A draw from the interval from \<open>a\<close> to \<open>b\<close> stays in it, and with a suitable seed it is any number
  of it; from the interval of all numbers it is always the first one.
\<close>

theorem random_interval:
  assumes "a \<le> b"
  shows "a \<le> fst (random_cardinal a b r) \<and> fst (random_cardinal a b r) \<le> b \<and>
    (b - a + 1 = 0 \<longrightarrow> fst (random_cardinal a b r) = a) \<and>
    (b - a + 1 \<noteq> 0 \<longrightarrow> (\<forall>v. a \<le> v \<and> v \<le> b \<longrightarrow> (\<exists>seed. fst (random_cardinal a b (setSeed seed r)) = v)))"
proof -
  have ba: "unat (b - a) = unat b - unat a" using assms by (rule unat_sub)
  have less: "m < b - a + 1 \<longleftrightarrow> m \<le> b - a" if "b - a + 1 \<noteq> 0" for m
    using that unatSuc [of "b - a"] by (simp add: word_less_nat_alt word_le_nat_alt add.commute less_Suc_eq_le)
  have range: "a \<le> m + a \<and> m + a \<le> b" if "m \<le> b - a" for m
  proof -
    have less_exp: "unat b < 2 ^ 32" using unsigned_less [where ?'a = nat and w = b] by simp
    have "unat m \<le> unat b - unat a" using that ba by (simp add: word_le_nat_alt)
    then have "unat (m + a) = unat m + unat a" "unat m + unat a \<le> unat b"
      using less_exp assms by (simp_all add: unat_word_ariths word_le_nat_alt)
    then show ?thesis by (simp add: word_le_nat_alt)
  qed
  have inverse: "(v - 1) * 352788677 * 31415821 + 1 = v" for v :: card32
  proof -
    have "(352788677 :: card32) * 31415821 = 1" by simp
    then show ?thesis by (simp only: mult.assoc) simp
  qed
  have seeded: "Value (setSeed s r) = s" for s r by (simp add: setSeed_def)
  have draw: "fst (random_cardinal a b r) = (if b - a + 1 = 0 then a else fst (random32 r) mod (b - a + 1) + a)" for r
    by (simp add: random_cardinal_def Let_def case_prod_unfold)
  show ?thesis
  proof (cases "b - a + 1 = 0")
    case True
    then show ?thesis using assms by (simp add: draw)
  next
    case False
    then have "fst (random32 r) mod (b - a + 1) \<le> b - a" by (simp add: word_mod_less_divisor word_gt_0 flip: less)
    moreover have "fst (random_cardinal a b (setSeed ((v - a - 1) * 352788677) r)) = v" if "a \<le> v" "v \<le> b" for v
    proof -
      have "v - a < b - a + 1" using that ba unat_sub [OF that(1)] by (simp add: less [OF False] word_le_nat_alt)
      moreover have "fst (random32 (setSeed ((v - a - 1) * 352788677) r)) = v - a"
        using inverse [of "v - a"] seeded by (simp only: draws(5,6))
      ultimately show ?thesis by (simp add: draw False mod_word_less)
    qed
    ultimately show ?thesis using False range by (auto simp: draw)
  qed
qed

text \<open>The six numbers of a die; the state that gives the 4.\<close>

theorem random_interval_witness:
  "(1 :: card32) \<le> 6 \<and> fst (random_cardinal 1 6 (Randomizer_new 5)) \<in> {1..6} \<and>
   (\<exists>seed. fst (random_cardinal 1 6 (setSeed seed (Randomizer_new 5))) = 4)"
proof -
  have "(1 :: card32) \<le> 6" by simp
  from random_interval [OF this, of "Randomizer_new 5"] show ?thesis by simp
qed

end
