(* ===== verification/ExtData.thy ===== *)
theory ExtData
  imports Delegates
begin

text \<open>
  The data of the file descriptor layer: the structures of \<^verbatim>\<open>ext_socket.h\<close> that applications
  pass, the extended socket descriptors of \<^verbatim>\<open>extsocketdescriptor.h\<close> and their table, and the
  state of the layer. Calls for ordinary file descriptors go to the operating system, which is a
  parameter: a function from its state and a call to a reply and a new state.

  Memory an application passes by pointer is the value of the structure that the call expects;
  a null pointer is \<open>None\<close>, and a structure of another kind is the fault \<open>BadPointer\<close>. Sizes
  are those of 64-bit Linux.
\<close>

section \<open>Constants\<close>

definition EBUSY :: int where "EBUSY = 16"
definition ENAMETOOLONG :: int where "ENAMETOOLONG = 36"
definition ENOPROTOOPT :: int where "ENOPROTOOPT = 92"
definition EOPNOTSUPP :: int where "EOPNOTSUPP = 95"
definition EADDRNOTAVAIL :: int where "EADDRNOTAVAIL = 99"
definition ENOTCONN :: int where "ENOTCONN = 107"
definition EINPROGRESS :: int where "EINPROGRESS = 115"

lemmas ext_errno_defs = errno_defs EBUSY_def ENAMETOOLONG_def ENOPROTOOPT_def EOPNOTSUPP_def
  EADDRNOTAVAIL_def ENOTCONN_def EINPROGRESS_def

definition IPPROTO_SCTP :: int where "IPPROTO_SCTP = 132"
definition SOCK_STREAM :: int where "SOCK_STREAM = 1"
definition SOCK_DGRAM :: int where "SOCK_DGRAM = 2"
definition SOCK_SEQPACKET :: int where "SOCK_SEQPACKET = 5"
definition O_NONBLOCK :: card32 where "O_NONBLOCK = 0x800"
definition F_GETFL :: int where "F_GETFL = 3"
definition F_SETFL :: int where "F_SETFL = 4"
definition MSG_MULTIADDRS :: card32 where "MSG_MULTIADDRS = 0x20"
definition MSG_PR_SCTP_TTL :: card32 where "MSG_PR_SCTP_TTL = 0x2000"
definition SCTP_BINDX_ADD_ADDR :: int where "SCTP_BINDX_ADD_ADDR = 1"
definition SCTP_BINDX_REM_ADDR :: int where "SCTP_BINDX_REM_ADDR = 2"

lemmas sock_defs = SOCK_STREAM_def SOCK_DGRAM_def SOCK_SEQPACKET_def

text \<open>\<^verbatim>\<open>FD_SETSIZE\<close>, the size of the descriptor table and of a set for \<^verbatim>\<open>select\<close>.\<close>

definition MaxSockets :: nat where "MaxSockets = 1024"

section \<open>Structures of \<^verbatim>\<open>ext_socket.h\<close>\<close>

record sctp_initmsg =
  sinit_num_ostreams :: card16
  sinit_max_instreams :: card16
  sinit_max_attempts :: card16
  sinit_max_init_timeo :: card16

record sctp_sndrcvinfo =
  sinfo_stream :: card16
  sinfo_ssn :: card16
  sinfo_flags :: card32
  sinfo_ppid :: card32
  sinfo_context :: card32
  sinfo_timetolive :: card32
  sinfo_tsn :: card32
  sinfo_cumtsn :: card32
  sinfo_assoc_id :: card32

record sctp_rtoinfo =
  srto_assoc_id :: card32
  srto_initial :: card32
  srto_max :: card32
  srto_min :: card32

record sctp_assocparams =
  sasoc_assoc_id :: card32
  sasoc_asocmaxrxt :: card16
  sasoc_number_peer_destinations :: card16
  sasoc_peer_rwnd :: card32
  sasoc_local_rwnd :: card32
  sasoc_cookie_life :: card32

record sctp_setprim =
  ssp_assoc_id :: card32
  ssp_addr :: sockaddr

record sctp_setpeerprim =
  sspp_assoc_id :: card32
  sspp_addr :: sockaddr

record sctp_setstrm_timeout =
  ssto_assoc_id :: card32
  ssto_timeout :: card32
  ssto_streamid_start :: card16
  ssto_streamid_end :: card16

record sctp_paddrparams =
  spp_assoc_id :: card32
  spp_address :: sockaddr
  spp_hbinterval :: card32
  spp_pathmaxrxt :: card16
  spp_pathmtu :: card32
  spp_sackdelay :: card32
  spp_flags :: card32

record sctp_paddrinfo =
  spinfo_assoc_id :: card32
  spinfo_address :: sockaddr
  spinfo_state :: int
  spinfo_cwnd :: card32
  spinfo_srtt :: card32
  spinfo_rto :: card32
  spinfo_mtu :: card32

record sctp_status =
  sstat_assoc_id :: card32
  sstat_state :: int
  sstat_rwnd :: card32
  sstat_unackdata :: card16
  sstat_penddata :: card16
  sstat_instrms :: card16
  sstat_outstrms :: card16
  sstat_fragmentation_point :: card32
  sstat_primary :: sctp_paddrinfo

record sctp_event_subscribe =
  sctp_data_io_event :: card8
  sctp_association_event :: card8
  sctp_address_event :: card8
  sctp_send_failure_event :: card8
  sctp_peer_error_event :: card8
  sctp_shutdown_event :: card8
  sctp_partial_delivery_event :: card8
  sctp_adaptation_layer_event :: card8

record sctp_sack_info =
  sack_assoc_id :: card32
  sack_delay :: card32
  sack_freq :: card32

record linger =
  l_onoff :: int
  l_linger :: int

text \<open>Structures of the system: requests for flow labels and for multicast groups.\<close>

record in6_flowlabel_req =
  flr_dst :: "card16 list"
  flr_label :: card32
  flr_action :: card8
  flr_share :: card8
  flr_flags :: card16
  flr_expires :: card16
  flr_linger :: card16

record ip_mreq =
  imr_multiaddr :: "card16 list"
  imr_interface :: "card16 list"

record ipv6_mreq =
  ipv6mr_multiaddr :: "card16 list"
  ipv6mr_interface :: card32

datatype optval =
    OptPeerAddrParams sctp_paddrparams
  | OptStatus sctp_status
  | OptInitMsg sctp_initmsg
  | OptPeerAddrInfo sctp_paddrinfo
  | OptRTOInfo sctp_rtoinfo
  | OptSackInfo sctp_sack_info
  | OptAssocParams sctp_assocparams
  | OptSetPrim sctp_setprim
  | OptSetPeerPrim sctp_setpeerprim
  | OptStreamTimeout sctp_setstrm_timeout
  | OptEvents sctp_event_subscribe
  | OptSendParams sctp_sndrcvinfo
  | OptInt card32
  | OptLinger linger
  | OptByte card8
  | OptFlowLabel in6_flowlabel_req
  | OptMulticast ip_mreq
  | OptMulticast6 ipv6_mreq

fun sizeof_optval :: "optval \<Rightarrow> nat" where
  "sizeof_optval (OptPeerAddrParams _) = 160"
| "sizeof_optval (OptStatus _) = 184"
| "sizeof_optval (OptInitMsg _) = 8"
| "sizeof_optval (OptPeerAddrInfo _) = 160"
| "sizeof_optval (OptRTOInfo _) = 16"
| "sizeof_optval (OptSackInfo _) = 12"
| "sizeof_optval (OptAssocParams _) = 20"
| "sizeof_optval (OptSetPrim _) = 136"
| "sizeof_optval (OptSetPeerPrim _) = 136"
| "sizeof_optval (OptStreamTimeout _) = 12"
| "sizeof_optval (OptEvents _) = 8"
| "sizeof_optval (OptSendParams _) = 32"
| "sizeof_optval (OptInt _) = 4"
| "sizeof_optval (OptLinger _) = 8"
| "sizeof_optval (OptByte _) = 1"
| "sizeof_optval (OptFlowLabel _) = 32"
| "sizeof_optval (OptMulticast _) = 8"
| "sizeof_optval (OptMulticast6 _) = 20"

text \<open>
  Messages. The control data is the list of the headers that \<^verbatim>\<open>CMSG_FIRSTHDR\<close> and
  \<^verbatim>\<open>CMSG_NXTHDR\<close> find in the buffer. The name is the packed array of addresses.
\<close>

datatype cdata = CSndRcv sctp_sndrcvinfo | CInit sctp_initmsg | COther "byte list"

record cmsghdr =
  cmsg_len :: nat
  cmsg_level :: int
  cmsg_type :: int
  cmsg_data :: cdata

definition SCTP_INIT :: int where "SCTP_INIT = 1"
definition SCTP_SNDRCV :: int where "SCTP_SNDRCV = 2"

record iovec =
  iov_base :: "byte list"
  iov_len :: nat

record msghdr =
  msg_name :: "sockaddr list option"
  msg_namelen :: nat
  msg_iov :: "iovec list option"
  msg_control :: "cmsghdr list option"
  msg_controllen :: nat
  msg_flags :: card32

definition sizeof_sndrcvinfo :: nat where "sizeof_sndrcvinfo = 32"

definition CSpace :: "nat \<Rightarrow> nat" where
  "CSpace payloadLength = 16 + 8 * ((payloadLength + 7) div 8)"

definition CLength :: "nat \<Rightarrow> nat" where
  "CLength payloadLength = 16 + payloadLength"

definition iov_bytes :: "iovec \<Rightarrow> byte list" where
  "iov_bytes v = take (iov_len v) (iov_base v)"

section \<open>Extended socket descriptors\<close>

record SCTPDesc =
  Domain :: nat
  SockType :: int
  SCTPSocketPtr :: "nat option"
  SCTPAssociationPtr :: "nat option"
  DFlags :: card32
  InitMsg :: sctp_initmsg
  Linger :: linger
  ConnectionOriented :: bool

text \<open>
  An invalid descriptor still has its union; \<^verbatim>\<open>SystemSocketID\<close> overlaps the domain of an SCTP
  descriptor that was closed.
\<close>

datatype ExtSocketDescriptor = ESDT_Invalid int | ESDT_System int | ESDT_SCTP SCTPDesc

fun isInvalid :: "ExtSocketDescriptor \<Rightarrow> bool" where
  "isInvalid (ESDT_Invalid _) = True"
| "isInvalid _ = False"

section \<open>The operating system\<close>

datatype syscall =
    Sys_socket nat int int
  | Sys_open string int nat
  | Sys_creat string nat
  | Sys_pipe
  | Sys_close int
  | Sys_bind int sockaddr nat
  | Sys_listen int int
  | Sys_accept int "nat option"
  | Sys_getsockname int "nat option"
  | Sys_getpeername int "nat option"
  | Sys_fcntl int int card64
  | Sys_ioctl int int
  | Sys_getsockopt int int int "optval option" nat
  | Sys_setsockopt int int int "optval option" nat
  | Sys_shutdown int int
  | Sys_connect int sockaddr nat
  | Sys_recv int nat card32
  | Sys_recvfrom int nat card32 "nat option"
  | Sys_recvmsg int "msghdr option" card32
  | Sys_send int "byte list" card32
  | Sys_sendto int "byte list" card32 "sockaddr option" nat
  | Sys_sendmsg int "msghdr option" card32
  | Sys_read int nat
  | Sys_write int "byte list"
  | Sys_select int "int set" "int set" "int set" "(int \<times> int) option"

text \<open>What a call returns, the \<^verbatim>\<open>errno\<close> it sets when it fails, and what it writes.\<close>

record sysreply =
  Ret :: int
  Err :: int
  Bytes :: "byte list"
  Addr :: "sockaddr option"
  AddrLen :: nat
  PipeEnds :: "int \<times> int"
  Msg :: "msghdr option"
  Opt :: "optval option"
  ReadySets :: "int set \<times> int set \<times> int set"

section \<open>The state of the layer\<close>

text \<open>
  Notifications for ordinary file descriptors (\<^verbatim>\<open>SCTPSocketMaster::UserSocketNotification\<close>) live in a
  store of their own; the break pipe has the address 0. Like \<open>Future\<close> for the events of
  associations, \<open>UserFuture\<close> holds the calls of \<^verbatim>\<open>userCallback\<close> that the master thread makes
  during the next waits: the user data, the file descriptor, the events, and the registered events.
\<close>

record UserSocketNotification =
  FileDescriptor :: int
  EventMask :: card16
  Events :: card16

record ('l, 'o) ext =
  Core :: "'l world"
  Table :: "nat \<Rightarrow> ExtSocketDescriptor"
  errno :: int
  OS :: 'o
  BreakPipe :: "int \<times> int"
  Notifications :: "nat \<Rightarrow> UserSocketNotification option"
  NextNotification :: nat
  GarbageCollectionTimerID :: int
  UserFuture :: "(nat option \<times> int \<times> card16 \<times> card16) list list"

text \<open>
  The environment: that of the classes, the operating system, and the contents of uninitialised
  structures.
\<close>

record ('l, 'o) xenv =
  E :: "'l env"
  Sys :: "'o \<Rightarrow> syscall \<Rightarrow> sysreply \<times> 'o"
  getdtablesize :: nat
  rawPath :: path_status

text \<open>A call of the operating system.\<close>

definition system :: "('l, 'o) xenv \<Rightarrow> syscall \<Rightarrow> ('l, 'o) ext \<Rightarrow> sysreply \<times> ('l, 'o) ext" where
  "system xe c x =
     (case Sys xe (OS x) c of
        (r, os) \<Rightarrow> (r, x\<lparr>OS := os, errno := (if Ret r < 0 then Err r else errno x)\<rparr>))"

text \<open>A call whose result the function returns as it is.\<close>

definition sysReturn :: "('l, 'o) xenv \<Rightarrow> syscall \<Rightarrow> ('l, 'o) ext \<Rightarrow> (int \<times> ('l, 'o) ext) result" where
  "sysReturn xe c x = (case system xe c x of (r, x) \<Rightarrow> Inr (Ret r, x))"

text \<open>\<^verbatim>\<open>errno_return\<close>: a negative result becomes -1 with its error code in \<^verbatim>\<open>errno\<close>.\<close>

definition errno_return :: "int \<Rightarrow> ('l, 'o) ext \<Rightarrow> (int \<times> ('l, 'o) ext) result" where
  "errno_return r x = Inr (if r < 0 then (- 1, x\<lparr>errno := - r\<rparr>) else (r, x))"

text \<open>Operations of the classes, on the part of the state they work on.\<close>

definition core :: "('l world \<Rightarrow> ('a \<times> 'l world) result) \<Rightarrow> ('l, 'o) ext \<Rightarrow> ('a \<times> ('l, 'o) ext) result" where
  "core f x = andThen (f (Core x)) (\<lambda>(r, w). Inr (r, x\<lparr>Core := w\<rparr>))"

definition coreDo :: "('l world \<Rightarrow> 'l world result) \<Rightarrow> ('l, 'o) ext \<Rightarrow> ('l, 'o) ext result" where
  "coreDo f x = andThen (f (Core x)) (\<lambda>w. Inr (x\<lparr>Core := w\<rparr>))"

definition coreGet :: "('l world \<Rightarrow> 'a result) \<Rightarrow> ('l, 'o) ext \<Rightarrow> 'a result" where
  "coreGet f x = f (Core x)"

definition lockX :: "('l, 'o) ext \<Rightarrow> ('l, 'o) ext" where
  "lockX x = x\<lparr>Core := lock (Core x)\<rparr>"

section \<open>The table\<close>

definition getSocket :: "int \<Rightarrow> nat option" where
  "getSocket fd = (if fd < int MaxSockets \<and> fd \<ge> 0 then Some (nat fd) else None)"

fun findFree :: "nat \<Rightarrow> (nat \<Rightarrow> ExtSocketDescriptor) \<Rightarrow> nat option" where
  "findFree 0 t = None"
| "findFree (Suc i) t = (if isInvalid (t i) then Some i else findFree i t)"

definition setSocket :: "('l, 'o) xenv \<Rightarrow> ExtSocketDescriptor \<Rightarrow> ('l, 'o) ext \<Rightarrow> (int \<times> ('l, 'o) ext) result" where
  "setSocket xe d x =
     (let x = lockX x in
      case findFree (min MaxSockets (getdtablesize xe)) (Table x) of
        Some i \<Rightarrow>
          andThen (coreDo unlock (x\<lparr>Table := (Table x)(i := d)\<rparr>)) (\<lambda>x. Inr (int i, x))
      | None \<Rightarrow> andThen (coreDo unlock x) (\<lambda>x. Inr (- EMFILE, x)))"

text \<open>The constructor: the standard descriptors are those of the system.\<close>

definition initialTable :: "nat \<Rightarrow> ExtSocketDescriptor" where
  "initialTable i = (if i < 3 then ESDT_System (int i) else ESDT_Invalid 0)"

text \<open>
  The choice most functions make: the association of a connection-oriented descriptor, else the
  socket.
\<close>

definition byKind :: "SCTPDesc \<Rightarrow> (nat \<Rightarrow> 'r) \<Rightarrow> (nat \<Rightarrow> 'r) \<Rightarrow> 'r \<Rightarrow> 'r" where
  "byKind d onAssociation onSocket otherwise =
     (case (SCTPAssociationPtr d, ConnectionOriented d) of
        (Some a, True) \<Rightarrow> onAssociation a
      | _ \<Rightarrow> (case SCTPSocketPtr d of Some s \<Rightarrow> onSocket s | None \<Rightarrow> otherwise))"

definition getDesc :: "nat \<Rightarrow> ('l, 'o) ext \<Rightarrow> SCTPDesc result" where
  "getDesc i x = (case Table x i of ESDT_SCTP d \<Rightarrow> Inr d | _ \<Rightarrow> Inl BadPointer)"

text \<open>A change of an SCTP descriptor.\<close>

definition updD :: "nat \<Rightarrow> (SCTPDesc \<Rightarrow> SCTPDesc) \<Rightarrow> ('l, 'o) ext \<Rightarrow> ('l, 'o) ext" where
  "updD i f x = (case Table x i of ESDT_SCTP d \<Rightarrow> x\<lparr>Table := (Table x)(i := ESDT_SCTP (f d))\<rparr> | _ \<Rightarrow> x)"

end
