(* ===== verification/Flows.thy ===== *)
theory Flows
  imports AddressLaws SocketAddresses
begin

text \<open>
  \<^verbatim>\<open>InternetFlow\<close> of \<^verbatim>\<open>internetflow.cc\<close> and \<^verbatim>\<open>internetflow.icc\<close>: an Internet address with the flow
  label and the traffic class of an IPv6 packet, which share the word \<^verbatim>\<open>FlowInfo\<close> in network byte order.
  The addresses an application may pass are plain addresses and flows; the virtual functions dispatch on this.
\<close>

section \<open>Internet flows\<close>

abbreviation htonl :: "card32 \<Rightarrow> card32" where "htonl \<equiv> translate32"

record InternetFlow =
  FlowAddress :: InternetAddress
  FlowInfo :: card32

definition IPV6_FLOWINFO_FLOWLABEL :: card32 where "IPV6_FLOWINFO_FLOWLABEL = 0x000fffff"
definition IPV6_FLOWINFO_PRIORITY :: card32 where "IPV6_FLOWINFO_PRIORITY = 0x0ff00000"

definition InternetFlow_new :: "InternetAddress \<Rightarrow> InternetFlow" where
  "InternetFlow_new raw = \<lparr>FlowAddress = InternetAddress_default raw, FlowInfo = 0\<rparr>"

definition InternetFlow_copy :: "InternetAddress \<Rightarrow> InternetFlow \<Rightarrow> InternetFlow" where
  "InternetFlow_copy raw f = \<lparr>FlowAddress = init_copy raw (FlowAddress f), FlowInfo = FlowInfo f\<rparr>"

definition InternetFlow_init :: "InternetAddress \<Rightarrow> InternetAddress \<Rightarrow> card32 \<Rightarrow> card8 \<Rightarrow> InternetFlow" where
  "InternetFlow_init raw address flowLabel trafficClass =
     \<lparr>FlowAddress = init_copy raw address, FlowInfo = htonl (flowLabel OR push_bit 20 (ucast trafficClass))\<rparr>"

definition Flow_reset :: "InternetFlow \<Rightarrow> InternetFlow" where
  "Flow_reset f = f\<lparr>FlowAddress := reset (FlowAddress f), FlowInfo := 0\<rparr>"

definition Flow_duplicate :: "InternetAddress \<Rightarrow> InternetFlow \<Rightarrow> InternetFlow" where
  "Flow_duplicate raw f = InternetFlow_copy raw f"

definition getFlowInfo :: "InternetFlow \<Rightarrow> card32" where
  "getFlowInfo f = ntohl (FlowInfo f)"

definition getFlowLabel :: "InternetFlow \<Rightarrow> card32" where
  "getFlowLabel f = ntohl (FlowInfo f) AND IPV6_FLOWINFO_FLOWLABEL"

definition getTrafficClass :: "InternetFlow \<Rightarrow> card8" where
  "getTrafficClass f = ucast (drop_bit 20 (ntohl (FlowInfo f) AND IPV6_FLOWINFO_PRIORITY))"

definition setTrafficClass :: "InternetFlow \<Rightarrow> card8 \<Rightarrow> InternetFlow" where
  "setTrafficClass f trafficClass =
     f\<lparr>FlowInfo := htonl ((ntohl (FlowInfo f) AND IPV6_FLOWINFO_FLOWLABEL) OR push_bit 20 (ucast trafficClass))\<rparr>"

definition setFlowLabel :: "InternetFlow \<Rightarrow> card32 \<Rightarrow> InternetFlow" where
  "setFlowLabel f flowLabel = f\<lparr>FlowInfo := htonl ((ntohl (FlowInfo f) AND IPV6_FLOWINFO_PRIORITY) OR flowLabel)\<rparr>"

text \<open>The flow information is added only when the caller asks for an IPv6 address explicitly.\<close>

definition Flow_getSystemAddress :: "bool \<Rightarrow> InternetFlow \<Rightarrow> nat \<Rightarrow> nat \<Rightarrow> nat \<times> sockaddr option" where
  "Flow_getSystemAddress useIPv6 f len type =
     (case getSystemAddress useIPv6 (FlowAddress f) len type of
        (addressLength, sa) \<Rightarrow>
          (addressLength,
           if addressLength > 0 \<and> type = AF_INET6
           then map_option (\<lambda>sa. case sa of SockaddrIn6 p fl adr scope \<Rightarrow> SockaddrIn6 p (FlowInfo f) adr scope | sa \<Rightarrow> sa) sa
           else sa))"

definition Flow_setSystemAddress :: "InternetFlow \<Rightarrow> sockaddr \<Rightarrow> bool \<times> InternetFlow" where
  "Flow_setSystemAddress f sa =
     (case setSystemAddress (FlowAddress f) sa of
        (ok, a) \<Rightarrow>
          (ok, f\<lparr>FlowAddress := a,
                 FlowInfo := (if ok then case sa of SockaddrIn6 p fl adr scope \<Rightarrow> fl | _ \<Rightarrow> 0 else 0)\<rparr>))"

text \<open>\<^verbatim>\<open>%05x\<close> and \<^verbatim>\<open>%02x\<close>: at least so many digits.\<close>

definition hex_padded :: "nat \<Rightarrow> nat \<Rightarrow> string" where
  "hex_padded width n = (let s = hex_string n in replicate (width - length s) CHR ''0'' @ s)"

definition Flow_getAddressString :: "resolver \<Rightarrow> bool \<Rightarrow> InternetFlow \<Rightarrow> card32 \<Rightarrow> String" where
  "Flow_getAddressString e useIPv6 f format =
     String_plus (getAddressString e useIPv6 (FlowAddress f) format)
       (Some (''/$'' @ hex_padded 5 (unat (getFlowLabel f)) @ '', $'' @ hex_padded 2 (unat (getTrafficClass f))))"

section \<open>Addresses an application passes\<close>

datatype AnyAddress = Plain (plain: SocketAddress) | Flow (flow: InternetFlow)

fun Any_getPort :: "AnyAddress \<Rightarrow> card16" where
  "Any_getPort (Plain a) = SA_getPort a"
| "Any_getPort (Flow f) = getPort (FlowAddress f)"

fun Any_setPort :: "AnyAddress \<Rightarrow> card16 \<Rightarrow> AnyAddress" where
  "Any_setPort (Plain a) p = Plain (SA_setPort a p)"
| "Any_setPort (Flow f) p = Flow (f\<lparr>FlowAddress := setPort (FlowAddress f) p\<rparr>)"

fun Any_duplicate :: "addrenv \<Rightarrow> AnyAddress \<Rightarrow> AnyAddress" where
  "Any_duplicate e (Plain a) = Plain (SA_duplicate e a)"
| "Any_duplicate e (Flow f) = Flow (Flow_duplicate (RawInternet e) f)"

fun Any_getSystemAddress :: "bool \<Rightarrow> AnyAddress \<Rightarrow> nat \<Rightarrow> nat \<Rightarrow> nat \<times> sockaddr option" where
  "Any_getSystemAddress v6 (Plain a) len type = SA_getSystemAddress v6 a len type"
| "Any_getSystemAddress v6 (Flow f) len type = Flow_getSystemAddress v6 f len type"

fun Any_setSystemAddress :: "AnyAddress \<Rightarrow> sockaddr \<Rightarrow> bool \<times> AnyAddress" where
  "Any_setSystemAddress (Plain (Internet a)) sa = (case setSystemAddress a sa of (ok, a) \<Rightarrow> (ok, Plain (Internet a)))"
| "Any_setSystemAddress (Plain (UnixDomain u)) sa = (case Unix_setSystemAddress u sa of (ok, u) \<Rightarrow> (ok, Plain (UnixDomain u)))"
| "Any_setSystemAddress (Flow f) sa = (case Flow_setSystemAddress f sa of (ok, f) \<Rightarrow> (ok, Flow f))"

section \<open>Bits of the flow information\<close>

lemma bit_flow_masks:
  "bit IPV6_FLOWINFO_FLOWLABEL n \<longleftrightarrow> n < 20" "bit IPV6_FLOWINFO_PRIORITY n \<longleftrightarrow> 20 \<le> n \<and> n < 28"
proof -
  have "IPV6_FLOWINFO_FLOWLABEL = mask 20" "IPV6_FLOWINFO_PRIORITY = push_bit 20 (mask 8)"
    by (simp_all add: IPV6_FLOWINFO_FLOWLABEL_def IPV6_FLOWINFO_PRIORITY_def mask_eq_exp_minus_1 push_bit_eq_mult)
  note masks = this
  show "bit IPV6_FLOWINFO_FLOWLABEL n \<longleftrightarrow> n < 20" "bit IPV6_FLOWINFO_PRIORITY n \<longleftrightarrow> 20 \<le> n \<and> n < 28"
    unfolding masks by (auto simp: bit_simps)
qed

lemma bit_small: "l < 2 ^ 20 \<Longrightarrow> bit l n \<Longrightarrow> n < 20" for l :: card32
proof -
  assume l: "l < 2 ^ 20" "bit l n"
  then have "odd (unat l div 2 ^ n)" by (simp add: bit_unsigned_iff flip: bit_iff_odd)
  then have "2 ^ n \<le> unat l" by (metis div_less even_zero linorder_not_le)
  moreover have "unat l < 2 ^ 20" using l(1) by (simp add: word_less_nat_alt)
  ultimately have "(2 :: nat) ^ n < 2 ^ 20" by (rule le_less_trans)
  then show "n < 20" by (rule power_less_imp_less_exp [rotated]) simp
qed

lemma flow_fields:
  "bit (getFlowLabel f) n \<longleftrightarrow> n < 20 \<and> bit (getFlowInfo f) n"
  "bit (getTrafficClass f) n \<longleftrightarrow> n < 8 \<and> bit (getFlowInfo f) (n + 20)"
  by (auto simp: getFlowLabel_def getTrafficClass_def getFlowInfo_def bit_simps bit_flow_masks add.commute)

lemma flow_updates:
  "bit (getFlowInfo (setFlowLabel f l)) n \<longleftrightarrow> 20 \<le> n \<and> n < 28 \<and> bit (getFlowInfo f) n \<or> bit l n"
  "bit (getFlowInfo (setTrafficClass f c)) n \<longleftrightarrow> n < 20 \<and> bit (getFlowInfo f) n \<or> 20 \<le> n \<and> bit c (n - 20)"
  "bit (getFlowInfo (InternetFlow_init raw a l c)) n \<longleftrightarrow> bit l n \<or> 20 \<le> n \<and> bit c (n - 20)"
  by (auto simp: setFlowLabel_def setTrafficClass_def InternetFlow_init_def getFlowInfo_def translate32_involution bit_simps
      bit_flow_masks dest: bit_imp_le_length)

section \<open>Properties\<close>

text \<open>
  C38. Flow label and traffic class of a flow are independent fields as long as labels have 20 bits: a new
  flow has both as given, setting one reads back and leaves the other. The flow information survives the
  conversion to a \<^verbatim>\<open>sockaddr_in6\<close> and back when the caller asks for IPv6 explicitly and is dropped when it
  asks for an unspecified family. A larger label is not cut off: its upper bits are added to the traffic class.
\<close>

theorem flow_fields_independent:
  assumes "l < 2 ^ 20"
  shows "getFlowLabel (InternetFlow_init raw a l c) = l \<and> getTrafficClass (InternetFlow_init raw a l c) = c \<and>
    getFlowLabel (setFlowLabel f l) = l \<and> getTrafficClass (setFlowLabel f l) = getTrafficClass f \<and>
    getTrafficClass (setTrafficClass f c) = c \<and> getFlowLabel (setTrafficClass f c) = getFlowLabel f \<and>
    (let back = (\<lambda>type. Flow_setSystemAddress g (the (snd (Flow_getSystemAddress True f sizeof_sockaddr_in6 type)))) in
       fst (back AF_INET6) \<and> FlowInfo (snd (back AF_INET6)) = FlowInfo f \<and> FlowInfo (snd (back AF_UNSPEC)) = 0) \<and>
    getTrafficClass (setFlowLabel f k) = getTrafficClass f OR ucast (drop_bit 20 k)"
proof -
  have small: "\<not> bit l (n + 20)" for n using bit_small [OF assms, of "n + 20"] by auto
  have "getFlowLabel (InternetFlow_init raw a l c) = l" "getFlowLabel (setFlowLabel f l) = l"
    "getFlowLabel (setTrafficClass f c) = getFlowLabel f"
    using bit_small [OF assms] by (auto simp: bit_eq_iff flow_fields flow_updates)
  moreover have "getTrafficClass (InternetFlow_init raw a l c) = c" "getTrafficClass (setTrafficClass f c) = c"
    "getTrafficClass (setFlowLabel f l) = getTrafficClass f"
    "getTrafficClass (setFlowLabel f k) = getTrafficClass f OR ucast (drop_bit 20 k)"
    by (auto simp: bit_eq_iff flow_fields flow_updates small bit_or_iff bit_unsigned_iff bit_drop_bit_eq add.commute)
  ultimately show ?thesis
    by (simp add: Let_def Flow_setSystemAddress_def Flow_getSystemAddress_def getSystemAddress_def setSystemAddress_def af_defs sizeof_sockaddr_in6_def)
qed

theorem flow_fields_independent_witness:
  "let raw = \<lparr>Host16 = replicate 8 0, Port = 0, ScopeID = 0, Valid = True, Format = 0\<rparr>;
       f = InternetFlow_init raw raw 0xabcde 0x2e
   in getFlowLabel f = 0xabcde \<and> getTrafficClass (setFlowLabel f 5) = 0x2e \<and> getTrafficClass (setFlowLabel f 0x1000000) = 0x3e"
proof -
  let ?raw = "\<lparr>Host16 = replicate 8 0, Port = 0, ScopeID = 0, Valid = True, Format = 0\<rparr>"
  let ?f = "InternetFlow_init ?raw ?raw 0xabcde 0x2e"
  have "(0xabcde :: card32) < 2 ^ 20" "(5 :: card32) < 2 ^ 20" by simp_all
  note * = flow_fields_independent [OF this(1), of ?raw ?raw "0x2e" ?f ?f "0x1000000"]
    flow_fields_independent [OF this(2), of ?raw ?raw "0x2e" ?f ?f 0]
  then have "getTrafficClass (setFlowLabel ?f 0x1000000) = 0x2e OR ucast (drop_bit 20 (0x1000000 :: card32))"
    by (metis (no_types, lifting))
  also have "ucast (drop_bit 20 (0x1000000 :: card32)) = (0x10 :: card8)" by (simp add: drop_bit_eq_div)
  finally show ?thesis using * by (simp add: Let_def)
qed

end
