(* ===== verification/Messages.thy ===== *)
theory Messages
  imports ExtData Flows
begin

text \<open>
  The message class \<^verbatim>\<open>SocketMessage\<close> of \<^verbatim>\<open>tdmessage.icc\<close> with room for \<open>room\<close> bytes of control data.
  Control headers are addressed by their offset in the array \<^verbatim>\<open>Control\<close>; the macros \<^verbatim>\<open>CMSG_FIRSTHDR\<close> and
  \<^verbatim>\<open>CMSG_NXTHDR\<close> compute offsets the way the C library does on 64-bit Linux.
\<close>

section \<open>Messages with control data\<close>

text \<open>Length, level and type of a control header.\<close>

type_synonym control_header = "nat \<times> int \<times> int"

record SocketMessage =
  NameSet :: bool
  NameLen :: nat
  Address :: sockaddr
  Vector :: "iovec option"
  ControlSet :: bool
  ControlLen :: nat
  MsgFlags :: int
  NextMsg :: "nat option"
  Control :: "nat \<Rightarrow> control_header"

definition clear :: "nat \<Rightarrow> SocketMessage \<Rightarrow> SocketMessage" where
  "clear room m =
     m\<lparr>NameSet := False, NameLen := 0, Vector := None, ControlSet := False, ControlLen := 0, MsgFlags := 0, NextMsg := None,
       Control := (if room > 0 then (\<lambda>_. (0, 0, 0)) else Control m)\<rparr>"

text \<open>The constructor clears the object, whose storage is not initialised.\<close>

definition SocketMessage_new :: "nat \<Rightarrow> SocketMessage \<Rightarrow> SocketMessage" where
  "SocketMessage_new room raw = clear room raw"

definition sizeof_sockaddr_storage :: nat where "sizeof_sockaddr_storage = 128"

definition getAddress :: "addrenv \<Rightarrow> SocketMessage \<Rightarrow> SocketAddress option" where
  "getAddress e m = createSocketAddress_sockaddr e 0 (Address m)"

definition setAddress :: "addrenv \<Rightarrow> AnyAddress \<Rightarrow> nat \<Rightarrow> SocketMessage \<Rightarrow> SocketMessage" where
  "setAddress e address family m =
     (case Any_getSystemAddress (UseIPv6 e) address sizeof_sockaddr_storage family of
        (len, sa) \<Rightarrow> m\<lparr>NameLen := len, Address := (case sa of Some sa \<Rightarrow> sa | None \<Rightarrow> Address m), NameSet := True\<rparr>)"

definition setBuffer :: "byte list \<Rightarrow> nat \<Rightarrow> SocketMessage \<Rightarrow> SocketMessage" where
  "setBuffer buffer buffersize m = m\<lparr>Vector := Some \<lparr>iov_base = buffer, iov_len = buffersize\<rparr>\<rparr>"

definition CAlign :: "nat \<Rightarrow> nat" where
  "CAlign n = 8 * ((n + 7) div 8)"

definition CFirstHeader :: "SocketMessage \<Rightarrow> nat option" where
  "CFirstHeader m = (if 16 \<le> ControlLen m then Some 0 else None)"

definition CNextHeader :: "SocketMessage \<Rightarrow> nat \<Rightarrow> nat option" where
  "CNextHeader m cmsg =
     (let len = fst (Control m cmsg); succ = cmsg + CAlign len
      in if len < 16 then None
         else if succ + 16 > ControlLen m \<or> succ + CAlign (fst (Control m succ)) > ControlLen m then None
         else Some succ)"

text \<open>The offset of the payload behind a header.\<close>

definition CData :: "nat \<Rightarrow> nat" where
  "CData cmsg = cmsg + 16"

definition addHeader :: "nat \<Rightarrow> nat \<Rightarrow> int \<Rightarrow> int \<Rightarrow> SocketMessage \<Rightarrow> (nat option \<times> SocketMessage) result" where
  "addHeader room payloadLength level type m =
     (let m = (case NextMsg m of
                 None \<Rightarrow>
                   let m = m\<lparr>ControlSet := True, ControlLen := room\<rparr>; m = m\<lparr>NextMsg := CFirstHeader m\<rparr>
                   in m\<lparr>ControlLen := 0\<rparr>
               | Some _ \<Rightarrow> m)
      in case NextMsg m of
           None \<Rightarrow> Inl ProcessAbort
         | Some cmsg \<Rightarrow>
             if ControlLen m > room then Inr (None, m)
             else let m = m\<lparr>Control := (Control m)(cmsg := (CLength payloadLength, level, type))\<rparr>;
                      m = m\<lparr>ControlLen := ControlLen m + CLength payloadLength\<rparr>;
                      m = m\<lparr>NextMsg := CNextHeader m cmsg\<rparr>
                  in Inr (Some (CData cmsg), m))"

definition getFirstHeader :: "SocketMessage \<Rightarrow> nat option" where
  "getFirstHeader m = (if ControlLen m > 0 then CFirstHeader m else None)"

definition getNextHeader :: "SocketMessage \<Rightarrow> nat \<Rightarrow> nat option" where
  "getNextHeader m prev = CNextHeader m prev"

definition getFlags :: "SocketMessage \<Rightarrow> int" where
  "getFlags m = MsgFlags m"

definition setFlags :: "int \<Rightarrow> SocketMessage \<Rightarrow> SocketMessage" where
  "setFlags flags m = m\<lparr>MsgFlags := flags\<rparr>"

section \<open>The headers of a message\<close>

text \<open>A series of calls, which collects the offsets where the caller writes the payloads.\<close>

fun addHeaders :: "nat \<Rightarrow> (nat \<times> int \<times> int) list \<Rightarrow> SocketMessage \<Rightarrow> (nat option list \<times> SocketMessage) result" where
  "addHeaders room [] m = Inr ([], m)"
| "addHeaders room ((payloadLength, level, type) # hs) m =
     andThen (addHeader room payloadLength level type m) (\<lambda>(d, m).
     andThen (addHeaders room hs m) (\<lambda>(ds, m). Inr (d # ds, m)))"

lemma CAlign_ge: "n \<le> CAlign n"
  unfolding CAlign_def by presburger

lemma addHeader_single:
  assumes "NextMsg m = None" "16 \<le> room"
  obtains m' where "addHeader room len level type m = Inr (Some 16, m')" "NextMsg m' = None"
    "Control m' 0 = (CLength len, level, type)" "ControlLen m' = CLength len" "NameSet m' = NameSet m"
  using assms CAlign_ge [of "CLength len"]
  by (intro that [of "m\<lparr>ControlSet := True, ControlLen := CLength len, NextMsg := None,
      Control := (Control m)(0 := (CLength len, level, type))\<rparr>"])
    (simp_all add: addHeader_def Let_def CFirstHeader_def CNextHeader_def CData_def)

text \<open>
  Of several control headers only the last is sent. In a message for at least 16 bytes of control
  data every call for a header returns the same place behind the first header, whatever length it asks
  for: the loop over the headers then finds the last one only, also when the payloads do not fit, and the
  warning about too much control data is never given. With less than 16 bytes the process is aborted.
\<close>

theorem message_keeps_last_header:
  assumes "NextMsg m = None"
  shows "(16 \<le> room \<longrightarrow>
      (\<exists>m'. addHeaders room (hs @ [(len, level, type)]) m = Inr (replicate (Suc (length hs)) (Some 16), m') \<and>
         getFirstHeader m' = Some 0 \<and> Control m' 0 = (CLength len, level, type) \<and> getNextHeader m' 0 = None \<and> NextMsg m' = None)) \<and>
    (room < 16 \<longrightarrow> addHeaders room (hs @ [(len, level, type)]) m = Inl ProcessAbort)"
proof (intro conjI impI)
  assume room: "16 \<le> room"
  show "\<exists>m'. addHeaders room (hs @ [(len, level, type)]) m = Inr (replicate (Suc (length hs)) (Some 16), m') \<and>
      getFirstHeader m' = Some 0 \<and> Control m' 0 = (CLength len, level, type) \<and> getNextHeader m' 0 = None \<and> NextMsg m' = None"
    using assms
  proof (induction hs arbitrary: m)
    case Nil
    obtain m' where m': "addHeader room len level type m = Inr (Some 16, m')" "NextMsg m' = None"
      "Control m' 0 = (CLength len, level, type)" "ControlLen m' = CLength len" "NameSet m' = NameSet m"
      by (rule addHeader_single [OF Nil room, of len level type])
    then show ?case
      using CAlign_ge [of "CLength len"]
      by (auto simp: getFirstHeader_def getNextHeader_def CFirstHeader_def CNextHeader_def CLength_def Let_def)
  next
    case (Cons h hs)
    obtain l v t where h: "h = (l, v, t)" by (cases h)
    obtain n where n: "addHeader room l v t m = Inr (Some 16, n)" "NextMsg n = None"
      by (rule addHeader_single [OF Cons.prems room, of l v t])
    from Cons.IH [OF n(2)] show ?case by (auto simp: h n(1))
  qed
next
  assume "room < 16"
  with assms show "addHeaders room (hs @ [(len, level, type)]) m = Inl ProcessAbort"
    by (cases hs) (auto simp: addHeader_def Let_def CFirstHeader_def)
qed

text \<open>Two headers for 32 bytes of control data; 100 bytes of payload go behind the first header.\<close>

theorem message_keeps_last_header_witness:
  "\<exists>m'. addHeaders 32 [(32, 132, 2), (100, 132, 1)]
      (SocketMessage_new 32 \<lparr>NameSet = True, NameLen = 3, Address = SockaddrUn [], Vector = None, ControlSet = True, ControlLen = 7,
         MsgFlags = 1, NextMsg = Some 3, Control = \<lambda>_. (5, 0, 0)\<rparr>) = Inr ([Some 16, Some 16], m') \<and>
      Control m' 0 = (116, 132, 1) \<and> getNextHeader m' 0 = None"
proof -
  let ?m = "SocketMessage_new 32 \<lparr>NameSet = True, NameLen = 3, Address = SockaddrUn [], Vector = None, ControlSet = True, ControlLen = 7,
         MsgFlags = 1, NextMsg = Some 3, Control = \<lambda>_. (5, 0, 0)\<rparr>"
  have "NextMsg ?m = None" by (simp add: SocketMessage_new_def clear_def)
  from message_keeps_last_header [OF this, of 32 "[(32, 132, 2)]" 100 132 1] show ?thesis by (auto simp: CLength_def)
qed

end
