(* ===== verification/Descriptors.thy ===== *)
theory Descriptors
  imports ExtData
begin

text \<open>
  File descriptors: creation, closing, binding, listening, accepting and the names of a descriptor
  (\<^verbatim>\<open>sctpsocketwrapper.cc\<close>, first half). A function \<^verbatim>\<open>ext_f\<close> works on an ordinary descriptor
  by the call of the operating system and on an SCTP descriptor by the classes.
\<close>

section \<open>Creating descriptors\<close>

definition defaultInitMsg :: sctp_initmsg where
  "defaultInitMsg = \<lparr>sinit_num_ostreams = 10, sinit_max_instreams = 10, sinit_max_attempts = 8,
     sinit_max_init_timeo = 60000\<rparr>"

definition newDesc :: "nat \<Rightarrow> int \<Rightarrow> nat \<Rightarrow> SCTPDesc" where
  "newDesc domain type s = \<lparr>Domain = domain, SockType = type, SCTPSocketPtr = Some s, SCTPAssociationPtr = None,
     DFlags = 0, InitMsg = defaultInitMsg, Linger = \<lparr>l_onoff = 1, l_linger = 10\<rparr>,
     ConnectionOriented = (type = SOCK_STREAM)\<rparr>"

definition sctp_isavailable :: "'l world \<Rightarrow> bool" where
  "sctp_isavailable w = (InitializationResult w = 0)"

definition ext_socket_sctp ::
  "('l, 'o) xenv \<Rightarrow> 'l callback \<Rightarrow> nat \<Rightarrow> int \<Rightarrow> ('l, 'o) ext \<Rightarrow> (int \<times> ('l, 'o) ext) result" where
  "ext_socket_sctp xe cb domain type x =
     (if \<not> sctp_isavailable (Core x) then errno_return (- ENOPROTOOPT) x
      else if type \<notin> {SOCK_STREAM, SOCK_DGRAM, SOCK_SEQPACKET} then errno_return (- EINVAL) x
      else
        let flags = (if type = SOCK_STREAM then 0 else SSF_GlobalQueue OR SSF_AutoConnect) in
        andThen (core (SCTPSocket_new domain flags) x) (\<lambda>(s, x).
        andThen (if type = SOCK_STREAM then Inr x
                 else coreDo (Socket_setNotificationFlags s SCTP_RECVDATAIOEVNT) x) (\<lambda>x.
        andThen (setSocket xe (ESDT_SCTP (newDesc domain type s)) x) (\<lambda>(r, x).
        andThen (if r < 0 then coreDo (SCTPSocket_delete (E xe) cb s) x else Inr x) (errno_return r)))))"

text \<open>
  A system descriptor. \<^verbatim>\<open>ext_open\<close> and \<^verbatim>\<open>ext_creat\<close> close it when the table is full, \<^verbatim>\<open>ext_socket\<close>
  does not. A failure of the system goes through \<^verbatim>\<open>errno_return\<close>, too.
\<close>

definition wrapSystem ::
  "('l, 'o) xenv \<Rightarrow> bool \<Rightarrow> syscall \<Rightarrow> ('l, 'o) ext \<Rightarrow> (int \<times> ('l, 'o) ext) result" where
  "wrapSystem xe closeIt c x =
     (case system xe c x of
        (reply, x) \<Rightarrow>
          if Ret reply \<ge> 0 then
            andThen (setSocket xe (ESDT_System (Ret reply)) x) (\<lambda>(r, x).
            errno_return r (if r < 0 \<and> closeIt then snd (system xe (Sys_close (Ret reply)) x) else x))
          else errno_return (Ret reply) x)"

definition ext_socket ::
  "('l, 'o) xenv \<Rightarrow> 'l callback \<Rightarrow> nat \<Rightarrow> int \<Rightarrow> int \<Rightarrow> ('l, 'o) ext \<Rightarrow> (int \<times> ('l, 'o) ext) result" where
  "ext_socket xe cb domain type protocol x =
     (if protocol = IPPROTO_SCTP then ext_socket_sctp xe cb domain type x
      else wrapSystem xe False (Sys_socket domain type protocol) x)"

definition ext_open :: "('l, 'o) xenv \<Rightarrow> string \<Rightarrow> int \<Rightarrow> nat \<Rightarrow> ('l, 'o) ext \<Rightarrow> (int \<times> ('l, 'o) ext) result" where
  "ext_open xe pathname flags mode x = wrapSystem xe True (Sys_open pathname flags mode) x"

definition ext_creat :: "('l, 'o) xenv \<Rightarrow> string \<Rightarrow> nat \<Rightarrow> ('l, 'o) ext \<Rightarrow> (int \<times> ('l, 'o) ext) result" where
  "ext_creat xe pathname mode x = wrapSystem xe True (Sys_creat pathname mode) x"

section \<open>Closing\<close>

text \<open>Is no other descriptor using the socket? The loop begins with descriptor 1.\<close>

definition mayRemoveSocket :: "nat \<Rightarrow> SCTPDesc \<Rightarrow> ('l, 'o) ext \<Rightarrow> bool" where
  "mayRemoveSocket me d x =
     list_all (\<lambda>i. case getSocket (int i) of
                     None \<Rightarrow> True
                   | Some j \<Rightarrow>
                       (case Table x j of
                          ESDT_SCTP d' \<Rightarrow> \<not> (j \<noteq> me \<and> SCTPSocketPtr d' = SCTPSocketPtr d)
                        | _ \<Rightarrow> True)) [1..<MaxSockets + 1]"

definition close_association ::
  "('l, 'o) xenv \<Rightarrow> 'l callback \<Rightarrow> nat \<Rightarrow> SCTPDesc \<Rightarrow> ('l, 'o) ext \<Rightarrow> ('l, 'o) ext result" where
  "close_association xe cb i d x =
     (case SCTPAssociationPtr d of
        None \<Rightarrow> Inr x
      | Some a \<Rightarrow>
          andThen
            (if l_onoff (Linger d) = 1 then
               coreDo (if l_linger (Linger d) > 0 then shutdown (E xe) cb a else abort (E xe) cb a) x
             else Inr x) (\<lambda>x.
          andThen (coreDo (SCTPAssociation_delete (E xe) cb a) x) (\<lambda>x.
          Inr (updD i (\<lambda>d. d\<lparr>SCTPAssociationPtr := None\<rparr>) x))))"

definition close_socket ::
  "('l, 'o) xenv \<Rightarrow> 'l callback \<Rightarrow> nat \<Rightarrow> SCTPDesc \<Rightarrow> ('l, 'o) ext \<Rightarrow> ('l, 'o) ext result" where
  "close_socket xe cb i d x =
     (case SCTPSocketPtr d of
        None \<Rightarrow> Inr x
      | Some s \<Rightarrow>
          andThen
            (if mayRemoveSocket i d x then
               andThen (if l_onoff (Linger d) = 1
                        then coreDo (unbind (E xe) cb s (l_linger (Linger d) \<le> 0)) x else Inr x)
                 (coreDo (SCTPSocket_delete (E xe) cb s))
             else Inr x) (\<lambda>x.
          Inr (updD i (\<lambda>d. d\<lparr>SCTPSocketPtr := None\<rparr>) x)))"

definition ext_close :: "('l, 'o) xenv \<Rightarrow> 'l callback \<Rightarrow> int \<Rightarrow> ('l, 'o) ext \<Rightarrow> (int \<times> ('l, 'o) ext) result" where
  "ext_close xe cb sockfd x =
     (case getSocket sockfd of
        None \<Rightarrow> errno_return (- EBADF) x
      | Some i \<Rightarrow>
          let x = lockX x;
              finish = (\<lambda>stale x. andThen (coreDo unlock (x\<lparr>Table := (Table x)(i := ESDT_Invalid stale)\<rparr>)) (errno_return 0))
          in (case Table x i of
                ESDT_SCTP d \<Rightarrow>
                  andThen (close_association xe cb i d x) (\<lambda>x.
                  andThen (close_socket xe cb i d x) (finish (int (Domain d))))
              | ESDT_System fd \<Rightarrow> finish 0 (snd (system xe (Sys_close fd) x))
              | ESDT_Invalid _ \<Rightarrow> andThen (coreDo unlock x) (errno_return (- ENXIO))))"

text \<open>The destructor of the table closes all descriptors but the standard ones.\<close>

definition ExtSocketDescriptorMaster_delete ::
  "('l, 'o) xenv \<Rightarrow> 'l callback \<Rightarrow> ('l, 'o) ext \<Rightarrow> ('l, 'o) ext result" where
  "ExtSocketDescriptorMaster_delete xe cb =
     forEach (\<lambda>i x. if \<not> isInvalid (Table x i) \<and> i \<notin> {0, 1, 2}
                    then andThen (ext_close xe cb (int i) x) (\<lambda>(_, x). Inr x) else Inr x) [0..<MaxSockets]"

definition ext_pipe ::
  "('l, 'o) xenv \<Rightarrow> 'l callback \<Rightarrow> ('l, 'o) ext \<Rightarrow> (int \<times> (int \<times> int option) option \<times> ('l, 'o) ext) result" where
  "ext_pipe xe cb x =
     (case system xe Sys_pipe x of
        (reply, x) \<Rightarrow>
          if Ret reply = 0 then
            let (p, q) = PipeEnds reply in
            andThen (setSocket xe (ESDT_System p) x) (\<lambda>(fd0, x).
            if fd0 < 0 then
              let x = snd (system xe (Sys_close q) (snd (system xe (Sys_close p) x)))
              in andThen (errno_return fd0 x) (\<lambda>(r, x). Inr (r, Some (fd0, None), x))
            else
              andThen (setSocket xe (ESDT_System q) x) (\<lambda>(fd1, x).
              if fd1 < 0 then
                andThen (ext_close xe cb fd0 x) (\<lambda>(_, x).
                andThen (errno_return fd1 (snd (system xe (Sys_close q) x))) (\<lambda>(r, x).
                Inr (r, Some (fd0, Some fd1), x)))
              else andThen (errno_return 0 x) (\<lambda>(r, x). Inr (r, Some (fd0, Some fd1), x))))
          else Inr (- 1, None, x))"

section \<open>Binding\<close>

definition anyAddress :: "'l env \<Rightarrow> card16 \<Rightarrow> SocketAddress" where
  "anyAddress e port = SA_setPort (Internet (reset (InternetAddress_default (RawInternet (AE e))))) port"

fun bindToAny_loop ::
  "('l, 'o) xenv \<Rightarrow> 'l callback \<Rightarrow> nat \<Rightarrow> sctp_initmsg \<Rightarrow> nat \<Rightarrow> int \<Rightarrow> ('l, 'o) ext \<Rightarrow> (int \<times> ('l, 'o) ext) result" where
  "bindToAny_loop xe cb s im 0 result x = Inr (result, x)"
| "bindToAny_loop xe cb s im (Suc n) result x =
     (let w = lock (Core x);
          port = random_port (random32 (E xe) (RandomCount w)) in
      andThen (unlock (w\<lparr>RandomCount := RandomCount w + 1\<rparr>)) (\<lambda>w.
      let adr = anyAddress (E xe) port in
      andThen (core (bind (E xe) cb s (SA_getPort adr) (sinit_max_instreams im) (sinit_num_ostreams im) [adr])
                 (x\<lparr>Core := w\<rparr>)) (\<lambda>(result, x).
      if result \<ge> 0 then Inr (result, x) else bindToAny_loop xe cb s im n result x)))"

definition bindToAny :: "('l, 'o) xenv \<Rightarrow> 'l callback \<Rightarrow> nat \<Rightarrow> ('l, 'o) ext \<Rightarrow> (int \<times> ('l, 'o) ext) result" where
  "bindToAny xe cb i x =
     (case Table x i of
        ESDT_SCTP d \<Rightarrow>
          (case SCTPSocketPtr d of
             Some s \<Rightarrow>
               andThen (coreGet (Socket_getID s) x) (\<lambda>k.
               if k \<le> 0 then andThen (bindToAny_loop xe cb s (InitMsg d) 50000 0 x) (\<lambda>(r, x). errno_return r x)
               else errno_return 0 x)
           | None \<Rightarrow> errno_return 0 x)
      | _ \<Rightarrow> errno_return 0 x)"

text \<open>
  Unpacking copies the addresses one by one; an unknown family aborts the process, and reading
  goes behind the memory when there are fewer than announced.
\<close>

fun unpack_sockaddr :: "sockaddr list \<Rightarrow> nat \<Rightarrow> sockaddr list result" where
  "unpack_sockaddr packed 0 = Inr []"
| "unpack_sockaddr [] (Suc n) = Inl BadPointer"
| "unpack_sockaddr (sa # packed) (Suc n) =
     (if sa_family sa = AF_INET \<or> sa_family sa = AF_INET6
      then andThen (unpack_sockaddr packed n) (\<lambda>as. Inr (sa # as))
      else Inl ProcessAbort)"

text \<open>A negative number is converted to a huge unsigned one.\<close>

definition unpack_array :: "sockaddr list \<Rightarrow> int \<Rightarrow> sockaddr list result" where
  "unpack_array packed addrcnt = (if addrcnt < 0 then Inl BadPointer else unpack_sockaddr packed (nat addrcnt))"

fun createAddresses :: "addrenv \<Rightarrow> sockaddr list \<Rightarrow> SocketAddress list option" where
  "createAddresses e [] = Some []"
| "createAddresses e (sa # sas) =
     (case createSocketAddress_sockaddr e 0 sa of
        None \<Rightarrow> None
      | Some a \<Rightarrow> (case createAddresses e sas of None \<Rightarrow> None | Some as \<Rightarrow> Some (a # as)))"

text \<open>Adding or removing addresses stops at the first that fails.\<close>

fun changeAddresses ::
  "(SocketAddress \<Rightarrow> 'l world \<Rightarrow> (bool \<times> 'l world) result) \<Rightarrow> SocketAddress list \<Rightarrow> ('l, 'o) ext \<Rightarrow> (int \<times> ('l, 'o) ext) result" where
  "changeAddresses f [] x = Inr (0, x)"
| "changeAddresses f (a # as) x =
     andThen (core (f a) x) (\<lambda>(ok, x). if ok then changeAddresses f as x else Inr (- EINVAL, x))"

definition bindx_sctp ::
  "('l, 'o) xenv \<Rightarrow> 'l callback \<Rightarrow> SCTPDesc \<Rightarrow> nat \<Rightarrow> SocketAddress list \<Rightarrow> int \<Rightarrow> ('l, 'o) ext \<Rightarrow> (int \<times> ('l, 'o) ext) result" where
  "bindx_sctp xe cb d s addrs flags x =
     andThen (coreGet (Socket_getID s) x) (\<lambda>k.
     if k \<le> 0 then
       if flags = SCTP_BINDX_ADD_ADDR then
         core (bind (E xe) cb s (SA_getPort (hd addrs)) (sinit_max_instreams (InitMsg d))
                 (sinit_num_ostreams (InitMsg d)) addrs) x
       else Inr (- EINVAL, x)
     else if flags = SCTP_BINDX_ADD_ADDR then
       (case SCTPAssociationPtr d of
          Some a \<Rightarrow> changeAddresses (Association_addAddress a) addrs x
        | None \<Rightarrow> changeAddresses (Socket_addAddress s 0) addrs x)
     else if flags = SCTP_BINDX_REM_ADDR then
       (case SCTPAssociationPtr d of
          Some a \<Rightarrow> changeAddresses (Association_deleteAddress a) addrs x
        | None \<Rightarrow> changeAddresses (Socket_deleteAddress s 0) addrs x)
     else Inr (- EINVAL, x))"

definition sctp_bindx ::
  "('l, 'o) xenv \<Rightarrow> 'l callback \<Rightarrow> int \<Rightarrow> sockaddr list \<Rightarrow> int \<Rightarrow> int \<Rightarrow> ('l, 'o) ext \<Rightarrow> (int \<times> ('l, 'o) ext) result" where
  "sctp_bindx xe cb sockfd packedAddrs addrcnt flags x =
     andThen (unpack_array packedAddrs addrcnt) (\<lambda>addrs.
     case getSocket sockfd of
       None \<Rightarrow> errno_return (- EBADF) x
     | Some i \<Rightarrow>
         (case Table x i of
            ESDT_SCTP d \<Rightarrow>
              if addrcnt < 1 \<or> addrcnt > int (SCTP_MAX_NUM_ADDRESSES (SL (E xe))) then errno_return (- EINVAL) x
              else
                (case SCTPSocketPtr d of
                   None \<Rightarrow> errno_return (- EBADF) x
                 | Some s \<Rightarrow>
                     (case createAddresses (AE (E xe)) addrs of
                        None \<Rightarrow> errno_return (- ENOMEM) x
                      | Some as \<Rightarrow> andThen (bindx_sctp xe cb d s as flags x) (\<lambda>(r, x). errno_return r x)))
          | ESDT_System fd \<Rightarrow> andThen (ofOption (if addrs = [] then None else Some (hd addrs)))
              (\<lambda>a. sysReturn xe (Sys_bind fd a 128) x)
          | ESDT_Invalid _ \<Rightarrow> errno_return (- ENXIO) x))"

definition ext_bind ::
  "('l, 'o) xenv \<Rightarrow> 'l callback \<Rightarrow> int \<Rightarrow> sockaddr \<Rightarrow> nat \<Rightarrow> ('l, 'o) ext \<Rightarrow> (int \<times> ('l, 'o) ext) result" where
  "ext_bind xe cb sockfd my_addr addrlen x =
     (case getSocket sockfd of
        None \<Rightarrow> errno_return (- EBADF) x
      | Some i \<Rightarrow>
          (case Table x i of
             ESDT_SCTP d \<Rightarrow> sctp_bindx xe cb sockfd [my_addr] 1 SCTP_BINDX_ADD_ADDR x
           | ESDT_System fd \<Rightarrow> sysReturn xe (Sys_bind fd my_addr addrlen) x
           | ESDT_Invalid _ \<Rightarrow> errno_return (- ENXIO) x))"

section \<open>Listening and accepting\<close>

definition ext_listen :: "('l, 'o) xenv \<Rightarrow> 'l callback \<Rightarrow> int \<Rightarrow> int \<Rightarrow> ('l, 'o) ext \<Rightarrow> (int \<times> ('l, 'o) ext) result" where
  "ext_listen xe cb sockfd backlog x =
     (case getSocket sockfd of
        None \<Rightarrow> errno_return (- EBADF) x
      | Some i \<Rightarrow>
          (case Table x i of
             ESDT_SCTP d \<Rightarrow>
               andThen (bindToAny xe cb i x) (\<lambda>(_, x).
               case SCTPSocketPtr d of
                 Some s \<Rightarrow> andThen (coreDo (listen s (cardinal_of_int backlog)) x) (errno_return 0)
               | None \<Rightarrow> errno_return (- EOPNOTSUPP) x)
           | ESDT_System fd \<Rightarrow> sysReturn xe (Sys_listen fd backlog) x
           | ESDT_Invalid _ \<Rightarrow> errno_return (- ENXIO) x))"

text \<open>The address written for the caller, with its length; \<open>want\<close> is the size of the memory.\<close>

definition firstAddress ::
  "bool \<Rightarrow> nat \<Rightarrow> address_array option \<Rightarrow> nat option \<Rightarrow> (nat \<times> sockaddr option) option" where
  "firstAddress v6 domain arr want =
     (case (arr, want) of
        (Some (Some a # _), Some len) \<Rightarrow> Some (SA_getSystemAddress v6 a len domain)
      | _ \<Rightarrow> None)"

text \<open>
  The new descriptor of an accepted association. When the table is full the association is
  destroyed and the null pointer is used.
\<close>

definition accept_sctp ::
  "('l, 'o) xenv \<Rightarrow> 'l callback \<Rightarrow> SCTPDesc \<Rightarrow> nat \<Rightarrow> address_array option \<Rightarrow> ('l, 'o) ext \<Rightarrow> (int \<times> ('l, 'o) ext) result" where
  "accept_sctp xe cb d a arr x =
     andThen (setSocket xe (ESDT_SCTP (d\<lparr>ConnectionOriented := True, SCTPAssociationPtr := Some a\<rparr>)) x) (\<lambda>(newFD, x).
     andThen (deleteAddressList arr) (\<lambda>_.
     if newFD < 0 then
       andThen (coreDo (SCTPAssociation_delete (E xe) cb a) x) (\<lambda>x. Inl BadPointer)
     else
       andThen (coreDo (Association_setNotificationFlags a SCTP_RECVDATAIOEVNT) x) (errno_return newFD)))"

definition ext_accept ::
  "('l, 'o) xenv \<Rightarrow> 'l callback \<Rightarrow> int \<Rightarrow> nat option \<Rightarrow> ('l, 'o) ext
   \<Rightarrow> (int \<times> (nat \<times> sockaddr option) option \<times> ('l, 'o) ext) result" where
  "ext_accept xe cb sockfd want x =
     (let fail = (\<lambda>r x. andThen (errno_return r x) (\<lambda>(r, x). Inr (r, None, x))) in
      case getSocket sockfd of
        None \<Rightarrow> fail (- EBADF) x
      | Some i \<Rightarrow>
          (case Table x i of
             ESDT_SCTP d \<Rightarrow>
               (case SCTPSocketPtr d of
                  None \<Rightarrow> fail (- EOPNOTSUPP) x
                | Some s \<Rightarrow>
                    andThen (core (accept (E xe) cb s True (\<not> flag_set (DFlags d) O_NONBLOCK)) x) (\<lambda>((r, arr), x).
                    case r of
                      None \<Rightarrow> fail (- EAGAIN) x
                    | Some a \<Rightarrow>
                        andThen (accept_sctp xe cb d a arr x) (\<lambda>(fd, x).
                        Inr (fd, firstAddress (UseIPv6 (AE (E xe))) (Domain d) arr want, x))))
           | ESDT_System fd \<Rightarrow>
               (case system xe (Sys_accept fd want) x of
                  (reply, x) \<Rightarrow>
                    if Ret reply \<ge> 0 then
                      andThen (setSocket xe (ESDT_System (Ret reply)) x) (\<lambda>(r, x).
                      andThen (errno_return r (if r < 0 then snd (system xe (Sys_close (Ret reply)) x) else x))
                        (\<lambda>(r, x). Inr (r, Some (AddrLen reply, Addr reply), x)))
                    else fail (Ret reply) x)
           | ESDT_Invalid _ \<Rightarrow> fail (- ENXIO) x))"

section \<open>Names\<close>

text \<open>The first address of the array that fits; the length argument is not updated.\<close>

fun fittingAddress :: "bool \<Rightarrow> nat \<Rightarrow> nat \<Rightarrow> SocketAddress list \<Rightarrow> sockaddr option" where
  "fittingAddress v6 domain len [] = None"
| "fittingAddress v6 domain len (a # as) =
     (case SA_getSystemAddress v6 a len domain of
        (n, sa) \<Rightarrow> if n > 0 then sa else fittingAddress v6 domain len as)"

definition nameResult ::
  "'l env \<Rightarrow> nat \<Rightarrow> int \<Rightarrow> address_array option \<Rightarrow> nat option \<Rightarrow> int \<times> sockaddr option" where
  "nameResult e domain result arr want =
     (case (arr, want) of
        (Some as, Some len) \<Rightarrow>
          if listed as = [] then (result, None)
          else (case fittingAddress (UseIPv6 (AE e)) domain len (listed as) of
                  None \<Rightarrow> (- ENAMETOOLONG, None)
                | Some sa \<Rightarrow> (0, Some sa))
      | _ \<Rightarrow> (result, None))"

definition finishName ::
  "('l, 'o) xenv \<Rightarrow> SCTPDesc \<Rightarrow> int \<Rightarrow> address_array option \<Rightarrow> nat option \<Rightarrow> ('l, 'o) ext
   \<Rightarrow> (int \<times> sockaddr option \<times> ('l, 'o) ext) result" where
  "finishName xe d result arr want x =
     (case nameResult (E xe) (Domain d) result arr want of
        (r, sa) \<Rightarrow>
          andThen (deleteAddressList arr) (\<lambda>_.
          andThen (errno_return r x) (\<lambda>(r, x). Inr (r, sa, x))))"

definition sysName :: "('l, 'o) xenv \<Rightarrow> syscall \<Rightarrow> ('l, 'o) ext \<Rightarrow> (int \<times> sockaddr option \<times> ('l, 'o) ext) result" where
  "sysName xe c x = (case system xe c x of (reply, x) \<Rightarrow> Inr (Ret reply, Addr reply, x))"

definition ext_getsockname ::
  "('l, 'o) xenv \<Rightarrow> int \<Rightarrow> nat option \<Rightarrow> ('l, 'o) ext \<Rightarrow> (int \<times> sockaddr option \<times> ('l, 'o) ext) result" where
  "ext_getsockname xe sockfd want x =
     (case getSocket sockfd of
        None \<Rightarrow> andThen (errno_return (- EBADF) x) (\<lambda>(r, x). Inr (r, None, x))
      | Some i \<Rightarrow>
          (case Table x i of
             ESDT_SCTP d \<Rightarrow>
               byKind d
                 (\<lambda>a. andThen (core (Association_getLocalAddresses (E xe) a None) x) (\<lambda>((_, arr), x).
                      finishName xe d (- ENXIO) arr want x))
                 (\<lambda>s. andThen (core (Socket_getLocalAddresses (E xe) s None) x) (\<lambda>((_, arr), x).
                      finishName xe d (- ENXIO) arr want x))
                 (finishName xe d (- EBADF) None want x)
           | ESDT_System fd \<Rightarrow> sysName xe (Sys_getsockname fd want) x
           | ESDT_Invalid _ \<Rightarrow> andThen (errno_return (- ENXIO) x) (\<lambda>(r, x). Inr (r, None, x))))"

definition ext_getpeername ::
  "('l, 'o) xenv \<Rightarrow> int \<Rightarrow> nat option \<Rightarrow> ('l, 'o) ext \<Rightarrow> (int \<times> sockaddr option \<times> ('l, 'o) ext) result" where
  "ext_getpeername xe sockfd want x =
     (case getSocket sockfd of
        None \<Rightarrow> andThen (errno_return (- EBADF) x) (\<lambda>(r, x). Inr (r, None, x))
      | Some i \<Rightarrow>
          (case Table x i of
             ESDT_SCTP d \<Rightarrow>
               (case SCTPAssociationPtr d of
                  Some a \<Rightarrow>
                    andThen (core (Association_getRemoteAddresses (E xe) a) x) (\<lambda>((_, arr), x).
                    finishName xe d (- ENXIO) arr want x)
                | None \<Rightarrow> finishName xe d (- EBADF) None want x)
           | ESDT_System fd \<Rightarrow> sysName xe (Sys_getpeername fd want) x
           | ESDT_Invalid _ \<Rightarrow> andThen (errno_return (- ENXIO) x) (\<lambda>(r, x). Inr (r, None, x))))"

section \<open>Flags and shutdown\<close>

definition ext_fcntl :: "('l, 'o) xenv \<Rightarrow> int \<Rightarrow> int \<Rightarrow> card64 \<Rightarrow> ('l, 'o) ext \<Rightarrow> (int \<times> ('l, 'o) ext) result" where
  "ext_fcntl xe sockfd cmd arg x =
     (case getSocket sockfd of
        None \<Rightarrow> errno_return (- EBADF) x
      | Some i \<Rightarrow>
          (case Table x i of
             ESDT_SCTP d \<Rightarrow>
               if cmd = F_GETFL then errno_return (sint (DFlags d)) x
               else if cmd = F_SETFL then errno_return 0 (updD i (\<lambda>d. d\<lparr>DFlags := ucast arg\<rparr>) x)
               else errno_return (- EOPNOTSUPP) x
           | ESDT_System fd \<Rightarrow> sysReturn xe (Sys_fcntl fd cmd arg) x
           | ESDT_Invalid _ \<Rightarrow> errno_return (- ENXIO) x))"

definition ext_ioctl :: "('l, 'o) xenv \<Rightarrow> int \<Rightarrow> int \<Rightarrow> ('l, 'o) ext \<Rightarrow> (int \<times> ('l, 'o) ext) result" where
  "ext_ioctl xe sockfd request x =
     (case getSocket sockfd of
        None \<Rightarrow> errno_return (- EBADF) x
      | Some i \<Rightarrow>
          (case Table x i of
             ESDT_SCTP d \<Rightarrow> errno_return (- EOPNOTSUPP) x
           | ESDT_System fd \<Rightarrow> sysReturn xe (Sys_ioctl fd request) x
           | ESDT_Invalid _ \<Rightarrow> errno_return (- ENXIO) x))"

definition ext_shutdown :: "('l, 'o) xenv \<Rightarrow> 'l callback \<Rightarrow> int \<Rightarrow> int \<Rightarrow> ('l, 'o) ext \<Rightarrow> (int \<times> ('l, 'o) ext) result" where
  "ext_shutdown xe cb sockfd how x =
     (case getSocket sockfd of
        None \<Rightarrow> errno_return (- EBADF) x
      | Some i \<Rightarrow>
          (case Table x i of
             ESDT_SCTP d \<Rightarrow>
               (case SCTPAssociationPtr d of
                  Some a \<Rightarrow> andThen (coreDo (shutdown (E xe) cb a) x) (errno_return 0)
                | None \<Rightarrow> errno_return (- EOPNOTSUPP) x)
           | ESDT_System fd \<Rightarrow> sysReturn xe (Sys_shutdown fd how) x
           | ESDT_Invalid _ \<Rightarrow> errno_return (- ENXIO) x))"

section \<open>Peeling off\<close>

definition sctp_peeloff ::
  "('l, 'o) xenv \<Rightarrow> 'l callback \<Rightarrow> int \<Rightarrow> card32 \<Rightarrow> ('l, 'o) ext \<Rightarrow> (int \<times> ('l, 'o) ext) result" where
  "sctp_peeloff xe cb sockfd k x =
     (case getSocket sockfd of
        None \<Rightarrow> Inr (- EBADF, x)
      | Some i \<Rightarrow>
          (case Table x i of
             ESDT_SCTP d \<Rightarrow>
               andThen
                 (case SCTPSocketPtr d of
                    Some s \<Rightarrow> if SockType d \<noteq> SOCK_STREAM then core (peelOff s k) x else Inr (None, x)
                  | None \<Rightarrow> Inr (None, x)) (\<lambda>(r, x).
               case r of
                 None \<Rightarrow> errno_return (- EINVAL) x
               | Some a \<Rightarrow>
                   andThen (setSocket xe (ESDT_SCTP (d\<lparr>SCTPAssociationPtr := Some a, ConnectionOriented := True\<rparr>)) x)
                     (\<lambda>(newFD, x).
                   andThen (if newFD < 0 then coreDo (SCTPAssociation_delete (E xe) cb a) x else Inr x)
                     (errno_return newFD)))
           | _ \<Rightarrow> errno_return (- EOPNOTSUPP) x))"

end
