(* ===== verification/Receiving.thy ===== *)
theory Receiving
  imports Descriptors
begin

text \<open>
  Connecting, receiving and sending through descriptors, and the address lists of an association
  (\<^verbatim>\<open>sctpsocketwrapper.cc\<close>, second half).
\<close>

section \<open>Connecting\<close>

definition connectx_oriented ::
  "('l, 'o) xenv \<Rightarrow> 'l callback \<Rightarrow> nat \<Rightarrow> SCTPDesc \<Rightarrow> nat \<Rightarrow> SocketAddress list \<Rightarrow> ('l, 'o) ext
   \<Rightarrow> (int \<times> card32 \<times> ('l, 'o) ext) result" where
  "connectx_oriented xe cb i d s addrs x =
     andThen (core (associate (E xe) cb s (sinit_num_ostreams (InitMsg d)) (sinit_max_attempts (InitMsg d))
                      (sinit_max_init_timeo (InitMsg d)) addrs (\<not> flag_set (DFlags d) O_NONBLOCK)) x) (\<lambda>(r, x).
     let x = updD i (\<lambda>d. d\<lparr>SCTPAssociationPtr := r\<rparr>) x in
     case r of
       None \<Rightarrow> andThen (errno_return (- EIO) x) (\<lambda>(r, x). Inr (r, 0, x))
     | Some a \<Rightarrow>
         if flag_set (DFlags d) O_NONBLOCK then andThen (errno_return (- EINPROGRESS) x) (\<lambda>(r, x). Inr (r, 0, x))
         else
           andThen (coreGet (Association_getID a) x) (\<lambda>k.
           andThen (errno_return 0 x) (\<lambda>(r, x). Inr (r, k, x))))"

definition connectx_connectionless ::
  "('l, 'o) xenv \<Rightarrow> 'l callback \<Rightarrow> SCTPDesc \<Rightarrow> nat \<Rightarrow> SocketAddress list \<Rightarrow> ('l, 'o) ext
   \<Rightarrow> (int \<times> card32 \<times> ('l, 'o) ext) result" where
  "connectx_connectionless xe cb d s addrs x =
     andThen (Socket_sendTo (E xe) cb s [] (if flag_set (DFlags d) O_NONBLOCK then MSG_DONTWAIT else 0) 0 0 0
                (SCTP_INFINITE_LIFETIME (SL (E xe))) (sinit_max_attempts (InitMsg d)) (sinit_max_init_timeo (InitMsg d))
                True (Some addrs) (sinit_num_ostreams (InitMsg d)) (Core x)) (\<lambda>(result, k, w).
     andThen (errno_return (if result = 0 \<and> flag_set (DFlags d) O_NONBLOCK then - EINPROGRESS else result)
                (x\<lparr>Core := w\<rparr>)) (\<lambda>(r, x). Inr (r, k, x)))"

text \<open>The association ID for the caller is given in all cases; it may be ignored.\<close>

definition ext_connectx ::
  "('l, 'o) xenv \<Rightarrow> 'l callback \<Rightarrow> int \<Rightarrow> sockaddr list \<Rightarrow> int \<Rightarrow> ('l, 'o) ext \<Rightarrow> (int \<times> card32 \<times> ('l, 'o) ext) result" where
  "ext_connectx xe cb sockfd packedAddrs addrcnt x =
     (let fail = (\<lambda>r x. andThen (errno_return r x) (\<lambda>(r, x). Inr (r, 0, x))) in
      andThen (unpack_array packedAddrs addrcnt) (\<lambda>addrs.
      case getSocket sockfd of
        None \<Rightarrow> fail (- EBADF) x
      | Some i \<Rightarrow>
          (case Table x i of
             ESDT_SCTP d \<Rightarrow>
               andThen (bindToAny xe cb i x) (\<lambda>(_, x).
               case SCTPSocketPtr d of
                 None \<Rightarrow> fail (- EBADF) x
               | Some s \<Rightarrow>
                   (case createAddresses (AE (E xe)) addrs of
                      None \<Rightarrow> fail (- EINVAL) x
                    | Some as \<Rightarrow>
                        if ConnectionOriented d then connectx_oriented xe cb i d s as x
                        else connectx_connectionless xe cb d s as x))
           | ESDT_System fd \<Rightarrow> fail (- EOPNOTSUPP) x
           | ESDT_Invalid _ \<Rightarrow> fail (- ENXIO) x)))"

text \<open>Everything that is not an SCTP descriptor is taken for a system descriptor.\<close>

definition ext_connect ::
  "('l, 'o) xenv \<Rightarrow> 'l callback \<Rightarrow> int \<Rightarrow> sockaddr \<Rightarrow> nat \<Rightarrow> ('l, 'o) ext \<Rightarrow> (int \<times> ('l, 'o) ext) result" where
  "ext_connect xe cb sockfd serv_addr addrlen x =
     (case getSocket sockfd of
        None \<Rightarrow> errno_return (- EBADF) x
      | Some i \<Rightarrow>
          (case Table x i of
             ESDT_SCTP d \<Rightarrow> andThen (ext_connectx xe cb sockfd [serv_addr] 1 x) (\<lambda>(r, _, x). Inr (r, x))
           | ESDT_System fd \<Rightarrow> sysReturn xe (Sys_connect fd serv_addr addrlen) x
           | ESDT_Invalid stale \<Rightarrow> sysReturn xe (Sys_connect stale serv_addr addrlen) x))"

section \<open>Receiving\<close>

text \<open>
  A call of \<^verbatim>\<open>receive\<close> that only dropped a notification returns \<^verbatim>\<open>-EAGAIN\<close>; a blocking
  call then tries again with the flags as they were left and the old size. Every round takes a
  notification from the queue.
\<close>

fun recv_retry ::
  "(recv_io \<Rightarrow> ('l, 'o) ext \<Rightarrow> (int \<times> recv_io \<times> ('l, 'o) ext) result) \<Rightarrow> nat \<Rightarrow> nat \<Rightarrow> recv_io \<Rightarrow> ('l, 'o) ext
   \<Rightarrow> (int \<times> recv_io \<times> ('l, 'o) ext) result" where
  "recv_retry f oldSize 0 io x = Inl OutOfFuel"
| "recv_retry f oldSize (Suc n) io x =
     andThen (f (io\<lparr>R_bufferSize := oldSize, R_address := None\<rparr>) x) (\<lambda>(r, io, x).
     if r = - EAGAIN \<and> \<not> flag_set (R_flags io) MSG_DONTWAIT then recv_retry f oldSize n io x
     else Inr (r, io, x))"

definition recv_rounds :: "'l world \<Rightarrow> SCTPNotification nqueue \<Rightarrow> nat" where
  "recv_rounds w q = Count q + length (concat (Future w)) + 1"

text \<open>Receiving for a descriptor: the result, the notification flags and the reference parameters.\<close>

definition recv_desc ::
  "('l, 'o) xenv \<Rightarrow> 'l callback \<Rightarrow> SCTPDesc \<Rightarrow> recv_io \<Rightarrow> ('l, 'o) ext \<Rightarrow> (int \<times> card32 \<times> recv_io \<times> ('l, 'o) ext) result" where
  "recv_desc xe cb d io x =
     byKind d
       (\<lambda>a. andThen (coreGet (getA a) x) (\<lambda>y.
            andThen (recv_retry (\<lambda>io x. andThen (Association_receive (E xe) cb a io (Core x)) (\<lambda>(r, io, w).
                                Inr (r, io, x\<lparr>Core := w\<rparr>)))
                       (R_bufferSize io) (recv_rounds (Core x) (InQueue y)) io x) (\<lambda>(r, io, x).
            andThen (coreGet (Association_getNotificationFlags a) x) (\<lambda>f.
            andThen (coreGet (Association_getID a) x) (\<lambda>k.
            Inr (r, f, io\<lparr>R_assocID := k, R_address := None\<rparr>, x))))))
       (\<lambda>s. andThen (coreGet (getS s) x) (\<lambda>y.
            andThen (recv_retry (\<lambda>io x. andThen (Socket_receiveFrom (E xe) cb s True io (Core x)) (\<lambda>(r, io, w).
                                Inr (r, io, x\<lparr>Core := w\<rparr>)))
                       (R_bufferSize io) (recv_rounds (Core x) (GlobalQueue y)) io x) (\<lambda>(r, io, x).
            andThen (coreGet (Socket_getNotificationFlags s) x) (\<lambda>f. Inr (r, f, io, x)))))
       (Inr (- EBADF, 0, io, x))"

text \<open>The address and the control data for the caller; \<open>flags\<close> are those of the call.\<close>

definition recv_name :: "('l, 'o) xenv \<Rightarrow> SCTPDesc \<Rightarrow> recv_io \<Rightarrow> msghdr \<Rightarrow> msghdr" where
  "recv_name xe d io msg =
     (case (msg_name msg, R_address io) of
        (Some _, Some a) \<Rightarrow>
          (case SA_getSystemAddress (UseIPv6 (AE (E xe))) a (msg_namelen msg) (Domain d) of
             (n, sa) \<Rightarrow> msg\<lparr>msg_namelen := n,
                            msg_name := (case sa of Some sa \<Rightarrow> Some [sa] | None \<Rightarrow> msg_name msg)\<rparr>)
      | _ \<Rightarrow> msg\<lparr>msg_namelen := 0\<rparr>)"

definition recv_control :: "card32 \<Rightarrow> card32 \<Rightarrow> recv_io \<Rightarrow> msghdr \<Rightarrow> msghdr" where
  "recv_control notificationFlags flags io msg =
     (if flag_set notificationFlags SCTP_RECVDATAIOEVNT \<and> msg_control msg \<noteq> None \<and>
         msg_controllen msg \<ge> CSpace sizeof_sndrcvinfo
      then msg\<lparr>msg_control := Some [\<lparr>cmsg_len = CSpace sizeof_sndrcvinfo, cmsg_level = IPPROTO_SCTP,
                 cmsg_type = SCTP_SNDRCV,
                 cmsg_data = CSndRcv \<lparr>sinfo_stream = R_streamID io, sinfo_ssn = R_ssn io, sinfo_flags = flags,
                   sinfo_ppid = R_protoID io, sinfo_context = 0, sinfo_timetolive = 0, sinfo_tsn = R_tsn io,
                   sinfo_cumtsn = 0, sinfo_assoc_id = R_assocID io\<rparr>\<rparr>],
               msg_controllen := CSpace sizeof_sndrcvinfo\<rparr>
      else msg\<lparr>msg_control := None, msg_controllen := 0\<rparr>)"

definition recv_no_data :: "msghdr \<Rightarrow> msghdr" where
  "recv_no_data msg = msg\<lparr>msg_namelen := 0, msg_name := None, msg_controllen := 0, msg_control := None\<rparr>"

definition initial_io :: "nat \<Rightarrow> card32 \<Rightarrow> recv_io" where
  "initial_io sz flags = \<lparr>R_buffer = [], R_bufferSize = sz, R_flags = flags, R_assocID = 0, R_streamID = 0,
     R_protoID = 0, R_ssn = 0, R_tsn = 0, R_address = None\<rparr>"

definition recv_flags :: "SCTPDesc \<Rightarrow> card32 \<Rightarrow> card32 \<Rightarrow> bool \<Rightarrow> card32" where
  "recv_flags d mflags flags receiveNotifications =
     (let f = mflags OR flags;
          f = (if receiveNotifications then set_flag f MSG_NOTIFICATION else clear_flag f MSG_NOTIFICATION)
      in if flag_set (DFlags d) O_NONBLOCK then set_flag f MSG_DONTWAIT else f)"

text \<open>Receiving into the first element of the vector, whose length is overwritten.\<close>

definition recvmsg_sctp ::
  "('l, 'o) xenv \<Rightarrow> 'l callback \<Rightarrow> SCTPDesc \<Rightarrow> msghdr \<Rightarrow> card32 \<Rightarrow> bool \<Rightarrow> ('l, 'o) ext \<Rightarrow> (int \<times> msghdr \<times> ('l, 'o) ext) result" where
  "recvmsg_sctp xe cb d msg flags receiveNotifications x =
     (case msg_iov msg of
        None \<Rightarrow> andThen (errno_return (- EINVAL) x) (\<lambda>(r, x). Inr (r, msg, x))
      | Some [] \<Rightarrow> Inl BadPointer
      | Some (v # vs) \<Rightarrow>
          andThen (recv_desc xe cb d
                     (initial_io (iov_len v) (recv_flags d (msg_flags msg) flags receiveNotifications)) x)
            (\<lambda>(result, notificationFlags, io, x).
          let v = v\<lparr>iov_base := R_buffer io @ drop (length (R_buffer io)) (iov_base v), iov_len := R_bufferSize io\<rparr>;
              msg = msg\<lparr>msg_flags := R_flags io, msg_iov := Some (v # vs)\<rparr>;
              (result, msg) =
                (if result \<ge> 0
                 then (int (iov_len v), recv_control notificationFlags flags io (recv_name xe d io msg))
                 else (result, recv_no_data msg))
          in andThen (errno_return result x) (\<lambda>(r, x). Inr (r, msg, x))))"

definition recvmsg_singlebuffer ::
  "('l, 'o) xenv \<Rightarrow> 'l callback \<Rightarrow> int \<Rightarrow> msghdr \<Rightarrow> card32 \<Rightarrow> bool \<Rightarrow> ('l, 'o) ext \<Rightarrow> (int \<times> msghdr \<times> ('l, 'o) ext) result" where
  "recvmsg_singlebuffer xe cb sockfd msg flags receiveNotifications x =
     (case getSocket sockfd of
        None \<Rightarrow> andThen (errno_return (- EBADF) x) (\<lambda>(r, x). Inr (r, msg, x))
      | Some i \<Rightarrow>
          (case Table x i of
             ESDT_SCTP d \<Rightarrow> recvmsg_sctp xe cb d msg flags receiveNotifications x
           | ESDT_System fd \<Rightarrow>
               (case system xe (Sys_recvmsg fd (Some msg) flags) x of
                  (reply, x) \<Rightarrow> Inr (Ret reply, (case Msg reply of Some m \<Rightarrow> m | None \<Rightarrow> msg), x))
           | ESDT_Invalid _ \<Rightarrow> andThen (errno_return (- ENXIO) x) (\<lambda>(r, x). Inr (r, msg, x))))"

text \<open>
  The loop over the vector. It ends early when nothing was read at all, and when the record ended
  in front of the end of the buffer, judged by the length that the call has overwritten.
\<close>

fun recvmsg_loop ::
  "('l, 'o) xenv \<Rightarrow> 'l callback \<Rightarrow> int \<Rightarrow> card32 \<Rightarrow> bool \<Rightarrow> iovec list \<Rightarrow> iovec list \<Rightarrow> msghdr \<Rightarrow> int \<Rightarrow> ('l, 'o) ext
   \<Rightarrow> (int \<times> msghdr \<times> ('l, 'o) ext) result" where
  "recvmsg_loop xe cb sockfd flags rn finished [] msg result x = Inr (result, msg\<lparr>msg_iov := Some finished\<rparr>, x)"
| "recvmsg_loop xe cb sockfd flags rn finished (v # vs) msg result x =
     andThen (recvmsg_singlebuffer xe cb sockfd (msg\<lparr>msg_iov := Some [v]\<rparr>) flags rn x) (\<lambda>(subresult, msg, x).
     let v = (case msg_iov msg of Some (v # _) \<Rightarrow> v | _ \<Rightarrow> v);
         result = (if subresult > 0 then result + subresult else result);
         stop = (\<lambda>r. Inr (r, msg\<lparr>msg_iov := Some (finished @ v # vs)\<rparr>, x))
     in if result = 0 \<and> subresult \<le> 0 then stop subresult
        else if subresult < int (iov_len v) \<and> flag_set (msg_flags msg) MSG_EOR then stop result
        else recvmsg_loop xe cb sockfd flags rn (finished @ [v]) vs msg result x)"

definition ext_recvmsg2 ::
  "('l, 'o) xenv \<Rightarrow> 'l callback \<Rightarrow> int \<Rightarrow> msghdr \<Rightarrow> card32 \<Rightarrow> bool \<Rightarrow> ('l, 'o) ext \<Rightarrow> (int \<times> msghdr \<times> ('l, 'o) ext) result" where
  "ext_recvmsg2 xe cb sockfd msg flags receiveNotifications x =
     (case msg_iov msg of
        None \<Rightarrow> recvmsg_singlebuffer xe cb sockfd msg flags receiveNotifications x
      | Some vs \<Rightarrow> recvmsg_loop xe cb sockfd flags receiveNotifications [] vs msg 0 x)"

definition ext_recvmsg ::
  "('l, 'o) xenv \<Rightarrow> 'l callback \<Rightarrow> int \<Rightarrow> msghdr \<Rightarrow> card32 \<Rightarrow> ('l, 'o) ext \<Rightarrow> (int \<times> msghdr \<times> ('l, 'o) ext) result" where
  "ext_recvmsg xe cb sockfd msg flags x = ext_recvmsg2 xe cb sockfd msg flags True x"

text \<open>What a receiving call gives its caller: result, bytes, address, length of the address.\<close>

type_synonym ('l, 'o) recvresult = "(int \<times> byte list \<times> sockaddr option \<times> nat \<times> ('l, 'o) ext) result"

definition oneBuffer :: "byte list \<Rightarrow> nat \<Rightarrow> iovec" where
  "oneBuffer buf len = \<lparr>iov_base = buf, iov_len = len\<rparr>"

definition recvfrom_sctp ::
  "('l, 'o) xenv \<Rightarrow> 'l callback \<Rightarrow> int \<Rightarrow> nat \<Rightarrow> card32 \<Rightarrow> bool \<Rightarrow> nat option \<Rightarrow> ('l, 'o) ext \<Rightarrow> ('l, 'o) recvresult" where
  "recvfrom_sctp xe cb sockfd len flags from fromlen x =
     andThen (ext_recvmsg2 xe cb sockfd
                \<lparr>msg_name = (if from then Some [] else None),
                 msg_namelen = (case fromlen of None \<Rightarrow> 0 | Some n \<Rightarrow> n),
                 msg_iov = Some [oneBuffer [] len], msg_control = Some [], msg_controllen = 1024, msg_flags = flags\<rparr>
                flags False x) (\<lambda>(cc, msg, x).
     Inr (cc, (case msg_iov msg of Some (v # _) \<Rightarrow> iov_base v | _ \<Rightarrow> []),
          (case msg_name msg of Some (sa # _) \<Rightarrow> Some sa | _ \<Rightarrow> None), msg_namelen msg, x))"

definition recvError :: "int \<Rightarrow> ('l, 'o) ext \<Rightarrow> ('l, 'o) recvresult" where
  "recvError r x = andThen (errno_return r x) (\<lambda>(r, x). Inr (r, [], None, 0, x))"

definition sysReceive :: "('l, 'o) xenv \<Rightarrow> syscall \<Rightarrow> ('l, 'o) ext \<Rightarrow> ('l, 'o) recvresult" where
  "sysReceive xe c x = (case system xe c x of (reply, x) \<Rightarrow> Inr (Ret reply, Bytes reply, Addr reply, AddrLen reply, x))"

definition ext_recvfrom ::
  "('l, 'o) xenv \<Rightarrow> 'l callback \<Rightarrow> int \<Rightarrow> nat \<Rightarrow> card32 \<Rightarrow> bool \<Rightarrow> nat option \<Rightarrow> ('l, 'o) ext \<Rightarrow> ('l, 'o) recvresult" where
  "ext_recvfrom xe cb sockfd len flags from fromlen x =
     (case getSocket sockfd of
        None \<Rightarrow> recvError (- EBADF) x
      | Some i \<Rightarrow>
          (case Table x i of
             ESDT_SCTP d \<Rightarrow> recvfrom_sctp xe cb sockfd len flags from fromlen x
           | ESDT_System fd \<Rightarrow> sysReceive xe (Sys_recvfrom fd len flags fromlen) x
           | ESDT_Invalid _ \<Rightarrow> recvError (- ENXIO) x))"

definition ext_recv ::
  "('l, 'o) xenv \<Rightarrow> 'l callback \<Rightarrow> int \<Rightarrow> nat \<Rightarrow> card32 \<Rightarrow> ('l, 'o) ext \<Rightarrow> ('l, 'o) recvresult" where
  "ext_recv xe cb sockfd len flags x =
     (case getSocket sockfd of
        None \<Rightarrow> recvError (- EBADF) x
      | Some i \<Rightarrow>
          (case Table x i of
             ESDT_SCTP d \<Rightarrow> ext_recvfrom xe cb sockfd len flags False (Some 0) x
           | ESDT_System fd \<Rightarrow> sysReceive xe (Sys_recv fd len flags) x
           | ESDT_Invalid _ \<Rightarrow> recvError (- ENXIO) x))"

definition ext_read :: "('l, 'o) xenv \<Rightarrow> 'l callback \<Rightarrow> int \<Rightarrow> nat \<Rightarrow> ('l, 'o) ext \<Rightarrow> ('l, 'o) recvresult" where
  "ext_read xe cb fd len x =
     (case getSocket fd of
        None \<Rightarrow> recvError (- EBADF) x
      | Some i \<Rightarrow>
          (case Table x i of
             ESDT_System sfd \<Rightarrow> sysReceive xe (Sys_read sfd len) x
           | _ \<Rightarrow> ext_recv xe cb fd len 0 x))"

definition sctp_recvmsg ::
  "('l, 'o) xenv \<Rightarrow> 'l callback \<Rightarrow> int \<Rightarrow> nat \<Rightarrow> bool \<Rightarrow> nat option \<Rightarrow> card32 option \<Rightarrow> ('l, 'o) ext
   \<Rightarrow> (int \<times> msghdr \<times> sctp_sndrcvinfo option \<times> ('l, 'o) ext) result" where
  "sctp_recvmsg xe cb fd len from fromlen flags x =
     andThen (ext_recvmsg xe cb fd
                \<lparr>msg_name = (if from then Some [] else None),
                 msg_namelen = (case fromlen of None \<Rightarrow> 0 | Some n \<Rightarrow> n),
                 msg_iov = Some [oneBuffer [] len], msg_control = Some [], msg_controllen = CSpace sizeof_sndrcvinfo,
                 msg_flags = (case flags of None \<Rightarrow> 0 | Some f \<Rightarrow> f)\<rparr> 0 x) (\<lambda>(cc, msg, x).
     Inr (cc, msg,
          (if cc > 0 \<and> msg_controllen msg > 0 then
             (case msg_control msg of
                Some (c # _) \<Rightarrow>
                  if cmsg_len c = CLength sizeof_sndrcvinfo \<and> cmsg_level c = IPPROTO_SCTP \<and> cmsg_type c = SCTP_SNDRCV
                  then (case cmsg_data c of CSndRcv info \<Rightarrow> Some info | _ \<Rightarrow> None) else None
              | _ \<Rightarrow> None)
           else None), x))"

end
