(* ===== verification/ExtSending.thy ===== *)
theory ExtSending
  imports Receiving
begin

text \<open>
  Sending through descriptors (\<^verbatim>\<open>ext_sendmsg\<close> and the functions that end in it) and the lists of
  the addresses of an association (\<^verbatim>\<open>sctp_getpaddrs\<close>, \<^verbatim>\<open>sctp_getladdrs\<close>).
\<close>

section \<open>Control data\<close>

text \<open>
  A header with set-up parameters changes those of the descriptor, and establishes the association
  when the message has an address. The result is an error of the whole call or nothing.
\<close>

definition send_init ::
  "('l, 'o) xenv \<Rightarrow> 'l callback \<Rightarrow> nat \<Rightarrow> sctp_initmsg \<Rightarrow> msghdr \<Rightarrow> ('l, 'o) ext \<Rightarrow> (int option \<times> ('l, 'o) ext) result" where
  "send_init xe cb i m msg x =
     (let x = updD i (\<lambda>d. d\<lparr>InitMsg := m\<rparr>) x in
      andThen (getDesc i x) (\<lambda>d.
      case msg_name msg of
        None \<Rightarrow> Inr (None, x)
      | Some name \<Rightarrow>
          if \<not> ConnectionOriented d then Inr (None, x)
          else if SCTPAssociationPtr d \<noteq> None then Inr (Some (- EBUSY), x)
          else
            (case name of
               [] \<Rightarrow> Inl BadPointer
             | sa # _ \<Rightarrow>
                 (case createSocketAddress_sockaddr (AE (E xe)) 0 sa of
                    None \<Rightarrow> Inr (Some (- EADDRNOTAVAIL), x)
                  | Some a \<Rightarrow>
                      andThen (ofOption (SCTPSocketPtr d)) (\<lambda>s.
                      andThen (core (associate (E xe) cb s (sinit_num_ostreams m) (sinit_max_attempts m)
                                       (sinit_max_init_timeo m) [a] (\<not> flag_set (DFlags d) O_NONBLOCK)) x) (\<lambda>(r, x).
                      Inr (if r = None then Some (- ENOTCONN) else None,
                           updD i (\<lambda>d. d\<lparr>SCTPAssociationPtr := r\<rparr>) x)))))))"

text \<open>The last header with send parameters counts; it is given with its position.\<close>

fun send_cmsgs ::
  "('l, 'o) xenv \<Rightarrow> 'l callback \<Rightarrow> nat \<Rightarrow> msghdr \<Rightarrow> nat \<Rightarrow> cmsghdr list \<Rightarrow> (nat \<times> sctp_sndrcvinfo) option \<Rightarrow> ('l, 'o) ext
   \<Rightarrow> ((int + (nat \<times> sctp_sndrcvinfo) option) \<times> ('l, 'o) ext) result" where
  "send_cmsgs xe cb i msg pos [] info x = Inr (Inr info, x)"
| "send_cmsgs xe cb i msg pos (c # cs) info x =
     (if cmsg_level c = IPPROTO_SCTP \<and> cmsg_type c = SCTP_SNDRCV then
        if cmsg_len c \<ge> sizeof_sndrcvinfo then
          (case cmsg_data c of
             CSndRcv n \<Rightarrow> send_cmsgs xe cb i msg (Suc pos) cs (Some (pos, n)) x
           | _ \<Rightarrow> Inl BadPointer)
        else Inr (Inl (- EINVAL), x)
      else if cmsg_level c = IPPROTO_SCTP \<and> cmsg_type c = SCTP_INIT then
        (case cmsg_data c of
           CInit m \<Rightarrow>
             andThen (send_init xe cb i m msg x) (\<lambda>(r, x).
             case r of
               Some err \<Rightarrow> Inr (Inl err, x)
             | None \<Rightarrow> send_cmsgs xe cb i msg (Suc pos) cs info x)
         | _ \<Rightarrow> Inl BadPointer)
      else send_cmsgs xe cb i msg (Suc pos) cs info x)"

section \<open>Destinations\<close>

text \<open>
  The loop over packed addresses writes into an array for the largest number of addresses, and the
  terminating null pointer behind the last; the count is the caller's.
\<close>

fun multiAddresses ::
  "addrenv \<Rightarrow> nat \<Rightarrow> nat \<Rightarrow> nat \<Rightarrow> sockaddr list \<Rightarrow> SocketAddress list \<Rightarrow> (int + SocketAddress list) result" where
  "multiAddresses e limit i 0 packed acc = (if i > limit then Inl BadPointer else Inr (Inr acc))"
| "multiAddresses e limit i (Suc n) [] acc = Inl BadPointer"
| "multiAddresses e limit i (Suc n) (sa # packed) acc =
     (if i > limit then Inl BadPointer
      else case createSocketAddress_sockaddr e 0 sa of
        None \<Rightarrow> Inr (Inl (- EINVAL))
      | Some a \<Rightarrow>
          if sa_family sa = AF_INET \<or> sa_family sa = AF_INET6
          then multiAddresses e limit (Suc i) n packed (acc @ [a])
          else Inr (Inl (- EINVAL)))"

definition destinations :: "('l, 'o) xenv \<Rightarrow> card32 \<Rightarrow> sockaddr list \<Rightarrow> nat \<Rightarrow> (int + SocketAddress list) result" where
  "destinations xe flags name namelen =
     (if \<not> flag_set flags MSG_MULTIADDRS then
        (case name of
           [] \<Rightarrow> Inl BadPointer
         | sa # _ \<Rightarrow> Inr (Inr (case createSocketAddress_sockaddr (AE (E xe)) 0 sa of None \<Rightarrow> [] | Some a \<Rightarrow> [a])))
      else multiAddresses (AE (E xe)) (SCTP_MAX_NUM_ADDRESSES (SL (E xe))) 0 namelen name [])"

section \<open>Sending a message\<close>

definition send_ttl :: "('l, 'o) xenv \<Rightarrow> (nat \<times> sctp_sndrcvinfo) option \<Rightarrow> card32" where
  "send_ttl xe info =
     (case info of
        Some (_, n) \<Rightarrow> if flag_set (sinfo_flags n) MSG_PR_SCTP_TTL then sinfo_timetolive n
                       else SCTP_INFINITE_LIFETIME (SL (E xe))
      | None \<Rightarrow> SCTP_INFINITE_LIFETIME (SL (E xe)))"

definition send_flags :: "SCTPDesc \<Rightarrow> card32 \<Rightarrow> card32 \<Rightarrow> (nat \<times> sctp_sndrcvinfo) option \<Rightarrow> card32" where
  "send_flags d flags mflags info =
     (let f = flags OR mflags;
          f = (case info of Some (_, n) \<Rightarrow> f OR sinfo_flags n | None \<Rightarrow> f)
      in if flag_set (DFlags d) O_NONBLOCK then set_flag f MSG_DONTWAIT else f)"

text \<open>The ID of the association a send through the socket used is written to the send parameters.\<close>

definition storeAssocID :: "(nat \<times> sctp_sndrcvinfo) option \<Rightarrow> card32 \<Rightarrow> msghdr \<Rightarrow> msghdr" where
  "storeAssocID info k msg =
     (case (info, msg_control msg) of
        (Some (pos, n), Some cs) \<Rightarrow>
          msg\<lparr>msg_control := Some (cs[pos := (cs ! pos)\<lparr>cmsg_data := CSndRcv (n\<lparr>sinfo_assoc_id := k\<rparr>)\<rparr>])\<rparr>
      | _ \<Rightarrow> msg)"

definition send_through_socket ::
  "('l, 'o) xenv \<Rightarrow> 'l callback \<Rightarrow> SCTPDesc \<Rightarrow> nat \<Rightarrow> byte list \<Rightarrow> card32 \<Rightarrow> (nat \<times> sctp_sndrcvinfo) option
   \<Rightarrow> SocketAddress list option \<Rightarrow> msghdr \<Rightarrow> ('l, 'o) ext \<Rightarrow> (int \<times> msghdr \<times> ('l, 'o) ext) result" where
  "send_through_socket xe cb d s buffer flags info dests msg x =
     andThen (Socket_sendTo (E xe) cb s buffer flags
                (case info of Some (_, n) \<Rightarrow> sinfo_assoc_id n | None \<Rightarrow> 0)
                (case info of Some (_, n) \<Rightarrow> sinfo_stream n | None \<Rightarrow> 0)
                (case info of Some (_, n) \<Rightarrow> sinfo_ppid n | None \<Rightarrow> 0)
                (send_ttl xe info) (sinit_max_attempts (InitMsg d)) (sinit_max_init_timeo (InitMsg d))
                (info = None) dests (sinit_num_ostreams (InitMsg d)) (Core x)) (\<lambda>(result, k, w).
     andThen (errno_return result (x\<lparr>Core := w\<rparr>)) (\<lambda>(r, x). Inr (r, storeAssocID info k msg, x)))"

definition sendmsg_sctp ::
  "('l, 'o) xenv \<Rightarrow> 'l callback \<Rightarrow> nat \<Rightarrow> msghdr \<Rightarrow> card32 \<Rightarrow> ('l, 'o) ext \<Rightarrow> (int \<times> msghdr \<times> ('l, 'o) ext) result" where
  "sendmsg_sctp xe cb i msg flags x =
     (let fail = (\<lambda>r x. andThen (errno_return r x) (\<lambda>(r, x). Inr (r, msg, x))) in
      andThen (bindToAny xe cb i x) (\<lambda>(_, x).
      andThen (send_cmsgs xe cb i msg 0 (case msg_control msg of None \<Rightarrow> [] | Some cs \<Rightarrow> cs) None x) (\<lambda>(r, x).
      case r of
        Inl err \<Rightarrow> fail err x
      | Inr info \<Rightarrow>
          andThen (getDesc i x) (\<lambda>d.
          let flags = send_flags d flags (msg_flags msg) info in
          (case msg_name msg of
             Some name \<Rightarrow>
               (case SCTPSocketPtr d of
                  None \<Rightarrow> fail (- EBADF) x
                | Some s \<Rightarrow>
                    andThen (destinations xe flags name (msg_namelen msg)) (\<lambda>dests.
                    case dests of
                      Inl err \<Rightarrow> fail err x
                    | Inr as \<Rightarrow>
                        andThen (case msg_iov msg of Some (v # _) \<Rightarrow> Inr (iov_bytes v) | _ \<Rightarrow> Inl BadPointer) (\<lambda>buffer.
                        send_through_socket xe cb d s buffer flags info (Some as) msg x)))
           | None \<Rightarrow>
               andThen (case msg_iov msg of Some (v # _) \<Rightarrow> Inr (iov_bytes v) | _ \<Rightarrow> Inl BadPointer) (\<lambda>buffer.
               case SCTPAssociationPtr d of
                 Some a \<Rightarrow>
                   andThen (core (Association_send (E xe) cb a buffer flags
                              (case info of Some (_, n) \<Rightarrow> sinfo_stream n | None \<Rightarrow> 0)
                              (case info of Some (_, n) \<Rightarrow> sinfo_ppid n | None \<Rightarrow> 0)
                              (send_ttl xe info) (info = None)) x) (\<lambda>(r, x). fail r x)
               | None \<Rightarrow>
                   (case SCTPSocketPtr d of
                      Some s \<Rightarrow> send_through_socket xe cb d s buffer flags info None msg x
                    | None \<Rightarrow> fail (- EBADF) x)))))))"

definition sendmsg_singlebuffer ::
  "('l, 'o) xenv \<Rightarrow> 'l callback \<Rightarrow> int \<Rightarrow> msghdr \<Rightarrow> card32 \<Rightarrow> ('l, 'o) ext \<Rightarrow> (int \<times> msghdr \<times> ('l, 'o) ext) result" where
  "sendmsg_singlebuffer xe cb sockfd msg flags x =
     (case getSocket sockfd of
        None \<Rightarrow> andThen (errno_return (- EBADF) x) (\<lambda>(r, x). Inr (r, msg, x))
      | Some i \<Rightarrow>
          (case Table x i of
             ESDT_SCTP d \<Rightarrow> sendmsg_sctp xe cb i msg flags x
           | ESDT_System fd \<Rightarrow> andThen (sysReturn xe (Sys_sendmsg fd (Some msg) flags) x) (\<lambda>(r, x). Inr (r, msg, x))
           | ESDT_Invalid _ \<Rightarrow> andThen (errno_return (- ENXIO) x) (\<lambda>(r, x). Inr (r, msg, x))))"

text \<open>Several buffers are copied into one first; the message of the caller is not changed then
  but for its control data.\<close>

definition ext_sendmsg ::
  "('l, 'o) xenv \<Rightarrow> 'l callback \<Rightarrow> int \<Rightarrow> msghdr \<Rightarrow> card32 \<Rightarrow> ('l, 'o) ext \<Rightarrow> (int \<times> msghdr \<times> ('l, 'o) ext) result" where
  "ext_sendmsg xe cb sockfd msg flags x =
     (case msg_iov msg of
        Some (v1 # v2 # vs) \<Rightarrow>
          let buffer = concat (map iov_bytes (v1 # v2 # vs)) in
          andThen (sendmsg_singlebuffer xe cb sockfd (msg\<lparr>msg_iov := Some [oneBuffer buffer (length buffer)]\<rparr>) flags x)
            (\<lambda>(r, m, x). Inr (r, msg\<lparr>msg_control := msg_control m\<rparr>, x))
      | _ \<Rightarrow> sendmsg_singlebuffer xe cb sockfd msg flags x)"

definition ext_sendto ::
  "('l, 'o) xenv \<Rightarrow> 'l callback \<Rightarrow> int \<Rightarrow> byte list \<Rightarrow> card32 \<Rightarrow> sockaddr option \<Rightarrow> nat \<Rightarrow> ('l, 'o) ext \<Rightarrow> (int \<times> ('l, 'o) ext) result" where
  "ext_sendto xe cb sockfd buf flags to tolen x =
     (case getSocket sockfd of
        None \<Rightarrow> errno_return (- EBADF) x
      | Some i \<Rightarrow>
          (case Table x i of
             ESDT_SCTP d \<Rightarrow>
               andThen (ext_sendmsg xe cb sockfd
                          \<lparr>msg_name = map_option (\<lambda>a. [a]) to, msg_namelen = tolen,
                           msg_iov = Some [oneBuffer buf (length buf)], msg_control = None, msg_controllen = 0,
                           msg_flags = flags\<rparr> flags x) (\<lambda>(r, _, x). Inr (r, x))
           | ESDT_System fd \<Rightarrow> sysReturn xe (Sys_sendto fd buf flags to tolen) x
           | ESDT_Invalid _ \<Rightarrow> errno_return (- ENXIO) x))"

definition ext_send ::
  "('l, 'o) xenv \<Rightarrow> 'l callback \<Rightarrow> int \<Rightarrow> byte list \<Rightarrow> card32 \<Rightarrow> ('l, 'o) ext \<Rightarrow> (int \<times> ('l, 'o) ext) result" where
  "ext_send xe cb sockfd buf flags x =
     (case getSocket sockfd of
        None \<Rightarrow> errno_return (- EBADF) x
      | Some i \<Rightarrow>
          (case Table x i of
             ESDT_SCTP d \<Rightarrow> ext_sendto xe cb sockfd buf flags None 0 x
           | ESDT_System fd \<Rightarrow> sysReturn xe (Sys_send fd buf flags) x
           | ESDT_Invalid _ \<Rightarrow> errno_return (- ENXIO) x))"

definition ext_write :: "('l, 'o) xenv \<Rightarrow> 'l callback \<Rightarrow> int \<Rightarrow> byte list \<Rightarrow> ('l, 'o) ext \<Rightarrow> (int \<times> ('l, 'o) ext) result" where
  "ext_write xe cb fd buf x =
     (case getSocket fd of
        None \<Rightarrow> errno_return (- EBADF) x
      | Some i \<Rightarrow>
          (case Table x i of
             ESDT_System sfd \<Rightarrow> sysReturn xe (Sys_write sfd buf) x
           | _ \<Rightarrow> ext_send xe cb fd buf 0 x))"

section \<open>The \<^verbatim>\<open>sctp_\<close> calls\<close>

text \<open>A message with one header of send parameters.\<close>

definition infoMessage :: "byte list \<Rightarrow> sockaddr list option \<Rightarrow> nat \<Rightarrow> sctp_sndrcvinfo \<Rightarrow> card32 \<Rightarrow> msghdr" where
  "infoMessage buf name namelen info flags =
     \<lparr>msg_name = name, msg_namelen = namelen, msg_iov = Some [oneBuffer buf (length buf)],
      msg_control = Some [\<lparr>cmsg_len = CLength sizeof_sndrcvinfo, cmsg_level = IPPROTO_SCTP, cmsg_type = SCTP_SNDRCV,
                           cmsg_data = CSndRcv info\<rparr>],
      msg_controllen = CSpace sizeof_sndrcvinfo, msg_flags = flags\<rparr>"

definition sctp_sendmsg ::
  "('l, 'o) xenv \<Rightarrow> 'l callback \<Rightarrow> int \<Rightarrow> byte list \<Rightarrow> sockaddr option \<Rightarrow> nat \<Rightarrow> card32 \<Rightarrow> card32 \<Rightarrow> card16 \<Rightarrow> card32 \<Rightarrow> card32
   \<Rightarrow> ('l, 'o) ext \<Rightarrow> (int \<times> ('l, 'o) ext) result" where
  "sctp_sendmsg xe cb s data to tolen ppid flags stream_no timetolive context x =
     andThen (ext_sendmsg xe cb s
                (infoMessage data (map_option (\<lambda>a. [a]) to) tolen
                   \<lparr>sinfo_stream = stream_no, sinfo_ssn = 0, sinfo_flags = flags, sinfo_ppid = ppid, sinfo_context = 0,
                    sinfo_timetolive = timetolive, sinfo_tsn = 0, sinfo_cumtsn = 0, sinfo_assoc_id = 0\<rparr> flags)
                0 x) (\<lambda>(r, _, x). Inr (r, x))"

definition sctp_send ::
  "('l, 'o) xenv \<Rightarrow> 'l callback \<Rightarrow> int \<Rightarrow> byte list \<Rightarrow> sctp_sndrcvinfo \<Rightarrow> card32 \<Rightarrow> ('l, 'o) ext \<Rightarrow> (int \<times> ('l, 'o) ext) result" where
  "sctp_send xe cb s data sinfo flags x =
     andThen (ext_sendmsg xe cb s (infoMessage data None 0 sinfo flags) 0 x) (\<lambda>(r, _, x). Inr (r, x))"

definition no_info :: sctp_sndrcvinfo where
  "no_info = \<lparr>sinfo_stream = 0, sinfo_ssn = 0, sinfo_flags = 0, sinfo_ppid = 0, sinfo_context = 0,
     sinfo_timetolive = 0, sinfo_tsn = 0, sinfo_cumtsn = 0, sinfo_assoc_id = 0\<rparr>"

definition sctp_sendx ::
  "('l, 'o) xenv \<Rightarrow> 'l callback \<Rightarrow> int \<Rightarrow> byte list \<Rightarrow> sockaddr list \<Rightarrow> nat \<Rightarrow> sctp_sndrcvinfo option \<Rightarrow> card32
   \<Rightarrow> ('l, 'o) ext \<Rightarrow> (int \<times> ('l, 'o) ext) result" where
  "sctp_sendx xe cb sd data addrs addrcnt sinfo flags x =
     (let sri = (case sinfo of Some n \<Rightarrow> n | None \<Rightarrow> no_info);
          sri = sri\<lparr>sinfo_flags := set_flag (sinfo_flags sri) MSG_MULTIADDRS\<rparr>
      in andThen (ext_sendmsg xe cb sd (infoMessage data (Some addrs) addrcnt sri (set_flag flags MSG_MULTIADDRS)) 0 x)
           (\<lambda>(r, _, x). Inr (r, x)))"

section \<open>Address lists\<close>

text \<open>An IPv6 address is written as an IPv4 address where it is one.\<close>

fun systemAddresses :: "bool \<Rightarrow> SocketAddress list \<Rightarrow> sockaddr list option" where
  "systemAddresses v6 [] = Some []"
| "systemAddresses v6 (a # as) =
     (let family = SA_getFamily v6 a;
          family = (if family = AF_INET6 \<and> fst (SA_getSystemAddress v6 a 128 AF_INET) > 0 then AF_INET else family)
      in (case SA_getSystemAddress v6 a 128 family of
            (len, Some sa) \<Rightarrow>
              if len > 0 then map_option ((#) sa) (systemAddresses v6 as) else None
          | (len, None) \<Rightarrow> None))"

text \<open>Packing aborts the process at an address of another family.\<close>

definition pack_sockaddr_storage :: "sockaddr list \<Rightarrow> sockaddr list result" where
  "pack_sockaddr_storage sas =
     (if list_all (\<lambda>sa. sa_family sa = AF_INET \<or> sa_family sa = AF_INET6) sas then Inr sas else Inl ProcessAbort)"

definition sctp_addresses ::
  "('l, 'o) xenv \<Rightarrow> SCTPDesc \<Rightarrow> card32 \<Rightarrow> bool \<Rightarrow> ('l, 'o) ext \<Rightarrow> (int \<times> address_array option \<times> ('l, 'o) ext) result" where
  "sctp_addresses xe d k peerAddresses x =
     (let got = (\<lambda>r. andThen r (\<lambda>((_, arr), x). Inr (- ENXIO, arr, x))) in
      if peerAddresses then
        (case SCTPAssociationPtr d of
           Some a \<Rightarrow>
             andThen (coreGet (Association_getID a) x) (\<lambda>own.
             if k \<noteq> 0 \<and> own \<noteq> k then Inr (- EINVAL, None, x)
             else got (core (Association_getRemoteAddresses (E xe) a) x))
         | None \<Rightarrow>
             (case SCTPSocketPtr d of
                Some s \<Rightarrow> got (core (Socket_getRemoteAddresses (E xe) s k None) x)
              | None \<Rightarrow> Inr (- EBADF, None, x)))
      else
        (case SCTPAssociationPtr d of
           Some a \<Rightarrow> got (core (Association_getLocalAddresses (E xe) a None) x)
         | None \<Rightarrow>
             (case SCTPSocketPtr d of
                Some s \<Rightarrow> got (core (Socket_getLocalAddresses (E xe) s None) x)
              | None \<Rightarrow> Inr (- EBADF, None, x))))"

definition sctp_getlpaddrs ::
  "('l, 'o) xenv \<Rightarrow> int \<Rightarrow> card32 \<Rightarrow> bool \<Rightarrow> ('l, 'o) ext \<Rightarrow> (int \<times> sockaddr list option \<times> ('l, 'o) ext) result" where
  "sctp_getlpaddrs xe sockfd k peerAddresses x =
     (let fail = (\<lambda>r x. andThen (errno_return r x) (\<lambda>(r, x). Inr (r, None, x))) in
      case getSocket sockfd of
        None \<Rightarrow> fail (- EBADF) x
      | Some i \<Rightarrow>
          (case Table x i of
             ESDT_SCTP d \<Rightarrow>
               andThen (sctp_addresses xe d k peerAddresses x) (\<lambda>(result, arr, x).
               let as = (case arr of None \<Rightarrow> [] | Some l \<Rightarrow> listed l) in
               andThen (deleteAddressList arr) (\<lambda>_.
               if as = [] then fail result x
               else
                 (case systemAddresses (UseIPv6 (AE (E xe))) as of
                    None \<Rightarrow> fail (- ENAMETOOLONG) x
                  | Some sas \<Rightarrow>
                      andThen (pack_sockaddr_storage sas) (\<lambda>packed.
                      andThen (errno_return (int (length as)) x) (\<lambda>(r, x). Inr (r, Some packed, x))))))
           | ESDT_System fd \<Rightarrow> fail (- EOPNOTSUPP) x
           | ESDT_Invalid _ \<Rightarrow> fail (- ENXIO) x))"

definition sctp_getpaddrs ::
  "('l, 'o) xenv \<Rightarrow> int \<Rightarrow> card32 \<Rightarrow> ('l, 'o) ext \<Rightarrow> (int \<times> sockaddr list option \<times> ('l, 'o) ext) result" where
  "sctp_getpaddrs xe sockfd k x = sctp_getlpaddrs xe sockfd k True x"

definition sctp_getladdrs ::
  "('l, 'o) xenv \<Rightarrow> int \<Rightarrow> card32 \<Rightarrow> ('l, 'o) ext \<Rightarrow> (int \<times> sockaddr list option \<times> ('l, 'o) ext) result" where
  "sctp_getladdrs xe sockfd k x = sctp_getlpaddrs xe sockfd k False x"

section \<open>Settings of the library\<close>

definition sctp_enableOOTBHandling :: "'l env \<Rightarrow> card32 \<Rightarrow> 'l world \<Rightarrow> (int \<times> 'l world) result" where
  "sctp_enableOOTBHandling e enable w =
     andThen (enableOOTBHandling e (enable \<noteq> 0) w) (\<lambda>(ok, w). Inr (if ok then 0 else - EIO, w))"

definition sctp_enableCRC32 :: "'l env \<Rightarrow> card32 \<Rightarrow> 'l world \<Rightarrow> (int \<times> 'l world) result" where
  "sctp_enableCRC32 e enable w =
     andThen (enableCRC32 e (enable \<noteq> 0) w) (\<lambda>(ok, w). Inr (if ok then 0 else - EIO, w))"

definition socketAPIGetVersion :: card32 where
  "socketAPIGetVersion = push_bit 16 2 OR 0x2200"

end
