(* ===== verification/SocketOptions.thy ===== *)
theory SocketOptions
  imports ExtData
begin

text \<open>
  Socket options (\<^verbatim>\<open>ext_getsockopt\<close>, \<^verbatim>\<open>ext_setsockopt\<close> and the functions for single
  options in \<^verbatim>\<open>sctpsocketwrapper.cc\<close>).
\<close>

section \<open>Levels and options\<close>

definition SOL_IP :: int where "SOL_IP = 0"
definition SOL_SOCKET :: int where "SOL_SOCKET = 1"
definition SOL_IPV6 :: int where "SOL_IPV6 = 41"
definition IP_TOS :: int where "IP_TOS = 1"
definition IP_RECVTOS :: int where "IP_RECVTOS = 13"
definition IPV6_FLOWINFO :: int where "IPV6_FLOWINFO = 11"
definition IPV6_FLOWINFO_SEND :: int where "IPV6_FLOWINFO_SEND = 33"
definition SO_SNDBUF :: int where "SO_SNDBUF = 7"
definition SO_RCVBUF :: int where "SO_RCVBUF = 8"
definition SO_LINGER :: int where "SO_LINGER = 13"

lemmas level_defs = SOL_IP_def SOL_SOCKET_def SOL_IPV6_def IPPROTO_SCTP_def IP_TOS_def IP_RECVTOS_def
  IPV6_FLOWINFO_def IPV6_FLOWINFO_SEND_def SO_SNDBUF_def SO_RCVBUF_def SO_LINGER_def

definition SCTP_INITMSG :: int where "SCTP_INITMSG = 1000"
definition SCTP_AUTOCLOSE :: int where "SCTP_AUTOCLOSE = 1001"
definition SCTP_RTOINFO :: int where "SCTP_RTOINFO = 1010"
definition SCTP_ASSOCINFO :: int where "SCTP_ASSOCINFO = 1011"
definition SCTP_PRIMARY_ADDR :: int where "SCTP_PRIMARY_ADDR = 1012"
definition SCTP_SET_PEER_PRIMARY_ADDR :: int where "SCTP_SET_PEER_PRIMARY_ADDR = 1013"
definition SCTP_SET_STREAM_TIMEOUTS :: int where "SCTP_SET_STREAM_TIMEOUTS = 1014"
definition SCTP_PEER_ADDR_PARAMS :: int where "SCTP_PEER_ADDR_PARAMS = 1015"
definition SCTP_STATUS :: int where "SCTP_STATUS = 1016"
definition SCTP_GET_PEER_ADDR_INFO :: int where "SCTP_GET_PEER_ADDR_INFO = 1017"
definition SCTP_NODELAY :: int where "SCTP_NODELAY = 1018"
definition SCTP_SET_DEFAULT_SEND_PARAM :: int where "SCTP_SET_DEFAULT_SEND_PARAM = 1019"
definition SCTP_EVENTS :: int where "SCTP_EVENTS = 1020"
definition SCTP_DELAYED_SACK :: int where "SCTP_DELAYED_SACK = 1021"

lemmas option_defs = SCTP_INITMSG_def SCTP_AUTOCLOSE_def SCTP_RTOINFO_def SCTP_ASSOCINFO_def SCTP_PRIMARY_ADDR_def
  SCTP_SET_PEER_PRIMARY_ADDR_def SCTP_SET_STREAM_TIMEOUTS_def SCTP_PEER_ADDR_PARAMS_def SCTP_STATUS_def
  SCTP_GET_PEER_ADDR_INFO_def SCTP_NODELAY_def SCTP_SET_DEFAULT_SEND_PARAM_def SCTP_EVENTS_def SCTP_DELAYED_SACK_def

definition SCTP_INACTIVE :: int where "SCTP_INACTIVE = 0"
definition SCTP_ACTIVE :: int where "SCTP_ACTIVE = 1"
definition SPP_HB_ENABLE :: card32 where "SPP_HB_ENABLE = 1"
definition SPP_HB_DISABLE :: card32 where "SPP_HB_DISABLE = 2"

section \<open>Parameters of the association a descriptor stands for\<close>

text \<open>\<open>None\<close> is the result -1; otherwise the ID and the parameters.\<close>

definition getAssocParams ::
  "('l, 'o) xenv \<Rightarrow> SCTPDesc \<Rightarrow> card32 \<Rightarrow> ('l, 'o) ext \<Rightarrow> ((card32 \<times> assoc_status) option \<times> ('l, 'o) ext) result" where
  "getAssocParams xe d assocID x =
     byKind d
       (\<lambda>a. andThen (core (Association_getAssocStatus (E xe) a) x) (\<lambda>(r, x).
            case r of
              None \<Rightarrow> Inr (None, x)
            | Some p \<Rightarrow> andThen (coreGet (Association_getID a) x) (\<lambda>k. Inr (Some (k, p), x))))
       (\<lambda>s. andThen (core (Socket_getAssocStatus (E xe) assocID) x) (\<lambda>(r, x).
            Inr (map_option (Pair assocID) r, x)))
       (Inr (None, x))"

definition setAssocParams ::
  "('l, 'o) xenv \<Rightarrow> SCTPDesc \<Rightarrow> card32 \<Rightarrow> assoc_status \<Rightarrow> ('l, 'o) ext \<Rightarrow> (int \<times> ('l, 'o) ext) result" where
  "setAssocParams xe d assocID p x =
     andThen
       (byKind d (\<lambda>a. core (Association_setAssocStatus (E xe) a p) x)
          (\<lambda>s. core (Socket_setAssocStatus (E xe) assocID p) x) (Inr (False, x))) (\<lambda>(ok, x).
     Inr (if ok then 0 else - 1, x))"

text \<open>The parameters a reading call leaves: those it wrote, or what was in the memory.\<close>

definition orRaw :: "('l, 'o) xenv \<Rightarrow> path_status option \<Rightarrow> path_status" where
  "orRaw xe r = (case r of None \<Rightarrow> rawPath xe | Some p \<Rightarrow> p)"

definition getPrimaryAddressInfo ::
  "('l, 'o) xenv \<Rightarrow> SCTPDesc \<Rightarrow> card32 \<Rightarrow> sctp_paddrinfo \<Rightarrow> ('l, 'o) ext \<Rightarrow> (int \<times> sctp_paddrinfo \<times> ('l, 'o) ext) result" where
  "getPrimaryAddressInfo xe d assocID info x =
     andThen
       (byKind d
          (\<lambda>a. andThen (core (Association_getPathParameters (E xe) a None) (lockX x)) (\<lambda>((ok, p), x).
               andThen (coreGet (Association_getID a) x) (\<lambda>k.
               Inr (if ok then Some (k, orRaw xe p) else None, x))))
          (\<lambda>s. andThen (core (getPathParameters (E xe) assocID None) (lockX x)) (\<lambda>((ok, p), x).
               Inr (if ok then Some (assocID, orRaw xe p) else None, x)))
          (Inr (None, lockX x))) (\<lambda>(r, x).
     let (result, info) =
       (case r of
          None \<Rightarrow> (- EBADF, info)
        | Some (k, p) \<Rightarrow>
            (case createSocketAddress_name (AE (E xe)) 0 (String_of (Some (destinationAddress p))) of
               None \<Rightarrow> (- EIO, info)
             | Some address \<Rightarrow>
                 (case SA_getSystemAddress (UseIPv6 (AE (E xe))) address 128 (Domain d) of
                    (len, Some sa) \<Rightarrow>
                      if len > 0 then
                        (0, \<lparr>spinfo_assoc_id = k, spinfo_address = sa, spinfo_state = path_state p, spinfo_cwnd = cwnd p,
                             spinfo_srtt = srtt p, spinfo_rto = rto p, spinfo_mtu = mtu p\<rparr>)
                      else (- EIO, info)
                  | (len, None) \<Rightarrow> (- EIO, info))))
     in andThen (coreDo unlock x) (\<lambda>x. Inr (result, info, x)))"

section \<open>Path parameters\<close>

definition getPathStatus ::
  "('l, 'o) xenv \<Rightarrow> SCTPDesc \<Rightarrow> card32 \<Rightarrow> sockaddr \<Rightarrow> ('l, 'o) ext \<Rightarrow> (int \<times> path_status \<times> ('l, 'o) ext) result" where
  "getPathStatus xe d assocID sa x =
     (case createSocketAddress_sockaddr (AE (E xe)) 0 sa of
        None \<Rightarrow> Inr (- EINVAL, rawPath xe, x)
      | Some address \<Rightarrow>
          andThen
            (byKind d (\<lambda>a. core (Association_getPathParameters (E xe) a (Some address)) x)
               (\<lambda>s. core (getPathParameters (E xe) assocID (Some address)) x) (Inr ((False, None), x))) (\<lambda>((ok, p), x).
          Inr (if ok then 0 else - EIO, orRaw xe p, x)))"

definition setPathStatus ::
  "('l, 'o) xenv \<Rightarrow> SCTPDesc \<Rightarrow> card32 \<Rightarrow> sockaddr \<Rightarrow> path_status \<Rightarrow> ('l, 'o) ext \<Rightarrow> (int \<times> ('l, 'o) ext) result" where
  "setPathStatus xe d assocID sa p x =
     (case createSocketAddress_sockaddr (AE (E xe)) 0 sa of
        None \<Rightarrow> Inr (- EINVAL, x)
      | Some address \<Rightarrow>
          andThen
            (byKind d (\<lambda>a. core (Association_setPathParameters (E xe) a (Some address) p) x)
               (\<lambda>s. core (setPathParameters (E xe) assocID (Some address) p) x) (Inr (False, x))) (\<lambda>(ok, x).
          Inr (if ok then 0 else - EIO, x)))"

section \<open>Reading options\<close>

text \<open>
  A reading call returns the result, the memory of the caller and the length. It checks the pointer
  and the length first.
\<close>

type_synonym ('l, 'o) optresult = "(int \<times> optval option \<times> nat \<times> ('l, 'o) ext) result"

definition optFail :: "int \<Rightarrow> optval option \<Rightarrow> nat \<Rightarrow> ('l, 'o) ext \<Rightarrow> ('l, 'o) optresult" where
  "optFail r v len x = andThen (errno_return r x) (\<lambda>(r, x). Inr (r, v, len, x))"

definition optDone :: "int \<Rightarrow> optval \<Rightarrow> ('l, 'o) ext \<Rightarrow> ('l, 'o) optresult" where
  "optDone r v x = andThen (errno_return r x) (\<lambda>(r, x). Inr (r, Some v, sizeof_optval v, x))"

definition getAssocStatus ::
  "('l, 'o) xenv \<Rightarrow> SCTPDesc \<Rightarrow> optval option \<Rightarrow> nat \<Rightarrow> ('l, 'o) ext \<Rightarrow> ('l, 'o) optresult" where
  "getAssocStatus xe d v len x =
     (if len < 184 \<or> v = None then optFail (- EINVAL) v len x
      else case v of
        Some (OptStatus st) \<Rightarrow>
          andThen (getAssocParams xe d (sstat_assoc_id st) (lockX x)) (\<lambda>(r, x).
          case r of
            None \<Rightarrow> andThen (coreDo unlock x) (optFail (- 1) v len)
          | Some (k, p) \<Rightarrow>
              andThen (getPrimaryAddressInfo xe d k (sstat_primary st) x) (\<lambda>(result, info, x).
              andThen (coreDo unlock x)
                (optDone result (OptStatus \<lparr>sstat_assoc_id = k, sstat_state = assoc_state p,
                   sstat_rwnd = currentReceiverWindowSize p,
                   sstat_unackdata = ucast (noOfChunksInRetransmissionQueue p),
                   sstat_penddata = ucast (noOfChunksInReceptionQueue p),
                   sstat_instrms = inStreams p, sstat_outstrms = outStreams p,
                   sstat_fragmentation_point = 0, sstat_primary = info\<rparr>))))
      | _ \<Rightarrow> Inl BadPointer)"

definition getRTOInfo ::
  "('l, 'o) xenv \<Rightarrow> SCTPDesc \<Rightarrow> optval option \<Rightarrow> nat \<Rightarrow> ('l, 'o) ext \<Rightarrow> ('l, 'o) optresult" where
  "getRTOInfo xe d v len x =
     (if v = None \<or> len < 16 then optFail (- EINVAL) v len x
      else case v of
        Some (OptRTOInfo i) \<Rightarrow>
          andThen (getAssocParams xe d (srto_assoc_id i) x) (\<lambda>(r, x).
          case r of
            None \<Rightarrow> optFail (- 1) v len x
          | Some (k, p) \<Rightarrow>
              optDone 0 (OptRTOInfo \<lparr>srto_assoc_id = k, srto_initial = rtoInitial p, srto_max = rtoMax p,
                srto_min = rtoMin p\<rparr>) x)
      | _ \<Rightarrow> Inl BadPointer)"

text \<open>The association a request without an ID is about.\<close>

definition orOwnID :: "SCTPDesc \<Rightarrow> card32 \<Rightarrow> ('l, 'o) ext \<Rightarrow> card32 result" where
  "orOwnID d k x =
     (case SCTPAssociationPtr d of
        Some a \<Rightarrow> if k = 0 then coreGet (Association_getID a) x else Inr k
      | None \<Rightarrow> Inr k)"

definition getDelayedAckTime ::
  "('l, 'o) xenv \<Rightarrow> SCTPDesc \<Rightarrow> optval option \<Rightarrow> nat \<Rightarrow> ('l, 'o) ext \<Rightarrow> ('l, 'o) optresult" where
  "getDelayedAckTime xe d v len x =
     (if v = None \<or> len < 12 then optFail (- EINVAL) v len x
      else case v of
        Some (OptSackInfo i) \<Rightarrow>
          andThen (orOwnID d (sack_assoc_id i) x) (\<lambda>k.
          if k \<noteq> 0 then
            andThen (getAssocParams xe d k x) (\<lambda>(r, x).
            case r of
              None \<Rightarrow> optFail (- 1) v len x
            | Some (_, p) \<Rightarrow> optDone 0 (OptSackInfo (i\<lparr>sack_delay := ackDelay p\<rparr>)) x)
          else
            (case SCTPSocketPtr d of
               None \<Rightarrow> optFail (- EINVAL) v len x
             | Some s \<Rightarrow>
                 andThen (core (getAssocDefaults (E xe) s) x) (\<lambda>(r, x).
                 case r of
                   None \<Rightarrow> optFail (- EINVAL) v len x
                 | Some p \<Rightarrow> optDone 0 (OptSackInfo (i\<lparr>sack_delay := i_ackDelay p\<rparr>)) x)))
      | _ \<Rightarrow> Inl BadPointer)"

definition getAssocInfo ::
  "('l, 'o) xenv \<Rightarrow> SCTPDesc \<Rightarrow> optval option \<Rightarrow> nat \<Rightarrow> ('l, 'o) ext \<Rightarrow> ('l, 'o) optresult" where
  "getAssocInfo xe d v len x =
     (if v = None \<or> len < 20 then optFail (- EINVAL) v len x
      else case v of
        Some (OptAssocParams i) \<Rightarrow>
          andThen (getAssocParams xe d (sasoc_assoc_id i) x) (\<lambda>(r, x).
          case r of
            None \<Rightarrow> optFail (- 1) v len x
          | Some (k, p) \<Rightarrow>
              optDone 0 (OptAssocParams \<lparr>sasoc_assoc_id = k, sasoc_asocmaxrxt = assocMaxRetransmits p,
                sasoc_number_peer_destinations = of_nat (numberOfDestinationPaths p), sasoc_peer_rwnd = 0,
                sasoc_local_rwnd = currentReceiverWindowSize p, sasoc_cookie_life = validCookieLife p\<rparr>) x)
      | _ \<Rightarrow> Inl BadPointer)"

definition getPeerAddressInfo ::
  "('l, 'o) xenv \<Rightarrow> SCTPDesc \<Rightarrow> optval option \<Rightarrow> nat \<Rightarrow> ('l, 'o) ext \<Rightarrow> ('l, 'o) optresult" where
  "getPeerAddressInfo xe d v len x =
     (if v = None \<or> len < 160 then optFail (- EINVAL) v len x
      else case v of
        Some (OptPeerAddrInfo i) \<Rightarrow>
          andThen (getPathStatus xe d (spinfo_assoc_id i) (spinfo_address i) x) (\<lambda>(result, p, x).
          if result \<noteq> 0 then optFail result v len x
          else
            optDone 0 (OptPeerAddrInfo (i\<lparr>spinfo_state := (if path_state p = 1 then SCTP_INACTIVE else SCTP_ACTIVE),
              spinfo_cwnd := cwnd p, spinfo_srtt := srtt p, spinfo_rto := rto p, spinfo_mtu := mtu p\<rparr>)) x)
      | _ \<Rightarrow> Inl BadPointer)"

definition configurePeerAddressParams ::
  "('l, 'o) xenv \<Rightarrow> SCTPDesc \<Rightarrow> optval option \<Rightarrow> nat \<Rightarrow> bool \<Rightarrow> ('l, 'o) ext \<Rightarrow> ('l, 'o) optresult" where
  "configurePeerAddressParams xe d v len readOnly x =
     (if v = None \<or> len < 160 then optFail (- EINVAL) v len x
      else case v of
        Some (OptPeerAddrParams i) \<Rightarrow>
          andThen (getPathStatus xe d (spp_assoc_id i) (spp_address i) (lockX x)) (\<lambda>(result, p, x).
          if result \<noteq> 0 then andThen (coreDo unlock x) (optFail result v len)
          else
            let hb = (if spp_hbinterval i = 0 then heartbeatIntervall p else spp_hbinterval i);
                i = i\<lparr>spp_hbinterval := hb, spp_pathmaxrxt := 0, spp_pathmtu := mtu p, spp_sackdelay := 0,
                      spp_flags := (if hb > 0 then SPP_HB_ENABLE else SPP_HB_DISABLE)\<rparr> in
            andThen (if readOnly then Inr (0, x)
                     else setPathStatus xe d (spp_assoc_id i) (spp_address i) (p\<lparr>heartbeatIntervall := hb\<rparr>) x)
              (\<lambda>(result, x).
            andThen (coreDo unlock x) (optDone result (OptPeerAddrParams i))))
      | _ \<Rightarrow> Inl BadPointer)"

text \<open>A buffer size: an integer of the association, an error when it is negative.\<close>

definition getBufferSize ::
  "(nat \<Rightarrow> 'l world \<Rightarrow> (int \<times> 'l world) result) \<Rightarrow> SCTPDesc \<Rightarrow> optval option \<Rightarrow> nat \<Rightarrow> ('l, 'o) ext \<Rightarrow> ('l, 'o) optresult" where
  "getBufferSize f d v len x =
     (if v = None \<or> len < 4 then optFail (- EINVAL) v len x
      else case SCTPAssociationPtr d of
        Some a \<Rightarrow> andThen (core (f a) x) (\<lambda>(n, x). optDone (if n \<ge> 0 then 0 else - EIO) (OptInt (word_of_int n)) x)
      | None \<Rightarrow> optFail (- EBADF) v len x)"

definition getsockopt_sctp ::
  "('l, 'o) xenv \<Rightarrow> SCTPDesc \<Rightarrow> int \<Rightarrow> optval option \<Rightarrow> nat \<Rightarrow> ('l, 'o) ext \<Rightarrow> ('l, 'o) optresult" where
  "getsockopt_sctp xe d optname v len x =
     (if optname = SCTP_PEER_ADDR_PARAMS then configurePeerAddressParams xe d v len True x
      else if optname = SCTP_STATUS then getAssocStatus xe d v len x
      else if optname = SCTP_INITMSG then
        if v = None \<or> len < 8 then optFail (- EINVAL) v len x else optDone 0 (OptInitMsg (InitMsg d)) x
      else if optname = SCTP_GET_PEER_ADDR_INFO then getPeerAddressInfo xe d v len x
      else if optname = SCTP_RTOINFO then getRTOInfo xe d v len x
      else if optname = SCTP_DELAYED_SACK then getDelayedAckTime xe d v len x
      else if optname = SCTP_NODELAY then optFail 0 v len x
      else if optname = SCTP_ASSOCINFO then getAssocInfo xe d v len x
      else if optname = SCTP_AUTOCLOSE then
        if v = None \<or> len < 4 then optFail (- EINVAL) v len x
        else (case SCTPSocketPtr d of
                Some s \<Rightarrow> andThen (coreGet (Socket_getAutoClose s) x) (\<lambda>t. optDone 0 (OptInt (ucast (t div 1000000))) x)
              | None \<Rightarrow> optFail (- EBADF) v len x)
      else optFail (- EOPNOTSUPP) v len x)"

definition getsockopt_ip :: "('l, 'o) xenv \<Rightarrow> SCTPDesc \<Rightarrow> int \<Rightarrow> ('l, 'o) ext \<Rightarrow> (int \<times> ('l, 'o) ext) result" where
  "getsockopt_ip xe d optname x =
     (if optname = IP_TOS then
        (case SCTPAssociationPtr d of
           Some a \<Rightarrow> andThen (core (Association_getTrafficClass (E xe) a) x) (\<lambda>(r, x). errno_return r x)
         | None \<Rightarrow> errno_return 0 x)
      else if optname = IP_RECVTOS then errno_return 0 x
      else errno_return (- EOPNOTSUPP) x)"

definition ext_getsockopt ::
  "('l, 'o) xenv \<Rightarrow> int \<Rightarrow> int \<Rightarrow> int \<Rightarrow> optval option \<Rightarrow> nat \<Rightarrow> ('l, 'o) ext \<Rightarrow> ('l, 'o) optresult" where
  "ext_getsockopt xe sockfd level optname v len x =
     (case getSocket sockfd of
        None \<Rightarrow> optFail (- EBADF) v len x
      | Some i \<Rightarrow>
          (case Table x i of
             ESDT_SCTP d \<Rightarrow>
               if level = SOL_IPV6 then
                 optFail (if optname \<in> {IPV6_FLOWINFO, IPV6_FLOWINFO_SEND} then 0 else - EOPNOTSUPP) v len x
               else if level = SOL_IP then andThen (getsockopt_ip xe d optname x) (\<lambda>(r, x). Inr (r, v, len, x))
               else if level = IPPROTO_SCTP then getsockopt_sctp xe d optname v len x
               else if level = SOL_SOCKET then
                 if optname = SO_SNDBUF then getBufferSize (Association_getSendBuffer (E xe)) d v len x
                 else if optname = SO_RCVBUF then getBufferSize (Association_getReceiveBuffer (E xe)) d v len x
                 else if optname = SO_LINGER then
                   if v = None \<or> len < 8 then optFail (- EINVAL) v len x else optDone 0 (OptLinger (Linger d)) x
                 else optFail (- EOPNOTSUPP) v len x
               else optFail (- EOPNOTSUPP) v len x
           | ESDT_System fd \<Rightarrow>
               (case system xe (Sys_getsockopt fd level optname v len) x of
                  (reply, x) \<Rightarrow> Inr (Ret reply, Opt reply, AddrLen reply, x))
           | ESDT_Invalid _ \<Rightarrow> optFail (- ENXIO) v len x))"

section \<open>Setting options\<close>

definition setDefaultSendParams ::
  "('l, 'o) xenv \<Rightarrow> SCTPDesc \<Rightarrow> optval option \<Rightarrow> nat \<Rightarrow> ('l, 'o) ext \<Rightarrow> (int \<times> ('l, 'o) ext) result" where
  "setDefaultSendParams xe d v len x =
     (if len \<noteq> 32 \<or> v = None then errno_return (- EINVAL) x
      else case v of
        Some (OptSendParams i) \<Rightarrow>
          let defaults = \<lparr>ProtoID = sinfo_ppid i, StreamID = sinfo_stream i, TimeToLive = sinfo_timetolive i\<rparr> in
          andThen
            (byKind d
               (\<lambda>a. andThen (coreDo (Association_setAssocIODefaults a defaults) x) (\<lambda>x. Inr (True, x)))
               (\<lambda>s. core (Socket_setAssocIODefaults s (sinfo_assoc_id i) defaults) x)
               (Inr (False, x))) (\<lambda>(ok, x).
          errno_return (if ok then 0 else - EINVAL) x)
      | _ \<Rightarrow> Inl BadPointer)"

definition setDefaultStreamTimeouts ::
  "('l, 'o) xenv \<Rightarrow> SCTPDesc \<Rightarrow> optval option \<Rightarrow> nat \<Rightarrow> ('l, 'o) ext \<Rightarrow> (int \<times> ('l, 'o) ext) result" where
  "setDefaultStreamTimeouts xe d v len x =
     (if len \<noteq> 12 \<or> v = None then errno_return (- EINVAL) x
      else case v of
        Some (OptStreamTimeout t) \<Rightarrow>
          byKind d
            (\<lambda>a. andThen (core (Association_setDefaultStreamTimeouts (E xe) a (ssto_timeout t)
                                (ssto_streamid_start t) (ssto_streamid_end t)) x) (\<lambda>(_, x). Inr (0, x)))
            (\<lambda>s. andThen (core (Socket_setDefaultStreamTimeouts (E xe) s (ssto_assoc_id t) (ssto_timeout t)
                                (ssto_streamid_start t) (ssto_streamid_end t)) x) (\<lambda>(ok, x).
                 if ok then Inr (0, x) else errno_return (- EINVAL) x))
            (errno_return (- EINVAL) x)
      | _ \<Rightarrow> Inl BadPointer)"

definition eventFlags :: "sctp_event_subscribe \<Rightarrow> card32" where
  "eventFlags ev =
     fold (\<lambda>(wanted, f) flags. if wanted \<noteq> 0 then set_flag flags f else flags)
       [(sctp_data_io_event ev, SCTP_RECVDATAIOEVNT), (sctp_association_event ev, SCTP_RECVASSOCEVNT),
        (sctp_address_event ev, SCTP_RECVPADDREVNT), (sctp_send_failure_event ev, SCTP_RECVSENDFAILEVNT),
        (sctp_peer_error_event ev, SCTP_RECVPEERERR), (sctp_shutdown_event ev, SCTP_RECVSHUTDOWNEVNT),
        (sctp_partial_delivery_event ev, 128), (sctp_adaptation_layer_event ev, 64)] 0"

text \<open>Without association and socket the error code is returned as it is.\<close>

definition setEvents ::
  "('l, 'o) xenv \<Rightarrow> SCTPDesc \<Rightarrow> optval option \<Rightarrow> nat \<Rightarrow> ('l, 'o) ext \<Rightarrow> (int \<times> ('l, 'o) ext) result" where
  "setEvents xe d v len x =
     (if len \<noteq> 8 \<or> v = None then errno_return (- EINVAL) x
      else case v of
        Some (OptEvents ev) \<Rightarrow>
          byKind d
            (\<lambda>a. andThen (coreDo (Association_setNotificationFlags a (eventFlags ev)) x) (errno_return 0))
            (\<lambda>s. andThen (coreDo (Socket_setNotificationFlags s (eventFlags ev)) x) (errno_return 0))
            (Inr (- EBADF, x))
      | _ \<Rightarrow> Inl BadPointer)"

text \<open>Reading the parameters, changing them and writing them back, under the lock.\<close>

definition changeAssocParams ::
  "('l, 'o) xenv \<Rightarrow> SCTPDesc \<Rightarrow> card32 \<Rightarrow> (assoc_status \<Rightarrow> assoc_status) \<Rightarrow> ('l, 'o) ext \<Rightarrow> (int \<times> ('l, 'o) ext) result" where
  "changeAssocParams xe d assocID f x =
     andThen (getAssocParams xe d assocID (lockX x)) (\<lambda>(r, x).
     andThen (case r of None \<Rightarrow> Inr (- 1, x) | Some (k, p) \<Rightarrow> setAssocParams xe d k (f p) x) (\<lambda>(result, x).
     andThen (coreDo unlock x) (errno_return result)))"

definition setRTOInfo ::
  "('l, 'o) xenv \<Rightarrow> SCTPDesc \<Rightarrow> optval option \<Rightarrow> nat \<Rightarrow> ('l, 'o) ext \<Rightarrow> (int \<times> ('l, 'o) ext) result" where
  "setRTOInfo xe d v len x =
     (if v = None \<or> len < 16 then errno_return (- EINVAL) x
      else case v of
        Some (OptRTOInfo i) \<Rightarrow>
          changeAssocParams xe d (srto_assoc_id i)
            (\<lambda>p. p\<lparr>rtoInitial := (if srto_initial i \<noteq> 0 then srto_initial i else rtoInitial p),
                   rtoMin := (if srto_min i \<noteq> 0 then srto_min i else rtoMin p),
                   rtoMax := (if srto_max i \<noteq> 0 then srto_max i else rtoMax p)\<rparr>) x
      | _ \<Rightarrow> Inl BadPointer)"

definition setDelayedAckTime ::
  "('l, 'o) xenv \<Rightarrow> SCTPDesc \<Rightarrow> optval option \<Rightarrow> nat \<Rightarrow> ('l, 'o) ext \<Rightarrow> (int \<times> ('l, 'o) ext) result" where
  "setDelayedAckTime xe d v len x =
     (if v = None \<or> len < 12 then errno_return (- EINVAL) x
      else case v of
        Some (OptSackInfo i) \<Rightarrow>
          andThen (orOwnID d (sack_assoc_id i) x) (\<lambda>k.
          if k \<noteq> 0 then
            andThen (getAssocParams xe d k x) (\<lambda>(r, x).
            andThen (case r of
                       None \<Rightarrow> Inr (- 1, x)
                     | Some (k, p) \<Rightarrow> setAssocParams xe d k (p\<lparr>ackDelay := sack_delay i\<rparr>) x) (\<lambda>(result, x).
            errno_return result x))
          else
            (case SCTPSocketPtr d of
               None \<Rightarrow> errno_return (- EINVAL) x
             | Some s \<Rightarrow>
                 andThen (core (getAssocDefaults (E xe) s) x) (\<lambda>(r, x).
                 case r of
                   None \<Rightarrow> errno_return (- EINVAL) x
                 | Some p \<Rightarrow>
                     andThen (core (setAssocDefaults (E xe) s (p\<lparr>i_ackDelay := sack_delay i\<rparr>)) x) (\<lambda>(ok, x).
                     errno_return (if ok then 0 else - EINVAL) x))))
      | _ \<Rightarrow> Inl BadPointer)"

definition setAssocInfo ::
  "('l, 'o) xenv \<Rightarrow> SCTPDesc \<Rightarrow> optval option \<Rightarrow> nat \<Rightarrow> ('l, 'o) ext \<Rightarrow> (int \<times> ('l, 'o) ext) result" where
  "setAssocInfo xe d v len x =
     (if v = None \<or> len < 20 then errno_return (- EINVAL) x
      else case v of
        Some (OptAssocParams i) \<Rightarrow>
          changeAssocParams xe d (sasoc_assoc_id i) (\<lambda>p. p\<lparr>assocMaxRetransmits := sasoc_asocmaxrxt i\<rparr>) x
      | _ \<Rightarrow> Inl BadPointer)"

text \<open>Both primary address options end in a call of \<^verbatim>\<open>setPrimary\<close>.\<close>

definition primaryAddr ::
  "('l, 'o) xenv \<Rightarrow> SCTPDesc \<Rightarrow> card32 \<Rightarrow> sockaddr \<Rightarrow> ('l, 'o) ext \<Rightarrow> (int \<times> ('l, 'o) ext) result" where
  "primaryAddr xe d assocID sa x =
     (case createSocketAddress_sockaddr (AE (E xe)) 0 sa of
        None \<Rightarrow> errno_return (- EINVAL) x
      | Some address \<Rightarrow>
          andThen
            (byKind d
               (\<lambda>a. andThen (core (Association_setPrimary (E xe) a address) x) (\<lambda>(ok, x). Inr (if ok then 0 else - EIO, x)))
               (\<lambda>s. andThen (core (setPrimary (E xe) assocID address) x) (\<lambda>(ok, x). Inr (if ok then 0 else - EIO, x)))
               (Inr (- EBADF, x))) (\<lambda>(r, x). errno_return r x))"

definition setPrimaryAddr ::
  "('l, 'o) xenv \<Rightarrow> SCTPDesc \<Rightarrow> optval option \<Rightarrow> nat \<Rightarrow> ('l, 'o) ext \<Rightarrow> (int \<times> ('l, 'o) ext) result" where
  "setPrimaryAddr xe d v len x =
     (if v = None \<or> len < 136 then errno_return (- EINVAL) x
      else case v of
        Some (OptSetPrim p) \<Rightarrow> primaryAddr xe d (ssp_assoc_id p) (ssp_addr p) x
      | _ \<Rightarrow> Inl BadPointer)"

definition setPeerPrimaryAddr ::
  "('l, 'o) xenv \<Rightarrow> SCTPDesc \<Rightarrow> optval option \<Rightarrow> nat \<Rightarrow> ('l, 'o) ext \<Rightarrow> (int \<times> ('l, 'o) ext) result" where
  "setPeerPrimaryAddr xe d v len x =
     (if v = None \<or> len < 136 then errno_return (- EINVAL) x
      else case v of
        Some (OptSetPeerPrim p) \<Rightarrow> primaryAddr xe d (sspp_assoc_id p) (sspp_addr p) x
      | _ \<Rightarrow> Inl BadPointer)"

definition setInitMsg ::
  "('l, 'o) xenv \<Rightarrow> nat \<Rightarrow> sctp_initmsg \<Rightarrow> ('l, 'o) ext \<Rightarrow> (bool \<times> ('l, 'o) ext) result" where
  "setInitMsg xe s m x =
     andThen (core (getAssocDefaults (E xe) s) (lockX x)) (\<lambda>(r, x).
     andThen (case r of
                None \<Rightarrow> Inr (False, x)
              | Some p \<Rightarrow> core (setAssocDefaults (E xe) s (p\<lparr>i_outStreams := sinit_num_ostreams m,
                                                           i_inStreams := sinit_max_instreams m\<rparr>)) x) (\<lambda>(ok, x).
     andThen (coreDo unlock x) (\<lambda>x. Inr (ok, x))))"

definition setsockopt_initmsg ::
  "('l, 'o) xenv \<Rightarrow> nat \<Rightarrow> SCTPDesc \<Rightarrow> optval option \<Rightarrow> nat \<Rightarrow> ('l, 'o) ext \<Rightarrow> (int \<times> ('l, 'o) ext) result" where
  "setsockopt_initmsg xe i d v len x =
     (if v = None \<or> len < 8 then errno_return (- EINVAL) x
      else case v of
        Some (OptInitMsg m) \<Rightarrow>
          let x = updD i (\<lambda>d. d\<lparr>InitMsg := m\<rparr>) x in
          andThen (case SCTPSocketPtr d of
                     None \<Rightarrow> Inr x
                   | Some s \<Rightarrow> andThen (setInitMsg xe s m x) (\<lambda>(_, x). Inr x)) (errno_return 0)
      | _ \<Rightarrow> Inl BadPointer)"

definition setsockopt_autoclose ::
  "('l, 'o) xenv \<Rightarrow> SCTPDesc \<Rightarrow> optval option \<Rightarrow> nat \<Rightarrow> ('l, 'o) ext \<Rightarrow> (int \<times> ('l, 'o) ext) result" where
  "setsockopt_autoclose xe d v len x =
     (if v = None \<or> len < 4 then errno_return (- EINVAL) x
      else case SCTPSocketPtr d of
        None \<Rightarrow> errno_return (- EBADF) x
      | Some s \<Rightarrow>
          (case v of
             Some (OptInt t) \<Rightarrow> andThen (coreDo (Socket_setAutoClose s (1000000 * ucast t)) x) (errno_return 0)
           | _ \<Rightarrow> Inl BadPointer))"

text \<open>An unknown option of the SCTP level leaves the inner switch and ends in \<^verbatim>\<open>ENXIO\<close>.\<close>

definition setsockopt_sctp ::
  "('l, 'o) xenv \<Rightarrow> nat \<Rightarrow> SCTPDesc \<Rightarrow> int \<Rightarrow> optval option \<Rightarrow> nat \<Rightarrow> ('l, 'o) ext
   \<Rightarrow> (int \<times> optval option \<times> ('l, 'o) ext) result" where
  "setsockopt_sctp xe i d optname v len x =
     (if optname = SCTP_PEER_ADDR_PARAMS then
        andThen (configurePeerAddressParams xe d v len False x) (\<lambda>(r, v, _, x). Inr (r, v, x))
      else
        andThen
          (if optname = SCTP_INITMSG then setsockopt_initmsg xe i d v len x
           else if optname = SCTP_PRIMARY_ADDR then setPrimaryAddr xe d v len x
           else if optname = SCTP_SET_PEER_PRIMARY_ADDR then setPeerPrimaryAddr xe d v len x
           else if optname = SCTP_RTOINFO then setRTOInfo xe d v len x
           else if optname = SCTP_DELAYED_SACK then setDelayedAckTime xe d v len x
           else if optname = SCTP_NODELAY then errno_return 0 x
           else if optname = SCTP_ASSOCINFO then setAssocInfo xe d v len x
           else if optname = SCTP_EVENTS then setEvents xe d v len x
           else if optname = SCTP_SET_DEFAULT_SEND_PARAM then setDefaultSendParams xe d v len x
           else if optname = SCTP_SET_STREAM_TIMEOUTS then setDefaultStreamTimeouts xe d v len x
           else if optname = SCTP_AUTOCLOSE then setsockopt_autoclose xe d v len x
           else errno_return (- ENXIO) x) (\<lambda>(r, x). Inr (r, v, x)))"

text \<open>An integer option that the association or the socket takes.\<close>

definition setInteger ::
  "(nat \<Rightarrow> card32 \<Rightarrow> 'l world \<Rightarrow> (bool \<times> 'l world) result) \<Rightarrow> (nat \<Rightarrow> card32 \<Rightarrow> 'l world \<Rightarrow> (bool \<times> 'l world) result)
   \<Rightarrow> int \<Rightarrow> SCTPDesc \<Rightarrow> optval option \<Rightarrow> nat \<Rightarrow> ('l, 'o) ext \<Rightarrow> (int \<times> ('l, 'o) ext) result" where
  "setInteger onAssociation onSocket otherwise d v len x =
     (if v = None \<or> len < 4 then errno_return (- EINVAL) x
      else case v of
        Some (OptInt n) \<Rightarrow>
          byKind d
            (\<lambda>a. andThen (core (onAssociation a n) x) (\<lambda>(ok, x). errno_return (if ok then 0 else - EIO) x))
            (\<lambda>s. andThen (core (onSocket s n) x) (\<lambda>(ok, x). errno_return (if ok then 0 else - EIO) x))
            (errno_return otherwise x)
      | _ \<Rightarrow> Inl BadPointer)"

definition setLinger :: "nat \<Rightarrow> optval option \<Rightarrow> nat \<Rightarrow> ('l, 'o) ext \<Rightarrow> (int \<times> ('l, 'o) ext) result" where
  "setLinger i v len x =
     (if v = None \<or> len < 8 then errno_return (- EINVAL) x
      else case v of
        Some (OptLinger l) \<Rightarrow>
          if l_linger l < 0 \<or> l_onoff l < 0 \<or> l_onoff l > 1 then errno_return (- EINVAL) x
          else errno_return 0 (updD i (\<lambda>d. d\<lparr>Linger := l\<rparr>) x)
      | _ \<Rightarrow> Inl BadPointer)"

definition ext_setsockopt ::
  "('l, 'o) xenv \<Rightarrow> int \<Rightarrow> int \<Rightarrow> int \<Rightarrow> optval option \<Rightarrow> nat \<Rightarrow> ('l, 'o) ext
   \<Rightarrow> (int \<times> optval option \<times> ('l, 'o) ext) result" where
  "ext_setsockopt xe sockfd level optname v len x =
     (let keep = (\<lambda>r. andThen r (\<lambda>(r, x). Inr (r, v, x))) in
      case getSocket sockfd of
        None \<Rightarrow> keep (errno_return (- EBADF) x)
      | Some i \<Rightarrow>
          (case Table x i of
             ESDT_SCTP d \<Rightarrow>
               if level = IPPROTO_SCTP then setsockopt_sctp xe i d optname v len x
               else keep
                 (if level = SOL_IPV6 then
                    errno_return (if optname \<in> {IPV6_FLOWINFO, IPV6_FLOWINFO_SEND} then 0 else - EOPNOTSUPP) x
                  else if level = SOL_IP then
                    if optname = IP_TOS then
                      setInteger (\<lambda>a n. Association_setTrafficClass a (ucast n))
                        (\<lambda>s n. Socket_setTrafficClass s (ucast n)) (- EOPNOTSUPP) d v len x
                    else if optname = IP_RECVTOS then errno_return 0 x
                    else errno_return (- EOPNOTSUPP) x
                  else if level = SOL_SOCKET then
                    if optname = SO_SNDBUF then
                      setInteger (\<lambda>a n. Association_setSendBuffer (E xe) a (unat n))
                        (\<lambda>s n. Socket_setSendBuffer (E xe) s (unat n)) (- EBADF) d v len x
                    else if optname = SO_RCVBUF then
                      setInteger (\<lambda>a n. Association_setReceiveBuffer (E xe) a (unat n))
                        (\<lambda>s n. Socket_setReceiveBuffer (E xe) s (unat n)) (- EBADF) d v len x
                    else if optname = SO_LINGER then setLinger i v len x
                    else errno_return (- EOPNOTSUPP) x
                  else errno_return (- EOPNOTSUPP) x)
           | ESDT_System fd \<Rightarrow>
               (case system xe (Sys_setsockopt fd level optname v len) x of
                  (reply, x) \<Rightarrow> Inr (Ret reply, (case Opt reply of Some w \<Rightarrow> Some w | None \<Rightarrow> v), x))
           | ESDT_Invalid _ \<Rightarrow> keep (errno_return (- ENXIO) x)))"

section \<open>\<^verbatim>\<open>sctp_opt_info\<close>\<close>

text \<open>The ID is written to the beginning of the structure, where every structure has it.\<close>

fun withAssocID :: "card32 \<Rightarrow> optval \<Rightarrow> optval result" where
  "withAssocID k (OptRTOInfo i) = Inr (OptRTOInfo (i\<lparr>srto_assoc_id := k\<rparr>))"
| "withAssocID k (OptAssocParams i) = Inr (OptAssocParams (i\<lparr>sasoc_assoc_id := k\<rparr>))"
| "withAssocID k (OptStatus i) = Inr (OptStatus (i\<lparr>sstat_assoc_id := k\<rparr>))"
| "withAssocID k (OptPeerAddrInfo i) = Inr (OptPeerAddrInfo (i\<lparr>spinfo_assoc_id := k\<rparr>))"
| "withAssocID k _ = Inl BadPointer"

definition sctp_opt_info ::
  "('l, 'o) xenv \<Rightarrow> int \<Rightarrow> card32 \<Rightarrow> int \<Rightarrow> optval option \<Rightarrow> nat \<Rightarrow> ('l, 'o) ext \<Rightarrow> ('l, 'o) optresult" where
  "sctp_opt_info xe sd assocID opt v len x =
     (if opt \<in> {SCTP_RTOINFO, SCTP_ASSOCINFO, SCTP_STATUS, SCTP_GET_PEER_ADDR_INFO} then
        andThen (ofOption v) (\<lambda>arg.
        andThen (withAssocID assocID arg) (\<lambda>arg.
        ext_getsockopt xe sd IPPROTO_SCTP opt (Some arg) len x))
      else if opt \<in> {SCTP_PRIMARY_ADDR, SCTP_SET_PEER_PRIMARY_ADDR, SCTP_SET_STREAM_TIMEOUTS, SCTP_PEER_ADDR_PARAMS} then
        andThen (ext_setsockopt xe sd IPPROTO_SCTP opt v len x) (\<lambda>(r, v, x). Inr (r, v, len, x))
      else optFail (- EOPNOTSUPP) v len x)"

end
