(* ===== verification/CppSockets.thy ===== *)
theory CppSockets
  imports Randomizers Messages ExtSending SocketOptions
begin

text \<open>
  The class \<^verbatim>\<open>Socket\<close> of \<^verbatim>\<open>cppsocketapi/tdsocket.cc\<close> and \<^verbatim>\<open>tdsocket.icc\<close> on top of the file descriptor
  layer: creating, binding, connecting and closing. A method takes the object and the state of the layer
  and returns its result with both. Reading memory that was never written is the fault \<open>BadPointer\<close>; memory
  itself never runs out.
\<close>

section \<open>The object\<close>

definition UndefinedSocketFamily :: int where "UndefinedSocketFamily = - 1"
definition FamilyIP :: int where "FamilyIP = 255"
definition UndefinedSocketType :: int where "UndefinedSocketType = - 1"
definition UndefinedSocketProtocol :: int where "UndefinedSocketProtocol = - 1"

definition MinAutoSelectPort :: card32 where "MinAutoSelectPort = 16384"
definition MaxAutoSelectPort :: card32 where "MaxAutoSelectPort = 61000"

lemmas port_defs = MinAutoSelectPort_def MaxAutoSelectPort_def

record CppSocket =
  SocketDescriptor :: int
  SocketFamily :: int
  SocketType :: int
  SocketProtocol :: int
  SendFlow :: card32
  ReceivedFlow :: card32
  LastError :: int
  Backlog :: card32
  Destination :: "sockaddr option"

type_synonym ('a, 'l, 'o) operation = "CppSocket \<Rightarrow> ('l, 'o) ext \<Rightarrow> ('a \<times> CppSocket \<times> ('l, 'o) ext) result"

definition Socket_init :: CppSocket where
  "Socket_init = \<lparr>SocketDescriptor = - 1, SocketFamily = UndefinedSocketFamily, SocketType = UndefinedSocketType,
     SocketProtocol = UndefinedSocketProtocol, SendFlow = 0, ReceivedFlow = 0, LastError = 0, Backlog = 0, Destination = None\<rparr>"

section \<open>Accessors\<close>

definition Cpp_getType :: "CppSocket \<Rightarrow> int" where "Cpp_getType s = SocketType s"
definition Cpp_getFamily :: "CppSocket \<Rightarrow> int" where "Cpp_getFamily s = SocketFamily s"
definition Cpp_getProtocol :: "CppSocket \<Rightarrow> int" where "Cpp_getProtocol s = SocketProtocol s"
definition ready :: "CppSocket \<Rightarrow> bool" where "ready s = (SocketDescriptor s \<ge> 0)"
definition getSystemSocketDescriptor :: "CppSocket \<Rightarrow> int" where "getSystemSocketDescriptor s = SocketDescriptor s"

definition getSendFlowLabel :: "CppSocket \<Rightarrow> card32" where
  "getSendFlowLabel s = SendFlow s AND IPV6_FLOWINFO_FLOWLABEL"

definition getSendTrafficClass :: "CppSocket \<Rightarrow> card8" where
  "getSendTrafficClass s = ucast (drop_bit 20 (SendFlow s AND IPV6_FLOWINFO_PRIORITY))"

definition getReceivedFlowLabel :: "CppSocket \<Rightarrow> card32" where
  "getReceivedFlowLabel s = ReceivedFlow s AND IPV6_FLOWINFO_FLOWLABEL"

definition getReceivedTrafficClass :: "CppSocket \<Rightarrow> card8" where
  "getReceivedTrafficClass s = ucast (drop_bit 20 (ReceivedFlow s AND IPV6_FLOWINFO_PRIORITY))"

definition getLastError :: "CppSocket \<Rightarrow> int \<times> CppSocket" where
  "getLastError s = (LastError s, s\<lparr>LastError := 0\<rparr>)"

section \<open>Control and options\<close>

text \<open>What most methods do with the result of a call: a nonzero one, or a negative one, stores \<^verbatim>\<open>errno\<close>.\<close>

definition note_nonzero :: "(int \<times> ('l, 'o) ext) result \<Rightarrow> CppSocket \<Rightarrow> (int \<times> CppSocket \<times> ('l, 'o) ext) result" where
  "note_nonzero r s = andThen r (\<lambda>(result, x). Inr (result, if result \<noteq> 0 then s\<lparr>LastError := errno x\<rparr> else s, x))"

definition note_negative :: "(int \<times> ('l, 'o) ext) result \<Rightarrow> CppSocket \<Rightarrow> (int \<times> CppSocket \<times> ('l, 'o) ext) result" where
  "note_negative r s =
     andThen r (\<lambda>(result, x).
     if result < 0 then Inr (- errno x, s\<lparr>LastError := errno x\<rparr>, x) else Inr (result, s, x))"

definition Cpp_fcntl :: "('l, 'o) xenv \<Rightarrow> int \<Rightarrow> card64 \<Rightarrow> (int, 'l, 'o) operation" where
  "Cpp_fcntl xe cmd arg s x = note_nonzero (ext_fcntl xe (SocketDescriptor s) cmd arg x) s"

text \<open>The variant for record locks passes the address of the lock.\<close>

definition Cpp_fcntl_lock :: "('l, 'o) xenv \<Rightarrow> int \<Rightarrow> card64 \<Rightarrow> (int, 'l, 'o) operation" where
  "Cpp_fcntl_lock xe cmd lockAddress s x = note_nonzero (ext_fcntl xe (SocketDescriptor s) cmd lockAddress x) s"

definition Cpp_ioctl :: "('l, 'o) xenv \<Rightarrow> int \<Rightarrow> (int, 'l, 'o) operation" where
  "Cpp_ioctl xe request s x = note_nonzero (ext_ioctl xe (SocketDescriptor s) request x) s"

text \<open>The value of the option after the call comes with the result.\<close>

definition getSocketOption :: "('l, 'o) xenv \<Rightarrow> int \<Rightarrow> int \<Rightarrow> optval \<Rightarrow> (int \<times> optval, 'l, 'o) operation" where
  "getSocketOption xe level optionNumber v s x =
     andThen (ext_getsockopt xe (SocketDescriptor s) level optionNumber (Some v) (sizeof_optval v) x) (\<lambda>(result, w, _, x).
     Inr ((result, case w of Some w \<Rightarrow> w | None \<Rightarrow> v), if result \<noteq> 0 then s\<lparr>LastError := errno x\<rparr> else s, x))"

definition setSocketOption :: "('l, 'o) xenv \<Rightarrow> int \<Rightarrow> int \<Rightarrow> optval \<Rightarrow> (int \<times> optval, 'l, 'o) operation" where
  "setSocketOption xe level optionNumber v s x =
     andThen (ext_setsockopt xe (SocketDescriptor s) level optionNumber (Some v) (sizeof_optval v) x) (\<lambda>(result, w, x).
     Inr ((result, case w of Some w \<Rightarrow> w | None \<Rightarrow> v), if result \<noteq> 0 then s\<lparr>LastError := errno x\<rparr> else s, x))"

definition setSucceeds :: "('l, 'o) xenv \<Rightarrow> int \<Rightarrow> int \<Rightarrow> optval \<Rightarrow> (bool, 'l, 'o) operation" where
  "setSucceeds xe level optionNumber v s x =
     andThen (setSocketOption xe level optionNumber v s x) (\<lambda>((r, _), s, x). Inr (r = 0, s, x))"

definition setTypeOfService :: "('l, 'o) xenv \<Rightarrow> card8 \<Rightarrow> (bool, 'l, 'o) operation" where
  "setTypeOfService xe trafficClass s x = setSucceeds xe SOL_IP IP_TOS (OptInt (ucast trafficClass)) s x"

section \<open>Creating and closing\<close>

definition Cpp_close :: "('l, 'o) xenv \<Rightarrow> 'l callback \<Rightarrow> CppSocket \<Rightarrow> ('l, 'o) ext \<Rightarrow> (CppSocket \<times> ('l, 'o) ext) result" where
  "Cpp_close xe cb s x =
     andThen (if SocketDescriptor s \<noteq> - 1
              then andThen (ext_close xe cb (SocketDescriptor s) x) (\<lambda>(_, x). Inr (s\<lparr>SocketDescriptor := - 1\<rparr>, x))
              else Inr (s, x)) (\<lambda>(s, x).
     Inr (s\<lparr>Destination := None\<rparr>, x))"

text \<open>An option whose result \<^verbatim>\<open>create\<close> ignores.\<close>

definition setQuietly :: "('l, 'o) xenv \<Rightarrow> int \<Rightarrow> int \<Rightarrow> int \<Rightarrow> card32 \<Rightarrow> ('l, 'o) ext \<Rightarrow> ('l, 'o) ext result" where
  "setQuietly xe fd level optionNumber n x =
     andThen (ext_setsockopt xe fd level optionNumber (Some (OptInt n)) 4 x) (\<lambda>(_, _, x). Inr x)"

definition IPV6_V6ONLY :: int where "IPV6_V6ONLY = 26"

definition create_options :: "('l, 'o) xenv \<Rightarrow> int \<Rightarrow> int \<Rightarrow> ('l, 'o) ext \<Rightarrow> ('l, 'o) ext result" where
  "create_options xe fd family x =
     andThen (setQuietly xe fd SOL_IPV6 IPV6_FLOWINFO 1 x) (\<lambda>x.
     andThen (setQuietly xe fd SOL_IPV6 IPV6_FLOWINFO_SEND 1 x) (\<lambda>x.
     andThen (setQuietly xe fd SOL_IP IP_RECVTOS 1 x) (\<lambda>x.
     if family = int AF_INET6 then setQuietly xe fd SOL_IPV6 IPV6_V6ONLY 0 x else Inr x)))"

definition Cpp_create :: "('l, 'o) xenv \<Rightarrow> 'l callback \<Rightarrow> int \<Rightarrow> int \<Rightarrow> int \<Rightarrow> (bool, 'l, 'o) operation" where
  "Cpp_create xe cb communicationDomain type protocol s x =
     andThen (Cpp_close xe cb s x) (\<lambda>(s, x).
     let family = (if communicationDomain = FamilyIP
                   then (if UseIPv6 (AE (E xe)) then int AF_INET6 else int AF_INET) else communicationDomain);
         s = s\<lparr>SocketFamily := family, SocketType := type, SocketProtocol := protocol\<rparr> in
     andThen (ext_socket xe cb (cardinal_of_int family) type protocol x) (\<lambda>(fd, x).
     let s = s\<lparr>SocketDescriptor := fd\<rparr> in
     if fd < 0 then Inr (False, s, x)
     else andThen (create_options xe fd family x) (\<lambda>x. Inr (True, s, x))))"

text \<open>The constructor for a family, and the destructor.\<close>

definition Socket_new ::
  "('l, 'o) xenv \<Rightarrow> 'l callback \<Rightarrow> int \<Rightarrow> int \<Rightarrow> int \<Rightarrow> ('l, 'o) ext \<Rightarrow> (CppSocket \<times> ('l, 'o) ext) result" where
  "Socket_new xe cb communicationDomain type protocol x =
     andThen (Cpp_create xe cb communicationDomain type protocol Socket_init x) (\<lambda>(_, s, x). Inr (s, x))"

definition Socket_delete :: "('l, 'o) xenv \<Rightarrow> 'l callback \<Rightarrow> CppSocket \<Rightarrow> ('l, 'o) ext \<Rightarrow> ('l, 'o) ext result" where
  "Socket_delete xe cb s x = andThen (Cpp_close xe cb s x) (\<lambda>(_, x). Inr x)"

definition Cpp_shutdown :: "('l, 'o) xenv \<Rightarrow> 'l callback \<Rightarrow> int \<Rightarrow> CppSocket \<Rightarrow> ('l, 'o) ext \<Rightarrow> ('l, 'o) ext result" where
  "Cpp_shutdown xe cb shutdownLevel s x =
     andThen (ext_shutdown xe cb (SocketDescriptor s) shutdownLevel x) (\<lambda>(_, x). Inr x)"

section \<open>Binding\<close>

definition MaxSockLen :: nat where "MaxSockLen = 128"

text \<open>Family and port of the structure \<^verbatim>\<open>sockaddr_in6\<close>, at the places where \<^verbatim>\<open>sockaddr_in\<close> has them.\<close>

definition isInternet :: "sockaddr \<Rightarrow> bool" where
  "isInternet sa = (sa_family sa = AF_INET6 \<or> sa_family sa = AF_INET)"

fun sa_port :: "sockaddr \<Rightarrow> card16" where
  "sa_port (SockaddrIn p _) = p"
| "sa_port (SockaddrIn6 p _ _ _) = p"
| "sa_port (SockaddrUn path) = 0"
| "sa_port (SockaddrOther _ b) = b"

fun withPort :: "card16 \<Rightarrow> sockaddr \<Rightarrow> sockaddr" where
  "withPort p (SockaddrIn _ a) = SockaddrIn p a"
| "withPort p (SockaddrIn6 _ fl a scope) = SockaddrIn6 p fl a scope"
| "withPort p sa = sa"

text \<open>
  The two loops that look for a port. An attempt gets a port in network byte order, the addresses and the
  state; it may change both. Every failure is noted; the protocol being unsupported ends the search.
\<close>

datatype outcome = Bound | Refused | Exhausted

type_synonym ('a, 'l, 'o) attempt = "card16 \<Rightarrow> 'a \<Rightarrow> ('l, 'o) ext \<Rightarrow> (int \<times> 'a \<times> ('l, 'o) ext) result"

fun random_ports ::
  "('a, 'l, 'o) attempt \<Rightarrow> nat \<Rightarrow> Randomizer \<Rightarrow> CppSocket \<Rightarrow> 'a \<Rightarrow> ('l, 'o) ext
   \<Rightarrow> (outcome \<times> CppSocket \<times> 'a \<times> ('l, 'o) ext) result" where
  "random_ports attempt 0 r s a x = Inr (Exhausted, s, a, x)"
| "random_ports attempt (Suc n) r s a x =
     (let (v, r) = Randomizers.random32 r; port = v mod (MaxAutoSelectPort - MinAutoSelectPort) in
      andThen (attempt (htons (ucast (port + MinAutoSelectPort))) a x) (\<lambda>(result, a, x).
      if result = 0 then Inr (Bound, s, a, x)
      else let s = s\<lparr>LastError := errno x\<rparr> in
           if LastError s = EPROTONOSUPPORT then Inr (Refused, s, a, x)
           else random_ports attempt n r s a x))"

fun even_ports ::
  "('a, 'l, 'o) attempt \<Rightarrow> nat list \<Rightarrow> CppSocket \<Rightarrow> 'a \<Rightarrow> ('l, 'o) ext
   \<Rightarrow> (outcome \<times> CppSocket \<times> 'a \<times> ('l, 'o) ext) result" where
  "even_ports attempt [] s a x = Inr (Exhausted, s, a, x)"
| "even_ports attempt (i # is) s a x =
     andThen (attempt (htons (of_nat i)) a x) (\<lambda>(result, a, x).
     if result = 0 then Inr (Bound, s, a, x)
     else let s = s\<lparr>LastError := errno x\<rparr> in
          if LastError s = EPROTONOSUPPORT then Inr (Refused, s, a, x)
          else even_ports attempt is s a x)"

definition RandomRounds :: nat where
  "RandomRounds = 4 * (61000 - 16384)"

text \<open>The ports of the second loop: every second one.\<close>

definition EvenPorts :: "nat list" where
  "EvenPorts = map (\<lambda>k. 16384 + 2 * k) [0..<22308]"

definition auto_bind ::
  "('a, 'l, 'o) attempt \<Rightarrow> ('a, 'l, 'o) attempt \<Rightarrow> CppSocket \<Rightarrow> 'a \<Rightarrow> ('l, 'o) ext \<Rightarrow> (bool \<times> CppSocket \<times> ('l, 'o) ext) result" where
  "auto_bind first second s a x =
     andThen (random_ports first RandomRounds (Randomizer_new (Now (Core x))) s a x) (\<lambda>(outcome, s, a, x).
     case outcome of
       Bound \<Rightarrow> Inr (True, s, x)
     | Refused \<Rightarrow> Inr (False, s, x)
     | Exhausted \<Rightarrow>
         andThen (even_ports second EvenPorts s a x) (\<lambda>(outcome, s, a, x). Inr (outcome = Bound, s, x)))"

definition bind_attempt :: "('l, 'o) xenv \<Rightarrow> 'l callback \<Rightarrow> int \<Rightarrow> nat \<Rightarrow> (sockaddr, 'l, 'o) attempt" where
  "bind_attempt xe cb fd len p sa x =
     andThen (ext_bind xe cb fd (withPort p sa) len x) (\<lambda>(r, x). Inr (r, withPort p sa, x))"

definition Cpp_bind :: "('l, 'o) xenv \<Rightarrow> 'l callback \<Rightarrow> AnyAddress \<Rightarrow> (bool, 'l, 'o) operation" where
  "Cpp_bind xe cb address s x =
     (case Any_getSystemAddress (UseIPv6 (AE (E xe))) address MaxSockLen (cardinal_of_int (SocketFamily s)) of
        (socketAddressLength, buffer) \<Rightarrow>
          if socketAddressLength = 0 then Inr (False, s\<lparr>LastError := ENAMETOOLONG\<rparr>, x)
          else
            andThen (ofOption buffer) (\<lambda>sa.
            if isInternet sa \<and> sa_port sa = 0 then
              let attempt = bind_attempt xe cb (SocketDescriptor s) socketAddressLength in auto_bind attempt attempt s sa x
            else
              andThen (ext_bind xe cb (SocketDescriptor s) sa socketAddressLength x) (\<lambda>(result, x).
              Inr (result = 0, if result < 0 then s\<lparr>LastError := errno x\<rparr> else s, x))))"

text \<open>Arrays of addresses: packing them kills the process when one has another family.\<close>

definition packSocketAddressArray :: "sockaddr list \<Rightarrow> sockaddr list result" where
  "packSocketAddressArray addrArray = (if \<forall>a \<in> set addrArray. isInternet a then Inr addrArray else Inl ProcessAbort)"

fun bindxAddresses :: "bool \<Rightarrow> AnyAddress list \<Rightarrow> sockaddr list option" where
  "bindxAddresses v6 [] = Some []"
| "bindxAddresses v6 (a # as) =
     (case Any_getSystemAddress v6 a sizeof_sockaddr_storage AF_UNSPEC of
        (n, sa) \<Rightarrow>
          if n = 0 then None
          else (case (sa, bindxAddresses v6 as) of (Some sa, Some sas) \<Rightarrow> Some (sa # sas) | _ \<Rightarrow> None))"

definition copyPort :: "sockaddr list \<Rightarrow> sockaddr list" where
  "copyPort l = (case l of [] \<Rightarrow> [] | a # as \<Rightarrow> a # map (\<lambda>b. if isInternet b then withPort (sa_port a) b else b) as)"

definition packed_bindx :: "('l, 'o) xenv \<Rightarrow> 'l callback \<Rightarrow> int \<Rightarrow> int \<Rightarrow> sockaddr list \<Rightarrow> ('l, 'o) ext \<Rightarrow> (int \<times> ('l, 'o) ext) result" where
  "packed_bindx xe cb fd flags l x =
     andThen (packSocketAddressArray l) (\<lambda>packed. sctp_bindx xe cb fd packed (int (length l)) flags x)"

text \<open>The first loop gives all addresses the new port before the call, the second one after it.\<close>

definition bindx_attempt :: "('l, 'o) xenv \<Rightarrow> 'l callback \<Rightarrow> int \<Rightarrow> int \<Rightarrow> (sockaddr list, 'l, 'o) attempt" where
  "bindx_attempt xe cb fd flags p l x =
     (let l = copyPort (withPort p (hd l) # tl l)
      in andThen (packed_bindx xe cb fd flags l x) (\<lambda>(r, x). Inr (r, l, x)))"

definition bindx_attempt2 :: "('l, 'o) xenv \<Rightarrow> 'l callback \<Rightarrow> int \<Rightarrow> int \<Rightarrow> (sockaddr list, 'l, 'o) attempt" where
  "bindx_attempt2 xe cb fd flags p l x =
     (let l = withPort p (hd l) # tl l
      in andThen (packed_bindx xe cb fd flags l x) (\<lambda>(r, x). Inr (r, copyPort l, x)))"

definition Cpp_bindx :: "('l, 'o) xenv \<Rightarrow> 'l callback \<Rightarrow> AnyAddress list \<Rightarrow> int \<Rightarrow> (bool, 'l, 'o) operation" where
  "Cpp_bindx xe cb addressArray flags s x =
     (if addressArray = [] then Cpp_bind xe cb (Plain (Internet (InternetAddress_default (RawInternet (AE (E xe)))))) s x
      else
        (case bindxAddresses (UseIPv6 (AE (E xe))) addressArray of
           None \<Rightarrow> Inr (False, s, x)
         | Some storage \<Rightarrow>
             if isInternet (hd storage) \<and> sa_port (hd storage) = 0 then
               auto_bind (bindx_attempt xe cb (SocketDescriptor s) flags) (bindx_attempt2 xe cb (SocketDescriptor s) flags) s storage x
             else
               andThen (packed_bindx xe cb (SocketDescriptor s) flags storage x) (\<lambda>(result, x).
               Inr (result = 0, if result < 0 then s\<lparr>LastError := errno x\<rparr> else s, x))))"

section \<open>Binding pairs\<close>

text \<open>Two sockets get adjacent ports. The second is bound only when the first one was.\<close>

definition bind_both ::
  "(bool, 'l, 'o) operation \<Rightarrow> (bool, 'l, 'o) operation \<Rightarrow> CppSocket \<Rightarrow> CppSocket \<Rightarrow> ('l, 'o) ext
   \<Rightarrow> (bool \<times> CppSocket \<times> CppSocket \<times> ('l, 'o) ext) result" where
  "bind_both bind1 bind2 s1 s2 x =
     andThen (bind1 s1 x) (\<lambda>(ok, s1, x).
     if ok then andThen (bind2 s2 x) (\<lambda>(ok, s2, x). Inr (ok, s1, s2, x)) else Inr (False, s1, s2, x))"

type_synonym ('l, 'o) pair_attempt =
  "card16 \<Rightarrow> CppSocket \<Rightarrow> CppSocket \<Rightarrow> ('l, 'o) ext \<Rightarrow> (bool \<times> CppSocket \<times> CppSocket \<times> ('l, 'o) ext) result"

text \<open>The random ports of pairs start at 0, not at the smallest port of the range.\<close>

fun pair_random ::
  "('l, 'o) pair_attempt \<Rightarrow> nat \<Rightarrow> Randomizer \<Rightarrow> CppSocket \<Rightarrow> CppSocket \<Rightarrow> ('l, 'o) ext
   \<Rightarrow> (outcome \<times> CppSocket \<times> CppSocket \<times> ('l, 'o) ext) result" where
  "pair_random both 0 r s1 s2 x = Inr (Exhausted, s1, s2, x)"
| "pair_random both (Suc n) r s1 s2 x =
     (let (v, r) = Randomizers.random32 r; port = v mod (MaxAutoSelectPort - MinAutoSelectPort - 1) in
      andThen (both (ucast port) s1 s2 x) (\<lambda>(ok, s1, s2, x).
      if ok then Inr (Bound, s1, s2, x)
      else if LastError s1 = EPROTONOSUPPORT then Inr (Refused, s1, s2, x)
      else pair_random both n r s1 s2 x))"

fun pair_even ::
  "('l, 'o) pair_attempt \<Rightarrow> nat list \<Rightarrow> CppSocket \<Rightarrow> CppSocket \<Rightarrow> ('l, 'o) ext
   \<Rightarrow> (bool \<times> CppSocket \<times> CppSocket \<times> ('l, 'o) ext) result" where
  "pair_even both [] s1 s2 x = Inr (False, s1, s2, x)"
| "pair_even both (i # is) s1 s2 x =
     andThen (both (of_nat i) s1 s2 x) (\<lambda>(ok, s1, s2, x).
     if ok then Inr (True, s1, s2, x) else pair_even both is s1 s2 x)"

definition auto_pair ::
  "('l, 'o) pair_attempt \<Rightarrow> CppSocket \<Rightarrow> CppSocket \<Rightarrow> ('l, 'o) ext \<Rightarrow> (bool \<times> CppSocket \<times> CppSocket \<times> ('l, 'o) ext) result" where
  "auto_pair both s1 s2 x =
     andThen (pair_random both RandomRounds (Randomizer_new (Now (Core x))) s1 s2 x) (\<lambda>(outcome, s1, s2, x).
     case outcome of
       Bound \<Rightarrow> Inr (True, s1, s2, x)
     | Refused \<Rightarrow> Inr (False, s1, s2, x)
     | Exhausted \<Rightarrow> pair_even both EvenPorts s1 s2 x)"

definition bindSocketPair ::
  "('l, 'o) xenv \<Rightarrow> 'l callback \<Rightarrow> AnyAddress \<Rightarrow> CppSocket \<Rightarrow> CppSocket \<Rightarrow> ('l, 'o) ext
   \<Rightarrow> (bool \<times> CppSocket \<times> CppSocket \<times> ('l, 'o) ext) result" where
  "bindSocketPair xe cb address s1 s2 x =
     (let ba = Any_duplicate (AE (E xe)) address in
      if Any_getPort ba \<noteq> 0 then
        bind_both (Cpp_bind xe cb ba) (Cpp_bind xe cb (Any_setPort ba (Any_getPort ba + 1))) s1 s2 x
      else
        auto_pair (\<lambda>port. bind_both (Cpp_bind xe cb (Any_setPort ba port)) (Cpp_bind xe cb (Any_setPort ba (port + 1)))) s1 s2 x)"

text \<open>Without addresses the array has one entry, but the number of addresses stays 0.\<close>

definition getAddressArray :: "addrenv \<Rightarrow> AnyAddress list \<Rightarrow> AnyAddress list" where
  "getAddressArray e addressArray =
     (if addressArray \<noteq> [] then map (Any_duplicate e) addressArray
      else [Plain (Internet (init_port (RawInternet e) 0))])"

definition setAddressArrayPort :: "nat \<Rightarrow> card16 \<Rightarrow> AnyAddress list \<Rightarrow> AnyAddress list" where
  "setAddressArrayPort addresses port l = map (\<lambda>a. Any_setPort a port) (take addresses l) @ drop addresses l"

definition bindxSocketPair ::
  "('l, 'o) xenv \<Rightarrow> 'l callback \<Rightarrow> AnyAddress list \<Rightarrow> int \<Rightarrow> CppSocket \<Rightarrow> CppSocket \<Rightarrow> ('l, 'o) ext
   \<Rightarrow> (bool \<times> CppSocket \<times> CppSocket \<times> ('l, 'o) ext) result" where
  "bindxSocketPair xe cb addressArray flags s1 s2 x =
     (let ba = getAddressArray (AE (E xe)) addressArray;
          addresses = length addressArray;
          bindAll = (\<lambda>l. Cpp_bindx xe cb (take addresses l) flags) in
      if Any_getPort (hd ba) \<noteq> 0 then
        bind_both (bindAll ba) (bindAll (setAddressArrayPort addresses (Any_getPort (hd ba) + 1) ba)) s1 s2 x
      else
        auto_pair (\<lambda>port. bind_both (bindAll (setAddressArrayPort addresses port ba))
                            (bindAll (setAddressArrayPort addresses (port + 1) ba))) s1 s2 x)"

section \<open>Listening, accepting and connecting\<close>

definition Cpp_listen :: "('l, 'o) xenv \<Rightarrow> 'l callback \<Rightarrow> card32 \<Rightarrow> (bool, 'l, 'o) operation" where
  "Cpp_listen xe cb backlog s x =
     andThen (ext_listen xe cb (SocketDescriptor s) (sint backlog) x) (\<lambda>(result, x).
     if result < 0 then Inr (False, s, x) else Inr (True, s\<lparr>Backlog := backlog\<rparr>, x))"

text \<open>The new socket comes with the address of the peer when the caller asks for it.\<close>

definition Cpp_accept ::
  "('l, 'o) xenv \<Rightarrow> 'l callback \<Rightarrow> bool \<Rightarrow> CppSocket \<Rightarrow> ('l, 'o) ext
   \<Rightarrow> ((CppSocket \<times> SocketAddress option) option \<times> ('l, 'o) ext) result" where
  "Cpp_accept xe cb wantAddress s x =
     andThen (ext_accept xe cb (SocketDescriptor s) (Some MaxSockLen) x) (\<lambda>(result, name, x).
     if result < 0 then Inr (None, x)
     else
       let accepted = Socket_init\<lparr>SocketDescriptor := result, SocketFamily := SocketFamily s, SocketType := SocketType s,
                                  SocketProtocol := SocketProtocol s\<rparr> in
       if wantAddress then
         (case name of
            Some (_, Some sa) \<Rightarrow> Inr (Some (accepted, createSocketAddress_sockaddr (AE (E xe)) 0 sa), x)
          | _ \<Rightarrow> Inl BadPointer)
       else Inr (Some (accepted, None), x))"

text \<open>
  The traffic class of a connection is set as type of service; if this fails the connection has none. The
  flow label and the traffic class go to the address of an IPv6 destination.
\<close>

definition connect_tos ::
  "('l, 'o) xenv \<Rightarrow> card8 \<Rightarrow> sockaddr \<Rightarrow> CppSocket \<Rightarrow> ('l, 'o) ext \<Rightarrow> (CppSocket \<times> ('l, 'o) ext) result" where
  "connect_tos xe trafficClass sa s x =
     (if trafficClass \<noteq> 0 \<and> isInternet sa then
        andThen (setTypeOfService xe trafficClass (s\<lparr>SendFlow := push_bit 20 (ucast trafficClass)\<rparr>) x) (\<lambda>(ok, s, x).
        Inr (if ok then s else s\<lparr>SendFlow := 0\<rparr>, x))
      else Inr (s\<lparr>SendFlow := 0\<rparr>, x))"

definition connect_label :: "sockaddr \<Rightarrow> CppSocket \<Rightarrow> sockaddr \<times> CppSocket" where
  "connect_label sa s =
     (case sa of
        SockaddrIn6 p fl a scope \<Rightarrow>
          let fl = htonl (ntohl fl OR SendFlow s) in (SockaddrIn6 p fl a scope, s\<lparr>SendFlow := ntohl fl\<rparr>)
      | _ \<Rightarrow> (sa, s))"

definition Cpp_connect :: "('l, 'o) xenv \<Rightarrow> 'l callback \<Rightarrow> AnyAddress \<Rightarrow> card8 \<Rightarrow> (bool, 'l, 'o) operation" where
  "Cpp_connect xe cb address trafficClass s x =
     (case Any_getSystemAddress (UseIPv6 (AE (E xe))) address MaxSockLen (cardinal_of_int (SocketFamily s)) of
        (socketAddressLength, buffer) \<Rightarrow>
          if socketAddressLength = 0 then Inr (False, s, x)
          else
            andThen (ofOption buffer) (\<lambda>sa.
            andThen (connect_tos xe trafficClass sa s x) (\<lambda>(s, x).
            let (sa, s) = connect_label sa s; s = s\<lparr>Destination := Some sa\<rparr> in
            andThen (ext_connect xe cb (SocketDescriptor s) sa socketAddressLength x) (\<lambda>(result, x).
            if result \<noteq> 0 then
              let s = s\<lparr>LastError := errno x\<rparr>
              in Inr (False, if LastError s \<noteq> EINPROGRESS then s\<lparr>SendFlow := 0\<rparr> else s, x)
            else Inr (True, s, x)))))"

definition Cpp_connectx :: "('l, 'o) xenv \<Rightarrow> 'l callback \<Rightarrow> AnyAddress list \<Rightarrow> (bool, 'l, 'o) operation" where
  "Cpp_connectx xe cb addressArray s x =
     (let storage = map (\<lambda>a. snd (Any_getSystemAddress (UseIPv6 (AE (E xe))) a sizeof_sockaddr_storage
                              (cardinal_of_int (SocketFamily s)))) addressArray;
          s = s\<lparr>Destination := None\<rparr> in
      if None \<in> set storage then Inl BadPointer
      else
        andThen (packSocketAddressArray (map the storage)) (\<lambda>packed.
        andThen (ext_connectx xe cb (SocketDescriptor s) packed (int (length addressArray)) x) (\<lambda>(result, _, x).
        if result \<noteq> 0 then
          let s = s\<lparr>LastError := errno x\<rparr>
          in Inr (False, if LastError s \<noteq> EINPROGRESS then s\<lparr>SendFlow := 0\<rparr> else s, x)
        else Inr (True, s, x))))"

end
