(* ===== verification/CppTransfer.thy ===== *)
theory CppTransfer
  imports CppSockets
begin

text \<open>
  The rest of the class \<^verbatim>\<open>Socket\<close>: receiving and sending with flow labels and traffic classes, the management of
  flow labels, names, options, multicast groups and the list of local addresses.
\<close>

section \<open>Receiving\<close>

text \<open>Numbers in control data, as a little-endian host reads them.\<close>

fun load_u32 :: "cdata \<Rightarrow> card32 result" where
  "load_u32 (COther (a # b # c # d # _)) =
     Inr (ucast a OR push_bit 8 (ucast b) OR push_bit 16 (ucast c) OR push_bit 24 (ucast d))"
| "load_u32 _ = Inl BadPointer"

fun load_u8 :: "cdata \<Rightarrow> card8 result" where
  "load_u8 (COther (a # _)) = Inr a"
| "load_u8 _ = Inl BadPointer"

text \<open>
  One control header of a received message. A flow label goes to the address of the message and to the socket;
  the type of service goes to the socket only.
\<close>

definition receive_header :: "cmsghdr \<Rightarrow> CppSocket \<times> msghdr \<Rightarrow> (CppSocket \<times> msghdr) result" where
  "receive_header c sm =
     (case sm of
        (s, msg) \<Rightarrow>
          if cmsg_level c = SOL_IPV6 then
            (case msg_name msg of
               Some (sa # rest) \<Rightarrow>
                 (case sa of
                    SockaddrIn6 p fl a scope \<Rightarrow>
                      if cmsg_type c = IPV6_FLOWINFO then
                        andThen (load_u32 (cmsg_data c)) (\<lambda>v.
                        Inr (s\<lparr>ReceivedFlow := ntohl v\<rparr>, msg\<lparr>msg_name := Some (SockaddrIn6 p v a scope # rest)\<rparr>))
                      else Inr (s, msg)
                  | _ \<Rightarrow> Inr (s, msg))
             | _ \<Rightarrow> Inl BadPointer)
          else if cmsg_level c = SOL_IP \<and> cmsg_type c = IP_TOS then
            andThen (load_u8 (cmsg_data c)) (\<lambda>v. Inr (s\<lparr>ReceivedFlow := push_bit 20 (ucast v)\<rparr>, msg))
          else Inr (s, msg))"

definition receiveMsg ::
  "('l, 'o) xenv \<Rightarrow> 'l callback \<Rightarrow> msghdr \<Rightarrow> card32 \<Rightarrow> bool \<Rightarrow> (int \<times> msghdr, 'l, 'o) operation" where
  "receiveMsg xe cb msg flags internalCall s x =
     andThen (ext_recvmsg2 xe cb (SocketDescriptor s) msg flags (\<not> internalCall) x) (\<lambda>(cc, msg, x).
     if cc < 0 then Inr ((- errno x, msg), s\<lparr>LastError := errno x\<rparr>, x)
     else
       andThen (forEach receive_header (case msg_control msg of Some cs \<Rightarrow> cs | None \<Rightarrow> []) (s\<lparr>ReceivedFlow := 0\<rparr>, msg))
         (\<lambda>(s, msg). Inr ((cc, msg), s, x)))"

text \<open>What \<^verbatim>\<open>recvFrom\<close> gives its caller: the bytes, the flags, the address and its length.\<close>

record received =
  RecvBytes :: "byte list"
  RecvFlags :: card32
  RecvFrom :: "sockaddr option"
  RecvFromLen :: nat

definition recvFrom :: "('l, 'o) xenv \<Rightarrow> 'l callback \<Rightarrow> nat \<Rightarrow> card32 \<Rightarrow> nat \<Rightarrow> (int \<times> received, 'l, 'o) operation" where
  "recvFrom xe cb len flags addrlen s x =
     andThen (receiveMsg xe cb
                \<lparr>msg_name = Some [], msg_namelen = addrlen, msg_iov = Some [oneBuffer [] len],
                 msg_control = Some [], msg_controllen = 1024, msg_flags = flags\<rparr> flags True s x) (\<lambda>((cc, msg), s, x).
     let bytes = (case msg_iov msg of Some (v # _) \<Rightarrow> iov_base v | _ \<Rightarrow> []);
         from = (case msg_name msg of Some (sa # _) \<Rightarrow> Some sa | _ \<Rightarrow> None) in
     if cc < 0 then Inr ((cc, \<lparr>RecvBytes = bytes, RecvFlags = flags, RecvFrom = from, RecvFromLen = addrlen\<rparr>), s, x)
     else Inr ((cc, \<lparr>RecvBytes = bytes, RecvFlags = msg_flags msg, RecvFrom = from, RecvFromLen = msg_namelen msg\<rparr>), s, x))"

definition Cpp_receiveFrom ::
  "('l, 'o) xenv \<Rightarrow> 'l callback \<Rightarrow> nat \<Rightarrow> AnyAddress \<Rightarrow> card32 \<Rightarrow> (int \<times> byte list \<times> AnyAddress \<times> card32, 'l, 'o) operation" where
  "Cpp_receiveFrom xe cb len sender flags s x =
     andThen (recvFrom xe cb len flags MaxSockLen s x) (\<lambda>((result, d), s, x).
     if result > 0 then
       andThen (ofOption (RecvFrom d)) (\<lambda>sa.
       Inr ((result, RecvBytes d, snd (Any_setSystemAddress sender sa), RecvFlags d), s, x))
     else Inr ((result, RecvBytes d, sender, RecvFlags d), s, x))"

definition Cpp_receive :: "('l, 'o) xenv \<Rightarrow> 'l callback \<Rightarrow> nat \<Rightarrow> card32 \<Rightarrow> (int \<times> byte list \<times> card32, 'l, 'o) operation" where
  "Cpp_receive xe cb len flags s x =
     andThen (recvFrom xe cb len flags MaxSockLen s x) (\<lambda>((result, d), s, x).
     if result < 0 then Inr ((- errno x, RecvBytes d, RecvFlags d), s\<lparr>LastError := errno x\<rparr>, x)
     else Inr ((result, RecvBytes d, RecvFlags d), s, x))"

definition Cpp_read :: "('l, 'o) xenv \<Rightarrow> 'l callback \<Rightarrow> nat \<Rightarrow> (int \<times> byte list, 'l, 'o) operation" where
  "Cpp_read xe cb len s x =
     andThen (ext_read xe cb (SocketDescriptor s) len x) (\<lambda>(result, bytes, _, _, x).
     if result < 0 then Inr ((- errno x, bytes), s\<lparr>LastError := errno x\<rparr>, x) else Inr ((result, bytes), s, x))"

section \<open>Sending\<close>

definition Cpp_write :: "('l, 'o) xenv \<Rightarrow> 'l callback \<Rightarrow> byte list \<Rightarrow> (int, 'l, 'o) operation" where
  "Cpp_write xe cb buf s x = note_negative (ext_write xe cb (SocketDescriptor s) buf x) s"

text \<open>
  How a traffic class is given to a packet: in the flow information of an IPv6 destination, by the type of service
  around the call for an IPv4 destination, and not at all for any other one.
\<close>

definition withTrafficClass :: "card8 \<Rightarrow> sockaddr \<Rightarrow> sockaddr" where
  "withTrafficClass trafficClass sa =
     (case sa of
        SockaddrIn6 p fl a scope \<Rightarrow>
          SockaddrIn6 p (htonl ((ntohl fl AND IPV6_FLOWINFO_FLOWLABEL) OR push_bit 20 (ucast trafficClass))) a scope
      | _ \<Rightarrow> sa)"

definition isNative6 :: "sockaddr \<Rightarrow> bool" where
  "isNative6 sa = (case sa of SockaddrIn6 p fl a scope \<Rightarrow> \<not> isV4Mapped a | _ \<Rightarrow> False)"

text \<open>
  A call between two changes of the type of service. The error code is read after the second change.
\<close>

definition with_tos ::
  "('l, 'o) xenv \<Rightarrow> card8 \<Rightarrow> (('l, 'o) ext \<Rightarrow> (int \<times> ('l, 'o) ext) result) \<Rightarrow> (int, 'l, 'o) operation" where
  "with_tos xe trafficClass call s x =
     andThen (setTypeOfService xe trafficClass s x) (\<lambda>(_, s, x).
     andThen (call x) (\<lambda>(result, x).
     andThen (setTypeOfService xe (ucast (drop_bit 20 (SendFlow s))) s x) (\<lambda>(_, s, x).
     if result < 0 then Inr (- errno x, s\<lparr>LastError := errno x\<rparr>, x) else Inr (result, s, x))))"

definition Cpp_send :: "('l, 'o) xenv \<Rightarrow> 'l callback \<Rightarrow> byte list \<Rightarrow> card32 \<Rightarrow> card8 \<Rightarrow> (int, 'l, 'o) operation" where
  "Cpp_send xe cb buf flags trafficClass s x =
     (let plainSend = ext_send xe cb (SocketDescriptor s) buf flags in
      case Destination s of
        Some sa \<Rightarrow>
          if trafficClass \<noteq> 0 \<and> isNative6 sa then
            note_negative (ext_sendto xe cb (SocketDescriptor s) buf flags (Some (withTrafficClass trafficClass sa)) sizeof_sockaddr_in6 x) s
          else if trafficClass \<noteq> 0 \<and> isInternet sa then with_tos xe trafficClass plainSend s x
          else note_negative (plainSend x) s
      | None \<Rightarrow> note_negative (plainSend x) s)"

definition Cpp_sendTo :: "('l, 'o) xenv \<Rightarrow> 'l callback \<Rightarrow> byte list \<Rightarrow> card32 \<Rightarrow> AnyAddress \<Rightarrow> card8 \<Rightarrow> (int, 'l, 'o) operation" where
  "Cpp_sendTo xe cb buf flags receiver trafficClass s x =
     (case Any_getSystemAddress (UseIPv6 (AE (E xe))) receiver MaxSockLen (cardinal_of_int (SocketFamily s)) of
        (socketAddressLength, buffer) \<Rightarrow>
          if socketAddressLength = 0 then Inr (- 1, s, x)
          else
            andThen (ofOption buffer) (\<lambda>sa.
            let plainSend = ext_sendto xe cb (SocketDescriptor s) buf flags (Some sa) socketAddressLength in
            if trafficClass \<noteq> 0 \<and> isNative6 sa then
              note_negative (ext_sendto xe cb (SocketDescriptor s) buf flags (Some (withTrafficClass trafficClass sa)) sizeof_sockaddr_in6 x) s
            else if trafficClass \<noteq> 0 \<and> isInternet sa then with_tos xe trafficClass plainSend s x
            else note_negative (plainSend x) s))"

definition sendMsg :: "('l, 'o) xenv \<Rightarrow> 'l callback \<Rightarrow> msghdr \<Rightarrow> card32 \<Rightarrow> card8 \<Rightarrow> (int, 'l, 'o) operation" where
  "sendMsg xe cb msg flags trafficClass s x =
     andThen (if trafficClass \<noteq> 0 then setTypeOfService xe trafficClass s x else Inr (True, s, x)) (\<lambda>(_, s, x).
     andThen (note_negative (andThen (ext_sendmsg xe cb (SocketDescriptor s) msg flags x) (\<lambda>(r, _, x). Inr (r, x))) s) (\<lambda>(result, s, x).
     andThen (if trafficClass \<noteq> 0 then setTypeOfService xe (ucast (drop_bit 20 (SendFlow s))) s x else Inr (True, s, x))
       (\<lambda>(_, s, x). Inr (result, s, x))))"

section \<open>Flow labels\<close>

definition IPV6_FLOWLABEL_MGR :: int where "IPV6_FLOWLABEL_MGR = 32"
definition IPV6_FL_A_GET :: card8 where "IPV6_FL_A_GET = 0"
definition IPV6_FL_A_PUT :: card8 where "IPV6_FL_A_PUT = 1"
definition IPV6_FL_A_RENEW :: card8 where "IPV6_FL_A_RENEW = 2"
definition IPV6_FL_F_CREATE :: card16 where "IPV6_FL_F_CREATE = 1"

definition allocFlow :: "('l, 'o) xenv \<Rightarrow> InternetAddress \<Rightarrow> card32 \<Rightarrow> card8 \<Rightarrow> (InternetFlow, 'l, 'o) operation" where
  "allocFlow xe address flowLabel shareLevel s x =
     (let e = AE (E xe); raw = RawInternet e in
      if \<not> UseIPv6 e \<or> \<not> isIPv6 address then Inr (InternetFlow_init raw address 0 0, s, x)
      else
        (case getSystemAddress (UseIPv6 e) address sizeof_sockaddr_in6 AF_INET6 of
           (len, sa) \<Rightarrow>
             if len = 0 then Inr (InternetFlow_init raw address 0 0, s, x)
             else
               andThen (ofOption sa) (\<lambda>sa.
               let request = \<lparr>flr_dst = sin6_addr sa, flr_label = htonl flowLabel, flr_action = IPV6_FL_A_GET, flr_share = shareLevel,
                              flr_flags = IPV6_FL_F_CREATE, flr_expires = 10, flr_linger = 6\<rparr> in
               andThen (setSocketOption xe SOL_IPV6 IPV6_FLOWLABEL_MGR (OptFlowLabel request) s x) (\<lambda>((result, v), s, x).
               if result \<noteq> 0 then Inr (InternetFlow_new raw, s, x)
               else (case v of
                       OptFlowLabel request \<Rightarrow> Inr (InternetFlow_init raw address (ntohl (flr_label request)) 0, s, x)
                     | _ \<Rightarrow> Inl BadPointer)))))"

definition flowRequest :: "card32 \<Rightarrow> card8 \<Rightarrow> card32 \<Rightarrow> card32 \<Rightarrow> optval" where
  "flowRequest label action expires linger =
     OptFlowLabel \<lparr>flr_dst = replicate 8 0, flr_label = label, flr_action = action, flr_share = 0, flr_flags = 0,
                   flr_expires = ucast expires, flr_linger = ucast linger\<rparr>"

definition freeFlow :: "('l, 'o) xenv \<Rightarrow> InternetFlow \<Rightarrow> CppSocket \<Rightarrow> ('l, 'o) ext \<Rightarrow> (CppSocket \<times> ('l, 'o) ext) result" where
  "freeFlow xe f s x =
     andThen (setSocketOption xe SOL_IPV6 IPV6_FLOWLABEL_MGR (flowRequest (htonl (getFlowLabel f)) IPV6_FL_A_PUT 0 0) s x)
       (\<lambda>(_, s, x). Inr (s, x))"

text \<open>Both functions look at the label of the socket before they renew anything.\<close>

definition renewFlow_of :: "('l, 'o) xenv \<Rightarrow> InternetFlow \<Rightarrow> card32 \<Rightarrow> card32 \<Rightarrow> (bool, 'l, 'o) operation" where
  "renewFlow_of xe f expires linger s x =
     (if \<not> UseIPv6 (AE (E xe)) \<or> SendFlow s AND IPV6_FLOWINFO_FLOWLABEL = 0 then Inr (True, s, x)
      else setSucceeds xe SOL_IPV6 IPV6_FLOWLABEL_MGR (flowRequest (htonl (getFlowLabel f)) IPV6_FL_A_RENEW expires linger) s x)"

definition renewFlow :: "('l, 'o) xenv \<Rightarrow> card32 \<Rightarrow> card32 \<Rightarrow> (bool, 'l, 'o) operation" where
  "renewFlow xe expires linger s x =
     (if \<not> UseIPv6 (AE (E xe)) \<or> SendFlow s AND IPV6_FLOWINFO_FLOWLABEL = 0 then Inr (True, s, x)
      else setSucceeds xe SOL_IPV6 IPV6_FLOWLABEL_MGR (flowRequest (htonl (SendFlow s)) IPV6_FL_A_RENEW expires linger) s x)"

section \<open>Names\<close>

definition nameOf :: "(int \<times> sockaddr option \<times> ('l, 'o) ext) result \<Rightarrow> AnyAddress \<Rightarrow> (bool \<times> AnyAddress \<times> ('l, 'o) ext) result" where
  "nameOf r address =
     andThen r (\<lambda>(result, sa, x).
     if result = 0 then andThen (ofOption sa) (\<lambda>sa. Inr (True, snd (Any_setSystemAddress address sa), x))
     else Inr (False, address, x))"

definition getSocketAddress :: "('l, 'o) xenv \<Rightarrow> AnyAddress \<Rightarrow> CppSocket \<Rightarrow> ('l, 'o) ext \<Rightarrow> (bool \<times> AnyAddress \<times> ('l, 'o) ext) result" where
  "getSocketAddress xe address s x = nameOf (ext_getsockname xe (SocketDescriptor s) (Some MaxSockLen) x) address"

definition getPeerAddress :: "('l, 'o) xenv \<Rightarrow> AnyAddress \<Rightarrow> CppSocket \<Rightarrow> ('l, 'o) ext \<Rightarrow> (bool \<times> AnyAddress \<times> ('l, 'o) ext) result" where
  "getPeerAddress xe address s x = nameOf (ext_getpeername xe (SocketDescriptor s) (Some MaxSockLen) x) address"

section \<open>Options\<close>

definition getBlockingMode :: "('l, 'o) xenv \<Rightarrow> (bool, 'l, 'o) operation" where
  "getBlockingMode xe s x =
     andThen (Cpp_fcntl xe F_GETFL 0 s x) (\<lambda>(result, s, x).
     Inr ((of_int result :: card64) AND ucast O_NONBLOCK = 0, s, x))"

definition setBlockingMode :: "('l, 'o) xenv \<Rightarrow> bool \<Rightarrow> (bool, 'l, 'o) operation" where
  "setBlockingMode xe on s x =
     andThen (Cpp_fcntl xe F_GETFL 0 s x) (\<lambda>(flags, s, x).
     if flags \<noteq> - 1 then
       let flags = (if on then of_int flags AND NOT (ucast O_NONBLOCK) else of_int flags OR ucast O_NONBLOCK) in
       andThen (Cpp_fcntl xe F_SETFL flags s x) (\<lambda>(r, s, x). Inr (r = 0, s, x))
     else Inr (False, s, x))"

definition getSoLinger :: "('l, 'o) xenv \<Rightarrow> (card32, 'l, 'o) operation" where
  "getSoLinger xe s x =
     andThen (getSocketOption xe SOL_SOCKET SO_LINGER (OptLinger \<lparr>l_onoff = 0, l_linger = 0\<rparr>) s x) (\<lambda>((result, v), s, x).
     if result \<noteq> 0 then Inr (0, s, x)
     else (case v of OptLinger l \<Rightarrow> Inr (of_int (l_linger l), s, x) | _ \<Rightarrow> Inl BadPointer))"

definition setSoLinger :: "('l, 'o) xenv \<Rightarrow> bool \<Rightarrow> card32 \<Rightarrow> (bool, 'l, 'o) operation" where
  "setSoLinger xe on lingerTime s x =
     setSucceeds xe SOL_SOCKET SO_LINGER (OptLinger \<lparr>l_onoff = (if on then 1 else 0), l_linger = sint lingerTime\<rparr>) s x"

text \<open>Options that are an integer: reading one ignores errors, and then gives the 0 the variable had.\<close>

definition getIntOption :: "('l, 'o) xenv \<Rightarrow> int \<Rightarrow> int \<Rightarrow> (card32, 'l, 'o) operation" where
  "getIntOption xe level optionNumber s x =
     andThen (getSocketOption xe level optionNumber (OptInt 0) s x) (\<lambda>((_, v), s, x).
     (case v of OptInt n \<Rightarrow> Inr (n, s, x) | _ \<Rightarrow> Inl BadPointer))"

definition getFlagOption :: "('l, 'o) xenv \<Rightarrow> int \<Rightarrow> int \<Rightarrow> (bool, 'l, 'o) operation" where
  "getFlagOption xe level optionNumber s x =
     andThen (getIntOption xe level optionNumber s x) (\<lambda>(n, s, x). Inr (n \<noteq> 0, s, x))"

definition setFlagOption :: "('l, 'o) xenv \<Rightarrow> int \<Rightarrow> int \<Rightarrow> bool \<Rightarrow> (bool, 'l, 'o) operation" where
  "setFlagOption xe level optionNumber on s x = setSucceeds xe level optionNumber (OptInt (if on then 1 else 0)) s x"

definition IPPROTO_TCP :: int where "IPPROTO_TCP = 6"
definition SO_REUSEADDR :: int where "SO_REUSEADDR = 2"
definition SO_BROADCAST :: int where "SO_BROADCAST = 6"
definition TCP_NODELAY :: int where "TCP_NODELAY = 1"

definition getSoReuseAddress :: "('l, 'o) xenv \<Rightarrow> (bool, 'l, 'o) operation" where
  "getSoReuseAddress xe s x = getFlagOption xe SOL_SOCKET SO_REUSEADDR s x"

definition setSoReuseAddress :: "('l, 'o) xenv \<Rightarrow> bool \<Rightarrow> (bool, 'l, 'o) operation" where
  "setSoReuseAddress xe on s x = setFlagOption xe SOL_SOCKET SO_REUSEADDR on s x"

definition getSoBroadcast :: "('l, 'o) xenv \<Rightarrow> (bool, 'l, 'o) operation" where
  "getSoBroadcast xe s x = getFlagOption xe SOL_SOCKET SO_BROADCAST s x"

definition setSoBroadcast :: "('l, 'o) xenv \<Rightarrow> bool \<Rightarrow> (bool, 'l, 'o) operation" where
  "setSoBroadcast xe on s x = setFlagOption xe SOL_SOCKET SO_BROADCAST on s x"

definition getTCPNoDelay :: "('l, 'o) xenv \<Rightarrow> (bool, 'l, 'o) operation" where
  "getTCPNoDelay xe s x = getFlagOption xe IPPROTO_TCP TCP_NODELAY s x"

definition setTCPNoDelay :: "('l, 'o) xenv \<Rightarrow> bool \<Rightarrow> (bool, 'l, 'o) operation" where
  "setTCPNoDelay xe on s x = setFlagOption xe IPPROTO_TCP TCP_NODELAY on s x"

section \<open>Multicast\<close>

definition IPPROTO_IP :: int where "IPPROTO_IP = 0"
definition IPPROTO_IPV6 :: int where "IPPROTO_IPV6 = 41"
definition IP_ADD_MEMBERSHIP :: int where "IP_ADD_MEMBERSHIP = 35"
definition IP_DROP_MEMBERSHIP :: int where "IP_DROP_MEMBERSHIP = 36"
definition IPV6_JOIN_GROUP :: int where "IPV6_JOIN_GROUP = 20"
definition IPV6_LEAVE_GROUP :: int where "IPV6_LEAVE_GROUP = 21"
definition IP_MULTICAST_TTL :: int where "IP_MULTICAST_TTL = 33"
definition IP_MULTICAST_LOOP :: int where "IP_MULTICAST_LOOP = 34"
definition IPV6_MULTICAST_HOPS :: int where "IPV6_MULTICAST_HOPS = 18"
definition IPV6_MULTICAST_LOOP :: int where "IPV6_MULTICAST_LOOP = 19"
definition SIOCGIFADDR :: int where "SIOCGIFADDR = 0x8915"

text \<open>The interfaces of the host: the address that \<^verbatim>\<open>SIOCGIFADDR\<close> writes, and the index of a name.\<close>

record interfaces =
  if_address :: "string \<Rightarrow> card16 list"
  if_nametoindex :: "string \<Rightarrow> card32"

text \<open>The result of the option call, where 0 is success, is returned as a truth value.\<close>

definition multicastMembership ::
  "('l, 'o) xenv \<Rightarrow> interfaces \<Rightarrow> AnyAddress \<Rightarrow> string option \<Rightarrow> bool \<Rightarrow> (bool, 'l, 'o) operation" where
  "multicastMembership xe ifs address interface add s x =
     (let v6 = UseIPv6 (AE (E xe));
          join = (\<lambda>level optionNumber v s x. andThen (setSocketOption xe level optionNumber v s x) (\<lambda>((r, _), s, x). Inr (r \<noteq> 0, s, x)))
      in if SocketFamily s = int AF_INET then
           (case Any_getSystemAddress v6 address sizeof_sockaddr_in AF_INET of
              (len, sa) \<Rightarrow>
                if len = 0 then Inr (False, s, x)
                else
                  andThen (ofOption sa) (\<lambda>sa.
                  let request = (\<lambda>i. OptMulticast \<lparr>imr_multiaddr = sin_addr sa, imr_interface = i\<rparr>);
                      optionNumber = (if add then IP_ADD_MEMBERSHIP else IP_DROP_MEMBERSHIP) in
                  case interface of
                    None \<Rightarrow> join IPPROTO_IP optionNumber (request [0, 0]) s x
                  | Some name \<Rightarrow>
                      if length name \<ge> 16 then Inl BadPointer
                      else andThen (Cpp_ioctl xe SIOCGIFADDR s x) (\<lambda>(r, s, x).
                           if r \<noteq> 0 then Inr (False, s, x)
                           else join IPPROTO_IP optionNumber (request (if_address ifs name)) s x)))
         else if SocketFamily s = int AF_INET6 then
           (case Any_getSystemAddress v6 address sizeof_sockaddr_in6 AF_INET6 of
              (len, sa) \<Rightarrow>
                if len = 0 then Inr (False, s, x)
                else
                  andThen (ofOption sa) (\<lambda>sa.
                  join IPPROTO_IPV6 (if add then IPV6_JOIN_GROUP else IPV6_LEAVE_GROUP)
                    (OptMulticast6 \<lparr>ipv6mr_multiaddr = sin6_addr sa,
                                    ipv6mr_interface = (case interface of Some name \<Rightarrow> if_nametoindex ifs name | None \<Rightarrow> 0)\<rparr>) s x))
         else Inr (False, s, x))"

definition addMulticastMembership ::
  "('l, 'o) xenv \<Rightarrow> interfaces \<Rightarrow> AnyAddress \<Rightarrow> string option \<Rightarrow> (bool, 'l, 'o) operation" where
  "addMulticastMembership xe ifs address interface s x =
     andThen (multicastMembership xe ifs address interface True s x) (\<lambda>(r, s, x). Inr (\<not> r, s, x))"

definition dropMulticastMembership ::
  "('l, 'o) xenv \<Rightarrow> interfaces \<Rightarrow> AnyAddress \<Rightarrow> string option \<Rightarrow> (bool, 'l, 'o) operation" where
  "dropMulticastMembership xe ifs address interface s x =
     andThen (multicastMembership xe ifs address interface False s x) (\<lambda>(r, s, x). Inr (\<not> r, s, x))"

text \<open>Options that are a byte for IPv4 and an integer for IPv6. A failed call gives 0.\<close>

definition getMulticastOption :: "('l, 'o) xenv \<Rightarrow> int \<Rightarrow> int \<Rightarrow> (card32, 'l, 'o) operation" where
  "getMulticastOption xe option4 option6 s x =
     (if SocketFamily s = int AF_INET then
        andThen (getSocketOption xe IPPROTO_IP option4 (OptByte 0) s x) (\<lambda>((r, v), s, x).
        if r = 0 then (case v of OptByte b \<Rightarrow> Inr (ucast b, s, x) | _ \<Rightarrow> Inl BadPointer) else Inr (0, s, x))
      else if SocketFamily s = int AF_INET6 then
        andThen (getSocketOption xe IPPROTO_IPV6 option6 (OptInt 0) s x) (\<lambda>((r, v), s, x).
        if r = 0 then (case v of OptInt n \<Rightarrow> Inr (n, s, x) | _ \<Rightarrow> Inl BadPointer) else Inr (0, s, x))
      else Inr (0, s, x))"

definition setMulticastOption :: "('l, 'o) xenv \<Rightarrow> int \<Rightarrow> int \<Rightarrow> card8 \<Rightarrow> (bool, 'l, 'o) operation" where
  "setMulticastOption xe option4 option6 v s x =
     (if SocketFamily s = int AF_INET then setSucceeds xe IPPROTO_IP option4 (OptByte v) s x
      else if SocketFamily s = int AF_INET6 then setSucceeds xe IPPROTO_IPV6 option6 (OptInt (ucast v)) s x
      else Inr (False, s, x))"

definition getMulticastLoop :: "('l, 'o) xenv \<Rightarrow> (bool, 'l, 'o) operation" where
  "getMulticastLoop xe s x =
     andThen (getMulticastOption xe IP_MULTICAST_LOOP IPV6_MULTICAST_LOOP s x) (\<lambda>(n, s, x). Inr (n \<noteq> 0, s, x))"

definition setMulticastLoop :: "('l, 'o) xenv \<Rightarrow> bool \<Rightarrow> (bool, 'l, 'o) operation" where
  "setMulticastLoop xe on s x = setMulticastOption xe IP_MULTICAST_LOOP IPV6_MULTICAST_LOOP (if on then 1 else 0) s x"

definition getMulticastTTL :: "('l, 'o) xenv \<Rightarrow> (card8, 'l, 'o) operation" where
  "getMulticastTTL xe s x =
     andThen (getMulticastOption xe IP_MULTICAST_TTL IPV6_MULTICAST_HOPS s x) (\<lambda>(n, s, x). Inr (ucast n, s, x))"

definition setMulticastTTL :: "('l, 'o) xenv \<Rightarrow> card8 \<Rightarrow> (bool, 'l, 'o) operation" where
  "setMulticastTTL xe ttl s x = setMulticastOption xe IP_MULTICAST_TTL IPV6_MULTICAST_HOPS ttl s x"

end
