(* ===== verification/LocalAddresses.thy ===== *)
theory LocalAddresses
  imports Flows
begin

text \<open>
  The list of local addresses, \<^verbatim>\<open>Socket::getLocalAddressList\<close> and its filter in \<^verbatim>\<open>cppsocketapi/tdsocket.cc\<close>,
  for Linux: IPv6 addresses come from \<^verbatim>\<open>/proc/net/if_inet6\<close>, the others from \<^verbatim>\<open>SIOCGIFCONF\<close>. What the
  system answers is a parameter.
\<close>

section \<open>The filter\<close>

definition GLAF_HideLoopback :: card32 where "GLAF_HideLoopback = 1"
definition GLAF_HideLinkLocal :: card32 where "GLAF_HideLinkLocal = 2"
definition GLAF_HideSiteLocal :: card32 where "GLAF_HideSiteLocal = 4"
definition GLAF_HideAnycast :: card32 where "GLAF_HideAnycast = 8"
definition GLAF_HideMulticast :: card32 where "GLAF_HideMulticast = 16"
definition GLAF_HideBroadcast :: card32 where "GLAF_HideBroadcast = 32"
definition GLAF_HideReserved :: card32 where "GLAF_HideReserved = 64"

definition GLAF_Default :: card32 where
  "GLAF_Default = GLAF_HideLoopback OR GLAF_HideLinkLocal OR GLAF_HideSiteLocal OR GLAF_HideBroadcast OR
     GLAF_HideMulticast OR GLAF_HideAnycast"

definition isReserved :: "InternetAddress \<Rightarrow> bool" where
  "isReserved a =
     (if isIPv6 a then False
      else ntohl (Host32_3 a) AND 0xf0000000 = 0xf0000000 \<or> ntohl (Host32_3 a) AND 0xe0000000 = 0xe0000000)"

definition filterInternetAddress :: "bool \<Rightarrow> InternetAddress \<Rightarrow> card32 \<Rightarrow> bool" where
  "filterInternetAddress useIPv6 a flags =
     (\<not> (\<not> useIPv6 \<and> isIPv6 a \<or>
         has_flag flags GLAF_HideLoopback \<and> isLoopback a \<or>
         has_flag flags GLAF_HideLinkLocal \<and> isLinkLocal a \<or>
         has_flag flags GLAF_HideSiteLocal \<and> isSiteLocal a \<or>
         has_flag flags GLAF_HideMulticast \<and> isMulticast a \<or>
         has_flag flags GLAF_HideBroadcast \<and> isBroadcast a \<or>
         has_flag flags GLAF_HideReserved \<and> isReserved a \<or>
         isUnspecified a))"

section \<open>The list\<close>

text \<open>
  The result of \<^verbatim>\<open>socket\<close>, the entries of \<^verbatim>\<open>SIOCGIFCONF\<close>, the flags \<^verbatim>\<open>SIOCGIFFLAGS\<close> gives for a name, the lines
  of the file when they are counted and when they are read, and \<^verbatim>\<open>inet_pton\<close>.
\<close>

record hostinfo =
  SocketResult :: int
  IfConf :: "(string \<times> sockaddr) list option"
  IfFlags :: "string \<Rightarrow> card32 option"
  CountedLines :: "string list option"
  ReadLines :: "string list option"
  inet_pton6 :: "string \<Rightarrow> card16 list option"

definition IFF_UP :: card32 where "IFF_UP = 1"
definition IFF_LOOPBACK :: card32 where "IFF_LOOPBACK = 8"

text \<open>The 32 digits of a line become eight groups of four; a shorter line is read behind its end.\<close>

definition group :: "string \<Rightarrow> nat \<Rightarrow> string" where
  "group line i = take 4 (drop (4 * i) line)"

definition proc_text :: "string \<Rightarrow> string result" where
  "proc_text line =
     (if length line < 32 then Inl BadPointer
      else Inr (group line 0 @ concat (map (\<lambda>i. CHR '':'' # group line i) [1..<8])))"

text \<open>Appending an address, for which an array of \<open>room + 1\<close> entries has space.\<close>

definition put :: "nat \<Rightarrow> InternetAddress \<Rightarrow> InternetAddress list \<Rightarrow> InternetAddress list result" where
  "put room a l = (if length l \<le> room then Inr (l @ [a]) else Inl BadPointer)"

definition read_line :: "addrenv \<Rightarrow> hostinfo \<Rightarrow> card32 \<Rightarrow> nat \<Rightarrow> string \<Rightarrow> InternetAddress list \<Rightarrow> InternetAddress list result" where
  "read_line e h flags room line l =
     andThen (proc_text line) (\<lambda>text.
     case inet_pton6 h text of
       None \<Rightarrow> Inr l
     | Some host \<Rightarrow>
         let newAddress = init_sockaddr (RawInternet e) (SockaddrIn6 0 0 host 0)
         in if filterInternetAddress (UseIPv6 e) newAddress flags then put room newAddress l else Inr l)"

definition text_of :: "addrenv \<Rightarrow> InternetAddress \<Rightarrow> String" where
  "text_of e a = getAddressString (Resolver e) (UseIPv6 e) a PF_Default"

text \<open>An address that is in the list already is removed again after it was added.\<close>

definition read_entry ::
  "addrenv \<Rightarrow> hostinfo \<Rightarrow> card32 \<Rightarrow> nat \<Rightarrow> string \<times> sockaddr \<Rightarrow> InternetAddress list \<Rightarrow> InternetAddress list result" where
  "read_entry e h flags room entry l =
     (case entry of
        (name, sa) \<Rightarrow>
          (case IfFlags h name of
             None \<Rightarrow> Inr l
           | Some ifflags \<Rightarrow>
               if \<not> has_flag ifflags IFF_UP then Inr l
               else if has_flag flags GLAF_HideLoopback \<and> has_flag ifflags IFF_LOOPBACK then Inr l
               else if sa_family sa = AF_INET \<or> sa_family sa = AF_INET6 then
                 let newAddress = init_sockaddr (RawInternet e) sa in
                 if \<not> filterInternetAddress (UseIPv6 e) newAddress flags then Inr l
                 else andThen (put room newAddress l) (\<lambda>l'.
                      Inr (if \<exists>a \<in> set l. String_eq (text_of e a) (text_of e newAddress) then l else l'))
               else Inr l))"

definition getLocalAddressList :: "addrenv \<Rightarrow> hostinfo \<Rightarrow> card32 \<Rightarrow> (bool \<times> InternetAddress list) result" where
  "getLocalAddressList e h flags =
     (if SocketResult h < 0 then Inr (False, [])
      else
        (case IfConf h of
           None \<Rightarrow> Inr (False, [])
         | Some entries \<Rightarrow>
             let addedNets = (if UseIPv6 e then case CountedLines h of Some ls \<Rightarrow> length ls | None \<Rightarrow> 0 else 0);
                 numAllocAddr = length entries + addedNets;
                 v6lines = (if UseIPv6 e then case ReadLines h of Some ls \<Rightarrow> ls | None \<Rightarrow> [] else []) in
             andThen (forEach (read_line e h flags numAllocAddr) v6lines []) (\<lambda>l.
             andThen (forEach (read_entry e h flags numAllocAddr) entries l) (\<lambda>l.
             if length l \<le> numAllocAddr then Inr (True, l) else Inl BadPointer))))"

section \<open>What the list holds\<close>

text \<open>The address an entry of the configuration contributes, and that of a line of the file.\<close>

definition usable :: "addrenv \<Rightarrow> hostinfo \<Rightarrow> card32 \<Rightarrow> string \<times> sockaddr \<Rightarrow> bool" where
  "usable e h flags entry =
     (\<exists>ifflags. IfFlags h (fst entry) = Some ifflags \<and> has_flag ifflags IFF_UP \<and>
        \<not> (has_flag flags GLAF_HideLoopback \<and> has_flag ifflags IFF_LOOPBACK) \<and>
        (sa_family (snd entry) = AF_INET \<or> sa_family (snd entry) = AF_INET6) \<and>
        filterInternetAddress (UseIPv6 e) (init_sockaddr (RawInternet e) (snd entry)) flags)"

definition line_addresses :: "addrenv \<Rightarrow> hostinfo \<Rightarrow> card32 \<Rightarrow> string list \<Rightarrow> InternetAddress list" where
  "line_addresses e h flags ls =
     filter (\<lambda>a. filterInternetAddress (UseIPv6 e) a flags)
       (map (\<lambda>host. init_sockaddr (RawInternet e) (SockaddrIn6 0 0 host 0))
          (List.map_filter (\<lambda>line. case proc_text line of Inr text \<Rightarrow> inet_pton6 h text | Inl _ \<Rightarrow> None) ls))"

lemma read_lines:
  assumes "\<forall>line \<in> set ls. 32 \<le> length line" "length l + length ls \<le> Suc room"
  shows "forEach (read_line e h flags room) ls l = Inr (l @ line_addresses e h flags ls)"
  using assms
proof (induction ls arbitrary: l)
  case Nil
  then show ?case by (simp add: line_addresses_def List.map_filter_simps)
next
  case (Cons line ls)
  obtain t where "proc_text line = Inr t" using Cons.prems(1) by (simp add: proc_text_def)
  with Cons show ?case
    by (cases "inet_pton6 h t") (auto simp: read_line_def line_addresses_def put_def List.map_filter_simps Let_def)
qed

lemma length_line_addresses: "length (line_addresses e h flags ls) \<le> length ls"
proof -
  have "length (List.map_filter f ls) \<le> length ls" for f :: "string \<Rightarrow> card16 list option"
    by (simp add: List.map_filter_def le_trans [OF _ length_filter_le])
  then show ?thesis unfolding line_addresses_def by (intro le_trans [OF length_filter_le]) simp
qed

text \<open>The entries of the configuration add addresses with new texts only.\<close>

definition fresh_texts :: "addrenv \<Rightarrow> InternetAddress list \<Rightarrow> InternetAddress list \<Rightarrow> bool" where
  "fresh_texts e l m =
     (\<forall>i < length m. \<forall>a \<in> set (l @ take i m). \<not> String_eq (text_of e a) (text_of e (m ! i)))"

lemma read_entry_step:
  assumes "length l \<le> room"
  shows "read_entry e h flags room entry l =
    Inr (if usable e h flags entry \<and> \<not> (\<exists>a \<in> set l. String_eq (text_of e a) (text_of e (init_sockaddr (RawInternet e) (snd entry))))
         then l @ [init_sockaddr (RawInternet e) (snd entry)] else l)"
  using assms
  by (cases "IfFlags h (fst entry)") (auto simp: read_entry_def usable_def put_def Let_def case_prod_unfold)

lemma fresh_texts_Cons:
  "fresh_texts e (l @ [a]) m \<Longrightarrow> \<not> (\<exists>b \<in> set l. String_eq (text_of e b) (text_of e a)) \<Longrightarrow> fresh_texts e l (a # m)"
  by (auto simp: fresh_texts_def nth_Cons take_Cons split: nat.splits)

lemma String_eq_refl: "String_eq s s"
  by (simp add: String_eq_def stringCompare_def strcmp_eq_0_iff split: option.split)

lemma read_entries:
  assumes "length l + length entries \<le> Suc room"
  obtains m where "forEach (read_entry e h flags room) entries l = Inr (l @ m)" "length m \<le> length entries"
    "\<forall>a \<in> set m. filterInternetAddress (UseIPv6 e) a flags" "fresh_texts e l m"
    "\<forall>entry \<in> set entries. usable e h flags entry \<longrightarrow>
       (\<exists>a \<in> set (l @ m). String_eq (text_of e a) (text_of e (init_sockaddr (RawInternet e) (snd entry))))"
  using assms
proof (induction entries arbitrary: l thesis)
  case Nil
  then show ?case by (simp add: fresh_texts_def)
next
  case (Cons entry entries)
  let ?a = "init_sockaddr (RawInternet e) (snd entry)"
  let ?new = "usable e h flags entry \<and> \<not> (\<exists>b \<in> set l. String_eq (text_of e b) (text_of e ?a))"
  let ?l = "if ?new then l @ [?a] else l"
  have step: "read_entry e h flags room entry l = Inr ?l" using Cons.prems(2) by (intro read_entry_step) simp
  have "length ?l + length entries \<le> Suc room" using Cons.prems(2) by simp
  then obtain m where m: "forEach (read_entry e h flags room) entries ?l = Inr (?l @ m)" "length m \<le> length entries"
    "\<forall>a \<in> set m. filterInternetAddress (UseIPv6 e) a flags" "fresh_texts e ?l m"
    "\<forall>entry \<in> set entries. usable e h flags entry \<longrightarrow>
       (\<exists>a \<in> set (?l @ m). String_eq (text_of e a) (text_of e (init_sockaddr (RawInternet e) (snd entry))))"
    using Cons.IH by blast
  show ?case
  proof (cases ?new)
    case True
    then have l: "?l = l @ [?a]" by (rule if_P)
    have "filterInternetAddress (UseIPv6 e) ?a flags" using True by (auto simp: usable_def)
    with True m [unfolded l] step [unfolded l] show ?thesis
      by (intro Cons.prems(1) [of "?a # m"]) (auto simp: String_eq_refl intro: fresh_texts_Cons)
  next
    case False
    then have l: "?l = l" by (rule if_not_P)
    from False m [unfolded l] step [unfolded l] show ?thesis by (intro Cons.prems(1) [of m]) auto
  qed
qed

text \<open>
  C37. The list of local addresses. If the file has not grown between the two readings, no write leaves the
  array. The list holds the addresses of the lines of the file that pass the filter, then addresses of the
  configuration; all pass the filter, no address of the configuration has the text of an earlier one, and for
  every active interface whose address passes the filter there is an address with its text.
\<close>

theorem local_addresses_complete:
  assumes "0 \<le> SocketResult h" "IfConf h = Some entries"
    "UseIPv6 e \<Longrightarrow> CountedLines h = Some counted \<and> ReadLines h = Some ls \<and> length ls \<le> length counted \<and> (\<forall>line \<in> set ls. 32 \<le> length line)"
  shows "\<exists>m. getLocalAddressList e h flags = Inr (True, (if UseIPv6 e then line_addresses e h flags ls else []) @ m) \<and>
    (\<forall>a \<in> set m. filterInternetAddress (UseIPv6 e) a flags) \<and>
    fresh_texts e (if UseIPv6 e then line_addresses e h flags ls else []) m \<and>
    (\<forall>entry \<in> set entries. usable e h flags entry \<longrightarrow>
       (\<exists>a \<in> set ((if UseIPv6 e then line_addresses e h flags ls else []) @ m).
          String_eq (text_of e a) (text_of e (init_sockaddr (RawInternet e) (snd entry)))))"
proof -
  let ?ls = "if UseIPv6 e then ls else []"
  let ?l = "if UseIPv6 e then line_addresses e h flags ls else []"
  let ?room = "length entries + (if UseIPv6 e then length counted else 0)"
  have l: "forEach (read_line e h flags ?room) ?ls [] = Inr ?l" "length ?l + length entries \<le> ?room"
    using assms(3) read_lines [of ls "[]" ?room e h flags] length_line_addresses [of e h flags ls] by auto
  then have "length ?l + length entries \<le> Suc ?room" by simp
  then obtain m where m: "forEach (read_entry e h flags ?room) entries ?l = Inr (?l @ m)" "length m \<le> length entries"
    "\<forall>a \<in> set m. filterInternetAddress (UseIPv6 e) a flags" "fresh_texts e ?l m"
    "\<forall>entry \<in> set entries. usable e h flags entry \<longrightarrow>
       (\<exists>a \<in> set (?l @ m). String_eq (text_of e a) (text_of e (init_sockaddr (RawInternet e) (snd entry))))"
    by (rule read_entries)
  have "getLocalAddressList e h flags = Inr (True, ?l @ m)"
    using assms l m(1,2) by (auto simp: getLocalAddressList_def Let_def)
  with m(3-5) show ?thesis by blast
qed

text \<open>A host with the loopback device, one network device that appears twice, and one IPv6 address.\<close>

definition sample_host :: hostinfo where
  "sample_host = \<lparr>SocketResult = 3,
     IfConf = Some [(''lo'', SockaddrIn 0 [htons 0x7f00, htons 1]), (''eth0'', SockaddrIn 0 [htons 0xc000, htons 5]),
                    (''eth0'', SockaddrIn 0 [htons 0xc000, htons 5])],
     IfFlags = (\<lambda>name. Some (if name = ''lo'' then 9 else 1)),
     CountedLines = Some [replicate 32 CHR ''2''], ReadLines = Some [replicate 32 CHR ''2''],
     inet_pton6 = (\<lambda>t. Some (replicate 8 (htons 0x2222)))\<rparr>"

theorem local_addresses_complete_witness:
  "\<exists>m. getLocalAddressList sample_env sample_host GLAF_Default =
      Inr (True, (if UseIPv6 sample_env then line_addresses sample_env sample_host GLAF_Default [replicate 32 CHR ''2''] else []) @ m)"
proof -
  have "0 \<le> SocketResult sample_host" "IfConf sample_host = Some (the (IfConf sample_host))"
    "CountedLines sample_host = Some [replicate 32 CHR ''2''] \<and> ReadLines sample_host = Some [replicate 32 CHR ''2''] \<and>
     length [replicate 32 CHR ''2''] \<le> length [replicate 32 CHR ''2''] \<and> (\<forall>line \<in> set [replicate 32 CHR ''2'']. 32 \<le> length line)"
    by (simp_all add: sample_host_def)
  from local_addresses_complete [OF this(1,2), of sample_env "[replicate 32 CHR ''2'']" "[replicate 32 CHR ''2'']"] this(3)
  show ?thesis by blast
qed

end
