(* ===== verification/Discipline.thy ===== *)
theory Discipline
  imports Contract Sockets
begin

text \<open>
  Every operation of associations, master and sockets keeps the contract. The operations take the
  callback function as a parameter; the locale states what they rely on, and its interpretation
  shows that the callbacks of the master provide it to any depth.
\<close>

section \<open>Operations without callbacks\<close>

lemma delayedDelete_good [simp]:
  "good w \<Longrightarrow> good (delayedDeleteAssociation i k w)" "lstate (delayedDeleteAssociation i k w) = lstate w"
  "good w \<Longrightarrow> good (delayedDeleteSocket i w)" "lstate (delayedDeleteSocket i w) = lstate w"
  by (auto simp: delayedDeleteAssociation_def delayedDeleteSocket_def good_def lock_inv_def wf_def
      mm_ordered_insert set_insert_sorted_def sorted_insort distinct_insort)

lemma wfS_lists [simp]:
  "wfS y \<Longrightarrow> wfS (y\<lparr>AssociationList := mm_insert k a (AssociationList y)\<rparr>)"
  "wfS y \<Longrightarrow> wfS (y\<lparr>AssociationList := mm_erase k (AssociationList y)\<rparr>)"
  "wfS y \<Longrightarrow> wfS (y\<lparr>ConnectionlessAssociationList := mm_insert k a (ConnectionlessAssociationList y)\<rparr>)"
  "wfS y \<Longrightarrow> wfS (y\<lparr>ConnectionlessAssociationList := mm_erase k (ConnectionlessAssociationList y)\<rparr>)"
  by (simp_all add: wfS_def mm_ordered_insert mm_ordered_erase)

lemma ranked_override:
  "ranked r s \<Longrightarrow> (\<And>c. s' c = s c \<or> ParentSet (s' c) = []) \<Longrightarrow> ranked r s'"
  unfolding ranked_def by (metis empty_iff list.set(1))

lemma good_new_assoc:
  assumes "good w" "wfA x" "NextPtr w \<le> n" "a < n"
  shows "good (w\<lparr>NextPtr := n, Assocs := (Assocs w)(a \<mapsto> x),
     Conds := (\<lambda>c. case c of AssocCond b k \<Rightarrow> if b = a then Condition_new else Conds w c | _ \<Rightarrow> Conds w c)\<rparr>)"
proof -
  have "ranked cond_rank (\<lambda>c. case c of AssocCond b k \<Rightarrow> if b = a then Condition_new else Conds w c | _ \<Rightarrow> Conds w c)"
    using assms(1)
    by - (rule ranked_override [of cond_rank "Conds w"],
      auto simp: good_def wf_def Condition_new_def split: cref.splits)
  moreover have "\<forall>p \<in> dom (Sockets w) \<union> dom (Assocs w). p < n"
    using assms(1,3) by (auto simp: good_def wf_def intro: less_le_trans)
  ultimately show ?thesis using assms by (simp add: good_def lock_inv_def wf_def)
qed

lemma wfA_new [simp]: "wfA (newAssociation e s k f t)"
  by (simp add: newAssociation_def wfA_def nq.new_ok)

lemma SCTPAssociation_new_contract [contract]:
  "good w \<Longrightarrow> (\<And>a w'. good w' \<Longrightarrow> lstate w' = lstate w \<Longrightarrow> P (a, w')) \<Longrightarrow>
   holds P (SCTPAssociation_new e s k f u w)"
  unfolding SCTPAssociation_new_def Let_def by (auto intro!: contract good_new_assoc)

lemma libDelete_contract:
  "libDelete e k w = (r, w') \<Longrightarrow> good w \<Longrightarrow> good w' \<and> lstate w' = lstate w"
  by (auto simp: libDelete_def split: prod.splits)

lemma getAssociationForAssociationID_contract [contract]:
  "good w \<Longrightarrow> (\<And>r w'. good w' \<Longrightarrow> lstate w' = lstate w \<Longrightarrow> P (r, w')) \<Longrightarrow>
   holds P (getAssociationForAssociationID s k active w)"
  unfolding getAssociationForAssociationID_def Let_def by (auto intro!: contract)

lemma getErrorCode_contract [contract]:
  "good w \<Longrightarrow> (\<And>r w'. good w' \<Longrightarrow> lstate w' = lstate w \<Longrightarrow> P (r, w')) \<Longrightarrow> holds P (getErrorCode s k w)"
  unfolding getErrorCode_def by (auto intro!: contract)

lemma Association_hasData_contract [contract]:
  "good w \<Longrightarrow> (\<And>r w'. good w' \<Longrightarrow> lstate w' = lstate w \<Longrightarrow> P (r, w')) \<Longrightarrow> holds P (Association_hasData a w)"
  unfolding Association_hasData_def Let_def by (auto intro!: contract simp: wfA_def)

lemma Socket_hasData_contract [contract]:
  "good w \<Longrightarrow> (\<And>r w'. good w' \<Longrightarrow> lstate w' = lstate w \<Longrightarrow> P (r, w')) \<Longrightarrow> holds P (Socket_hasData s w)"
  unfolding Socket_hasData_def Let_def by (auto intro!: contract simp: wfS_def)

lemma enqueueA_contract [contract]:
  "good w \<Longrightarrow> (\<And>w'. good w' \<Longrightarrow> lstate w' = lstate w \<Longrightarrow> P w') \<Longrightarrow> holds P (enqueueA a n w)"
  unfolding enqueueA_def by (auto intro!: contract simp: wfA_def)

lemma enqueueS_contract [contract]:
  "good w \<Longrightarrow> (\<And>w'. good w' \<Longrightarrow> lstate w' = lstate w \<Longrightarrow> P w') \<Longrightarrow> holds P (enqueueS s n w)"
  unfolding enqueueS_def by (auto intro!: contract simp: wfS_def)

lemma Master_addNotification_contract [contract]:
  "good w \<Longrightarrow> (\<And>w'. good w' \<Longrightarrow> lstate w' = lstate w \<Longrightarrow> P w') \<Longrightarrow>
   holds P (Master_addNotification s k n w)"
  unfolding Master_addNotification_def by (auto intro!: contract)

lemma Association_getDefaultStreamTimeout_contract [contract]:
  "good w \<Longrightarrow> (\<And>r w'. good w' \<Longrightarrow> lstate w' = lstate w \<Longrightarrow> P (r, w')) \<Longrightarrow>
   holds P (Association_getDefaultStreamTimeout a i w)"
  unfolding Association_getDefaultStreamTimeout_def Let_def by (auto intro!: contract)

lemma Association_setDefaultStreamTimeouts_contract [contract]:
  "good w \<Longrightarrow> (\<And>r w'. good w' \<Longrightarrow> lstate w' = lstate w \<Longrightarrow> P (r, w')) \<Longrightarrow>
   holds P (Association_setDefaultStreamTimeouts e a t i j w)"
  unfolding Association_setDefaultStreamTimeouts_def Let_def by (auto intro!: contract)

lemma Association_getAssocIODefaults_contract [contract]:
  "good w \<Longrightarrow> (\<And>r w'. good w' \<Longrightarrow> lstate w' = lstate w \<Longrightarrow> P (r, w')) \<Longrightarrow>
   holds P (Association_getAssocIODefaults a w)"
  unfolding Association_getAssocIODefaults_def Let_def by (auto intro!: contract)

lemma Association_setAssocIODefaults_contract [contract]:
  "good w \<Longrightarrow> (\<And>w'. good w' \<Longrightarrow> lstate w' = lstate w \<Longrightarrow> P w') \<Longrightarrow>
   holds P (Association_setAssocIODefaults a d w)"
  unfolding Association_setAssocIODefaults_def Let_def by (auto intro!: contract)

lemma Socket_getAssocStatus_contract [contract]:
  "good w \<Longrightarrow> (\<And>r w'. good w' \<Longrightarrow> lstate w' = lstate w \<Longrightarrow> P (r, w')) \<Longrightarrow>
   holds P (Socket_getAssocStatus e k w)"
  unfolding Socket_getAssocStatus_def Let_def by (auto intro!: contract)

lemma Socket_setAssocStatus_contract [contract]:
  "good w \<Longrightarrow> (\<And>r w'. good w' \<Longrightarrow> lstate w' = lstate w \<Longrightarrow> P (r, w')) \<Longrightarrow>
   holds P (Socket_setAssocStatus e k st w)"
  unfolding Socket_setAssocStatus_def Let_def by (auto intro!: contract)

lemma correctRTOMax_contract [contract]:
  "good w \<Longrightarrow> (\<And>w'. good w' \<Longrightarrow> lstate w' = lstate w \<Longrightarrow> P w') \<Longrightarrow> holds P (correctRTOMax e a k w)"
  unfolding correctRTOMax_def by (auto intro!: contract)

lemma setStatusField_contract [contract]:
  "good w \<Longrightarrow> (\<And>r w'. good w' \<Longrightarrow> lstate w' = lstate w \<Longrightarrow> P (r, w')) \<Longrightarrow> holds P (setStatusField e a f w)"
  unfolding setStatusField_def Let_def by (auto intro!: contract)

lemma getStatusField_contract [contract]:
  "good w \<Longrightarrow> (\<And>r w'. good w' \<Longrightarrow> lstate w' = lstate w \<Longrightarrow> P (r, w')) \<Longrightarrow> holds P (getStatusField e a f w)"
  unfolding getStatusField_def Let_def by (auto intro!: contract)

lemma holds_any: "(\<And>x. P x) \<Longrightarrow> holds P r"
  by (cases r) auto

lemmas pure_contract [contract] =
  holds_any [of _ "initNotification e k i w" for e k i w]
  holds_any [of _ "getPathIndexForAddress e k adr w" for e k adr w]
  holds_any [of _ "deleteAddressList arr" for arr]
  holds_any [of _ "acceptAddresses e b n" for e b n]
  holds_any [of _ "localAddresses_loop e port p is arr" for e port p "is" arr]
  holds_any [of _ "remoteAddresses_loop e k st is w as" for e k st "is" w as]
  holds_any [of _ "sendTo_lookup e s k ds w" for e s k ds w]
  holds_any [of _ "peelOff_find e d list w" for e d list w]
  holds_any [of _ "notification_assoc_id c" for c]
  holds_any [of _ "first_connectionless s w" for s w]

lemma Association_getRemoteAddresses_contract [contract]:
  "good w \<Longrightarrow> (\<And>r w'. good w' \<Longrightarrow> lstate w' = lstate w \<Longrightarrow> P (r, w')) \<Longrightarrow>
   holds P (Association_getRemoteAddresses e a w)"
  unfolding Association_getRemoteAddresses_def Let_def by (auto intro!: contract)

lemma Association_setAssocStatus_contract [contract]:
  "good w \<Longrightarrow> (\<And>r w'. good w' \<Longrightarrow> lstate w' = lstate w \<Longrightarrow> P (r, w')) \<Longrightarrow>
   holds P (Association_setAssocStatus e a st w)"
  unfolding Association_setAssocStatus_def by (auto intro!: contract)

lemma refreshCondition_contract [contract]:
  "good w \<Longrightarrow> (\<And>w'. good w' \<Longrightarrow> lstate w' = lstate w \<Longrightarrow> P w') \<Longrightarrow> holds P (refreshCondition c r w)"
  unfolding refreshCondition_def by (auto intro!: contract)

lemma good_unregister:
  "good w \<Longrightarrow> good (w\<lparr>ClosingSockets := remove1 i (ClosingSockets w)\<rparr>)"
  by (auto simp: good_def lock_inv_def wf_def sorted_remove1)

lemma unregister_step_contract:
  "good w \<Longrightarrow> holds (\<lambda>w'. good w' \<and> lstate w' = lstate w) (unregister_step e i w)"
  unfolding unregister_step_def Let_def by (auto intro!: contract simp: good_unregister)

section \<open>Operations with callbacks\<close>

locale callback_contract =
  fixes cb :: "'l callback"
  assumes cb_ok: "good w \<Longrightarrow> holds (\<lambda>w'. good w' \<and> lstate w' = lstate w) (cb ev w)"
begin

lemma events_contract [contract]:
  "good w \<Longrightarrow> (\<And>w'. good w' \<Longrightarrow> lstate w' = lstate w \<Longrightarrow> P w') \<Longrightarrow> holds P (forEach cb evs w)"
  by (rule forEach_contract) (auto intro: cb_ok)

lemma libShutdown_contract [contract]:
  "good w \<Longrightarrow> (\<And>w'. good w' \<Longrightarrow> lstate w' = lstate w \<Longrightarrow> P w') \<Longrightarrow> holds P (libShutdown e cb k w)"
  unfolding libShutdown_def by (auto intro!: contract)

lemma libAbort_contract [contract]:
  "good w \<Longrightarrow> (\<And>w'. good w' \<Longrightarrow> lstate w' = lstate w \<Longrightarrow> P w') \<Longrightarrow> holds P (libAbort e cb k w)"
  unfolding libAbort_def by (auto intro!: contract)

lemma shutdown_contract [contract]:
  "good w \<Longrightarrow> (\<And>w'. good w' \<Longrightarrow> lstate w' = lstate w \<Longrightarrow> P w') \<Longrightarrow> holds P (shutdown e cb a w)"
  unfolding shutdown_def Let_def by (auto intro!: contract)

lemma abort_contract [contract]:
  "good w \<Longrightarrow> (\<And>w'. good w' \<Longrightarrow> lstate w' = lstate w \<Longrightarrow> P w') \<Longrightarrow> holds P (abort e cb a w)"
  unfolding abort_def Let_def by (auto intro!: contract)

lemma delete_contract [contract]:
  "good w \<Longrightarrow> (\<And>w'. good w' \<Longrightarrow> lstate w' = lstate w \<Longrightarrow> P w') \<Longrightarrow> holds P (SCTPAssociation_delete e cb a w)"
  unfolding SCTPAssociation_delete_def Let_def
  by (auto intro!: contract dest!: libDelete_contract)

lemma masterRuns_contract [contract]:
  "good w \<Longrightarrow> (\<And>w'. good w' \<Longrightarrow> lstate w' = lstate w \<Longrightarrow> P w') \<Longrightarrow> holds P (masterRuns cb w)"
  unfolding masterRuns_def by (auto intro!: contract)

lemma worldTimedWait_contract [contract]:
  assumes "good w" "\<And>r w'. good w' \<Longrightarrow> lstate w' = lstate w \<Longrightarrow> P (r, w')"
  shows "holds P (worldTimedWait cb c w)"
proof -
  have "P (testFired c v)" if "good v" "lstate v = lstate w" for v
    using that assms(2) testFired_contract [of c v] by (cases "testFired c v") auto
  with assms(1) show ?thesis unfolding worldTimedWait_def by (auto intro!: contract)
qed

lemma waitLoop_contract:
  assumes "\<And>w. good w \<Longrightarrow> holds (\<lambda>w'. good w' \<and> lstate w' = lstate w) (body w)"
  shows "good w \<Longrightarrow> (\<And>w'. good w' \<Longrightarrow> lstate w' = lstate w \<Longrightarrow> P w') \<Longrightarrow> holds P (waitLoop cb c body n w)"
proof (induction n arbitrary: w)
  case (Suc n)
  have "holds (\<lambda>w'. holds P (waitLoop cb c body n w')) (body v)" if "good v" "lstate v = lstate w" for v
    using assms [OF that(1)] by (rule holds_mono) (use Suc that in auto)
  with Suc.prems show ?case by (auto intro!: contract)
qed simp

lemma send_loop_contract [contract]:
  "good w \<Longrightarrow> (\<And>r w'. good w' \<Longrightarrow> lstate w' = lstate w \<Longrightarrow> P (r, w')) \<Longrightarrow>
   holds P (send_loop e cb buf fl k st pid ttl wc dest n w)"
proof (induction n arbitrary: w wc dest)
  case (Suc n)
  show ?case
    unfolding send_loop.simps Let_def
    by (intro contract) (auto intro!: contract Suc.IH simp: Suc.prems)
qed simp

lemma internalSend_contract [contract]:
  "good w \<Longrightarrow> (\<And>r w'. good w' \<Longrightarrow> lstate w' = lstate w \<Longrightarrow> P (r, w')) \<Longrightarrow>
   holds P (internalSend e cb s buf fl k st pid ttl wc dest w)"
  unfolding internalSend_def by (auto intro!: contract)

lemma Association_sendTo_contract [contract]:
  "good w \<Longrightarrow> (\<And>r w'. good w' \<Longrightarrow> lstate w' = lstate w \<Longrightarrow> P (r, w')) \<Longrightarrow>
   holds P (Association_sendTo e cb a buf fl st pid ttl d dest w)"
  unfolding Association_sendTo_def Let_def by (auto intro!: contract)

lemma preEstablishment_loop_contract [contract]:
  "good w \<Longrightarrow> (\<And>r w'. good w' \<Longrightarrow> lstate w' = lstate w \<Longrightarrow> P (r, w')) \<Longrightarrow>
   holds P (preEstablishment_loop e cb a n w)"
proof (induction n arbitrary: w)
  case (Suc n)
  then show ?case by (auto intro!: contract)
qed simp

lemma sendPreEstablishmentPackets_contract [contract]:
  "good w \<Longrightarrow> (\<And>r w'. good w' \<Longrightarrow> lstate w' = lstate w \<Longrightarrow> P (r, w')) \<Longrightarrow>
   holds P (sendPreEstablishmentPackets e cb a w)"
  unfolding sendPreEstablishmentPackets_def by (auto intro!: contract)

lemma wfS_remove1 [simp]:
  "wfS y \<Longrightarrow> wfS (y\<lparr>ConnectionlessAssociationList := remove1 p (ConnectionlessAssociationList y)\<rparr>)"
  by (auto simp: wfS_def mm_ordered_def intro: sorted_map_remove1)

lemma autoClose_step_contract:
  "good w \<Longrightarrow> holds (\<lambda>w'. good w' \<and> lstate w' = lstate w) (autoClose_step e cb s t p w)"
  unfolding autoClose_step_def Let_def by (auto intro!: contract)

lemma autoClose_rounds_contract [contract]:
  "good w \<Longrightarrow> (\<And>w'. good w' \<Longrightarrow> lstate w' = lstate w \<Longrightarrow> P w') \<Longrightarrow> holds P (autoClose_rounds e cb s n w)"
proof (induction n arbitrary: w)
  case (Suc n)
  then show ?case by (auto intro!: contract forEach_contract autoClose_step_contract)
qed simp

lemma checkAutoClose_contract [contract]:
  "good w \<Longrightarrow> (\<And>w'. good w' \<Longrightarrow> lstate w' = lstate w \<Longrightarrow> P w') \<Longrightarrow> holds P (checkAutoClose e cb s w)"
  unfolding checkAutoClose_def by (auto intro!: contract)

lemma socketGarbageCollection_contract [contract]:
  "good w \<Longrightarrow> (\<And>w'. good w' \<Longrightarrow> lstate w' = lstate w \<Longrightarrow> P w') \<Longrightarrow> holds P (socketGarbageCollection e cb w)"
  unfolding socketGarbageCollection_def Let_def
  by (auto intro!: contract forEach_contract unregister_step_contract)

lemma good_erase:
  "good w \<Longrightarrow> good (w\<lparr>ClosingAssociations := mm_erase k (ClosingAssociations w)\<rparr>)"
  by (auto simp: good_def lock_inv_def wf_def mm_ordered_erase)

lemma associationGarbageCollection_contract [contract]:
  "good w \<Longrightarrow> (\<And>r w'. good w' \<Longrightarrow> lstate w' = lstate w \<Longrightarrow> P (r, w')) \<Longrightarrow>
   holds P (associationGarbageCollection e cb k b w)"
  unfolding associationGarbageCollection_def
  by (auto intro!: contract simp: good_erase dest!: libDelete_contract)

lemma callbacks_contract [contract]:
  assumes "good w" "\<And>w'. good w' \<Longrightarrow> lstate w' = lstate w \<Longrightarrow> P w'"
  shows "holds P (dataArriveNotif e k st len pid un w)"
    "holds P (sendFailureNotif e k w)"
    "holds P (networkStatusChangeNotif e k path state w)"
    "holds P (communicationErrorNotif e k w)"
    "holds P (restartNotif e k w)"
    "holds P (shutdownReceivedNotif e k w)"
    "holds P (queueStatusChangeNotif e cb k w)"
    "holds P (lost_notify e s a k w)"
    "holds P (complete_notify e s a k w)"
    "holds P (up_outgoing e cb a k w)"
    "holds P (up_reject e cb k w)"
  unfolding dataArriveNotif_def sendFailureNotif_def networkStatusChangeNotif_def communicationErrorNotif_def
    restartNotif_def shutdownReceivedNotif_def queueStatusChangeNotif_def lost_notify_def complete_notify_def
    up_outgoing_def up_reject_def Let_def
  using assms by (auto intro!: contract dest!: libDelete_contract)

lemma up_incoming_contract [contract]:
  "good w \<Longrightarrow> (\<And>r w'. good w' \<Longrightarrow> lstate w' = lstate w \<Longrightarrow> P (r, w')) \<Longrightarrow> holds P (up_incoming e s k n w)"
  unfolding up_incoming_def by (auto intro!: contract)

lemma communicationUpNotif_contract [contract]:
  "good w \<Longrightarrow> (\<And>w'. good w' \<Longrightarrow> lstate w' = lstate w \<Longrightarrow> P w') \<Longrightarrow>
   holds P (communicationUpNotif e cb k ni no w)"
  unfolding communicationUpNotif_def by (auto intro!: contract)

lemma communicationLostNotif_contract [contract]:
  "good w \<Longrightarrow> (\<And>w'. good w' \<Longrightarrow> lstate w' = lstate w \<Longrightarrow> P w') \<Longrightarrow>
   holds P (communicationLostNotif e cb k w)"
  unfolding communicationLostNotif_def by (auto intro!: contract)

lemma shutdownCompleteNotif_contract [contract]:
  "good w \<Longrightarrow> (\<And>w'. good w' \<Longrightarrow> lstate w' = lstate w \<Longrightarrow> P w') \<Longrightarrow>
   holds P (shutdownCompleteNotif e cb k w)"
  unfolding shutdownCompleteNotif_def by (auto intro!: contract)

lemma handle_contract: "good w \<Longrightarrow> holds (\<lambda>w'. good w' \<and> lstate w' = lstate w) (handle e cb ev w)"
  by (cases ev) (auto intro!: contract)

end

text \<open>The callbacks of the master keep the contract, however deep they nest.\<close>

lemma deliver_contract: "good w \<Longrightarrow> holds (\<lambda>w'. good w' \<and> lstate w' = lstate w) (deliver e n ev w)"
proof (induction n arbitrary: ev w)
  case (Suc n)
  then have "callback_contract (deliver e n)" by unfold_locales
  then show ?case using Suc.prems by (simp add: callback_contract.handle_contract)
qed simp

interpretation master: callback_contract "deliver e n" for e :: "'l env" and n
  by unfold_locales (rule deliver_contract)

section \<open>Socket operations\<close>

lemma SCTPSocket_new_contract:
  assumes "good w" "\<And>w'. good w' \<Longrightarrow> Sockets w (NextPtr w) = None \<Longrightarrow>
      lstate w' = addSocket (NextPtr w) (lstate w) \<Longrightarrow> P (NextPtr w, w')"
  shows "holds P (SCTPSocket_new fam fl w)"
proof -
  let ?v = "w\<lparr>NextPtr := Suc (NextPtr w), Sockets := (Sockets w)(NextPtr w \<mapsto> newSocket fam fl),
      Conds := (\<lambda>c. case c of SockCond t k \<Rightarrow> if t = NextPtr w then Condition_new else Conds w c | _ \<Rightarrow> Conds w c)\<rparr>"
  have "ranked cond_rank (\<lambda>c. case c of SockCond t k \<Rightarrow> if t = NextPtr w then Condition_new else Conds w c | _ \<Rightarrow> Conds w c)"
    using assms(1)
    by - (rule ranked_override [of cond_rank "Conds w"],
      auto simp: good_def wf_def Condition_new_def split: cref.splits)
  moreover have "wfS (newSocket fam fl)"
    by (simp add: newSocket_def wfS_def nq.new_ok mm_ordered_def)
  moreover have "\<forall>p \<in> dom (Sockets w) \<union> dom (Assocs w). p < Suc (NextPtr w)" "Sockets w (NextPtr w) = None"
    using assms(1) by (auto simp: good_def wf_def intro: less_SucI)
  ultimately have v: "good ?v" "lstate ?v = addSocket (NextPtr w) (lstate w)" "Sockets w (NextPtr w) = None"
    using assms(1) by (simp_all add: good_def lock_inv_def wf_def lstate_def addSocket_def)
  show ?thesis
    unfolding SCTPSocket_new_def Let_def
    by (intro contract) (simp_all add: v assms(2) del: lstate_updates)
qed

lemma wfS_tl [simp]:
  "wfS y \<Longrightarrow> ConnectionlessAssociationList y = p # r \<Longrightarrow> wfS (y\<lparr>ConnectionlessAssociationList := r\<rparr>)"
  "wfS y \<Longrightarrow> AssociationList y = p # r \<Longrightarrow> wfS (y\<lparr>AssociationList := r\<rparr>)"
  by (auto simp: wfS_def mm_ordered_def)

text \<open>An update of a list to a value computed before.\<close>

lemma updS_value_contract [contract]:
  "good w \<Longrightarrow> (\<And>y. wfS y \<Longrightarrow> wfS (y\<lparr>ConnectionlessAssociationList := r\<rparr>)) \<Longrightarrow>
   (\<And>w'. good w' \<Longrightarrow> lstate w' = lstate w \<Longrightarrow> P w') \<Longrightarrow>
   holds P (updS s (\<lambda>y. y\<lparr>ConnectionlessAssociationList := r\<rparr>) w)"
  "good w \<Longrightarrow> (\<And>y. wfS y \<Longrightarrow> wfS (y\<lparr>AssociationList := r\<rparr>)) \<Longrightarrow>
   (\<And>w'. good w' \<Longrightarrow> lstate w' = lstate w \<Longrightarrow> P w') \<Longrightarrow>
   holds P (updS s (\<lambda>y. y\<lparr>AssociationList := r\<rparr>) w)"
  by (auto intro!: contract)

lemma wfS_rest:
  "mm_ordered r \<Longrightarrow> wfS y \<Longrightarrow> wfS (y\<lparr>ConnectionlessAssociationList := r\<rparr>)"
  "mm_ordered r \<Longrightarrow> wfS y \<Longrightarrow> wfS (y\<lparr>AssociationList := r\<rparr>)"
  by (simp_all add: wfS_def)

lemma wfS_ordered_tl:
  "wfS y \<Longrightarrow> ConnectionlessAssociationList y = p # r \<Longrightarrow> mm_ordered r"
  "wfS y \<Longrightarrow> AssociationList y = p # r \<Longrightarrow> mm_ordered r"
  by (auto simp: wfS_def mm_ordered_def)

lemma accept_take_contract [contract]:
  "good w \<Longrightarrow> (\<And>r w'. good w' \<Longrightarrow> lstate w' = unlockL (lstate w) \<Longrightarrow> P (r, w')) \<Longrightarrow>
   holds P (accept_take e s b c w)"
  unfolding accept_take_def by (auto intro!: contract)

text \<open>Without listen mode a call of \<^verbatim>\<open>accept\<close> keeps the lock.\<close>

lemma accept_nonblocking_contract:
  "good w \<Longrightarrow>
   (\<And>y r w'. Sockets w s = Some y \<Longrightarrow> good w' \<Longrightarrow>
      lstate w' = (if flag_set (Flags y) SSF_Listening then lstate w else lockL (lstate w)) \<Longrightarrow> P (r, w')) \<Longrightarrow>
   holds P (accept_nonblocking e s b w)"
  unfolding accept_nonblocking_def Let_def by (auto intro!: contract)

text \<open>While a socket is in listen mode, taking requests keeps it there.\<close>

definition listening :: "nat \<Rightarrow> 'l world \<Rightarrow> bool" where
  "listening s w = (\<exists>y. Sockets w s = Some y \<and> flag_set (Flags y) SSF_Listening)"

lemma Socket_hasData_Sockets: "Socket_hasData s w = Inr (d, w') \<Longrightarrow> Sockets w' = Sockets w"
  by (auto simp: Socket_hasData_def Let_def unlockReturn_def andThen_eq_Inr dest!: unlock_fields(1))

lemma accept_take_listening:
  "accept_take e s b c w = Inr (r, w') \<Longrightarrow> listening s w' = listening s w"
  by (auto simp: accept_take_def unlockReturn_def andThen_eq_Inr updS_def getS_def ofOption_eq_Inr listening_def
      dest!: unlock_fields(1) Socket_hasData_Sockets)

lemma accept_listening_contract:
  assumes "good w" "listening s w"
    "\<And>r w'. good w' \<Longrightarrow> lstate w' = lstate w \<Longrightarrow> listening s w' \<Longrightarrow> P (r, w')"
  shows "holds P (accept_nonblocking e s b w)"
proof (cases "accept_nonblocking e s b w")
  case (Inr x)
  obtain r w' where x: "x = (r, w')" by (cases x)
  have "holds (\<lambda>(r, w'). good w' \<and> lstate w' = lstate w) (accept_nonblocking e s b w)"
    using assms(1,2) by (auto intro!: accept_nonblocking_contract simp: listening_def)
  moreover have "listening s w'"
    using Inr x assms(2) unfolding accept_nonblocking_def Let_def
    by (auto simp: listening_def andThen_eq_Inr getS_def ofOption_eq_Inr unlockReturn_def
        dest!: unlock_fields(1) accept_take_listening split: if_splits list.splits)
  ultimately show ?thesis using Inr x assms(3) by simp
qed simp

lemma updS_listening_contract:
  assumes "good w" "listening s w" "\<And>y. wfS y \<Longrightarrow> wfS (f y)" "\<And>y. Flags (f y) = Flags y"
    "\<And>w'. good w' \<Longrightarrow> lstate w' = lstate w \<Longrightarrow> listening s w' \<Longrightarrow> P w'"
  shows "holds P (updS s f w)"
proof (cases "updS s f w")
  case (Inr w')
  have "holds (\<lambda>w'. good w' \<and> lstate w' = lstate w) (updS s f w)"
    using assms(1,3) by (auto intro!: updS_contract)
  moreover have "listening s w'"
    using Inr assms(2,4) by (auto simp: updS_def getS_def andThen_eq_Inr ofOption_eq_Inr listening_def)
  ultimately show ?thesis using Inr assms(5) by simp
qed simp

lemma autoConnect_loop_contract:
  "good w \<Longrightarrow> listening s w \<Longrightarrow> (\<And>w'. good w' \<Longrightarrow> lstate w' = lstate w \<Longrightarrow> P w') \<Longrightarrow>
   holds P (autoConnect_loop e s n w)"
proof (induction n arbitrary: w)
  case (Suc n)
  show ?case
    unfolding autoConnect_loop.simps
    by (intro holds_andThen accept_listening_contract)
      (auto intro!: holds_andThen holds_option getA_contract updS_listening_contract Suc.IH simp: Suc.prems)
qed simp

lemma flag_set_set_flag: "flag_set (set_flag f SSF_Listening) SSF_Listening"
proof -
  have "bit (set_flag f SSF_Listening AND SSF_Listening) 31"
    by (simp add: set_flag_def SSF_Listening_def bit_simps)
  then show ?thesis by (auto simp: flag_set_def)
qed

lemma checkAutoConnect_contract [contract]:
  assumes "good w" "\<And>w'. good w' \<Longrightarrow> lstate w' = lstate w \<Longrightarrow> P w'"
  shows "holds P (checkAutoConnect e s w)"
proof -
  have l: "holds Q (updS s (\<lambda>y. y\<lparr>Flags := set_flag (Flags y) SSF_Listening\<rparr>) (lock w))"
    if "\<And>w'. good w' \<Longrightarrow> lstate w' = lockL (lstate w) \<Longrightarrow> listening s w' \<Longrightarrow> Q w'" for Q
  proof (cases "updS s (\<lambda>y. y\<lparr>Flags := set_flag (Flags y) SSF_Listening\<rparr>) (lock w)")
    case (Inr v)
    then have "listening s v"
      by (auto simp: updS_def getS_def andThen_eq_Inr ofOption_eq_Inr listening_def flag_set_set_flag)
    moreover have "holds (\<lambda>v. good v \<and> lstate v = lockL (lstate w))
        (updS s (\<lambda>y. y\<lparr>Flags := set_flag (Flags y) SSF_Listening\<rparr>) (lock w))"
      using assms(1) by (auto intro!: contract)
    ultimately show ?thesis using Inr that by simp
  qed simp
  show ?thesis
    unfolding checkAutoConnect_def
    by (auto intro!: holds_andThen getS_contract holds_if l autoConnect_loop_contract updS_contract unlock_contract
        simp: assms)
qed

context callback_contract
begin

lemma waitUntil_contract [contract]:
  "good w \<Longrightarrow> (\<And>w'. good w' \<Longrightarrow> lstate w' = lstate w \<Longrightarrow> P w') \<Longrightarrow>
   holds P (waitUntil cb c (checkAutoConnect e s) w)"
  unfolding waitUntil_def by (rule waitLoop_contract) (auto intro!: contract)

lemma accept_loop_contract:
  "good w \<Longrightarrow> good v \<Longrightarrow> lstate w = lockL (lstate v) \<Longrightarrow>
   (\<And>r w'. good w' \<Longrightarrow> lstate w' = lstate v \<Longrightarrow> P (r, w')) \<Longrightarrow> holds P (accept_loop e cb s b n w)"
proof (induction n arbitrary: w)
  case (Suc n)
  then show ?case by (auto intro!: contract)
qed simp

lemma accept_contract:
  assumes "good w"
    "\<And>y r w'. Sockets w s = Some y \<Longrightarrow> good w' \<Longrightarrow>
      lstate w' = (if flag_set (Flags y) SSF_Listening then lstate w else lockL (lstate w)) \<Longrightarrow> P (r, w')"
  shows "holds P (accept e cb s b wait w)"
proof (cases wait)
  case True
  then show ?thesis
    unfolding accept_def Let_def
    using assms by (auto intro!: contract accept_loop_contract [of "lock w" w])
next
  case False
  then show ?thesis unfolding accept_def using assms by (auto intro!: accept_nonblocking_contract)
qed

end

lemma getAssocDefaults_contract [contract]:
  "good w \<Longrightarrow> (\<And>r w'. good w' \<Longrightarrow> lstate w' = lstate w \<Longrightarrow> P (r, w')) \<Longrightarrow> holds P (getAssocDefaults e s w)"
  unfolding getAssocDefaults_def Let_def by (auto intro!: contract)

lemma setAssocDefaults_contract [contract]:
  "good w \<Longrightarrow> (\<And>r w'. good w' \<Longrightarrow> lstate w' = lstate w \<Longrightarrow> P (r, w')) \<Longrightarrow> holds P (setAssocDefaults e s p w)"
  unfolding setAssocDefaults_def Let_def by (auto intro!: contract)

lemma Socket_getLocalAddresses_contract [contract]:
  "good w \<Longrightarrow> (\<And>r w'. good w' \<Longrightarrow> lstate w' = lstate w \<Longrightarrow> P (r, w')) \<Longrightarrow>
   holds P (Socket_getLocalAddresses e s arr w)"
  unfolding Socket_getLocalAddresses_def by (auto intro!: contract)

lemma Socket_getRemoteAddresses_contract [contract]:
  "good w \<Longrightarrow> (\<And>r w'. good w' \<Longrightarrow> lstate w' = lstate w \<Longrightarrow> P (r, w')) \<Longrightarrow>
   holds P (Socket_getRemoteAddresses e s k arr w)"
  unfolding Socket_getRemoteAddresses_def Let_def by (auto intro!: contract)

lemma associate_parts_contract [contract]:
  assumes "good w" "\<And>r w'. good w' \<Longrightarrow> lstate w' = lstate w \<Longrightarrow> P (r, w')"
  shows "holds P (associate_parameters e s ma mt w)"
  unfolding associate_parameters_def using assms by (auto intro!: contract)

lemma associate_object_contract [contract]:
  "good w \<Longrightarrow> (\<And>r w'. good w' \<Longrightarrow> lstate w' = lstate w \<Longrightarrow> P (r, w')) \<Longrightarrow>
   holds P (associate_object e s k old mt dests w)"
  unfolding associate_object_def by (auto intro!: contract)

lemma putQ_contract [contract]:
  "good w \<Longrightarrow> queue_inv q \<Longrightarrow> (\<And>w'. good w' \<Longrightarrow> lstate w' = lstate w \<Longrightarrow> P w') \<Longrightarrow> holds P (putQ qr q w)"
  by (cases qr) (auto intro!: contract simp: wfS_def wfA_def)

lemma getQ_contract [contract]:
  "good w \<Longrightarrow> (\<And>q. queue_inv q \<Longrightarrow> P q) \<Longrightarrow> holds P (getQ qr w)"
  by (cases qr) (auto intro!: contract simp: wfS_def wfA_def)

lemma update_queue_contract [contract]:
  "good w \<Longrightarrow> (\<And>w'. good w' \<Longrightarrow> lstate w' = lstate w \<Longrightarrow> P w') \<Longrightarrow> holds P (update_queue qr n w)"
  unfolding update_queue_def by (auto intro!: contract)

lemma drop_queue_contract [contract]:
  "good w \<Longrightarrow> (\<And>w'. good w' \<Longrightarrow> lstate w' = lstate w \<Longrightarrow> P w') \<Longrightarrow> holds P (drop_queue qr w)"
  unfolding drop_queue_def by (auto intro!: contract)

lemma recv_notification_contract [contract]:
  "good w \<Longrightarrow> (\<And>r u io' w'. good w' \<Longrightarrow> lstate w' = lstate w \<Longrightarrow> P (r, u, io', w')) \<Longrightarrow>
   holds P (recv_notification e s qr f n io w)"
  unfolding recv_notification_def Let_def by (auto intro!: contract)

lemma recv_drop_contract [contract]:
  "good w \<Longrightarrow> (\<And>w'. good w' \<Longrightarrow> lstate w' = lstate w \<Longrightarrow> P w') \<Longrightarrow> holds P (recv_drop s qr k w)"
  unfolding recv_drop_def by (auto intro!: contract)

lemma sendTo_release_contract [contract]:
  "good w \<Longrightarrow> (\<And>w'. good w' \<Longrightarrow> lstate w' = lstate w \<Longrightarrow> P w') \<Longrightarrow> holds P (sendTo_release r w)"
  unfolding sendTo_release_def Let_def by (auto intro!: contract)

lemma register_contract [contract]:
  "good w \<Longrightarrow> (\<And>w'. good w' \<Longrightarrow> lstate w' = lstate w \<Longrightarrow> P w') \<Longrightarrow> holds P (register e s p n as w)"
  unfolding register_def by (auto intro!: contract)

lemma bind_random_contract [contract]:
  "good w \<Longrightarrow> (\<And>w'. good w' \<Longrightarrow> lstate w' = lstate w \<Longrightarrow> P w') \<Longrightarrow> holds P (bind_random e s n as k w)"
proof (induction k arbitrary: w)
  case (Suc k)
  then show ?case by (auto intro!: contract simp: Let_def)
qed simp

lemma startMaster_contract [contract]:
  "good w \<Longrightarrow> (\<And>r w'. good w' \<Longrightarrow> lstate w' = lstate w \<Longrightarrow> P (r, w')) \<Longrightarrow> holds P (startMaster w)"
  unfolding startMaster_def Let_def by (auto intro!: contract)

lemma good_SocketList:
  "good w \<Longrightarrow> good (w\<lparr>SocketList := mm_insert i s (SocketList w)\<rparr>)"
  "good w \<Longrightarrow> good (w\<lparr>SocketList := mm_erase i (SocketList w)\<rparr>)"
  by (auto simp: good_def lock_inv_def wf_def mm_ordered_insert mm_ordered_erase)

lemma unbind_list_contract [contract]:
  "good w \<Longrightarrow> (\<And>w'. good w' \<Longrightarrow> lstate w' = lstate w \<Longrightarrow> P w') \<Longrightarrow> holds P (unbind_list s w)"
  unfolding unbind_list_def by (auto intro!: contract simp: good_SocketList)

lemma unbind_finish_contract [contract]:
  "good w \<Longrightarrow> (\<And>w'. good w' \<Longrightarrow> lstate w' = lstate w \<Longrightarrow> P w') \<Longrightarrow> holds P (unbind_finish s w)"
  unfolding unbind_finish_def by (auto intro!: contract simp: wfS_def)

lemma parameters_contract [contract]:
  assumes "good w" "\<And>r w'. good w' \<Longrightarrow> lstate w' = lstate w \<Longrightarrow> P (r, w')"
  shows "holds P (setPathParameters e k adr p w)" "holds P (setPrimary e k d w)"
    "holds P (setPeerPrimary e k d w)" "holds P (changeAddress_id s w)"
  unfolding setPathParameters_def setPrimary_def setPeerPrimary_def changeAddress_id_def Let_def
  using assms by (auto intro!: contract)

lemma peelOff_contract [contract]:
  "good w \<Longrightarrow> (\<And>r w'. good w' \<Longrightarrow> lstate w' = lstate w \<Longrightarrow> P (r, w')) \<Longrightarrow> holds P (peelOff s k w)"
  unfolding peelOff_def Let_def by (auto intro!: contract)

lemma on_first_contract:
  assumes "good v" "lstate v = lockL (lstate w)" "good w"
    "\<And>a w. good w \<Longrightarrow> holds (\<lambda>(r, w'). good w' \<and> lstate w' = lstate w) (f a w)"
    "\<And>r w'. good w' \<Longrightarrow> lstate w' = lstate w \<Longrightarrow> P (r, w')"
  shows "holds P (on_first f s v)"
proof -
  have "holds (\<lambda>x. holds P (case x of (ok, u) \<Rightarrow> unlockReturn ok u)) (f a v)" for a
    using assms(4) [OF assms(1), of a]
    by (rule holds_mono) (auto intro!: contract simp: assms)
  then show ?thesis unfolding on_first_def using assms by (auto intro!: contract)
qed

context callback_contract
begin

lemma unbind_loops_contract [contract]:
  assumes "good w" "\<And>w'. good w' \<Longrightarrow> lstate w' = lstate w \<Longrightarrow> P w'"
  shows "holds P (unbind_connectionless e cb s b n w)" "holds P (unbind_associations e cb s b n w)"
    "holds P (unbind_requests e cb s n w)"
proof -
  show "holds P (unbind_connectionless e cb s b n w)"
    using assms
  proof (induction n arbitrary: w)
    case (Suc n)
    then show ?case
      by (subst unbind_connectionless.simps) (auto intro!: contract dest: wfS_ordered_tl simp: wfS_rest)
  qed (subst unbind_connectionless.simps, auto intro!: contract)
  show "holds P (unbind_associations e cb s b n w)"
    using assms
  proof (induction n arbitrary: w)
    case (Suc n)
    then show ?case
      by (subst unbind_associations.simps) (auto intro!: contract dest: wfS_ordered_tl simp: wfS_rest)
  qed (subst unbind_associations.simps, auto intro!: contract)
  show "holds P (unbind_requests e cb s n w)"
    using assms
  proof (induction n arbitrary: w)
    case (Suc n)
    then show ?case by (subst unbind_requests.simps) (auto intro!: contract)
  qed (subst unbind_requests.simps, auto intro!: contract)
qed

lemma unbind_contract [contract]:
  "good w \<Longrightarrow> (\<And>w'. good w' \<Longrightarrow> lstate w' = lstate w \<Longrightarrow> P w') \<Longrightarrow> holds P (unbind e cb s b w)"
  unfolding unbind_def by (auto intro!: contract)

lemma SCTPSocket_delete_contract [contract]:
  "good w \<Longrightarrow> (\<And>w'. good w' \<Longrightarrow> lstate w' = removeSocket s (lstate w) \<Longrightarrow> P w') \<Longrightarrow>
   holds P (SCTPSocket_delete e cb s w)"
  unfolding SCTPSocket_delete_def by (auto intro!: contract)

lemma bind_contract [contract]:
  "good w \<Longrightarrow> (\<And>r w'. good w' \<Longrightarrow> lstate w' = lstate w \<Longrightarrow> P (r, w')) \<Longrightarrow>
   holds P (bind e cb s p ni no addrs w)"
  unfolding bind_def bind_locked_def bind_fixed_def Let_def
  by (auto intro!: contract simp: good_SocketList)

lemma associate_contract [contract]:
  "good w \<Longrightarrow> (\<And>r w'. good w' \<Longrightarrow> lstate w' = lstate w \<Longrightarrow> P (r, w')) \<Longrightarrow>
   holds P (associate e cb s no ma mt dests bl w)"
  unfolding associate_def associate_start_def associate_wait_def Let_def by (auto intro!: contract)

lemma recv_loop_contract:
  "good w \<Longrightarrow> good v \<Longrightarrow> lstate w = lockL (lstate v) \<Longrightarrow>
   (\<And>r io' w'. good w' \<Longrightarrow> lstate w' = (case r of Inl _ \<Rightarrow> lstate v | Inr _ \<Rightarrow> lockL (lstate v)) \<Longrightarrow> P (r, io', w')) \<Longrightarrow>
   holds P (recv_loop e cb s qr f n io w)"
proof (induction n arbitrary: w)
  case (Suc n)
  then show ?case by (auto intro!: contract simp: Let_def)
qed simp

lemma recv_data_contract [contract]:
  "good w \<Longrightarrow> (\<And>r u io' w'. good w' \<Longrightarrow> lstate w' = lstate w \<Longrightarrow> P (r, u, io', w')) \<Longrightarrow>
   holds P (recv_data e cb qr b n io w)"
  unfolding recv_data_def Let_def
  by (cases "sn_body (Content n)") (auto intro!: contract)

lemma internalReceive_contract [contract]:
  "good w \<Longrightarrow> (\<And>r io' w'. good w' \<Longrightarrow> lstate w' = lstate w \<Longrightarrow> P (r, io', w')) \<Longrightarrow>
   holds P (internalReceive e cb s qr b f io w)"
  unfolding internalReceive_def
  by (auto intro!: contract recv_loop_contract [of "lock w" w] simp del: recv_loop.simps)

lemma receiveFrom_contract [contract]:
  assumes "good w" "\<And>r io' w'. good w' \<Longrightarrow> lstate w' = lstate w \<Longrightarrow> P (r, io', w')"
  shows "holds P (Socket_receiveFrom e cb s b io w)" "holds P (Association_receiveFrom e cb a b io w)"
  unfolding Socket_receiveFrom_def Association_receiveFrom_def
  using assms by (auto intro!: contract)

lemma sendTo_connect_contract [contract]:
  "good w \<Longrightarrow> (\<And>r w'. good w' \<Longrightarrow> lstate w' = lstate w \<Longrightarrow> P (r, w')) \<Longrightarrow>
   holds P (sendTo_connect e cb s fl st ma mt dests r w)"
  unfolding sendTo_connect_def by (cases r; cases dests) (auto intro!: contract)

lemma sendTo_close_contract [contract]:
  "good w \<Longrightarrow> (\<And>r w'. good w' \<Longrightarrow> lstate w' = lstate w \<Longrightarrow> P (r, w')) \<Longrightarrow> holds P (sendTo_close e cb s fl a w)"
  unfolding sendTo_close_def by (auto intro!: contract)

lemma sendTo_one_contract [contract]:
  "good w \<Longrightarrow> (\<And>r k' w'. good w' \<Longrightarrow> lstate w' = lstate w \<Longrightarrow> P (r, k', w')) \<Longrightarrow>
   holds P (sendTo_one e cb s buf fl k st pid ttl ma mt d dests streams r w)"
  unfolding sendTo_one_def by (auto intro!: contract)

lemma sendTo_all_contract [contract]:
  "good w \<Longrightarrow> (\<And>w'. good w' \<Longrightarrow> lstate w' = unlockL (lstate w) \<Longrightarrow> P w') \<Longrightarrow>
   holds P (sendTo_all e cb s buf fl st pid ttl d w)"
  unfolding sendTo_all_def by (auto intro!: contract forEach_contract)

lemma Socket_sendTo_contract [contract]:
  "good w \<Longrightarrow> (\<And>r k' w'. good w' \<Longrightarrow> lstate w' = lstate w \<Longrightarrow> P (r, k', w')) \<Longrightarrow>
   holds P (Socket_sendTo e cb s buf fl k st pid ttl ma mt d dests streams w)"
  unfolding Socket_sendTo_def Let_def by (auto intro!: contract)

end

end
