(* ===== verification/Exact.thy ===== *)
theory Exact
  imports Discipline
begin

text \<open>
  The exact results of the operations that return in every state whose objects exist. Locking
  and unlocking leaves a state as it was, up to the saved cancellation state of a thread that
  holds no lock (\<open>touched\<close>). The equations of the collection \<open>exact\<close> evaluate compositions of these
  operations.
\<close>

named_theorems exact \<open>results of operations on existing objects\<close>

section \<open>Lock and unlock\<close>

definition touched :: "'l world \<Rightarrow> 'l world" where
  "touched w = (if LockLevel w = 0 then w\<lparr>OldCancelState := CancelEnabled w\<rparr> else w)"

lemma touched_fields [simp]:
  "Lib (touched w) = Lib w" "Now (touched w) = Now w" "Sockets (touched w) = Sockets w"
  "Assocs (touched w) = Assocs w" "NextPtr (touched w) = NextPtr w" "Conds (touched w) = Conds w"
  "InitializationResult (touched w) = InitializationResult w" "Running (touched w) = Running w"
  "StartOK (touched w) = StartOK w" "LockLevel (touched w) = LockLevel w"
  "CancelEnabled (touched w) = CancelEnabled w" "LastGarbageCollection (touched w) = LastGarbageCollection w"
  "ClosingSockets (touched w) = ClosingSockets w" "ClosingAssociations (touched w) = ClosingAssociations w"
  "SocketList (touched w) = SocketList w" "RandomCount (touched w) = RandomCount w"
  "Future (touched w) = Future w"
  by (simp_all add: touched_def)

lemma lock_more_fields [simp]:
  "CancelEnabled (lock w) = False" "LockLevel (lock w) = Suc (LockLevel w)"
  "OldCancelState (lock w) = (if LockLevel w = 0 then CancelEnabled w else OldCancelState w)"
  "InitializationResult (lock w) = InitializationResult w"
  "LastGarbageCollection (lock w) = LastGarbageCollection w"
  by (simp_all add: lock_def Let_def)

lemma touched_touched [simp]: "touched (touched w) = touched w"
  by (simp add: touched_def)

lemma touched_lock [simp]: "touched (lock w) = lock w"
  by (simp add: touched_def)

lemma lock_touched [simp]: "lock (touched w) = lock w"
  by (simp add: touched_def lock_def Let_def)

lemma touched_updates [simp]:
  "touched (w\<lparr>Lib := l\<rparr>) = (touched w)\<lparr>Lib := l\<rparr>"
  "touched (w\<lparr>Sockets := ss\<rparr>) = (touched w)\<lparr>Sockets := ss\<rparr>"
  "touched (w\<lparr>Assocs := as\<rparr>) = (touched w)\<lparr>Assocs := as\<rparr>"
  "touched (w\<lparr>Conds := cs\<rparr>) = (touched w)\<lparr>Conds := cs\<rparr>"
  "touched (w\<lparr>NextPtr := n\<rparr>) = (touched w)\<lparr>NextPtr := n\<rparr>"
  "touched (w\<lparr>SocketList := sl\<rparr>) = (touched w)\<lparr>SocketList := sl\<rparr>"
  "touched (w\<lparr>ClosingSockets := c\<rparr>) = (touched w)\<lparr>ClosingSockets := c\<rparr>"
  "touched (w\<lparr>ClosingAssociations := ca\<rparr>) = (touched w)\<lparr>ClosingAssociations := ca\<rparr>"
  "touched (w\<lparr>LastGarbageCollection := t\<rparr>) = (touched w)\<lparr>LastGarbageCollection := t\<rparr>"
  by (simp_all add: touched_def)

lemma lock_updates:
  "(lock w)\<lparr>Lib := l\<rparr> = lock (w\<lparr>Lib := l\<rparr>)"
  "(lock w)\<lparr>Sockets := ss\<rparr> = lock (w\<lparr>Sockets := ss\<rparr>)"
  "(lock w)\<lparr>Assocs := as\<rparr> = lock (w\<lparr>Assocs := as\<rparr>)"
  "(lock w)\<lparr>Conds := cs\<rparr> = lock (w\<lparr>Conds := cs\<rparr>)"
  "(lock w)\<lparr>NextPtr := n\<rparr> = lock (w\<lparr>NextPtr := n\<rparr>)"
  "(lock w)\<lparr>SocketList := sl\<rparr> = lock (w\<lparr>SocketList := sl\<rparr>)"
  "(lock w)\<lparr>ClosingSockets := c\<rparr> = lock (w\<lparr>ClosingSockets := c\<rparr>)"
  "(lock w)\<lparr>ClosingAssociations := ca\<rparr> = lock (w\<lparr>ClosingAssociations := ca\<rparr>)"
  "(lock w)\<lparr>LastGarbageCollection := t\<rparr> = lock (w\<lparr>LastGarbageCollection := t\<rparr>)"
  by (simp_all add: lock_def Let_def)

lemma lock_inv_updates [simp]:
  "lock_inv (touched w) = lock_inv w"
  "lock_inv (w\<lparr>Lib := l\<rparr>) = lock_inv w" "lock_inv (w\<lparr>Sockets := ss\<rparr>) = lock_inv w"
  "lock_inv (w\<lparr>Assocs := as\<rparr>) = lock_inv w" "lock_inv (w\<lparr>Conds := cs\<rparr>) = lock_inv w"
  "lock_inv (w\<lparr>NextPtr := n\<rparr>) = lock_inv w" "lock_inv (w\<lparr>SocketList := sl\<rparr>) = lock_inv w"
  "lock_inv (w\<lparr>ClosingSockets := c\<rparr>) = lock_inv w"
  "lock_inv (w\<lparr>ClosingAssociations := ca\<rparr>) = lock_inv w"
  "lock_inv (w\<lparr>LastGarbageCollection := t\<rparr>) = lock_inv w"
  by (simp_all add: lock_inv_def)

lemma unlock_lock [exact]: "lock_inv w \<Longrightarrow> unlock (lock w) = Inr (touched w)"
  by (auto simp: unlock_def lock_def touched_def lock_inv_def Let_def)

lemma unlockReturn_lock [exact]: "lock_inv w \<Longrightarrow> unlockReturn r (lock w) = Inr (r, touched w)"
  by (simp add: unlockReturn_def unlock_lock)

lemma good_lock_inv [simp]: "good w \<Longrightarrow> lock_inv w"
  by (simp add: good_def)

lemma good_touched [simp]: "good (touched w) = good w"
  by (simp add: good_def wf_def)

lemma lstate_touched [simp]: "lstate (touched w) = lstate w"
  by (simp add: lstate_def touched_def)

section \<open>Objects\<close>

lemma get_some [exact]:
  "Sockets w s = Some y \<Longrightarrow> getS s w = Inr y" "Assocs w a = Some x \<Longrightarrow> getA a w = Inr x"
  by (simp_all add: getS_def getA_def)

lemma upd_some [exact]:
  "Sockets w s = Some y \<Longrightarrow> updS s f w = Inr (w\<lparr>Sockets := (Sockets w)(s \<mapsto> f y)\<rparr>)"
  "Assocs w a = Some x \<Longrightarrow> updA a g w = Inr (w\<lparr>Assocs := (Assocs w)(a \<mapsto> g x)\<rparr>)"
  by (simp_all add: updS_def updA_def getS_def getA_def)

lemma getAssociation_some [exact]:
  "lock_inv w \<Longrightarrow> Sockets w s = Some y \<Longrightarrow> mm_find k (AssociationList y) = Some a \<Longrightarrow> Assocs w a = Some x \<Longrightarrow>
   getAssociationForAssociationID s k act w =
     Inr (if IsShuttingDown x \<and> act then None else Some a, touched w)"
  by (simp add: getAssociationForAssociationID_def Let_def exact)

lemma getAssociation_none [exact]:
  "lock_inv w \<Longrightarrow> Sockets w s = Some y \<Longrightarrow> mm_find k (AssociationList y) = None \<Longrightarrow>
   getAssociationForAssociationID s k act w = Inr (None, touched w)"
  by (simp add: getAssociationForAssociationID_def Let_def exact)

lemma Association_hasData_some [exact]:
  "lock_inv w \<Longrightarrow> Assocs w a = Some x \<Longrightarrow> queue_inv (InQueue x) \<Longrightarrow>
   Association_hasData a w = Inr (\<exists>n \<in> set (items (InQueue x)). wanted (A_NotificationFlags x) n, touched w)"
  by (simp add: Association_hasData_def Let_def exact queue_hasData_def nq.any_ok)

lemma Socket_hasData_some [exact]:
  "lock_inv w \<Longrightarrow> Sockets w s = Some y \<Longrightarrow> queue_inv (GlobalQueue y) \<Longrightarrow>
   Socket_hasData s w = Inr (flag_set (Flags y) SSF_GlobalQueue \<and>
     (\<exists>n \<in> set (items (GlobalQueue y)). wanted (S_NotificationFlags y) n), touched w)"
  by (auto simp: Socket_hasData_def Let_def exact queue_hasData_def nq.any_ok)

lemma good_queue:
  "good w \<Longrightarrow> Assocs w a = Some x \<Longrightarrow> queue_inv (InQueue x)"
  "good w \<Longrightarrow> Sockets w s = Some y \<Longrightarrow> queue_inv (GlobalQueue y)"
  by (auto simp: good_def wf_def wfA_def wfS_def)

lemma getErrorCode_ok:
  "lock_inv w \<Longrightarrow> Sockets w s = Some y \<Longrightarrow> mm_find k (AssociationList y) = Some a \<Longrightarrow> Assocs w a = Some x \<Longrightarrow>
   \<not> ShutdownCompleteNotification x \<Longrightarrow> \<not> CommunicationLostNotification x \<Longrightarrow>
   getErrorCode s k w = Inr (0, touched w)"
  by (simp add: getErrorCode_def exact)

lemma getErrorCode_gone:
  "lock_inv w \<Longrightarrow> Sockets w s = Some y \<Longrightarrow> mm_find k (AssociationList y) = Some a \<Longrightarrow> Assocs w a = Some x \<Longrightarrow>
   ShutdownCompleteNotification x \<or> CommunicationLostNotification x \<Longrightarrow>
   getErrorCode s k w = Inr (if ShutdownCompleteNotification x then - ECONNRESET else - ECONNABORTED,
     (touched w)\<lparr>Assocs := (Assocs w)(a \<mapsto> x\<lparr>A_HasException := True\<rparr>)\<rparr>)"
  by (auto simp: getErrorCode_def exact)

lemma getErrorCode_none [exact]:
  "lock_inv w \<Longrightarrow> Sockets w s = Some y \<Longrightarrow> mm_find k (AssociationList y) = None \<Longrightarrow>
   getErrorCode s k w = Inr (0, touched w)"
  by (simp add: getErrorCode_def exact)

end
