(* ===== verification/DeliveryLaws.thy ===== *)
theory DeliveryLaws
  imports Exact Samples
begin

text \<open>
  Notifications from the callbacks of the SCTP implementation to the application: the routing to
  the queue of the socket or of the association, and what a receiving call does with the first
  notification of a queue.
\<close>

section \<open>Flags\<close>

lemma bit_power: "i < 32 \<Longrightarrow> bit ((2 :: card32) ^ k) i \<longleftrightarrow> i = k"
  by (auto simp: bit_exp_iff)

lemma and_bit_iff: "f AND 2 ^ i \<noteq> 0 \<longleftrightarrow> bit f i" if "i < 32" for f :: card32
proof
  assume "bit f i"
  then have "bit (f AND 2 ^ i) i" using that by (simp add: bit_and_iff bit_power)
  then show "f AND 2 ^ i \<noteq> 0" by auto
next
  assume "f AND 2 ^ i \<noteq> 0"
  then obtain j where "bit (f AND 2 ^ i) j" by (metis bit_eq_iff bit_0_eq bot_apply bot_bool_def)
  moreover from this have "j < 32" using bit_imp_le_length by fastforce
  ultimately show "bit f i" by (auto simp: bit_and_iff bit_power)
qed

lemma flag_bits [simp]:
  "flag_set f MSG_NOTIFICATION = bit f 0" "flag_set f MSG_PEEK = bit f (Suc 0)" "flag_set f MSG_DONTWAIT = bit f 6"
  "flag_set f MSG_EOR = bit f 7" "flag_set f MSG_UNORDERED = bit f 2"
  using and_bit_iff [of 0 f] and_bit_iff [of 1 f] and_bit_iff [of 6 f] and_bit_iff [of 7 f] and_bit_iff [of 2 f]
  by (simp_all add: flag_set_def msg_defs)

lemma bit_or_power: "i < 32 \<Longrightarrow> bit (f OR 2 ^ k) i \<longleftrightarrow> bit f i \<or> i = k" for f :: card32
  by (simp add: bit_or_iff bit_power)

lemma bit_clear_power: "i < 32 \<Longrightarrow> bit (f AND NOT (2 ^ k)) i \<longleftrightarrow> bit f i \<and> i \<noteq> k" for f :: card32
  by (simp add: bit_and_iff bit_not_iff bit_power)

lemma bit_flag_updates [simp]:
  assumes "i < 32"
  shows "bit (clear_flag f MSG_NOTIFICATION) i = (bit f i \<and> i \<noteq> 0)"
    "bit (set_flag f MSG_UNORDERED) i = (bit f i \<or> i = 2)"
    "bit (set_flag f MSG_EOR) i = (bit f i \<or> i = 7)"
    "bit (set_flag f MSG_NOTIFICATION) i = (bit f i \<or> i = 0)"
    "bit (set_flag f (MSG_EOR OR MSG_NOTIFICATION)) i = (bit f i \<or> i = 7 \<or> i = 0)"
  using bit_clear_power [OF assms, of f 0] bit_or_power [OF assms, of f 2] bit_or_power [OF assms, of f 7]
    bit_or_power [OF assms, of f 0] bit_or_power [OF assms, of "f OR 2 ^ 7" 0]
  by (simp_all add: clear_flag_def set_flag_def msg_defs or.assoc)

section \<open>Adding notifications\<close>

text \<open>The condition of a queue and what fires with it.\<close>

lemma fired_self [simp]: "Fired (mark s (ancestors s c) c)"
  by (simp add: mark_def ancestors_def)

lemma enqueueS_some:
  assumes "good w" "Sockets w s = Some y"
  obtains q where "queue_inv q" "items q = items (GlobalQueue y) @ [n]"
    "enqueueS s n w = Inr (w\<lparr>Sockets := (Sockets w)(s \<mapsto> y\<lparr>GlobalQueue := q\<rparr>),
       Conds := mark (Conds w) (ancestors (Conds w) (SockCond s GlobalQueueUpdate))\<rparr>)"
proof -
  have "wfS y" using assms by (auto simp: good_def wf_def)
  moreover obtain q where q: "addNotification (GlobalQueue y) n = Inr q" "queue_inv q"
    "items q = items (GlobalQueue y) @ [n]"
    using nq.add_ok [OF good_queue(2) [OF assms], of n] by auto
  ultimately have "good (w\<lparr>Sockets := (Sockets w)(s \<mapsto> y\<lparr>GlobalQueue := q\<rparr>)\<rparr>)"
    using assms by (intro good_Sockets) (auto simp: wfS_def)
  with q assms(2) show thesis by (intro that) (simp_all add: enqueueS_def exact fire_good)
qed

lemma enqueueA_some:
  assumes "good w" "Assocs w a = Some x"
  obtains q where "queue_inv q" "items q = items (InQueue x) @ [n]"
    "enqueueA a n w = Inr (w\<lparr>Assocs := (Assocs w)(a \<mapsto> x\<lparr>InQueue := q\<rparr>),
       Conds := mark (Conds w) (ancestors (Conds w) (AssocCond a InQueueUpdate))\<rparr>)"
proof -
  obtain q where q: "addNotification (InQueue x) n = Inr q" "queue_inv q" "items q = items (InQueue x) @ [n]"
    using nq.add_ok [OF good_queue(1) [OF assms], of n] by auto
  then have "good (w\<lparr>Assocs := (Assocs w)(a \<mapsto> x\<lparr>InQueue := q\<rparr>)\<rparr>)"
    using assms by (intro good_Assocs) (auto simp: wfA_def)
  with q assms(2) show thesis by (intro that) (simp_all add: enqueueA_def exact fire_good)
qed

text \<open>What \<^verbatim>\<open>addNotification\<close> of the master wakes up, and the readiness of the socket for reading afterwards.\<close>

definition notification_wakes :: "nat \<Rightarrow> SCTPSocket \<Rightarrow> nat \<Rightarrow> SCTPAssociation \<Rightarrow> SCTPNotification \<Rightarrow> cref conditions \<Rightarrow> cref set" where
  "notification_wakes s y a x n cs =
     (if \<not> usesGlobalQueue y x then ancestors cs (AssocCond a InQueueUpdate)
      else if wanted (A_NotificationFlags x) n then ancestors cs (SockCond s GlobalQueueUpdate) else {})"

definition socket_readable :: "SCTPSocket \<Rightarrow> bool" where
  "socket_readable y = (flag_set (Flags y) SSF_GlobalQueue \<and> (\<exists>m \<in> set (items (GlobalQueue y)). wanted (S_NotificationFlags y) m) \<or>
     ConnectionRequests y \<noteq> [])"

lemma Master_addNotification_exact:
  fixes n :: SCTPNotification and x :: SCTPAssociation and y :: SCTPSocket
  assumes "good w" "Sockets w s = Some y" "mm_find k (AssociationList y) = Some a" "Assocs w a = Some x"
  defines "got \<equiv> wanted (A_NotificationFlags x) n" and "global \<equiv> usesGlobalQueue y x"
  obtains q p where "items q = items (GlobalQueue y) @ (if got \<and> global then [n] else [])"
    "items p = items (InQueue x) @ (if got \<and> \<not> global then [n] else [])"
    "\<not> (got \<and> global) \<Longrightarrow> q = GlobalQueue y" "\<not> (got \<and> \<not> global) \<Longrightarrow> p = InQueue x"
    "Master_addNotification s k n w = Inr ((touched w)\<lparr>
       Sockets := (Sockets w)(s \<mapsto> y\<lparr>GlobalQueue := q,
         S_ReadReady := (if got \<and> global then socket_readable (y\<lparr>GlobalQueue := q\<rparr>) else S_ReadReady y)\<rparr>),
       Assocs := (Assocs w)(a \<mapsto> x\<lparr>UseCount := UseCount x + (if got then 1 else 0), InQueue := p,
         A_ReadReady := (A_ReadReady x \<or> got \<and> \<not> global)\<rparr>),
       Conds := mark (Conds w) (notification_wakes s y a x n (Conds w))\<rparr>)"
proof -
  let ?x = "x\<lparr>UseCount := UseCount x + 1\<rparr>"
  let ?w = "(touched w)\<lparr>Assocs := (Assocs w)(a \<mapsto> ?x)\<rparr>"
  have w: "good ?w" "Sockets ?w s = Some y" "Assocs ?w a = Some ?x"
    using assms good_Assocs [of "touched w" ?x a] by (auto simp: good_def wf_def)
  have idem: "(Sockets w)(s \<mapsto> y) = Sockets w" "(Assocs w)(a \<mapsto> x) = Assocs w"
    using assms(2,4) by (simp_all add: fun_upd_idem)
  note start = assms(2,3,4) good_lock_inv [OF assms(1)]
  note defs = Master_addNotification_def notification_wakes_def socket_readable_def got_def global_def
  consider (global) "got" "global" | (own) "got" "\<not> global" | (no) "\<not> got" by blast
  then show thesis
  proof cases
    case global
    from enqueueS_some [OF w(1,2), of n] obtain q where q: "queue_inv q" "items q = items (GlobalQueue y) @ [n]"
      "enqueueS s n ?w = Inr (?w\<lparr>Sockets := (Sockets ?w)(s \<mapsto> y\<lparr>GlobalQueue := q\<rparr>),
         Conds := mark (Conds ?w) (ancestors (Conds ?w) (SockCond s GlobalQueueUpdate))\<rparr>)" by blast
    show thesis by (rule that [of q "InQueue x"]) (use start global q in \<open>simp_all add: defs exact\<close>)
  next
    case own
    from enqueueA_some [OF w(1,3), of n] obtain q where q: "queue_inv q" "items q = items (InQueue x) @ [n]"
      "enqueueA a n ?w = Inr (?w\<lparr>Assocs := (Assocs ?w)(a \<mapsto> ?x\<lparr>InQueue := q\<rparr>),
         Conds := mark (Conds ?w) (ancestors (Conds ?w) (AssocCond a InQueueUpdate))\<rparr>)" by auto
    show thesis by (rule that [of "GlobalQueue y" q]) (use start own q idem in \<open>simp_all add: defs exact\<close>)
  next
    case no
    show thesis
      by (rule that [of "GlobalQueue y" "InQueue x"])
        (use start no idem fire_good [of "touched w" "AssocCond a InQueueUpdate"] assms(1) in \<open>simp_all add: defs exact\<close>)
  qed
qed

lemma Master_addNotification_some:
  assumes "good w" "Sockets w s = Some y" "mm_find k (AssociationList y) = Some a" "Assocs w a = Some x"
  obtains w' x' y' where "Master_addNotification s k n w = Inr w'" "good w'" "lstate w' = lstate w"
    "Sockets w' = (Sockets w)(s \<mapsto> y')" "Assocs w' = (Assocs w)(a \<mapsto> x')" "Lib w' = Lib w" "SocketList w' = SocketList w"
    "Future w' = Future w" "Now w' = Now w"
    "UseCount x' = UseCount x + (if wanted (A_NotificationFlags x) n then 1 else 0)"
    "items (GlobalQueue y') = items (GlobalQueue y) @
       (if wanted (A_NotificationFlags x) n \<and> usesGlobalQueue y x then [n] else [])"
    "items (InQueue x') = items (InQueue x) @
       (if wanted (A_NotificationFlags x) n \<and> \<not> usesGlobalQueue y x then [n] else [])"
    "wanted (A_NotificationFlags x) n \<Longrightarrow> \<not> usesGlobalQueue y x \<Longrightarrow> A_ReadReady x'"
    "wanted (A_NotificationFlags x) n \<Longrightarrow> usesGlobalQueue y x \<Longrightarrow> Fired (Conds w' (SockCond s GlobalQueueUpdate))"
    "\<not> usesGlobalQueue y x \<Longrightarrow> Fired (Conds w' (AssocCond a InQueueUpdate))"
    "AssociationList y' = AssociationList y" "x' = x\<lparr>UseCount := UseCount x', InQueue := InQueue x', A_ReadReady := A_ReadReady x'\<rparr>"
    "y' = y\<lparr>GlobalQueue := GlobalQueue y', S_ReadReady := S_ReadReady y'\<rparr>"
proof -
  have g: "holds (\<lambda>w'. good w' \<and> lstate w' = lstate w) (Master_addNotification s k n w)" using assms(1) by (auto intro!: contract)
  let ?got = "wanted (A_NotificationFlags x) n" and ?global = "usesGlobalQueue y x"
  obtain q p where q: "items q = items (GlobalQueue y) @ (if ?got \<and> ?global then [n] else [])"
    "items p = items (InQueue x) @ (if ?got \<and> \<not> ?global then [n] else [])" and
    r: "Master_addNotification s k n w = Inr ((touched w)\<lparr>
       Sockets := (Sockets w)(s \<mapsto> y\<lparr>GlobalQueue := q,
         S_ReadReady := (if ?got \<and> ?global then socket_readable (y\<lparr>GlobalQueue := q\<rparr>) else S_ReadReady y)\<rparr>),
       Assocs := (Assocs w)(a \<mapsto> x\<lparr>UseCount := UseCount x + (if ?got then 1 else 0), InQueue := p,
         A_ReadReady := (A_ReadReady x \<or> ?got \<and> \<not> ?global)\<rparr>),
       Conds := mark (Conds w) (notification_wakes s y a x n (Conds w))\<rparr>)"
    using Master_addNotification_exact [OF assms, of n] by metis
  define X Y W where "X = x\<lparr>UseCount := UseCount x + (if ?got then 1 else 0), InQueue := p, A_ReadReady := (A_ReadReady x \<or> ?got \<and> \<not> ?global)\<rparr>"
    and "Y = y\<lparr>GlobalQueue := q, S_ReadReady := (if ?got \<and> ?global then socket_readable (y\<lparr>GlobalQueue := q\<rparr>) else S_ReadReady y)\<rparr>"
    and "W = (touched w)\<lparr>Sockets := (Sockets w)(s \<mapsto> Y), Assocs := (Assocs w)(a \<mapsto> X),
      Conds := mark (Conds w) (notification_wakes s y a x n (Conds w))\<rparr>"
  note defs = this
  have W: "Master_addNotification s k n w = Inr W" by (simp add: r defs)
  then have "good W" "lstate W = lstate w" using g by simp_all
  with W show thesis
    by (rule that [of W Y X]) (simp_all add: defs q notification_wakes_def)
qed

text \<open>The states of the samples meet the contract.\<close>

lemma ranked_new [simp]: "ranked r (\<lambda>_. Condition_new)"
  by (simp add: ranked_def Condition_new_def)

lemma sample_objects:
  "Sockets sample_world 1 = Some sample_socket" "Assocs sample_world 2 = Some sample_assoc"
  "mm_find 7 (AssociationList sample_socket) = Some 2" "items (GlobalQueue sample_socket) = []"
  "items (InQueue sample_assoc) = []" "LockLevel sample_world = 0" "SocketList sample_world = [(1, 1)]"
  "Lib sample_world = 0" "SL sample = sample_lib"
  using nq.new_ok [where 'a = SCTPNotification] by (simp_all add: sample_defs)

lemma sample_good: "good sample_world"
  using nq.new_ok [where 'a = SCTPNotification]
  by (auto simp: good_def lock_inv_def wf_def wfS_def wfA_def mm_ordered_def sample_defs split: if_splits)

text \<open>
  C5. Routing of notifications. For an association the socket knows, adding a notification always
  returns. A notification the association has subscribed to (data always) goes to the end of
  exactly one queue: to the queue of the socket when the socket has a global queue and the
  association was not peeled off, else to the queue of the association, which becomes ready for
  reading. It counts as a use of the association, and the condition of that queue fires. Any other
  notification changes no queue and no use counter, and only wakes up a reader of the association.
  Nothing else changes: the theorem gives the whole state after the call. Besides the queue, the use counter, and the
  marks of the conditions, only the flag that says whether the socket, or the association, has something to read is set
  anew, for the one whose queue took the notification; \<open>touched\<close> is the saved cancellation state of a thread without a lock.
\<close>

theorem notification_routing:
  assumes "good w" "Sockets w s = Some y" "mm_find k (AssociationList y) = Some a" "Assocs w a = Some x"
  shows "\<exists>w' x' y'. Master_addNotification s k n w = Inr w' \<and> good w' \<and> lstate w' = lstate w \<and>
    w' = (touched w)\<lparr>Sockets := (Sockets w)(s \<mapsto> y'), Assocs := (Assocs w)(a \<mapsto> x'),
                     Conds := mark (Conds w) (notification_wakes s y a x n (Conds w))\<rparr> \<and>
    x' = x\<lparr>UseCount := UseCount x + (if wanted (A_NotificationFlags x) n then 1 else 0), InQueue := InQueue x',
           A_ReadReady := (A_ReadReady x \<or> wanted (A_NotificationFlags x) n \<and> \<not> usesGlobalQueue y x)\<rparr> \<and>
    y' = y\<lparr>GlobalQueue := GlobalQueue y',
           S_ReadReady := (if wanted (A_NotificationFlags x) n \<and> usesGlobalQueue y x then socket_readable y' else S_ReadReady y)\<rparr> \<and>
    items (GlobalQueue y') = items (GlobalQueue y) @
      (if wanted (A_NotificationFlags x) n \<and> usesGlobalQueue y x then [n] else []) \<and>
    items (InQueue x') = items (InQueue x) @
      (if wanted (A_NotificationFlags x) n \<and> \<not> usesGlobalQueue y x then [n] else []) \<and>
    (\<not> wanted (A_NotificationFlags x) n \<longrightarrow> x' = x \<and> y' = y) \<and>
    (wanted (A_NotificationFlags x) n \<and> usesGlobalQueue y x \<longrightarrow>
       InQueue x' = InQueue x \<and> Fired (Conds w' (SockCond s GlobalQueueUpdate))) \<and>
    (\<not> usesGlobalQueue y x \<longrightarrow> y' = y \<and> Fired (Conds w' (AssocCond a InQueueUpdate)))"
proof -
  have g: "holds (\<lambda>w'. good w' \<and> lstate w' = lstate w) (Master_addNotification s k n w)" using assms(1) by (auto intro!: contract)
  let ?got = "wanted (A_NotificationFlags x) n" and ?global = "usesGlobalQueue y x"
  obtain q p where q: "items q = items (GlobalQueue y) @ (if ?got \<and> ?global then [n] else [])"
    "items p = items (InQueue x) @ (if ?got \<and> \<not> ?global then [n] else [])"
    "\<not> (?got \<and> ?global) \<Longrightarrow> q = GlobalQueue y" "\<not> (?got \<and> \<not> ?global) \<Longrightarrow> p = InQueue x" and
    r: "Master_addNotification s k n w = Inr ((touched w)\<lparr>
       Sockets := (Sockets w)(s \<mapsto> y\<lparr>GlobalQueue := q,
         S_ReadReady := (if ?got \<and> ?global then socket_readable (y\<lparr>GlobalQueue := q\<rparr>) else S_ReadReady y)\<rparr>),
       Assocs := (Assocs w)(a \<mapsto> x\<lparr>UseCount := UseCount x + (if ?got then 1 else 0), InQueue := p,
         A_ReadReady := (A_ReadReady x \<or> ?got \<and> \<not> ?global)\<rparr>),
       Conds := mark (Conds w) (notification_wakes s y a x n (Conds w))\<rparr>)"
    using Master_addNotification_exact [OF assms, of n] by metis
  define X Y W where "X = x\<lparr>UseCount := UseCount x + (if ?got then 1 else 0), InQueue := p, A_ReadReady := (A_ReadReady x \<or> ?got \<and> \<not> ?global)\<rparr>"
    and "Y = y\<lparr>GlobalQueue := q, S_ReadReady := (if ?got \<and> ?global then socket_readable (y\<lparr>GlobalQueue := q\<rparr>) else S_ReadReady y)\<rparr>"
    and "W = (touched w)\<lparr>Sockets := (Sockets w)(s \<mapsto> Y), Assocs := (Assocs w)(a \<mapsto> X),
      Conds := mark (Conds w) (notification_wakes s y a x n (Conds w))\<rparr>"
  note defs = this
  have W: "Master_addNotification s k n w = Inr W" by (simp add: r defs)
  then have "good W" "lstate W = lstate w" using g by simp_all
  with W show ?thesis
    by (intro exI [of _ W] exI [of _ X] exI [of _ Y]) (use q in \<open>auto simp add: defs notification_wakes_def socket_readable_def\<close>)
qed

theorem notification_routing_witness:
  "\<exists>w' y'. Master_addNotification 1 7 sample_notification sample_world = Inr w' \<and>
     Sockets w' 1 = Some y' \<and> items (GlobalQueue y') = [sample_notification]"
proof -
  have "wanted (A_NotificationFlags sample_assoc) sample_notification" "usesGlobalQueue sample_socket sample_assoc"
    by (simp_all add: wanted_def sample_notification_def usesGlobalQueue_def sample_defs ssf_defs flag_set_def)
  then show ?thesis
    using notification_routing [OF sample_good sample_objects(1,3,2), of sample_notification]
    by (auto simp: sample_objects)
qed

section \<open>Receiving\<close>

lemma update_queue_some:
  assumes "good w" "Assocs w a = Some x" "items (InQueue x) = m # ns"
  obtains q where "queue_inv q" "items q = n # ns"
    "update_queue (AssocQueue a) n w = Inr (w\<lparr>Assocs := (Assocs w)(a \<mapsto> x\<lparr>InQueue := q\<rparr>)\<rparr>)"
  using nq.upd_ok [OF good_queue(1) [OF assms(1,2)], of n] assms
  by (auto simp: update_queue_def exact)

lemma drop_queue_some:
  assumes "good w" "Assocs w a = Some x" "items (InQueue x) = m # ns"
  obtains q where "queue_inv q" "items q = ns"
    "drop_queue (AssocQueue a) w = Inr (w\<lparr>Assocs := (Assocs w)(a \<mapsto> x\<lparr>InQueue := q\<rparr>)\<rparr>)"
  using nq.drp_ok [OF good_queue(1) [OF assms(1,2)]] assms
  by (auto simp: drop_queue_def exact)

text \<open>A receiving call whose queue is not empty handles the first notification.\<close>

lemma receive_first:
  assumes "good w" "Assocs w a = Some x" "items (InQueue x) = n # ns" "R_bufferSize io > 0"
  shows "internalReceive e cb s (AssocQueue a) wa nf io w =
    andThen (if sn_type (Content n) = SCTP_DATA_ARRIVE then recv_data e cb (AssocQueue a) wa n io (lock w)
             else recv_notification e s (AssocQueue a) nf n io (lock w)) (\<lambda>(result, updated, io, w).
    andThen (if \<not> updated then recv_drop s (AssocQueue a) (R_assocID io) w else Inr w) (\<lambda>w.
    andThen (unlock w) (\<lambda>w. Inr (result, io, w))))"
  using assms nq.get_ok [OF good_queue(1) [OF assms(1,2)]]
  by (simp add: internalReceive_def exact)

lemma ready_step:
  assumes "good w" "touched w = w" "Sockets w s = Some y" "mm_find k (AssociationList y) = Some a" "Assocs w a = Some x"
  shows "\<exists>r h. (if d then Inr (True, w) else andThen (getErrorCode s k w) (\<lambda>(c, w). Inr (c < 0, w))) =
       Inr (r, w\<lparr>Assocs := (Assocs w)(a \<mapsto> x\<lparr>A_HasException := h\<rparr>)\<rparr>)"
proof (cases "\<not> d \<and> (ShutdownCompleteNotification x \<or> CommunicationLostNotification x)")
  case True
  then show ?thesis
    using assms getErrorCode_gone [OF good_lock_inv [OF assms(1)] assms(3-5)] by auto
next
  case False
  have i: "(Assocs w)(a \<mapsto> x\<lparr>A_HasException := A_HasException x\<rparr>) = Assocs w"
    using assms(5) by (auto simp: fun_eq_iff)
  from False have "(if d then Inr (True, w) else andThen (getErrorCode s k w) (\<lambda>(c, w). Inr (c < 0, w))) = Inr (d, w)"
    using assms(2) getErrorCode_ok [OF good_lock_inv [OF assms(1)] assms(3-5)] by (cases d) auto
  moreover have "w\<lparr>Assocs := (Assocs w)(a \<mapsto> x\<lparr>A_HasException := A_HasException x\<rparr>)\<rparr> = w"
    unfolding i by simp
  ultimately show ?thesis by metis
qed

lemma recv_drop_some:
  assumes "good w" "Assocs w a = Some x" "Sockets w s = Some y" "mm_find k (AssociationList y) = Some a"
    "AssociationID x = k" "items (InQueue x) = n # ns" "UseCount x > 0"
  obtains w' x' y' where "recv_drop s (AssocQueue a) k w = Inr w'" "good w'" "lstate w' = lstate w"
    "Lib w' = Lib w" "Assocs w' = (Assocs w)(a \<mapsto> x')" "Sockets w' = (Sockets w)(s \<mapsto> y')"
    "items (InQueue x') = ns" "UseCount x' = UseCount x - 1" "AssociationID x' = k" "Socket x' = Socket x"
    "A_NotificationFlags x' = A_NotificationFlags x" "AssociationList y' = AssociationList y" "LastUsage x' = Now w"
proof -
  obtain q where q: "queue_inv q" "items q = ns"
    "drop_queue (AssocQueue a) w = Inr (w\<lparr>Assocs := (Assocs w)(a \<mapsto> x\<lparr>InQueue := q\<rparr>)\<rparr>)"
    using drop_queue_some [OF assms(1,2,6)] by blast
  let ?x = "x\<lparr>InQueue := q, LastUsage := Now w, UseCount := UseCount x - 1\<rparr>"
  let ?w = "(touched w)\<lparr>Assocs := (Assocs w)(a \<mapsto> ?x)\<rparr>"
  have w: "good ?w" "Sockets ?w s = Some y" "Assocs ?w a = Some ?x"
    using assms q good_Assocs [of "touched w" ?x a] by (auto simp: wfA_def)
  define d where "d = (\<exists>m \<in> set ns. wanted (A_NotificationFlags x) m)"
  have "touched ?w = ?w" by simp
  from ready_step [OF w(1) this w(2) assms(4) w(3), of d] obtain r h where
    r: "(if d then Inr (True, ?w) else andThen (getErrorCode s k ?w) (\<lambda>(c, w). Inr (c < 0, w))) =
       Inr (r, ?w\<lparr>Assocs := (Assocs ?w)(a \<mapsto> ?x\<lparr>A_HasException := h\<rparr>)\<rparr>)" by (elim exE)
  let ?x2 = "?x\<lparr>A_HasException := h, A_ReadReady := r\<rparr>"
  let ?g = "flag_set (Flags y) SSF_GlobalQueue \<and> (\<exists>n \<in> set (items (GlobalQueue y)). wanted (S_NotificationFlags y) n)"
  have rd: "recv_drop s (AssocQueue a) k w = Inr ((touched w)\<lparr>Assocs := (Assocs w)(a \<mapsto> ?x2),
      Sockets := (Sockets w)(s \<mapsto> y\<lparr>S_ReadReady := ?g \<or> ConnectionRequests y \<noteq> []\<rparr>)\<rparr>)"
    using assms(2-7) q r good_queue(2) [OF assms(1,3)] good_lock_inv [OF assms(1)]
    by (simp add: recv_drop_def exact d_def [symmetric] cong: if_cong del: if_split)
  have "holds (\<lambda>w'. good w' \<and> lstate w' = lstate w) (recv_drop s (AssocQueue a) k w)"
    using assms(1) by (auto intro!: contract)
  then show thesis
    unfolding rd using q assms(5)
    by (intro that [OF rd, of ?x2 "y\<lparr>S_ReadReady := ?g \<or> ConnectionRequests y \<noteq> []\<rparr>"]) auto
qed

lemma unlock_back:
  assumes "good v" "lstate v = lstate (lock w)" "good w"
  obtains w' where "unlock v = Inr w'" "good w'" "lstate w' = lstate w" "Assocs w' = Assocs v" "Sockets w' = Sockets v"
    "Lib w' = Lib v" "Now w' = Now v" "Future w' = Future v"
proof -
  have "LockLevel v \<noteq> 0" using assms(2) by (auto simp: lstate_def)
  then obtain w' where w': "unlock v = Inr w'" by (auto simp: unlock_def Let_def)
  have "holds (\<lambda>w'. good w' \<and> lstate w' = unlockL (lstate v)) (unlock v)" using assms(1) by (auto intro!: contract)
  then show thesis using w' assms unlock_fields [OF w'] by (intro that [OF w']) auto
qed

text \<open>The reference parameters after data was read.\<close>

definition data_io :: "'l env \<Rightarrow> bool \<Rightarrow> card16 \<Rightarrow> card32 \<Rightarrow> card16 \<Rightarrow> card32 \<Rightarrow> byte list \<Rightarrow> card16 \<Rightarrow> card32 \<Rightarrow> 'l world \<Rightarrow> recv_io \<Rightarrow> recv_io" where
  "data_io e wa sflags k st pp data ssn tsn w io =
     (let f = clear_flag (R_flags io) MSG_NOTIFICATION
      in io\<lparr>R_assocID := k, R_streamID := st, R_protoID := pp,
           R_flags := (if sflags AND SCTP_ARRIVE_UNORDERED \<noteq> 0 then set_flag f MSG_UNORDERED else f),
           R_buffer := data, R_bufferSize := length data, R_ssn := ssn, R_tsn := tsn,
           R_address := (if wa then sender_address e k (R_address io) w else R_address io)\<rparr>)"

lemma recv_data_some:
  assumes "good w" "Assocs w a = Some x" "items (InQueue x) = n # ns"
    "sn_body (Content n) = DataArrive k st pp b" "b > 0" "\<not> flag_set (R_flags io) MSG_PEEK"
    "sctp_receive (SL e) (Lib w) k st (min b (R_bufferSize io)) False = (Some (data, ssn, tsn), l, [])"
    and io'_def: "io' = data_io e wa (sn_flags (Content n)) k st pp data ssn tsn (w\<lparr>Lib := l\<rparr>) io"
  shows "length data \<ge> b \<Longrightarrow> recv_data e cb (AssocQueue a) wa n io w =
      Inr (int (length data), False, io'\<lparr>R_flags := set_flag (R_flags io') MSG_EOR\<rparr>, w\<lparr>Lib := l\<rparr>)"
    "length data < b \<Longrightarrow> \<exists>q. queue_inv q \<and> items q = set_bytes_arrived n (b - length data) # ns \<and>
      recv_data e cb (AssocQueue a) wa n io w =
        Inr (int (length data), True, io', w\<lparr>Lib := l, Assocs := (Assocs w)(a \<mapsto> x\<lparr>InQueue := q\<rparr>)\<rparr>)"
proof -
  have w: "good (w\<lparr>Lib := l\<rparr>)" "Assocs (w\<lparr>Lib := l\<rparr>) a = Some x" using assms(1,2) by simp_all
  have peek: "\<not> bit (if c then set_flag (clear_flag (R_flags io) MSG_NOTIFICATION) MSG_UNORDERED
      else clear_flag (R_flags io) MSG_NOTIFICATION) (Suc 0)" for c
    using assms(6) by simp
  have "\<not> bit (R_flags io) (Suc 0)" using assms(6) by simp
  note unfold = recv_data_def assms(4,5,7) io'_def data_io_def Let_def peek this
  show "length data \<ge> b \<Longrightarrow> recv_data e cb (AssocQueue a) wa n io w =
      Inr (int (length data), False, io'\<lparr>R_flags := set_flag (R_flags io') MSG_EOR\<rparr>, w\<lparr>Lib := l\<rparr>)"
    using assms(5) by (simp add: unfold)
  assume b: "length data < b"
  obtain q where "queue_inv q" "items q = set_bytes_arrived n (b - length data) # ns"
    "update_queue (AssocQueue a) (set_bytes_arrived n (b - length data)) (w\<lparr>Lib := l\<rparr>) =
       Inr (w\<lparr>Lib := l, Assocs := (Assocs (w\<lparr>Lib := l\<rparr>))(a \<mapsto> x\<lparr>InQueue := q\<rparr>)\<rparr>)"
    using update_queue_some [OF w assms(3)] by metis
  with b show "\<exists>q. queue_inv q \<and> items q = set_bytes_arrived n (b - length data) # ns \<and>
      recv_data e cb (AssocQueue a) wa n io w =
        Inr (int (length data), True, io', w\<lparr>Lib := l, Assocs := (Assocs w)(a \<mapsto> x\<lparr>InQueue := q\<rparr>)\<rparr>)"
    using assms(5) by (intro exI [of _ q]) (simp add: unfold)
qed

text \<open>Peeking writes the notification back as it was.\<close>

lemma recv_data_peek:
  assumes "good w" "Assocs w a = Some x" "items (InQueue x) = n # ns"
    "sn_body (Content n) = DataArrive k st pp b" "b > 0" "flag_set (R_flags io) MSG_PEEK"
    "sctp_receive (SL e) (Lib w) k st (min b (R_bufferSize io)) True = (Some (data, ssn, tsn), l, [])"
    and io'_def: "io' = data_io e wa (sn_flags (Content n)) k st pp data ssn tsn (w\<lparr>Lib := l\<rparr>) io"
  shows "\<exists>q. queue_inv q \<and> items q = n # ns \<and> recv_data e cb (AssocQueue a) wa n io w =
      Inr (int (length data), True, io', w\<lparr>Lib := l, Assocs := (Assocs w)(a \<mapsto> x\<lparr>InQueue := q\<rparr>)\<rparr>)"
proof -
  have w: "good (w\<lparr>Lib := l\<rparr>)" "Assocs (w\<lparr>Lib := l\<rparr>) a = Some x" using assms(1,2) by simp_all
  have peek: "bit (if c then set_flag (clear_flag (R_flags io) MSG_NOTIFICATION) MSG_UNORDERED
      else clear_flag (R_flags io) MSG_NOTIFICATION) (Suc 0)" for c
    using assms(6) by simp
  have "bit (R_flags io) (Suc 0)" using assms(6) by simp
  note unfold = recv_data_def assms(4,5,7) io'_def data_io_def Let_def peek this
  obtain q where "queue_inv q" "items q = n # ns"
    "update_queue (AssocQueue a) n (w\<lparr>Lib := l\<rparr>) = Inr (w\<lparr>Lib := l, Assocs := (Assocs (w\<lparr>Lib := l\<rparr>))(a \<mapsto> x\<lparr>InQueue := q\<rparr>)\<rparr>)"
    using update_queue_some [OF w assms(3)] by metis
  then show ?thesis using assms(5) by (intro exI [of _ q]) (simp add: unfold)
qed

lemma good_Lib_Assoc:
  "good w \<Longrightarrow> Assocs w a = Some x \<Longrightarrow> queue_inv q \<Longrightarrow> good (w\<lparr>Lib := l, Assocs := (Assocs w)(a \<mapsto> x\<lparr>InQueue := q\<rparr>)\<rparr>)"
  using good_Assocs [of "w\<lparr>Lib := l\<rparr>" "x\<lparr>InQueue := q\<rparr>" a] by (simp add: wfA_def)

lemma data_io_fields:
  assumes "io' = data_io e wa fl aid st pp data ssn tsn w io"
  shows "R_buffer io' = data" "R_bufferSize io' = length data" "R_assocID io' = aid"
    "R_streamID io' = st" "R_protoID io' = pp" "R_ssn io' = ssn" "R_tsn io' = tsn"
    "\<not> flag_set (R_flags io') MSG_NOTIFICATION" "flag_set (R_flags io') MSG_EOR = flag_set (R_flags io) MSG_EOR"
  by (simp_all add: assms data_io_def Let_def)

text \<open>
  C4. Receiving data. When the first notification of an association's queue announces \<open>b\<close> bytes,
  a receiving call passes the smaller of \<open>b\<close> and the buffer size, and whether it only peeks, to the SCTP
  implementation and hands its data out with the stream, protocol, SSN and TSN. While a part of
  the message is left, the notification stays first in the queue with the remaining number of
  bytes and the end-of-record flag is left alone; with the last part it is removed, the
  end-of-record flag is set and one use of the association ends. A peeking call hands out the same but leaves the
  notification as it is, the use counter, and the end-of-record flag, however much it returns. In each case the
  notification flag is cleared and the lock is released. The theorem is about a receive of the
  implementation that finds data and reports no event to the library meanwhile (the list of callbacks is empty).
\<close>

theorem data_delivery:
  assumes "good w" "Assocs w a = Some x" "Sockets w (Socket x) = Some y"
    "mm_find (AssociationID x) (AssociationList y) = Some a" "items (InQueue x) = n # ns"
    "sn_type (Content n) = SCTP_DATA_ARRIVE" "sn_body (Content n) = DataArrive (AssociationID x) st pp b"
    "b > 0" "R_bufferSize io > 0" "peek = flag_set (R_flags io) MSG_PEEK" "UseCount x > 0"
    "sctp_receive (SL e) (Lib w) (AssociationID x) st (min b (R_bufferSize io)) peek = (Some (data, ssn, tsn), l, [])"
  shows "\<exists>io' w' x'. Association_receiveFrom e (deliver e m) a wa io w = Inr (int (length data), io', w') \<and>
    good w' \<and> lstate w' = lstate w \<and> Lib w' = l \<and> Assocs w' = (Assocs w)(a \<mapsto> x') \<and>
    R_buffer io' = data \<and> R_bufferSize io' = length data \<and> R_assocID io' = AssociationID x \<and>
    R_streamID io' = st \<and> R_protoID io' = pp \<and> R_ssn io' = ssn \<and> R_tsn io' = tsn \<and>
    \<not> flag_set (R_flags io') MSG_NOTIFICATION \<and>
    flag_set (R_flags io') MSG_EOR = (flag_set (R_flags io) MSG_EOR \<or> \<not> peek \<and> b \<le> length data) \<and>
    items (InQueue x') =
      (if peek then n # ns else if length data < b then set_bytes_arrived n (b - length data) # ns else ns) \<and>
    UseCount x' = (if peek \<or> length data < b then UseCount x else UseCount x - 1)"
proof -
  let ?io = "io\<lparr>R_assocID := AssociationID x, R_streamID := - 1\<rparr>"
  let ?cb = "deliver e m"
  define io' where "io' = data_io e wa (sn_flags (Content n)) (AssociationID x) st pp data ssn tsn ((lock w)\<lparr>Lib := l\<rparr>) ?io"
  have w: "good (lock w)" "Assocs (lock w) a = Some x" using assms(1,2) by simp_all
  note d = recv_data_some [OF w assms(5,7,8), of ?io e data ssn tsn l io' wa ?cb]
  have start: "Association_receiveFrom e ?cb a wa io w =
    andThen (recv_data e ?cb (AssocQueue a) wa n ?io (lock w)) (\<lambda>(result, updated, io, w).
    andThen (if \<not> updated then recv_drop (Socket x) (AssocQueue a) (R_assocID io) w else Inr w) (\<lambda>w.
    andThen (unlock w) (\<lambda>w. Inr (result, io, w))))"
    using assms receive_first [OF assms(1,2,5), of ?io e ?cb "Socket x" wa "A_NotificationFlags x"]
    by (simp add: Association_receiveFrom_def exact)
  note io' = data_io_fields [OF io'_def, simplified]
  have waiting: ?thesis
    if "queue_inv q" "items q = (if peek then n else set_bytes_arrived n (b - length data)) # ns" "peek \<or> length data < b"
      "recv_data e ?cb (AssocQueue a) wa n ?io (lock w) =
        Inr (int (length data), True, io', (lock w)\<lparr>Lib := l, Assocs := (Assocs (lock w))(a \<mapsto> x\<lparr>InQueue := q\<rparr>)\<rparr>)" for q
  proof -
    let ?w = "(lock w)\<lparr>Lib := l, Assocs := (Assocs (lock w))(a \<mapsto> x\<lparr>InQueue := q\<rparr>)\<rparr>"
    have "good ?w" by (rule good_Lib_Assoc [OF w that(1)])
    then obtain w' where "unlock ?w = Inr w'" "good w'" "lstate w' = lstate w" "Assocs w' = Assocs ?w" "Lib w' = Lib ?w"
      by (rule unlock_back [of ?w w]) (use assms(1) in simp_all)
    then show ?thesis
      using that io' by (intro exI [of _ io'] exI [of _ w'] exI [of _ "x\<lparr>InQueue := q\<rparr>"]) (auto simp add: start)
  qed
  consider (peek) "peek" | (part) "\<not> peek" "length data < b" | (whole) "\<not> peek" "\<not> length data < b" by blast
  then show ?thesis
  proof cases
    case peek
    then show ?thesis
      using recv_data_peek [OF w assms(5,7,8), of ?io e data ssn tsn l io' wa ?cb] assms(10,12) io'_def waiting by auto
  next
    case part
    then show ?thesis using d(2) assms(10,12) io'_def waiting by auto
  next
    case whole
    let ?w = "(lock w)\<lparr>Lib := l\<rparr>" and ?io' = "io'\<lparr>R_flags := set_flag (R_flags io') MSG_EOR\<rparr>"
    have "recv_data e ?cb (AssocQueue a) wa n ?io (lock w) = Inr (int (length data), False, ?io', ?w)"
      using d(1) assms(10,12) io'_def whole by simp
    moreover obtain w1 x' where w1: "recv_drop (Socket x) (AssocQueue a) (AssociationID x) ?w = Inr w1" "good w1"
      "lstate w1 = lstate ?w" "Lib w1 = l" "Assocs w1 = (Assocs w)(a \<mapsto> x')"
      "items (InQueue x') = ns" "UseCount x' = UseCount x - 1"
      using assms w by (auto intro: recv_drop_some [of ?w a x "Socket x" y "AssociationID x" n ns])
    moreover from unlock_back [OF w1(2) _ assms(1)] w1(3) obtain w' where "unlock w1 = Inr w'" "good w'"
      "lstate w' = lstate w" "Assocs w' = Assocs w1" "Lib w' = Lib w1" by auto
    ultimately show ?thesis using io' whole
      by (intro exI [of _ ?io'] exI [of _ w'] exI [of _ x']) (simp add: start)
  qed
qed

text \<open>States whose association has a notification to read.\<close>

definition sample_queue :: "SCTPNotification \<Rightarrow> SCTPNotification nqueue" where
  "sample_queue n = (case addNotification queue_new n of Inl _ \<Rightarrow> queue_new | Inr q \<Rightarrow> q)"

lemma sample_queue: "queue_inv (sample_queue n)" "items (sample_queue n) = [n]"
  using nq.new_ok [where 'a = SCTPNotification] nq.add_ok [of "queue_new :: SCTPNotification nqueue" n]
  by (auto simp: sample_queue_def)

definition reader_assoc :: "SCTPNotification \<Rightarrow> SCTPAssociation" where
  "reader_assoc n = sample_assoc\<lparr>InQueue := sample_queue n, UseCount := 1\<rparr>"

definition reader_world :: "SCTPNotification \<Rightarrow> nat world" where
  "reader_world n = sample_world\<lparr>Assocs := (Assocs sample_world)(2 \<mapsto> reader_assoc n)\<rparr>"

lemma reader:
  "good (reader_world n)" "Assocs (reader_world n) 2 = Some (reader_assoc n)"
  "Sockets (reader_world n) 1 = Some sample_socket" "Socket (reader_assoc n) = 1"
  "AssociationID (reader_assoc n) = 7" "items (InQueue (reader_assoc n)) = [n]" "UseCount (reader_assoc n) = 1"
  "Lib (reader_world n) = 0" "A_NotificationFlags (reader_assoc n) = 63"
proof -
  have "wfA (reader_assoc n)" by (simp add: wfA_def reader_assoc_def sample_queue)
  then show "good (reader_world n)" unfolding reader_world_def by (rule good_Assocs [OF sample_good _ sample_objects(2)])
qed (simp_all add: reader_world_def reader_assoc_def sample_queue, simp_all add: sample_defs)

definition sample_io :: recv_io where
  "sample_io = \<lparr>R_buffer = [], R_bufferSize = 3, R_flags = 1, R_assocID = 0, R_streamID = 0, R_protoID = 0,
     R_ssn = 0, R_tsn = 0, R_address = None\<rparr>"

definition data_note :: SCTPNotification where
  "data_note = sample_notification\<lparr>Content := (Content sample_notification)\<lparr>sn_body := DataArrive 7 4 9 5\<rparr>\<rparr>"

theorem data_delivery_witness:
  "(\<exists>io' w' x'. Association_receiveFrom sample (deliver sample 0) 2 False sample_io (reader_world data_note) =
      Inr (3, io', w') \<and> R_buffer io' = [65, 65, 65] \<and> R_streamID io' = 4 \<and>
      Assocs w' 2 = Some x' \<and> items (InQueue x') = [set_bytes_arrived data_note 2] \<and> UseCount x' = 1) \<and>
   (\<exists>io' w' x'. Association_receiveFrom sample (deliver sample 0) 2 False (sample_io\<lparr>R_flags := MSG_PEEK\<rparr>) (reader_world data_note) =
      Inr (3, io', w') \<and> R_buffer io' = [65, 65, 65] \<and>
      Assocs w' 2 = Some x' \<and> items (InQueue x') = [data_note] \<and> UseCount x' = 1)"
proof -
  note r = reader [of data_note]
  have receive: "sctp_receive (SL sample) 0 7 4 3 p = (Some ([65, 65, 65], 1, 2), 0, [])" for p
    by (simp add: sample_defs numeral_3_eq_3)
  have announced: "sn_type (Content data_note) = SCTP_DATA_ARRIVE" "sn_body (Content data_note) = DataArrive 7 4 9 5"
    by (simp_all add: data_note_def sample_notification_def)
  have io: "R_bufferSize (sample_io\<lparr>R_flags := f\<rparr>) = 3" "R_bufferSize sample_io = 3" "\<not> flag_set (R_flags sample_io) MSG_PEEK"
    "flag_set MSG_PEEK MSG_PEEK" for f
    by (simp_all add: sample_io_def msg_defs flag_set_def del: flag_bits)
  show ?thesis
    using data_delivery [OF r(1,2), of sample_socket data_note "[]" 4 9 5 sample_io False sample "[65, 65, 65]" 1 2 0 0 False]
      data_delivery [OF r(1,2), of sample_socket data_note "[]" 4 9 5 "sample_io\<lparr>R_flags := MSG_PEEK\<rparr>" True sample "[65, 65, 65]" 1 2 0 0 False]
      r sample_objects(3) receive announced io by auto
qed

section \<open>Reading a notification in pieces\<close>

text \<open>What stays the same about an association and its socket while notifications are read.\<close>

definition attached :: "nat \<Rightarrow> SCTPAssociation \<Rightarrow> 'l world \<Rightarrow> bool" where
  "attached a x w = (good w \<and> Assocs w a = Some x \<and>
     (\<exists>y. Sockets w (Socket x) = Some y \<and> mm_find (AssociationID x) (AssociationList y) = Some a))"

definition readable :: "'l env \<Rightarrow> SCTPAssociation \<Rightarrow> SCTPNotification \<Rightarrow> bool" where
  "readable e x n = (sn_type (Content n) \<noteq> SCTP_DATA_ARRIVE \<and>
     notification_assoc_id (Content n) = Inr (AssociationID x) \<and>
     subscribed (A_NotificationFlags x) (sn_type (Content n)) \<and>
     ContentPosition n < sn_length (Content n) \<and> length (contentImage e (Content n)) = sn_length (Content n))"

lemma attached_update:
  "attached a x w \<Longrightarrow> queue_inv q \<Longrightarrow> attached a (x\<lparr>InQueue := q\<rparr>) (w\<lparr>Assocs := (Assocs w)(a \<mapsto> x\<lparr>InQueue := q\<rparr>)\<rparr>)"
  using good_Assocs [of w "x\<lparr>InQueue := q\<rparr>" a] by (auto simp: attached_def wfA_def)

lemma attached_lock: "attached a x w \<Longrightarrow> attached a x (lock w)"
  by (simp add: attached_def)

lemma attached_same:
  "attached a x v \<Longrightarrow> good w \<Longrightarrow> Assocs w = Assocs v \<Longrightarrow> Sockets w = Sockets v \<Longrightarrow> attached a x w"
  by (simp add: attached_def)

lemma attached_drop:
  assumes "attached a x w" "items (InQueue x) = n # ns" "UseCount x > 0"
  obtains w' x' where "recv_drop (Socket x) (AssocQueue a) (AssociationID x) w = Inr w'" "attached a x' w'"
    "lstate w' = lstate w" "items (InQueue x') = ns" "UseCount x' = UseCount x - 1"
    "AssociationID x' = AssociationID x" "A_NotificationFlags x' = A_NotificationFlags x"
proof -
  from assms(1) obtain y where y: "Sockets w (Socket x) = Some y" "mm_find (AssociationID x) (AssociationList y) = Some a"
    and w: "good w" "Assocs w a = Some x" by (auto simp: attached_def)
  show thesis
    apply (rule recv_drop_some [OF w y refl assms(2,3)])
    subgoal for w' x' y' by (rule that [of w' x']) (use y in \<open>auto simp: attached_def\<close>)
    done
qed

lemma read_step:
  assumes a: "attached a x w" and "items (InQueue x) = n # ns" "readable e x n" "UseCount x > 0" "R_bufferSize io > 0"
    and f: "flag_set (R_flags io) MSG_NOTIFICATION" "\<not> flag_set (R_flags io) MSG_PEEK" "\<not> flag_set (R_flags io) MSG_EOR"
  obtains io' w' x' r where "Association_receiveFrom e cb a wa io w = Inr (r, io', w')" "attached a x' w'"
    "lstate w' = lstate w" "AssociationID x' = AssociationID x" "A_NotificationFlags x' = A_NotificationFlags x"
    "R_buffer io' = take (R_bufferSize io) (drop (ContentPosition n) (contentImage e (Content n)))"
    "r = int (length (R_buffer io'))" "R_bufferSize io' = length (R_buffer io')"
    "flag_set (R_flags io') MSG_EOR = (sn_length (Content n) \<le> ContentPosition n + R_bufferSize io)"
    "sn_length (Content n) \<le> ContentPosition n + R_bufferSize io \<Longrightarrow> items (InQueue x') = ns \<and> UseCount x' = UseCount x - 1"
    "ContentPosition n + R_bufferSize io < sn_length (Content n) \<Longrightarrow> UseCount x' = UseCount x \<and>
       items (InQueue x') = n\<lparr>ContentPosition := ContentPosition n + R_bufferSize io\<rparr> # ns"
proof -
  let ?io = "io\<lparr>R_assocID := AssociationID x, R_streamID := - 1\<rparr>"
  let ?p = "ContentPosition n" and ?c = "R_bufferSize io" and ?len = "sn_length (Content n)"
  let ?im = "contentImage e (Content n)"
  have g: "good w" "Assocs w a = Some x" using a by (simp_all add: attached_def)
  have wl: "good (lock w)" "Assocs (lock w) a = Some x" using g by simp_all
  have p: "\<not> bit (R_flags io) (Suc 0)" "bit (R_flags io) 0" "\<not> bit (R_flags io) 7" using f by simp_all
  note start = receive_first [OF g assms(2), of ?io e cb "Socket x" wa "A_NotificationFlags x"]
  have copied: "take (min (?len - ?p) ?c) (drop ?p ?im) = take ?c (drop ?p ?im)"
    using assms(3) by (auto simp: readable_def min_def)
  show thesis
  proof (cases "?len \<le> ?p + ?c")
    case True
    let ?io' = "?io\<lparr>R_buffer := take ?c (drop ?p ?im), R_bufferSize := ?len - ?p,
        R_flags := set_flag (R_flags io) (MSG_EOR OR MSG_NOTIFICATION)\<rparr>"
    have m: "min (?len - ?p) ?c = ?len - ?p" using True by simp
    obtain w1 x' where w1: "recv_drop (Socket x) (AssocQueue a) (AssociationID x) (lock w) = Inr w1" "attached a x' w1"
      "lstate w1 = lstate (lock w)" "items (InQueue x') = ns" "UseCount x' = UseCount x - 1"
      "AssociationID x' = AssociationID x" "A_NotificationFlags x' = A_NotificationFlags x"
      by (rule attached_drop [OF attached_lock [OF a] assms(2,4)])
    have "good w1" using w1(2) by (simp add: attached_def)
    then obtain w' where w': "unlock w1 = Inr w'" "good w'" "lstate w' = lstate w" "Assocs w' = Assocs w1" "Sockets w' = Sockets w1"
      by (rule unlock_back [OF _ w1(3) g(1)])
    have "recv_notification e (Socket x) (AssocQueue a) (A_NotificationFlags x) n ?io (lock w) =
        Inr (int (?len - ?p), False, ?io', lock w)"
      using assms(3) True p copied m by (simp add: recv_notification_def readable_def Let_def)
    then have r: "Association_receiveFrom e cb a wa io w = Inr (int (?len - ?p), ?io', w')"
      using start assms(3,5) g w1(1) w'(1)
      by (simp add: Association_receiveFrom_def exact readable_def)
    show thesis
      by (rule that [OF r attached_same [OF w1(2) w'(2,4,5)] w'(3)])
        (use w1 True assms(3) in \<open>auto simp: readable_def\<close>)
  next
    case False
    let ?n = "n\<lparr>ContentPosition := ?p + ?c\<rparr>"
    let ?io' = "?io\<lparr>R_buffer := take ?c (drop ?p ?im), R_bufferSize := ?c,
        R_flags := set_flag (R_flags io) MSG_NOTIFICATION\<rparr>"
    have m: "min (?len - ?p) ?c = ?c" using False by simp
    obtain q where q: "queue_inv q" "items q = ?n # ns" "update_queue (AssocQueue a) ?n (lock w) =
        Inr ((lock w)\<lparr>Assocs := (Assocs (lock w))(a \<mapsto> x\<lparr>InQueue := q\<rparr>)\<rparr>)"
      by (rule update_queue_some [OF wl assms(2)])
    let ?w = "(lock w)\<lparr>Assocs := (Assocs (lock w))(a \<mapsto> x\<lparr>InQueue := q\<rparr>)\<rparr>"
    have at: "attached a (x\<lparr>InQueue := q\<rparr>) ?w" by (rule attached_update [OF attached_lock [OF a] q(1)])
    then have "good ?w" by (simp add: attached_def)
    then obtain w' where w': "unlock ?w = Inr w'" "good w'" "lstate w' = lstate w" "Assocs w' = Assocs ?w" "Sockets w' = Sockets ?w"
      by (rule unlock_back [of ?w w]) (use g in simp_all)
    have "recv_notification e (Socket x) (AssocQueue a) (A_NotificationFlags x) n ?io (lock w) =
        Inr (int ?c, True, ?io', ?w)"
      using assms(3) False p copied m q(3) by (simp add: recv_notification_def readable_def Let_def)
    then have r: "Association_receiveFrom e cb a wa io w = Inr (int ?c, ?io', w')"
      using start assms(3,5) g w'(1)
      by (simp add: Association_receiveFrom_def exact readable_def)
    show thesis
      by (rule that [OF r attached_same [OF at w'(2,4,5)] w'(3)])
        (use q(2) p False assms(3) in \<open>auto simp: readable_def\<close>)
  qed
qed

text \<open>An application that reads with buffers of the given sizes until the end of a record.\<close>

fun read_pieces ::
  "'l env \<Rightarrow> 'l callback \<Rightarrow> nat \<Rightarrow> recv_io \<Rightarrow> nat list \<Rightarrow> 'l world \<Rightarrow> ((byte list \<times> bool) \<times> 'l world) result" where
  "read_pieces e cb a io [] w = Inr (([], False), w)"
| "read_pieces e cb a io (sz # szs) w =
     andThen (Association_receiveFrom e cb a False (io\<lparr>R_bufferSize := sz\<rparr>) w) (\<lambda>(_, io', w).
     if flag_set (R_flags io') MSG_EOR then Inr ((R_buffer io', True), w)
     else andThen (read_pieces e cb a io szs w) (\<lambda>((bs, eor), w). Inr ((R_buffer io' @ bs, eor), w)))"

lemma read_pieces_ok:
  assumes "attached a x w" "items (InQueue x) = n # ns" "readable e x n" "UseCount x > 0" "\<forall>sz \<in> set szs. sz > 0"
    and f: "flag_set (R_flags io) MSG_NOTIFICATION" "\<not> flag_set (R_flags io) MSG_PEEK" "\<not> flag_set (R_flags io) MSG_EOR"
  shows "\<exists>w' x'. read_pieces e cb a io szs w =
      Inr ((take (sum_list szs) (drop (ContentPosition n) (contentImage e (Content n))),
            sn_length (Content n) \<le> ContentPosition n + sum_list szs), w') \<and>
    good w' \<and> lstate w' = lstate w \<and> Assocs w' a = Some x' \<and>
    (if sn_length (Content n) \<le> ContentPosition n + sum_list szs
     then items (InQueue x') = ns \<and> UseCount x' = UseCount x - 1
     else items (InQueue x') = n\<lparr>ContentPosition := ContentPosition n + sum_list szs\<rparr> # ns \<and> UseCount x' = UseCount x)"
  using assms(1-5)
proof (induction szs arbitrary: w x n)
  case Nil
  then show ?case by (auto simp: readable_def attached_def)
next
  case (Cons sz szs)
  let ?io = "io\<lparr>R_bufferSize := sz\<rparr>" and ?im = "contentImage e (Content n)" and ?p = "ContentPosition n"
  have "R_bufferSize ?io > 0" using Cons.prems(5) by simp
  then obtain io' w1 x1 r where s: "Association_receiveFrom e cb a False ?io w = Inr (r, io', w1)" "attached a x1 w1"
    "lstate w1 = lstate w" "AssociationID x1 = AssociationID x" "A_NotificationFlags x1 = A_NotificationFlags x"
    "R_buffer io' = take sz (drop ?p ?im)"
    "flag_set (R_flags io') MSG_EOR = (sn_length (Content n) \<le> ?p + sz)"
    and whole: "sn_length (Content n) \<le> ?p + sz \<Longrightarrow> items (InQueue x1) = ns \<and> UseCount x1 = UseCount x - 1"
    and part: "?p + sz < sn_length (Content n) \<Longrightarrow> UseCount x1 = UseCount x \<and>
       items (InQueue x1) = n\<lparr>ContentPosition := ?p + sz\<rparr> # ns"
    using f by - (rule read_step [OF Cons.prems(1-4), of ?io cb False], auto)
  show ?case
  proof (cases "sn_length (Content n) \<le> ?p + sz")
    case True
    then have "take (sz + sum_list szs) (drop ?p ?im) = take sz (drop ?p ?im)"
      using Cons.prems(3) by (simp add: readable_def)
    then show ?thesis
      using True s whole by (intro exI [of _ w1] exI [of _ x1]) (simp add: attached_def)
  next
    case False
    let ?n = "n\<lparr>ContentPosition := ?p + sz\<rparr>"
    have "readable e x1 ?n" using Cons.prems(3) s(4,5) False by (simp add: readable_def)
    moreover have "items (InQueue x1) = ?n # ns" "UseCount x1 > 0" using part False Cons.prems(4) by auto
    ultimately obtain w' x' where ih: "read_pieces e cb a io szs w1 =
        Inr ((take (sum_list szs) (drop (?p + sz) ?im), sn_length (Content n) \<le> ?p + sz + sum_list szs), w')"
      "good w'" "lstate w' = lstate w1" "Assocs w' a = Some x'"
      "if sn_length (Content n) \<le> ?p + sz + sum_list szs
       then items (InQueue x') = ns \<and> UseCount x' = UseCount x1 - 1
       else items (InQueue x') = n\<lparr>ContentPosition := ?p + sz + sum_list szs\<rparr> # ns \<and> UseCount x' = UseCount x1"
      using Cons.IH [OF s(2), of ?n] Cons.prems(5) by auto
    have "take (sz + sum_list szs) (drop ?p ?im) = take sz (drop ?p ?im) @ take (sum_list szs) (drop (?p + sz) ?im)"
      by (simp add: take_add add.commute)
    then show ?thesis
      using ih s False part by (intro exI [of _ w'] exI [of _ x']) (simp add: add.assoc)
  qed
qed

text \<open>
  C6. Reading a notification piecewise. A subscribed notification at the head of an
  association's queue is delivered completely and in order whatever the buffer sizes are: reading
  with the sizes \<open>szs\<close> yields the first \<open>sum_list szs\<close> of the bytes still unread, and the
  end-of-record flag exactly when they are all. Until then the notification stays first in the
  queue with its position advanced; at the end it is removed and one use of the association ends.
  No byte is lost, repeated or invented.
\<close>

theorem notification_read_in_pieces:
  assumes "attached a x w" "items (InQueue x) = n # ns" "readable e x n" "UseCount x > 0" "\<forall>sz \<in> set szs. sz > 0"
    "flag_set (R_flags io) MSG_NOTIFICATION" "\<not> flag_set (R_flags io) MSG_PEEK" "\<not> flag_set (R_flags io) MSG_EOR"
  shows "\<exists>w' x'. read_pieces e cb a io szs w =
      Inr ((take (sum_list szs) (drop (ContentPosition n) (contentImage e (Content n))),
            sn_length (Content n) \<le> ContentPosition n + sum_list szs), w') \<and>
    good w' \<and> lstate w' = lstate w \<and> Assocs w' a = Some x' \<and>
    (if sn_length (Content n) \<le> ContentPosition n + sum_list szs
     then items (InQueue x') = ns \<and> UseCount x' = UseCount x - 1
     else items (InQueue x') = n\<lparr>ContentPosition := ContentPosition n + sum_list szs\<rparr> # ns \<and> UseCount x' = UseCount x)"
  using assms by (rule read_pieces_ok)

definition change_note :: SCTPNotification where
  "change_note = assocChange SCTP_COMM_UP 1 1 7 (rawNotification sample)"

lemma reader_attached: "attached 2 (reader_assoc n) (reader_world n)"
  using sample_objects(3) reader by (simp add: attached_def)

lemma change_note_readable: "readable sample (reader_assoc n) change_note"
proof -
  have c: "Content change_note = \<lparr>sn_type = SCTP_ASSOC_CHANGE, sn_flags = 0, sn_length = 20,
      sn_body = AssocChange SCTP_COMM_UP 0 1 1 7\<rparr>" "ContentPosition change_note = 0"
    by (simp_all add: change_note_def assocChange_def with_content_def sizeof_sctp_assoc_change_def sample_def)
  have "contentImage sample (Content change_note) = replicate 20 66" by (simp add: sample_def c)
  then show ?thesis
    by (simp add: readable_def c notification_assoc_id_def subscribed_def reader
        SCTP_ASSOC_CHANGE_def SCTP_DATA_ARRIVE_def SCTP_REMOTE_ERROR_def SCTP_RECVASSOCEVNT_def flag_set_def)
qed

theorem notification_read_in_pieces_witness:
  "\<exists>w' x'. read_pieces sample (deliver sample 0) 2 sample_io [8, 8] (reader_world change_note) =
      Inr ((replicate 16 66, False), w') \<and> Assocs w' 2 = Some x' \<and>
      items (InQueue x') = [change_note\<lparr>ContentPosition := 16\<rparr>]"
proof -
  have c: "sn_length (Content change_note) = 20" "ContentPosition change_note = 0"
    "contentImage sample (Content change_note) = replicate 20 66"
    by (simp_all add: change_note_def assocChange_def with_content_def sizeof_sctp_assoc_change_def sample_def)
  have f: "flag_set (R_flags sample_io) MSG_NOTIFICATION" "\<not> flag_set (R_flags sample_io) MSG_PEEK"
    "\<not> flag_set (R_flags sample_io) MSG_EOR" by (simp_all add: sample_io_def)
  show ?thesis
    using notification_read_in_pieces [OF reader_attached reader(6) change_note_readable _ _ f,
        where szs = "[8, 8]" and cb = "deliver sample 0"]
    by (auto simp: reader c min_def simp del: deliver.simps read_pieces.simps)
qed

section \<open>Send failures\<close>

lemma initNotification_position: "initNotification e k st w = Inr (b, m) \<Longrightarrow> ContentPosition m = 0"
  by (auto simp: initNotification_def Let_def andThen_eq_Inr split: option.splits)

definition failure_note :: "card32 \<Rightarrow> SCTPNotification \<Rightarrow> SCTPNotification" where
  "failure_note k m = with_content m SCTP_REMOTE_ERROR 0 sizeof_sctp_send_failed (SendFailed 0 0 0 k)"

lemma failure_note:
  "sn_type (Content (failure_note k m)) = SCTP_REMOTE_ERROR" "sn_length (Content (failure_note k m)) = 48"
  "ContentPosition (failure_note k m) = ContentPosition m" "notification_assoc_id (Content (failure_note k m)) = Inr 0"
  "wanted f (failure_note k m) = flag_set f SCTP_RECVPEERERR" "subscribed f SCTP_REMOTE_ERROR = flag_set f SCTP_RECVPEERERR"
  by (simp_all add: failure_note_def with_content_def sizeof_sctp_send_failed_def notification_assoc_id_def
      wanted_def subscribed_def SCTP_REMOTE_ERROR_def SCTP_DATA_ARRIVE_def SCTP_ASSOC_CHANGE_def
      SCTP_PEER_ADDR_CHANGE_def SCTP_SEND_FAILED_def SCTP_SHUTDOWN_EVENT_def)

lemma read_failure_note:
  assumes "good w" "Assocs w a = Some x" "Sockets w (Socket x) = Some y" "mm_find 0 (AssociationList y) = None"
    "items (InQueue x) = [failure_note k m]" "ContentPosition m = 0" "flag_set (A_NotificationFlags x) SCTP_RECVPEERERR"
    "flag_set (R_flags io) MSG_NOTIFICATION" "\<not> flag_set (R_flags io) MSG_PEEK" "R_bufferSize io \<ge> 48"
  obtains io' w' x' where "Association_receiveFrom e cb a wa io w = Inr (48, io', w')" "R_assocID io' = 0"
    "flag_set (R_flags io') MSG_EOR" "Assocs w' a = Some x'" "items (InQueue x') = []" "UseCount x' = UseCount x"
proof -
  let ?io = "io\<lparr>R_assocID := AssociationID x, R_streamID := - 1\<rparr>" and ?n = "failure_note k m"
  have w: "good (lock w)" "Assocs (lock w) a = Some x" using assms(1,2) by simp_all
  obtain q where q: "queue_inv q" "items q = []" "drop_queue (AssocQueue a) (lock w) =
      Inr ((lock w)\<lparr>Assocs := (Assocs (lock w))(a \<mapsto> x\<lparr>InQueue := q\<rparr>)\<rparr>)"
    by (rule drop_queue_some [OF w assms(5)])
  obtain y' where d: "recv_drop (Socket x) (AssocQueue a) 0 (lock w) = Inr ((lock w)\<lparr>Assocs :=
      (Assocs w)(a \<mapsto> x\<lparr>InQueue := q\<rparr>), Sockets := (Sockets w)(Socket x \<mapsto> y')\<rparr>)"
    using assms(1-4) q good_queue(2) [OF assms(1,3)] lock_inv_lock [of w] by (simp add: recv_drop_def exact)
  let ?w = "(lock w)\<lparr>Assocs := (Assocs w)(a \<mapsto> x\<lparr>InQueue := q\<rparr>), Sockets := (Sockets w)(Socket x \<mapsto> y')\<rparr>"
  have "holds (\<lambda>v. good v \<and> lstate v = lstate (lock w)) (recv_drop (Socket x) (AssocQueue a) 0 (lock w))"
    using w by (auto intro!: contract)
  then have g: "good ?w" "lstate ?w = lstate (lock w)" by (simp_all add: d)
  obtain w' where w': "unlock ?w = Inr w'" "Assocs w' = Assocs ?w" by (rule unlock_back [OF g assms(1)])
  have p: "\<not> bit (R_flags io) (Suc 0)" "bit (R_flags io) 0" using assms(8,9) by simp_all
  let ?io' = "?io\<lparr>R_assocID := 0, R_buffer := take 48 (contentImage e (Content ?n)), R_bufferSize := 48,
      R_flags := set_flag (R_flags io) (MSG_EOR OR MSG_NOTIFICATION)\<rparr>"
  have m: "min 48 (R_bufferSize io) = 48" using assms(10) by simp
  have "recv_notification e (Socket x) (AssocQueue a) (A_NotificationFlags x) ?n ?io (lock w) =
      Inr (48, False, ?io', lock w)"
    using assms(6,7) p m by (simp add: recv_notification_def failure_note Let_def)
  then have "Association_receiveFrom e cb a wa io w = Inr (48, ?io', w')"
    using receive_first [OF assms(1,2,5), of ?io e cb "Socket x" wa "A_NotificationFlags x"] assms(2,10) d w'(1)
    by (simp add: Association_receiveFrom_def exact failure_note SCTP_REMOTE_ERROR_def SCTP_DATA_ARRIVE_def)
  then show thesis by (rule that [of ?io' w' "x\<lparr>InQueue := q\<rparr>"]) (use q(2) w'(2) in auto)
qed

text \<open>
  A send failure is not reported as one. The callback labels its notification as a remote
  error: an association that subscribed to send failures but not to remote errors gets nothing,
  and one that subscribed to remote errors reads a record of the length of a send failure whose
  association is 0. Since the reader then ends the use of association 0, the use the
  notification counted for its association is never given back: after reading everything the use
  counter is one higher than before, and automatic closing never sees the association unused.
\<close>

theorem send_failure_mislabelled:
  assumes "good w" "Assocs w a = Some x" "Sockets w (Socket x) = Some y"
    "mm_find (AssociationID x) (AssociationList y) = Some a" "mm_find 0 (AssociationList y) = None"
    "\<not> usesGlobalQueue y x" "items (InQueue x) = []"
    "getSocketForAssociationID e (AssociationID x) w = Some (Socket x)"
    "initNotification e (AssociationID x) 0 w = Inr (b, m)"
    "flag_set (R_flags io) MSG_NOTIFICATION" "\<not> flag_set (R_flags io) MSG_PEEK" "R_bufferSize io \<ge> 48"
  shows "\<exists>w1 x1. sendFailureNotif e (AssociationID x) w = Inr w1 \<and> Assocs w1 a = Some x1 \<and>
    (if flag_set (A_NotificationFlags x) SCTP_RECVPEERERR
     then \<exists>io' w2 x2. Association_receiveFrom e cb a wa io w1 = Inr (48, io', w2) \<and> R_assocID io' = 0 \<and>
        flag_set (R_flags io') MSG_EOR \<and> Assocs w2 a = Some x2 \<and> items (InQueue x2) = [] \<and>
        UseCount x2 = UseCount x + 1
     else items (InQueue x1) = [] \<and> UseCount x1 = UseCount x)"
proof -
  let ?n = "failure_note (AssociationID x) m"
  have "sendFailureNotif e (AssociationID x) w = Master_addNotification (Socket x) (AssociationID x) ?n w"
    using assms(8,9) by (simp add: sendFailureNotif_def failure_note_def)
  moreover obtain w1 x1 y1 where w1: "Master_addNotification (Socket x) (AssociationID x) ?n w = Inr w1"
    "good w1" "Assocs w1 a = Some x1" "Sockets w1 (Socket x) = Some y1" "AssociationList y1 = AssociationList y"
    "Socket x1 = Socket x" "A_NotificationFlags x1 = A_NotificationFlags x"
    "items (InQueue x1) = (if flag_set (A_NotificationFlags x) SCTP_RECVPEERERR then [?n] else [])"
    "UseCount x1 = UseCount x + (if flag_set (A_NotificationFlags x) SCTP_RECVPEERERR then 1 else 0)"
    apply (rule Master_addNotification_some [OF assms(1,3,4,2), where n = ?n])
    subgoal premises p for w1 x1 y1
    proof (rule that [of w1 x1 y1])
      show "Socket x1 = Socket x" "A_NotificationFlags x1 = A_NotificationFlags x"
        using arg_cong [OF p(18), of Socket] arg_cong [OF p(18), of A_NotificationFlags] by simp_all
    qed (use p assms(6,7) in \<open>simp_all add: failure_note\<close>)
    done
  moreover have "\<exists>io' w2 x2. Association_receiveFrom e cb a wa io w1 = Inr (48, io', w2) \<and> R_assocID io' = 0 \<and>
      flag_set (R_flags io') MSG_EOR \<and> Assocs w2 a = Some x2 \<and> items (InQueue x2) = [] \<and> UseCount x2 = UseCount x + 1"
    if "flag_set (A_NotificationFlags x) SCTP_RECVPEERERR"
    by (rule read_failure_note [of w1 a x1 y1 "AssociationID x" m io e cb wa])
      (use w1 assms that initNotification_position [OF assms(9)] in auto)
  ultimately show ?thesis by auto
qed

definition peeled_world :: "nat world" where
  "peeled_world = sample_world\<lparr>Assocs := (Assocs sample_world)(2 \<mapsto> sample_assoc\<lparr>PeeledOff := True\<rparr>)\<rparr>"

lemma peeled_good: "good peeled_world"
  unfolding peeled_world_def
  by (rule good_Assocs [OF sample_good _ sample_objects(2)]) (use good_queue(1) [OF sample_good sample_objects(2)] in \<open>simp add: wfA_def\<close>)

theorem send_failure_mislabelled_witness:
  "\<exists>w1 io' w2 x2. sendFailureNotif sample 7 peeled_world = Inr w1 \<and>
     Association_receiveFrom sample (deliver sample 0) 2 False (sample_io\<lparr>R_bufferSize := 100\<rparr>) w1 = Inr (48, io', w2) \<and>
     R_assocID io' = 0 \<and> Assocs w2 2 = Some x2 \<and> UseCount x2 = 1"
proof -
  let ?x = "sample_assoc\<lparr>PeeledOff := True\<rparr>" and ?io = "sample_io\<lparr>R_bufferSize := 100\<rparr>"
  have x: "Assocs peeled_world 2 = Some ?x" "Sockets peeled_world (Socket ?x) = Some sample_socket"
    "mm_find (AssociationID ?x) (AssociationList sample_socket) = Some 2"
    "mm_find 0 (AssociationList sample_socket) = None" "\<not> usesGlobalQueue sample_socket ?x" "UseCount ?x = 0"
    "items (InQueue ?x) = []" "getSocketForAssociationID sample (AssociationID ?x) peeled_world = Some (Socket ?x)"
    "AssociationID ?x = 7" "flag_set (A_NotificationFlags ?x) SCTP_RECVPEERERR"
    using sample_objects(5)
    by (simp_all add: peeled_world_def usesGlobalQueue_def getSocketForAssociationID_def sample_defs
        flag_set_def SCTP_RECVPEERERR_def)
  obtain m where m: "initNotification sample (AssociationID ?x) 0 peeled_world = Inr (True, m)"
    by (simp add: initNotification_def Let_def sample_defs peeled_world_def sample_status_def pathID_def)
  have f: "flag_set (R_flags ?io) MSG_NOTIFICATION" "\<not> flag_set (R_flags ?io) MSG_PEEK" "48 \<le> R_bufferSize ?io"
    by (simp_all add: sample_io_def)
  show ?thesis
    using send_failure_mislabelled [OF peeled_good x(1-5,7,8) m f, of "deliver sample 0" False] x(6,9,10)
    by (auto simp del: deliver.simps)
qed

end
