(* ===== verification/SendLaws.thy ===== *)
theory SendLaws
  imports Exact Samples
begin

text \<open>
  Sending: the result of a send call, waiting for room in the send queue, and the packets queued
  before an association is up.
\<close>

section \<open>One send call\<close>

lemma send_loop_once:
  assumes "lock_inv w" "\<not> (dest \<noteq> None \<and> flag_set flags MSG_ADDR_OVER)"
    "sctp_send_private (SL e) (Lib w) k st buf pid (sctp_getPrimary (SL e) (Lib w) k) ttl
       (flag_set flags MSG_UNORDERED) (flag_set flags MSG_UNBUNDLED) = (r, l, [])"
    "r \<noteq> SCTP_QUEUE_EXCEEDED (SL e) \<or> flag_set flags MSG_DONTWAIT"
  shows "send_loop e cb buf flags k st pid ttl wc dest (Suc n) w = Inr (r, (touched w)\<lparr>Lib := l\<rparr>)"
  using assms by (auto simp: exact lock_updates Let_def)

lemma internalSend_once:
  assumes "lock_inv w" "Sockets w s = Some y" "mm_find k (AssociationList y) = Some a" "Assocs w a = Some x"
    "\<not> ShutdownCompleteNotification x" "\<not> CommunicationLostNotification x"
    "\<not> (dest \<noteq> None \<and> flag_set flags MSG_ADDR_OVER)"
    "sctp_send_private (SL e) (Lib w) k st buf pid (sctp_getPrimary (SL e) (Lib w) k) ttl
       (flag_set flags MSG_UNORDERED) (flag_set flags MSG_UNBUNDLED) = (r, l, [])"
    "r \<noteq> SCTP_QUEUE_EXCEEDED (SL e) \<or> flag_set flags MSG_DONTWAIT"
  shows "internalSend e cb s buf flags k st pid ttl wc dest w =
    Inr (send_result e r (length buf), (touched w)\<lparr>Lib := l,
      Sockets := (Sockets w)(s \<mapsto> y\<lparr>S_WriteReady := (r \<noteq> SCTP_QUEUE_EXCEEDED (SL e))\<rparr>)\<rparr>)"
proof -
  have "send_loop e cb buf flags k st pid ttl wc dest (length (Future (touched w)) + 2) (touched w) =
      Inr (r, (touched w)\<lparr>Lib := l\<rparr>)"
    using send_loop_once [of "touched w" dest flags e k st buf pid ttl r l cb wc "length (Future w) + 1"] assms by simp
  then show ?thesis
    using getErrorCode_ok [OF assms(1-6)] assms(2) by (simp add: internalSend_def exact del: send_loop.simps)
qed

section \<open>Blocking\<close>

lemma holds_then: "(\<And>x. holds P (f x)) \<Longrightarrow> holds P (andThen r f)"
  by (cases r) auto

lemma send_loop_holds:
  "\<not> flag_set flags MSG_DONTWAIT \<Longrightarrow>
   holds (\<lambda>(r, w'). r \<noteq> SCTP_QUEUE_EXCEEDED (SL e)) (send_loop e cb buf flags k st pid ttl wc dest n w)"
proof (induction n arbitrary: w)
  case (Suc n)
  show ?case
    unfolding send_loop.simps Let_def
    by (intro holds_then holds_prod holds_if) (use Suc in auto)
qed simp

lemma send_loop_result:
  "send_loop e cb buf flags k st pid ttl wc dest n w = Inr (r, w') \<Longrightarrow> \<not> flag_set flags MSG_DONTWAIT \<Longrightarrow>
   r \<noteq> SCTP_QUEUE_EXCEEDED (SL e)"
  using send_loop_holds [of flags e cb buf k st pid ttl wc dest n w] by simp

lemma internalSend_result:
  assumes "internalSend e cb s buf flags k st pid ttl wc dest w = Inr (r, w')"
  obtains "getErrorCode s k w = Inr (r, w')" "r \<noteq> 0"
  | v n t u where "send_loop e cb buf flags k st pid ttl wc dest n v = Inr (t, u)"
      "updS s (\<lambda>x. x\<lparr>S_WriteReady := (t \<noteq> SCTP_QUEUE_EXCEEDED (SL e))\<rparr>) u = Inr w'" "r = send_result e t (length buf)"
  using assms by (auto simp: internalSend_def andThen_eq_Inr simp del: send_loop.simps split: if_splits)

lemma getErrorCode_sign:
  "getErrorCode s k w = Inr (c, v) \<Longrightarrow> c \<le> 0 \<and> c \<noteq> - ENOBUFS"
  by (auto simp: getErrorCode_def errno_defs andThen_eq_Inr split: option.splits if_splits)

text \<open>
  C7. Sending and a full queue. A blocking send never reports a full queue: when it returns, it
  returns the number of bytes sent or an error other than \<^verbatim>\<open>ENOBUFS\<close>. A send reports
  \<^verbatim>\<open>ENOBUFS\<close> only together with marking the socket as not ready for writing, and a send that
  is accepted reports the length of the whole message and marks the socket as ready.
\<close>

theorem blocking_send_waits:
  assumes "internalSend e cb s buf flags k st pid ttl wc dest w = Inr (r, w')"
    and "SCTP_QUEUE_EXCEEDED (SL e) \<noteq> 0"
  shows "(\<not> flag_set flags MSG_DONTWAIT \<longrightarrow> r \<noteq> - ENOBUFS) \<and>
    (r = - ENOBUFS \<longrightarrow> (\<exists>y. Sockets w' s = Some y \<and> \<not> S_WriteReady y)) \<and>
    (r \<ge> 0 \<longrightarrow> r = int (length buf) \<and> (\<exists>y. Sockets w' s = Some y \<and> S_WriteReady y))"
  using assms(1)
proof (cases rule: internalSend_result)
  case 1
  then show ?thesis using getErrorCode_sign [OF 1(1)] by auto
next
  case (2 v n t u)
  have "t \<noteq> SCTP_QUEUE_EXCEEDED (SL e)" if "\<not> flag_set flags MSG_DONTWAIT"
    using send_loop_result [OF 2(1) that] .
  moreover have "\<exists>y. Sockets w' s = Some y \<and> S_WriteReady y = (t \<noteq> SCTP_QUEUE_EXCEEDED (SL e))"
    using 2(2) by (auto simp: updS_def getS_def andThen_eq_Inr ofOption_eq_Inr)
  ultimately show ?thesis
    using assms(2) unfolding 2(3) by (auto simp: send_result_def errno_defs split: if_splits)
qed

lemma sample_internalSend:
  "internalSend sample (deliver sample 0) 1 buf flags 7 0 0 0 c None sample_world =
     Inr (int (length buf), (touched sample_world)\<lparr>Lib := 0,
       Sockets := (Sockets sample_world)(1 \<mapsto> sample_socket\<lparr>S_WriteReady := True\<rparr>)\<rparr>)"
proof -
  have q: "SCTP_QUEUE_EXCEEDED (SL sample) = 16" "Lib sample_world = 0" by (simp_all add: sample_defs)
  have "internalSend sample (deliver sample 0) 1 buf flags 7 0 0 0 c None sample_world =
    Inr (send_result sample 0 (length buf), (touched sample_world)\<lparr>Lib := 0,
      Sockets := (Sockets sample_world)(1 \<mapsto> sample_socket\<lparr>S_WriteReady := (0 \<noteq> SCTP_QUEUE_EXCEEDED (SL sample))\<rparr>)\<rparr>)"
    by (rule internalSend_once [where a = 2 and x = sample_assoc])
       (simp_all add: sample_defs lock_inv_def)
  then show ?thesis by (simp add: q send_result_def)
qed

theorem blocking_send_waits_witness:
  "\<exists>w'. internalSend sample (deliver sample 0) 1 [1, 2, 3] 0 7 0 0 0 None None sample_world = Inr (3, w') \<and>
     (\<exists>y. Sockets w' 1 = Some y \<and> S_WriteReady y)"
proof -
  have s: "internalSend sample (deliver sample 0) 1 [1, 2, 3] 0 7 0 0 0 None None sample_world =
     Inr (3, (touched sample_world)\<lparr>Lib := 0,
       Sockets := (Sockets sample_world)(1 \<mapsto> sample_socket\<lparr>S_WriteReady := True\<rparr>)\<rparr>)"
    using sample_internalSend [of "[1, 2, 3]" 0] by simp
  have "SCTP_QUEUE_EXCEEDED (SL sample) \<noteq> 0" by (simp add: sample_def sample_lib_def)
  note r = blocking_send_waits [OF s this, THEN conjunct2, THEN conjunct2, rule_format]
  show ?thesis by (intro exI [of _ "(touched sample_world)\<lparr>Lib := 0, Sockets :=
      (Sockets sample_world)(1 \<mapsto> sample_socket\<lparr>S_WriteReady := True\<rparr>)\<rparr>"] conjI s) (use r in simp)
qed

end
