(* ===== verification/LockLaws.thy ===== *)
theory LockLaws
  imports DeliveryLaws SendLaws
begin

text \<open>
  The lock discipline: which operations return with the lock as they found it, and which leak it.
\<close>

text \<open>A state after an operation that kept the contract and neither created nor destroyed a socket.\<close>

definition keeps :: "'l world \<Rightarrow> 'l world \<Rightarrow> bool" where
  "keeps w w' = (good w' \<and> LockLevel w' = LockLevel w \<and> CancelEnabled w' = CancelEnabled w \<and>
     dom (Sockets w') = dom (Sockets w))"

lemma keepsI: "good w' \<Longrightarrow> lstate w' = lstate w \<Longrightarrow> keeps w w'"
  by (simp add: keeps_def lstate_def)

lemma keeps_removedI:
  "good w' \<Longrightarrow> lstate w' = removeSocket s (lstate w) \<Longrightarrow> keeps (w\<lparr>Sockets := (Sockets w)(s := None)\<rparr>) w'"
  by (simp add: keeps_def lstate_def removeSocket_def)

text \<open>
  C3. Callbacks keep the contract. Whatever a notification callback does -- and it may call the
  SCTP implementation, which may call back again, to any depth -- if it returns, then the lock
  level and the cancellation state of the thread are those before the call, every queue is still a
  sound list, no cycle was made among the conditions, the tables of the master and of all
  sockets are ordered, and the same sockets exist.
\<close>

theorem callbacks_keep_contract:
  assumes "good w" "deliver e n ev w = Inr w'"
  shows "keeps w w'"
  using deliver_contract [OF assms(1), of e n ev] assms(2) by (auto intro: keepsI)

lemma sample_callback: "\<exists>w'. deliver sample 1 (CommunicationErrorEv 7 0) sample_world = Inr w'"
proof -
  obtain m where m: "initNotification sample 7 0 sample_world = Inr (True, m)"
    by (simp add: initNotification_def Let_def sample_defs sample_status_def pathID_def)
  have s: "getSocketForAssociationID sample 7 sample_world = Some 1"
    by (simp add: getSocketForAssociationID_def sample_defs)
  show ?thesis
    apply (rule Master_addNotification_some [OF sample_good sample_objects(1,3,2),
        where n = "with_content m SCTP_REMOTE_ERROR 0 sizeof_sctp_remote_error (RemoteError 0 7)"])
    subgoal for w' x' y' by (rule exI [of _ w']) (simp add: communicationErrorNotif_def s m)
    done
qed

theorem callbacks_keep_contract_witness:
  "\<exists>w'. deliver sample 1 (CommunicationErrorEv 7 0) sample_world = Inr w' \<and> keeps sample_world w'"
  using sample_callback callbacks_keep_contract [OF sample_good] by blast

text \<open>
  C2. Operations keep the contract. In every sound state, binding, unbinding, establishing an
  association, sending, receiving, peeling off, garbage collection, and destroying an association or
  a socket return, if they return, with the lock and the cancellation state as they found them
  and in a sound state, whatever callbacks ran meanwhile and however long they waited. No socket
  appears or disappears, except that destroying a socket removes exactly this socket.
\<close>

theorem operations_keep_contract:
  assumes "good w"
  shows "holds (\<lambda>(r, w'). keeps w w') (bind e (deliver e n) s port ni no addrs w) \<and>
    holds (keeps w) (unbind e (deliver e n) s b w) \<and>
    holds (\<lambda>(r, w'). keeps w w') (associate e (deliver e n) s no ma mt dests bl w) \<and>
    holds (\<lambda>(r, k', w'). keeps w w') (Socket_sendTo e (deliver e n) s buf fl k st pid ttl ma mt d ds os w) \<and>
    holds (\<lambda>(r, io', w'). keeps w w') (Socket_receiveFrom e (deliver e n) s wa io w) \<and>
    holds (\<lambda>(r, io', w'). keeps w w') (Association_receiveFrom e (deliver e n) a wa io w) \<and>
    holds (\<lambda>(r, w'). keeps w w') (Association_sendTo e (deliver e n) a buf fl st pid ttl ud dest w) \<and>
    holds (keeps w) (socketGarbageCollection e (deliver e n) w) \<and>
    holds (\<lambda>(r, w'). keeps w w') (peelOff s k w) \<and>
    holds (keeps w) (checkAutoConnect e s w) \<and>
    holds (keeps w) (SCTPAssociation_delete e (deliver e n) a w) \<and>
    holds (keeps (w\<lparr>Sockets := (Sockets w)(s := None)\<rparr>)) (SCTPSocket_delete e (deliver e n) s w)"
  using assms by (intro conjI) (auto intro!: contract keepsI keeps_removedI)

lemma sample_send:
  "\<exists>w'. Association_sendTo sample (deliver sample 0) 2 [1, 2, 3] 0 0 0 0 False None sample_world = Inr (3, w')"
proof -
  have "CommunicationUpNotification sample_assoc" "Socket sample_assoc = 1" "AssociationID sample_assoc = 7"
    by (simp_all add: sample_defs)
  then show ?thesis
    by (simp add: Association_sendTo_def exact sample_objects sample_internalSend del: deliver.simps One_nat_def)
qed

theorem operations_keep_contract_witness:
  "\<exists>w'. Association_sendTo sample (deliver sample 0) 2 [1, 2, 3] 0 0 0 0 False None sample_world = Inr (3, w') \<and>
     keeps sample_world w'"
proof -
  obtain w' where w': "Association_sendTo sample (deliver sample 0) 2 [1, 2, 3] 0 0 0 0 False None sample_world = Inr (3, w')"
    using sample_send by blast
  have "holds (\<lambda>(r, w'). keeps sample_world w')
      (Association_sendTo sample (deliver sample 0) 2 [1, 2, 3] 0 0 0 0 False None sample_world)"
    by (rule operations_keep_contract [OF sample_good, THEN conjunct2, THEN conjunct2, THEN conjunct2, THEN conjunct2,
          THEN conjunct2, THEN conjunct2, THEN conjunct1])
  with w' show ?thesis by auto
qed

text \<open>
  C30. The lock leaks. \<^verbatim>\<open>accept\<close> on a socket that is not in listen mode returns nothing and
  keeps the lock; in listen mode every accepting call, waiting or not, releases it. Reading or
  setting the default settings and the stream time-outs through a socket always returns with the
  lock held once more than before, and these calls work on the first connectionless association
  of the socket whatever association they were asked for.
\<close>

theorem accept_and_defaults_leak_lock:
  assumes "good w" "Sockets w s = Some y"
  shows "(\<not> flag_set (Flags y) SSF_Listening \<longrightarrow>
      accept e (deliver e n) s wa wait w = Inr ((None, None), lock w) \<and> LockLevel (lock w) = LockLevel w + 1) \<and>
    (flag_set (Flags y) SSF_Listening \<longrightarrow> holds (\<lambda>(r, w'). keeps w w') (accept e (deliver e n) s wa wait w)) \<and>
    (\<forall>a x rest. ConnectionlessAssociationList y = (k, a) # rest \<and> Assocs w a = Some x \<longrightarrow>
      (\<exists>w1. Socket_getAssocIODefaults s k' w = Inr (Some (Defaults x), w1) \<and> LockLevel w1 = LockLevel w + 1) \<and>
      (\<exists>w1. Socket_setAssocIODefaults s k' d w = Inr (True, w1) \<and> LockLevel w1 = LockLevel w + 1 \<and>
         Assocs w1 = (Assocs w)(a \<mapsto> x\<lparr>Defaults := d\<rparr>))) \<and>
    (ConnectionlessAssociationList y = [] \<longrightarrow>
      Socket_getAssocIODefaults s k' w = Inr (None, lock w) \<and> Socket_setAssocIODefaults s k' d w = Inr (False, lock w))"
proof -
  have "accept e (deliver e n) s wa wait w = Inr ((None, None), lock w)" if "\<not> flag_set (Flags y) SSF_Listening"
    using that assms by (simp add: accept_def accept_nonblocking_def exact Let_def)
  moreover have "holds (\<lambda>(r, w'). keeps w w') (accept e (deliver e n) s wa wait w)" if "flag_set (Flags y) SSF_Listening"
    using that assms by (auto intro!: master.accept_contract keepsI)
  moreover have "\<exists>w1. Socket_getAssocIODefaults s k' w = Inr (Some (Defaults x), w1) \<and> LockLevel w1 = LockLevel w + 1"
    "\<exists>w1. Socket_setAssocIODefaults s k' d w = Inr (True, w1) \<and> LockLevel w1 = LockLevel w + 1 \<and>
      Assocs w1 = (Assocs w)(a \<mapsto> x\<lparr>Defaults := d\<rparr>)"
    if "ConnectionlessAssociationList y = (k, a) # rest" "Assocs w a = Some x" for a x rest
    using that assms
    by (simp_all add: Socket_getAssocIODefaults_def Socket_setAssocIODefaults_def first_connectionless_def
        Association_getAssocIODefaults_def Association_setAssocIODefaults_def exact Let_def lock_updates)
  ultimately show ?thesis
    using assms by (auto simp: Socket_getAssocIODefaults_def Socket_setAssocIODefaults_def first_connectionless_def exact Let_def)
qed

theorem accept_and_defaults_leak_lock_witness:
  "accept sample (deliver sample 0) 1 True True sample_world = Inr ((None, None), lock sample_world) \<and>
   LockLevel (lock sample_world) = 1"
proof -
  have "\<not> flag_set (Flags sample_socket) SSF_Listening" by (simp add: sample_defs flag_set_def ssf_defs)
  then show ?thesis
    using accept_and_defaults_leak_lock [OF sample_good sample_objects(1), of sample 0 True True] sample_objects(6) by simp
qed

end
