(* ===== verification/DescriptorContract.thy ===== *)
theory DescriptorContract
  imports LockLaws ExtSending SocketOptions
begin

text \<open>
  The contract of the descriptor layer. \<open>xstate\<close> is what an operation leaves as it is: the lock, which
  sockets exist, and to which socket each descriptor points. The collection \<open>contract\<close> is continued by
  a rule for each operation.
\<close>

section \<open>The sockets of the descriptors\<close>

definition socketOf :: "ExtSocketDescriptor \<Rightarrow> nat option" where
  "socketOf t = (case t of ESDT_SCTP d \<Rightarrow> SCTPSocketPtr d | _ \<Rightarrow> None)"

lemma socketOf_simps [simp]:
  "socketOf (ESDT_SCTP d) = SCTPSocketPtr d" "socketOf (ESDT_System fd) = None" "socketOf (ESDT_Invalid n) = None"
  by (simp_all add: socketOf_def)

definition xstate :: "('l, 'o) ext \<Rightarrow> lock_state \<times> (nat \<Rightarrow> bool \<times> nat option)" where
  "xstate x = (lstate (Core x), \<lambda>i. (isInvalid (Table x i), socketOf (Table x i)))"

definition xgood :: "('l, 'o) ext \<Rightarrow> bool" where
  "xgood x = good (Core x)"

lemma xgoodI: "good (Core x) \<Longrightarrow> xgood x" and xgoodD: "xgood x \<Longrightarrow> good (Core x)"
  by (simp_all add: xgood_def)

lemma xstate_updates [simp]:
  "xstate (x\<lparr>errno := e\<rparr>) = xstate x" "xstate (x\<lparr>OS := os\<rparr>) = xstate x"
  "xstate (x\<lparr>Notifications := ns\<rparr>) = xstate x" "xstate (x\<lparr>UserFuture := u\<rparr>) = xstate x"
  "xgood (x\<lparr>errno := e\<rparr>) = xgood x" "xgood (x\<lparr>OS := os\<rparr>) = xgood x" "xgood (x\<lparr>Table := t\<rparr>) = xgood x"
  "xgood (x\<lparr>Notifications := ns\<rparr>) = xgood x" "xgood (x\<lparr>UserFuture := u\<rparr>) = xgood x"
  by (simp_all add: xstate_def xgood_def)

lemma xstate_Core: "lstate w = lstate (Core x) \<Longrightarrow> xstate (x\<lparr>Core := w\<rparr>) = xstate x"
  by (simp add: xstate_def)

lemma xgood_Core [simp]: "xgood (x\<lparr>Core := w\<rparr>) = good w"
  by (simp add: xgood_def)

lemma xstate_updD [simp]:
  assumes "\<And>d. SCTPSocketPtr (f d) = SCTPSocketPtr d"
  shows "xstate (updD i f x) = xstate x" "xgood (updD i f x) = xgood x"
  using assms by (auto simp: updD_def xstate_def xgood_def fun_eq_iff split: ExtSocketDescriptor.split)

section \<open>Steps\<close>

lemma coreDo_contract [contract]:
  assumes "xgood x" "\<And>Q. (\<And>w'. good w' \<Longrightarrow> lstate w' = lstate (Core x) \<Longrightarrow> Q w') \<Longrightarrow> holds Q (f (Core x))"
    "\<And>x'. xgood x' \<Longrightarrow> xstate x' = xstate x \<Longrightarrow> P x'"
  shows "holds P (coreDo f x)"
  unfolding coreDo_def by (rule holds_andThen, rule assms(2)) (simp add: assms(3) xstate_Core)

lemma core_contract [contract]:
  assumes "xgood x" "\<And>Q. (\<And>r w'. good w' \<Longrightarrow> lstate w' = lstate (Core x) \<Longrightarrow> Q (r, w')) \<Longrightarrow> holds Q (f (Core x))"
    "\<And>r x'. xgood x' \<Longrightarrow> xstate x' = xstate x \<Longrightarrow> P (r, x')"
  shows "holds P (core f x)"
  unfolding core_def by (rule holds_andThen, rule assms(2)) (simp add: assms(3) xstate_Core)

lemma coreGet_contract [contract]: "(\<And>r. P r) \<Longrightarrow> holds P (coreGet f x)"
  by (rule holds_any)

lemma errno_return_contract [contract]:
  "xgood x \<Longrightarrow> (\<And>r x'. xgood x' \<Longrightarrow> xstate x' = xstate x \<Longrightarrow> P (r, x')) \<Longrightarrow> holds P (errno_return r x)"
  unfolding errno_return_def by simp

lemma system_contract:
  "system xe c x = (r, x') \<Longrightarrow> xgood x \<Longrightarrow> xgood x' \<and> xstate x' = xstate x"
  by (auto simp: system_def split: prod.splits)

lemma snd_system [simp]: "xgood (snd (system xe c x)) = xgood x" "xstate (snd (system xe c x)) = xstate x"
  by (auto simp: system_def split: prod.split)

lemma sysReturn_contract [contract]:
  "xgood x \<Longrightarrow> (\<And>r x'. xgood x' \<Longrightarrow> xstate x' = xstate x \<Longrightarrow> P (r, x')) \<Longrightarrow> holds P (sysReturn xe c x)"
  unfolding sysReturn_def by (auto intro!: contract dest: system_contract)

lemma holds_descriptor [contract]:
  "(\<And>n. t = ESDT_Invalid n \<Longrightarrow> holds P (f n)) \<Longrightarrow> (\<And>fd. t = ESDT_System fd \<Longrightarrow> holds P (g fd)) \<Longrightarrow>
   (\<And>d. t = ESDT_SCTP d \<Longrightarrow> holds P (h d)) \<Longrightarrow>
   holds P (case t of ESDT_Invalid n \<Rightarrow> f n | ESDT_System fd \<Rightarrow> g fd | ESDT_SCTP d \<Rightarrow> h d)"
  by (cases t) auto

lemma getDesc_contract [contract]: "(\<And>d. Table x i = ESDT_SCTP d \<Longrightarrow> P d) \<Longrightarrow> holds P (getDesc i x)"
  unfolding getDesc_def by (auto intro!: contract)

lemma byKind_contract [contract]:
  "(\<And>a. holds P (f a)) \<Longrightarrow> (\<And>s. holds P (g s)) \<Longrightarrow> holds P h \<Longrightarrow> holds P (byKind d f g h)"
  unfolding byKind_def by (auto intro!: contract split: option.split bool.split)

section \<open>Delegates\<close>

lemma delegates_contract [contract]:
  assumes "good w" "\<And>w'. good w' \<Longrightarrow> lstate w' = lstate w \<Longrightarrow> P w'"
  shows "holds P (Association_setNotificationFlags a fl w)" "holds P (Socket_setNotificationFlags s fl w)"
    "holds P (Socket_setAutoClose s t w)" "holds P (listen s b w)"
  unfolding Association_setNotificationFlags_def Socket_setNotificationFlags_def Socket_setAutoClose_def listen_def
  using assms by (auto intro!: contract simp: wfS_def wfA_def)

lemma changeAddress_contract [contract]:
  "good w \<Longrightarrow> (\<And>r w'. good w' \<Longrightarrow> lstate w' = lstate w \<Longrightarrow> P (r, w')) \<Longrightarrow> holds P (changeAddress s k w)"
  unfolding changeAddress_def
  by (auto intro!: contract on_first_contract [of "lock w" w])

lemma changes_contract [contract]:
  assumes "good w" "\<And>r w'. good w' \<Longrightarrow> lstate w' = lstate w \<Longrightarrow> P (r, w')"
  shows "holds P (Association_addAddress a adr w)" "holds P (Association_deleteAddress a adr w)"
    "holds P (Socket_addAddress s k adr w)" "holds P (Socket_deleteAddress s k adr w)"
    "holds P (Association_setPrimary e a adr w)" "holds P (Association_setPathParameters e a ad p w)"
  unfolding Association_addAddress_def Association_deleteAddress_def Association_setPathParameters_def
    Socket_addAddress_def Socket_deleteAddress_def Association_setPrimary_def
  using assms by (auto intro!: contract)

lemma path_contract [contract]:
  assumes "good w" "\<And>r w'. good w' \<Longrightarrow> lstate w' = lstate w \<Longrightarrow> P (r, w')"
  shows "holds P (getPathParameters e k ad w)" "holds P (Association_getPathParameters e a ad w)"
  unfolding getPathParameters_def Association_getPathParameters_def Let_def
  using assms by (auto intro!: contract)

lemma localAddresses_contract [contract]:
  "good w \<Longrightarrow> (\<And>r w'. good w' \<Longrightarrow> lstate w' = lstate w \<Longrightarrow> P (r, w')) \<Longrightarrow>
   holds P (Association_getLocalAddresses e a arr w)"
  unfolding Association_getLocalAddresses_def by (auto intro!: contract)

section \<open>Binding, listening, connecting\<close>

lemma lockX_contract [simp]:
  "xgood x \<Longrightarrow> xgood (lockX x)" "xstate (lockX x) = map_prod lockL id (xstate x)"
  by (simp_all add: xgood_def lockX_def xstate_def)

lemma unlockX_contract [contract]:
  assumes "xgood x" "\<And>x'. xgood x' \<Longrightarrow> xstate x' = map_prod unlockL id (xstate x) \<Longrightarrow> P x'"
  shows "holds P (coreDo unlock x)"
  unfolding coreDo_def using assms by (auto intro!: contract simp: xgood_def xstate_def)

lemma unlock_lockX [simp]: "xgood x \<Longrightarrow> map_prod unlockL id (map_prod lockL id (xstate x)) = xstate x"
  by (simp add: xgood_def xstate_def)

lemma bindToAny_loop_contract [contract]:
  "xgood x \<Longrightarrow> (\<And>r x'. xgood x' \<Longrightarrow> xstate x' = xstate x \<Longrightarrow> P (r, x')) \<Longrightarrow>
   holds P (bindToAny_loop xe (deliver e n) s im k r x)"
proof (induction k arbitrary: x r)
  case (Suc k)
  then show ?case
    by (auto intro!: contract simp: Let_def xgoodD xstate_Core)
qed simp

lemma bindToAny_contract [contract]:
  "xgood x \<Longrightarrow> (\<And>r x'. xgood x' \<Longrightarrow> xstate x' = xstate x \<Longrightarrow> P (r, x')) \<Longrightarrow>
   holds P (bindToAny xe (deliver e n) i x)"
  unfolding bindToAny_def by (auto intro!: contract)

lemma changeAddresses_contract:
  assumes "\<And>a w Q. good w \<Longrightarrow> (\<And>r w'. good w' \<Longrightarrow> lstate w' = lstate w \<Longrightarrow> Q (r, w')) \<Longrightarrow> holds Q (f a w)"
    "xgood x" "\<And>r x'. xgood x' \<Longrightarrow> xstate x' = xstate x \<Longrightarrow> P (r, x')"
  shows "holds P (changeAddresses f as x)"
  using assms(2,3)
proof (induction "as" arbitrary: x)
  case (Cons a as)
  then show ?case by (auto intro!: contract assms(1) simp: xgoodD)
qed simp

lemma bindx_sctp_contract [contract]:
  "xgood x \<Longrightarrow> (\<And>r x'. xgood x' \<Longrightarrow> xstate x' = xstate x \<Longrightarrow> P (r, x')) \<Longrightarrow>
   holds P (bindx_sctp xe (deliver e n) d s as fl x)"
  unfolding bindx_sctp_def by (auto intro!: contract changeAddresses_contract simp: xgoodD)

lemma binding_contract [contract]:
  assumes "xgood x" "\<And>r x'. xgood x' \<Longrightarrow> xstate x' = xstate x \<Longrightarrow> P (r, x')"
  shows "holds P (sctp_bindx xe (deliver e n) fd as k fl x)" "holds P (ext_listen xe (deliver e n) fd b x)"
  unfolding sctp_bindx_def ext_listen_def
  using assms by (auto intro!: contract holds_any [of _ "unpack_array as k"] simp: xgoodD)

lemma ext_bind_contract [contract]:
  "xgood x \<Longrightarrow> (\<And>r x'. xgood x' \<Longrightarrow> xstate x' = xstate x \<Longrightarrow> P (r, x')) \<Longrightarrow>
   holds P (ext_bind xe (deliver e n) fd a l x)"
  unfolding ext_bind_def by (auto intro!: contract)

lemma connectx_contract [contract]:
  assumes "xgood x" "\<And>r k x'. xgood x' \<Longrightarrow> xstate x' = xstate x \<Longrightarrow> P (r, k, x')"
  shows "holds P (connectx_oriented xe (deliver e n) i d s as x)"
    "holds P (connectx_connectionless xe (deliver e n) d s as x)"
  unfolding connectx_oriented_def connectx_connectionless_def Let_def
  using assms by (auto intro!: contract simp: xgoodD xstate_Core)

lemma ext_connectx_contract [contract]:
  "xgood x \<Longrightarrow> (\<And>r k x'. xgood x' \<Longrightarrow> xstate x' = xstate x \<Longrightarrow> P (r, k, x')) \<Longrightarrow>
   holds P (ext_connectx xe (deliver e n) fd as k x)"
  unfolding ext_connectx_def Let_def
  by (auto intro!: contract holds_any [of _ "unpack_array as k"])

lemma ext_connect_contract [contract]:
  "xgood x \<Longrightarrow> (\<And>r x'. xgood x' \<Longrightarrow> xstate x' = xstate x \<Longrightarrow> P (r, x')) \<Longrightarrow>
   holds P (ext_connect xe (deliver e n) fd a l x)"
  unfolding ext_connect_def by (auto intro!: contract)

section \<open>Receiving and sending\<close>

lemma receive_contract [contract]:
  "good w \<Longrightarrow> (\<And>r io' w'. good w' \<Longrightarrow> lstate w' = lstate w \<Longrightarrow> P (r, io', w')) \<Longrightarrow>
   holds P (Association_receive e' (deliver e n) a io w)"
  unfolding Association_receive_def by (auto intro!: contract)

lemma recv_retry_contract:
  assumes "\<And>io x Q. xgood x \<Longrightarrow> (\<And>r io' x'. xgood x' \<Longrightarrow> xstate x' = xstate x \<Longrightarrow> Q (r, io', x')) \<Longrightarrow> holds Q (f io x)"
  shows "xgood x \<Longrightarrow> (\<And>r io' x'. xgood x' \<Longrightarrow> xstate x' = xstate x \<Longrightarrow> P (r, io', x')) \<Longrightarrow>
    holds P (recv_retry f sz k io x)"
proof (induction k arbitrary: io x)
  case (Suc k)
  then show ?case by (auto intro!: contract assms)
qed simp

lemma recv_desc_contract [contract]:
  "xgood x \<Longrightarrow> (\<And>r fl io' x'. xgood x' \<Longrightarrow> xstate x' = xstate x \<Longrightarrow> P (r, fl, io', x')) \<Longrightarrow>
   holds P (recv_desc xe (deliver e n) d io x)"
  unfolding recv_desc_def by (auto intro!: contract recv_retry_contract simp: xgoodD xstate_Core)

lemma recvmsg_sctp_contract [contract]:
  "xgood x \<Longrightarrow> (\<And>r m x'. xgood x' \<Longrightarrow> xstate x' = xstate x \<Longrightarrow> P (r, m, x')) \<Longrightarrow>
   holds P (recvmsg_sctp xe (deliver e n) d msg fl rn x)"
  unfolding recvmsg_sctp_def Let_def by (auto intro!: contract)

lemma recvmsg_singlebuffer_contract [contract]:
  "xgood x \<Longrightarrow> (\<And>r m x'. xgood x' \<Longrightarrow> xstate x' = xstate x \<Longrightarrow> P (r, m, x')) \<Longrightarrow>
   holds P (recvmsg_singlebuffer xe (deliver e n) fd msg fl rn x)"
  unfolding recvmsg_singlebuffer_def by (auto intro!: contract dest: system_contract)

lemma recvmsg_loop_contract [contract]:
  "xgood x \<Longrightarrow> (\<And>r m x'. xgood x' \<Longrightarrow> xstate x' = xstate x \<Longrightarrow> P (r, m, x')) \<Longrightarrow>
   holds P (recvmsg_loop xe (deliver e n) fd fl rn done vs msg res x)"
proof (induction vs arbitrary: "done" msg res x)
  case (Cons v vs)
  then show ?case by (auto intro!: contract simp: Let_def)
qed simp

lemma ext_recvmsg_contract [contract]:
  "xgood x \<Longrightarrow> (\<And>r m x'. xgood x' \<Longrightarrow> xstate x' = xstate x \<Longrightarrow> P (r, m, x')) \<Longrightarrow>
   holds P (ext_recvmsg xe (deliver e n) fd msg fl x)"
  unfolding ext_recvmsg_def ext_recvmsg2_def by (auto intro!: contract)

lemma send_init_contract [contract]:
  "xgood x \<Longrightarrow> (\<And>r x'. xgood x' \<Longrightarrow> xstate x' = xstate x \<Longrightarrow> P (r, x')) \<Longrightarrow>
   holds P (send_init xe (deliver e n) i m msg x)"
  unfolding send_init_def Let_def by (auto intro!: contract simp: xgoodD)

lemma send_cmsgs_contract [contract]:
  "xgood x \<Longrightarrow> (\<And>r x'. xgood x' \<Longrightarrow> xstate x' = xstate x \<Longrightarrow> P (r, x')) \<Longrightarrow>
   holds P (send_cmsgs xe (deliver e n) i msg p cs info x)"
proof (induction cs arbitrary: p info x)
  case (Cons c cs)
  then show ?case by (auto intro!: contract split: cdata.split)
qed simp

lemma send_through_socket_contract [contract]:
  "xgood x \<Longrightarrow> (\<And>r m x'. xgood x' \<Longrightarrow> xstate x' = xstate x \<Longrightarrow> P (r, m, x')) \<Longrightarrow>
   holds P (send_through_socket xe (deliver e n) d s buf fl info ds msg x)"
  unfolding send_through_socket_def by (auto intro!: contract simp: xgoodD xstate_Core)

lemma Association_send_contract [contract]:
  "good w \<Longrightarrow> (\<And>r w'. good w' \<Longrightarrow> lstate w' = lstate w \<Longrightarrow> P (r, w')) \<Longrightarrow>
   holds P (Association_send e' (deliver e n) a buf fl st pid ttl d w)"
  unfolding Association_send_def by (auto intro!: contract)

lemma sendmsg_sctp_contract [contract]:
  "xgood x \<Longrightarrow> (\<And>r m x'. xgood x' \<Longrightarrow> xstate x' = xstate x \<Longrightarrow> P (r, m, x')) \<Longrightarrow>
   holds P (sendmsg_sctp xe (deliver e n) i msg fl x)"
  unfolding sendmsg_sctp_def Let_def
  by (auto intro!: contract holds_any [of _ "destinations xe f a l" for f a l] simp: xgoodD)

lemma ext_sendmsg_contract [contract]:
  "xgood x \<Longrightarrow> (\<And>r m x'. xgood x' \<Longrightarrow> xstate x' = xstate x \<Longrightarrow> P (r, m, x')) \<Longrightarrow>
   holds P (ext_sendmsg xe (deliver e n) fd msg fl x)"
  unfolding ext_sendmsg_def sendmsg_singlebuffer_def Let_def
  by (auto intro!: contract split: list.split option.split)

section \<open>Options\<close>

lemma Association_getAssocStatus_contract [contract]:
  "good w \<Longrightarrow> (\<And>r w'. good w' \<Longrightarrow> lstate w' = lstate w \<Longrightarrow> P (r, w')) \<Longrightarrow>
   holds P (Association_getAssocStatus e a w)"
  unfolding Association_getAssocStatus_def by (auto intro!: contract split: option.split)

lemma getAssocParams_contract [contract]:
  "xgood x \<Longrightarrow> (\<And>r x'. xgood x' \<Longrightarrow> xstate x' = xstate x \<Longrightarrow> P (r, x')) \<Longrightarrow>
   holds P (getAssocParams xe d k x)"
  unfolding getAssocParams_def by (auto intro!: contract simp: xgoodD)

lemma setAssocParams_contract [contract]:
  "xgood x \<Longrightarrow> (\<And>r x'. xgood x' \<Longrightarrow> xstate x' = xstate x \<Longrightarrow> P (r, x')) \<Longrightarrow>
   holds P (setAssocParams xe d k p x)"
  unfolding setAssocParams_def by (auto intro!: contract simp: xgoodD)

lemma changeAssocParams_contract [contract]:
  "xgood x \<Longrightarrow> (\<And>r x'. xgood x' \<Longrightarrow> xstate x' = xstate x \<Longrightarrow> P (r, x')) \<Longrightarrow>
   holds P (changeAssocParams xe d k f x)"
  unfolding changeAssocParams_def by (auto intro!: contract)

lemma setters_contract [contract]:
  assumes "xgood x" "\<And>r x'. xgood x' \<Longrightarrow> xstate x' = xstate x \<Longrightarrow> P (r, x')"
  shows "holds P (setRTOInfo xe d v len x)" "holds P (setDelayedAckTime xe d v len x)"
    "holds P (setAssocInfo xe d v len x)" "holds P (setEvents xe d v len x)"
    "holds P (setPrimaryAddr xe d v len x)" "holds P (setPeerPrimaryAddr xe d v len x)"
    "holds P (setsockopt_initmsg xe i d v len x)" "holds P (setsockopt_autoclose xe d v len x)"
    "holds P (setLinger i v len x)"
  unfolding setRTOInfo_def setDelayedAckTime_def setAssocInfo_def setEvents_def setPrimaryAddr_def
    setPeerPrimaryAddr_def primaryAddr_def setsockopt_initmsg_def setInitMsg_def setsockopt_autoclose_def setLinger_def
    orOwnID_def Let_def
  using assms by (auto intro!: contract simp: xgoodD split: optval.split)

lemma buffers_contract [contract]:
  assumes "good w" "\<And>r w'. good w' \<Longrightarrow> lstate w' = lstate w \<Longrightarrow> P (r, w')"
  shows "holds P (Association_setSendBuffer e a sz w)" "holds P (Association_setReceiveBuffer e a sz w)"
    "holds P (Association_setTrafficClass a tc w)" "holds P (Socket_setSendBuffer e s sz w)"
    "holds P (Socket_setReceiveBuffer e s sz w)" "holds P (Socket_setTrafficClass s tc w)"
  unfolding Association_setSendBuffer_def Association_setReceiveBuffer_def Association_setTrafficClass_def
    Socket_setSendBuffer_def Socket_setReceiveBuffer_def Socket_setTrafficClass_def
  using assms by (auto intro!: contract on_first_contract [of _ w] simp: Let_def)

lemma parameters_of_options_contract [contract]:
  assumes "xgood x" "\<And>r p x'. xgood x' \<Longrightarrow> xstate x' = xstate x \<Longrightarrow> P (r, p, x')"
  shows "holds P (getPathStatus xe d k sa x)"
  unfolding getPathStatus_def using assms by (auto intro!: contract simp: xgoodD)

lemma setPathStatus_contract [contract]:
  "xgood x \<Longrightarrow> (\<And>r x'. xgood x' \<Longrightarrow> xstate x' = xstate x \<Longrightarrow> P (r, x')) \<Longrightarrow>
   holds P (setPathStatus xe d k sa p x)"
  unfolding setPathStatus_def by (auto intro!: contract simp: xgoodD)

lemma optFail_contract [contract]:
  assumes "xgood x" "\<And>r v len x'. xgood x' \<Longrightarrow> xstate x' = xstate x \<Longrightarrow> P (r, v, len, x')"
  shows "holds P (optFail r v len x)" "holds P (optDone r w x)"
  unfolding optFail_def optDone_def using assms by (auto intro!: contract)

lemma configurePeerAddressParams_contract [contract]:
  "xgood x \<Longrightarrow> (\<And>r v len x'. xgood x' \<Longrightarrow> xstate x' = xstate x \<Longrightarrow> P (r, v, len, x')) \<Longrightarrow>
   holds P (configurePeerAddressParams xe d v len ro x)"
  unfolding configurePeerAddressParams_def Let_def by (auto intro!: contract split: optval.split)

lemma setInteger_contract:
  assumes "\<And>a k w Q. good w \<Longrightarrow> (\<And>r w'. good w' \<Longrightarrow> lstate w' = lstate w \<Longrightarrow> Q (r, w')) \<Longrightarrow> holds Q (f a k w)"
    "\<And>s k w Q. good w \<Longrightarrow> (\<And>r w'. good w' \<Longrightarrow> lstate w' = lstate w \<Longrightarrow> Q (r, w')) \<Longrightarrow> holds Q (g s k w)"
    "xgood x" "\<And>r x'. xgood x' \<Longrightarrow> xstate x' = xstate x \<Longrightarrow> P (r, x')"
  shows "holds P (setInteger f g err d v len x)"
  unfolding setInteger_def using assms(3,4) by (auto intro!: contract assms(1,2) simp: xgoodD split: optval.split)

definition leakingOptions :: "int set" where
  "leakingOptions = {SCTP_SET_DEFAULT_SEND_PARAM, SCTP_SET_STREAM_TIMEOUTS}"

lemma ext_setsockopt_contract:
  assumes "opt \<notin> leakingOptions" "xgood x" "\<And>r v x'. xgood x' \<Longrightarrow> xstate x' = xstate x \<Longrightarrow> P (r, v, x')"
  shows "holds P (ext_setsockopt xe fd level opt v len x)"
  using assms unfolding ext_setsockopt_def setsockopt_sctp_def Let_def leakingOptions_def
  by (auto intro!: contract setInteger_contract dest: system_contract)

section \<open>Allocating and closing descriptors\<close>

lemma setSocket_contract:
  assumes "xgood x"
    "\<And>i x'. findFree (min MaxSockets (getdtablesize xe)) (Table x) = Some i \<Longrightarrow> xgood x' \<Longrightarrow>
       Table x' = (Table x)(i := d) \<Longrightarrow> lstate (Core x') = lstate (Core x) \<Longrightarrow> P (int i, x')"
    "\<And>x'. findFree (min MaxSockets (getdtablesize xe)) (Table x) = None \<Longrightarrow> xgood x' \<Longrightarrow>
       Table x' = Table x \<Longrightarrow> lstate (Core x') = lstate (Core x) \<Longrightarrow> P (- EMFILE, x')"
  shows "holds P (setSocket xe d x)"
proof -
  have [simp]: "Table (lockX x) = Table x" "Core (lockX x) = lock (Core x)" by (simp_all add: lockX_def)
  have good: "good (Core x)" using assms(1) by (rule xgoodD)
  show ?thesis
  proof (cases "findFree (min MaxSockets (getdtablesize xe)) (Table x)")
    case None
    then show ?thesis
      unfolding setSocket_def coreDo_def using good assms(3)
      by (auto intro!: contract simp: Let_def)
  next
    case (Some i)
    then show ?thesis
      unfolding setSocket_def coreDo_def using good assms(2)
      by (auto intro!: contract simp: Let_def)
  qed
qed

lemma mayRemoveSocket_iff:
  assumes "SCTPSocketPtr d = Some s"
  shows "mayRemoveSocket i d x \<longleftrightarrow> (\<forall>j. 1 \<le> j \<and> j < MaxSockets \<and> j \<noteq> i \<longrightarrow> socketOf (Table x j) \<noteq> Some s)"
  using assms
  by (auto simp: mayRemoveSocket_def list_all_iff getSocket_def socketOf_def split: ExtSocketDescriptor.splits)

lemma close_association_contract [contract]:
  "xgood x \<Longrightarrow> (\<And>x'. xgood x' \<Longrightarrow> xstate x' = xstate x \<Longrightarrow> P x') \<Longrightarrow>
   holds P (close_association xe (deliver e n) i d x)"
  unfolding close_association_def by (auto intro!: contract simp: xgoodD)

lemma delete_socket_contract:
  assumes "xgood x" "\<And>x'. xgood x' \<Longrightarrow> xstate x' = apfst (removeSocket s) (xstate x) \<Longrightarrow> P x'"
  shows "holds P (coreDo (SCTPSocket_delete e' (deliver e n) s) x)"
  unfolding coreDo_def using assms
  by (auto intro!: contract master.SCTPSocket_delete_contract simp: xgood_def xstate_def)

definition usedElsewhere :: "nat \<Rightarrow> nat \<Rightarrow> ('l, 'o) ext \<Rightarrow> bool" where
  "usedElsewhere i s x = (\<exists>j. 1 \<le> j \<and> j < MaxSockets \<and> j \<noteq> i \<and> socketOf (Table x j) = Some s)"

lemma usedElsewhere_xstate: "xstate x' = xstate x \<Longrightarrow> usedElsewhere i s x' = usedElsewhere i s x"
  by (simp add: xstate_def usedElsewhere_def fun_eq_iff)

text \<open>What is left of the sockets when descriptor \<open>i\<close> is closed.\<close>

definition closed_lstate :: "nat \<Rightarrow> SCTPDesc \<Rightarrow> ('l, 'o) ext \<Rightarrow> lock_state" where
  "closed_lstate i d x =
     (case SCTPSocketPtr d of
        Some s \<Rightarrow> if usedElsewhere i s x then lstate (Core x) else removeSocket s (lstate (Core x))
      | None \<Rightarrow> lstate (Core x))"

lemma Core_updD [simp]: "Core (updD i f x) = Core x"
  by (simp add: updD_def split: ExtSocketDescriptor.split)

lemma Table_updD_other [simp]: "j \<noteq> i \<Longrightarrow> Table (updD i f x) j = Table x j"
  by (simp add: updD_def split: ExtSocketDescriptor.split)

lemma xstateD: "xstate x' = (l, p) \<Longrightarrow> lstate (Core x') = l \<and> (\<forall>j. (isInvalid (Table x' j), socketOf (Table x' j)) = p j)"
  by (auto simp: xstate_def)

lemma close_socket_contract:
  assumes "xgood x" "\<And>x'. xgood x' \<Longrightarrow> lstate (Core x') = closed_lstate i d x \<Longrightarrow>
      \<forall>j. j \<noteq> i \<longrightarrow> isInvalid (Table x' j) = isInvalid (Table x j) \<and> socketOf (Table x' j) = socketOf (Table x j) \<Longrightarrow> P x'"
  shows "holds P (close_socket xe (deliver e n) i d x)"
proof (cases "SCTPSocketPtr d")
  case (Some s)
  have unused: "mayRemoveSocket i d x \<longleftrightarrow> \<not> usedElsewhere i s x"
    by (auto simp: mayRemoveSocket_iff [OF Some] usedElsewhere_def)
  show ?thesis
    unfolding close_socket_def using assms(1) Some
    by (auto intro!: contract delete_socket_contract assms(2) dest!: xstateD
        simp: xgood_def unused closed_lstate_def xstate_def fun_eq_iff)
qed (simp add: close_socket_def assms closed_lstate_def)

section \<open>New descriptors\<close>

lemma new_socket_contract:
  assumes "xgood x" "\<And>s x'. xgood x' \<Longrightarrow> lstate (Core x') = addSocket s (lstate (Core x)) \<Longrightarrow> Sockets (Core x) s = None \<Longrightarrow>
      Table x' = Table x \<Longrightarrow> P (s, x')"
  shows "holds P (core (SCTPSocket_new fam fl) x)"
  unfolding core_def using assms by (auto intro!: contract SCTPSocket_new_contract simp: xgood_def)

lemma findFree_Some: "findFree m t = Some i \<Longrightarrow> i < m \<and> isInvalid (t i)"
  by (induction m) (auto split: if_splits)

lemma findFree_highest: "findFree m t = Some i \<Longrightarrow> i < j \<Longrightarrow> j < m \<Longrightarrow> \<not> isInvalid (t j)"
  by (induction m) (auto split: if_splits simp: less_Suc_eq)

lemma findFree_None: "findFree m t = None \<longleftrightarrow> (\<forall>i < m. \<not> isInvalid (t i))"
  by (induction m) (auto simp: less_Suc_eq)

end
