(* ===== verification/UserNotifications.thy ===== *)
theory UserNotifications
  imports ExtData
begin

text \<open>
  The socket master as a thread (\<^verbatim>\<open>sctpsocketmaster.cc\<close>): its start and end, its event loop, and the
  notifications by which a thread in \<^verbatim>\<open>ext_select\<close> learns of events on ordinary file descriptors.
  A pipe of the master to itself, the break pipe, ends the wait of the event loop for new events.
\<close>

section \<open>User callbacks\<close>

definition POLLIN :: card16 where "POLLIN = 1"
definition POLLPRI :: card16 where "POLLPRI = 2"
definition POLLOUT :: card16 where "POLLOUT = 4"
definition POLLERR :: card16 where "POLLERR = 8"
definition POLLNVAL :: card16 where "POLLNVAL = 0x20"

lemmas poll_defs = POLLIN_def POLLPRI_def POLLOUT_def POLLERR_def POLLNVAL_def

definition has_event :: "card16 \<Rightarrow> card16 \<Rightarrow> bool" where
  "has_event m ev = (m AND ev \<noteq> 0)"

text \<open>Reading the break pipe until it is empty.\<close>

partial_function (option) drainBreakPipe :: "('l, 'o) xenv \<Rightarrow> ('l, 'o) ext \<Rightarrow> ('l, 'o) ext option" where
  "drainBreakPipe xe x =
     (case system xe (Sys_read (fst (BreakPipe x)) 256) x of
        (reply, x) \<Rightarrow> if Ret reply > 0 then drainBreakPipe xe x else Some x)"

text \<open>
  The result is the new value of the registered events. \<^verbatim>\<open>fired()\<close> at the end resets the flag.
\<close>

definition userCallback ::
  "('l, 'o) xenv \<Rightarrow> int \<Rightarrow> card16 \<Rightarrow> card16 \<Rightarrow> nat option \<Rightarrow> ('l, 'o) ext \<Rightarrow> (card16 \<times> ('l, 'o) ext) result" where
  "userCallback xe fileDescriptor eventMask registeredEvents userData x =
     (case userData of
        None \<Rightarrow> Inr (registeredEvents, x)
      | Some k \<Rightarrow>
          andThen (ofOption (Notifications x k)) (\<lambda>usn.
          if FileDescriptor usn \<noteq> fst (BreakPipe x) then
            let x = x\<lparr>Notifications := (Notifications x)(k \<mapsto> usn\<lparr>Events := Events usn OR eventMask\<rparr>)\<rparr> in
            andThen (if has_event eventMask (EventMask usn) then coreDo (fire (SelectCond (UpdateCondition k))) x else Inr x)
              (\<lambda>x. Inr (registeredEvents AND NOT eventMask, x))
          else
            (case drainBreakPipe xe x of
               None \<Rightarrow> Inl StillWaiting
             | Some x \<Rightarrow>
                 Inr (registeredEvents, x\<lparr>Core := snd (testFired (SelectCond (UpdateCondition 0)) (Core x))\<rparr>))))"

definition addUserSocketNotification :: "('l, 'o) xenv \<Rightarrow> nat \<Rightarrow> ('l, 'o) ext \<Rightarrow> ('l, 'o) ext result" where
  "addUserSocketNotification xe k x =
     (let x = lockX x in
      andThen (ofOption (Notifications x k)) (\<lambda>usn.
      let x = x\<lparr>Notifications := (Notifications x)(k \<mapsto> usn\<lparr>Events := 0\<rparr>)\<rparr>;
          l = snd (sctp_registerUserCallback (SL (E xe)) (Lib (Core x)) (FileDescriptor usn) (EventMask usn));
          x = x\<lparr>Core := (Core x)\<lparr>Lib := l\<rparr>\<rparr>;
          x = (if FileDescriptor usn \<noteq> fst (BreakPipe x) \<and> fst (BreakPipe x) \<noteq> - 1
               then snd (system xe (Sys_write (snd (BreakPipe x)) [84]) x) else x)
      in coreDo unlock x))"

definition deleteUserSocketNotification :: "('l, 'o) xenv \<Rightarrow> nat \<Rightarrow> ('l, 'o) ext \<Rightarrow> ('l, 'o) ext result" where
  "deleteUserSocketNotification xe k x =
     (let x = lockX x in
      andThen (ofOption (Notifications x k)) (\<lambda>usn.
      coreDo unlock
        (x\<lparr>Core := (Core x)\<lparr>Lib := snd (sctp_unregisterUserCallback (SL (E xe)) (Lib (Core x)) (FileDescriptor usn))\<rparr>\<rparr>)))"

section \<open>Start of the master\<close>

definition versionCheck :: "('l, 'o) xenv \<Rightarrow> ('l, 'o) ext \<Rightarrow> bool" where
  "versionCheck xe x =
     (sctp_getLibraryVersion (SL (E xe)) (Lib (Core x)) = SCTP_COMPILED_VERSION (SL (E xe)))"

definition closeBreakPipe :: "('l, 'o) xenv \<Rightarrow> ('l, 'o) ext \<Rightarrow> ('l, 'o) ext" where
  "closeBreakPipe xe x =
     (let (p, q) = BreakPipe x;
          x = snd (system xe (Sys_close q) (snd (system xe (Sys_close p) x)))
      in x\<lparr>BreakPipe := (- 1, - 1)\<rparr>)"

definition openBreakPipe :: "('l, 'o) xenv \<Rightarrow> ('l, 'o) ext \<Rightarrow> ('l, 'o) ext result" where
  "openBreakPipe xe x =
     (case system xe Sys_pipe x of
        (reply, x) \<Rightarrow>
          if Ret reply = 0 then
            let x = x\<lparr>BreakPipe := PipeEnds reply\<rparr> in
            (case system xe (Sys_fcntl (fst (BreakPipe x)) F_GETFL 0) x of
               (flags, x) \<Rightarrow>
                 if Ret flags \<noteq> - 1 then
                   (case system xe (Sys_fcntl (fst (BreakPipe x)) F_SETFL
                                      (of_int (Ret flags) OR ucast O_NONBLOCK)) x of
                      (setting, x) \<Rightarrow>
                        if Ret setting = 0 then
                          addUserSocketNotification xe 0
                            (x\<lparr>Notifications := (Notifications x)
                                 (0 \<mapsto> \<lparr>FileDescriptor = fst (BreakPipe x), EventMask = POLLIN OR POLLPRI, Events = 0\<rparr>)\<rparr>)
                        else Inr (closeBreakPipe xe x))
                 else Inr (closeBreakPipe xe x))
          else Inr (x\<lparr>BreakPipe := (- 1, - 1)\<rparr>))"

text \<open>Kernel SCTP besides the library aborts the process (the build without \<^verbatim>\<open>SCTP_OVER_UDP\<close>).\<close>

definition SCTPSocketMaster_new :: "('l, 'o) xenv \<Rightarrow> ('l, 'o) ext \<Rightarrow> ('l, 'o) ext result" where
  "SCTPSocketMaster_new xe x =
     (if InitializationResult (Core x) \<noteq> - 1000 \<or> \<not> versionCheck xe x then Inr x
      else
        (case system xe (Sys_socket AF_INET SOCK_SEQPACKET IPPROTO_SCTP) x of
           (sd, x) \<Rightarrow>
             if Ret sd \<ge> 0 then Inl ProcessAbort
             else
               (case sctp_initLibrary (SL (E xe)) (Lib (Core x)) of
                  (r, l) \<Rightarrow>
                    let x = x\<lparr>Core := (Core x)\<lparr>Lib := l, InitializationResult := r\<rparr>\<rparr> in
                    if r = 0 then
                      andThen (core (enableOOTBHandling (E xe) False) x) (\<lambda>(_, x).
                      andThen (core (enableCRC32 (E xe) True) x) (\<lambda>(_, x).
                      openBreakPipe xe (x\<lparr>Core := (Core x)\<lparr>LastGarbageCollection := Now (Core x)\<rparr>\<rparr>)))
                    else Inr (x\<lparr>BreakPipe := (- 1, - 1)\<rparr>))))"

section \<open>The event loop\<close>

text \<open>
  The callbacks of one return of \<^verbatim>\<open>sctp_extendedEventLoop\<close>, under the lock: those of associations,
  then those of file descriptors.
\<close>

definition userRuns :: "('l, 'o) xenv \<Rightarrow> ('l, 'o) ext \<Rightarrow> ('l, 'o) ext result" where
  "userRuns xe x =
     (case UserFuture x of
        [] \<Rightarrow> Inr x
      | evs # rest \<Rightarrow>
          andThen (forEach (\<lambda>(u, fd, m, reg) x. andThen (userCallback xe fd m reg u x) (\<lambda>(_, x). Inr x)) evs
                     (lockX (x\<lparr>UserFuture := rest\<rparr>))) (coreDo unlock))"

definition eventLoop :: "('l, 'o) xenv \<Rightarrow> 'l callback \<Rightarrow> ('l, 'o) ext \<Rightarrow> ('l, 'o) ext result" where
  "eventLoop xe cb x = andThen (coreDo (masterRuns cb) x) (userRuns xe)"

definition GarbageCollectionInterval :: card64 where "GarbageCollectionInterval = 1000000"

text \<open>
  One round of \<^verbatim>\<open>run\<close>, whose second look at the clock shows \<open>now'\<close>. The timer is never stopped by
  the callbacks; its callback is empty.
\<close>

definition gcTimeout :: "card64 \<Rightarrow> card64 \<Rightarrow> card64" where
  "gcTimeout lastGC now =
     (if lastGC + GarbageCollectionInterval > now then lastGC + GarbageCollectionInterval - now else 0)"

definition run_round :: "('l, 'o) xenv \<Rightarrow> 'l callback \<Rightarrow> card64 \<Rightarrow> ('l, 'o) ext \<Rightarrow> ('l, 'o) ext result" where
  "run_round xe cb now' x =
     (let usecs = gcTimeout (LastGarbageCollection (Core x)) (Now (Core x));
          x = lockX x;
          (tid, l) = sctp_startTimer (SL (E xe)) (Lib (Core x)) (ucast (usecs div 1000000)) (ucast (usecs mod 1000000))
      in andThen (coreDo unlock (x\<lparr>Core := (Core x)\<lparr>Lib := l\<rparr>, GarbageCollectionTimerID := tid\<rparr>)) (\<lambda>x.
      andThen (eventLoop xe cb x) (\<lambda>x.
      let x = lockX x;
          l = snd (sctp_stopTimer (SL (E xe)) (Lib (Core x)) (GarbageCollectionTimerID x))
      in andThen (coreDo unlock (x\<lparr>Core := (Core x)\<lparr>Lib := l\<rparr>, GarbageCollectionTimerID := - 1\<rparr>)) (\<lambda>x.
      let x = x\<lparr>Core := (Core x)\<lparr>Now := now'\<rparr>\<rparr> in
      if now' - LastGarbageCollection (Core x) \<ge> GarbageCollectionInterval
      then coreDo (socketGarbageCollection (E xe) cb) x else Inr x))))"

section \<open>End of the master\<close>

text \<open>
  The destructor aborts closing associations until none is left; each abortion is expected to end in
  the callback that removes the association.
\<close>

partial_function (option) abortClosing ::
  "'l env \<Rightarrow> 'l callback \<Rightarrow> 'l world \<Rightarrow> 'l world result option" where
  "abortClosing e cb w =
     (case ClosingAssociations w of
        [] \<Rightarrow> Some (Inr w)
      | (k, i) # _ \<Rightarrow>
          (case sctp_abort (SL e) (Lib w) k of
             (l, evs) \<Rightarrow>
               (case forEach cb evs (w\<lparr>Lib := l\<rparr>) of
                  Inl f \<Rightarrow> Some (Inl f)
                | Inr w \<Rightarrow> abortClosing e cb w)))"

definition SCTPSocketMaster_delete ::
  "('l, 'o) xenv \<Rightarrow> 'l callback \<Rightarrow> ('l, 'o) ext \<Rightarrow> ('l, 'o) ext result" where
  "SCTPSocketMaster_delete xe cb x =
     (let x = lockX x; x = x\<lparr>Core := (Core x)\<lparr>Running := False\<rparr>\<rparr> in
      andThen (coreDo unlock x) (\<lambda>x.
      let x = lockX x;
          x = (if GarbageCollectionTimerID x \<noteq> - 1
               then x\<lparr>Core := (Core x)\<lparr>Lib := snd (sctp_stopTimer (SL (E xe)) (Lib (Core x)) (GarbageCollectionTimerID x))\<rparr>,
                      GarbageCollectionTimerID := - 1\<rparr>
               else x)
      in (case abortClosing (E xe) cb (Core x) of
            None \<Rightarrow> Inl StillWaiting
          | Some r \<Rightarrow>
              andThen r (\<lambda>w.
              andThen (coreDo unlock (x\<lparr>Core := w\<rparr>)) (\<lambda>x.
              andThen (coreDo (socketGarbageCollection (E xe) cb) x) (\<lambda>x.
              if fst (BreakPipe x) \<noteq> - 1
              then andThen (deleteUserSocketNotification xe 0 x) (\<lambda>x. Inr (closeBreakPipe xe x))
              else Inr x))))))"

end
