(* ===== verification/Selecting.thy ===== *)
theory Selecting
  imports UserNotifications
begin

text \<open>
  Waiting for several descriptors at once (\<^verbatim>\<open>ext_select\<close> and \<^verbatim>\<open>ext_poll\<close>). A set of descriptors is
  the set of its elements, a null pointer \<open>None\<close>.
\<close>

section \<open>Sets of descriptors\<close>

type_synonym fd_set = "int set option"

definition SAFE_FD_ISSET :: "int \<Rightarrow> fd_set \<Rightarrow> bool" where
  "SAFE_FD_ISSET fd fdset = (case fdset of None \<Rightarrow> False | Some s \<Rightarrow> fd \<in> s)"

definition SAFE_FD_ZERO :: "fd_set \<Rightarrow> fd_set" where
  "SAFE_FD_ZERO fdset = (case fdset of None \<Rightarrow> None | Some s \<Rightarrow> Some {})"

text \<open>Setting a bit by a null pointer or out of range is undefined.\<close>

definition FD_SET :: "int \<Rightarrow> fd_set \<Rightarrow> fd_set result" where
  "FD_SET fd fdset =
     (case fdset of
        None \<Rightarrow> Inl BadPointer
      | Some s \<Rightarrow> if 0 \<le> fd \<and> fd < int MaxSockets then Inr (Some (insert fd s)) else Inl BadPointer)"

definition FD_CLR_all :: "int list \<Rightarrow> fd_set \<Rightarrow> fd_set" where
  "FD_CLR_all fds fdset = (case fdset of None \<Rightarrow> None | Some s \<Rightarrow> Some (s - set fds))"

record fd_sets =
  readfds :: fd_set
  writefds :: fd_set
  exceptfds :: fd_set

section \<open>Without the SCTP thread\<close>

text \<open>
  The sets for the system, the descriptor each of its elements stands for, and whether the call must
  not wait since a UDP-like SCTP descriptor is always writable.
\<close>

record select_state =
  sysfds :: fd_sets
  maxFD :: int
  reverseMapping :: "int \<Rightarrow> int option"
  fakeUDPWrite :: bool

definition isUDPLike :: "int \<Rightarrow> ('l, 'o) ext \<Rightarrow> bool" where
  "isUDPLike fd x =
     (case getSocket fd of
        None \<Rightarrow> False
      | Some i \<Rightarrow> (case Table x i of ESDT_SCTP d \<Rightarrow> \<not> ConnectionOriented d | _ \<Rightarrow> False))"

definition copy_bit :: "bool \<Rightarrow> int \<Rightarrow> fd_set \<Rightarrow> fd_set result" where
  "copy_bit b fd fdset = (if b then FD_SET fd fdset else Inr fdset)"

definition wrapper_add :: "fd_sets \<Rightarrow> ('l, 'o) ext \<Rightarrow> int \<Rightarrow> select_state \<Rightarrow> select_state result" where
  "wrapper_add fds x i s =
     (if \<not> (SAFE_FD_ISSET i (readfds fds) \<or> SAFE_FD_ISSET i (writefds fds) \<or> SAFE_FD_ISSET i (exceptfds fds)) then Inr s
      else case getSocket i of
        None \<Rightarrow> Inr s
      | Some j \<Rightarrow>
          (case Table x j of
             ESDT_System fd \<Rightarrow>
               andThen (copy_bit (SAFE_FD_ISSET i (readfds fds)) fd (readfds (sysfds s))) (\<lambda>r.
               andThen (copy_bit (SAFE_FD_ISSET i (writefds fds)) fd (writefds (sysfds s))) (\<lambda>w.
               andThen (copy_bit (SAFE_FD_ISSET i (exceptfds fds)) fd (exceptfds (sysfds s))) (\<lambda>e.
               Inr (s\<lparr>sysfds := \<lparr>readfds = r, writefds = w, exceptfds = e\<rparr>, maxFD := max (maxFD s) fd,
                      reverseMapping := (reverseMapping s)(fd \<mapsto> i)\<rparr>))))
           | ESDT_SCTP d \<Rightarrow> Inr (if \<not> ConnectionOriented d then s\<lparr>fakeUDPWrite := True\<rparr> else s)
           | ESDT_Invalid _ \<Rightarrow> Inr s))"

definition wrapper_back :: "select_state \<Rightarrow> int \<Rightarrow> fd_sets \<Rightarrow> fd_sets result" where
  "wrapper_back s i fds =
     (let back = (\<lambda>sys fdset. if SAFE_FD_ISSET i sys
                              then andThen (ofOption (reverseMapping s i)) (\<lambda>fd. FD_SET fd fdset) else Inr fdset) in
      andThen (back (readfds (sysfds s)) (readfds fds)) (\<lambda>r.
      andThen (back (writefds (sysfds s)) (writefds fds)) (\<lambda>w.
      andThen (back (exceptfds (sysfds s)) (exceptfds fds)) (\<lambda>e.
      Inr \<lparr>readfds = r, writefds = w, exceptfds = e\<rparr>))))"

text \<open>The number of descriptors considered, for an unsigned and a signed comparison.\<close>

definition unsigned_limit :: "int \<Rightarrow> nat" where
  "unsigned_limit n = (if n < 0 then MaxSockets else min (nat n) MaxSockets)"

definition signed_limit :: "int \<Rightarrow> nat" where
  "signed_limit n = min (nat n) MaxSockets"

definition select_wrapper ::
  "('l, 'o) xenv \<Rightarrow> int \<Rightarrow> fd_sets \<Rightarrow> (int \<times> int) option \<Rightarrow> ('l, 'o) ext \<Rightarrow> (int \<times> fd_sets \<times> ('l, 'o) ext) result" where
  "select_wrapper xe n fds timeout x =
     andThen (forEach (wrapper_add fds x) (map int [0..<unsigned_limit n])
                \<lparr>sysfds = \<lparr>readfds = Some {}, writefds = Some {}, exceptfds = Some {}\<rparr>, maxFD = 0,
                 reverseMapping = Map.empty, fakeUDPWrite = False\<rparr>) (\<lambda>s.
     case system xe (Sys_select (maxFD s + 1) (the (readfds (sysfds s))) (the (writefds (sysfds s)))
                       (the (exceptfds (sysfds s))) (if fakeUDPWrite s then Some (0, 0) else timeout)) x of
       (reply, x) \<Rightarrow>
         if Ret reply \<ge> 0 then
           let (r, w, e) = ReadySets reply;
               s = s\<lparr>sysfds := \<lparr>readfds = Some r, writefds = Some w, exceptfds = Some e\<rparr>\<rparr>;
               kept = (case writefds fds of None \<Rightarrow> {} | Some ws \<Rightarrow>
                         if fakeUDPWrite s then {i \<in> ws. 0 \<le> i \<and> i < int MaxSockets \<and> isUDPLike i x} else {});
               fds = \<lparr>readfds = SAFE_FD_ZERO (readfds fds),
                      writefds = (case writefds fds of None \<Rightarrow> None | Some _ \<Rightarrow> Some kept),
                      exceptfds = SAFE_FD_ZERO (exceptfds fds)\<rparr>
           in andThen (forEach (wrapper_back s) (map int [0..<nat (maxFD s + 1)]) fds) (\<lambda>fds.
              Inr (Ret reply + int (card kept), fds, x))
         else Inr (Ret reply, fds, x))"

section \<open>Collecting conditions\<close>

record SelectData =
  SelConditions :: "(int \<times> UpdateConditionType \<times> cref \<times> select_cond) list"
  SelUserCallbacks :: "(int \<times> nat) list"

definition selectParent :: "UpdateConditionType \<Rightarrow> select_cond" where
  "selectParent type =
     (case type of UCT_Read \<Rightarrow> ReadCondition | UCT_Write \<Rightarrow> WriteCondition | UCT_Except \<Rightarrow> ExceptCondition)"

text \<open>The arrays of \<^verbatim>\<open>SelectData\<close> have \<^verbatim>\<open>FD_SETSIZE\<close> entries.\<close>

definition collect_condition ::
  "int \<Rightarrow> UpdateConditionType \<Rightarrow> select_cond \<Rightarrow> cref \<Rightarrow> SelectData \<times> ('l, 'o) ext
   \<Rightarrow> (int \<times> SelectData \<times> ('l, 'o) ext) result" where
  "collect_condition fd type condition c = (\<lambda>(sd, x).
     if length (SelConditions sd) \<ge> MaxSockets then Inl BadPointer
     else andThen (coreDo (condAddParent c (SelectCond condition)) x) (\<lambda>x.
          Inr (0, sd\<lparr>SelConditions := SelConditions sd @ [(fd, type, c, condition)]\<rparr>, x)))"

definition collectSCTP_FDs ::
  "int \<Rightarrow> SCTPDesc \<Rightarrow> UpdateConditionType \<Rightarrow> SelectData \<times> ('l, 'o) ext
   \<Rightarrow> (int \<times> SelectData \<times> ('l, 'o) ext) result" where
  "collectSCTP_FDs fd d type = (\<lambda>(sd, x).
     case SCTPAssociationPtr d of
       Some a \<Rightarrow>
         andThen (core (Association_getUpdateCondition a type) x) (\<lambda>(c, x).
         collect_condition fd type (selectParent type) c (sd, x))
     | None \<Rightarrow>
         (case SCTPSocketPtr d of
            Some s \<Rightarrow>
              andThen (core (Socket_getUpdateCondition s type) x) (\<lambda>(c, x).
              andThen (if type = UCT_Write \<and> \<not> ConnectionOriented d then coreDo (fire c) x else Inr x) (\<lambda>x.
              collect_condition fd type (selectParent type) c (sd, x)))
          | None \<Rightarrow> Inr (- EBADF, sd, x)))"

text \<open>A new notification, whose condition has the conditions of the wanted events as parents.\<close>

definition newNotification :: "int \<Rightarrow> card16 \<Rightarrow> ('l, 'o) ext \<Rightarrow> (nat \<times> ('l, 'o) ext) result" where
  "newNotification fd eventMask x =
     (let k = NextNotification x;
          c = SelectCond (UpdateCondition k);
          x = x\<lparr>NextNotification := k + 1,
                Notifications := (Notifications x)(k \<mapsto> \<lparr>FileDescriptor = fd, EventMask = eventMask, Events = 0\<rparr>),
                Core := (Core x)\<lparr>Conds := (Conds (Core x))(c := Condition_new)\<rparr>\<rparr>;
          parent = (\<lambda>ev p x. if has_event eventMask ev then coreDo (condAddParent c (SelectCond p)) x else Inr x)
      in andThen (parent POLLIN ReadCondition x) (\<lambda>x.
         andThen (parent POLLOUT WriteCondition x) (\<lambda>x.
         andThen (parent POLLERR ExceptCondition x) (\<lambda>x. Inr (k, x)))))"

text \<open>The result of a kind of event is overwritten by the next.\<close>

definition collect_kind ::
  "int \<Rightarrow> SCTPDesc \<Rightarrow> bool \<Rightarrow> UpdateConditionType \<Rightarrow> int \<times> SelectData \<times> ('l, 'o) ext
   \<Rightarrow> (int \<times> SelectData \<times> ('l, 'o) ext) result" where
  "collect_kind fd d want type = (\<lambda>(r, sd, x). if want then collectSCTP_FDs fd d type (sd, x) else Inr (r, sd, x))"

definition collectFDs ::
  "('l, 'o) xenv \<Rightarrow> int \<Rightarrow> card16 \<Rightarrow> SelectData \<times> ('l, 'o) ext \<Rightarrow> (int \<times> SelectData \<times> ('l, 'o) ext) result" where
  "collectFDs xe fd eventMask = (\<lambda>(sd, x).
     let fail = (\<lambda>r sd x. andThen (errno_return r x) (\<lambda>(r, x). Inr (r, sd, x))) in
     case getSocket fd of
       None \<Rightarrow> fail (- EBADF) sd x
     | Some i \<Rightarrow>
         (case Table x i of
            ESDT_Invalid _ \<Rightarrow> fail (- EBADF) sd x
          | ESDT_System sfd \<Rightarrow>
              andThen (newNotification sfd eventMask x) (\<lambda>(k, x).
              andThen (addUserSocketNotification xe k x) (\<lambda>x.
              Inr (0, sd\<lparr>SelUserCallbacks := SelUserCallbacks sd @ [(fd, k)]\<rparr>, x)))
          | ESDT_SCTP d \<Rightarrow>
              andThen (collect_kind fd d (has_event eventMask POLLIN) UCT_Read (0, sd, x)) (\<lambda>z.
              andThen (collect_kind fd d (has_event eventMask POLLOUT) UCT_Write z) (\<lambda>z.
              andThen (collect_kind fd d (has_event eventMask POLLERR) UCT_Except z) (\<lambda>(r, sd, x).
              fail r sd x)))))"

section \<open>Waiting\<close>

definition wantedEvents :: "fd_sets \<Rightarrow> int \<Rightarrow> card16" where
  "wantedEvents fds i =
     (if SAFE_FD_ISSET i (readfds fds) then POLLIN OR POLLPRI else 0) OR
     (if SAFE_FD_ISSET i (writefds fds) then POLLOUT else 0) OR
     (if SAFE_FD_ISSET i (exceptfds fds) then POLLERR else 0)"

text \<open>Collecting stops at the first failure.\<close>

fun collectAll ::
  "('l, 'o) xenv \<Rightarrow> fd_sets \<Rightarrow> int list \<Rightarrow> SelectData \<times> ('l, 'o) ext \<Rightarrow> (int \<times> SelectData \<times> ('l, 'o) ext) result" where
  "collectAll xe fds [] (sd, x) = Inr (0, sd, x)"
| "collectAll xe fds (i # is) (sd, x) =
     (if wantedEvents fds i = 0 then collectAll xe fds is (sd, x)
      else andThen (collectFDs xe i (wantedEvents fds i) (sd, x)) (\<lambda>(r, sd, x).
           if r \<noteq> 0 then Inr (r, sd, x) else collectAll xe fds is (sd, x)))"

text \<open>
  \<^verbatim>\<open>timedWait\<close> on the global condition: the master thread runs meanwhile; \<^verbatim>\<open>wait\<close> repeats it.
\<close>

definition selectTimedWait :: "('l, 'o) xenv \<Rightarrow> 'l callback \<Rightarrow> ('l, 'o) ext \<Rightarrow> (bool \<times> ('l, 'o) ext) result" where
  "selectTimedWait xe cb x =
     (let test = (\<lambda>x. case testFired (SelectCond GlobalCondition) (Core x) of (b, w) \<Rightarrow> (b, x\<lparr>Core := w\<rparr>)) in
      if Fired (Conds (Core x) (SelectCond GlobalCondition)) then Inr (test x)
      else andThen (eventLoop xe cb x) (\<lambda>x. Inr (test x)))"

fun selectWait :: "('l, 'o) xenv \<Rightarrow> 'l callback \<Rightarrow> nat \<Rightarrow> ('l, 'o) ext \<Rightarrow> ('l, 'o) ext result" where
  "selectWait xe cb 0 x = Inl StillWaiting"
| "selectWait xe cb (Suc n) x =
     andThen (selectTimedWait xe cb x) (\<lambda>(ok, x). if ok then Inr x else selectWait xe cb n x)"

definition waitForEvents ::
  "('l, 'o) xenv \<Rightarrow> 'l callback \<Rightarrow> (int \<times> int) option \<Rightarrow> SelectData \<Rightarrow> ('l, 'o) ext \<Rightarrow> (int \<times> ('l, 'o) ext) result" where
  "waitForEvents xe cb timeout sd x =
     andThen (coreDo unlock x) (\<lambda>x.
     andThen
       (if SelConditions sd \<noteq> [] \<or> SelUserCallbacks sd \<noteq> [] then
          (case timeout of
             Some _ \<Rightarrow> andThen (selectTimedWait xe cb x) (\<lambda>(_, x). Inr (0, x))
           | None \<Rightarrow> andThen (selectWait xe cb (max (length (Future (Core x))) (length (UserFuture x)) + 1) x)
                       (\<lambda>x. Inr (0, x)))
        else (case system xe (Sys_select 0 {} {} {} timeout) x of (reply, x) \<Rightarrow> Inr (Ret reply, x))) (\<lambda>(result, x).
     Inr (result, lockX x)))"

section \<open>Results\<close>

definition set_kind :: "UpdateConditionType \<Rightarrow> int \<Rightarrow> fd_sets \<Rightarrow> fd_sets" where
  "set_kind type fd fds =
     (case type of
        UCT_Read \<Rightarrow> fds\<lparr>readfds := map_option (insert fd) (readfds fds)\<rparr>
      | UCT_Write \<Rightarrow> fds\<lparr>writefds := map_option (insert fd) (writefds fds)\<rparr>
      | UCT_Except \<Rightarrow> fds\<lparr>exceptfds := map_option (insert fd) (exceptfds fds)\<rparr>)"

definition FD_CLR_sets :: "int list \<Rightarrow> fd_sets \<Rightarrow> fd_sets" where
  "FD_CLR_sets l fds =
     \<lparr>readfds = FD_CLR_all l (readfds fds), writefds = FD_CLR_all l (writefds fds), exceptfds = FD_CLR_all l (exceptfds fds)\<rparr>"

fun collect_fired ::
  "(int \<times> UpdateConditionType \<times> cref \<times> select_cond) list \<Rightarrow> int \<times> fd_sets \<times> 'l world \<Rightarrow> int \<times> fd_sets \<times> 'l world" where
  "collect_fired [] z = z"
| "collect_fired ((fd, type, c, p) # cs) (changes, fds, w) =
     (case testFired c w of
        (f, w) \<Rightarrow>
          let w = w\<lparr>Conds := removeParent c (Some (SelectCond p)) (Conds w)\<rparr> in
          collect_fired cs (if f then (changes + 1, set_kind type fd fds, w) else (changes, fds, w)))"

definition user_result :: "card16 \<Rightarrow> int \<Rightarrow> fd_sets \<Rightarrow> bool \<times> fd_sets" where
  "user_result ev fd fds =
     (let r = (readfds fds \<noteq> None \<and> has_event ev (POLLIN OR POLLPRI));
          w = (writefds fds \<noteq> None \<and> has_event ev POLLOUT);
          e = (exceptfds fds \<noteq> None \<and> has_event ev (NOT (POLLIN OR POLLPRI OR POLLOUT)));
          fds = (if r then set_kind UCT_Read fd fds else fds);
          fds = (if w then set_kind UCT_Write fd fds else fds);
          fds = (if e then set_kind UCT_Except fd fds else fds)
      in (r \<or> w \<or> e, fds))"

fun collect_user ::
  "('l, 'o) xenv \<Rightarrow> (int \<times> nat) list \<Rightarrow> int \<times> fd_sets \<times> ('l, 'o) ext \<Rightarrow> (int \<times> fd_sets \<times> ('l, 'o) ext) result" where
  "collect_user xe [] z = Inr z"
| "collect_user xe ((fd, k) # us) (changes, fds, x) =
     andThen (deleteUserSocketNotification xe k x) (\<lambda>x.
     andThen (ofOption (Notifications x k)) (\<lambda>usn.
     case user_result (Events usn) fd fds of
       (changed, fds) \<Rightarrow>
         collect_user xe us
           (if changed then changes + 1 else changes, fds, x\<lparr>Notifications := (Notifications x)(k := None)\<rparr>)))"

text \<open>The conditions of the calling thread begin unfired, with the global condition as parent.\<close>

definition selectConditions :: "'l world \<Rightarrow> 'l world" where
  "selectConditions w =
     w\<lparr>Conds := (Conds w)
         (SelectCond GlobalCondition := Condition_new,
          SelectCond ReadCondition := \<lparr>Fired = False, ParentSet = [SelectCond GlobalCondition]\<rparr>,
          SelectCond WriteCondition := \<lparr>Fired = False, ParentSet = [SelectCond GlobalCondition]\<rparr>,
          SelectCond ExceptCondition := \<lparr>Fired = False, ParentSet = [SelectCond GlobalCondition]\<rparr>)\<rparr>"

definition ext_select ::
  "('l, 'o) xenv \<Rightarrow> 'l callback \<Rightarrow> int \<Rightarrow> fd_sets \<Rightarrow> (int \<times> int) option \<Rightarrow> ('l, 'o) ext
   \<Rightarrow> (int \<times> fd_sets \<times> ('l, 'o) ext) result" where
  "ext_select xe cb n fds timeout x =
     (if \<not> Running (Core x) then select_wrapper xe n fds timeout x
      else
        let x = lockX x; x = x\<lparr>Core := selectConditions (Core x)\<rparr> in
        andThen (collectAll xe fds (map int [0..<signed_limit n])
                   (\<lparr>SelConditions = [], SelUserCallbacks = []\<rparr>, x)) (\<lambda>(result, sd, x).
        andThen (if result = 0 then waitForEvents xe cb timeout sd x else Inr (result, x)) (\<lambda>(result, x).
        let fds = FD_CLR_sets (map fst (SelConditions sd)) fds;
            (changes, fds, w) = collect_fired (SelConditions sd) (0, fds, Core x);
            fds = FD_CLR_sets (map fst (SelUserCallbacks sd)) fds
        in andThen (collect_user xe (SelUserCallbacks sd) (changes, fds, x\<lparr>Core := w\<rparr>)) (\<lambda>(changes, fds, x).
           andThen (coreDo unlock x) (\<lambda>x.
           andThen (errno_return (if result < 0 then result else changes) x) (\<lambda>(r, x). Inr (r, fds, x)))))))"

section \<open>\<^verbatim>\<open>poll\<close>\<close>

record pollfd =
  p_fd :: int
  p_events :: card16
  p_revents :: card16

definition inRange :: "int \<Rightarrow> bool" where
  "inRange f = (0 \<le> f \<and> f < int MaxSockets)"

definition pollSets :: "pollfd list \<Rightarrow> fd_sets" where
  "pollSets fdlist =
     \<lparr>readfds = Some (set (map p_fd (filter (\<lambda>p. inRange (p_fd p) \<and> has_event (p_events p) POLLIN) fdlist))),
      writefds = Some (set (map p_fd (filter (\<lambda>p. inRange (p_fd p) \<and> has_event (p_events p) POLLOUT) fdlist))),
      exceptfds = Some (set (map p_fd (filter (\<lambda>p. inRange (p_fd p)) fdlist)))\<rparr>"

definition poll_revents :: "fd_sets \<Rightarrow> pollfd \<Rightarrow> pollfd" where
  "poll_revents fds p =
     (if inRange (p_fd p) then
        p\<lparr>p_revents :=
          (if SAFE_FD_ISSET (p_fd p) (readfds fds) \<and> has_event (p_events p) POLLIN then POLLIN else 0) OR
          (if SAFE_FD_ISSET (p_fd p) (writefds fds) \<and> has_event (p_events p) POLLOUT then POLLOUT else 0) OR
          (if SAFE_FD_ISSET (p_fd p) (exceptfds fds) then POLLERR else 0)\<rparr>
      else p)"

definition pollTimeout :: "int \<Rightarrow> (int \<times> int) option" where
  "pollTimeout t = (if t < 0 then None else Some (t div 1000, (t mod 1000) * 1000))"

text \<open>
  The mark of an invalid descriptor is overwritten unless all are invalid; the result counts the
  valid descriptors with events.
\<close>

definition ext_poll ::
  "('l, 'o) xenv \<Rightarrow> 'l callback \<Rightarrow> pollfd list \<Rightarrow> int \<Rightarrow> ('l, 'o) ext \<Rightarrow> (int \<times> pollfd list \<times> ('l, 'o) ext) result" where
  "ext_poll xe cb fdlist time x =
     (let n = foldl (\<lambda>n p. if inRange (p_fd p) then max n (p_fd p) else n) 0 fdlist;
          invalid = map (\<lambda>p. if inRange (p_fd p) then p else p\<lparr>p_revents := POLLNVAL\<rparr>) fdlist;
          zero = map (\<lambda>p. p\<lparr>p_revents := 0\<rparr>) invalid
      in if list_all (\<lambda>p. \<not> inRange (p_fd p)) fdlist then Inr (0, invalid, x)
      else
        andThen (ext_select xe cb (n + 1) (pollSets fdlist) (pollTimeout time) x) (\<lambda>(result, fds, x).
        if result < 0 then Inr (result, zero, x)
        else
          let ps = map (poll_revents fds) zero
          in Inr (int (length (filter (\<lambda>p. inRange (p_fd p) \<and> p_revents p \<noteq> 0) ps)), ps, x)))"

end
