(* ===== verification/CallContract.thy ===== *)
theory CallContract
  imports DescriptorContract Selecting
begin

text \<open>
  The contract of the remaining calls of an application: names, options read, single-buffer transfers,
  lists of addresses, pipes, the event loop, \<^verbatim>\<open>ext_select\<close> and \<^verbatim>\<open>ext_poll\<close>. The calls that leak the lock
  leave it one level higher; all others leave \<open>xstate\<close> as it is.
\<close>

section \<open>Names and options\<close>

lemma finishName_contract [contract]:
  "xgood x \<Longrightarrow> (\<And>r sa x'. xgood x' \<Longrightarrow> xstate x' = xstate x \<Longrightarrow> P (r, sa, x')) \<Longrightarrow>
   holds P (finishName xe d r arr want x)"
  unfolding finishName_def by (auto intro!: contract)

lemma sysName_contract [contract]:
  "xgood x \<Longrightarrow> (\<And>r sa x'. xgood x' \<Longrightarrow> xstate x' = xstate x \<Longrightarrow> P (r, sa, x')) \<Longrightarrow> holds P (sysName xe c x)"
  unfolding sysName_def by (auto intro!: contract dest: system_contract)

lemma names_contract [contract]:
  assumes "xgood x" "\<And>r sa x'. xgood x' \<Longrightarrow> xstate x' = xstate x \<Longrightarrow> P (r, sa, x')"
  shows "holds P (ext_getsockname xe fd want x)" "holds P (ext_getpeername xe fd want x)"
  unfolding ext_getsockname_def ext_getpeername_def using assms by (auto intro!: contract simp: xgoodD)

lemma ext_ioctl_contract [contract]:
  "xgood x \<Longrightarrow> (\<And>r x'. xgood x' \<Longrightarrow> xstate x' = xstate x \<Longrightarrow> P (r, x')) \<Longrightarrow> holds P (ext_ioctl xe fd k x)"
  unfolding ext_ioctl_def by (auto intro!: contract)

lemma getPrimaryAddressInfo_contract [contract]:
  "xgood x \<Longrightarrow> (\<And>r i x'. xgood x' \<Longrightarrow> xstate x' = xstate x \<Longrightarrow> P (r, i, x')) \<Longrightarrow>
   holds P (getPrimaryAddressInfo xe d k i0 x)"
  unfolding getPrimaryAddressInfo_def Let_def by (auto intro!: contract simp: xgoodD)

lemma reading_contract [contract]:
  assumes "xgood x" "\<And>r v len x'. xgood x' \<Longrightarrow> xstate x' = xstate x \<Longrightarrow> P (r, v, len, x')"
  shows "holds P (getAssocStatus xe d v len x)" "holds P (getRTOInfo xe d v len x)"
    "holds P (getDelayedAckTime xe d v len x)" "holds P (getAssocInfo xe d v len x)"
    "holds P (getPeerAddressInfo xe d v len x)"
  unfolding getAssocStatus_def getRTOInfo_def getDelayedAckTime_def getAssocInfo_def getPeerAddressInfo_def orOwnID_def
  using assms by (auto intro!: contract simp: xgoodD split: optval.split)

lemma getBufferSize_contract [contract]:
  assumes "\<And>a w Q. good w \<Longrightarrow> (\<And>r w'. good w' \<Longrightarrow> lstate w' = lstate w \<Longrightarrow> Q (r, w')) \<Longrightarrow> holds Q (f a w)"
    "xgood x" "\<And>r v len x'. xgood x' \<Longrightarrow> xstate x' = xstate x \<Longrightarrow> P (r, v, len, x')"
  shows "holds P (getBufferSize f d v len x)"
  unfolding getBufferSize_def using assms(2,3) by (auto intro!: contract assms(1) simp: xgoodD)

lemma status_fields_contract [contract]:
  assumes "good w" "\<And>r w'. good w' \<Longrightarrow> lstate w' = lstate w \<Longrightarrow> P (r, w')"
  shows "holds P (Association_getSendBuffer e a w)" "holds P (Association_getReceiveBuffer e a w)"
    "holds P (Association_getTrafficClass e a w)"
  unfolding Association_getSendBuffer_def Association_getReceiveBuffer_def Association_getTrafficClass_def
  using assms by (auto intro!: contract)

lemma getsockopt_sctp_contract [contract]:
  "xgood x \<Longrightarrow> (\<And>r v len x'. xgood x' \<Longrightarrow> xstate x' = xstate x \<Longrightarrow> P (r, v, len, x')) \<Longrightarrow>
   holds P (getsockopt_sctp xe d opt v len x)"
  unfolding getsockopt_sctp_def
  by (intro holds_if reading_contract configurePeerAddressParams_contract optFail_contract) (auto intro!: contract)

lemma getsockopt_ip_contract [contract]:
  "xgood x \<Longrightarrow> (\<And>r x'. xgood x' \<Longrightarrow> xstate x' = xstate x \<Longrightarrow> P (r, x')) \<Longrightarrow> holds P (getsockopt_ip xe d opt x)"
  unfolding getsockopt_ip_def by (auto intro!: contract simp: xgoodD)

lemma ext_getsockopt_contract [contract]:
  "xgood x \<Longrightarrow> (\<And>r v len x'. xgood x' \<Longrightarrow> xstate x' = xstate x \<Longrightarrow> P (r, v, len, x')) \<Longrightarrow>
   holds P (ext_getsockopt xe fd level opt v len x)"
  unfolding ext_getsockopt_def by (auto intro!: contract dest: system_contract)

section \<open>Options that leak the lock\<close>

definition xlocked :: "('l, 'o) ext \<Rightarrow> ('l, 'o) ext \<Rightarrow> bool" where
  "xlocked x x' = (xgood x' \<and> (xstate x' = xstate x \<or> xstate x' = map_prod lockL id (xstate x)))"

lemma defaults_contract:
  assumes "good w" "\<And>r w'. good w' \<Longrightarrow> lstate w' = lockL (lstate w) \<Longrightarrow> P (r, w')"
  shows "holds P (Socket_setAssocIODefaults s k d w)" "holds P (Socket_setDefaultStreamTimeouts e s k t i j w)"
  unfolding Socket_setAssocIODefaults_def Socket_setDefaultStreamTimeouts_def Let_def
  using assms by (auto intro!: contract)

lemma locked_defaults:
  assumes "xgood x" "\<And>r x'. xgood x' \<Longrightarrow> xstate x' = map_prod lockL id (xstate x) \<Longrightarrow> P (r, x')"
  shows "holds P (core (Socket_setAssocIODefaults s k d) x)"
    "holds P (core (Socket_setDefaultStreamTimeouts e s k t i j) x)"
  unfolding core_def using assms by (auto intro!: holds_andThen defaults_contract simp: xgood_def xstate_def)

lemma leaking_contract:
  assumes "xgood x" "\<And>r x'. xlocked x x' \<Longrightarrow> P (r, x')"
  shows "holds P (setDefaultSendParams xe d v len x)" "holds P (setDefaultStreamTimeouts xe d v len x)"
  unfolding setDefaultSendParams_def setDefaultStreamTimeouts_def Let_def
  using assms by (auto intro!: contract locked_defaults simp: xgoodD xlocked_def split: optval.split)

lemma setsockopt_sctp_locked:
  "xgood x \<Longrightarrow> (\<And>r v x'. xlocked x x' \<Longrightarrow> P (r, v, x')) \<Longrightarrow> holds P (setsockopt_sctp xe i d opt v len x)"
  unfolding setsockopt_sctp_def Let_def
  by (intro holds_if holds_andThen leaking_contract setters_contract configurePeerAddressParams_contract
      errno_return_contract; simp add: xlocked_def)

lemma ext_setsockopt_locked:
  assumes "xgood x" "\<And>r v x'. xlocked x x' \<Longrightarrow> P (r, v, x')"
  shows "holds P (ext_setsockopt xe fd level opt v len x)"
  using assms unfolding ext_setsockopt_def Let_def
  by (auto intro!: contract setInteger_contract setsockopt_sctp_locked dest: system_contract simp: xlocked_def)

lemma sctp_opt_info_locked:
  "xgood x \<Longrightarrow> (\<And>r v len x'. xlocked x x' \<Longrightarrow> P (r, v, len, x')) \<Longrightarrow> holds P (sctp_opt_info xe fd k opt v len x)"
  unfolding sctp_opt_info_def
  by (auto intro!: contract ext_setsockopt_locked holds_any [of _ "withAssocID k w" for k w] simp: xlocked_def)

section \<open>Single buffers and lists of addresses\<close>

lemma ext_recvmsg2_contract [contract]:
  "xgood x \<Longrightarrow> (\<And>r m x'. xgood x' \<Longrightarrow> xstate x' = xstate x \<Longrightarrow> P (r, m, x')) \<Longrightarrow>
   holds P (ext_recvmsg2 xe (deliver e n) fd msg fl rn x)"
  unfolding ext_recvmsg2_def by (auto intro!: contract)

lemma receive_steps_contract [contract]:
  assumes "xgood x" "\<And>r b sa len x'. xgood x' \<Longrightarrow> xstate x' = xstate x \<Longrightarrow> P (r, b, sa, len, x')"
  shows "holds P (recvfrom_sctp xe (deliver e n) fd l fl from fromlen x)" "holds P (recvError err x)"
    "holds P (sysReceive xe c x)"
  unfolding recvfrom_sctp_def recvError_def sysReceive_def
  using assms by (auto intro!: contract dest: system_contract)

lemma ext_recvfrom_contract [contract]:
  "xgood x \<Longrightarrow> (\<And>r b sa len x'. xgood x' \<Longrightarrow> xstate x' = xstate x \<Longrightarrow> P (r, b, sa, len, x')) \<Longrightarrow>
   holds P (ext_recvfrom xe (deliver e n) fd l fl from fromlen x)"
  unfolding ext_recvfrom_def by (auto intro!: contract)

lemma ext_recv_contract [contract]:
  "xgood x \<Longrightarrow> (\<And>r b sa len x'. xgood x' \<Longrightarrow> xstate x' = xstate x \<Longrightarrow> P (r, b, sa, len, x')) \<Longrightarrow>
   holds P (ext_recv xe (deliver e n) fd l fl x)"
  unfolding ext_recv_def by (auto intro!: contract)

lemma ext_read_contract [contract]:
  "xgood x \<Longrightarrow> (\<And>r b sa len x'. xgood x' \<Longrightarrow> xstate x' = xstate x \<Longrightarrow> P (r, b, sa, len, x')) \<Longrightarrow>
   holds P (ext_read xe (deliver e n) fd l x)"
  unfolding ext_read_def by (auto intro!: contract)

lemma sctp_recvmsg_contract [contract]:
  "xgood x \<Longrightarrow> (\<And>r m i x'. xgood x' \<Longrightarrow> xstate x' = xstate x \<Longrightarrow> P (r, m, i, x')) \<Longrightarrow>
   holds P (sctp_recvmsg xe (deliver e n) fd l from fromlen fl x)"
  unfolding sctp_recvmsg_def by (auto intro!: contract)

lemma ext_sendto_contract [contract]:
  "xgood x \<Longrightarrow> (\<And>r x'. xgood x' \<Longrightarrow> xstate x' = xstate x \<Longrightarrow> P (r, x')) \<Longrightarrow>
   holds P (ext_sendto xe (deliver e n) fd b fl to tolen x)"
  unfolding ext_sendto_def by (auto intro!: contract)

lemma ext_send_contract [contract]:
  "xgood x \<Longrightarrow> (\<And>r x'. xgood x' \<Longrightarrow> xstate x' = xstate x \<Longrightarrow> P (r, x')) \<Longrightarrow>
   holds P (ext_send xe (deliver e n) fd b fl x)"
  unfolding ext_send_def by (auto intro!: contract)

lemma writing_contract [contract]:
  assumes "xgood x" "\<And>r x'. xgood x' \<Longrightarrow> xstate x' = xstate x \<Longrightarrow> P (r, x')"
  shows "holds P (ext_write xe (deliver e n) fd b x)"
    "holds P (sctp_sendmsg xe (deliver e n) fd b to tolen ppid fl st ttl ctx x)"
    "holds P (sctp_send xe (deliver e n) fd b info fl x)" "holds P (sctp_sendx xe (deliver e n) fd b as k info' fl x)"
  unfolding ext_write_def sctp_sendmsg_def sctp_send_def sctp_sendx_def Let_def
  using assms by (auto intro!: contract)

lemma sctp_addresses_contract [contract]:
  "xgood x \<Longrightarrow> (\<And>r arr x'. xgood x' \<Longrightarrow> xstate x' = xstate x \<Longrightarrow> P (r, arr, x')) \<Longrightarrow>
   holds P (sctp_addresses xe d k peers x)"
  unfolding sctp_addresses_def Let_def by (auto intro!: contract simp: xgoodD)

lemma sctp_getlpaddrs_contract [contract]:
  "xgood x \<Longrightarrow> (\<And>r as x'. xgood x' \<Longrightarrow> xstate x' = xstate x \<Longrightarrow> P (r, as, x')) \<Longrightarrow>
   holds P (sctp_getlpaddrs xe fd k peers x)"
  unfolding sctp_getlpaddrs_def Let_def
  by (auto intro!: contract holds_any [of _ "pack_sockaddr_storage sas" for sas])

section \<open>The event loop\<close>

lemma xgood_Notifications [simp]:
  "xgood (x\<lparr>NextNotification := k\<rparr>) = xgood x" "xstate (x\<lparr>NextNotification := k\<rparr>) = xstate x"
  "Core (x\<lparr>NextNotification := k\<rparr>) = Core x"
  by (simp_all add: xgood_def xstate_def)

lemma good_Lib: "good w \<Longrightarrow> good (w\<lparr>Lib := l\<rparr>) \<and> lstate (w\<lparr>Lib := l\<rparr>) = lstate w"
  by (simp add: good_def lock_inv_def wf_def lstate_def)

lemma xgood_Lib:
  "xgood x \<Longrightarrow> xgood (x\<lparr>Core := (Core x)\<lparr>Lib := l\<rparr>\<rparr>) \<and> xstate (x\<lparr>Core := (Core x)\<lparr>Lib := l\<rparr>\<rparr>) = xstate x"
  by (simp add: xstate_Core good_Lib xgood_def)

lemma drainBreakPipe_contract:
  assumes "drainBreakPipe xe x = Some y" "xgood x"
  shows "xgood y \<and> xstate y = xstate x"
proof -
  have step: "xgood b \<longrightarrow> xgood z \<and> xstate z = xstate b"
    if "\<And>a b z. f a b = Some z \<Longrightarrow> xgood b \<longrightarrow> xgood z \<and> xstate z = xstate b"
      "(case system a (Sys_read (fst (BreakPipe b)) 256) b of (reply, x) \<Rightarrow> if 0 < Ret reply then f a x else Some x) = Some z"
    for f :: "('l, 'o) xenv \<Rightarrow> ('l, 'o) ext \<Rightarrow> ('l, 'o) ext option" and a b z
  proof -
    obtain r c where c: "system a (Sys_read (fst (BreakPipe b)) 256) b = (r, c)" by fastforce
    have "xgood b \<Longrightarrow> xgood c \<and> xstate c = xstate b" using system_contract [OF c] .
    moreover have "f a c = Some z \<or> z = c" using that(2) c by (simp split: if_splits)
    ultimately show ?thesis using that(1) [of a c z] by metis
  qed
  note raw = drainBreakPipe.raw_induct [where P = "\<lambda>a b z. xgood b \<longrightarrow> xgood z \<and> xstate z = xstate b" and xa = "(xe, x)" and y = y,
      unfolded prod.case]
  have "xgood x \<longrightarrow> xgood y \<and> xstate y = xstate x" by (rule raw, rule step) (use assms(1) in auto)
  with assms(2) show ?thesis by simp
qed

lemma userCallback_contract [contract]:
  "xgood x \<Longrightarrow> (\<And>r x'. xgood x' \<Longrightarrow> xstate x' = xstate x \<Longrightarrow> P (r, x')) \<Longrightarrow>
   holds P (userCallback xe fd m reg u x)"
  unfolding userCallback_def Let_def
  by (auto intro!: contract holds_any [of _ "ofOption z" for z] simp: xgoodD xstate_Core dest: drainBreakPipe_contract
      split: option.split)

lemma forEach_ext_contract:
  assumes "\<And>a z Q. xgood z \<Longrightarrow> (\<And>z'. xgood z' \<Longrightarrow> xstate z' = xstate z \<Longrightarrow> Q z') \<Longrightarrow> holds Q (f a z)"
  shows "xgood x \<Longrightarrow> (\<And>x'. xgood x' \<Longrightarrow> xstate x' = xstate x \<Longrightarrow> P x') \<Longrightarrow> holds P (forEach f as x)"
proof (induction "as" arbitrary: x)
  case (Cons a as)
  then show ?case by (auto intro!: holds_andThen assms)
qed simp

lemma userRuns_contract [contract]:
  "xgood x \<Longrightarrow> (\<And>x'. xgood x' \<Longrightarrow> xstate x' = xstate x \<Longrightarrow> P x') \<Longrightarrow> holds P (userRuns xe x)"
  unfolding userRuns_def by (auto intro!: contract forEach_ext_contract split: list.split)

lemma eventLoop_contract [contract]:
  "xgood x \<Longrightarrow> (\<And>x'. xgood x' \<Longrightarrow> xstate x' = xstate x \<Longrightarrow> P x') \<Longrightarrow> holds P (eventLoop xe (deliver e n) x)"
  unfolding eventLoop_def by (auto intro!: contract master.masterRuns_contract simp: xgoodD)

lemma good_Now [simp]: "good w \<Longrightarrow> good (w\<lparr>Now := t\<rparr>)" "lstate (w\<lparr>Now := t\<rparr>) = lstate w"
  by (simp_all add: good_def lock_inv_def wf_def lstate_def)

lemma xgood_timer [simp]:
  "xgood (x\<lparr>GarbageCollectionTimerID := k\<rparr>) = xgood x" "xstate (x\<lparr>GarbageCollectionTimerID := k\<rparr>) = xstate x"
  by (simp_all add: xgood_def xstate_def)

lemma xstate_parts: "xstate x = (lstate (Core x), snd (xstate x))" "xstate (x\<lparr>Core := w\<rparr>) = (lstate w, snd (xstate x))"
  by (simp_all add: xstate_def)

text \<open>A change of the state of the SCTP library under the lock.\<close>

lemma locked_Lib:
  assumes "xgood x" "xstate z = xstate x"
  shows "xgood (z\<lparr>Core := (lock (Core x))\<lparr>Lib := l\<rparr>\<rparr>)"
    "xstate (z\<lparr>Core := (lock (Core x))\<lparr>Lib := l\<rparr>\<rparr>) = map_prod lockL id (xstate x)"
  using assms good_Lib [of "lock (Core x)" l]
  by (simp_all add: xstate_parts(2) xgoodD) (metis id_apply lstate_lock map_prod_simp xstate_parts(1))

lemma unlock_after:
  assumes "xgood z" "xstate z = map_prod lockL id (xstate x)" "xgood x"
    "\<And>x'. xgood x' \<Longrightarrow> xstate x' = xstate x \<Longrightarrow> P x'"
  shows "holds P (coreDo unlock z)"
  using assms by (auto intro!: unlockX_contract)

lemma unlock_Lib:
  assumes "xgood x" "\<And>x'. xgood x' \<Longrightarrow> xstate x' = xstate x \<Longrightarrow> P x'"
  shows "holds P (coreDo unlock (x\<lparr>Core := (lock (Core x))\<lparr>Lib := l\<rparr>, GarbageCollectionTimerID := k\<rparr>))"
  using assms by (auto intro!: unlock_after [where x = x] locked_Lib simp: xgoodD)

lemma collection_contract:
  "xgood x \<Longrightarrow> (\<And>x'. xgood x' \<Longrightarrow> xstate x' = xstate x \<Longrightarrow> P x') \<Longrightarrow>
   holds P (coreDo (socketGarbageCollection (E xe) (deliver e n)) x)"
  by (auto intro!: contract master.socketGarbageCollection_contract simp: xgoodD)

lemma run_round_contract [contract]:
  "xgood x \<Longrightarrow> (\<And>x'. xgood x' \<Longrightarrow> xstate x' = xstate x \<Longrightarrow> P x') \<Longrightarrow> holds P (run_round xe (deliver e n) t x)"
  unfolding run_round_def Let_def
  by (auto intro!: holds_andThen holds_if unlock_Lib eventLoop_contract collection_contract
      simp: lockX_def xstate_Core xgoodD split: prod.split)

section \<open>Waiting for events\<close>

lemma userNotification_contract [contract]:
  assumes "xgood x" "\<And>x'. xgood x' \<Longrightarrow> xstate x' = xstate x \<Longrightarrow> P x'"
  shows "holds P (addUserSocketNotification xe k x)" "holds P (deleteUserSocketNotification xe k x)"
  unfolding addUserSocketNotification_def deleteUserSocketNotification_def Let_def
  using assms by (auto intro!: holds_andThen holds_any [of _ "ofOption z" for z] unlock_after [where x = x] locked_Lib simp: lockX_def xgoodD)

text \<open>The conditions of a waiting thread and of its notifications.\<close>

lemma lstate_Conds [simp]: "lstate (w\<lparr>Conds := s\<rparr>) = lstate w"
  by (simp add: lstate_def)

lemma good_ranked: "good w \<Longrightarrow> ranked cond_rank (Conds w)"
  by (simp add: good_def wf_def)

lemma selectConditions_good: "good w \<Longrightarrow> good (selectConditions w) \<and> lstate (selectConditions w) = lstate w"
  unfolding selectConditions_def
  by (auto intro!: good_Conds dest: good_ranked simp: ranked_def Condition_new_def)

lemma removeParent_good: "good w \<Longrightarrow> good (w\<lparr>Conds := removeParent c p (Conds w)\<rparr>)"
  by (rule good_Conds) (auto dest: good_ranked simp: ranked_def removeParent_def split: option.split)

lemma newNotification_contract [contract]:
  assumes "xgood x" "\<And>k x'. xgood x' \<Longrightarrow> xstate x' = xstate x \<Longrightarrow> P (k, x')"
  shows "holds P (newNotification fd m x)"
proof -
  have "good ((Core x)\<lparr>Conds := (Conds (Core x))(SelectCond (UpdateCondition k) := Condition_new)\<rparr>)" for k
    using xgoodD [OF assms(1)] by (intro good_Conds) (auto dest: good_ranked simp: ranked_def Condition_new_def)
  then show ?thesis
    unfolding newNotification_def Let_def
    using assms by (auto intro!: contract simp: xgoodD xstate_Core)
qed

lemma update_conditions_contract [contract]:
  assumes "good w" "\<And>c w'. good w' \<Longrightarrow> lstate w' = lstate w \<Longrightarrow> cond_rank c = 2 \<Longrightarrow> P (c, w')"
  shows "holds P (Association_getUpdateCondition a t w)" "holds P (Socket_getUpdateCondition s t w)"
  unfolding Association_getUpdateCondition_def Socket_getUpdateCondition_def
  using assms by (cases t; auto intro!: contract)+

lemma core_update_condition:
  assumes "xgood x" "\<And>c x'. xgood x' \<Longrightarrow> xstate x' = xstate x \<Longrightarrow> cond_rank c = 2 \<Longrightarrow> P (c, x')"
  shows "holds P (core (Association_getUpdateCondition a t) x)" "holds P (core (Socket_getUpdateCondition s t) x)"
  unfolding core_def using assms by (auto intro!: holds_andThen update_conditions_contract simp: xgoodD xstate_Core)

lemma collect_condition_contract:
  assumes "xgood x" "cond_rank c = 2" "\<And>sd x'. xgood x' \<Longrightarrow> xstate x' = xstate x \<Longrightarrow> P (0, sd, x')"
  shows "holds P (collect_condition fd t (selectParent t) c (sd, x))"
  unfolding collect_condition_def
  using assms by (cases t) (auto intro!: contract simp: xgoodD selectParent_def)

lemma collectSCTP_FDs_contract [contract]:
  "xgood x \<Longrightarrow> (\<And>r sd x'. xgood x' \<Longrightarrow> xstate x' = xstate x \<Longrightarrow> P (r, sd, x')) \<Longrightarrow>
   holds P (collectSCTP_FDs fd d t (sd, x))"
  unfolding collectSCTP_FDs_def
  by (auto intro!: holds_andThen core_update_condition holds_if coreDo_contract fire_contract collect_condition_contract
      simp: xgoodD split: option.split)

lemma collectFDs_contract [contract]:
  "xgood x \<Longrightarrow> (\<And>r sd x'. xgood x' \<Longrightarrow> xstate x' = xstate x \<Longrightarrow> P (r, sd, x')) \<Longrightarrow>
   holds P (collectFDs xe fd m (sd, x))"
  unfolding collectFDs_def collect_kind_def Let_def by (auto intro!: contract)

lemma collectAll_contract [contract]:
  "xgood x \<Longrightarrow> (\<And>r sd x'. xgood x' \<Longrightarrow> xstate x' = xstate x \<Longrightarrow> P (r, sd, x')) \<Longrightarrow>
   holds P (collectAll xe fds is (sd, x))"
proof (induction "is" arbitrary: sd x)
  case (Cons i "is")
  then show ?case by (auto intro!: contract)
qed simp

lemma selectTimedWait_contract [contract]:
  assumes "xgood x" "\<And>r x'. xgood x' \<Longrightarrow> xstate x' = xstate x \<Longrightarrow> P (r, x')"
  shows "holds P (selectTimedWait xe (deliver e n) x)"
proof -
  have "P (b, z\<lparr>Core := w\<rparr>)" if "testFired c (Core z) = (b, w)" "xgood z" "xstate z = xstate x" for b z w c
    using testFired_contract [OF that(1) xgoodD [OF that(2)]] that(3) by (intro assms(2)) (simp_all add: xstate_Core)
  then show ?thesis
    unfolding selectTimedWait_def Let_def using assms(1) by (auto intro!: contract split: prod.split)
qed

lemma selectWait_contract [contract]:
  "xgood x \<Longrightarrow> (\<And>x'. xgood x' \<Longrightarrow> xstate x' = xstate x \<Longrightarrow> P x') \<Longrightarrow> holds P (selectWait xe (deliver e n) k x)"
proof (induction k arbitrary: x)
  case (Suc k)
  then show ?case by (auto intro!: contract)
qed simp

lemma system_case:
  "xgood x \<Longrightarrow> (\<And>r z. xgood z \<Longrightarrow> xstate z = xstate x \<Longrightarrow> holds P (f r z)) \<Longrightarrow> holds P (case system xe c x of (r, z) \<Rightarrow> f r z)"
  using system_contract [of xe c x] by (cases "system xe c x") auto

lemma waitForEvents_contract:
  assumes "xgood z" "xstate z = map_prod lockL id (xstate x)" "xgood x"
    "\<And>r z'. xgood z' \<Longrightarrow> xstate z' = map_prod lockL id (xstate x) \<Longrightarrow> P (r, z')"
  shows "holds P (waitForEvents xe (deliver e n) timeout sd z)"
  unfolding waitForEvents_def using assms
  by (auto intro!: holds_andThen holds_if unlock_after [where x = x] selectTimedWait_contract selectWait_contract
      system_case split: option.split)

lemma collect_fired_good:
  "collect_fired cs (k, fds, w) = (k', fds', w') \<Longrightarrow> good w \<Longrightarrow> good w' \<and> lstate w' = lstate w"
proof (induction cs arbitrary: k fds w)
  case (Cons q cs)
  obtain fd t c p where q: "q = (fd, t, c, p)" by (cases q)
  obtain f v where v: "testFired c w = (f, v)" by fastforce
  let ?v = "v\<lparr>Conds := removeParent c (Some (SelectCond p)) (Conds v)\<rparr>"
  have "good v" "lstate v = lstate w" using testFired_contract [OF v Cons.prems(2)] by simp_all
  then have "good ?v" "lstate ?v = lstate w" by (simp_all add: removeParent_good)
  then show ?case using Cons.prems(1) Cons.IH [of _ _ ?v] by (cases f) (auto simp: q v Let_def)
qed simp

lemma collect_user_contract:
  "xgood x \<Longrightarrow> (\<And>k fds x'. xgood x' \<Longrightarrow> xstate x' = xstate x \<Longrightarrow> P (k, fds, x')) \<Longrightarrow>
   holds P (collect_user xe us (k, fds, x))"
proof (induction us arbitrary: k fds x)
  case (Cons u us)
  then show ?case
    by (cases u) (auto intro!: holds_andThen userNotification_contract holds_any [of _ "ofOption z" for z] split: prod.split)
qed simp

lemma select_wrapper_contract [contract]:
  "xgood x \<Longrightarrow> (\<And>r fds x'. xgood x' \<Longrightarrow> xstate x' = xstate x \<Longrightarrow> P (r, fds, x')) \<Longrightarrow>
   holds P (select_wrapper xe k fds timeout x)"
  unfolding select_wrapper_def Let_def
  by (auto intro!: holds_andThen holds_any [of _ "forEach f l z" for f l z] system_case holds_if split: prod.split)

lemma ext_select_contract [contract]:
  fixes x :: "('l, 'o) ext"
  assumes "xgood x" "\<And>r fds x'. xgood x' \<Longrightarrow> xstate x' = xstate x \<Longrightarrow> P (r, fds, x')"
  shows "holds P (ext_select xe (deliver e n) k fds timeout x)"
proof -
  let ?locked = "\<lambda>z :: ('l, 'o) ext. xgood z \<and> xstate z = map_prod lockL id (xstate x)"
  let ?start = "(lockX x)\<lparr>Core := selectConditions (Core (lockX x))\<rparr>"
  have "?locked ?start"
    using assms(1) selectConditions_good [of "Core (lockX x)"] lockX_contract [of x] by (simp add: xstate_Core xgoodD)
  then have start: "xgood ?start" "xstate ?start = map_prod lockL id (xstate x)" by simp_all
  have fired: "?locked (z\<lparr>Core := w\<rparr>)" if "?locked z" "collect_fired cs (0, fs, Core z) = (k', fs', w)" for z cs fs k' fs' w
    using that collect_fired_good [OF that(2)] by (simp add: xstate_Core xgoodD)
  have results: "holds P (case collect_fired cs (0, fs, Core z) of (changes, fds, w) \<Rightarrow>
      andThen (collect_user xe us (changes, g fds, z\<lparr>Core := w\<rparr>)) (\<lambda>(changes, fds, x).
      andThen (coreDo unlock x) (\<lambda>x. andThen (errno_return (h changes) x) (\<lambda>(r, x). Inr (r, fds, x)))))"
    if "?locked z" for z cs us fs and g :: "fd_sets \<Rightarrow> fd_sets" and h
    using fired [OF that] assms
    by (auto intro!: holds_andThen collect_user_contract unlock_after [where x = x] errno_return_contract split: prod.split)
  show ?thesis
    unfolding ext_select_def Let_def using assms
    by (auto intro!: holds_if select_wrapper_contract holds_andThen collectAll_contract start waitForEvents_contract [where x = x] results
        simp: start)
qed

lemma ext_poll_contract [contract]:
  "xgood x \<Longrightarrow> (\<And>r ps x'. xgood x' \<Longrightarrow> xstate x' = xstate x \<Longrightarrow> P (r, ps, x')) \<Longrightarrow>
   holds P (ext_poll xe (deliver e n) ps timeout x)"
  unfolding ext_poll_def Let_def by (auto intro!: contract)

end
