(* ===== verification/ExtSamples.thy ===== *)
theory ExtSamples
  imports ExtSending SocketOptions Selecting Samples LockLaws
begin

text \<open>
  A small operating system, on which the properties of the descriptor layer are applied: its state
  counts the bytes in a pipe, opening a file fails, other calls succeed; and states with the sample
  socket and association.
\<close>

definition sample_reply :: "int \<Rightarrow> int \<Rightarrow> sysreply" where
  "sample_reply r err = \<lparr>Ret = r, Err = err, Bytes = [], Addr = None, AddrLen = 0, PipeEnds = (6, 7), Msg = None,
     Opt = None, ReadySets = ({}, {}, {})\<rparr>"

fun sample_sys :: "nat \<Rightarrow> syscall \<Rightarrow> sysreply \<times> nat" where
  "sample_sys os (Sys_read fd n) = (if os > 0 then (sample_reply 1 0, os - 1) else (sample_reply (- 1) 11, 0))"
| "sample_sys os (Sys_open path fl mode) = (sample_reply (- 1) 2, os)"
| "sample_sys os (Sys_socket fam ty pr) = (sample_reply 5 0, os)"
| "sample_sys os _ = (sample_reply 0 0, os)"

definition sample_xenv :: "(nat, nat) xenv" where
  "sample_xenv = \<lparr>E = sample, Sys = sample_sys, getdtablesize = 8,
     rawPath = \<lparr>destinationAddress = '''', heartbeatIntervall = 0, path_state = 0, cwnd = 0, srtt = 0, rto = 0, mtu = 0\<rparr>\<rparr>"

definition sample_ext :: "nat world \<Rightarrow> (nat \<Rightarrow> ExtSocketDescriptor) \<Rightarrow> (nat, nat) ext" where
  "sample_ext w t = \<lparr>Core = w, Table = t, errno = 0, OS = 3, BreakPipe = (6, 7), Notifications = Map.empty,
     NextNotification = 1, GarbageCollectionTimerID = - 1, UserFuture = []\<rparr>"

text \<open>The start of the program, and a state in which descriptor 5 is the sample association.\<close>

definition start_ext :: "(nat, nat) ext" where
  "start_ext = sample_ext empty_world initialTable"

definition sample_desc :: SCTPDesc where
  "sample_desc = (newDesc AF_INET SOCK_STREAM 1)\<lparr>SCTPAssociationPtr := Some 2\<rparr>"

definition open_ext :: "(nat, nat) ext" where
  "open_ext = sample_ext sample_world (initialTable(5 := ESDT_SCTP sample_desc))"

lemmas sample_ext_defs = sample_xenv_def sample_ext_def start_ext_def open_ext_def

lemma start_fields [simp]:
  "Core start_ext = empty_world" "Table start_ext = initialTable" "E sample_xenv = sample" "getdtablesize sample_xenv = 8"
  "Core open_ext = sample_world" "Table open_ext = initialTable(5 := ESDT_SCTP sample_desc)"
  "Sys sample_xenv = sample_sys" "OS open_ext = 3" "OS start_ext = 3" "BreakPipe open_ext = (6, 7)"
  by (simp_all add: sample_ext_defs)

lemma start_good: "good empty_world"
  by (auto simp: good_def lock_inv_def wf_def empty_world_def ranked_def Condition_new_def mm_ordered_def)

end
