(* ===== verification/DescriptorLaws.thy ===== *)
theory DescriptorLaws
  imports CallContract ExtSamples
begin

text \<open>
  The properties of the descriptor table: which descriptor a call allocates, what closing frees, and
  the invariant that no descriptor points to a socket that does not exist, in all states an application
  can reach.
\<close>

section \<open>Sound states\<close>

text \<open>
  While standard input is not closed -- \<open>b\<close> says whether that is so -- its number is never given to a new
  descriptor. \<^verbatim>\<open>mayRemoveSocket\<close> does not look at number 0, so nothing is said of its socket otherwise.
\<close>

definition sound :: "bool \<Rightarrow> ('l, 'o) ext \<Rightarrow> bool" where
  "sound b x =
     (xgood x \<and> (b \<longrightarrow> \<not> isInvalid (Table x 0) \<and> socketOf (Table x 0) = None) \<and>
      (\<forall>i \<ge> MaxSockets. socketOf (Table x i) = None) \<and>
      (\<forall>i s. 0 < i \<and> socketOf (Table x i) = Some s \<longrightarrow> s \<in> dom (Sockets (Core x))))"

lemma xstate_iff:
  "xstate x' = xstate x \<longleftrightarrow> lstate (Core x') = lstate (Core x) \<and>
     (\<forall>i. isInvalid (Table x' i) = isInvalid (Table x i) \<and> socketOf (Table x' i) = socketOf (Table x i))"
  by (auto simp: xstate_def fun_eq_iff)

lemma lstate_Sockets: "lstate w' = lstate w \<Longrightarrow> dom (Sockets w') = dom (Sockets w)"
  by (simp add: lstate_def)

text \<open>A call that leaves the sockets and the table leaves a sound state.\<close>

lemma sound_same:
  "sound b x \<Longrightarrow> xgood x' \<Longrightarrow> xstate x' = xstate x \<Longrightarrow> sound b x' \<and> LockLevel (Core x) \<le> LockLevel (Core x')"
  using lstate_Sockets [of "Core x'" "Core x"] by (auto simp: sound_def xstate_iff) (simp_all add: lstate_def)

lemma sound_locked:
  "sound b x \<Longrightarrow> xgood x' \<Longrightarrow> xstate x' = map_prod lockL id (xstate x) \<Longrightarrow>
   sound b x' \<and> LockLevel (Core x) \<le> LockLevel (Core x')"
  by (auto simp: sound_def xstate_def fun_eq_iff lstate_def)

text \<open>A new descriptor for an existing socket.\<close>

lemma sound_allocated:
  assumes "sound b x" "findFree (min MaxSockets m) (Table x) = Some i" "xgood x'" "Table x' = (Table x)(i := t)"
    "lstate (Core x') = lstate w" "dom (Sockets (Core x)) \<subseteq> dom (Sockets w)"
    "\<And>s. socketOf t = Some s \<Longrightarrow> s \<in> dom (Sockets w)"
  shows "sound b x'"
proof -
  have i: "i < MaxSockets" "isInvalid (Table x i)" using findFree_Some [OF assms(2)] by auto
  have "b \<Longrightarrow> i \<noteq> 0" by (rule notI) (use assms(1) i(2) in \<open>simp add: sound_def\<close>)
  with i show ?thesis
    using assms(1,3,4,7) lstate_Sockets [OF assms(5)] subsetD [OF assms(6)] by (auto simp: sound_def)
qed

section \<open>Allocation\<close>

text \<open>
  C13. The descriptor table. A new descriptor gets the highest number that is free and
  below both the size of the table and the limit of the process; all other entries stay. When none is
  free the call returns \<^verbatim>\<open>-EMFILE\<close> and the table stays. The lock is released in both cases.
\<close>

theorem setSocket_highest_free:
  fixes x :: "('l, 'o) ext"
  assumes "good (Core x)"
  shows "holds (\<lambda>(r, x').
     let m = min MaxSockets (getdtablesize xe) in
     keeps (Core x) (Core x') \<and>
     (if \<exists>i < m. isInvalid (Table x i)
      then \<exists>i < m. r = int i \<and> isInvalid (Table x i) \<and> (\<forall>j. i < j \<and> j < m \<longrightarrow> \<not> isInvalid (Table x j)) \<and>
             Table x' = (Table x)(i := d)
      else r = - EMFILE \<and> Table x' = Table x)) (setSocket xe d x)"
proof (rule setSocket_contract)
  let ?m = "min MaxSockets (getdtablesize xe)"
  fix i and x' :: "('l, 'o) ext"
  assume *: "findFree ?m (Table x) = Some i" "xgood x'" "Table x' = (Table x)(i := d)" "lstate (Core x') = lstate (Core x)"
  have "i < ?m" "isInvalid (Table x i)" "\<forall>j. i < j \<and> j < ?m \<longrightarrow> \<not> isInvalid (Table x j)"
    using findFree_Some [OF *(1)] findFree_highest [OF *(1)] by blast+
  moreover have "keeps (Core x) (Core x')" using * by (auto intro: keepsI xgoodD)
  ultimately show "case (int i, x') of (r, x') \<Rightarrow> let m = ?m in keeps (Core x) (Core x') \<and>
      (if \<exists>i < m. isInvalid (Table x i)
       then \<exists>i < m. r = int i \<and> isInvalid (Table x i) \<and> (\<forall>j. i < j \<and> j < m \<longrightarrow> \<not> isInvalid (Table x j)) \<and>
              Table x' = (Table x)(i := d)
       else r = - EMFILE \<and> Table x' = Table x)"
    using *(3) unfolding Let_def prod.case by metis
qed (auto simp: assms xgoodI findFree_None intro!: keepsI dest: xgoodD)

section \<open>Closing\<close>

lemma unlockL_removeSocket [simp]: "unlockL (removeSocket s l) = removeSocket s (unlockL l)"
  by (cases l) (simp add: removeSocket_def)

lemma unlockL_closed:
  assumes "xgood x" "xstate y = map_prod lockL id (xstate x)"
  shows "unlockL (closed_lstate i d y) = closed_lstate i d x"
proof -
  have "lstate (Core y) = lockL (lstate (Core x))" "usedElsewhere i s y = usedElsewhere i s x" for s
    using assms(2) by (auto simp: xstate_def usedElsewhere_def fun_eq_iff)
  then show ?thesis using xgoodD [OF assms(1)] by (simp add: closed_lstate_def split: option.split)
qed

lemma close_contract:
  assumes "xgood x" "getSocket fd = Some i" "Table x i = ESDT_SCTP d"
    "\<And>x'. xgood x' \<Longrightarrow> lstate (Core x') = closed_lstate i d x \<Longrightarrow> isInvalid (Table x' i) \<Longrightarrow> socketOf (Table x' i) = None \<Longrightarrow>
      \<forall>j. j \<noteq> i \<longrightarrow> isInvalid (Table x' j) = isInvalid (Table x j) \<and> socketOf (Table x' j) = socketOf (Table x j) \<Longrightarrow> P (0, x')"
  shows "holds P (ext_close xe (deliver e n) fd x)"
proof -
  have finish: "holds (\<lambda>x. holds P (errno_return 0 x)) (coreDo unlock (z\<lparr>Table := (Table z)(i := ESDT_Invalid k)\<rparr>))"
    if "xgood z" "unlockL (lstate (Core z)) = closed_lstate i d x"
      "\<forall>j. j \<noteq> i \<longrightarrow> isInvalid (Table z j) = isInvalid (Table x j) \<and> socketOf (Table z j) = socketOf (Table x j)" for z k
    unfolding coreDo_def errno_return_def using that
    by (auto intro!: contract assms(4) simp: xgood_def)
  have "Table (lockX x) i = ESDT_SCTP d" using assms(3) by (simp add: lockX_def)
  then show ?thesis
    unfolding ext_close_def using assms(1,2)
    by (auto intro!: holds_andThen close_association_contract close_socket_contract finish
        simp: Let_def unlockL_closed) (auto simp: xstate_def fun_eq_iff)
qed

text \<open>
  C12. Closing an SCTP descriptor. The call succeeds, releases the lock, makes this entry free
  and leaves all others in use or free and pointing where they pointed. A socket disappears exactly when
  the closed descriptor was the only one with a number of at least 1 that used it: a socket shared with
  descriptor 0 alone is destroyed while descriptor 0 still points to it.
\<close>

theorem close_frees_unused_socket:
  fixes x :: "('l, 'o) ext"
  assumes "good (Core x)" "getSocket fd = Some i" "Table x i = ESDT_SCTP d"
  shows "holds (\<lambda>(r, x'). r = 0 \<and> isInvalid (Table x' i) \<and> good (Core x') \<and>
      LockLevel (Core x') = LockLevel (Core x) \<and> CancelEnabled (Core x') = CancelEnabled (Core x) \<and>
      (\<forall>j. j \<noteq> i \<longrightarrow> isInvalid (Table x' j) = isInvalid (Table x j) \<and> socketOf (Table x' j) = socketOf (Table x j)) \<and>
      (\<forall>s. s \<in> dom (Sockets (Core x')) \<longleftrightarrow> s \<in> dom (Sockets (Core x)) \<and>
         (SCTPSocketPtr d = Some s \<longrightarrow> (\<exists>j \<ge> 1. j < MaxSockets \<and> j \<noteq> i \<and> socketOf (Table x j) = Some s))))
     (ext_close xe (deliver e n) fd x)"
proof (rule close_contract [OF xgoodI [OF assms(1)] assms(2,3)])
  fix x' :: "('l, 'o) ext"
  assume *: "xgood x'" "lstate (Core x') = closed_lstate i d x" "isInvalid (Table x' i)"
    "\<forall>j. j \<noteq> i \<longrightarrow> isInvalid (Table x' j) = isInvalid (Table x j) \<and> socketOf (Table x' j) = socketOf (Table x j)"
  from *(2) have "\<forall>s. s \<in> dom (Sockets (Core x')) \<longleftrightarrow> s \<in> dom (Sockets (Core x)) \<and>
      (SCTPSocketPtr d = Some s \<longrightarrow> (\<exists>j \<ge> 1. j < MaxSockets \<and> j \<noteq> i \<and> socketOf (Table x j) = Some s))"
    "LockLevel (Core x') = LockLevel (Core x)" "CancelEnabled (Core x') = CancelEnabled (Core x)"
    by (auto simp: closed_lstate_def lstate_def removeSocket_def usedElsewhere_def split: option.splits if_splits)
  with * xgoodD [OF *(1)] show "case (0, x') of (r, x') \<Rightarrow> r = 0 \<and> isInvalid (Table x' i) \<and> good (Core x') \<and>
      LockLevel (Core x') = LockLevel (Core x) \<and> CancelEnabled (Core x') = CancelEnabled (Core x) \<and>
      (\<forall>j. j \<noteq> i \<longrightarrow> isInvalid (Table x' j) = isInvalid (Table x j) \<and> socketOf (Table x' j) = socketOf (Table x j)) \<and>
      (\<forall>s. s \<in> dom (Sockets (Core x')) \<longleftrightarrow> s \<in> dom (Sockets (Core x)) \<and>
         (SCTPSocketPtr d = Some s \<longrightarrow> (\<exists>j \<ge> 1. j < MaxSockets \<and> j \<noteq> i \<and> socketOf (Table x j) = Some s)))"
    unfolding prod.case by blast
qed

section \<open>Every call leaves a sound state\<close>

definition kept :: "bool \<Rightarrow> ('l, 'o) ext \<Rightarrow> ('l, 'o) ext \<Rightarrow> bool" where
  "kept b x x' = (sound b x' \<and> LockLevel (Core x) \<le> LockLevel (Core x'))"

lemma kept_same: "sound b x \<Longrightarrow> xgood x' \<Longrightarrow> xstate x' = xstate x \<Longrightarrow> kept b x x'"
  using sound_same by (simp add: kept_def)

lemma soundD: "sound b x \<Longrightarrow> xgood x"
  by (simp add: sound_def)

lemma LockLevel_lstate: "LockLevel w = fst (lstate w)"
  by (simp add: lstate_def)

lemma fst_addSocket [simp]: "fst (addSocket s l) = fst l" "fst (removeSocket s l) = fst l"
  by (simp_all add: addSocket_def removeSocket_def split: prod.split)

text \<open>A new descriptor for a socket that exists, or none since the table is full.\<close>

lemma setSocket_sound:
  assumes "sound b x" "\<And>s. socketOf d = Some s \<Longrightarrow> s \<in> dom (Sockets (Core x))"
    "\<And>r x'. sound b x' \<Longrightarrow> lstate (Core x') = lstate (Core x) \<Longrightarrow> r < 0 \<longrightarrow> Table x' = Table x \<Longrightarrow> P (r, x')"
  shows "holds P (setSocket xe d x)"
proof (rule setSocket_contract [OF soundD [OF assms(1)]])
  fix i and x' :: "('a, 'b) ext"
  assume *: "findFree (min MaxSockets (getdtablesize xe)) (Table x) = Some i" "xgood x'" "Table x' = (Table x)(i := d)"
    "lstate (Core x') = lstate (Core x)"
  then have "sound b x'" by (rule sound_allocated [OF assms(1)]) (use assms(2) in auto)
  with * show "P (int i, x')" by (simp add: assms(3))
next
  fix x' :: "('a, 'b) ext"
  assume "xgood x'" "Table x' = Table x" "lstate (Core x') = lstate (Core x)"
  then show "P (- EMFILE, x')"
    using sound_same [OF assms(1), of x'] by (intro assms(3)) (simp_all add: xstate_def)
qed

lemma kept_trans: "kept b x y \<Longrightarrow> kept b y z \<Longrightarrow> kept b x z"
  by (auto simp: kept_def)

lemma sound_kept: "sound b x \<Longrightarrow> kept b x x"
  by (simp add: kept_def)

lemma kept_xgood: "kept b x y \<Longrightarrow> xgood y"
  by (simp add: kept_def sound_def)

lemma kept_xstate: "kept b x y \<Longrightarrow> xgood z \<Longrightarrow> xstate z = xstate y \<Longrightarrow> kept b x z"
  using sound_same [of b y z] by (simp add: kept_def)

lemma kept_setSocket:
  assumes "kept b x y" "\<And>s. socketOf d = Some s \<Longrightarrow> s \<in> dom (Sockets (Core y))" "\<And>r z. kept b x z \<Longrightarrow> P (r, z)"
  shows "holds P (setSocket xe d y)"
  using assms by (auto intro!: setSocket_sound simp: kept_def LockLevel_lstate)

lemma kept_errno_return: "kept b x y \<Longrightarrow> (\<And>r z. kept b x z \<Longrightarrow> P (r, z)) \<Longrightarrow> holds P (errno_return r y)"
  unfolding errno_return_def by (simp add: kept_def sound_def)

lemma kept_system: "kept b x y \<Longrightarrow> kept b x (snd (system xe c y))"
  by (rule kept_xstate) (simp_all add: kept_xgood)

lemma kept_system_case:
  "kept b x y \<Longrightarrow> (\<And>r z. kept b x z \<Longrightarrow> holds P (f r z)) \<Longrightarrow> holds P (case system xe c y of (r, z) \<Rightarrow> f r z)"
  using kept_system [of b x y xe c] by (cases "system xe c y") auto

lemma kept_system_eq: "system xe c y = (r, z) \<Longrightarrow> kept b x y \<Longrightarrow> kept b x z"
  using kept_system [of b x y xe c] by simp

lemmas kept_steps = kept_system_case holds_if holds_andThen kept_errno_return kept_setSocket

lemma wrapSystem_kept:
  "kept b x y \<Longrightarrow> (\<And>r z. kept b x z \<Longrightarrow> P (r, z)) \<Longrightarrow> holds P (wrapSystem xe resets c y)"
  unfolding wrapSystem_def by (auto intro!: kept_steps kept_system)

lemma kept_closed:
  assumes "kept b x y" "b \<longrightarrow> i \<noteq> 0" "i < MaxSockets" "Table y i = ESDT_SCTP d"
    "xgood z" "lstate (Core z) = closed_lstate i d y" "socketOf (Table z i) = None"
    "\<forall>j. j \<noteq> i \<longrightarrow> isInvalid (Table z j) = isInvalid (Table y j) \<and> socketOf (Table z j) = socketOf (Table y j)"
  shows "kept b x z"
proof -
  have y: "sound b y" using assms(1) by (simp add: kept_def)
  have level: "LockLevel (Core z) = LockLevel (Core y)"
    using assms(6) by (simp add: LockLevel_lstate closed_lstate_def split: option.split)
  have "s \<in> dom (Sockets (Core z))" if j: "0 < j" "socketOf (Table z j) = Some s" for j s
  proof -
    have "j \<noteq> i" using j assms(7) by auto
    then have js: "socketOf (Table y j) = Some s" using j assms(8) by simp
    have "j < MaxSockets" by (rule ccontr) (use y js in \<open>simp add: sound_def\<close>)
    then have "usedElsewhere i s y" using j(1) js \<open>j \<noteq> i\<close> by (auto simp: usedElsewhere_def intro!: exI [of _ j])
    moreover have "s \<in> dom (Sockets (Core y))" using y js j(1) by (auto simp: sound_def)
    ultimately show ?thesis
      using assms(6) by (auto simp: closed_lstate_def lstate_def removeSocket_def split: option.splits if_splits)
  qed
  moreover have "socketOf (Table z j) = None" if "j \<ge> MaxSockets" for j
    using y that assms(3,8) by (simp add: sound_def)
  moreover have "b \<longrightarrow> \<not> isInvalid (Table z 0) \<and> socketOf (Table z 0) = None"
    using y assms(2,8) by (simp add: sound_def)
  ultimately have "sound b z" using assms(5) unfolding sound_def by blast
  with assms(1) level show ?thesis by (simp add: kept_def)
qed

lemma kept_freed:
  assumes "kept b x y" "b \<longrightarrow> i \<noteq> 0" "xgood z" "lstate (Core z) = lstate (Core y)"
    "\<forall>j. j \<noteq> i \<longrightarrow> Table z j = Table y j" "socketOf (Table z i) = None"
  shows "kept b x z"
proof -
  have y: "sound b y" "LockLevel (Core x) \<le> LockLevel (Core y)" using assms(1) by (simp_all add: kept_def)
  have "socketOf (Table z j) = (if j = i then None else socketOf (Table y j))" for j using assms(5,6) by simp
  moreover have "dom (Sockets (Core z)) = dom (Sockets (Core y))" by (rule lstate_Sockets) fact
  moreover have "b \<longrightarrow> Table z 0 = Table y 0" using assms(2,5) by simp
  ultimately show ?thesis
    using y assms(3,4) by (simp add: kept_def sound_def LockLevel_lstate)
qed

lemma kept_close:
  assumes "kept b x y" "b \<longrightarrow> fd \<noteq> 0" "\<And>r z. kept b x z \<Longrightarrow> P (r, z)"
  shows "holds P (ext_close xe (deliver e n) fd y)"
proof (cases "getSocket fd")
  case (Some i)
  then have i: "b \<longrightarrow> i \<noteq> 0" "i < MaxSockets" using assms(2) by (auto simp: getSocket_def split: if_splits)
  have y: "xgood y" using assms(1) by (rule kept_xgood)
  show ?thesis
  proof (cases "Table y i")
    case (ESDT_SCTP d)
    show ?thesis
      by (rule close_contract [OF y Some ESDT_SCTP]) (rule assms(3), rule kept_closed [OF assms(1) i ESDT_SCTP])
  next
    case (ESDT_System sfd)
    have *: "kept b x z" if "xgood z" "lstate (Core z) = lstate (Core y)" "Table z = (Table y)(i := ESDT_Invalid k)" for z k
      by (rule kept_freed [OF assms(1) i(1) that(1,2)]) (simp_all add: that)
    from ESDT_System show ?thesis
      using Some y unfolding ext_close_def coreDo_def system_def
      by (auto intro!: holds_andThen unlock_contract kept_errno_return [where x = x and b = b] assms(3) * [where k = 0]
          simp: Let_def lockX_def xgood_def split: prod.split)
  next
    case (ESDT_Invalid k)
    then show ?thesis
      using Some y unfolding ext_close_def coreDo_def
      by (auto intro!: holds_andThen unlock_contract kept_errno_return [where x = x and b = b] assms(3) kept_xstate [OF assms(1)]
          simp: Let_def lockX_def xgood_def xstate_def)
  qed
qed (use assms in \<open>auto intro: kept_errno_return simp: ext_close_def\<close>)

text \<open>A socket that exists and that no descriptor but perhaps number 0 has yet.\<close>

definition fresh :: "nat \<Rightarrow> ('l, 'o) ext \<Rightarrow> bool" where
  "fresh s x = (s \<in> dom (Sockets (Core x)) \<and> (\<forall>i > 0. socketOf (Table x i) \<noteq> Some s))"

lemma fresh_xstate: "fresh s x \<Longrightarrow> xstate x' = xstate x \<Longrightarrow> fresh s x'"
  using lstate_Sockets [of "Core x'" "Core x"] by (auto simp: fresh_def xstate_iff)

lemma fresh_exists: "fresh s x \<Longrightarrow> s \<in> dom (Sockets (Core x))"
  by (simp add: fresh_def)

lemma kept_new:
  assumes "kept b x y" "\<And>s z. kept b x z \<Longrightarrow> fresh s z \<Longrightarrow> P (s, z)"
  shows "holds P (core (SCTPSocket_new fam fl) y)"
proof (rule new_socket_contract [OF kept_xgood [OF assms(1)]])
  fix s and z :: "('a, 'b) ext"
  assume *: "xgood z" "lstate (Core z) = addSocket s (lstate (Core y))" "Sockets (Core y) s = None" "Table z = Table y"
  then have d: "dom (Sockets (Core z)) = insert s (dom (Sockets (Core y)))" "LockLevel (Core z) = LockLevel (Core y)"
    by (auto simp: lstate_def addSocket_def)
  with * assms(1) have "kept b x z" "fresh s z" by (auto simp: kept_def sound_def fresh_def)
  then show "P (s, z)" by (rule assms(2))
qed

lemma kept_setSocket_fresh:
  assumes "kept b x y" "fresh s y" "socketOf d = Some s" "\<And>r z. kept b x z \<Longrightarrow> r < 0 \<longrightarrow> fresh s z \<Longrightarrow> P (r, z)"
  shows "holds P (setSocket xe d y)"
proof (rule setSocket_sound)
  fix r :: int and z :: "('a, 'b) ext"
  assume z: "sound b z" "lstate (Core z) = lstate (Core y)" "r < 0 \<longrightarrow> Table z = Table y"
  then have "r < 0 \<longrightarrow> fresh s z" using assms(2) lstate_Sockets [OF z(2)] by (simp add: fresh_def)
  moreover have "kept b x z" using z assms(1) by (simp add: kept_def LockLevel_lstate)
  ultimately show "P (r, z)" by (simp add: assms(4))
qed (use assms in \<open>auto simp: kept_def fresh_def\<close>)

lemma kept_delete:
  assumes "kept b x y" "fresh s y" "\<And>z. kept b x z \<Longrightarrow> P z"
  shows "holds P (coreDo (SCTPSocket_delete e' (deliver e n) s) y)"
proof (rule delete_socket_contract [OF kept_xgood [OF assms(1)]])
  fix z :: "('a, 'b) ext"
  assume *: "xgood z" "xstate z = apfst (removeSocket s) (xstate y)"
  then have "dom (Sockets (Core z)) = dom (Sockets (Core y)) - {s}" "LockLevel (Core z) = LockLevel (Core y)"
    by (auto simp: xstate_def lstate_def removeSocket_def)
  moreover have "\<forall>i. isInvalid (Table z i) = isInvalid (Table y i) \<and> socketOf (Table z i) = socketOf (Table y i)"
    using *(2) by (simp add: xstate_def fun_eq_iff)
  ultimately have "kept b x z" using * assms(1,2) by (auto simp: kept_def sound_def fresh_def)
  then show "P z" by (rule assms(3))
qed

text \<open>A step that leaves \<open>xstate\<close> as it is.\<close>

lemma kept_coreDo:
  assumes "kept b x y" "fresh s y" "\<And>Q. (\<And>w'. good w' \<Longrightarrow> lstate w' = lstate (Core y) \<Longrightarrow> Q w') \<Longrightarrow> holds Q (f (Core y))"
    "\<And>z. kept b x z \<Longrightarrow> fresh s z \<Longrightarrow> P z"
  shows "holds P (coreDo f y)"
  by (rule coreDo_contract [OF kept_xgood [OF assms(1)]])
    (auto intro: assms(3) assms(4) kept_xstate [OF assms(1)] fresh_xstate [OF assms(2)])

lemma kept_socket_sctp:
  "kept b x y \<Longrightarrow> (\<And>r z. kept b x z \<Longrightarrow> P (r, z)) \<Longrightarrow> holds P (ext_socket_sctp xe (deliver e n) fam ty y)"
  unfolding ext_socket_sctp_def Let_def newDesc_def
  by (auto intro!: kept_errno_return [where x = x and b = b] holds_if holds_andThen kept_new [where x = x and b = b]
      kept_coreDo [where x = x and b = b] delegates_contract kept_setSocket_fresh [where x = x and b = b] kept_delete [where x = x and b = b]
      dest: kept_xgood xgoodD)

lemma kept_socket:
  "kept b x y \<Longrightarrow> (\<And>r z. kept b x z \<Longrightarrow> P (r, z)) \<Longrightarrow> holds P (ext_socket xe (deliver e n) fam ty pr y)"
  unfolding ext_socket_def by (auto intro!: kept_socket_sctp [where x = x and b = b] wrapSystem_kept [where x = x and b = b])

lemma kept_coreDo_plain:
  assumes "kept b x y" "\<And>Q. (\<And>w'. good w' \<Longrightarrow> lstate w' = lstate (Core y) \<Longrightarrow> Q w') \<Longrightarrow> holds Q (f (Core y))"
    "\<And>z. kept b x z \<Longrightarrow> P z"
  shows "holds P (coreDo f y)"
  by (rule coreDo_contract [OF kept_xgood [OF assms(1)]])
    (auto intro: assms(2) assms(3) kept_xstate [OF assms(1)])

text \<open>Both calls use the socket and so return only when it exists.\<close>

lemma kept_accept:
  assumes "kept b x y" "\<And>r z. kept b x z \<Longrightarrow> s \<in> dom (Sockets (Core z)) \<Longrightarrow> P (r, z)"
  shows "holds P (core (accept e' (deliver e n) s k wait) y)"
  unfolding core_def
proof (rule holds_andThen, rule master.accept_contract [OF xgoodD [OF kept_xgood [OF assms(1)]]])
  fix v r and w' :: "'a world"
  assume w': "Sockets (Core y) s = Some v" "good w'"
    "lstate w' = (if flag_set (Flags v) SSF_Listening then lstate (Core y) else lockL (lstate (Core y)))"
  then have d: "dom (Sockets w') = dom (Sockets (Core y))" "LockLevel (Core y) \<le> LockLevel w'"
    by (auto simp: lstate_def split: if_splits)
  then have "kept b x (y\<lparr>Core := w'\<rparr>)" using assms(1) w'(2) by (simp add: kept_def sound_def xgood_def)
  then show "holds P (case (r, w') of (r, w) \<Rightarrow> Inr (r, y\<lparr>Core := w\<rparr>))" using d(1) w'(1) by (simp add: assms(2) domI)
qed

lemma kept_accept_sctp:
  assumes "kept b x y" "\<And>s. SCTPSocketPtr d = Some s \<Longrightarrow> s \<in> dom (Sockets (Core y))" "\<And>r z. kept b x z \<Longrightarrow> P (r, z)"
  shows "holds P (accept_sctp xe (deliver e n) d a arr y)"
  unfolding accept_sctp_def using assms
  by (auto intro!: holds_andThen holds_if holds_any [of _ "deleteAddressList arr"]
      kept_setSocket [where x = x and b = b] kept_coreDo_plain [where x = x and b = b]
      kept_errno_return [where x = x and b = b] master.delete_contract delegates_contract dest: kept_xgood xgoodD)

lemma kept_ext_accept:
  "kept b x y \<Longrightarrow> (\<And>r a z. kept b x z \<Longrightarrow> P (r, a, z)) \<Longrightarrow> holds P (ext_accept xe (deliver e n) fd want y)"
  unfolding ext_accept_def Let_def
  by (auto intro!: holds_andThen holds_option holds_descriptor holds_prod holds_if kept_errno_return [where x = x and b = b]
      kept_accept [where x = x and b = b] kept_accept_sctp [where x = x and b = b] kept_setSocket [where x = x and b = b]
      kept_system intro: kept_system_eq)

lemma kept_peelOff:
  assumes "kept b x y" "\<And>r z. kept b x z \<Longrightarrow> s \<in> dom (Sockets (Core z)) \<Longrightarrow> P (r, z)"
  shows "holds P (core (peelOff s k) y)"
proof (cases "s \<in> dom (Sockets (Core y))")
  case True
  have g: "xgood y" using assms(1) by (rule kept_xgood)
  show ?thesis
  proof (rule core_contract [OF g])
    fix r and z :: "('a, 'b) ext"
    assume z: "xgood z" "xstate z = xstate y"
    then show "P (r, z)"
      using kept_xstate [OF assms(1) z] True lstate_Sockets [of "Core z" "Core y"] by (intro assms(2)) (simp_all add: xstate_iff)
  qed (auto intro!: peelOff_contract simp: xgoodD [OF g])
next
  case False
  then have "peelOff s k (Core y) = Inl BadPointer"
    by (simp add: peelOff_def getS_def Let_def domIff)
  then show ?thesis by (simp add: core_def)
qed

lemma kept_peeloff:
  assumes "kept b x y" "\<And>r z. kept b x z \<Longrightarrow> P (r, z)"
  shows "holds P (sctp_peeloff xe (deliver e n) fd k y)"
  unfolding sctp_peeloff_def using assms
  by (auto intro!: holds_andThen holds_option holds_descriptor holds_if kept_peelOff [where x = x and b = b]
      kept_setSocket [where x = x and b = b] kept_errno_return [where x = x and b = b]
      kept_coreDo_plain [where x = x and b = b] master.delete_contract dest: kept_xgood xgoodD)

section \<open>Reachable states\<close>

text \<open>A system descriptor in the table; its number is not 0 while standard input is open.\<close>

lemma kept_setSocket_system:
  assumes "kept b x y" "\<And>r z. kept b x z \<Longrightarrow> b \<longrightarrow> r \<noteq> 0 \<Longrightarrow> P (r, z)"
  shows "holds P (setSocket xe (ESDT_System fd) y)"
proof (rule setSocket_contract [OF kept_xgood [OF assms(1)]])
  have y: "sound b y" "LockLevel (Core x) \<le> LockLevel (Core y)" using assms(1) by (simp_all add: kept_def)
  fix i and z :: "('a, 'b) ext"
  assume *: "findFree (min MaxSockets (getdtablesize xe)) (Table y) = Some i" "xgood z"
    "Table z = (Table y)(i := ESDT_System fd)" "lstate (Core z) = lstate (Core y)"
  have "kept b x z" using sound_allocated [OF y(1) *] y(2) *(4) by (simp add: kept_def LockLevel_lstate)
  moreover have "b \<Longrightarrow> i \<noteq> 0" by (rule notI) (use y(1) findFree_Some [OF *(1)] in \<open>simp add: sound_def\<close>)
  ultimately show "P (int i, z)" by (intro assms(2)) auto
next
  fix z :: "('a, 'b) ext"
  assume *: "xgood z" "Table z = Table y" "lstate (Core z) = lstate (Core y)"
  then have "kept b x z" by (intro kept_xstate [OF assms(1)]) (simp_all add: xstate_def)
  then show "P (- EMFILE, z)" by (rule assms(2)) (simp add: EMFILE_def)
qed

lemma kept_pipe:
  assumes "kept b x y" "\<And>r p z. kept b x z \<Longrightarrow> P (r, p, z)"
  shows "holds P (ext_pipe xe (deliver e n) y)"
  unfolding ext_pipe_def Let_def using assms kept_system_eq [OF _ assms(1)]
  by (auto intro!: kept_system_case [where x = x and b = b] holds_andThen holds_if holds_prod
      kept_setSocket_system [where x = x and b = b] kept_errno_return [where x = x and b = b]
      kept_close [where x = x and b = b] kept_system)

lemma kept_open:
  "kept b x y \<Longrightarrow> (\<And>r z. kept b x z \<Longrightarrow> P (r, z)) \<Longrightarrow> holds P (ext_open xe path fl mode y)"
  "kept b x y \<Longrightarrow> (\<And>r z. kept b x z \<Longrightarrow> P (r, z)) \<Longrightarrow> holds P (ext_creat xe path mode y)"
  unfolding ext_open_def ext_creat_def by (auto intro: wrapSystem_kept [where x = x and b = b])

lemma kept_locked: "kept b x y \<Longrightarrow> xlocked y z \<Longrightarrow> kept b x z"
  using sound_locked [of b y z] kept_xstate [of b x y z] by (auto simp: kept_def xlocked_def)

text \<open>
  A call of the application that returns, a round of the master's thread, or the setting of a library parameter. With
  \<open>b\<close> standard input is not closed. The options of \<^verbatim>\<open>ext_setsockopt\<close> include those that leak the lock.
\<close>

inductive call :: "bool \<Rightarrow> ('l, 'o) xenv \<Rightarrow> ('l, 'o) ext \<Rightarrow> ('l, 'o) ext \<Rightarrow> bool" for b xe where
  "ext_socket xe (deliver e n) fam ty pr x = Inr (r, x') \<Longrightarrow> call b xe x x'"
| "ext_open xe path fl mode x = Inr (r, x') \<Longrightarrow> call b xe x x'"
| "ext_creat xe path mode x = Inr (r, x') \<Longrightarrow> call b xe x x'"
| "ext_pipe xe (deliver e n) x = Inr (r, p, x') \<Longrightarrow> call b xe x x'"
| "b \<longrightarrow> fd \<noteq> 0 \<Longrightarrow> ext_close xe (deliver e n) fd x = Inr (r, x') \<Longrightarrow> call b xe x x'"
| "ext_bind xe (deliver e n) fd addr len x = Inr (r, x') \<Longrightarrow> call b xe x x'"
| "sctp_bindx xe (deliver e n) fd addrs k fl x = Inr (r, x') \<Longrightarrow> call b xe x x'"
| "ext_listen xe (deliver e n) fd backlog x = Inr (r, x') \<Longrightarrow> call b xe x x'"
| "ext_accept xe (deliver e n) fd want x = Inr (r, a, x') \<Longrightarrow> call b xe x x'"
| "ext_connect xe (deliver e n) fd addr len x = Inr (r, x') \<Longrightarrow> call b xe x x'"
| "ext_connectx xe (deliver e n) fd addrs k x = Inr (r, aid, x') \<Longrightarrow> call b xe x x'"
| "sctp_peeloff xe (deliver e n) fd k x = Inr (r, x') \<Longrightarrow> call b xe x x'"
| "ext_shutdown xe (deliver e n) fd how x = Inr (r, x') \<Longrightarrow> call b xe x x'"
| "ext_getsockname xe fd want x = Inr (r, sa, x') \<Longrightarrow> call b xe x x'"
| "ext_getpeername xe fd want x = Inr (r, sa, x') \<Longrightarrow> call b xe x x'"
| "sctp_getlpaddrs xe fd k peers x = Inr (r, as, x') \<Longrightarrow> call b xe x x'"
| "ext_fcntl xe fd cmd arg x = Inr (r, x') \<Longrightarrow> call b xe x x'"
| "ext_ioctl xe fd request x = Inr (r, x') \<Longrightarrow> call b xe x x'"
| "ext_getsockopt xe fd level opt v len x = Inr (r, v', len', x') \<Longrightarrow> call b xe x x'"
| "ext_setsockopt xe fd level opt v len x = Inr (r, v', x') \<Longrightarrow> call b xe x x'"
| "sctp_opt_info xe fd k opt v len x = Inr (r, v', len', x') \<Longrightarrow> call b xe x x'"
| "ext_read xe (deliver e n) fd len x = Inr (r, bs, sa, l, x') \<Longrightarrow> call b xe x x'"
| "ext_recv xe (deliver e n) fd len fl x = Inr (r, bs, sa, l, x') \<Longrightarrow> call b xe x x'"
| "ext_recvfrom xe (deliver e n) fd len fl from fromlen x = Inr (r, bs, sa, l, x') \<Longrightarrow> call b xe x x'"
| "ext_recvmsg xe (deliver e n) fd msg fl x = Inr (r, m, x') \<Longrightarrow> call b xe x x'"
| "sctp_recvmsg xe (deliver e n) fd len from fromlen flags x = Inr (r, m, info, x') \<Longrightarrow> call b xe x x'"
| "ext_write xe (deliver e n) fd buf x = Inr (r, x') \<Longrightarrow> call b xe x x'"
| "ext_send xe (deliver e n) fd buf fl x = Inr (r, x') \<Longrightarrow> call b xe x x'"
| "ext_sendto xe (deliver e n) fd buf fl to tolen x = Inr (r, x') \<Longrightarrow> call b xe x x'"
| "ext_sendmsg xe (deliver e n) fd msg fl x = Inr (r, m, x') \<Longrightarrow> call b xe x x'"
| "sctp_sendmsg xe (deliver e n) fd buf to tolen ppid fl stream ttl context x = Inr (r, x') \<Longrightarrow> call b xe x x'"
| "sctp_send xe (deliver e n) fd buf sinfo fl x = Inr (r, x') \<Longrightarrow> call b xe x x'"
| "sctp_sendx xe (deliver e n) fd buf addrs k sinfo' fl x = Inr (r, x') \<Longrightarrow> call b xe x x'"
| "ext_select xe (deliver e n) k fds timeout x = Inr (r, fds', x') \<Longrightarrow> call b xe x x'"
| "ext_poll xe (deliver e n) ps time x = Inr (r, ps', x') \<Longrightarrow> call b xe x x'"
| "run_round xe (deliver e n) now x = Inr x' \<Longrightarrow> call b xe x x'"
| "sctp_enableOOTBHandling e' k (Core x) = Inr (r, w) \<Longrightarrow> call b xe x (x\<lparr>Core := w\<rparr>)"
| "sctp_enableCRC32 e' k (Core x) = Inr (r, w) \<Longrightarrow> call b xe x (x\<lparr>Core := w\<rparr>)"

lemma shutdown_fcntl_contract [contract]:
  assumes "xgood x" "\<And>r x'. xgood x' \<Longrightarrow> xstate x' = xstate x \<Longrightarrow> P (r, x')"
  shows "holds P (ext_shutdown xe (deliver e n) fd how x)" "holds P (ext_fcntl xe fd cmd arg x)"
  unfolding ext_shutdown_def ext_fcntl_def using assms by (auto intro!: contract dest: xgoodD)

lemma library_contract:
  assumes "kept b x x" "\<And>r w. kept b x (x\<lparr>Core := w\<rparr>) \<Longrightarrow> P (r, w)"
  shows "holds P (sctp_enableOOTBHandling e' k (Core x))" "holds P (sctp_enableCRC32 e' k (Core x))"
proof -
  have "P (r, w)" if "good w" "lstate w = lstate (Core x)" for r w
    by (rule assms(2)) (use that in \<open>auto intro!: kept_xstate [OF assms(1)] simp: xstate_Core\<close>)
  moreover have "good (Core x)" using assms(1) by (intro xgoodD kept_xgood)
  ultimately show "holds P (sctp_enableOOTBHandling e' k (Core x))" "holds P (sctp_enableCRC32 e' k (Core x))"
    unfolding sctp_enableOOTBHandling_def sctp_enableCRC32_def enableOOTBHandling_def enableCRC32_def setLibraryParameter_def Let_def
    by (auto intro!: contract split: option.split)
qed

text \<open>The shapes of the results of the calls.\<close>

lemma call_returned:
  "h = Inr z \<Longrightarrow> holds (kept b x) h \<Longrightarrow> kept b x z"
  "f = Inr (r, z) \<Longrightarrow> holds (\<lambda>(r, z). kept b x z) f \<Longrightarrow> kept b x z"
  "g = Inr (r, a, z) \<Longrightarrow> holds (\<lambda>(r, a, z). kept b x z) g \<Longrightarrow> kept b x z"
  "k = Inr (r, a, c, z) \<Longrightarrow> holds (\<lambda>(r, a, c, z). kept b x z) k \<Longrightarrow> kept b x z"
  "l = Inr (r, a, c, d, z) \<Longrightarrow> holds (\<lambda>(r, a, c, d, z). kept b x z) l \<Longrightarrow> kept b x z"
  by auto

lemma call_kept:
  assumes "call b xe x x'" "sound b x"
  shows "kept b x x'"
proof -
  have k: "kept b x x" and g: "xgood x" using assms(2) by (simp_all add: sound_kept soundD)
  note same = kept_xstate [OF k]
  note changing = kept_socket [OF k] kept_pipe [OF k] kept_close [OF k] kept_ext_accept [OF k] kept_peeloff [OF k]
    kept_open [OF k]
  have library: "sctp_enableOOTBHandling e' c (Core x) = Inr (r, w) \<Longrightarrow> kept b x (x\<lparr>Core := w\<rparr>)"
    "sctp_enableCRC32 e' c (Core x) = Inr (r, w) \<Longrightarrow> kept b x (x\<lparr>Core := w\<rparr>)" for e' c r w
    using library_contract [OF k, of "\<lambda>(r, w). kept b x (x\<lparr>Core := w\<rparr>)" e' c] by simp_all
  note locking = ext_setsockopt_locked [OF g] sctp_opt_info_locked [OF g]
  show ?thesis
    using assms(1)
    by cases (((erule call_returned, rule changing contract locking); auto intro: same kept_locked [OF k] simp: g)+,
      auto dest: library)
qed


lemma start_socket:
  "\<exists>x'. ext_socket sample_xenv (deliver sample 0) AF_INET SOCK_STREAM IPPROTO_SCTP start_ext = Inr (7, x') \<and>
     Table x' 7 = ESDT_SCTP (newDesc AF_INET SOCK_STREAM 3)"
proof -
  obtain z where z: "core (SCTPSocket_new AF_INET 0) start_ext = Inr (3, z)" "Table z = initialTable" "LockLevel (Core z) = 0"
    by (simp add: core_def SCTPSocket_new_def lock_def unlock_def Let_def empty_world_def condAddParent_def addParent_def
      Condition_new_def)
  have "findFree 8 initialTable = Some 7" by (simp add: eval_nat_numeral initialTable_def)
  then obtain z' where "setSocket sample_xenv (ESDT_SCTP (newDesc AF_INET SOCK_STREAM 3)) z = Inr (7, z')"
    "Table z' = initialTable(7 := ESDT_SCTP (newDesc AF_INET SOCK_STREAM 3))"
    using z(2,3) by (simp add: setSocket_def lockX_def coreDo_def lock_def unlock_def Let_def MaxSockets_def)
  with z(1) show ?thesis
    by (simp add: ext_socket_def ext_socket_sctp_def sctp_isavailable_def empty_world_def sock_defs errno_return_def Let_def)
qed


text \<open>Witnesses of the properties above.\<close>

theorem setSocket_highest_free_witness:
  "\<exists>x'. setSocket sample_xenv (ESDT_System 5) start_ext = Inr (7, x') \<and> Table x' = initialTable(7 := ESDT_System 5) \<and>
     keeps empty_world (Core x')"
proof -
  have "findFree 8 initialTable = Some 7" by (simp add: eval_nat_numeral initialTable_def)
  then obtain x' where x': "setSocket sample_xenv (ESDT_System 5) start_ext = Inr (7, x')"
    by (simp add: setSocket_def lockX_def coreDo_def lock_def unlock_def Let_def MaxSockets_def empty_world_def)
  have "\<exists>i < 8. isInvalid (initialTable i)" by (rule exI [of _ 7]) (simp add: initialTable_def)
  with setSocket_highest_free [of start_ext sample_xenv "ESDT_System 5"] x' show ?thesis
    by (auto simp: start_good MaxSockets_def Let_def)
qed

text \<open>Descriptors 5 and 6 share a socket; closing one leaves the socket to the other.\<close>

definition shared_ext :: "(nat, nat) ext" where
  "shared_ext = sample_ext sample_world
     (initialTable(5 := ESDT_SCTP (newDesc AF_INET SOCK_STREAM 1), 6 := ESDT_SCTP sample_desc))"

theorem close_frees_unused_socket_witness:
  "\<exists>x'. ext_close sample_xenv (deliver sample 0) 5 shared_ext = Inr (0, x') \<and> isInvalid (Table x' 5) \<and>
     1 \<in> dom (Sockets (Core x'))"
proof -
  let ?d = "newDesc AF_INET SOCK_STREAM 1"
  have d: "getSocket 5 = Some 5" "Table shared_ext 5 = ESDT_SCTP ?d"
    "SCTPSocketPtr ?d = Some 1" "SCTPAssociationPtr ?d = None"
    "Table shared_ext 6 = ESDT_SCTP sample_desc" "socketOf (ESDT_SCTP sample_desc) = Some 1" "LockLevel (Core shared_ext) = 0"
    by (simp_all add: getSocket_def MaxSockets_def sample_good shared_ext_def sample_ext_def newDesc_def sample_desc_def
        sample_world_def empty_world_def)
  have good: "good (Core shared_ext)" by (simp add: shared_ext_def sample_ext_def sample_good)
  have "\<not> mayRemoveSocket 5 ?d (lockX shared_ext)"
    unfolding mayRemoveSocket_iff [OF d(3)] using d(5,6) by (auto simp: lockX_def MaxSockets_def intro!: exI [of _ 6])
  then obtain x' where x': "ext_close sample_xenv (deliver sample 0) 5 shared_ext = Inr (0, x')"
    using d(1,2,3,4,7)
    by (auto simp: ext_close_def close_association_def close_socket_def lockX_def lock_def unlock_def Let_def coreDo_def
        errno_return_def)
  from close_frees_unused_socket [OF good d(1,2), of sample_xenv sample 0] x' d(5,6) show ?thesis
    by (auto simp: MaxSockets_def shared_ext_def sample_ext_def sample_world_def intro!: exI [of _ 6])
qed

end
