(* ===== verification/ExtLaws.thy ===== *)
theory ExtLaws
  imports DescriptorLaws
begin

text \<open>
  How calls on descriptors fail and what options keep: lost error codes, a full table, addresses without
  bounds, records that run together, and the options that read back as they were set.
\<close>

section \<open>Errors of the system\<close>

text \<open>
  Lost error codes. A failing call of the system inside \<^verbatim>\<open>ext_socket\<close>, \<^verbatim>\<open>ext_open\<close>,
  \<^verbatim>\<open>ext_creat\<close> and \<^verbatim>\<open>ext_accept\<close> leaves \<^verbatim>\<open>errno\<close> 1 (\<^verbatim>\<open>EPERM\<close>), since its result -1 is taken for an
  error code; \<^verbatim>\<open>ext_bind\<close>, \<^verbatim>\<open>ext_listen\<close> and \<^verbatim>\<open>ext_connect\<close> on an ordinary descriptor leave the error
  code of the system.
\<close>

theorem failing_open_sets_EPERM:
  assumes "Table x i = ESDT_System sfd" "getSocket fd = Some i" "\<And>c. Ret (fst (Sys xe (OS x) c)) = - 1" "pr \<noteq> IPPROTO_SCTP"
  shows "(\<exists>x'. ext_socket xe cb fam ty pr x = Inr (- 1, x') \<and> errno x' = 1) \<and>
    (\<exists>x'. ext_open xe path fl mode x = Inr (- 1, x') \<and> errno x' = 1) \<and>
    (\<exists>x'. ext_creat xe path mode x = Inr (- 1, x') \<and> errno x' = 1) \<and>
    (\<exists>x'. ext_accept xe cb fd want x = Inr (- 1, None, x') \<and> errno x' = 1) \<and>
    (\<exists>x'. ext_bind xe cb fd addr len x = Inr (- 1, x') \<and> errno x' = Err (fst (Sys xe (OS x) (Sys_bind sfd addr len)))) \<and>
    (\<exists>x'. ext_listen xe cb fd b x = Inr (- 1, x') \<and> errno x' = Err (fst (Sys xe (OS x) (Sys_listen sfd b)))) \<and>
    (\<exists>x'. ext_connect xe cb fd addr len x = Inr (- 1, x') \<and> errno x' = Err (fst (Sys xe (OS x) (Sys_connect sfd addr len))))"
proof -
  have sys: "\<exists>r x'. system xe c x = (r, x') \<and> Ret r = - 1 \<and> errno x' = Err (fst (Sys xe (OS x) c))" for c
    using assms(3) [of c] by (auto simp: system_def split: prod.split)
  have wrap: "\<exists>x'. wrapSystem xe b c x = Inr (- 1, x') \<and> errno x' = 1" for b c
    using sys [of c] by (auto simp: wrapSystem_def errno_return_def)
  have ret: "\<exists>x'. sysReturn xe c x = Inr (- 1, x') \<and> errno x' = Err (fst (Sys xe (OS x) c))" for c
    using sys [of c] by (auto simp: sysReturn_def)
  have "\<exists>x'. ext_accept xe cb fd want x = Inr (- 1, None, x') \<and> errno x' = 1"
    using sys [of "Sys_accept sfd want"] assms(1,2) by (auto simp: ext_accept_def errno_return_def)
  then show ?thesis
    using assms(1,2,4) wrap ret
    by (simp add: ext_socket_def ext_open_def ext_creat_def ext_bind_def ext_listen_def ext_connect_def)
qed

theorem failing_open_sets_EPERM_witness:
  "\<exists>x'. ext_open (sample_xenv\<lparr>Sys := \<lambda>os c. (sample_reply (- 1) 2, os)\<rparr>) ''x'' 0 0 start_ext = Inr (- 1, x') \<and> errno x' = 1"
  using failing_open_sets_EPERM [of start_ext 0 0 0 "sample_xenv\<lparr>Sys := \<lambda>os c. (sample_reply (- 1) 2, os)\<rparr>" 0]
  by (auto simp: initialTable_def getSocket_def MaxSockets_def sample_reply_def IPPROTO_SCTP_def)

section \<open>Accepting\<close>

lemma setSocket_full:
  assumes "\<forall>i < min MaxSockets (getdtablesize xe). \<not> isInvalid (Table x i)" "good (Core x)"
  shows "setSocket xe d x = Inr (- EMFILE, x\<lparr>Core := touched (Core x)\<rparr>)"
proof -
  have "findFree (min MaxSockets (getdtablesize xe)) (Table x) = None" using assms(1) by (simp add: findFree_None)
  then show ?thesis using assms(2) by (simp add: setSocket_def lockX_def coreDo_def Let_def exact)
qed

lemma deleted_association: "SCTPAssociation_delete e cb a w = Inr v \<Longrightarrow> Assocs v a = None"
  by (auto simp: SCTPAssociation_delete_def Let_def andThen_eq_Inr split: if_splits option.splits)

text \<open>
  C31. Accepting. On a descriptor that is not in listen mode \<^verbatim>\<open>ext_accept\<close> returns -1 with \<^verbatim>\<open>EAGAIN\<close>
  and keeps the lock of the whole library. When the table of descriptors is full, a call that takes an
  association from the queue does not return: when the deletion of the addresses and of the association return, the
  association is gone and the null pointer that took its place is used, which is the fault of the call.
\<close>

theorem accept_failures:
  assumes "getSocket fd = Some i" "Table x i = ESDT_SCTP d" "SCTPSocketPtr d = Some s" "good (Core x)"
    "Sockets (Core x) s = Some y"
  shows "(\<not> flag_set (Flags y) SSF_Listening \<longrightarrow>
      (\<exists>x'. ext_accept xe (deliver e n) fd want x = Inr (- 1, None, x') \<and> errno x' = EAGAIN \<and>
         LockLevel (Core x') = LockLevel (Core x) + 1)) \<and>
    ((\<forall>i < min MaxSockets (getdtablesize xe). \<not> isInvalid (Table x i)) \<and>
     accept (E xe) (deliver e n) s True (\<not> flag_set (DFlags d) O_NONBLOCK) (Core x) = Inr ((Some a, arr), w) \<longrightarrow>
      (\<forall>r. ext_accept xe (deliver e n) fd want x \<noteq> Inr r) \<and>
      (\<forall>u v. deleteAddressList arr = Inr u \<and> SCTPAssociation_delete (E xe) (deliver e n) a (touched w) = Inr v \<longrightarrow>
         Assocs v a = None \<and> ext_accept xe (deliver e n) fd want x = Inl BadPointer))"
proof -
  have "ext_accept xe (deliver e n) fd want x = Inr (- 1, None, x\<lparr>Core := lock (Core x), errno := EAGAIN\<rparr>)"
    if "\<not> flag_set (Flags y) SSF_Listening"
    using that assms
    by (simp add: ext_accept_def core_def accept_def accept_nonblocking_def exact Let_def errno_return_def)
      (simp add: errno_defs)
  moreover have "ext_accept xe (deliver e n) fd want x =
      andThen (deleteAddressList arr) (\<lambda>_. andThen (SCTPAssociation_delete (E xe) (deliver e n) a (touched w)) (\<lambda>_. Inl BadPointer))"
    if full: "\<forall>i < min MaxSockets (getdtablesize xe). \<not> isInvalid (Table x i)"
      and taken: "accept (E xe) (deliver e n) s True (\<not> flag_set (DFlags d) O_NONBLOCK) (Core x) = Inr ((Some a, arr), w)"
  proof -
    have "holds (\<lambda>(r, w). good w) (accept (E xe) (deliver e n) s True (\<not> flag_set (DFlags d) O_NONBLOCK) (Core x))"
      by (rule master.accept_contract [OF assms(4)]) simp
    with taken have "good w" by simp
    with full have "setSocket xe t (x\<lparr>Core := w\<rparr>) = Inr (- EMFILE, x\<lparr>Core := touched w\<rparr>)" for t
      using setSocket_full [of xe "x\<lparr>Core := w\<rparr>" t] by simp
    then show ?thesis using assms(1-3) taken
      by (cases "deleteAddressList arr"; cases "SCTPAssociation_delete (E xe) (deliver e n) a (touched w)")
        (simp_all add: ext_accept_def accept_sctp_def core_def coreDo_def Let_def EMFILE_def)
  qed
  moreover have "andThen p (\<lambda>_. andThen q (\<lambda>_. Inl BadPointer)) \<noteq> Inr r" for p :: "'p result" and q :: "'q result" and r
    by (simp add: andThen_eq_Inr)
  ultimately show ?thesis by (auto simp: lock_def Let_def andThen_eq_Inr dest: deleted_association)
qed

text \<open>A listening socket with one request, and a process that may have no more descriptors than the standard ones.\<close>

definition requested_ext :: "(nat, nat) ext" where
  "requested_ext = sample_ext (sample_world\<lparr>Sockets := [1 \<mapsto> sample_socket\<lparr>Flags := SSF_Listening,
       ConnectionRequests := [\<lparr>IC_Association = 2, IC_Notification = rawNotification sample\<rparr>]\<rparr>]\<rparr>)
     (initialTable(5 := ESDT_SCTP (newDesc AF_INET SOCK_STREAM 1)))"

lemma requested_taken:
  "\<exists>w y. accept sample (deliver sample 0) 1 True True (Core requested_ext) = Inr ((Some 2, Some [None]), w) \<and>
     Sockets w 1 = Some y \<and> Assocs w 2 = Some sample_assoc \<and> LockLevel w = 0 \<and> AssociationList y = [(7, 2)]"
  by (simp add: requested_ext_def sample_ext_def accept_def accept_take_def acceptAddresses_def newAddressList_def Let_def
      Socket_hasData_def flag_set_def ssf_defs getS_def updS_def lock_def unlock_def unlockReturn_def sample_defs
      accept_loop.simps(2) [where n = "Suc 0", folded numeral_2_eq_2])

lemma requested_deleted:
  assumes "Sockets w 1 = Some y" "Assocs w 2 = Some sample_assoc" "LockLevel w = 0" "AssociationList y = [(7, 2)]"
  shows "\<exists>v. SCTPAssociation_delete sample (deliver sample 0) 2 (touched w) = Inr v"
  using assms
  by (simp add: SCTPAssociation_delete_def shutdown_def libShutdown_def getS_def getA_def updS_def updA_def Let_def
      delayedDeleteAssociation_def lock_def unlock_def sample_defs)

theorem accept_failures_witness:
  "(\<exists>x'. ext_accept sample_xenv (deliver sample 0) 5 None open_ext = Inr (- 1, None, x') \<and> errno x' = EAGAIN \<and>
      LockLevel (Core x') = 1) \<and>
   ext_accept (sample_xenv\<lparr>getdtablesize := 3\<rparr>) (deliver sample 0) 5 None requested_ext = Inl BadPointer"
proof
  have "getSocket 5 = Some 5" "Table open_ext 5 = ESDT_SCTP sample_desc" "SCTPSocketPtr sample_desc = Some 1"
    "good (Core open_ext)" "Sockets (Core open_ext) 1 = Some sample_socket"
    by (simp_all add: getSocket_def MaxSockets_def sample_good sample_desc_def newDesc_def sample_objects del: One_nat_def)
  from accept_failures [OF this, of sample_xenv sample 0 None] show "\<exists>x'. ext_accept sample_xenv (deliver sample 0) 5 None open_ext
      = Inr (- 1, None, x') \<and> errno x' = EAGAIN \<and> LockLevel (Core x') = 1"
    by (simp add: sample_defs flag_set_def ssf_defs)
next
  let ?xe = "sample_xenv\<lparr>getdtablesize := 3\<rparr>" and ?d = "newDesc AF_INET SOCK_STREAM 1"
  let ?y = "sample_socket\<lparr>Flags := SSF_Listening, ConnectionRequests := [\<lparr>IC_Association = 2, IC_Notification = rawNotification sample\<rparr>]\<rparr>"
  have *: "getSocket 5 = Some 5" "Table requested_ext 5 = ESDT_SCTP ?d" "SCTPSocketPtr ?d = Some 1"
    by (simp_all add: getSocket_def MaxSockets_def requested_ext_def sample_ext_def newDesc_def)
  have core: "Core requested_ext = sample_world\<lparr>Sockets := [1 \<mapsto> ?y]\<rparr>" by (simp add: requested_ext_def sample_ext_def)
  have "wfS ?y" using sample_good sample_objects(1) by (auto simp: good_def wf_def wfS_def)
  then have y: "good (Core requested_ext)" "Sockets (Core requested_ext) 1 = Some ?y"
    using sample_good sample_objects(1) by (auto simp: core good_def wf_def lock_inv_def split: if_splits)
  have full: "\<forall>i < min MaxSockets (getdtablesize ?xe). \<not> isInvalid (Table requested_ext i)"
    by (simp add: requested_ext_def sample_ext_def initialTable_def)
  obtain w z where w: "accept sample (deliver sample 0) 1 True True (Core requested_ext) = Inr ((Some 2, Some [None]), w)"
    "Sockets w 1 = Some z" "Assocs w 2 = Some sample_assoc" "LockLevel w = 0" "AssociationList z = [(7, 2)]"
    using requested_taken by blast
  obtain v where v: "SCTPAssociation_delete sample (deliver sample 0) 2 (touched w) = Inr v"
    using requested_deleted [OF w(2-5)] by blast
  obtain u where u: "deleteAddressList (Some [None]) = Inr u" by (simp add: deleteAddressList_def)
  have env: "E ?xe = sample" "\<not> flag_set (DFlags ?d) O_NONBLOCK" by (simp_all add: newDesc_def flag_set_def)
  show "ext_accept ?xe (deliver sample 0) 5 None requested_ext = Inl BadPointer"
    using accept_failures [OF * y, of ?xe sample 0 None 2 "Some [None]" w] full w(1) u v env by simp
qed

section \<open>Options\<close>

text \<open>
  The primary address of the peer. Setting the option \<^verbatim>\<open>SCTP_SET_PEER_PRIMARY_ADDR\<close>, which is
  to ask the peer to use an address of this host, does what \<^verbatim>\<open>SCTP_PRIMARY_ADDR\<close> does with the same
  address: it changes the destination this host prefers, or fails as that does.
\<close>

theorem peer_primary_is_primary:
  fixes x :: "('l, 'o) ext"
  assumes "getSocket fd = Some i" "Table x i = ESDT_SCTP d"
  shows "map_sum id (\<lambda>(r, v, x'). (r, x')) (ext_setsockopt xe fd IPPROTO_SCTP SCTP_SET_PEER_PRIMARY_ADDR
      (Some (OptSetPeerPrim \<lparr>sspp_assoc_id = k, sspp_addr = a\<rparr>)) len x) =
   map_sum id (\<lambda>(r, v, x'). (r, x')) (ext_setsockopt xe fd IPPROTO_SCTP SCTP_PRIMARY_ADDR
      (Some (OptSetPrim \<lparr>ssp_assoc_id = k, ssp_addr = a\<rparr>)) len x)"
proof -
  have "setsockopt_sctp xe i d SCTP_PRIMARY_ADDR v len x = andThen (setPrimaryAddr xe d v len x) (\<lambda>(r, x). Inr (r, v, x))"
    "setsockopt_sctp xe i d SCTP_SET_PEER_PRIMARY_ADDR v len x = andThen (setPeerPrimaryAddr xe d v len x) (\<lambda>(r, x). Inr (r, v, x))"
    for d v by (simp_all add: setsockopt_sctp_def option_defs)
  moreover have "map_sum id (\<lambda>(r, v, x'). (r, x')) (andThen r (\<lambda>(r, x). Inr (r, v, x))) = r"
    for r :: "(int \<times> ('l, 'o) ext) result" and v :: "optval option"
    by (cases r) auto
  ultimately show ?thesis
    using assms by (simp add: ext_setsockopt_def setPrimaryAddr_def setPeerPrimaryAddr_def Let_def errno_return_def)
qed

theorem peer_primary_is_primary_witness:
  "\<forall>a. map_sum id (\<lambda>(r, v, x'). (r, x')) (ext_setsockopt sample_xenv 5 IPPROTO_SCTP SCTP_SET_PEER_PRIMARY_ADDR
      (Some (OptSetPeerPrim \<lparr>sspp_assoc_id = 7, sspp_addr = a\<rparr>)) 136 open_ext) =
   map_sum id (\<lambda>(r, v, x'). (r, x')) (ext_setsockopt sample_xenv 5 IPPROTO_SCTP SCTP_PRIMARY_ADDR
      (Some (OptSetPrim \<lparr>ssp_assoc_id = 7, ssp_addr = a\<rparr>)) 136 open_ext)"
  by (rule allI, rule peer_primary_is_primary [of 5 5 open_ext sample_desc]) (simp_all add: getSocket_def MaxSockets_def)

lemma seconds_of_microseconds: "ucast ((1000000 * ucast t :: card64) div 1000000) = (t :: card32)"
proof -
  have t: "uint (ucast t :: card64) = uint t" "uint t < 2 ^ 32" "0 \<le> uint t"
    using uint_lt2p [of t] by (simp_all add: unsigned_ucast_eq take_bit_int_eq_self)
  have "uint (1000000 * ucast t :: card64) = 1000000 * uint t"
    using t by (simp add: uint_word_ariths)
  then show ?thesis using t by (simp add: word_uint_eq_iff unsigned_ucast_eq uint_div take_bit_int_eq_self)
qed

text \<open>
  Options read back. After a successful call the linger time, the parameters for new
  associations, the auto-close time in seconds (any 32-bit number, kept as 64-bit microseconds) and
  the file flags read back as they were set; flags with the sign bit read back as an error.
\<close>

theorem options_read_back:
  assumes "getSocket fd = Some i" "Table x i = ESDT_SCTP d"
  shows "(ext_setsockopt xe fd SOL_SOCKET SO_LINGER (Some (OptLinger l)) len x = Inr (0, v', x') \<longrightarrow>
       8 \<le> len' \<longrightarrow> ext_getsockopt xe fd SOL_SOCKET SO_LINGER (Some v) len' x' = Inr (0, Some (OptLinger l), 8, x')) \<and>
    (ext_setsockopt xe fd IPPROTO_SCTP SCTP_INITMSG (Some (OptInitMsg m)) len x = Inr (0, v', x') \<longrightarrow>
       8 \<le> len' \<longrightarrow> ext_getsockopt xe fd IPPROTO_SCTP SCTP_INITMSG (Some v) len' x' = Inr (0, Some (OptInitMsg m), 8, x')) \<and>
    (ext_setsockopt xe fd IPPROTO_SCTP SCTP_AUTOCLOSE (Some (OptInt t)) len x = Inr (0, v', x') \<longrightarrow>
       4 \<le> len' \<longrightarrow> ext_getsockopt xe fd IPPROTO_SCTP SCTP_AUTOCLOSE (Some v) len' x' = Inr (0, Some (OptInt t), 4, x')) \<and>
    (\<exists>x'. ext_fcntl xe fd F_SETFL arg x = Inr (0, x') \<and>
       (let fl = sint (ucast arg :: card32) in
        ext_fcntl xe fd F_GETFL 0 x' = Inr (if fl \<ge> 0 then (fl, x') else (- 1, x'\<lparr>errno := - fl\<rparr>))))"
proof -
  have desc: "Table (updD i f x) i = ESDT_SCTP (f d)" for f using assms(2) by (simp add: updD_def)
  have linger: "x' = updD i (\<lambda>d. d\<lparr>Linger := l\<rparr>) x"
    if "ext_setsockopt xe fd SOL_SOCKET SO_LINGER (Some (OptLinger l)) len x = Inr (0, v', x')"
    using that assms
    by (auto simp: ext_setsockopt_def setLinger_def level_defs errno_return_def errno_defs Let_def andThen_eq_Inr split: if_splits)
  have initmsg: "\<exists>d'. Table x' i = ESDT_SCTP d' \<and> InitMsg d' = m"
    if "ext_setsockopt xe fd IPPROTO_SCTP SCTP_INITMSG (Some (OptInitMsg m)) len x = Inr (0, v', x')"
    using that assms desc
    by (auto simp: ext_setsockopt_def setsockopt_sctp_def setsockopt_initmsg_def setInitMsg_def option_defs errno_return_def errno_defs
        Let_def andThen_eq_Inr core_def coreDo_def lockX_def split: if_splits option.splits)
  have autoclose: "\<exists>s y. Table x' i = ESDT_SCTP d \<and> SCTPSocketPtr d = Some s \<and> Sockets (Core x') s = Some y \<and>
      AutoCloseTimeout y = 1000000 * ucast t"
    if "ext_setsockopt xe fd IPPROTO_SCTP SCTP_AUTOCLOSE (Some (OptInt t)) len x = Inr (0, v', x')"
    using that assms
    by (auto simp: ext_setsockopt_def setsockopt_sctp_def setsockopt_autoclose_def option_defs errno_return_def errno_defs
        Let_def andThen_eq_Inr coreDo_def Socket_setAutoClose_def updS_def split: if_splits option.splits)
  have "ext_fcntl xe fd F_SETFL arg x = Inr (0, updD i (\<lambda>d. d\<lparr>DFlags := ucast arg\<rparr>) x)"
    using assms by (simp add: ext_fcntl_def F_SETFL_def F_GETFL_def errno_return_def)
  moreover have "ext_getsockopt xe fd SOL_SOCKET SO_LINGER (Some v) len' z = Inr (0, Some (OptLinger (Linger d')), 8, z)"
    "ext_getsockopt xe fd IPPROTO_SCTP SCTP_INITMSG (Some v) len' z = Inr (0, Some (OptInitMsg (InitMsg d')), 8, z)"
    if "8 \<le> len'" "Table z i = ESDT_SCTP d'" for z d' v
    using that assms(1)
    by (simp_all add: ext_getsockopt_def getsockopt_sctp_def level_defs option_defs optDone_def errno_return_def)
  moreover have "ext_getsockopt xe fd IPPROTO_SCTP SCTP_AUTOCLOSE (Some v) len' x' = Inr (0, Some (OptInt t), 4, x')"
    if "4 \<le> len'" "ext_setsockopt xe fd IPPROTO_SCTP SCTP_AUTOCLOSE (Some (OptInt t)) len x = Inr (0, v', x')"
    using that(1) autoclose [OF that(2)] assms(1)
    by (auto simp: ext_getsockopt_def getsockopt_sctp_def level_defs option_defs optDone_def errno_return_def coreGet_def
        Socket_getAutoClose_def getS_def seconds_of_microseconds)
  ultimately show ?thesis
    using linger initmsg desc assms(1)
    by (auto simp: ext_fcntl_def F_GETFL_def errno_return_def Let_def)
qed

theorem options_read_back_witness:
  "\<exists>x'. ext_setsockopt sample_xenv 5 SOL_SOCKET SO_LINGER (Some (OptLinger \<lparr>l_onoff = 1, l_linger = 20\<rparr>)) 8 open_ext =
      Inr (0, Some (OptLinger \<lparr>l_onoff = 1, l_linger = 20\<rparr>), x') \<and>
    ext_getsockopt sample_xenv 5 SOL_SOCKET SO_LINGER (Some (OptInt 0)) 8 x' =
      Inr (0, Some (OptLinger \<lparr>l_onoff = 1, l_linger = 20\<rparr>), 8, x')"
proof -
  have d: "getSocket 5 = Some 5" "Table open_ext 5 = ESDT_SCTP sample_desc" by (simp_all add: getSocket_def MaxSockets_def)
  then obtain x' where "ext_setsockopt sample_xenv 5 SOL_SOCKET SO_LINGER (Some (OptLinger \<lparr>l_onoff = 1, l_linger = 20\<rparr>)) 8 open_ext =
      Inr (0, Some (OptLinger \<lparr>l_onoff = 1, l_linger = 20\<rparr>), x')"
    by (simp add: ext_setsockopt_def setLinger_def level_defs errno_return_def Let_def)
  with options_read_back [OF d, of sample_xenv "\<lparr>l_onoff = 1, l_linger = 20\<rparr>" 8 _ x' 8 "OptInt 0"] show ?thesis by blast
qed

section \<open>Lists of addresses\<close>

text \<open>
  Sending to several addresses. The addresses of a message are taken in order, if there are no
  more than \<^verbatim>\<open>SCTP_MAX_NUM_ADDRESSES\<close>; with more the loop writes behind the end of its array.
\<close>

theorem destinations_without_bound:
  assumes "flag_set fl MSG_MULTIADDRS" "n \<le> length packed" "createAddresses (AE (E xe)) packed = Some as"
    "\<forall>sa \<in> set packed. sa_family sa = AF_INET \<or> sa_family sa = AF_INET6"
  shows "destinations xe fl packed n =
    (if n \<le> SCTP_MAX_NUM_ADDRESSES (SL (E xe)) then Inr (Inr (take n as)) else Inl BadPointer)"
proof -
  have "multiAddresses (AE (E xe)) k i n packed acc =
      (if i + n \<le> k then Inr (Inr (acc @ take n as)) else Inl BadPointer)"
    if "n \<le> length packed" "createAddresses (AE (E xe)) packed = Some as" "i \<le> k"
      "\<forall>sa \<in> set packed. sa_family sa = AF_INET \<or> sa_family sa = AF_INET6" for k i n packed "as" acc
    using that
  proof (induction n arbitrary: i packed "as" acc)
    case (Suc n)
    then obtain sa rest where p: "packed = sa # rest" by (cases packed) auto
    with Suc.prems(2) obtain a bs where a: "createSocketAddress_sockaddr (AE (E xe)) 0 sa = Some a"
      "createAddresses (AE (E xe)) rest = Some bs" "as = a # bs" by (auto split: option.splits)
    show ?case
    proof (cases "i < k")
      case True
      then show ?thesis using Suc.IH [of rest bs "Suc i" "acc @ [a]"] Suc.prems p a by simp
    next
      case False
      then show ?thesis using Suc.prems p a by (cases n; cases rest) simp_all
    qed
  qed simp
  from this [OF assms(2,3) _ assms(4), of 0 "SCTP_MAX_NUM_ADDRESSES (SL (E xe))" "[]"] assms(1)
  show ?thesis by (simp add: destinations_def)
qed

definition sample_sockaddr :: sockaddr where
  "sample_sockaddr = SockaddrIn 80 [0x0A00, 1]"

theorem destinations_without_bound_witness:
  "destinations sample_xenv MSG_MULTIADDRS (replicate 5 sample_sockaddr) 5 = Inl BadPointer"
proof -
  have "sa_family sample_sockaddr = AF_INET" by (simp add: sample_sockaddr_def)
  moreover obtain a where "createSocketAddress_sockaddr sample_env 0 sample_sockaddr = Some a"
    by (simp add: createSocketAddress_sockaddr_def sample_sockaddr_def init_sockaddr_def setSystemAddress_def
        setPrintFormat_def af_defs Let_def)
  moreover from this have "createAddresses sample_env (replicate n sample_sockaddr) = Some (replicate n a)" for n
    by (induction n) simp_all
  moreover have "flag_set MSG_MULTIADDRS MSG_MULTIADDRS" by (simp add: flag_set_def MSG_MULTIADDRS_def)
  moreover have "SCTP_MAX_NUM_ADDRESSES (SL sample) = 4" "AE sample = sample_env" by (simp_all add: sample_def sample_lib_def)
  ultimately show ?thesis
    using destinations_without_bound [of MSG_MULTIADDRS 5 "replicate 5 sample_sockaddr" sample_xenv "replicate 5 a"] by simp
qed

section \<open>Receiving into several buffers\<close>

lemma msg_iov_recv [simp]:
  "msg_iov (recv_control nf fl io msg) = msg_iov msg" "msg_iov (recv_name xe d io msg) = msg_iov msg"
  "msg_iov (recv_no_data msg) = msg_iov msg"
  by (simp_all add: recv_control_def recv_name_def recv_no_data_def split: option.split prod.split)

text \<open>
  C29. Records run together. \<^verbatim>\<open>recvmsg\<close> on an SCTP descriptor goes on to the next buffer even if a
  record ended in the last one: the call for one buffer stores the received length as the length of
  the buffer, so that the test whether less was received than the buffer holds is never true.
\<close>

theorem recvmsg_crosses_records:
  assumes "getSocket fd = Some i" "Table x i = ESDT_SCTP d"
    "recvmsg_singlebuffer xe cb fd (msg\<lparr>msg_iov := Some [v]\<rparr>) fl rn x = Inr (r, msg', x')" "0 < r"
  shows "\<exists>v'. msg_iov msg' = Some [v'] \<and> r = int (iov_len v') \<and>
    recvmsg_loop xe cb fd fl rn finished (v # vs) msg received x =
      recvmsg_loop xe cb fd fl rn (finished @ [v']) vs msg' (received + r) x'"
proof -
  have "\<exists>v'. msg_iov msg' = Some [v'] \<and> r = int (iov_len v')"
    using assms
    by (auto simp: recvmsg_singlebuffer_def recvmsg_sctp_def andThen_eq_Inr errno_return_def Let_def split: if_splits)
  then obtain v' where "msg_iov msg' = Some [v']" "r = int (iov_len v')" by blast
  then show ?thesis using assms(3,4) by simp
qed

definition reading_ext :: "(nat, nat) ext" where
  "reading_ext = sample_ext (reader_world change_note) (initialTable(5 := ESDT_SCTP sample_desc))"

lemma Association_receive_eq: "Association_receive e cb a io w = Association_receiveFrom e cb a False io w"
  by (simp add: Association_receive_def Association_receiveFrom_def)

definition reading_msg :: msghdr where
  "reading_msg = \<lparr>msg_name = None, msg_namelen = 0, msg_iov = None, msg_control = None, msg_controllen = 0, msg_flags = 0\<rparr>"

lemma reading_first_record:
  "\<exists>msg' x'. recvmsg_singlebuffer sample_xenv (deliver sample 0) 5 (reading_msg\<lparr>msg_iov := Some [oneBuffer [] 30]\<rparr>) 0 True
      reading_ext = Inr (20, msg', x') \<and> flag_set (msg_flags msg') MSG_EOR"
proof -
  let ?cb = "deliver sample 0" and ?w = "reader_world change_note" and ?a = "reader_assoc change_note"
  let ?io = "(initial_io 30 (recv_flags sample_desc 0 0 True))\<lparr>R_bufferSize := 30, R_address := None\<rparr>"
  have fl: "recv_flags sample_desc 0 0 True = 1"
    by (simp add: recv_flags_def sample_desc_def newDesc_def flag_set_def set_flag_def MSG_NOTIFICATION_def)
  have c: "sn_length (Content change_note) = 20" "ContentPosition change_note = 0"
    by (simp_all add: change_note_def assocChange_def with_content_def sizeof_sctp_assoc_change_def sample_def)
  have f: "flag_set (R_flags ?io) MSG_NOTIFICATION" "\<not> flag_set (R_flags ?io) MSG_PEEK" "\<not> flag_set (R_flags ?io) MSG_EOR"
    by (simp_all add: fl initial_io_def)
  show ?thesis
  proof (rule read_step [OF reader_attached reader(6) change_note_readable _ _ f, where cb = ?cb and wa = False])
    fix io' w' x' r
    assume r: "Association_receiveFrom sample ?cb 2 False ?io ?w = Inr (r, io', w')" "attached 2 x' w'"
      and "R_buffer io' = take (R_bufferSize ?io) (drop (ContentPosition change_note) (contentImage sample (Content change_note)))"
      "r = int (length (R_buffer io'))" "R_bufferSize io' = length (R_buffer io')"
      "flag_set (R_flags io') MSG_EOR = (sn_length (Content change_note) \<le> ContentPosition change_note + R_bufferSize ?io)"
    moreover have "length (contentImage sample (Content change_note)) = 20" using change_note_readable c by (simp add: readable_def)
    ultimately have io': "r = 20" "R_bufferSize io' = 20" "flag_set (R_flags io') MSG_EOR" using c by simp_all
    let ?x = "reading_ext\<lparr>Core := w'\<rparr>" and ?io0 = "initial_io 30 (recv_flags sample_desc 0 0 True)"
    have core: "Core reading_ext = ?w" "Assocs w' 2 = Some x'" "Table reading_ext 5 = ESDT_SCTP sample_desc"
      using r(2) by (simp_all add: reading_ext_def sample_ext_def attached_def)
    have "recv_retry (\<lambda>io x. andThen (Association_receive sample ?cb 2 io (Core x)) (\<lambda>(r, io, w). Inr (r, io, x\<lparr>Core := w\<rparr>)))
        30 (recv_rounds ?w (InQueue ?a)) ?io0 reading_ext = Inr (20, io', ?x)"
      using r(1) io'(1) core(1) by (simp add: recv_rounds_def Association_receive_eq errno_defs del: deliver.simps)
    moreover have "R_bufferSize ?io0 = 30" by (simp add: initial_io_def)
    ultimately have "recv_desc sample_xenv ?cb sample_desc ?io0 reading_ext =
        Inr (20, A_NotificationFlags x', io'\<lparr>R_assocID := AssociationID x', R_address := None\<rparr>, ?x)"
      using core reader(2) by (simp add: recv_desc_def byKind_def sample_desc_def newDesc_def coreGet_def getA_def
        Association_getNotificationFlags_def Association_getID_def del: deliver.simps)
    then show ?thesis
      using io' core(3)
      by (simp add: recvmsg_singlebuffer_def recvmsg_sctp_def getSocket_def MaxSockets_def reading_msg_def oneBuffer_def
        recv_control_def recv_name_def errno_return_def flag_set_def Let_def del: deliver.simps)
  qed (use reader in simp_all)
qed

theorem recvmsg_crosses_records_witness:
  "\<exists>v' msg' x'. flag_set (msg_flags msg') MSG_EOR \<and> iov_len v' = 20 \<and>
    recvmsg_loop sample_xenv (deliver sample 0) 5 0 True [] [oneBuffer [] 30, oneBuffer [] 9] reading_msg 0 reading_ext =
      recvmsg_loop sample_xenv (deliver sample 0) 5 0 True [v'] [oneBuffer [] 9] msg' 20 x'"
proof -
  obtain msg' x' where r: "recvmsg_singlebuffer sample_xenv (deliver sample 0) 5 (reading_msg\<lparr>msg_iov := Some [oneBuffer [] 30]\<rparr>)
      0 True reading_ext = Inr (20, msg', x')" "flag_set (msg_flags msg') MSG_EOR"
    using reading_first_record by blast
  have "getSocket 5 = Some 5" "Table reading_ext 5 = ESDT_SCTP sample_desc"
    by (simp_all add: getSocket_def MaxSockets_def reading_ext_def sample_ext_def)
  from recvmsg_crosses_records [OF this r(1), of "[]" "[oneBuffer [] 9]" 0] r(2) show ?thesis
    by (auto simp del: recvmsg_loop.simps deliver.simps)
qed

end
