(* ===== verification/SelectLaws.thy ===== *)
theory SelectLaws
  imports ExtLaws
begin

text \<open>
  What \<^verbatim>\<open>ext_select\<close> returns. The conditions of a call form a tree of depth three: the update
  conditions of the descriptors, the conditions for reading, writing and exceptions, and the global one.
  Collecting arms one update condition after the other; the lemmas follow the store of conditions.
\<close>

section \<open>Update conditions of descriptors\<close>

definition condOf :: "SCTPDesc \<Rightarrow> UpdateConditionType \<Rightarrow> cref option" where
  "condOf d t =
     (case SCTPAssociationPtr d of
        Some a \<Rightarrow> Some (AssocCond a (case t of UCT_Read \<Rightarrow> ReadUpdate | UCT_Write \<Rightarrow> WriteUpdate | UCT_Except \<Rightarrow> ExceptUpdate))
      | None \<Rightarrow> map_option (\<lambda>s. SockCond s (case t of UCT_Read \<Rightarrow> SReadUpdate | UCT_Write \<Rightarrow> SWriteUpdate | UCT_Except \<Rightarrow> SExceptUpdate))
                 (SCTPSocketPtr d))"

text \<open>Is a descriptor ready? A UDP-like socket is always ready for writing.\<close>

definition readyFor :: "'l world \<Rightarrow> SCTPDesc \<Rightarrow> UpdateConditionType \<Rightarrow> bool option" where
  "readyFor w d t =
     (case SCTPAssociationPtr d of
        Some a \<Rightarrow> map_option (case t of UCT_Read \<Rightarrow> A_ReadReady | UCT_Write \<Rightarrow> A_WriteReady | UCT_Except \<Rightarrow> A_HasException) (Assocs w a)
      | None \<Rightarrow>
          (case SCTPSocketPtr d of
             None \<Rightarrow> None
           | Some s \<Rightarrow> map_option (case t of UCT_Read \<Rightarrow> S_ReadReady | UCT_Except \<Rightarrow> S_HasException
                                   | UCT_Write \<Rightarrow> (\<lambda>y. S_WriteReady y \<or> \<not> ConnectionOriented d)) (Sockets w s)))"

definition kindSet :: "UpdateConditionType \<Rightarrow> fd_sets \<Rightarrow> fd_set" where
  "kindSet t fds = (case t of UCT_Read \<Rightarrow> readfds fds | UCT_Write \<Rightarrow> writefds fds | UCT_Except \<Rightarrow> exceptfds fds)"

section \<open>Arming a condition\<close>

abbreviation parentOf :: "UpdateConditionType \<Rightarrow> cref" where
  "parentOf t \<equiv> SelectCond (selectParent t)"

definition armed :: "bool \<Rightarrow> cref \<Rightarrow> UpdateConditionType \<Rightarrow> cref conditions \<Rightarrow> cref conditions" where
  "armed r c t s =
     (let s = s(c := \<lparr>Fired = r, ParentSet = [parentOf t]\<rparr>)
      in if r then mark s {parentOf t, SelectCond GlobalCondition} else s)"

lemma broadcast_root: "ParentSet (s c) = [] \<Longrightarrow> broadcast (Suc n) c s = Inr (mark s {c})"
  by (auto simp: Let_def mark_def)

lemma broadcast_parent:
  "ParentSet (s p) = [g] \<Longrightarrow> ParentSet (s g) = [] \<Longrightarrow> p \<noteq> g \<Longrightarrow> broadcast (Suc (Suc n)) p s = Inr (mark s {p, g})"
  by (auto simp: Let_def mark_def)

lemma ConditionDepth_Suc: "ConditionDepth = Suc (Suc (Suc (Suc 0)))"
  by (simp add: ConditionDepth_def)

lemma selectParent_neq [simp]: "selectParent t \<noteq> GlobalCondition" "GlobalCondition \<noteq> selectParent t"
  by (cases t; simp add: selectParent_def)+

lemma fire_root: "ParentSet (Conds w c) = [] \<Longrightarrow> fire c w = Inr (w\<lparr>Conds := mark (Conds w) {c}\<rparr>)"
  by (simp add: fire_def ConditionDepth_Suc broadcast_root del: broadcast.simps)

lemma condAddParent_armed:
  assumes "Conds w c = \<lparr>Fired = r, ParentSet = []\<rparr>" "ParentSet (Conds w (parentOf t)) = [SelectCond GlobalCondition]"
    "ParentSet (Conds w (SelectCond GlobalCondition)) = []" "\<And>k. c \<noteq> SelectCond k"
  shows "condAddParent c (parentOf t) w = Inr (w\<lparr>Conds := armed r c t (Conds w)\<rparr>)"
proof -
  let ?s = "(Conds w)(c := \<lparr>Fired = r, ParentSet = [parentOf t]\<rparr>)"
  have "broadcast ConditionDepth (parentOf t) ?s = Inr (mark ?s {parentOf t, SelectCond GlobalCondition})"
    unfolding ConditionDepth_Suc
    by (rule broadcast_parent) (use assms assms(4) [symmetric] in simp_all)
  with assms(1) show ?thesis
    by (cases r) (simp_all add: condAddParent_def addParent_def armed_def set_insert_def Let_def)
qed

lemma refresh_armed:
  assumes "ParentSet (Conds w c) = []"
  shows "refreshCondition c r w = Inr (w\<lparr>Conds := (Conds w)(c := \<lparr>Fired = r, ParentSet = []\<rparr>)\<rparr>)"
  using assms
  by (auto simp: refreshCondition_def fire_root testFired_def fired_def mark_def fun_eq_iff)

lemma armed_again [simp]: "armed r c t (s(c := z)) = armed r c t s"
  by (simp add: armed_def)

section \<open>Collecting\<close>

lemma condOf_neq: "condOf d t = Some c \<Longrightarrow> c \<noteq> SelectCond k"
  by (auto simp: condOf_def split: option.splits)

definition entry :: "SCTPDesc \<Rightarrow> int \<Rightarrow> UpdateConditionType \<Rightarrow> int \<times> UpdateConditionType \<times> cref \<times> select_cond" where
  "entry d fd t = (fd, t, the (condOf d t), selectParent t)"

lemma collect_condition_armed:
  assumes "Conds (Core x) c = \<lparr>Fired = r, ParentSet = []\<rparr>" "ParentSet (Conds (Core x) (parentOf t)) = [SelectCond GlobalCondition]"
    "ParentSet (Conds (Core x) (SelectCond GlobalCondition)) = []" "\<And>k. c \<noteq> SelectCond k"
    "length (SelConditions sd) < MaxSockets"
  shows "collect_condition fd t (selectParent t) c (sd, x) =
    Inr (0, sd\<lparr>SelConditions := SelConditions sd @ [(fd, t, c, selectParent t)]\<rparr>,
         x\<lparr>Core := (Core x)\<lparr>Conds := armed r c t (Conds (Core x))\<rparr>\<rparr>)"
  using assms(5) by (simp add: collect_condition_def coreDo_def condAddParent_armed [OF assms(1-4)])

lemma collectSCTP_armed:
  assumes "condOf d t = Some c" "readyFor (Core x) d t = Some r" "ParentSet (Conds (Core x) c) = []"
    "ParentSet (Conds (Core x) (parentOf t)) = [SelectCond GlobalCondition]"
    "ParentSet (Conds (Core x) (SelectCond GlobalCondition)) = []" "length (SelConditions sd) < MaxSockets"
  shows "collectSCTP_FDs fd d t (sd, x) =
    Inr (0, sd\<lparr>SelConditions := SelConditions sd @ [entry d fd t]\<rparr>,
         x\<lparr>Core := (Core x)\<lparr>Conds := armed r c t (Conds (Core x))\<rparr>\<rparr>)"
proof -
  let ?x = "\<lambda>b. x\<lparr>Core := (Core x)\<lparr>Conds := (Conds (Core x))(c := \<lparr>Fired = b, ParentSet = []\<rparr>)\<rparr>\<rparr>"
  have add: "collect_condition fd t (selectParent t) c (sd, ?x r) =
      Inr (0, sd\<lparr>SelConditions := SelConditions sd @ [entry d fd t]\<rparr>,
           x\<lparr>Core := (Core x)\<lparr>Conds := armed r c t (Conds (Core x))\<rparr>\<rparr>)"
    using collect_condition_armed [of "?x r" c r t sd fd] condOf_neq [OF assms(1)] condOf_neq [OF assms(1), symmetric]
      assms by (simp add: entry_def)
  show ?thesis
  proof (cases "SCTPAssociationPtr d")
    case (Some a)
    then obtain y where "Assocs (Core x) a = Some y" using assms(2) by (auto simp: readyFor_def)
    then show ?thesis
      using Some assms(1-3) add
      by (cases t) (auto simp: collectSCTP_FDs_def core_def Association_getUpdateCondition_def exact refresh_armed
          condOf_def readyFor_def)
  next
    case None
    then obtain p y where p: "SCTPSocketPtr d = Some p" "Sockets (Core x) p = Some y"
      using assms(2) by (auto simp: readyFor_def split: option.splits)
    have again: "fire c ((Core x)\<lparr>Conds := (Conds (Core x))(c := \<lparr>Fired = b, ParentSet = []\<rparr>)\<rparr>) = Inr (Core (?x True))" for b
      by (simp add: fire_root) (simp add: mark_def fun_upd_def cong: if_cong)
    show ?thesis
      using None p assms(1-3) add again
      by (cases t) (auto simp: collectSCTP_FDs_def core_def coreDo_def Socket_getUpdateCondition_def exact refresh_armed
          condOf_def readyFor_def)
  qed
qed

text \<open>The descriptors and kinds of events of a call, in the order in which they are collected.\<close>

definition pairs :: "fd_sets \<Rightarrow> int list \<Rightarrow> (int \<times> UpdateConditionType) list" where
  "pairs fds is =
     concat (map (\<lambda>i. map (Pair i) (filter (\<lambda>t. SAFE_FD_ISSET i (kindSet t fds)) [UCT_Read, UCT_Write, UCT_Except])) is)"

definition descAt :: "('l, 'o) ext \<Rightarrow> int \<Rightarrow> SCTPDesc" where
  "descAt x fd = (case Table x (nat fd) of ESDT_SCTP d \<Rightarrow> d | _ \<Rightarrow> newDesc 0 0 0)"

definition condAt :: "('l, 'o) ext \<Rightarrow> int \<times> UpdateConditionType \<Rightarrow> cref" where
  "condAt x q = the (condOf (descAt x (fst q)) (snd q))"

definition readyAt :: "('l, 'o) ext \<Rightarrow> int \<times> UpdateConditionType \<Rightarrow> bool" where
  "readyAt x q = (readyFor (Core x) (descAt x (fst q)) (snd q) = Some True)"

definition selectable :: "('l, 'o) ext \<Rightarrow> int \<times> UpdateConditionType \<Rightarrow> bool" where
  "selectable x q =
     (getSocket (fst q) = Some (nat (fst q)) \<and> Table x (nat (fst q)) = ESDT_SCTP (descAt x (fst q)) \<and>
      readyFor (Core x) (descAt x (fst q)) (snd q) \<noteq> None)"

definition inCore :: "('l, 'o) ext \<Rightarrow> cref conditions \<Rightarrow> ('l, 'o) ext" where
  "inCore x s = x\<lparr>Core := (Core x)\<lparr>Conds := s\<rparr>\<rparr>"

definition armAll :: "('l, 'o) ext \<Rightarrow> (int \<times> UpdateConditionType) list \<Rightarrow> cref conditions \<Rightarrow> cref conditions" where
  "armAll x P s = foldl (\<lambda>s q. armed (readyAt x q) (condAt x q) (snd q) s) s P"

definition entries :: "('l, 'o) ext \<Rightarrow> (int \<times> UpdateConditionType) list \<Rightarrow> (int \<times> UpdateConditionType \<times> cref \<times> select_cond) list" where
  "entries x P = map (\<lambda>q. (fst q, snd q, condAt x q, selectParent (snd q))) P"

text \<open>Conditions before those of \<open>P\<close> are armed.\<close>

definition unarmed :: "('l, 'o) ext \<Rightarrow> (int \<times> UpdateConditionType) set \<Rightarrow> cref conditions \<Rightarrow> bool" where
  "unarmed x Q s =
     ((\<forall>q \<in> Q. ParentSet (s (condAt x q)) = []) \<and> (\<forall>t. ParentSet (s (parentOf t)) = [SelectCond GlobalCondition]) \<and>
      ParentSet (s (SelectCond GlobalCondition)) = [])"

lemma inCore_simps [simp]:
  "Table (inCore x s) = Table x" "Conds (Core (inCore x s)) = s" "readyFor (Core (inCore x s)) = readyFor (Core x)"
  "inCore (inCore x s) s' = inCore x s'"
  by (simp_all add: inCore_def readyFor_def fun_eq_iff split: option.split)

lemma selectable_condOf:
  "selectable x q \<Longrightarrow> condOf (descAt x (fst q)) (snd q) = Some (condAt x q)"
  "selectable x q \<Longrightarrow> readyFor (Core x) (descAt x (fst q)) (snd q) = Some (readyAt x q)"
  by (auto simp: selectable_def condAt_def readyAt_def condOf_def readyFor_def split: option.splits)

lemma condAt_neq [simp]: "selectable x q \<Longrightarrow> condAt x q \<noteq> SelectCond k" "selectable x q \<Longrightarrow> SelectCond k \<noteq> condAt x q"
  using condOf_neq [OF selectable_condOf(1)] by metis+

lemma armed_other: "c' \<noteq> c \<Longrightarrow> (\<And>k. c' \<noteq> SelectCond k) \<Longrightarrow> armed r c t s c' = s c'"
  by (simp add: armed_def mark_def Let_def)

lemma armed_self: "(\<And>k. c \<noteq> SelectCond k) \<Longrightarrow> armed r c t s c = \<lparr>Fired = r, ParentSet = [parentOf t]\<rparr>"
  by (simp add: armed_def mark_def Let_def)

lemma armed_select:
  "(\<And>k. c \<noteq> SelectCond k) \<Longrightarrow> ParentSet (armed r c t s (SelectCond k)) = ParentSet (s (SelectCond k))"
  "(\<And>k. c \<noteq> SelectCond k) \<Longrightarrow> Fired (armed r c t s (SelectCond GlobalCondition)) = (r \<or> Fired (s (SelectCond GlobalCondition)))"
  by (auto simp: armed_def mark_def Let_def)

lemma unarmed_armed:
  assumes "unarmed x (insert q Q) s" "selectable x q" "\<forall>q' \<in> Q. selectable x q' \<and> condAt x q' \<noteq> condAt x q"
  shows "unarmed x Q (armed (readyAt x q) (condAt x q) (snd q) s)"
  using assms by (auto simp: unarmed_def armed_select armed_other)

lemma collect_kind_armed:
  assumes "unarmed x (insert (fd, t) Q) s" "selectable x (fd, t)" "length (SelConditions sd) < MaxSockets"
  shows "collectSCTP_FDs fd (descAt x fd) t (sd, inCore x s) =
    Inr (0, sd\<lparr>SelConditions := SelConditions sd @ entries x [(fd, t)]\<rparr>, inCore x (armAll x [(fd, t)] s))"
  using collectSCTP_armed [of "descAt x fd" t "condAt x (fd, t)" "inCore x s" "readyAt x (fd, t)" sd fd]
    selectable_condOf [OF assms(2)] assms
  by (simp add: unarmed_def entry_def entries_def armAll_def condAt_def) (simp add: inCore_def)

fun collectPairs ::
  "('l, 'o) ext \<Rightarrow> (int \<times> UpdateConditionType) list \<Rightarrow> int \<times> SelectData \<times> ('l, 'o) ext \<Rightarrow> (int \<times> SelectData \<times> ('l, 'o) ext) result" where
  "collectPairs x [] z = Inr z"
| "collectPairs x (q # P) (r, sd, y) =
     andThen (collectSCTP_FDs (fst q) (descAt x (fst q)) (snd q) (sd, y)) (collectPairs x P)"

lemma collectPairs_armed:
  assumes "unarmed x (set P \<union> Q) s" "\<forall>q \<in> set P \<union> Q. selectable x q" "inj_on (condAt x) (set P \<union> Q)" "distinct P"
    "set P \<inter> Q = {}" "length (SelConditions sd) + length P \<le> MaxSockets"
  shows "collectPairs x P (0, sd, inCore x s) =
      Inr (0, sd\<lparr>SelConditions := SelConditions sd @ entries x P\<rparr>, inCore x (armAll x P s)) \<and> unarmed x Q (armAll x P s)"
  using assms
proof (induction P arbitrary: sd s)
  case (Cons q P)
  have q: "selectable x q" "\<forall>q' \<in> set P \<union> Q. selectable x q' \<and> condAt x q' \<noteq> condAt x q"
    using Cons.prems by (auto simp: inj_on_def)
  have "collectSCTP_FDs (fst q) (descAt x (fst q)) (snd q) (sd, inCore x s) =
      Inr (0, sd\<lparr>SelConditions := SelConditions sd @ entries x [q]\<rparr>, inCore x (armAll x [q] s))"
    using collect_kind_armed [of x "fst q" "snd q" "set P \<union> Q" s sd] Cons.prems q(1) by simp
  moreover have "unarmed x (set P \<union> Q) (armAll x [q] s)"
    using unarmed_armed [OF _ q] Cons.prems(1) by (simp add: armAll_def)
  ultimately show ?case
    using Cons.IH [of "armAll x [q] s" "sd\<lparr>SelConditions := SelConditions sd @ entries x [q]\<rparr>"] Cons.prems
    by (simp add: armAll_def entries_def)
qed (simp add: armAll_def entries_def)

lemma wanted_kinds:
  "has_event (wantedEvents fds fd) POLLIN = SAFE_FD_ISSET fd (readfds fds)"
  "has_event (wantedEvents fds fd) POLLOUT = SAFE_FD_ISSET fd (writefds fds)"
  "has_event (wantedEvents fds fd) POLLERR = SAFE_FD_ISSET fd (exceptfds fds)"
  "wantedEvents fds fd = 0 \<longleftrightarrow> (\<forall>t. \<not> SAFE_FD_ISSET fd (kindSet t fds))"
  by (auto simp: wantedEvents_def has_event_def poll_defs kindSet_def split: UpdateConditionType.splits if_splits)

lemma collectFDs_pairs:
  assumes "getSocket fd = Some i" "Table y i = ESDT_SCTP (descAt x fd)" "collectPairs x (pairs fds [fd]) (0, sd, y) = Inr (0, sd', y')"
  shows "collectFDs xe fd (wantedEvents fds fd) (sd, y) = Inr (0, sd', y')"
  using assms
  by (auto simp: collectFDs_def collect_kind_def wanted_kinds pairs_def kindSet_def errno_return_def Let_def
      andThen_eq_Inr split: if_splits)

lemma collectAll_armed:
  assumes "unarmed x (set (pairs fds is)) s" "\<forall>q \<in> set (pairs fds is). selectable x q"
    "inj_on (condAt x) (set (pairs fds is))" "distinct is" "length (SelConditions sd) + length (pairs fds is) \<le> MaxSockets"
  shows "collectAll xe fds is (sd, inCore x s) =
    Inr (0, sd\<lparr>SelConditions := SelConditions sd @ entries x (pairs fds is)\<rparr>, inCore x (armAll x (pairs fds is) s))"
  using assms
proof (induction "is" arbitrary: sd s)
  case (Cons i "is")
  have split: "pairs fds (i # is) = pairs fds [i] @ pairs fds is" by (simp add: pairs_def)
  show ?case
  proof (cases "wantedEvents fds i = 0")
    case True
    then have "pairs fds [i] = []" by (simp add: pairs_def wanted_kinds)
    then show ?thesis using Cons True by (simp add: split)
  next
    case False
    then obtain t where t: "SAFE_FD_ISSET i (kindSet t fds)" by (auto simp: wanted_kinds(4))
    then have "(i, t) \<in> set (pairs fds [i])" by (cases t) (simp_all add: pairs_def)
    then have i: "selectable x (i, t)" using Cons.prems(2) split by auto
    have fst_pairs: "fst ` set (pairs fds l) \<subseteq> set l" for l by (auto simp: pairs_def)
    have "set (pairs fds [i]) \<inter> set (pairs fds is) = {}"
      using fst_pairs [of "[i]"] fst_pairs [of "is"] Cons.prems(4) by fastforce
    moreover have "distinct (pairs fds [i])" by (simp add: pairs_def)
    ultimately have *: "collectPairs x (pairs fds [i]) (0, sd, inCore x s) =
        Inr (0, sd\<lparr>SelConditions := SelConditions sd @ entries x (pairs fds [i])\<rparr>, inCore x (armAll x (pairs fds [i]) s)) \<and>
      unarmed x (set (pairs fds is)) (armAll x (pairs fds [i]) s)"
      using Cons.prems by (intro collectPairs_armed) (auto simp: split)
    then have "collectFDs xe i (wantedEvents fds i) (sd, inCore x s) =
        Inr (0, sd\<lparr>SelConditions := SelConditions sd @ entries x (pairs fds [i])\<rparr>, inCore x (armAll x (pairs fds [i]) s))"
      using i by (intro collectFDs_pairs) (auto simp: selectable_def)
    with * False show ?thesis
      using Cons.IH [of "armAll x (pairs fds [i]) s" "sd\<lparr>SelConditions := SelConditions sd @ entries x (pairs fds [i])\<rparr>"] Cons.prems
      by (simp add: split armAll_def entries_def inj_on_Un)
  qed
qed (simp add: pairs_def armAll_def entries_def)

section \<open>Results\<close>

lemma armAll_conds:
  assumes "\<forall>q \<in> set P. selectable x q" "inj_on (condAt x) (set P)" "distinct P"
  shows "q \<in> set P \<Longrightarrow> armAll x P s (condAt x q) = \<lparr>Fired = readyAt x q, ParentSet = [parentOf (snd q)]\<rparr>"
    "Fired (armAll x P s (SelectCond GlobalCondition)) = (Fired (s (SelectCond GlobalCondition)) \<or> (\<exists>q \<in> set P. readyAt x q))"
  using assms
proof (induction P rule: rev_induct)
  case (snoc p P)
  { case 1
    then show ?case
      using snoc by (cases "q = p") (auto simp: armAll_def armed_self armed_other inj_on_def) }
  { case 2
    then show ?case using snoc by (auto simp: armAll_def armed_select) }
qed (simp_all add: armAll_def)

lemma collect_fired_entries:
  assumes "\<forall>q \<in> set P. Fired (Conds w (condAt x q)) = R q" "inj_on (condAt x) (set P)" "distinct P"
  shows "\<exists>s. collect_fired (entries x P) (k, fds, w) =
      (k + int (length (filter R P)), foldl (\<lambda>f q. set_kind (snd q) (fst q) f) fds (filter R P),
       w\<lparr>Conds := s\<rparr>) \<and>
    (\<forall>q \<in> set P. ParentSet (s (condAt x q)) = filter (\<lambda>c. c \<noteq> parentOf (snd q)) (ParentSet (Conds w (condAt x q)))) \<and>
    (\<forall>c. c \<notin> condAt x ` set P \<longrightarrow> s c = Conds w c)"
  using assms
proof (induction P arbitrary: k fds w)
  case Nil
  show ?case by (auto simp: entries_def intro!: exI [of _ "Conds w"])
next
  case (Cons q P)
  let ?c = "condAt x q"
  let ?s = "(Conds w)(?c := (Conds w ?c)\<lparr>Fired := False, ParentSet := filter (\<lambda>c. c \<noteq> parentOf (snd q)) (ParentSet (Conds w ?c))\<rparr>)"
  have new: "\<forall>q' \<in> set P. condAt x q' \<noteq> ?c" using Cons.prems by (auto simp: inj_on_def)
  have step: "collect_fired (entries x (q # P)) (k, fds, w) =
      collect_fired (entries x P)
        (if R q then (k + 1, set_kind (snd q) (fst q) fds, w\<lparr>Conds := ?s\<rparr>) else (k, fds, w\<lparr>Conds := ?s\<rparr>))"
    using Cons.prems(1) by (simp add: entries_def testFired_def fired_def removeParent_def Let_def)
  obtain s where s: "collect_fired (entries x P)
        (if R q then (k + 1, set_kind (snd q) (fst q) fds, w\<lparr>Conds := ?s\<rparr>) else (k, fds, w\<lparr>Conds := ?s\<rparr>)) =
      ((if R q then k + 1 else k) + int (length (filter R P)),
       foldl (\<lambda>f q. set_kind (snd q) (fst q) f) (if R q then set_kind (snd q) (fst q) fds else fds)
         (filter R P), w\<lparr>Conds := s\<rparr>)"
    "\<forall>q' \<in> set P. ParentSet (s (condAt x q')) = filter (\<lambda>c. c \<noteq> parentOf (snd q')) (ParentSet (?s (condAt x q')))"
    "\<forall>c. c \<notin> condAt x ` set P \<longrightarrow> s c = ?s c"
    using Cons.IH [of "w\<lparr>Conds := ?s\<rparr>" "if R q then k + 1 else k"
        "if R q then set_kind (snd q) (fst q) fds else fds"] Cons.prems new
    by (cases "R q") auto
  have "?c \<notin> condAt x ` set P" using new by auto
  with s step new show ?case by (intro exI [of _ s]) auto
qed

lemma kindSet_set_kind: "kindSet t (set_kind t' fd fds) = (if t = t' then map_option (insert fd) (kindSet t fds) else kindSet t fds)"
  by (cases t; cases t'; simp add: set_kind_def kindSet_def)

lemma kindSet_foldl:
  "kindSet t (foldl (\<lambda>f q. set_kind (snd q) (fst q) f) fds P) = map_option (\<lambda>S. S \<union> {fd. (fd, t) \<in> set P}) (kindSet t fds)"
proof (induction P arbitrary: fds)
  case (Cons q P)
  then show ?case by (cases "kindSet t fds"; cases q; cases "t = snd q") (auto simp: kindSet_set_kind)
qed (simp add: option.map_ident)

lemma kindSet_clear: "kindSet t (FD_CLR_sets l fds) = map_option (\<lambda>S. S - set l) (kindSet t fds)"
  by (cases t) (auto simp: kindSet_def FD_CLR_sets_def FD_CLR_all_def split: option.split)

lemma FD_CLR_none: "FD_CLR_sets [] fds = fds"
  by (cases fds) (simp add: FD_CLR_sets_def FD_CLR_all_def split: option.split)

lemma waits_not:
  assumes "lock_inv (Core x)" "Fired (s (SelectCond GlobalCondition))" "SelConditions sd \<noteq> []"
  shows "waitForEvents xe cb timeout sd (inCore (lockX x) s) =
    Inr (0, inCore (lockX x) (s(SelectCond GlobalCondition := (s (SelectCond GlobalCondition))\<lparr>Fired := False\<rparr>)))"
proof -
  have w: "coreDo unlock (x\<lparr>Core := lock ((Core x)\<lparr>Conds := s\<rparr>)\<rparr>) = Inr (x\<lparr>Core := touched ((Core x)\<lparr>Conds := s\<rparr>)\<rparr>)"
    using assms(1) by (simp add: coreDo_def unlock_lock del: touched_updates)
  have t: "selectTimedWait xe cb (x\<lparr>Core := touched ((Core x)\<lparr>Conds := s\<rparr>)\<rparr>) =
      Inr (True, x\<lparr>Core := touched ((Core x)\<lparr>Conds := s(SelectCond GlobalCondition := (s (SelectCond GlobalCondition))\<lparr>Fired := False\<rparr>)\<rparr>)\<rparr>)"
    using assms(2) by (simp add: selectTimedWait_def testFired_def fired_def Let_def)
  show ?thesis
    using assms(3) by (cases timeout) (simp_all add: waitForEvents_def w t lockX_def inCore_def lock_updates del: touched_updates)
qed

section \<open>Properties\<close>

lemma set_pairs: "set (pairs fds l) = {q. fst q \<in> set l \<and> SAFE_FD_ISSET (fst q) (kindSet (snd q) fds)}"
proof -
  have "q \<in> set (pairs fds l) \<longleftrightarrow> fst q \<in> set l \<and> SAFE_FD_ISSET (fst q) (kindSet (snd q) fds)" for q
    by (cases q; cases "snd q") (auto simp: pairs_def)
  then show ?thesis by blast
qed

lemma distinct_pairs: "distinct l \<Longrightarrow> distinct (pairs fds l)"
proof (induction l)
  case (Cons i l)
  have "pairs fds (i # l) = pairs fds [i] @ pairs fds l" "distinct (pairs fds [i])" by (simp_all add: pairs_def)
  then show ?case using Cons by (auto simp: set_pairs)
qed (simp add: pairs_def)

lemma armed_start: "unarmed x Q (Conds (selectConditions w)) \<longleftrightarrow>
   (\<forall>q \<in> Q. ParentSet (Conds (selectConditions w) (condAt x q)) = [])"
  by (auto simp: unarmed_def selectConditions_def selectParent_def Condition_new_def split: UpdateConditionType.split)

lemma Core_lockX: "Core (lockX x) = lock (Core x)"
  by (simp add: lockX_def)

lemma readyFor_lockX [simp]: "readyFor (Core (lockX x)) = readyFor (Core x)"
  by (simp add: lockX_def readyFor_def fun_eq_iff split: option.split)

lemma at_lockX [simp]:
  "condAt (lockX x) = condAt x" "readyAt (lockX x) = readyAt x" "descAt (lockX x) = descAt x"
  "selectable (lockX x) = selectable x" "entries (lockX x) = entries x" "Table (lockX x) = Table x"
proof -
  show 1: "Table (lockX x) = Table x" by (simp add: lockX_def)
  then show 2: "descAt (lockX x) = descAt x" by (simp add: descAt_def fun_eq_iff)
  show 3: "condAt (lockX x) = condAt x" by (simp add: condAt_def fun_eq_iff 2)
  show "entries (lockX x) = entries x" unfolding entries_def fun_eq_iff 3 by simp
  show "readyAt (lockX x) = readyAt x" by (simp add: readyAt_def fun_eq_iff 2)
  show "selectable (lockX x) = selectable x" by (simp add: selectable_def fun_eq_iff 1 2)
qed

definition given :: "fd_sets \<Rightarrow> (int \<times> UpdateConditionType) set" where
  "given fds = {(fd, t). SAFE_FD_ISSET fd (kindSet t fds)}"

lemma pairs_selectable:
  assumes "\<forall>q \<in> given fds. fst q < n \<and> selectable x q"
  shows "set (pairs fds (map int [0..<signed_limit n])) = given fds" "distinct (pairs fds (map int [0..<signed_limit n]))"
proof -
  have "0 \<le> fst q \<and> fst q < int MaxSockets" if "selectable x q" for q
    using that by (auto simp: selectable_def getSocket_def split: if_splits)
  with assms show "set (pairs fds (map int [0..<signed_limit n])) = given fds" "distinct (pairs fds (map int [0..<signed_limit n]))"
    by (auto simp: set_pairs given_def signed_limit_def distinct_map inj_on_def intro!: distinct_pairs)
      (force simp: image_iff intro: bexI [of _ "nat _"])
qed

text \<open>Clearing all pairs and setting the ready ones leaves the ready descriptors of each kind.\<close>

lemma kindSet_ready:
  assumes "set P = given fds"
  shows "kindSet t (foldl (\<lambda>f q. set_kind (snd q) (fst q) f) (FD_CLR_sets (map fst (entries x P)) fds) (filter R P)) =
    map_option (\<lambda>S. {fd \<in> S. R (fd, t)}) (kindSet t fds)"
proof (cases "kindSet t fds")
  case (Some S)
  then have *: "(fd, t) \<in> given fds \<longleftrightarrow> fd \<in> S" for fd by (simp add: given_def SAFE_FD_ISSET_def)
  have "S - set (map fst (entries x P)) = {}" using assms * by (force simp: entries_def)
  with Some * assms show ?thesis by (auto simp: kindSet_foldl kindSet_clear)
qed (simp add: kindSet_foldl kindSet_clear)

text \<open>
  The state in which the calling thread waits: the conditions of all given descriptors are armed, and the lock is
  released.
\<close>

definition select_waiting :: "fd_sets \<Rightarrow> int \<Rightarrow> ('l, 'o) ext \<Rightarrow> ('l, 'o) ext" where
  "select_waiting fds n x = x\<lparr>Core := touched ((Core x)\<lparr>Conds :=
     armAll x (pairs fds (map int [0..<signed_limit n])) (Conds (selectConditions (Core x)))\<rparr>)\<rparr>"

text \<open>From the end of the wait on: each given descriptor whose condition fired is reported.\<close>

lemma select_collects:
  assumes "set P = given fds" "distinct P" "inj_on (condAt x) (given fds)" "lock_inv (Core z)"
  shows "\<exists>s fds'. (let fds = FD_CLR_sets (map fst (entries x P)) fds;
         (changes, fds, w) = collect_fired (entries x P) (0, fds, Core (lockX z));
         fds = FD_CLR_sets (map fst ([] :: (int \<times> nat) list)) fds
     in andThen (collect_user xe [] (changes, fds, (lockX z)\<lparr>Core := w\<rparr>)) (\<lambda>(changes, fds, x).
        andThen (coreDo unlock x) (\<lambda>x. andThen (errno_return changes x) (\<lambda>(r, x). Inr (r, fds, x))))) =
      Inr (int (card {q \<in> given fds. Fired (Conds (Core z) (condAt x q))}), fds', z\<lparr>Core := touched ((Core z)\<lparr>Conds := s\<rparr>)\<rparr>) \<and>
    (\<forall>t. kindSet t fds' = map_option (\<lambda>S. {fd \<in> S. Fired (Conds (Core z) (condAt x (fd, t)))}) (kindSet t fds)) \<and>
    (\<forall>q \<in> given fds. ParentSet (s (condAt x q)) = filter (\<lambda>c. c \<noteq> parentOf (snd q)) (ParentSet (Conds (Core z) (condAt x q))))"
proof -
  let ?R = "\<lambda>q. Fired (Conds (Core z) (condAt x q))" and ?fds = "FD_CLR_sets (map fst (entries x P)) fds"
  obtain s where s: "collect_fired (entries x P) (0, ?fds, Core (lockX z)) =
      (int (length (filter ?R P)), foldl (\<lambda>f q. set_kind (snd q) (fst q) f) ?fds (filter ?R P), (Core (lockX z))\<lparr>Conds := s\<rparr>)"
    "\<forall>q \<in> set P. ParentSet (s (condAt x q)) = filter (\<lambda>c. c \<noteq> parentOf (snd q)) (ParentSet (Conds (Core z) (condAt x q)))"
  proof -
    have R: "\<forall>q \<in> set P. Fired (Conds (Core (lockX z)) (condAt x q)) = ?R q" by (simp add: Core_lockX)
    have inj: "inj_on (condAt x) (set P)" using assms(1,3) by simp
    show thesis
      by (rule exE [OF collect_fired_entries [OF R inj assms(2), of 0 ?fds]], elim conjE, rule that)
        (simp_all add: Core_lockX)
  qed
  have count: "length (filter ?R P) = card {q \<in> given fds. ?R q}"
    using distinct_card [OF distinct_filter [OF assms(2)], of ?R] by (simp add: assms(1))
  have unl: "coreDo unlock ((lockX z)\<lparr>Core := (Core (lockX z))\<lparr>Conds := s\<rparr>\<rparr>) =
      Inr (z\<lparr>Core := touched ((Core z)\<lparr>Conds := s\<rparr>)\<rparr>)"
    using assms(4) by (simp add: lockX_def lock_updates coreDo_def unlock_lock del: touched_updates)
  show ?thesis
    using s kindSet_ready [OF assms(1), of _ x ?R] assms(1)
    by (intro exI [of _ s] exI [of _ "foldl (\<lambda>f q. set_kind (snd q) (fst q) f) ?fds (filter ?R P)"])
      (simp add: Let_def count FD_CLR_none unl errno_return_def del: touched_updates)
qed

lemma select_collected:
  fixes x :: "('l, 'o) ext"
  assumes "card (given fds) \<le> MaxSockets"
    "\<forall>q \<in> given fds. fst q < n \<and> selectable x q \<and> ParentSet (Conds (Core x) (condAt x q)) = []"
    "inj_on (condAt x) (given fds)"
  defines "P \<equiv> pairs fds (map int [0..<signed_limit n])"
  shows "collectAll xe fds (map int [0..<signed_limit n])
      (\<lparr>SelConditions = [], SelUserCallbacks = []\<rparr>, (lockX x)\<lparr>Core := selectConditions (Core (lockX x))\<rparr>) =
    Inr (0, \<lparr>SelConditions = entries x P, SelUserCallbacks = []\<rparr>,
         inCore (lockX x) (armAll x P (Conds (selectConditions (Core x)))))"
    "q \<in> given fds \<Longrightarrow> armAll x P (Conds (selectConditions (Core x))) (condAt x q) = \<lparr>Fired = readyAt x q, ParentSet = [parentOf (snd q)]\<rparr>"
    "Fired (armAll x P (Conds (selectConditions (Core x))) (SelectCond GlobalCondition)) = (\<exists>q \<in> given fds. readyAt x q)"
    "set P = given fds" "distinct P"
proof -
  let ?y = "lockX x" and ?s0 = "Conds (selectConditions (Core x))"
  show P: "set P = given fds" "distinct P" using pairs_selectable [of fds n x] assms(2) by (auto simp: P_def)
  have len: "length P \<le> MaxSockets" using assms(1) P distinct_card by fastforce
  have y: "?y\<lparr>Core := selectConditions (Core ?y)\<rparr> = inCore ?y ?s0"
    by (simp add: inCore_def selectConditions_def Core_lockX)
  have "Conds (selectConditions (Core ?y)) = ?s0" by (simp add: selectConditions_def Core_lockX)
  then have start: "unarmed ?y (set P) ?s0"
    using armed_start [of ?y "set P" "Core ?y"] assms(2) P(1) by (auto simp: selectConditions_def)
  have all: "\<forall>q \<in> set P. selectable ?y q" "inj_on (condAt ?y) (set P)" using assms(2,3) P(1) by auto
  have arm: "armAll ?y = armAll x" by (simp add: armAll_def fun_eq_iff)
  show "collectAll xe fds (map int [0..<signed_limit n])
      (\<lparr>SelConditions = [], SelUserCallbacks = []\<rparr>, (lockX x)\<lparr>Core := selectConditions (Core (lockX x))\<rparr>) =
    Inr (0, \<lparr>SelConditions = entries x P, SelUserCallbacks = []\<rparr>, inCore ?y (armAll x P ?s0))"
    using collectAll_armed [OF start [unfolded P_def] all [unfolded P_def]] len unfolding y P_def
    by (simp add: distinct_map inj_on_def arm)
  note result = armAll_conds [OF all P(2), where s = ?s0, unfolded arm]
  show "q \<in> given fds \<Longrightarrow> armAll x P ?s0 (condAt x q) = \<lparr>Fired = readyAt x q, ParentSet = [parentOf (snd q)]\<rparr>"
    using result(1) [of q] P(1) by simp
  show "Fired (armAll x P ?s0 (SelectCond GlobalCondition)) = (\<exists>q \<in> given fds. readyAt x q)"
    using result(2) P(1) by (simp add: selectConditions_def Condition_new_def)
qed

lemma lockX_Core: "(lockX x)\<lparr>Core := lock w\<rparr> = lockX (x\<lparr>Core := w\<rparr>)"
  by (simp add: lockX_def)

lemma inCore_lockX: "inCore (lockX x) s = lockX (x\<lparr>Core := (Core x)\<lparr>Conds := s\<rparr>\<rparr>)"
  by (simp add: inCore_def lockX_def lock_updates)

text \<open>Firing an armed condition fires its parent and the global condition.\<close>

lemma armAll_parents:
  "\<forall>q \<in> set P. selectable x q \<Longrightarrow> ParentSet (armAll x P s (SelectCond k)) = ParentSet (s (SelectCond k))"
  by (induction P rule: rev_induct) (simp_all add: armAll_def armed_select)

lemma fire_chain:
  assumes "ParentSet (Conds w c) = [p]" "ParentSet (Conds w p) = [g]" "ParentSet (Conds w g) = []"
    "c \<noteq> p" "c \<noteq> g" "p \<noteq> g"
  shows "fire c w = Inr (w\<lparr>Conds := mark (Conds w) {c, p, g}\<rparr>)"
  using assms by (auto simp: fire_def ConditionDepth_Suc Let_def mark_def fun_eq_iff)

text \<open>The thread waits as long as the global condition has not fired, and for one round when it has a time-out.\<close>

lemma waits_for:
  assumes "lock_inv (Core x)" "\<not> Fired (s (SelectCond GlobalCondition))" "SelConditions sd \<noteq> []"
    "eventLoop xe cb (x\<lparr>Core := touched ((Core x)\<lparr>Conds := s\<rparr>)\<rparr>) = Inr z"
    "timeout = None \<longrightarrow> Fired (Conds (Core z) (SelectCond GlobalCondition))"
  shows "waitForEvents xe cb timeout sd (inCore (lockX x) s) =
    Inr (0, lockX (z\<lparr>Core := snd (testFired (SelectCond GlobalCondition) (Core z))\<rparr>))"
proof -
  have w: "coreDo unlock (inCore (lockX x) s) = Inr (x\<lparr>Core := touched ((Core x)\<lparr>Conds := s\<rparr>)\<rparr>)"
    using assms(1) by (simp add: inCore_def lockX_def lock_updates coreDo_def unlock_lock del: touched_updates)
  have t: "selectTimedWait xe cb (x\<lparr>Core := touched ((Core x)\<lparr>Conds := s\<rparr>)\<rparr>) =
      Inr (Fired (Conds (Core z) (SelectCond GlobalCondition)), z\<lparr>Core := snd (testFired (SelectCond GlobalCondition) (Core z))\<rparr>)"
    using assms(2,4) by (simp add: selectTimedWait_def testFired_def fired_def Let_def split: prod.split)
  show ?thesis
    using assms(3,5) by (cases timeout) (simp_all add: waitForEvents_def w t del: touched_updates)
qed

text \<open>
  C11. What \<^verbatim>\<open>ext_select\<close> reports, when all descriptors in the sets are SCTP descriptors (at most as many
  entries in all as the arrays of the call have) whose conditions no other call waits for. If one of them is ready at
  the call, it returns at once, whatever the time-out: no callback runs. Each set keeps exactly the descriptors
  that are ready for it, the result is the number of kept entries, and apart from the conditions, which lose the
  parents they got, nothing changes. If none is ready, the thread waits, without the lock, in a state in which firing the
  condition of any of them fires the global condition it waits for. When the round of the master's callbacks
  that ends the wait has returned in \<open>z\<close>, where the global condition has fired or, with a time-out, has not, the sets keep exactly
  the descriptors whose conditions have fired meanwhile; they are counted, and nothing else changes in \<open>z\<close>.
\<close>

theorem select_reports_ready:
  fixes x :: "('l, 'o) ext"
  assumes "Running (Core x)" "lock_inv (Core x)" "card (given fds) \<le> MaxSockets"
    "\<forall>q \<in> given fds. fst q < n \<and> selectable x q \<and> ParentSet (Conds (Core x) (condAt x q)) = []"
    "inj_on (condAt x) (given fds)" "given fds \<noteq> {}"
  shows "((\<exists>q \<in> given fds. readyAt x q) \<longrightarrow>
      (\<exists>s fds'. ext_select xe cb n fds timeout x =
         Inr (int (card {q \<in> given fds. readyAt x q}), fds', x\<lparr>Core := touched ((Core x)\<lparr>Conds := s\<rparr>)\<rparr>) \<and>
       (\<forall>t. kindSet t fds' = map_option (\<lambda>S. {fd \<in> S. readyAt x (fd, t)}) (kindSet t fds)) \<and>
       (\<forall>q \<in> given fds. ParentSet (s (condAt x q)) = []))) \<and>
    ((\<forall>q \<in> given fds. \<not> readyAt x q) \<longrightarrow>
      (\<forall>q \<in> given fds. \<exists>w. fire (condAt x q) (Core (select_waiting fds n x)) = Inr w \<and>
         Fired (Conds w (condAt x q)) \<and> Fired (Conds w (SelectCond GlobalCondition))) \<and>
      (\<forall>z. eventLoop xe cb (select_waiting fds n x) = Inr z \<and> lock_inv (Core z) \<and>
         (timeout = None \<longrightarrow> Fired (Conds (Core z) (SelectCond GlobalCondition))) \<longrightarrow>
       (\<exists>s fds'. ext_select xe cb n fds timeout x =
          Inr (int (card {q \<in> given fds. Fired (Conds (Core z) (condAt x q))}), fds', z\<lparr>Core := touched ((Core z)\<lparr>Conds := s\<rparr>)\<rparr>) \<and>
        (\<forall>t. kindSet t fds' = map_option (\<lambda>S. {fd \<in> S. Fired (Conds (Core z) (condAt x (fd, t)))}) (kindSet t fds)) \<and>
        (\<forall>q \<in> given fds. ParentSet (s (condAt x q)) =
           filter (\<lambda>c. c \<noteq> parentOf (snd q)) (ParentSet (Conds (Core z) (condAt x q)))))))"
proof -
  let ?P = "pairs fds (map int [0..<signed_limit n])" and ?s0 = "Conds (selectConditions (Core x))"
  let ?s1 = "armAll x ?P ?s0"
  note c = select_collected [OF assms(3-5)]
  have ne: "entries x ?P \<noteq> []" using assms(6) c(4) by (auto simp: entries_def)
  have select: "ext_select xe cb n fds timeout x =
      (let fds = FD_CLR_sets (map fst (entries x ?P)) fds;
           (changes, fds, w) = collect_fired (entries x ?P) (0, fds, Core (lockX z));
           fds = FD_CLR_sets (map fst ([] :: (int \<times> nat) list)) fds
       in andThen (collect_user xe [] (changes, fds, (lockX z)\<lparr>Core := w\<rparr>)) (\<lambda>(changes, fds, x).
          andThen (coreDo unlock x) (\<lambda>x. andThen (errno_return changes x) (\<lambda>(r, x). Inr (r, fds, x)))))"
    if "waitForEvents xe cb timeout \<lparr>SelConditions = entries x ?P, SelUserCallbacks = []\<rparr> (inCore (lockX x) ?s1) = Inr (0, lockX z)" for z
    using assms(1) c(1) that by (simp add: ext_select_def Let_def)
  note collects = select_collects [OF c(4,5) assms(5)]
  have at: "condAt x q \<noteq> SelectCond k" if "q \<in> given fds" for q k
    using assms(4) that by auto
  show ?thesis
  proof (intro conjI impI ballI allI)
    assume ready: "\<exists>q \<in> given fds. readyAt x q"
    define z where "z = x\<lparr>Core := (Core x)\<lparr>Conds :=
      ?s1(SelectCond GlobalCondition := (?s1 (SelectCond GlobalCondition))\<lparr>Fired := False\<rparr>)\<rparr>\<rparr>"
    have wait: "waitForEvents xe cb timeout \<lparr>SelConditions = entries x ?P, SelUserCallbacks = []\<rparr> (inCore (lockX x) ?s1) =
        Inr (0, lockX z)"
      using waits_not [of x ?s1] assms(2) ne c(3) ready by (simp add: inCore_lockX z_def)
    have z: "lock_inv (Core z)" "z\<lparr>Core := touched ((Core z)\<lparr>Conds := s\<rparr>)\<rparr> = x\<lparr>Core := touched ((Core x)\<lparr>Conds := s\<rparr>)\<rparr>" for s
      using assms(2) by (simp_all add: z_def lock_inv_def del: touched_updates)
    have conds: "Conds (Core z) (condAt x q) = \<lparr>Fired = readyAt x q, ParentSet = [parentOf (snd q)]\<rparr>" if "q \<in> given fds" for q
      using c(2) [OF that] at [OF that] by (simp add: z_def)
    have count: "{q \<in> given fds. Fired (Conds (Core z) (condAt x q))} = {q \<in> given fds. readyAt x q}"
      using conds by auto
    have fired: "(\<lambda>S. {fd \<in> S. Fired (Conds (Core z) (condAt x (fd, t)))}) S = {fd \<in> S. readyAt x (fd, t)}"
      if "kindSet t fds = Some S" for t S
      using conds that by (auto simp: given_def SAFE_FD_ISSET_def)
    show "\<exists>s fds'. ext_select xe cb n fds timeout x =
         Inr (int (card {q \<in> given fds. readyAt x q}), fds', x\<lparr>Core := touched ((Core x)\<lparr>Conds := s\<rparr>)\<rparr>) \<and>
       (\<forall>t. kindSet t fds' = map_option (\<lambda>S. {fd \<in> S. readyAt x (fd, t)}) (kindSet t fds)) \<and>
       (\<forall>q \<in> given fds. ParentSet (s (condAt x q)) = [])"
    proof -
      obtain s fds' where s: "ext_select xe cb n fds timeout x =
          Inr (int (card {q \<in> given fds. Fired (Conds (Core z) (condAt x q))}), fds', z\<lparr>Core := touched ((Core z)\<lparr>Conds := s\<rparr>)\<rparr>)"
        "\<And>t. kindSet t fds' = map_option (\<lambda>S. {fd \<in> S. Fired (Conds (Core z) (condAt x (fd, t)))}) (kindSet t fds)"
        "\<And>q. q \<in> given fds \<Longrightarrow> ParentSet (s (condAt x q)) = filter (\<lambda>c. c \<noteq> parentOf (snd q)) (ParentSet (Conds (Core z) (condAt x q)))"
        using collects [OF z(1)] unfolding select [OF wait] by blast
      have "kindSet t fds' = map_option (\<lambda>S. {fd \<in> S. readyAt x (fd, t)}) (kindSet t fds)" for t
        unfolding s(2) by (cases "kindSet t fds") (simp_all add: fired)
      moreover have "ParentSet (s (condAt x q)) = []" if "q \<in> given fds" for q
        using s(3) [OF that] conds [OF that] by simp
      ultimately show ?thesis using s(1) unfolding count z(2) by blast
    qed
  next
    fix q
    assume q: "q \<in> given fds"
    let ?w = "Core (select_waiting fds n x)"
    have all: "\<forall>q \<in> set ?P. selectable x q" using assms(4) c(4) by simp
    have "fire (condAt x q) ?w = Inr (?w\<lparr>Conds := mark (Conds ?w) {condAt x q, parentOf (snd q), SelectCond GlobalCondition}\<rparr>)"
      by (rule fire_chain)
        (use c(2) [OF q] at [OF q] at [OF q, symmetric] armAll_parents [OF all] in
          \<open>simp_all add: select_waiting_def selectConditions_def selectParent_def Condition_new_def split: UpdateConditionType.split\<close>)
    then show "\<exists>w. fire (condAt x q) ?w = Inr w \<and> Fired (Conds w (condAt x q)) \<and> Fired (Conds w (SelectCond GlobalCondition))"
      by (simp add: mark_def)
  next
    fix z
    assume none: "\<forall>q \<in> given fds. \<not> readyAt x q"
      and "eventLoop xe cb (select_waiting fds n x) = Inr z \<and> lock_inv (Core z) \<and>
         (timeout = None \<longrightarrow> Fired (Conds (Core z) (SelectCond GlobalCondition)))"
    then have z: "eventLoop xe cb (select_waiting fds n x) = Inr z" "lock_inv (Core z)"
      "timeout = None \<longrightarrow> Fired (Conds (Core z) (SelectCond GlobalCondition))" by simp_all
    define y where "y = z\<lparr>Core := snd (testFired (SelectCond GlobalCondition) (Core z))\<rparr>"
    have wait: "waitForEvents xe cb timeout \<lparr>SelConditions = entries x ?P, SelUserCallbacks = []\<rparr> (inCore (lockX x) ?s1) =
        Inr (0, lockX y)"
      unfolding y_def by (rule waits_for) (use assms(2) ne c(3) none z in \<open>simp_all add: select_waiting_def\<close>)
    have y: "lock_inv (Core y)" "z\<lparr>Core := touched ((Core z)\<lparr>Conds := s\<rparr>)\<rparr> = y\<lparr>Core := touched ((Core y)\<lparr>Conds := s\<rparr>)\<rparr>"
      "q \<in> given fds \<Longrightarrow> Conds (Core y) (condAt x q) = Conds (Core z) (condAt x q)" for s q
      using z(2) at by (simp_all add: y_def testFired_def fired_def lock_inv_def del: touched_updates)
    show "\<exists>s fds'. ext_select xe cb n fds timeout x =
          Inr (int (card {q \<in> given fds. Fired (Conds (Core z) (condAt x q))}), fds', z\<lparr>Core := touched ((Core z)\<lparr>Conds := s\<rparr>)\<rparr>) \<and>
        (\<forall>t. kindSet t fds' = map_option (\<lambda>S. {fd \<in> S. Fired (Conds (Core z) (condAt x (fd, t)))}) (kindSet t fds)) \<and>
        (\<forall>q \<in> given fds. ParentSet (s (condAt x q)) =
           filter (\<lambda>c. c \<noteq> parentOf (snd q)) (ParentSet (Conds (Core z) (condAt x q))))"
    proof -
      have same: "{q \<in> given fds. Fired (Conds (Core y) (condAt x q))} = {q \<in> given fds. Fired (Conds (Core z) (condAt x q))}"
        "map_option (\<lambda>S. {fd \<in> S. Fired (Conds (Core y) (condAt x (fd, t)))}) (kindSet t fds) =
         map_option (\<lambda>S. {fd \<in> S. Fired (Conds (Core z) (condAt x (fd, t)))}) (kindSet t fds)" for t
        using y(3) by (cases "kindSet t fds"; auto simp: given_def SAFE_FD_ISSET_def)+
      show ?thesis
        unfolding select [OF wait] y(2) same [symmetric] using collects [OF y(1)] y(3) by simp
    qed
  qed
qed

text \<open>
  A readable association, waited for without time-out; and one that was peeled off, waited for until the report of a
  restart arrives.
\<close>

definition readable_ext :: "(nat, nat) ext" where
  "readable_ext = sample_ext (sample_world\<lparr>Assocs := [2 \<mapsto> sample_assoc\<lparr>A_ReadReady := True\<rparr>]\<rparr>)
     (initialTable(5 := ESDT_SCTP sample_desc))"

definition restarting_ext :: "(nat, nat) ext" where
  "restarting_ext = sample_ext (peeled_world\<lparr>Conds := (\<lambda>_. Condition_new)(AssocCond 2 InQueueUpdate := \<lparr>Fired = False, ParentSet = [AssocCond 2 ReadUpdate]\<rparr>),
       Future := [[RestartEv 7]]\<rparr>)
     (initialTable(5 := ESDT_SCTP sample_desc))"

abbreviation sample_sets :: fd_sets where
  "sample_sets \<equiv> \<lparr>readfds = Some {5}, writefds = None, exceptfds = Some {5}\<rparr>"

lemma sample_given: "given sample_sets = {(5, UCT_Read), (5, UCT_Except)}"
proof -
  have "q \<in> given sample_sets \<longleftrightarrow> q \<in> {(5, UCT_Read), (5, UCT_Except)}" for q
    by (cases q; cases "snd q") (auto simp: given_def SAFE_FD_ISSET_def kindSet_def)
  then show ?thesis by blast
qed

lemma sample_selectable:
  assumes "Table x = initialTable(5 := ESDT_SCTP sample_desc)" "Assocs (Core x) 2 = Some a"
  shows "condAt x (5, t) = AssocCond 2 (case t of UCT_Read \<Rightarrow> ReadUpdate | UCT_Write \<Rightarrow> WriteUpdate | UCT_Except \<Rightarrow> ExceptUpdate)"
    "readyAt x (5, t) = (case t of UCT_Read \<Rightarrow> A_ReadReady a | UCT_Write \<Rightarrow> A_WriteReady a | UCT_Except \<Rightarrow> A_HasException a)"
    "selectable x (5, t)"
  using assms
  by (cases t; simp add: sample_desc_def descAt_def condAt_def condOf_def readyAt_def readyFor_def selectable_def getSocket_def MaxSockets_def)+

lemma restart_wakes:
  "\<exists>z. eventLoop sample_xenv (deliver sample 1) (select_waiting sample_sets 6 restarting_ext) = Inr z \<and> lock_inv (Core z) \<and>
     Fired (Conds (Core z) (SelectCond GlobalCondition)) \<and>
     Fired (Conds (Core z) (AssocCond 2 ReadUpdate)) \<and> \<not> Fired (Conds (Core z) (AssocCond 2 ExceptUpdate))"
proof -
  have x: "Table restarting_ext = initialTable(5 := ESDT_SCTP sample_desc)"
    "Assocs (Core restarting_ext) 2 = Some (sample_assoc\<lparr>PeeledOff := True\<rparr>)"
    by (simp_all add: restarting_ext_def sample_ext_def peeled_world_def)
  have "[0..<6] = [0, 1, 2, 3, 4, 5::nat]" by (simp add: upt_rec)
  then have "pairs sample_sets (map int [0..<signed_limit 6]) = [(5, UCT_Read), (5, UCT_Except)]"
    by (simp add: pairs_def signed_limit_def MaxSockets_def SAFE_FD_ISSET_def kindSet_def)
  moreover have "\<not> A_ReadReady sample_assoc" "\<not> A_HasException sample_assoc"
    by (simp_all add: sample_assoc_def newAssociation_def)
  ultimately have waiting: "Core (select_waiting sample_sets 6 restarting_ext) = peeled_world\<lparr>Future := [[RestartEv 7]], Conds := (\<lambda>_. Condition_new)
        (AssocCond 2 InQueueUpdate := \<lparr>Fired = False, ParentSet = [AssocCond 2 ReadUpdate]\<rparr>,
         SelectCond ReadCondition := \<lparr>Fired = False, ParentSet = [SelectCond GlobalCondition]\<rparr>,
         SelectCond WriteCondition := \<lparr>Fired = False, ParentSet = [SelectCond GlobalCondition]\<rparr>,
         SelectCond ExceptCondition := \<lparr>Fired = False, ParentSet = [SelectCond GlobalCondition]\<rparr>,
         AssocCond 2 ReadUpdate := \<lparr>Fired = False, ParentSet = [parentOf UCT_Read]\<rparr>,
         AssocCond 2 ExceptUpdate := \<lparr>Fired = False, ParentSet = [parentOf UCT_Except]\<rparr>)\<rparr>" (is "_ = peeled_world\<lparr>Future := _, Conds := ?cs\<rparr>")
    by (simp add: select_waiting_def armAll_def sample_selectable [OF x])
      (simp add: restarting_ext_def sample_ext_def selectConditions_def armed_def Let_def touched_def peeled_world_def sample_world_def empty_world_def fun_eq_iff)
  let ?w = "lock (peeled_world\<lparr>Conds := ?cs, Future := []\<rparr>)" and ?x = "sample_assoc\<lparr>PeeledOff := True\<rparr>"
  have user: "UserFuture (select_waiting sample_sets 6 restarting_ext) = []"
    by (simp add: select_waiting_def restarting_ext_def sample_ext_def)
  have "ranked cond_rank ?cs" by (simp add: ranked_def selectParent_def Condition_new_def)
  from good_Conds [OF peeled_good this] have good: "good ?w" by (simp add: good_def wf_def lock_inv_def)
  have w: "Sockets ?w 1 = Some sample_socket" "Assocs ?w 2 = Some ?x" "\<not> usesGlobalQueue sample_socket ?x"
    using sample_objects by (simp_all add: peeled_world_def usesGlobalQueue_def)
  define n where "n = assocChange SCTP_RESTART 1 1 7 (initNotification_clear sample)"
  obtain W where W: "Master_addNotification 1 7 n ?w = Inr W" "LockLevel W = LockLevel ?w" "CancelEnabled W = CancelEnabled ?w"
    "Conds W = mark ?cs (ancestors ?cs (AssocCond 2 InQueueUpdate))"
    by (rule Master_addNotification_exact [OF good w(1) sample_objects(3) w(2), of n], rule that, assumption)
      (simp_all add: notification_wakes_def w(3))
  have "getSocketForAssociationID sample 7 ?w = Some 1" "sctp_getAssocStatus (SL sample) (Lib ?w) 7 = Some sample_status"
    "outStreams sample_status = 1" "inStreams sample_status = 1"
    by (simp_all add: getSocketForAssociationID_def peeled_world_def sample_defs sample_status_def)
  then have "restartNotif sample 7 ?w = Inr W" using W(1) by (simp add: restartNotif_def n_def del: One_nat_def)
  then have run: "eventLoop sample_xenv (deliver sample 1) (select_waiting sample_sets 6 restarting_ext) =
    andThen (coreDo unlock ((select_waiting sample_sets 6 restarting_ext)\<lparr>Core := W\<rparr>)) (userRuns sample_xenv)"
    by (simp add: eventLoop_def coreDo_def masterRuns_def waiting)
  have level: "LockLevel W = 1" using W(2) by (simp add: peeled_world_def sample_objects lock_def)
  then obtain v where v: "unlock W = Inr v" "LockLevel v = 0" "Conds v = Conds W" by (auto simp: unlock_def Let_def)
  have chain: "ancestors ?cs (AssocCond 2 InQueueUpdate) =
      {AssocCond 2 InQueueUpdate, AssocCond 2 ReadUpdate, parentOf UCT_Read, SelectCond GlobalCondition}"
  proof -
    have "ancestors ?cs (SelectCond GlobalCondition) = {SelectCond GlobalCondition}"
      by (subst ancestors_step) (simp add: Condition_new_def)
    then have "ancestors ?cs (parentOf UCT_Read) = {parentOf UCT_Read, SelectCond GlobalCondition}"
      by (subst ancestors_step) (simp add: selectParent_def)
    then have "ancestors ?cs (AssocCond 2 ReadUpdate) = {AssocCond 2 ReadUpdate, parentOf UCT_Read, SelectCond GlobalCondition}"
      by (subst ancestors_step) simp
    then show ?thesis by (subst ancestors_step) simp
  qed
  have "eventLoop sample_xenv (deliver sample 1) (select_waiting sample_sets 6 restarting_ext) =
      Inr ((select_waiting sample_sets 6 restarting_ext)\<lparr>Core := v\<rparr>)"
    unfolding run using v user by (simp add: coreDo_def userRuns_def)
  then show ?thesis using v W(4) by (simp add: lock_inv_def chain mark_def)
qed

theorem select_reports_ready_witness:
  "(\<exists>s fds'. ext_select sample_xenv (deliver sample 0) 6 sample_sets None readable_ext =
      Inr (1, fds', readable_ext\<lparr>Core := touched ((Core readable_ext)\<lparr>Conds := s\<rparr>)\<rparr>) \<and>
    kindSet UCT_Read fds' = Some {5} \<and> kindSet UCT_Except fds' = Some {}) \<and>
   (\<exists>fds' x'. ext_select sample_xenv (deliver sample 1) 6 sample_sets None restarting_ext = Inr (1, fds', x') \<and>
    kindSet UCT_Read fds' = Some {5} \<and> kindSet UCT_Except fds' = Some {})"
proof
  have card: "card (given sample_sets) \<le> MaxSockets" "given sample_sets \<noteq> {}" by (simp_all add: sample_given MaxSockets_def)
  have x: "Table readable_ext = initialTable(5 := ESDT_SCTP sample_desc)"
    "Assocs (Core readable_ext) 2 = Some (sample_assoc\<lparr>A_ReadReady := True\<rparr>)"
    by (simp_all add: readable_ext_def sample_ext_def)
  have hyps: "Running (Core readable_ext)" "lock_inv (Core readable_ext)"
    "\<forall>q \<in> given sample_sets. fst q < 6 \<and> selectable readable_ext q \<and> ParentSet (Conds (Core readable_ext) (condAt readable_ext q)) = []"
    "inj_on (condAt readable_ext) (given sample_sets)"
    by (simp_all add: sample_given sample_selectable [OF x])
      (simp_all add: readable_ext_def sample_ext_def lock_inv_def sample_world_def empty_world_def Condition_new_def)
  obtain s fds' where *: "ext_select sample_xenv (deliver sample 0) 6 sample_sets None readable_ext =
      Inr (int (card {q \<in> given sample_sets. readyAt readable_ext q}), fds', readable_ext\<lparr>Core := touched ((Core readable_ext)\<lparr>Conds := s\<rparr>)\<rparr>)"
    "\<And>t. kindSet t fds' = map_option (\<lambda>S. {fd \<in> S. readyAt readable_ext (fd, t)}) (kindSet t sample_sets)"
    using select_reports_ready [OF hyps(1,2) card(1) hyps(3,4) card(2), of sample_xenv "deliver sample 0" None]
    by (auto simp: sample_given sample_selectable [OF x])
  show "\<exists>s fds'. ext_select sample_xenv (deliver sample 0) 6 sample_sets None readable_ext =
      Inr (1, fds', readable_ext\<lparr>Core := touched ((Core readable_ext)\<lparr>Conds := s\<rparr>)\<rparr>) \<and>
    kindSet UCT_Read fds' = Some {5} \<and> kindSet UCT_Except fds' = Some {}"
  proof (intro exI conjI)
    have "{q \<in> given sample_sets. readyAt readable_ext q} = {(5, UCT_Read)}"
      by (auto simp: sample_given sample_selectable [OF x] sample_assoc_def newAssociation_def)
    with *(1) show "ext_select sample_xenv (deliver sample 0) 6 sample_sets None readable_ext =
      Inr (1, fds', readable_ext\<lparr>Core := touched ((Core readable_ext)\<lparr>Conds := s\<rparr>)\<rparr>)" by simp
    show "kindSet UCT_Read fds' = Some {5}" "kindSet UCT_Except fds' = Some {}"
      unfolding *(2) by (auto simp: kindSet_def sample_selectable [OF x] sample_assoc_def newAssociation_def)
  qed
next
  show "\<exists>fds' x'. ext_select sample_xenv (deliver sample 1) 6 sample_sets None restarting_ext = Inr (1, fds', x') \<and>
    kindSet UCT_Read fds' = Some {5} \<and> kindSet UCT_Except fds' = Some {}"
  proof -
    obtain z where z: "eventLoop sample_xenv (deliver sample 1) (select_waiting sample_sets 6 restarting_ext) = Inr z"
      "lock_inv (Core z)" "Fired (Conds (Core z) (SelectCond GlobalCondition))"
      "Fired (Conds (Core z) (AssocCond 2 ReadUpdate))" "\<not> Fired (Conds (Core z) (AssocCond 2 ExceptUpdate))"
      using restart_wakes by blast
    have card: "card (given sample_sets) \<le> MaxSockets" "given sample_sets \<noteq> {}" by (simp_all add: sample_given MaxSockets_def)
    have x: "Table restarting_ext = initialTable(5 := ESDT_SCTP sample_desc)"
      "Assocs (Core restarting_ext) 2 = Some (sample_assoc\<lparr>PeeledOff := True\<rparr>)"
      by (simp_all add: restarting_ext_def sample_ext_def peeled_world_def)
    have hyps: "Running (Core restarting_ext)" "lock_inv (Core restarting_ext)"
      "\<forall>q \<in> given sample_sets. fst q < 6 \<and> selectable restarting_ext q \<and> ParentSet (Conds (Core restarting_ext) (condAt restarting_ext q)) = []"
      "inj_on (condAt restarting_ext) (given sample_sets)"
      by (simp_all add: sample_given sample_selectable [OF x])
        (simp_all add: restarting_ext_def sample_ext_def lock_inv_def peeled_world_def sample_world_def empty_world_def Condition_new_def)
    have none: "\<forall>q \<in> given sample_sets. \<not> readyAt restarting_ext q"
      by (simp add: sample_given sample_selectable [OF x] sample_assoc_def newAssociation_def)
    obtain s fds' where *: "ext_select sample_xenv (deliver sample 1) 6 sample_sets None restarting_ext =
        Inr (int (card {q \<in> given sample_sets. Fired (Conds (Core z) (condAt restarting_ext q))}), fds', z\<lparr>Core := touched ((Core z)\<lparr>Conds := s\<rparr>)\<rparr>)"
      "\<And>t. kindSet t fds' = map_option (\<lambda>S. {fd \<in> S. Fired (Conds (Core z) (condAt restarting_ext (fd, t)))}) (kindSet t sample_sets)"
      using select_reports_ready [OF hyps(1,2) card(1) hyps(3,4) card(2), of sample_xenv "deliver sample 1" None] none z by blast
    have "{q \<in> given sample_sets. Fired (Conds (Core z) (condAt restarting_ext q))} = {(5, UCT_Read)}"
      using z by (auto simp: sample_given sample_selectable [OF x])
    moreover have "kindSet UCT_Read fds' = Some {5}" "kindSet UCT_Except fds' = Some {}"
      unfolding *(2) using z by (auto simp: kindSet_def sample_selectable [OF x])
    ultimately show ?thesis using *(1) by (intro exI [of _ fds'] exI) auto
  qed
qed

end
