(* ===== verification/MasterLaws.thy ===== *)
theory MasterLaws
  imports SelectLaws
begin

text \<open>
  The end of the program: reading the break pipe and aborting the closing associations come to an
  end, and the destructor of the descriptor table leaves no descriptor and no socket behind.
\<close>

section \<open>The break pipe\<close>

abbreviation (input) read_pipe :: "('l, 'o) xenv \<Rightarrow> int \<Rightarrow> 'o \<Rightarrow> sysreply \<times> 'o" where
  "read_pipe xe p os \<equiv> Sys xe os (Sys_read p 256)"

lemma system_fields:
  "system xe c x = (r, x') \<Longrightarrow> fst (Sys xe (OS x) c) = r \<and> OS x' = snd (Sys xe (OS x) c) \<and> Core x' = Core x \<and> Table x' = Table x \<and>
     BreakPipe x' = BreakPipe x \<and> Notifications x' = Notifications x \<and> UserFuture x' = UserFuture x"
  by (auto simp: system_def split: prod.splits)

lemma drained:
  fixes m :: "'o \<Rightarrow> nat"
  assumes "\<And>os. 0 < Ret (fst (read_pipe xe p os)) \<Longrightarrow> m (snd (read_pipe xe p os)) < m os"
  shows "fst (BreakPipe x) = p \<Longrightarrow> \<exists>x' os. drainBreakPipe xe x = Some x' \<and> Ret (fst (read_pipe xe p os)) \<le> 0 \<and>
     OS x' = snd (read_pipe xe p os) \<and> Core x' = Core x \<and> Table x' = Table x \<and> BreakPipe x' = BreakPipe x \<and>
     Notifications x' = Notifications x"
proof (induction "m (OS x)" arbitrary: x rule: less_induct)
  case less
  obtain r y where y: "system xe (Sys_read p 256) x = (r, y)" by (cases "system xe (Sys_read p 256) x")
  note fields = system_fields [OF y]
  show ?case
  proof (cases "0 < Ret r")
    case True
    then have "m (OS y) < m (OS x)" using assms [of "OS x"] fields by simp
    with less.hyps [of y] less.prems fields True show ?thesis
      by (subst drainBreakPipe.simps) (simp add: y)
  next
    case False
    then show ?thesis
      using less.prems fields by (subst drainBreakPipe.simps) (auto simp: y intro!: exI [of _ "OS x"])
  qed
qed

lemma never_drained:
  fixes x :: "('l, 'o) ext"
  assumes "\<And>os. 0 < Ret (fst (read_pipe xe p os))" "fst (BreakPipe x) = p"
  shows "drainBreakPipe xe x = None"
proof -
  have step: "a = xe \<longrightarrow> fst (BreakPipe b) \<noteq> p"
    if "\<And>a b z. f a b = Some z \<Longrightarrow> a = xe \<longrightarrow> fst (BreakPipe b) \<noteq> p"
      "(case system a (Sys_read (fst (BreakPipe b)) 256) b of (reply, x) \<Rightarrow> if 0 < Ret reply then f a x else Some x) = Some z"
    for f :: "('l, 'o) xenv \<Rightarrow> ('l, 'o) ext \<Rightarrow> ('l, 'o) ext option" and a b z
    using that assms(1) [of "OS b"] by (auto split: prod.splits if_splits dest!: system_fields that(1))
  have "fst (BreakPipe x) \<noteq> p" if "drainBreakPipe xe x = Some y" for y
  proof -
    note raw = drainBreakPipe.raw_induct [where P = "\<lambda>a b z. a = xe \<longrightarrow> fst (BreakPipe b) \<noteq> p" and xa = "(xe, x)" and y = y,
        unfolded prod.case]
    have "xe = xe \<longrightarrow> fst (BreakPipe x) \<noteq> p" by (rule raw, rule step) (use that in auto)
    then show ?thesis by simp
  qed
  with assms(2) show ?thesis by fastforce
qed

text \<open>
  C28. The callback of the break pipe. If every successful read takes something away, so that a measure
  of the system falls, the callback returns: it leaves the registered events, has read until a
  read failed, and has reset the condition of the pipe; nothing else changes. A descriptor that stays
  readable forever keeps the master thread in the callback, with the lock.
\<close>

theorem break_pipe_drained:
  assumes "fst (BreakPipe x) = p" "Notifications x k = Some usn" "FileDescriptor usn = p"
  shows "((\<exists>m :: 'o \<Rightarrow> nat. \<forall>os. 0 < Ret (fst (Sys xe os (Sys_read p 256))) \<longrightarrow> m (snd (Sys xe os (Sys_read p 256))) < m os) \<longrightarrow>
      (\<exists>x' os. userCallback xe fd ev reg (Some k) x = Inr (reg, x') \<and> Ret (fst (Sys xe os (Sys_read p 256))) \<le> 0 \<and>
         OS x' = snd (Sys xe os (Sys_read p 256)) \<and> Table x' = Table x \<and> Notifications x' = Notifications x \<and>
         Core x' = (Core x)\<lparr>Conds := snd (fired (SelectCond (UpdateCondition 0)) (Conds (Core x)))\<rparr>)) \<and>
    ((\<forall>os. 0 < Ret (fst (Sys xe os (Sys_read p 256)))) \<longrightarrow> userCallback xe fd ev reg (Some k) x = Inl StillWaiting)"
proof (intro conjI impI)
  assume "\<exists>m :: 'o \<Rightarrow> nat. \<forall>os. 0 < Ret (fst (Sys xe os (Sys_read p 256))) \<longrightarrow> m (snd (Sys xe os (Sys_read p 256))) < m os"
  then obtain x' os where "drainBreakPipe xe x = Some x'" "Ret (fst (read_pipe xe p os)) \<le> 0" "OS x' = snd (read_pipe xe p os)"
    "Core x' = Core x" "Table x' = Table x" "BreakPipe x' = BreakPipe x" "Notifications x' = Notifications x"
    using drained [of xe p _ x] assms(1) by metis
  with assms show "\<exists>x' os. userCallback xe fd ev reg (Some k) x = Inr (reg, x') \<and> Ret (fst (Sys xe os (Sys_read p 256))) \<le> 0 \<and>
       OS x' = snd (Sys xe os (Sys_read p 256)) \<and> Table x' = Table x \<and> Notifications x' = Notifications x \<and>
       Core x' = (Core x)\<lparr>Conds := snd (fired (SelectCond (UpdateCondition 0)) (Conds (Core x)))\<rparr>"
    by (intro exI [of _ "x'\<lparr>Core := (Core x)\<lparr>Conds := snd (fired (SelectCond (UpdateCondition 0)) (Conds (Core x)))\<rparr>\<rparr>"] exI [of _ os])
      (simp add: userCallback_def testFired_def split: prod.split)
qed (use assms never_drained [of xe p x] in \<open>simp add: userCallback_def\<close>)

section \<open>The destructor\<close>

lemma unregister_all:
  assumes "\<And>l i. fst (sctp_unregisterInstance (SL e) l i) = 0" "distinct (ClosingSockets w)"
  shows "\<exists>l cs. forEach (unregister_step e) is w = Inr (w\<lparr>Lib := l, ClosingSockets := cs\<rparr>) \<and> distinct cs \<and>
    set cs = {i \<in> set (ClosingSockets w). i \<in> snd ` set (ClosingAssociations w) \<or> i \<notin> set is}"
  using assms(2)
proof (induction "is" arbitrary: w)
  case (Cons i "is")
  show ?case
  proof (cases "i \<in> snd ` set (ClosingAssociations w)")
    case True
    then show ?thesis using Cons.IH [OF Cons.prems] by (auto simp: unregister_step_def)
  next
    case False
    let ?w = "w\<lparr>ClosingSockets := remove1 i (ClosingSockets w), Lib := snd (sctp_unregisterInstance (SL e) (Lib w) i)\<rparr>"
    have "unregister_step e i w = Inr ?w"
      using False assms(1) [of "Lib w" i] by (simp add: unregister_step_def Let_def case_prod_unfold)
    moreover obtain l cs where "forEach (unregister_step e) is ?w = Inr (?w\<lparr>Lib := l, ClosingSockets := cs\<rparr>)" "distinct cs"
      "set cs = {j \<in> set (ClosingSockets ?w). j \<in> snd ` set (ClosingAssociations ?w) \<or> j \<notin> set is}"
      using Cons.IH [of ?w] Cons.prems by (auto simp del: set_remove1_eq)
    ultimately show ?thesis
      using Cons.prems False by (intro exI [of _ l] exI [of _ cs]) (auto simp: set_remove1_eq)
  qed
next
  case Nil
  then show ?case by (intro exI [of _ "Lib w"] exI [of _ "ClosingSockets w"]) auto
qed

lemma collect_without_sockets:
  assumes "\<And>l i. fst (sctp_unregisterInstance (SL e) l i) = 0" "distinct (ClosingSockets w)" "lock_inv w" "SocketList w = []"
  shows "\<exists>l cs. socketGarbageCollection e cb w =
      Inr (touched (w\<lparr>LastGarbageCollection := Now w, Lib := l, ClosingSockets := cs\<rparr>)) \<and> distinct cs \<and>
    set cs = set (ClosingSockets w) \<inter> snd ` set (ClosingAssociations w)"
proof -
  let ?w = "(lock w)\<lparr>LastGarbageCollection := Now w\<rparr>"
  obtain l cs where "forEach (unregister_step e) (ClosingSockets ?w) ?w = Inr (?w\<lparr>Lib := l, ClosingSockets := cs\<rparr>)" "distinct cs"
    "set cs = set (ClosingSockets w) \<inter> snd ` set (ClosingAssociations w)"
    using unregister_all [OF assms(1), of ?w "ClosingSockets ?w"] assms(2) by auto
  then show ?thesis
    using assms(3,4)
    by (intro exI [of _ l] exI [of _ cs])
      (simp add: socketGarbageCollection_def Let_def lock_updates unlock_lock del: touched_updates)
qed

text \<open>
  What the code relies on: aborting an association reports its loss, and deleting an association and
  unregistering an instance succeed.
\<close>

definition abort_reports_loss :: "'l sctplib \<Rightarrow> bool" where
  "abort_reports_loss L =
     ((\<forall>l k. \<exists>status. snd (sctp_abort L l k) = [CommunicationLostEv k status]) \<and>
      (\<forall>l k. fst (sctp_deleteAssociation L l k) = 0) \<and> (\<forall>l i. fst (sctp_unregisterInstance L l i) = 0))"

text \<open>The state of the loop: what changes in a round.\<close>

definition aborted :: "'l \<Rightarrow> (card32, int) multimap \<Rightarrow> int list \<Rightarrow> card64 \<Rightarrow> 'l world \<Rightarrow> 'l world" where
  "aborted l ca cs t w = w\<lparr>Lib := l, ClosingAssociations := ca, ClosingSockets := cs, LastGarbageCollection := t\<rparr>"

lemma lost_while_closing:
  assumes "abort_reports_loss (SL e)" "ClosingAssociations w = (k, i) # ca" "distinct (ClosingSockets w)" "lock_inv w"
    "SocketList w = []" "0 < LockLevel w"
  shows "\<exists>l cs. deliver e (Suc n) (CommunicationLostEv k status) w = Inr (aborted l ca cs (Now w) w) \<and> distinct cs \<and>
    set cs = set (ClosingSockets w) \<inter> snd ` set ca"
proof -
  let ?w = "w\<lparr>Lib := snd (sctp_deleteAssociation (SL e) (Lib w) k), ClosingAssociations := ca\<rparr>"
  obtain l cs where gc: "socketGarbageCollection e (deliver e n) ?w =
      Inr (touched (?w\<lparr>LastGarbageCollection := Now ?w, Lib := l, ClosingSockets := cs\<rparr>))" "distinct cs"
    "set cs = set (ClosingSockets w) \<inter> snd ` set ca"
    using collect_without_sockets [of e ?w "deliver e n"] assms by (auto simp: abort_reports_loss_def)
  have "fst (sctp_deleteAssociation (SL e) (Lib w) k) = 0" using assms(1) by (simp add: abort_reports_loss_def)
  then have "associationGarbageCollection e (deliver e n) k False w = andThen (socketGarbageCollection e (deliver e n) ?w) (\<lambda>w. Inr (True, w))"
    using assms(2) by (simp add: associationGarbageCollection_def libDelete_def case_prod_unfold)
  with gc assms(6) show ?thesis
    by (intro exI [of _ l] exI [of _ cs]) (simp add: communicationLostNotif_def aborted_def touched_def)
qed

lemma abortClosing_ends:
  assumes "abort_reports_loss (SL e)"
  shows "lock_inv w \<Longrightarrow> SocketList w = [] \<Longrightarrow> 0 < LockLevel w \<Longrightarrow> distinct (ClosingSockets w) \<Longrightarrow>
    \<exists>l cs t. abortClosing e (deliver e (Suc n)) w = Some (Inr (aborted l [] cs t w)) \<and> distinct cs"
proof (induction "ClosingAssociations w" arbitrary: w)
  case Nil
  then show ?case
    by (subst abortClosing.simps) (auto simp: aborted_def intro!: exI [of _ "Lib w"] exI [of _ "ClosingSockets w"]
        exI [of _ "LastGarbageCollection w"])
next
  case (Cons p ca)
  obtain k i where p: "p = (k, i)" by (cases p)
  obtain l status where l: "sctp_abort (SL e) (Lib w) k = (l, [CommunicationLostEv k status])"
    using assms unfolding abort_reports_loss_def by (metis prod.collapse)
  obtain l' cs where lost: "deliver e (Suc n) (CommunicationLostEv k status) (w\<lparr>Lib := l\<rparr>) =
      Inr (aborted l' ca cs (Now w) (w\<lparr>Lib := l\<rparr>))" "distinct cs"
    using lost_while_closing [OF assms, of "w\<lparr>Lib := l\<rparr>" k i ca n status] Cons.prems Cons.hyps(2) p by auto
  have "lock_inv (aborted l' ca cs (Now w) (w\<lparr>Lib := l\<rparr>))" using Cons.prems(1) by (simp add: aborted_def)
  then obtain l2 cs2 t where "abortClosing e (deliver e (Suc n)) (aborted l' ca cs (Now w) (w\<lparr>Lib := l\<rparr>)) =
      Some (Inr (aborted l2 [] cs2 t (aborted l' ca cs (Now w) (w\<lparr>Lib := l\<rparr>))))" "distinct cs2"
    using Cons.hyps(1) [of "aborted l' ca cs (Now w) (w\<lparr>Lib := l\<rparr>)"] Cons.prems lost(2) by (auto simp: aborted_def)
  then show ?case
    using lost(1) l p
    by (subst abortClosing.simps, intro exI [of _ l2] exI [of _ cs2] exI [of _ t])
      (simp add: aborted_def Cons.hyps(2) [symmetric] del: deliver.simps)
qed

lemma abortClosing_hangs:
  fixes e :: "'l env"
  assumes "\<forall>l k. snd (sctp_abort (SL e) l k) = []" "ClosingAssociations w \<noteq> []"
  shows "abortClosing e cb w = None"
proof -
  have step: "a = e \<longrightarrow> ClosingAssociations v = []"
    if "\<And>a b v z. f a b v = Some z \<Longrightarrow> a = e \<longrightarrow> ClosingAssociations v = []"
      "(case ClosingAssociations v of [] \<Rightarrow> Some (Inr v)
        | (k, i) # _ \<Rightarrow> (case sctp_abort (SL a) (Lib v) k of
             (l, evs) \<Rightarrow> (case forEach b evs (v\<lparr>Lib := l\<rparr>) of Inl x \<Rightarrow> Some (Inl x) | Inr w \<Rightarrow> f a b w))) = Some z"
    for f :: "'l env \<Rightarrow> 'l callback \<Rightarrow> 'l world \<Rightarrow> 'l world result option" and a b v z
  proof (cases "ClosingAssociations v")
    case (Cons p ps)
    show ?thesis
    proof
      assume "a = e"
      then have "snd (sctp_abort (SL a) (Lib v) (fst p)) = []" using assms(1) by simp
      then have "f a b (v\<lparr>Lib := fst (sctp_abort (SL a) (Lib v) (fst p))\<rparr>) = Some z"
        using that(2) Cons by (simp add: case_prod_unfold)
      from that(1) [OF this] \<open>a = e\<close> show "ClosingAssociations v = []" by simp
    qed
  qed simp
  have "ClosingAssociations w = []" if "abortClosing e cb w = Some y" for y
  proof -
    have "e = e \<longrightarrow> ClosingAssociations w = []"
      by (rule abortClosing.raw_induct [where P = "\<lambda>a b v z. a = e \<longrightarrow> ClosingAssociations v = []" and cb = cb and y = y], rule step)
        (use that in auto)
    then show ?thesis by simp
  qed
  with assms(2) show ?thesis by fastforce
qed

lemma closeBreakPipe_fields:
  "Core (closeBreakPipe xe x) = Core x" "fst (BreakPipe (closeBreakPipe xe x)) = - 1"
  "GarbageCollectionTimerID (closeBreakPipe xe x) = GarbageCollectionTimerID x"
  by (simp_all add: closeBreakPipe_def system_def case_prod_unfold Let_def)

lemma notification_deleted:
  assumes "lock_inv (Core x)" "Notifications x k = Some usn"
  shows "\<exists>l. deleteUserSocketNotification xe k x = Inr (x\<lparr>Core := touched ((Core x)\<lparr>Lib := l\<rparr>)\<rparr>)"
  using assms
  by (auto simp: deleteUserSocketNotification_def Let_def lockX_def coreDo_def lock_updates unlock_lock simp del: touched_updates)

text \<open>The state of the destructor when it starts to abort associations, and the rest of it.\<close>

definition stopped :: "'l world \<Rightarrow> 'l world" where
  "stopped w = touched (w\<lparr>Running := False\<rparr>)"

definition begun :: "('l, 'o) xenv \<Rightarrow> ('l, 'o) ext \<Rightarrow> 'l \<Rightarrow> ('l, 'o) ext \<Rightarrow> bool" where
  "begun xe x l z \<longleftrightarrow> BreakPipe z = BreakPipe x \<and> Notifications z = Notifications x \<and> GarbageCollectionTimerID z = - 1 \<and>
     (\<forall>cb. SCTPSocketMaster_delete xe cb x =
        (case abortClosing (E xe) cb (lock ((stopped (Core x))\<lparr>Lib := l\<rparr>)) of
           None \<Rightarrow> Inl StillWaiting
         | Some r \<Rightarrow>
             andThen r (\<lambda>w.
             andThen (coreDo unlock (z\<lparr>Core := w\<rparr>)) (\<lambda>x.
             andThen (coreDo (socketGarbageCollection (E xe) cb) x) (\<lambda>x.
             if fst (BreakPipe x) \<noteq> - 1
             then andThen (deleteUserSocketNotification xe 0 x) (\<lambda>x. Inr (closeBreakPipe xe x))
             else Inr x)))))"

lemma Core_twice: "x\<lparr>Core := w\<rparr>\<lparr>Core := w'\<rparr> = x\<lparr>Core := w'\<rparr>" "x\<lparr>GarbageCollectionTimerID := i\<rparr>\<lparr>Core := w\<rparr> = x\<lparr>Core := w, GarbageCollectionTimerID := i\<rparr>"
  by (cases x; simp)+

lemma stopped_Lib: "Lib (stopped w) = Lib w"
  by (simp add: stopped_def)

lemma delete_start:
  assumes "lock_inv (Core x)"
  shows "\<exists>l z. begun xe x l z"
proof -
  have "(lock (Core x))\<lparr>Running := False\<rparr> = lock ((Core x)\<lparr>Running := False\<rparr>)"
    by (simp add: lock_def Let_def)
  moreover have "lock_inv ((Core x)\<lparr>Running := False\<rparr>)" using assms by (simp add: lock_inv_def)
  ultimately have u: "unlock ((lock (Core x))\<lparr>Running := False\<rparr>) = Inr (stopped (Core x))"
    using unlock_lock by (metis stopped_def)
  show ?thesis
  proof (cases "GarbageCollectionTimerID x = - 1")
    case True
    have "(stopped (Core x))\<lparr>Lib := Lib (Core x)\<rparr> = stopped (Core x)" by (simp add: stopped_def touched_def)
    with True show ?thesis
      using u by (intro exI [of _ "Lib (Core x)"] exI [of _ x])
        (simp add: begun_def SCTPSocketMaster_delete_def lockX_def coreDo_def Let_def Core_twice cong: option.case_cong)
  next
    case False
    then show ?thesis
      using u by (intro exI [of _ "snd (sctp_stopTimer (SL (E xe)) (Lib (Core x)) (GarbageCollectionTimerID x))"]
          exI [of _ "x\<lparr>GarbageCollectionTimerID := - 1\<rparr>"])
        (simp add: begun_def SCTPSocketMaster_delete_def lockX_def coreDo_def Let_def stopped_Lib lock_updates Core_twice cong: option.case_cong)
  qed
qed

text \<open>The last part of the destructor removes the notification of the break pipe and closes the pipe.\<close>

lemma break_pipe_removed:
  assumes "lock_inv (Core z)" "Notifications z 0 = Some usn"
  shows "\<exists>x' c. (if fst (BreakPipe z) \<noteq> - 1
           then andThen (deleteUserSocketNotification xe 0 z) (\<lambda>x. Inr (closeBreakPipe xe x)) else Inr z) = Inr x' \<and>
           (Core x' = touched ((Core z)\<lparr>Lib := c\<rparr>) \<or> Core x' = Core z) \<and>
           GarbageCollectionTimerID x' = GarbageCollectionTimerID z \<and> fst (BreakPipe x') = - 1"
proof (cases "fst (BreakPipe z) = - 1")
  case False
  obtain c where "deleteUserSocketNotification xe 0 z = Inr (z\<lparr>Core := touched ((Core z)\<lparr>Lib := c\<rparr>)\<rparr>)"
    using notification_deleted [OF assms, of xe] by (auto simp del: touched_updates)
  with False show ?thesis
    by (intro exI [of _ "closeBreakPipe xe (z\<lparr>Core := touched ((Core z)\<lparr>Lib := c\<rparr>)\<rparr>)"] exI [of _ c])
      (simp add: closeBreakPipe_fields del: touched_updates)
qed simp

text \<open>
  C26. The end of the socket master. When \<^verbatim>\<open>sctplib\<close> reports the loss of every association that is
  aborted and no socket is bound any more, the destructor returns: no association is closing and no
  instance waits to be unregistered, the event loop is stopped, the timer and the break pipe are released
  and so is the lock. When the abortion of an association is not reported, the destructor aborts it
  forever.
\<close>

theorem destructor_aborts_all:
  assumes "good (Core x)" "SocketList (Core x) = []" "Notifications x 0 = Some usn"
  shows "(abort_reports_loss (SL (E xe)) \<longrightarrow>
      (\<exists>x'. SCTPSocketMaster_delete xe (deliver (E xe) (Suc n)) x = Inr x' \<and> ClosingAssociations (Core x') = [] \<and>
         ClosingSockets (Core x') = [] \<and> \<not> Running (Core x') \<and> LockLevel (Core x') = LockLevel (Core x) \<and>
         GarbageCollectionTimerID x' = - 1 \<and> fst (BreakPipe x') = - 1)) \<and>
    ((\<forall>l k. snd (sctp_abort (SL (E xe)) l k) = []) \<and> ClosingAssociations (Core x) \<noteq> [] \<longrightarrow>
      SCTPSocketMaster_delete xe cb x = Inl StillWaiting)"
proof (intro conjI impI)
  assume L: "abort_reports_loss (SL (E xe))"
  obtain l z where start: "begun xe x l z" using delete_start [OF good_lock_inv [OF assms(1)]] by blast
  let ?w = "lock ((stopped (Core x))\<lparr>Lib := l\<rparr>)"
  have "distinct (ClosingSockets (Core x))" using assms(1) by (simp add: good_def wf_def)
  then obtain l' cs t where ab: "abortClosing (E xe) (deliver (E xe) (Suc n)) ?w = Some (Inr (aborted l' [] cs t ?w))" "distinct cs"
    using abortClosing_ends [OF L, of ?w n] assms(1,2) by (auto simp: stopped_def lock_inv_def)
  let ?v = "touched (aborted l' [] cs t ((stopped (Core x))\<lparr>Lib := l\<rparr>))"
  have v: "lock_inv ?v" "SocketList ?v = []" "distinct (ClosingSockets ?v)" "ClosingAssociations ?v = []"
    using assms(1,2) ab(2) by (simp_all add: aborted_def stopped_def)
  obtain l2 cs2 where gc: "socketGarbageCollection (E xe) (deliver (E xe) (Suc n)) ?v =
      Inr (touched (?v\<lparr>LastGarbageCollection := Now ?v, Lib := l2, ClosingSockets := cs2\<rparr>))" "cs2 = []"
    using collect_without_sockets [of "E xe" ?v "deliver (E xe) (Suc n)"] v L by (auto simp: abort_reports_loss_def)
  let ?u = "touched (?v\<lparr>LastGarbageCollection := Now ?v, Lib := l2, ClosingSockets := cs2\<rparr>)"
  have "aborted l' [] cs t ?w = lock (aborted l' [] cs t ((stopped (Core x))\<lparr>Lib := l\<rparr>))" by (simp add: aborted_def lock_updates)
  moreover have "lock_inv (aborted l' [] cs t ((stopped (Core x))\<lparr>Lib := l\<rparr>))" using v(1) by simp
  ultimately have "unlock (aborted l' [] cs t ?w) = Inr ?v" by (simp only: unlock_lock)
  then have run: "SCTPSocketMaster_delete xe (deliver (E xe) (Suc n)) x =
      (if fst (BreakPipe z) \<noteq> - 1 then andThen (deleteUserSocketNotification xe 0 (z\<lparr>Core := ?u\<rparr>)) (\<lambda>x. Inr (closeBreakPipe xe x))
       else Inr (z\<lparr>Core := ?u\<rparr>))"
    using start ab(1) gc(1) by (simp add: begun_def coreDo_def del: deliver.simps touched_updates)
  have u: "lock_inv ?u" "ClosingAssociations ?u = []" "ClosingSockets ?u = []" "\<not> Running ?u" "LockLevel ?u = LockLevel (Core x)"
    using v gc(2) by (simp_all add: aborted_def stopped_def)
  have z: "BreakPipe z = BreakPipe x" "Notifications z 0 = Some usn" "GarbageCollectionTimerID z = - 1"
    using start assms(3) by (simp_all add: begun_def)
  obtain x' c where "(if fst (BreakPipe z) \<noteq> - 1
       then andThen (deleteUserSocketNotification xe 0 (z\<lparr>Core := ?u\<rparr>)) (\<lambda>x. Inr (closeBreakPipe xe x))
       else Inr (z\<lparr>Core := ?u\<rparr>)) = Inr x'" "Core x' = touched (?u\<lparr>Lib := c\<rparr>) \<or> Core x' = ?u"
      "GarbageCollectionTimerID x' = - 1" "fst (BreakPipe x') = - 1"
    using break_pipe_removed [of "z\<lparr>Core := ?u\<rparr>" usn xe] u(1) z by (auto simp del: touched_updates)
  with run u show "\<exists>x'. SCTPSocketMaster_delete xe (deliver (E xe) (Suc n)) x = Inr x' \<and> ClosingAssociations (Core x') = [] \<and>
         ClosingSockets (Core x') = [] \<and> \<not> Running (Core x') \<and> LockLevel (Core x') = LockLevel (Core x) \<and>
         GarbageCollectionTimerID x' = - 1 \<and> fst (BreakPipe x') = - 1"
    by (intro exI [of _ x']) auto
next
  assume silent: "(\<forall>l k. snd (sctp_abort (SL (E xe)) l k) = []) \<and> ClosingAssociations (Core x) \<noteq> []"
  obtain l z where start: "begun xe x l z" using delete_start [OF good_lock_inv [OF assms(1)]] by blast
  have "abortClosing (E xe) cb (lock ((stopped (Core x))\<lparr>Lib := l\<rparr>)) = None"
    using silent by (intro abortClosing_hangs) (simp_all add: stopped_def)
  then show "SCTPSocketMaster_delete xe cb x = Inl StillWaiting" using start by (simp add: begun_def)
qed

section \<open>The table of descriptors\<close>

lemma same_socket: "Sockets w s = Some y \<Longrightarrow> lstate w' = lstate w \<Longrightarrow> \<exists>y. Sockets w' s = Some y"
  using lstate_Sockets [of w' w] by (metis domD domI)

lemma close_any:
  assumes "xgood x" "i < MaxSockets" "\<not> isInvalid (Table x i)"
    "\<And>x'. xgood x' \<Longrightarrow> LockLevel (Core x') = LockLevel (Core x) \<Longrightarrow>
       \<forall>j. isInvalid (Table x' j) = (isInvalid (Table x j) \<or> j = i) \<Longrightarrow>
       \<forall>j. socketOf (Table x' j) = (if j = i then None else socketOf (Table x j)) \<Longrightarrow>
       \<forall>s. s \<in> dom (Sockets (Core x')) \<longleftrightarrow> s \<in> dom (Sockets (Core x)) \<and>
         (socketOf (Table x i) = Some s \<longrightarrow> (\<exists>j \<ge> 1. j < MaxSockets \<and> j \<noteq> i \<and> socketOf (Table x j) = Some s)) \<Longrightarrow> P (0, x')"
  shows "holds P (ext_close xe (deliver e n) (int i) x)"
proof -
  have fd: "getSocket (int i) = Some i" using assms(2) by (simp add: getSocket_def)
  show ?thesis
  proof (cases "Table x i")
    case (ESDT_SCTP d)
    show ?thesis
    proof (rule close_contract [OF assms(1) fd ESDT_SCTP], rule assms(4))
      fix x'
      assume l: "lstate (Core x') = closed_lstate i d x"
      then show "\<forall>s. s \<in> dom (Sockets (Core x')) \<longleftrightarrow> s \<in> dom (Sockets (Core x)) \<and>
          (socketOf (Table x i) = Some s \<longrightarrow> (\<exists>j \<ge> 1. j < MaxSockets \<and> j \<noteq> i \<and> socketOf (Table x j) = Some s))"
        "LockLevel (Core x') = LockLevel (Core x)"
        using ESDT_SCTP
        by (auto simp: closed_lstate_def lstate_def removeSocket_def usedElsewhere_def split: option.splits if_splits)
    qed auto
  next
    case (ESDT_System sfd)
    let ?x = "snd (system xe (Sys_close sfd) (lockX x))"
    have "holds (\<lambda>x. holds P (errno_return 0 x)) (coreDo unlock (?x\<lparr>Table := (Table x)(i := ESDT_Invalid 0)\<rparr>))"
      unfolding coreDo_def errno_return_def using assms(1) ESDT_System
      by (auto intro!: holds_andThen unlock_contract assms(4) simp: system_def lockX_def xgood_def LockLevel_lstate case_prod_unfold)
        (blast dest: same_socket same_socket [OF _ sym])+
    then show ?thesis
      using ESDT_System fd by (simp add: ext_close_def Let_def lockX_def system_def case_prod_unfold holds_andThen)
  next
    case (ESDT_Invalid k)
    then show ?thesis using assms(3) by simp
  qed
qed

text \<open>What closing the descriptors \<open>l\<close> leaves.\<close>

definition closed :: "nat list \<Rightarrow> ('l, 'o) ext \<Rightarrow> ('l, 'o) ext \<Rightarrow> bool" where
  "closed l x x' =
     (xgood x' \<and> LockLevel (Core x') = LockLevel (Core x) \<and>
      (\<forall>j. isInvalid (Table x' j) = (isInvalid (Table x j) \<or> j \<in> set l \<and> 3 \<le> j)) \<and>
      (\<forall>j. socketOf (Table x' j) = (if j \<in> set l \<and> 3 \<le> j then None else socketOf (Table x j))) \<and>
      (\<forall>s. s \<in> dom (Sockets (Core x')) \<longleftrightarrow> s \<in> dom (Sockets (Core x)) \<and>
         ((\<exists>i \<in> set l. 3 \<le> i \<and> socketOf (Table x i) = Some s) \<longrightarrow>
          (\<exists>j \<ge> 1. j < MaxSockets \<and> \<not> (j \<in> set l \<and> 3 \<le> j) \<and> socketOf (Table x j) = Some s))))"

lemma socketOf_invalid: "isInvalid t \<Longrightarrow> socketOf t = None"
  by (cases t) simp_all

lemma last_user:
  fixes K :: "nat \<Rightarrow> bool"
  assumes "i \<notin> L"
  shows "(3 \<le> i \<and> K i \<longrightarrow> (\<exists>j \<ge> 1. j < m \<and> \<not> (j = i \<and> 3 \<le> j) \<and> K j)) \<and>
      ((\<exists>k \<in> L. 3 \<le> k \<and> K k) \<longrightarrow> (\<exists>j \<ge> 1. j < m \<and> \<not> (j \<in> L \<and> 3 \<le> j) \<and> \<not> (j = i \<and> 3 \<le> j) \<and> K j)) \<longleftrightarrow>
    ((\<exists>k \<in> insert i L. 3 \<le> k \<and> K k) \<longrightarrow> (\<exists>j \<ge> 1. j < m \<and> \<not> (j \<in> insert i L \<and> 3 \<le> j) \<and> K j))"
  using assms by blast

lemma closed_more:
  assumes "closed [i] x y" "closed l y z" "i \<notin> set l"
  shows "closed (i # l) x z"
proof -
  have K: "socketOf (Table y j) = Some s \<longleftrightarrow> \<not> (j = i \<and> 3 \<le> j) \<and> socketOf (Table x j) = Some s" for j s
    using assms(1) by (simp add: closed_def)
  have "(\<exists>k \<in> set l. 3 \<le> k \<and> socketOf (Table y k) = Some s) \<longleftrightarrow> (\<exists>k \<in> set l. 3 \<le> k \<and> socketOf (Table x k) = Some s)" for s
    using assms(3) by (auto simp: K)
  then have "s \<in> dom (Sockets (Core z)) \<longleftrightarrow> s \<in> dom (Sockets (Core x)) \<and>
      ((\<exists>k \<in> set (i # l). 3 \<le> k \<and> socketOf (Table x k) = Some s) \<longrightarrow>
       (\<exists>j \<ge> 1. j < MaxSockets \<and> \<not> (j \<in> set (i # l) \<and> 3 \<le> j) \<and> socketOf (Table x j) = Some s))" for s
    using assms(1,2) last_user [OF assms(3), of "\<lambda>j. socketOf (Table x j) = Some s" MaxSockets]
    unfolding closed_def K by (simp add: conj_assoc del: domIff)
  with assms show ?thesis unfolding closed_def by auto
qed

lemma closed_step:
  assumes "xgood x" "i < MaxSockets"
  shows "holds (closed [i] x) (if \<not> isInvalid (Table x i) \<and> i \<notin> {0, 1, 2}
      then andThen (ext_close xe (deliver e n) (int i) x) (\<lambda>(_, x). Inr x) else Inr x)"
proof (cases "\<not> isInvalid (Table x i) \<and> 3 \<le> i")
  case True
  then have "holds (\<lambda>(_, x'). closed [i] x x') (ext_close xe (deliver e n) (int i) x)"
    by (intro close_any assms) (auto simp: closed_def)
  then have "holds (closed [i] x) (andThen (ext_close xe (deliver e n) (int i) x) (\<lambda>(_, x). Inr x))"
    by (intro holds_andThen) (simp add: case_prod_unfold)
  with True show ?thesis by auto
next
  case False
  then have "closed [i] x x" using assms(1) socketOf_invalid [of "Table x i"] by (auto simp: closed_def)
  moreover from False have "(\<not> isInvalid (Table x i) \<and> i \<notin> {0, 1, 2}) = False" by auto
  ultimately show ?thesis by (simp only: if_False holds_simps)
qed

lemma closed_all:
  "xgood x \<Longrightarrow> distinct l \<Longrightarrow> set l \<subseteq> {..<MaxSockets} \<Longrightarrow>
   holds (closed l x) (forEach (\<lambda>i x. if \<not> isInvalid (Table x i) \<and> i \<notin> {0, 1, 2}
      then andThen (ext_close xe (deliver e n) (int i) x) (\<lambda>(_, x). Inr x) else Inr x) l x)"
proof (induction l arbitrary: x)
  case Nil
  then show ?case by (simp add: closed_def)
next
  case (Cons i l)
  let ?f = "\<lambda>i x. if \<not> isInvalid (Table x i) \<and> i \<notin> {0, 1, 2}
      then andThen (ext_close xe (deliver e n) (int i) x) (\<lambda>(_, x). Inr x) else Inr x"
  have "holds (closed [i] x) (?f i x)" using Cons.prems by (intro closed_step) auto
  moreover have "holds (closed (i # l) x) (forEach ?f l y)" if y: "closed [i] x y" for y
  proof -
    have "holds (closed l y) (forEach ?f l y)" using y Cons.prems by (intro Cons.IH) (auto simp: closed_def)
    with y Cons.prems show ?thesis by (cases "forEach ?f l y") (auto intro: closed_more)
  qed
  ultimately show ?case by (cases "?f i x") (auto simp del: insert_iff)
qed

text \<open>
  C27. The end of the table of descriptors. After the destructor of the table every descriptor from 3 on
  is free, the first three are as before, and a socket is left exactly when no descriptor from 3 on used it
  or descriptor 1 or 2 still does; a socket that descriptor 0 shares with a higher one is deleted under it.
  The lock keeps its level.
\<close>

theorem table_destructor_frees_all:
  assumes "good (Core x)" "ExtSocketDescriptorMaster_delete xe (deliver e n) x = Inr x'"
  shows "good (Core x') \<and> LockLevel (Core x') = LockLevel (Core x) \<and>
    (\<forall>i. 3 \<le> i \<and> i < MaxSockets \<longrightarrow> isInvalid (Table x' i)) \<and>
    (\<forall>i < 3. isInvalid (Table x' i) = isInvalid (Table x i) \<and> socketOf (Table x' i) = socketOf (Table x i)) \<and>
    (\<forall>s. s \<in> dom (Sockets (Core x')) \<longleftrightarrow> s \<in> dom (Sockets (Core x)) \<and>
       ((\<exists>i < MaxSockets. 3 \<le> i \<and> socketOf (Table x i) = Some s) \<longrightarrow> (\<exists>j \<in> {1, 2}. socketOf (Table x j) = Some s)))"
proof -
  have "holds (closed [0..<MaxSockets] x) (ExtSocketDescriptorMaster_delete xe (deliver e n) x)"
    unfolding ExtSocketDescriptorMaster_delete_def using assms(1) by (intro closed_all) (auto simp: xgood_def)
  with assms(2) have c: "closed [0..<MaxSockets] x x'" by simp
  have small: "(\<exists>j \<ge> 1. j < MaxSockets \<and> \<not> (j < MaxSockets \<and> 3 \<le> j) \<and> K j) \<longleftrightarrow> (\<exists>j \<in> {1, 2}. K j)" for K :: "nat \<Rightarrow> bool"
  proof -
    have "1 \<le> j \<and> j < MaxSockets \<and> \<not> (j < MaxSockets \<and> 3 \<le> j) \<longleftrightarrow> j = 1 \<or> j = 2" for j
      unfolding MaxSockets_def by linarith
    then show ?thesis by (metis insert_iff empty_iff)
  qed
  from c show ?thesis unfolding closed_def xgood_def set_upt atLeast0LessThan lessThan_iff small by auto
qed

section \<open>Applications\<close>

lemma forEach_skip: "\<forall>i \<in> set l. f i x = Inr x \<Longrightarrow> forEach f l x = Inr x"
  by (induction l) auto

lemma forEach_append: "forEach f (l @ m) x = andThen (forEach f l x) (forEach f m)"
  by (induction l arbitrary: x) (auto simp: andThen_def split: sum.splits)

text \<open>The standard output and descriptor 5 share a socket; the destructor leaves it to the former.\<close>

definition output_ext :: "(nat, nat) ext" where
  "output_ext = sample_ext sample_world (initialTable(1 := ESDT_SCTP sample_desc, 5 := ESDT_SCTP (newDesc AF_INET SOCK_STREAM 1)))"

theorem table_destructor_frees_all_witness:
  "\<exists>x'. ExtSocketDescriptorMaster_delete sample_xenv (deliver sample 0) output_ext = Inr x' \<and> isInvalid (Table x' 5) \<and>
     1 \<in> dom (Sockets (Core x'))"
proof -
  let ?d = "newDesc AF_INET SOCK_STREAM 1"
  let ?f = "\<lambda>i x. if \<not> isInvalid (Table x i) \<and> i \<notin> {0, 1, 2}
      then andThen (ext_close sample_xenv (deliver sample 0) (int i) x) (\<lambda>(_, x). Inr x) else Inr x"
  have d: "getSocket 5 = Some 5" "Table output_ext 5 = ESDT_SCTP ?d"
    "SCTPSocketPtr ?d = Some 1" "SCTPAssociationPtr ?d = None"
    "Table output_ext 1 = ESDT_SCTP sample_desc" "socketOf (ESDT_SCTP sample_desc) = Some 1" "LockLevel (Core output_ext) = 0"
    "socketOf (ESDT_SCTP ?d) = Some 1" "isInvalid (Table output_ext i) \<longleftrightarrow> i \<notin> {0, 1, 2, 5}" for i
    by (auto simp: getSocket_def MaxSockets_def sample_good output_ext_def sample_ext_def newDesc_def sample_desc_def
        sample_world_def empty_world_def initialTable_def)
  have good: "good (Core output_ext)" by (simp add: output_ext_def sample_ext_def sample_good)
  have "\<not> mayRemoveSocket 5 ?d (lockX output_ext)"
    unfolding mayRemoveSocket_iff [OF d(3)] using d(5,6) by (auto simp: lockX_def MaxSockets_def intro!: exI [of _ 1])
  then obtain y where y: "ext_close sample_xenv (deliver sample 0) 5 output_ext = Inr (0, y)"
    "Table y = (Table output_ext)(5 := ESDT_Invalid (int (Domain ?d)))"
    using d(1-4,7)
    by (auto simp: ext_close_def close_association_def close_socket_def lockX_def lock_def unlock_def Let_def coreDo_def
        errno_return_def updD_def)
  have split: "[0..<MaxSockets] = [0..<5] @ 5 # [6..<MaxSockets]"
    using upt_add_eq_append [of 0 5 1019] upt_conv_Cons [of 5 1024] by (simp add: MaxSockets_def)
  have "?f 5 output_ext = Inr y" using y(1) d(9) [of 5] by simp
  moreover have "forEach ?f [6..<MaxSockets] y = Inr y" using y(2) d(9) by (intro forEach_skip) auto
  moreover have "forEach ?f [0..<5] output_ext = Inr output_ext" using d(9) by (intro forEach_skip) auto
  ultimately have "ExtSocketDescriptorMaster_delete sample_xenv (deliver sample 0) output_ext = Inr y"
    unfolding ExtSocketDescriptorMaster_delete_def split forEach_append by simp
  with table_destructor_frees_all [OF good this] d(2,5,6,8) show ?thesis
    by (auto simp: MaxSockets_def output_ext_def sample_ext_def sample_world_def)
qed

theorem break_pipe_drained_witness:
  "\<exists>x'. userCallback sample_xenv 6 POLLIN 7 (Some 0)
     (open_ext\<lparr>Notifications := [0 \<mapsto> \<lparr>FileDescriptor = 6, EventMask = POLLIN OR POLLPRI, Events = 0\<rparr>]\<rparr>) = Inr (7, x')"
proof -
  let ?n = "\<lparr>FileDescriptor = 6, EventMask = POLLIN OR POLLPRI, Events = 0\<rparr>"
  have "\<exists>m :: nat \<Rightarrow> nat. \<forall>os. 0 < Ret (fst (Sys sample_xenv os (Sys_read 6 256))) \<longrightarrow>
      m (snd (Sys sample_xenv os (Sys_read 6 256))) < m os"
    by (rule exI [of _ "\<lambda>os. os"]) (simp add: sample_reply_def)
  then show ?thesis
    using break_pipe_drained [of "open_ext\<lparr>Notifications := [0 \<mapsto> ?n]\<rparr>" 6 0 ?n sample_xenv 6 POLLIN 7] by auto
qed

definition reporting_xenv :: "(nat, nat) xenv" where
  "reporting_xenv = sample_xenv\<lparr>E := sample\<lparr>SL := sample_lib\<lparr>sctp_abort := \<lambda>l k. (l, [CommunicationLostEv k 0])\<rparr>\<rparr>\<rparr>"

definition closing_ext :: "(nat, nat) ext" where
  "closing_ext = sample_ext (empty_world\<lparr>ClosingAssociations := [(7, 1), (9, 1)], ClosingSockets := [1]\<rparr>) initialTable
     \<lparr>Notifications := [0 \<mapsto> \<lparr>FileDescriptor = 6, EventMask = POLLIN OR POLLPRI, Events = 0\<rparr>]\<rparr>"

theorem destructor_aborts_all_witness:
  "(\<exists>x'. SCTPSocketMaster_delete reporting_xenv (deliver (E reporting_xenv) 1) closing_ext = Inr x' \<and>
      ClosingAssociations (Core x') = [] \<and> ClosingSockets (Core x') = []) \<and>
   SCTPSocketMaster_delete sample_xenv (deliver sample 1) closing_ext = Inl StillWaiting"
proof -
  have x: "good (Core closing_ext)" "SocketList (Core closing_ext) = []" "ClosingAssociations (Core closing_ext) \<noteq> []"
    "Notifications closing_ext 0 = Some \<lparr>FileDescriptor = 6, EventMask = POLLIN OR POLLPRI, Events = 0\<rparr>"
    by (auto simp: closing_ext_def sample_ext_def good_def lock_inv_def wf_def empty_world_def ranked_def Condition_new_def
        mm_ordered_def)
  have "abort_reports_loss (SL (E reporting_xenv))" "\<forall>l k. snd (sctp_abort (SL (E sample_xenv)) l k) = []"
    by (simp_all add: abort_reports_loss_def reporting_xenv_def sample_def sample_lib_def)
  with destructor_aborts_all [OF x(1,2,4), of reporting_xenv 0 undefined]
    destructor_aborts_all [OF x(1,2,4), of sample_xenv 0 "deliver sample 1"] x(3)
  show ?thesis by auto
qed

end
