(* ===== verification/CppLaws.thy ===== *)
theory CppLaws
  imports CppTransfer LocalAddresses MasterLaws
begin

text \<open>
  Properties of the class \<^verbatim>\<open>Socket\<close>: an object owns exactly its descriptor, the search for a port, options that
  read back, and errors that are reported as success.
\<close>

section \<open>Methods keep the descriptors\<close>

text \<open>What a method that makes and closes no descriptor keeps.\<close>

definition same :: "CppSocket \<Rightarrow> ('l, 'o) ext \<Rightarrow> CppSocket \<Rightarrow> ('l, 'o) ext \<Rightarrow> bool" where
  "same s x s' x' = (xgood x' \<and> xstate x' = xstate x \<and> SocketDescriptor s' = SocketDescriptor s)"

lemma sameI:
  "xgood x' \<Longrightarrow> xstate x' = xstate x \<Longrightarrow> SocketDescriptor s' = SocketDescriptor s \<Longrightarrow> same s x s' x'"
  by (simp add: same_def)

lemma same_refl: "xgood x \<Longrightarrow> same s x s x"
  by (simp add: same_def)

lemma same_step:
  "same s x s' x' \<Longrightarrow> xgood x'' \<Longrightarrow> xstate x'' = xstate x' \<Longrightarrow> SocketDescriptor s'' = SocketDescriptor s' \<Longrightarrow> same s x s'' x''"
  by (simp add: same_def)

lemma sameD: "same s x s' x' \<Longrightarrow> xgood x'"
  by (simp add: same_def)

lemma same_trans: "same s x s' x' \<Longrightarrow> same s' x' s'' x'' \<Longrightarrow> same s x s'' x''"
  by (simp add: same_def)

lemma same_error [simp]: "same s x (s'\<lparr>LastError := e\<rparr>) x' = same s x s' x'"
  by (simp add: same_def)

lemma SocketDescriptor_if [simp]: "SocketDescriptor (if b then s\<lparr>LastError := e\<rparr> else s) = SocketDescriptor s"
  by simp

lemma note_contract:
  assumes "holds (\<lambda>(r, x'). same s x s x') f"
  shows "holds (\<lambda>(r, s', x'). same s x s' x') (note_nonzero f s)" "holds (\<lambda>(r, s', x'). same s x s' x') (note_negative f s)"
  using assms by (cases f; auto simp: note_nonzero_def note_negative_def)+

lemma setSocketOption_contract:
  "xgood x \<Longrightarrow> optionNumber \<notin> leakingOptions \<Longrightarrow>
   holds (\<lambda>(r, s', x'). same s x s' x') (setSocketOption xe level optionNumber v s x)"
  unfolding setSocketOption_def by (auto intro!: holds_andThen ext_setsockopt_contract simp: same_def)

lemma setSucceeds_contract:
  "xgood x \<Longrightarrow> optionNumber \<notin> leakingOptions \<Longrightarrow>
   holds (\<lambda>(r, s', x'). same s x s' x') (setSucceeds xe level optionNumber v s x)"
  unfolding setSucceeds_def
  by (rule holds_andThen, rule holds_mono [OF setSocketOption_contract [where s = s and v = v]]) auto

lemma setTypeOfService_contract: "xgood x \<Longrightarrow> holds (\<lambda>(r, s', x'). same s x s' x') (setTypeOfService xe c s x)"
  unfolding setTypeOfService_def
  by (rule setSucceeds_contract) (simp_all add: leakingOptions_def IP_TOS_def SCTP_SET_DEFAULT_SEND_PARAM_def SCTP_SET_STREAM_TIMEOUTS_def)

lemma then_same:
  "holds (\<lambda>(r, s', x'). same s x s' x') f \<Longrightarrow> (\<And>r s' x'. same s x s' x' \<Longrightarrow> holds Q (g (r, s', x'))) \<Longrightarrow> holds Q (andThen f g)"
  by (cases f) auto

lemma same_from:
  assumes "same s x s' x'" "xgood x' \<Longrightarrow> holds (\<lambda>(r, s'', x''). same s' x' s'' x'') f"
  shows "holds (\<lambda>(r, s'', x''). same s x s'' x'') f"
  using assms by (cases f) (auto dest: sameD intro: same_trans)

section \<open>Binding\<close>

text \<open>An attempt that keeps the descriptors.\<close>

definition keeping :: "('a, 'l, 'o) attempt \<Rightarrow> bool" where
  "keeping attempt = (\<forall>p a x. xgood x \<longrightarrow> holds (\<lambda>(r, a', x'). xgood x' \<and> xstate x' = xstate x) (attempt p a x))"

lemma keepingD:
  assumes "keeping attempt" "same s x s' x'" "attempt p a x' = Inr (r, a', x'')"
  shows "same s x s' x''"
proof -
  have "holds (\<lambda>(r, a', x''). xgood x'' \<and> xstate x'' = xstate x') (attempt p a x')"
    using assms(1) sameD [OF assms(2)] unfolding keeping_def by blast
  with assms(2,3) show ?thesis by (simp add: same_def)
qed

lemma random_ports_contract:
  assumes "keeping attempt"
  shows "same s x s' x' \<Longrightarrow> holds (\<lambda>(_, s'', _, x''). same s x s'' x'') (random_ports attempt n r s' a x')"
proof (induction n arbitrary: r s' a x')
  case (Suc n)
  then show ?case
    by (cases "attempt (htons (ucast (fst (Randomizers.random32 r) mod (MaxAutoSelectPort - MinAutoSelectPort) + MinAutoSelectPort))) a x'")
      (auto simp: Let_def case_prod_unfold dest: keepingD [OF assms])
qed simp

lemma even_ports_contract:
  assumes "keeping attempt"
  shows "same s x s' x' \<Longrightarrow> holds (\<lambda>(_, s'', _, x''). same s x s'' x'') (even_ports attempt is s' a x')"
proof (induction "is" arbitrary: s' a x')
  case (Cons i "is")
  then show ?case
    by (cases "attempt (htons (of_nat i)) a x'") (auto simp: Let_def case_prod_unfold dest: keepingD [OF assms])
qed simp

lemma auto_bind_contract:
  assumes "keeping first" "keeping second" "xgood x"
  shows "holds (\<lambda>(r, s', x'). same s x s' x') (auto_bind first second s a x)"
proof -
  have "holds (\<lambda>(ok, s'', x''). same s x s'' x'') (andThen (even_ports second EvenPorts s' a' x') (\<lambda>(r, s, a, x). Inr (r = Bound, s, x)))"
    if "same s x s' x'" for s' a' x'
    by (rule holds_andThen, rule holds_mono [OF even_ports_contract [OF assms(2) that]]) auto
  then show ?thesis
    unfolding auto_bind_def
    by (intro holds_andThen holds_mono [OF random_ports_contract [OF assms(1) same_refl [OF assms(3)]]])
      (auto split: outcome.split)
qed

lemma keeping_attempts:
  "keeping (bind_attempt xe (deliver e n) fd len)" "keeping (bindx_attempt xe (deliver e n) fd fl)"
  "keeping (bindx_attempt2 xe (deliver e n) fd fl)"
  unfolding keeping_def bind_attempt_def bindx_attempt_def bindx_attempt2_def packed_bindx_def packSocketAddressArray_def Let_def
  by (auto intro!: contract)

lemma Cpp_bind_contract: "xgood x \<Longrightarrow> holds (\<lambda>(r, s', x'). same s x s' x') (Cpp_bind xe (deliver e n) address s x)"
  unfolding Cpp_bind_def Let_def
  by (auto intro!: contract auto_bind_contract keeping_attempts sameI split: prod.split)

lemma Cpp_bindx_contract: "xgood x \<Longrightarrow> holds (\<lambda>(r, s', x'). same s x s' x') (Cpp_bindx xe (deliver e n) addresses fl s x)"
  unfolding Cpp_bindx_def Let_def packed_bindx_def packSocketAddressArray_def
  by (auto intro!: contract Cpp_bind_contract auto_bind_contract keeping_attempts sameI split: option.split)

lemma Cpp_listen_contract: "xgood x \<Longrightarrow> holds (\<lambda>(r, s', x'). same s x s' x') (Cpp_listen xe (deliver e n) backlog s x)"
  unfolding Cpp_listen_def by (auto intro!: contract sameI)

section \<open>Connecting, sending and receiving\<close>

lemma connect_tos_contract: "xgood x \<Longrightarrow> holds (\<lambda>(s', x'). same s x s' x') (connect_tos xe c sa s x)"
  unfolding connect_tos_def
  by (auto intro!: holds_andThen sameI holds_mono [OF setTypeOfService_contract [where s = "s\<lparr>SendFlow := push_bit 20 (ucast c)\<rparr>"]]
      simp: same_def)

lemma connect_label_descriptor: "SocketDescriptor (snd (connect_label sa s)) = SocketDescriptor s"
  by (simp add: connect_label_def Let_def split: sockaddr.split)

lemma Cpp_connect_contract: "xgood x \<Longrightarrow> holds (\<lambda>(r, s', x'). same s x s' x') (Cpp_connect xe (deliver e n) address c s x)"
  unfolding Cpp_connect_def
  by (auto intro!: contract sameI holds_mono [OF connect_tos_contract]
      simp: same_def case_prod_unfold Let_def connect_label_descriptor)

lemma Cpp_connectx_contract: "xgood x \<Longrightarrow> holds (\<lambda>(r, s', x'). same s x s' x') (Cpp_connectx xe (deliver e n) addresses s x)"
  unfolding Cpp_connectx_def Let_def packSocketAddressArray_def by (auto intro!: contract sameI)

lemma transfer_contract [contract]:
  assumes "xgood x"
  shows "(\<And>r m x'. xgood x' \<Longrightarrow> xstate x' = xstate x \<Longrightarrow> P (r, m, x')) \<Longrightarrow> holds P (ext_recvmsg2 xe (deliver e n) fd msg fl rn x)"
    "(\<And>r x'. xgood x' \<Longrightarrow> xstate x' = xstate x \<Longrightarrow> Q (r, x')) \<Longrightarrow> holds Q (ext_sendto xe (deliver e n) fd buf fl to len x)"
    "(\<And>r x'. xgood x' \<Longrightarrow> xstate x' = xstate x \<Longrightarrow> Q (r, x')) \<Longrightarrow> holds Q (ext_send xe (deliver e n) fd buf fl x)"
  using assms unfolding ext_recvmsg2_def ext_send_def ext_sendto_def by (auto intro!: contract)

lemma forEach_keeps:
  "(\<And>c s' m. holds (\<lambda>(s'', m). SocketDescriptor s'' = SocketDescriptor s') (f c (s', m))) \<Longrightarrow>
   holds (\<lambda>(s', m). SocketDescriptor s' = SocketDescriptor s) (forEach f cs (s, m))"
proof (induction cs arbitrary: s m)
  case (Cons c cs)
  have "holds (\<lambda>(s'', m). SocketDescriptor s'' = SocketDescriptor s) (f c (s, m))" by (rule Cons.prems)
  moreover have "holds (\<lambda>(s', m). SocketDescriptor s' = SocketDescriptor s) (forEach f cs (s', m'))"
    if "SocketDescriptor s' = SocketDescriptor s" for s' m'
    using Cons.IH [OF Cons.prems, of s' m'] that by simp
  ultimately show ?case by (cases "f c (s, m)") auto
qed simp

lemma receive_header_keeps: "holds (\<lambda>(s', m). SocketDescriptor s' = SocketDescriptor s) (receive_header c (s, m))"
  unfolding receive_header_def
  by (auto intro!: contract holds_any [of _ "load_u32 d" for d] holds_any [of _ "load_u8 d" for d]
      split: option.split list.split sockaddr.split)

lemma receiveMsg_contract:
  "xgood x \<Longrightarrow> holds (\<lambda>(r, s', x'). same s x s' x') (receiveMsg xe (deliver e n) msg fl ic s x)"
  unfolding receiveMsg_def
  by (auto intro!: contract sameI holds_mono [OF forEach_keeps [OF receive_header_keeps]])

lemma recvFrom_contract:
  "xgood x \<Longrightarrow> holds (\<lambda>(r, s', x'). same s x s' x') (recvFrom xe (deliver e n) len fl al s x)"
  unfolding recvFrom_def Let_def
  by (auto intro!: holds_andThen holds_mono [OF receiveMsg_contract])

lemma Cpp_receiveFrom_contract:
  "xgood x \<Longrightarrow> holds (\<lambda>(r, s', x'). same s x s' x') (Cpp_receiveFrom xe (deliver e n) len sender fl s x)"
  unfolding Cpp_receiveFrom_def by (auto intro!: holds_andThen contract holds_mono [OF recvFrom_contract])

lemma with_tos_contract:
  fixes x :: "('l, 'o) ext"
  assumes "xgood x" "\<And>x'. xgood x' \<Longrightarrow> holds (\<lambda>(r, x''). xgood x'' \<and> xstate x'' = xstate x') (send x')"
  shows "holds (\<lambda>(r, s', x'). same s x s' x') (with_tos xe c send s x)"
proof -
  have "holds (\<lambda>(r, s'', x''). same s x s'' x'') (andThen (send x') (\<lambda>(result, x).
      andThen (setTypeOfService xe (ucast (drop_bit 20 (SendFlow s'))) s' x) (\<lambda>(_, s, x).
      if result < 0 then Inr (- errno x, s\<lparr>LastError := errno x\<rparr>, x) else Inr (result, s, x))))"
    if *: "same s x s' x'" for s' x'
  proof (rule holds_andThen, rule holds_mono [OF assms(2) [OF sameD [OF *]]])
    fix z :: "int \<times> ('l, 'o) ext"
    assume "case z of (r, x'') \<Rightarrow> xgood x'' \<and> xstate x'' = xstate x'"
    then obtain r y where z: "z = (r, y)" and y: "same s x s' y" "xgood y" using * by (auto simp: same_def)
    show "holds (\<lambda>(r, s'', x''). same s x s'' x'') (case z of (result, x) \<Rightarrow>
      andThen (setTypeOfService xe (ucast (drop_bit 20 (SendFlow s'))) s' x) (\<lambda>(_, s, x).
      if result < 0 then Inr (- errno x, s\<lparr>LastError := errno x\<rparr>, x) else Inr (result, s, x)))"
      unfolding z
      by (auto intro!: then_same [OF same_from [OF y(1) setTypeOfService_contract]])
  qed
  then show ?thesis
    unfolding with_tos_def by (auto intro!: then_same [OF setTypeOfService_contract [OF assms(1)]])
qed

lemma note_negative_contract:
  assumes "holds (\<lambda>(r, x'). xgood x' \<and> xstate x' = xstate x) f"
  shows "holds (\<lambda>(r, s', x'). same s x s' x') (note_negative f s)"
  using assms by (intro note_contract(2)) (auto elim!: holds_mono intro: sameI)

lemma Cpp_send_contract: "xgood x \<Longrightarrow> holds (\<lambda>(r, s', x'). same s x s' x') (Cpp_send xe (deliver e n) buf fl c s x)"
  unfolding Cpp_send_def Let_def
  by (auto intro!: note_negative_contract with_tos_contract contract split: option.split)

lemma Cpp_sendTo_contract:
  "xgood x \<Longrightarrow> holds (\<lambda>(r, s', x'). same s x s' x') (Cpp_sendTo xe (deliver e n) buf fl to c s x)"
  unfolding Cpp_sendTo_def Let_def
  by (auto intro!: note_negative_contract with_tos_contract contract same_refl split: prod.split)

lemma optional_tos_contract:
  "xgood x \<Longrightarrow> holds (\<lambda>(r, s', x'). same s x s' x') (if b then setTypeOfService xe c s x else Inr (True, s, x))"
  by (simp add: setTypeOfService_contract same_refl)

lemma sendMsg_contract: "xgood x \<Longrightarrow> holds (\<lambda>(r, s', x'). same s x s' x') (sendMsg xe (deliver e n) msg fl c s x)"
proof -
  have send: "holds (\<lambda>(r, s', x'). same s x s' x')
      (note_negative (andThen (ext_sendmsg xe (deliver e n) fd msg fl x) (\<lambda>(r, _, x). Inr (r, x))) s)" if "xgood x" for fd s x
    using that by (auto intro!: note_negative_contract contract)
  have finish: "holds (\<lambda>(r, s'', x''). same s x s'' x'')
      (andThen (if b then setTypeOfService xe k s' x' else Inr (True, s', x')) (\<lambda>(_, s, x). Inr (r, s, x)))"
    if "same s x s' x'" for b k s' x' r
    by (rule then_same [OF same_from [OF that optional_tos_contract]]) simp_all
  assume "xgood x"
  show ?thesis
    unfolding sendMsg_def
  proof (rule then_same [OF optional_tos_contract [OF \<open>xgood x\<close>]], unfold prod.case)
    fix s' x'
    assume "same s x s' x'"
    then show "holds (\<lambda>(r, s'', x''). same s x s'' x'')
        (andThen (note_negative (andThen (ext_sendmsg xe (deliver e n) (SocketDescriptor s') msg fl x') (\<lambda>(r, _, x). Inr (r, x))) s')
          (\<lambda>(result, s, x). andThen (if c \<noteq> 0 then setTypeOfService xe (ucast (drop_bit 20 (SendFlow s))) s x else Inr (True, s, x))
            (\<lambda>(_, s, x). Inr (result, s, x))))"
      by (rule then_same [OF same_from [OF _ send]]) (assumption+, unfold prod.case, rule finish)
  qed
qed

section \<open>Creating and closing\<close>

lemma Cpp_close_contract:
  assumes "xgood x" "SocketDescriptor s = int i" "i < MaxSockets" "\<not> isInvalid (Table x i)"
  shows "holds (\<lambda>(s', x'). SocketDescriptor s' = - 1 \<and> Destination s' = None \<and> xgood x' \<and>
    (\<forall>j. isInvalid (Table x' j) = (isInvalid (Table x j) \<or> j = i))) (Cpp_close xe (deliver e n) s x)"
proof -
  have "holds (\<lambda>(r, x'). xgood x' \<and> (\<forall>j. isInvalid (Table x' j) = (isInvalid (Table x j) \<or> j = i))) (ext_close xe (deliver e n) (int i) x)"
    by (rule close_any [OF assms(1,3,4)]) simp
  then show ?thesis
    using assms(2) unfolding Cpp_close_def by (cases "ext_close xe (deliver e n) (int i) x") auto
qed

text \<open>The slots of the table after a call that may have made a descriptor.\<close>

definition opened :: "('l, 'o) ext \<Rightarrow> int \<Rightarrow> ('l, 'o) ext \<Rightarrow> bool" where
  "opened x r x' =
     (xgood x' \<and> (r < 0 \<longrightarrow> (\<forall>j. isInvalid (Table x' j) = isInvalid (Table x j))) \<and>
      (0 \<le> r \<longrightarrow> (\<exists>i < MaxSockets. r = int i \<and> isInvalid (Table x i) \<and> (\<forall>j. isInvalid (Table x' j) = (isInvalid (Table x j) \<and> j \<noteq> i)))))"

lemma setSocket_opened:
  assumes "xgood y" "\<forall>j. isInvalid (Table y j) = isInvalid (Table x j)" "\<not> isInvalid d"
  shows "holds (\<lambda>(r, x'). opened x r x') (setSocket xe d y)"
  by (rule setSocket_contract [OF assms(1)])
    (use assms(2,3) findFree_Some in \<open>fastforce simp: opened_def EMFILE_def\<close>)+

lemma opened_return:
  "opened x r y \<Longrightarrow> holds (\<lambda>(r, x'). (r < 0 \<longrightarrow> r = - 1) \<and> opened x r x') (errno_return r y)"
  by (auto simp: errno_return_def opened_def xgood_def)

lemma not_opened: "xgood y \<Longrightarrow> xstate y = xstate x \<Longrightarrow> r < 0 \<Longrightarrow> opened x r y"
  by (auto simp: opened_def xstate_iff)

lemma ext_socket_opened:
  fixes x :: "('l, 'o) ext"
  assumes "xgood x"
  shows "holds (\<lambda>(r, x'). (r < 0 \<longrightarrow> r = - 1) \<and> opened x r x') (ext_socket xe (deliver e n) fam ty pr x)"
proof -
  have sys: "holds (\<lambda>(r, x'). (r < 0 \<longrightarrow> r = - 1) \<and> opened x r x') (wrapSystem xe False c x)" for c
    unfolding wrapSystem_def using assms
    by (auto intro!: opened_return not_opened holds_andThen holds_mono [OF setSocket_opened [where x = x]]
        simp: system_def xstate_iff split: prod.split)
  have register: "holds (\<lambda>(r, x'). (r < 0 \<longrightarrow> r = - 1) \<and> opened x r x')
      (andThen (setSocket xe (ESDT_SCTP d) y) (\<lambda>(r, x).
        andThen (if r < 0 then coreDo (SCTPSocket_delete (E xe) (deliver e n) k) x else Inr x) (errno_return r)))"
    if "xgood y" "\<forall>j. isInvalid (Table y j) = isInvalid (Table x j)" for y d k
  proof (rule holds_andThen, rule holds_mono [OF setSocket_opened [OF that]])
    fix z :: "int \<times> ('l, 'o) ext"
    assume "case z of (r, x') \<Rightarrow> opened x r x'"
    then obtain r u where z: "z = (r, u)" and u: "opened x r u" by (cases z) auto
    have "opened x r v" if "r < 0" "xgood v" "xstate v = apfst (removeSocket k) (xstate u)" for v
      using that u by (auto simp: opened_def xstate_def fun_eq_iff)
    moreover have "xgood u" using u by (simp add: opened_def)
    ultimately show "holds (\<lambda>(r, x'). (r < 0 \<longrightarrow> r = - 1) \<and> opened x r x') (case z of (r, x) \<Rightarrow>
        andThen (if r < 0 then coreDo (SCTPSocket_delete (E xe) (deliver e n) k) x else Inr x) (errno_return r))"
      using u unfolding z by (auto intro!: holds_andThen opened_return delete_socket_contract)
  qed simp
  have flags: "holds (\<lambda>z. xgood z \<and> (\<forall>j. isInvalid (Table z j) = isInvalid (Table x j)))
      (if b then Inr y else coreDo (Socket_setNotificationFlags k f) y)"
    if "xgood y" "Table y = Table x" for y b k f
    using that by (auto intro!: contract simp: xgoodD xstate_iff)
  have made: "holds (\<lambda>(r, x'). (r < 0 \<longrightarrow> r = - 1) \<and> opened x r x')
      (andThen (if b then Inr y else coreDo (Socket_setNotificationFlags k f) y) (\<lambda>x.
       andThen (setSocket xe (ESDT_SCTP d) x) (\<lambda>(r, x).
       andThen (if r < 0 then coreDo (SCTPSocket_delete (E xe) (deliver e n) k) x else Inr x) (errno_return r))))"
    if "xgood y" "Table y = Table x" for y b k f d
    by (rule holds_andThen, rule holds_mono [OF flags [OF that]]) (rule register, simp_all)
  have sctp: "holds (\<lambda>(r, x'). (r < 0 \<longrightarrow> r = - 1) \<and> opened x r x') (ext_socket_sctp xe (deliver e n) fam ty x)"
    unfolding ext_socket_sctp_def Let_def using assms
    by (intro holds_if opened_return not_opened holds_andThen [of _ _ "core f x" for f x] new_socket_contract)
      (simp_all add: ext_errno_defs made)
  show ?thesis unfolding ext_socket_def by (simp add: sys sctp)
qed

text \<open>
  The object owns at most one descriptor: compared with the table \<open>x0\<close> in front of its construction exactly the
  slot of its descriptor is taken.
\<close>

definition owns :: "('l, 'o) ext \<Rightarrow> CppSocket \<Rightarrow> ('l, 'o) ext \<Rightarrow> bool" where
  "owns x0 s x = (opened x0 (SocketDescriptor s) x \<and> (SocketDescriptor s < 0 \<longrightarrow> SocketDescriptor s = - 1))"

lemma owns_xgood: "owns x0 s x \<Longrightarrow> xgood x"
  by (simp add: owns_def opened_def)

lemma owns_none: "owns x0 s x \<Longrightarrow> SocketDescriptor s = - 1 \<Longrightarrow> \<forall>j. isInvalid (Table x j) = isInvalid (Table x0 j)"
  by (simp add: owns_def opened_def)

lemma owns_same: "owns x0 s x \<Longrightarrow> same s x s' x' \<Longrightarrow> owns x0 s' x'"
  by (auto simp: owns_def opened_def same_def xstate_iff)

lemma owns_close:
  assumes "owns x0 s x"
  shows "holds (\<lambda>(s', x'). owns x0 s' x' \<and> SocketDescriptor s' = - 1) (Cpp_close xe (deliver e n) s x)"
proof (cases "SocketDescriptor s = - 1")
  case True
  then show ?thesis using assms by (simp add: Cpp_close_def owns_def)
next
  case False
  with assms obtain i where i: "SocketDescriptor s = int i" "i < MaxSockets" "isInvalid (Table x0 i)"
    "\<forall>j. isInvalid (Table x j) = (isInvalid (Table x0 j) \<and> j \<noteq> i)" by (auto simp: owns_def opened_def)
  have "\<not> isInvalid (Table x i)" using i(4) by simp
  from holds_mono [OF Cpp_close_contract [OF owns_xgood [OF assms] i(1,2) this]] show ?thesis
    by (rule holds_mono) (use i in \<open>auto simp: owns_def opened_def\<close>)
qed

lemma opened_xgood: "opened x0 r x \<Longrightarrow> xgood x"
  by (simp add: opened_def)

lemma opened_same: "opened x0 r x \<Longrightarrow> xgood x' \<Longrightarrow> xstate x' = xstate x \<Longrightarrow> opened x0 r x'"
  by (simp add: opened_def xstate_iff)

lemma setQuietly_contract:
  "optionNumber \<notin> leakingOptions \<Longrightarrow> opened x0 r x \<Longrightarrow> holds (\<lambda>x'. opened x0 r x') (setQuietly xe fd level optionNumber k x)"
  unfolding setQuietly_def
  by (rule holds_andThen, rule ext_setsockopt_contract) (auto intro: opened_same opened_xgood)

lemma quiet_options:
  "IPV6_FLOWINFO \<notin> leakingOptions" "IPV6_FLOWINFO_SEND \<notin> leakingOptions" "IP_RECVTOS \<notin> leakingOptions" "IPV6_V6ONLY \<notin> leakingOptions"
  by (simp_all add: leakingOptions_def level_defs IPV6_V6ONLY_def SCTP_SET_DEFAULT_SEND_PARAM_def SCTP_SET_STREAM_TIMEOUTS_def)

lemma create_options_contract: "opened x0 r x \<Longrightarrow> holds (\<lambda>x'. opened x0 r x') (create_options xe fd family x)"
  unfolding create_options_def
  by (intro holds_andThen holds_mono [OF setQuietly_contract] holds_if) (auto simp: quiet_options intro: setQuietly_contract)

lemma socket_after_close:
  assumes "owns x0 s x" "SocketDescriptor s = - 1"
  shows "holds (\<lambda>(r, x'). (r < 0 \<longrightarrow> r = - 1) \<and> opened x0 r x') (ext_socket xe (deliver e n) fam ty pr x)"
  by (rule holds_mono [OF ext_socket_opened [OF owns_xgood [OF assms(1)]]])
    (use assms in \<open>auto simp: owns_def opened_def\<close>)

lemma owns_create:
  assumes "owns x0 s x"
  shows "holds (\<lambda>(r, s', x'). owns x0 s' x' \<and> (r \<longrightarrow> ready s')) (Cpp_create xe (deliver e n) cd ty pr s x)"
  unfolding Cpp_create_def Let_def
  by (auto intro!: holds_andThen holds_mono [OF owns_close [OF assms]] holds_mono [OF socket_after_close]
      holds_mono [OF create_options_contract] simp: ready_def owns_def [where s = "_\<lparr>SocketDescriptor := _\<rparr>"] simp del: if_split)

lemma Cpp_fcntl_contract: "xgood x \<Longrightarrow> holds (\<lambda>(r, s', x'). same s x s' x') (Cpp_fcntl xe cmd arg s x)"
  unfolding Cpp_fcntl_def by (intro note_contract) (auto intro!: contract sameI)

text \<open>A call of a method of one object; \<open>accept\<close>, which makes another object, is not among them.\<close>

inductive cpp_step :: "('l, 'o) xenv \<Rightarrow> CppSocket \<times> ('l, 'o) ext \<Rightarrow> CppSocket \<times> ('l, 'o) ext \<Rightarrow> bool" for xe where
  "Cpp_create xe (deliver e n) cd ty pr s x = Inr (r, s', x') \<Longrightarrow> cpp_step xe (s, x) (s', x')"
| "Cpp_close xe (deliver e n) s x = Inr (s', x') \<Longrightarrow> cpp_step xe (s, x) (s', x')"
| "Cpp_bind xe (deliver e n) address s x = Inr (r, s', x') \<Longrightarrow> cpp_step xe (s, x) (s', x')"
| "Cpp_bindx xe (deliver e n) addresses fl s x = Inr (r, s', x') \<Longrightarrow> cpp_step xe (s, x) (s', x')"
| "Cpp_listen xe (deliver e n) backlog s x = Inr (r, s', x') \<Longrightarrow> cpp_step xe (s, x) (s', x')"
| "Cpp_connect xe (deliver e n) address c s x = Inr (r, s', x') \<Longrightarrow> cpp_step xe (s, x) (s', x')"
| "Cpp_connectx xe (deliver e n) addresses s x = Inr (r, s', x') \<Longrightarrow> cpp_step xe (s, x) (s', x')"
| "Cpp_send xe (deliver e n) buf flags c s x = Inr (k, s', x') \<Longrightarrow> cpp_step xe (s, x) (s', x')"
| "Cpp_sendTo xe (deliver e n) buf flags address c s x = Inr (k, s', x') \<Longrightarrow> cpp_step xe (s, x) (s', x')"
| "sendMsg xe (deliver e n) msg flags c s x = Inr (k, s', x') \<Longrightarrow> cpp_step xe (s, x) (s', x')"
| "receiveMsg xe (deliver e n) msg flags ic s x = Inr (m, s', x') \<Longrightarrow> cpp_step xe (s, x) (s', x')"
| "Cpp_receiveFrom xe (deliver e n) len address flags s x = Inr (d, s', x') \<Longrightarrow> cpp_step xe (s, x) (s', x')"
| "optionNumber \<notin> leakingOptions \<Longrightarrow> setSocketOption xe level optionNumber v s x = Inr (o', s', x') \<Longrightarrow> cpp_step xe (s, x) (s', x')"
| "Cpp_fcntl xe cmd arg s x = Inr (k, s', x') \<Longrightarrow> cpp_step xe (s, x) (s', x')"

lemma returned_same:
  "f = Inr (r, s', x') \<Longrightarrow> holds (\<lambda>(r, s', x'). same s x s' x') f \<Longrightarrow> owns x0 s x \<Longrightarrow> owns x0 s' x'"
  by (auto intro: owns_same)

lemma step_owns:
  assumes "cpp_step xe (s, x) (s', x')" "owns x0 s x"
  shows "owns x0 s' x'"
proof -
  note x = owns_xgood [OF assms(2)]
  note rules = Cpp_bind_contract [OF x] Cpp_bindx_contract [OF x] Cpp_listen_contract [OF x] Cpp_connect_contract [OF x]
    Cpp_connectx_contract [OF x] Cpp_send_contract [OF x] Cpp_sendTo_contract [OF x] sendMsg_contract [OF x]
    receiveMsg_contract [OF x] Cpp_receiveFrom_contract [OF x] setSocketOption_contract [OF x] Cpp_fcntl_contract [OF x]
  show ?thesis
    using assms(1)
  proof cases
    case (1 e n cd ty pr r)
    then show ?thesis using owns_create [OF assms(2), of xe e n cd ty pr] by simp
  next
    case (2 e n)
    then show ?thesis using owns_close [OF assms(2), of xe e n] by simp
  qed (erule returned_same, rule rules, (assumption | rule assms(2))+)+
qed

text \<open>
  C10. A socket object owns its descriptor. Whatever sequence of methods is called on a new object, with any
  callbacks in between, compared with the table at the beginning exactly the slot of its descriptor is
  taken, which was free before: no descriptor of anybody else is closed and none is leaked. The
  object has no descriptor or a valid one, and after \<^verbatim>\<open>close\<close> it has none.
\<close>

theorem socket_owns_descriptor:
  assumes "good (Core x0)" "(cpp_step xe)\<^sup>*\<^sup>* (Socket_init, x0) (s, x)"
  shows "good (Core x) \<and>
    (SocketDescriptor s = - 1 \<and> (\<forall>j. isInvalid (Table x j) = isInvalid (Table x0 j)) \<or>
     (\<exists>i < MaxSockets. SocketDescriptor s = int i \<and> isInvalid (Table x0 i) \<and>
        (\<forall>j. isInvalid (Table x j) = (isInvalid (Table x0 j) \<and> j \<noteq> i)))) \<and>
    (\<forall>s' x'. Cpp_close xe (deliver e n) s x = Inr (s', x') \<longrightarrow>
       SocketDescriptor s' = - 1 \<and> (\<forall>j. isInvalid (Table x' j) = isInvalid (Table x0 j)))"
proof -
  have "owns x0 s x"
    using assms(2)
  proof (induction "(s, x)" arbitrary: s x rule: rtranclp_induct)
    case base
    then show ?case using assms(1) by (simp add: owns_def opened_def Socket_init_def xgood_def)
  next
    case (step y)
    then show ?case by (cases y) (auto intro: step_owns)
  qed
  have "SocketDescriptor s' = - 1 \<and> (\<forall>j. isInvalid (Table x' j) = isInvalid (Table x0 j))"
    if "Cpp_close xe (deliver e n) s x = Inr (s', x')" for s' x'
    using owns_close [OF \<open>owns x0 s x\<close>, of xe e n] owns_none [of x0 s' x'] by (simp add: that)
  moreover have "SocketDescriptor s = - 1 \<and> (\<forall>j. isInvalid (Table x j) = isInvalid (Table x0 j)) \<or>
     (\<exists>i < MaxSockets. SocketDescriptor s = int i \<and> isInvalid (Table x0 i) \<and>
        (\<forall>j. isInvalid (Table x j) = (isInvalid (Table x0 j) \<and> j \<noteq> i)))"
    using \<open>owns x0 s x\<close> owns_none unfolding owns_def opened_def by (meson not_le)
  ultimately show ?thesis using owns_xgood [OF \<open>owns x0 s x\<close>] by (simp add: xgood_def)
qed

text \<open>A stream socket for IPv4 gets descriptor 7, and only this slot is taken.\<close>

lemma create_sample:
  obtains s x where "Cpp_create sample_xenv (deliver sample 0) (int AF_INET) SOCK_STREAM IPPROTO_SCTP Socket_init start_ext = Inr (True, s, x)"
    "SocketDescriptor s = 7"
proof -
  obtain x where x: "ext_socket sample_xenv (deliver sample 0) AF_INET SOCK_STREAM IPPROTO_SCTP start_ext = Inr (7, x)"
    "Table x 7 = ESDT_SCTP (newDesc AF_INET SOCK_STREAM 3)"
    using start_socket by blast
  have fd: "getSocket 7 = Some 7" by (simp add: getSocket_def MaxSockets_def)
  have options: "create_options sample_xenv 7 2 x = Inr x"
    using x(2) fd by (simp add: create_options_def setQuietly_def ext_setsockopt_def level_defs errno_return_def Let_def af_defs)
  show thesis
    using x(1) options
    by (intro that [of "Socket_init\<lparr>SocketFamily := 2, SocketType := SOCK_STREAM, SocketProtocol := IPPROTO_SCTP, SocketDescriptor := 7\<rparr>" x])
      (simp_all add: Cpp_create_def Cpp_close_def Socket_init_def FamilyIP_def cardinal_of_int_def af_defs Let_def)
qed

theorem socket_owns_descriptor_witness:
  "\<exists>s x. (cpp_step sample_xenv)\<^sup>*\<^sup>* (Socket_init, start_ext) (s, x) \<and> SocketDescriptor s = 7 \<and>
     (\<forall>j. isInvalid (Table x j) = (isInvalid (initialTable j) \<and> j \<noteq> 7))"
proof -
  obtain s x where s: "Cpp_create sample_xenv (deliver sample 0) (int AF_INET) SOCK_STREAM IPPROTO_SCTP Socket_init start_ext = Inr (True, s, x)"
    "SocketDescriptor s = 7"
    by (rule create_sample)
  then have step: "(cpp_step sample_xenv)\<^sup>*\<^sup>* (Socket_init, start_ext) (s, x)" by (intro r_into_rtranclp cpp_step.intros(1))
  have "good (Core start_ext)" "Table start_ext = initialTable" by (simp_all add: start_good)
  from socket_owns_descriptor [OF this(1) step, of undefined 0] this(2) s(2) step show ?thesis
    by (intro exI [of _ s] exI [of _ x]) auto
qed

end
