(* ===== verification/PortLaws.thy ===== *)
theory PortLaws
  imports CppLaws
begin

text \<open>
  The search for a port in \<^verbatim>\<open>Socket::bind\<close>: where it looks, what it reports, and that it finds a free port.
\<close>

section \<open>Ports that are tried\<close>

definition autoPort :: "nat \<Rightarrow> bool" where
  "autoPort p = (16384 \<le> p \<and> p < 61000)"

lemma random_port_range:
  obtains p where "autoPort p" "(ucast (v mod (MaxAutoSelectPort - MinAutoSelectPort) + MinAutoSelectPort) :: card16) = of_nat p"
proof -
  let ?w = "v mod (MaxAutoSelectPort - MinAutoSelectPort) + MinAutoSelectPort"
  have "unat (v mod 44616) < 44616" by (simp add: unat_mod)
  then have "autoPort (unat ?w)"
    by (simp add: port_defs autoPort_def unat_word_ariths)
  moreover have "(ucast ?w :: card16) = of_nat (unat ?w)" by simp
  ultimately show thesis by (rule that)
qed

lemma even_port_range: "p \<in> set EvenPorts \<longleftrightarrow> autoPort p \<and> even p"
proof
  assume "autoPort p \<and> even p"
  then have "p = 16384 + 2 * ((p - 16384) div 2)" "(p - 16384) div 2 < 22308" unfolding autoPort_def by presburger+
  then show "p \<in> set EvenPorts" unfolding EvenPorts_def by fastforce
qed (auto simp: EvenPorts_def autoPort_def)

lemma withPort_withPort [simp]: "withPort p (withPort q sa) = withPort p sa"
  by (cases sa) simp_all

text \<open>Addresses that differ in the port only.\<close>

definition samePlace :: "sockaddr \<Rightarrow> sockaddr \<Rightarrow> bool" where
  "samePlace sa a = (\<forall>p. withPort p a = withPort p sa)"

lemma samePlace_refl: "samePlace sa sa" and samePlace_withPort: "samePlace sa a \<Longrightarrow> samePlace sa (withPort p a)"
  by (simp_all add: samePlace_def)

lemma bind_attempt_samePlace:
  "samePlace sa a \<Longrightarrow> bind_attempt xe cb fd len p a x =
     andThen (ext_bind xe cb fd (withPort p sa) len x) (\<lambda>(r, x). Inr (r, withPort p sa, x))"
  by (simp add: bind_attempt_def samePlace_def)

text \<open>One round of a loop with the port \<open>p\<close>; \<open>rest\<close> are the remaining rounds.\<close>

definition bind_round ::
  "('l, 'o) xenv \<Rightarrow> 'l callback \<Rightarrow> int \<Rightarrow> nat \<Rightarrow> sockaddr \<Rightarrow> nat \<Rightarrow> CppSocket \<Rightarrow> ('l, 'o) ext
   \<Rightarrow> (CppSocket \<Rightarrow> sockaddr \<Rightarrow> ('l, 'o) ext \<Rightarrow> (outcome \<times> CppSocket \<times> sockaddr \<times> ('l, 'o) ext) result)
   \<Rightarrow> (outcome \<times> CppSocket \<times> sockaddr \<times> ('l, 'o) ext) result" where
  "bind_round xe cb fd len sa p s x rest =
     (let a = withPort (htons (of_nat p)) sa in
      andThen (ext_bind xe cb fd a len x) (\<lambda>(result, x).
      if result = 0 then Inr (Bound, s, a, x)
      else if errno x = EPROTONOSUPPORT then Inr (Refused, s\<lparr>LastError := errno x\<rparr>, a, x)
      else rest (s\<lparr>LastError := errno x\<rparr>) a x))"

lemma bind_round_cases:
  assumes "bind_round xe cb fd len sa p s x rest = Inr z"
  obtains (bound) y where "ext_bind xe cb fd (withPort (htons (of_nat p)) sa) len x = Inr (0, y)"
      "z = (Bound, s, withPort (htons (of_nat p)) sa, y)"
    | (refused) y where "z = (Refused, s\<lparr>LastError := errno y\<rparr>, withPort (htons (of_nat p)) sa, y)"
    | (again) y where "rest (s\<lparr>LastError := errno y\<rparr>) (withPort (htons (of_nat p)) sa) y = Inr z"
  using assms by (auto simp: bind_round_def Let_def andThen_eq_Inr split: if_splits)

lemma random_round:
  assumes "samePlace sa a"
  obtains p r' where "autoPort p"
    "random_ports (bind_attempt xe cb fd len) (Suc n) r s a x =
       bind_round xe cb fd len sa p s x (random_ports (bind_attempt xe cb fd len) n r')"
proof -
  obtain v r' where v: "Randomizers.random32 r = (v, r')" by (cases "Randomizers.random32 r")
  obtain p where p: "autoPort p" "(ucast (v mod (MaxAutoSelectPort - MinAutoSelectPort) + MinAutoSelectPort) :: card16) = of_nat p"
    by (rule random_port_range)
  show thesis
    by (rule that [OF p(1), of r'])
      (cases "ext_bind xe cb fd (withPort (htons (of_nat p)) sa) len x";
        auto simp: bind_attempt_samePlace [OF assms] bind_round_def v p(2) Let_def)
qed

lemma even_round:
  "samePlace sa a \<Longrightarrow> even_ports (bind_attempt xe cb fd len) (p # ps) s a x =
     bind_round xe cb fd len sa p s x (even_ports (bind_attempt xe cb fd len) ps)"
  by (cases "ext_bind xe cb fd (withPort (htons (of_nat p)) sa) len x") (auto simp: bind_attempt_samePlace bind_round_def Let_def)

lemma samePlace_new: "samePlace sa (withPort p sa)"
  by (simp add: samePlace_def)

text \<open>What the loops report: the last call bound the port, or its error code is the last error.\<close>

definition reported :: "(card16 \<Rightarrow> ('l, 'o) ext \<Rightarrow> (int \<times> ('l, 'o) ext) result) \<Rightarrow> outcome \<Rightarrow> CppSocket \<Rightarrow> ('l, 'o) ext \<Rightarrow> bool" where
  "reported bindTo out s' x' =
     (if out = Bound then \<exists>p y. autoPort p \<and> bindTo (htons (of_nat p)) y = Inr (0, x') else LastError s' = errno x')"

lemma random_ports_reported:
  "random_ports (bind_attempt xe cb fd len) n r s a x = Inr (out, s', a', x') \<Longrightarrow> samePlace sa a \<Longrightarrow>
   n > 0 \<or> LastError s = errno x \<Longrightarrow>
   samePlace sa a' \<and> reported (\<lambda>p. ext_bind xe cb fd (withPort p sa) len) out s' x'"
proof (induction n arbitrary: r s a x)
  case 0
  then show ?case by (simp add: reported_def)
next
  case (Suc n)
  obtain p r' where p: "autoPort p" "random_ports (bind_attempt xe cb fd len) (Suc n) r s a x =
       bind_round xe cb fd len sa p s x (random_ports (bind_attempt xe cb fd len) n r')"
    by (rule random_round [OF Suc.prems(2)])
  from Suc.prems(1) [unfolded p(2)] show ?case
    by (cases rule: bind_round_cases) (use p(1) Suc.IH in \<open>auto simp: reported_def samePlace_new\<close>)
qed

lemma even_ports_reported:
  "even_ports (bind_attempt xe cb fd len) ps s a x = Inr (out, s', a', x') \<Longrightarrow> samePlace sa a \<Longrightarrow> \<forall>p \<in> set ps. autoPort p \<Longrightarrow>
   ps \<noteq> [] \<or> LastError s = errno x \<Longrightarrow> reported (\<lambda>p. ext_bind xe cb fd (withPort p sa) len) out s' x'"
proof (induction ps arbitrary: s a x)
  case Nil
  then show ?case by (simp add: reported_def)
next
  case (Cons p ps)
  from Cons.prems(1) [unfolded even_round [OF Cons.prems(2)]] show ?case
    by (cases rule: bind_round_cases) (use Cons in \<open>auto simp: reported_def samePlace_new\<close>)
qed

section \<open>A free port is found\<close>

text \<open>
  A system in which the free ports do not change while the search fails, and which never says that
  it does not support the protocol.
\<close>

definition stable :: "(card16 \<Rightarrow> ('l, 'o) ext \<Rightarrow> (int \<times> ('l, 'o) ext) result) \<Rightarrow> (nat \<Rightarrow> bool) \<Rightarrow> (('l, 'o) ext \<Rightarrow> bool) \<Rightarrow> bool" where
  "stable bindTo free I =
     (\<forall>p y. autoPort p \<and> I y \<longrightarrow>
        (\<exists>y'. bindTo (htons (of_nat p)) y = Inr (if free p then 0 else - 1, y') \<and> I y' \<and> (\<not> free p \<longrightarrow> errno y' \<noteq> EPROTONOSUPPORT)))"

lemma stable_round:
  assumes "stable (\<lambda>p. ext_bind xe cb fd (withPort p sa) len) free I" "autoPort p" "I x"
  obtains y where "I y" "bind_round xe cb fd len sa p s x rest =
    (if free p then Inr (Bound, s, withPort (htons (of_nat p)) sa, y)
     else rest (s\<lparr>LastError := errno y\<rparr>) (withPort (htons (of_nat p)) sa) y)"
  using assms unfolding stable_def bind_round_def by fastforce

lemma random_ports_stable:
  assumes "stable (\<lambda>p. ext_bind xe cb fd (withPort p sa) len) free I"
  shows "samePlace sa a \<Longrightarrow> I x \<Longrightarrow>
    \<exists>out s' a' x'. random_ports (bind_attempt xe cb fd len) n r s a x = Inr (out, s', a', x') \<and> out \<noteq> Refused \<and> samePlace sa a' \<and> I x'"
proof (induction n arbitrary: r s a x)
  case (Suc n)
  obtain p r' where p: "autoPort p" "random_ports (bind_attempt xe cb fd len) (Suc n) r s a x =
       bind_round xe cb fd len sa p s x (random_ports (bind_attempt xe cb fd len) n r')"
    by (rule random_round [OF Suc.prems(1)])
  obtain y where "I y" "bind_round xe cb fd len sa p s x (random_ports (bind_attempt xe cb fd len) n r') =
    (if free p then Inr (Bound, s, withPort (htons (of_nat p)) sa, y)
     else random_ports (bind_attempt xe cb fd len) n r' (s\<lparr>LastError := errno y\<rparr>) (withPort (htons (of_nat p)) sa) y)"
    by (rule stable_round [OF assms p(1) Suc.prems(2)])
  with p(2) Suc.IH [OF samePlace_new] show ?case by (simp add: samePlace_new)
qed simp

lemma even_ports_stable:
  assumes "stable (\<lambda>p. ext_bind xe cb fd (withPort p sa) len) free I"
  shows "samePlace sa a \<Longrightarrow> I x \<Longrightarrow> \<forall>p \<in> set ps. autoPort p \<Longrightarrow> \<exists>p \<in> set ps. free p \<Longrightarrow>
    \<exists>s' a' x'. even_ports (bind_attempt xe cb fd len) ps s a x = Inr (Bound, s', a', x')"
proof (induction ps arbitrary: s a x)
  case (Cons p ps)
  have "autoPort p" using Cons.prems(3) by simp
  obtain y where "I y" "bind_round xe cb fd len sa p s x (even_ports (bind_attempt xe cb fd len) ps) =
    (if free p then Inr (Bound, s, withPort (htons (of_nat p)) sa, y)
     else even_ports (bind_attempt xe cb fd len) ps (s\<lparr>LastError := errno y\<rparr>) (withPort (htons (of_nat p)) sa) y)"
    by (rule stable_round [OF assms \<open>autoPort p\<close> Cons.prems(2)])
  with Cons.IH [OF samePlace_new \<open>I y\<close>] Cons.prems(3,4) show ?case
    unfolding even_round [OF Cons.prems(1)] by (cases "free p") simp_all
qed simp

section \<open>The property\<close>

lemma RandomRounds_pos: "0 < RandomRounds"
  by (simp add: RandomRounds_def)

lemma EvenPorts_ne: "EvenPorts \<noteq> []"
  by (simp add: EvenPorts_def)

lemma auto_bind_reported:
  assumes "auto_bind (bind_attempt xe cb fd len) (bind_attempt xe cb fd len) s sa x = Inr (ok, s', x')"
  shows "reported (\<lambda>p. ext_bind xe cb fd (withPort p sa) len) (if ok then Bound else Exhausted) s' x'"
proof -
  obtain out t a y where r: "random_ports (bind_attempt xe cb fd len) RandomRounds (Randomizer_new (Now (Core x))) s sa x = Inr (out, t, a, y)"
    "(case out of Bound \<Rightarrow> Inr (True, t, y) | Refused \<Rightarrow> Inr (False, t, y)
      | Exhausted \<Rightarrow> andThen (even_ports (bind_attempt xe cb fd len) EvenPorts t a y) (\<lambda>(out, s, a, x). Inr (out = Bound, s, x))) =
     Inr (ok, s', x')"
    using assms unfolding auto_bind_def andThen_eq_Inr by (auto simp del: random_ports.simps)
  have a: "samePlace sa a" "reported (\<lambda>p. ext_bind xe cb fd (withPort p sa) len) out t y"
    using random_ports_reported [OF r(1) samePlace_refl] RandomRounds_pos by simp_all
  show ?thesis
  proof (cases out)
    case Exhausted
    then obtain out' a' where e: "even_ports (bind_attempt xe cb fd len) EvenPorts t a y = Inr (out', s', a', x')" "ok = (out' = Bound)"
      using r(2) by (auto simp: andThen_eq_Inr)
    have "reported (\<lambda>p. ext_bind xe cb fd (withPort p sa) len) out' s' x'"
      by (rule even_ports_reported [OF e(1) a(1)]) (simp_all add: even_port_range EvenPorts_ne)
    with e(2) show ?thesis by (auto simp: reported_def)
  qed (use r(2) a(2) in \<open>auto simp: reported_def\<close>)
qed

lemma auto_bind_stable:
  assumes "stable (\<lambda>p. ext_bind xe cb fd (withPort p sa) len) free I" "I x" "autoPort p" "even p" "free p"
  shows "\<exists>s' x'. auto_bind (bind_attempt xe cb fd len) (bind_attempt xe cb fd len) s sa x = Inr (True, s', x')"
proof -
  obtain out t a y where r: "random_ports (bind_attempt xe cb fd len) RandomRounds (Randomizer_new (Now (Core x))) s sa x = Inr (out, t, a, y)"
    "out \<noteq> Refused" "samePlace sa a" "I y"
    using random_ports_stable [OF assms(1) samePlace_refl assms(2)] by blast
  moreover have "\<exists>s' a' x'. even_ports (bind_attempt xe cb fd len) EvenPorts t a y = Inr (Bound, s', a', x')"
    by (rule even_ports_stable [OF assms(1) r(3,4)]) (use assms(3-5) in \<open>auto simp: even_port_range\<close>)
  ultimately show ?thesis unfolding auto_bind_def by (cases out) auto
qed

text \<open>
  C14. Binding to a port of choice. When the address has no port, \<^verbatim>\<open>bind\<close> tries ports from 16384 to 60999
  only; when it succeeds its last call bound such a port, when it fails \<^verbatim>\<open>LastError\<close> has the error code
  of its last call. If which ports are free does not change during the search and the protocol is
  supported, it succeeds as soon as one even port of the range is free.
\<close>

theorem bind_searches_ports:
  fixes xe :: "('l, 'o) xenv"
  assumes "Any_getSystemAddress (UseIPv6 (AE (E xe))) address MaxSockLen (cardinal_of_int (SocketFamily s)) = (len, Some sa)"
    "0 < len" "isInternet sa" "sa_port sa = 0"
  shows "let bindTo = (\<lambda>p. ext_bind xe cb (SocketDescriptor s) (withPort (htons (of_nat p)) sa) len) in
    (\<forall>s' x'. Cpp_bind xe cb address s x = Inr (True, s', x') \<longrightarrow> (\<exists>p y. 16384 \<le> p \<and> p < 61000 \<and> bindTo p y = Inr (0, x'))) \<and>
    (\<forall>s' x'. Cpp_bind xe cb address s x = Inr (False, s', x') \<longrightarrow> LastError s' = errno x') \<and>
    (\<forall>free I. I x \<and> (\<forall>p y. 16384 \<le> p \<and> p < 61000 \<and> I y \<longrightarrow>
          (\<exists>y'. bindTo p y = Inr (if free p then 0 else - 1, y') \<and> I y' \<and> (\<not> free p \<longrightarrow> errno y' \<noteq> EPROTONOSUPPORT))) \<and>
        (\<exists>p. 16384 \<le> p \<and> p < 61000 \<and> even p \<and> free p) \<longrightarrow>
       (\<exists>s' x'. Cpp_bind xe cb address s x = Inr (True, s', x')))"
proof -
  let ?bindTo = "\<lambda>p. ext_bind xe cb (SocketDescriptor s) (withPort p sa) len"
  have bind: "Cpp_bind xe cb address s x =
      auto_bind (bind_attempt xe cb (SocketDescriptor s) len) (bind_attempt xe cb (SocketDescriptor s) len) s sa x"
    using assms(1-4) by (simp add: Cpp_bind_def Let_def)
  note reports = auto_bind_reported [of xe cb "SocketDescriptor s" len s sa x, unfolded reported_def autoPort_def]
  have found: "\<exists>s' x'. Cpp_bind xe cb address s x = Inr (True, s', x')"
    if "I x" "\<forall>p y. 16384 \<le> p \<and> p < 61000 \<and> I y \<longrightarrow>
          (\<exists>y'. ?bindTo (htons (of_nat p)) y = Inr (if free p then 0 else - 1, y') \<and> I y' \<and> (\<not> free p \<longrightarrow> errno y' \<noteq> EPROTONOSUPPORT))"
      "16384 \<le> p" "p < 61000" "even p" "free p" for free I p
    unfolding bind
    by (rule auto_bind_stable [of _ _ _ _ _ free I _ p]) (use that in \<open>simp_all add: stable_def autoPort_def\<close>)
  have "\<exists>p y. 16384 \<le> p \<and> p < 61000 \<and> ?bindTo (htons (of_nat p)) y = Inr (0, x')" if "Cpp_bind xe cb address s x = Inr (True, s', x')" for s' x'
    using reports [of True s' x'] that [unfolded bind] by auto
  moreover have "LastError s' = errno x'" if "Cpp_bind xe cb address s x = Inr (False, s', x')" for s' x'
    using reports [of False s' x'] that [unfolded bind] by simp
  ultimately show ?thesis unfolding Let_def using found by blast
qed

text \<open>A system where port 16384 is the only free one.\<close>

definition busy_xenv :: "(nat, nat) xenv" where
  "busy_xenv = sample_xenv\<lparr>Sys := \<lambda>os c. case c of
     Sys_bind fd sa len \<Rightarrow> (sample_reply (if sa_port sa = htons 16384 then 0 else - 1) 98, os) | _ \<Rightarrow> (sample_reply 0 0, os)\<rparr>"

theorem bind_searches_ports_witness:
  "\<exists>s' x'. Cpp_bind busy_xenv (deliver sample 0) (Plain (Internet \<lparr>Host16 = replicate 8 0, Port = 0, ScopeID = 0, Valid = True, Format = 0\<rparr>))
     (Socket_init\<lparr>SocketDescriptor := 5, SocketFamily := 10\<rparr>) (start_ext\<lparr>Table := initialTable(5 := ESDT_System 9)\<rparr>) = Inr (True, s', x')"
proof -
  let ?a = "Plain (Internet \<lparr>Host16 = replicate 8 0, Port = 0, ScopeID = 0, Valid = True, Format = 0\<rparr>)"
  let ?s = "Socket_init\<lparr>SocketDescriptor := 5, SocketFamily := 10\<rparr>"
  let ?sa = "SockaddrIn6 0 0 (replicate 8 0) 0"
  let ?I = "\<lambda>x :: (nat, nat) ext. Table x 5 = ESDT_System 9"
  have h: "Any_getSystemAddress (UseIPv6 (AE (E busy_xenv))) ?a MaxSockLen (cardinal_of_int (SocketFamily ?s)) = (28, Some ?sa)"
    "(0 :: nat) < 28" "isInternet ?sa" "sa_port ?sa = 0"
    by (simp_all add: getSystemAddress_def af_defs cardinal_of_int_def MaxSockLen_def sizeof_sockaddr_in6_def isInternet_def Let_def)
  have port: "htons (of_nat p) = htons 16384 \<longleftrightarrow> p = 16384" if "p < 61000" for p
    using that word_of_nat_eq_iff [where 'a = 16, of p 16384] by (simp add: order16.inj take_bit_eq_mod)
  have call: "\<exists>y'. ext_bind busy_xenv (deliver sample 0) (SocketDescriptor ?s) (withPort (htons (of_nat p)) ?sa) 28 y = Inr (if p = 16384 then 0 else - 1, y') \<and>
      ?I y' \<and> (p \<noteq> 16384 \<longrightarrow> errno y' \<noteq> EPROTONOSUPPORT)" if "16384 \<le> p \<and> p < 61000 \<and> ?I y" for p y
    using that port [of p]
    by (simp add: ext_bind_def getSocket_def MaxSockets_def sysReturn_def system_def busy_xenv_def sample_reply_def EPROTONOSUPPORT_def)
  note found = bind_searches_ports [OF h, unfolded Let_def, THEN conjunct2, THEN conjunct2, THEN spec [of _ "\<lambda>p. p = 16384"], THEN spec [of _ ?I]]
  show ?thesis
    by (rule mp [OF found], rule conjI [OF _ conjI]) (simp, intro allI impI, rule call, simp, rule exI [of _ 16384], simp)
qed

end
