(* ===== verification/CppOptionLaws.thy ===== *)
theory CppOptionLaws
  imports CppLaws
begin

text \<open>
  Options of the class \<^verbatim>\<open>Socket\<close>: blocking mode and linger time of SCTP sockets read back as set, and the
  reports about multicast groups.
\<close>

section \<open>Bits of the file flags\<close>

lemma bit_O_NONBLOCK: "bit O_NONBLOCK n \<longleftrightarrow> n = 11"
proof -
  have "O_NONBLOCK = push_bit 11 1" by (simp add: O_NONBLOCK_def push_bit_eq_mult)
  note power = this
  show ?thesis unfolding power bit_push_bit_iff bit_1_iff by auto
qed

definition newFlags :: "bool \<Rightarrow> card32 \<Rightarrow> card32" where
  "newFlags on f = (if on then f AND NOT O_NONBLOCK else f OR O_NONBLOCK)"

lemma bit_wide: "n < 32 \<Longrightarrow> bit (of_int (sint f) :: card64) n = bit (f :: card32) n"
  by (simp add: bit_simps)

lemma flags_word:
  "(ucast (if on then (of_int (sint f) :: card64) AND NOT (ucast O_NONBLOCK) else of_int (sint f) OR ucast O_NONBLOCK) :: card32) =
   newFlags on f"
  by (rule bit_word_eqI) (auto simp: newFlags_def bit_simps bit_O_NONBLOCK)

lemma newFlags_sign: "0 \<le> sint f \<Longrightarrow> 0 \<le> sint (newFlags on f)"
proof -
  have sign: "0 \<le> sint w \<longleftrightarrow> \<not> bit w 31" for w :: card32
    using bit_last_iff [of w] by auto
  show "0 \<le> sint f \<Longrightarrow> 0 \<le> sint (newFlags on f)"
    unfolding sign by (simp add: newFlags_def bit_simps bit_O_NONBLOCK)
qed

lemma newFlags_nonblock: "(of_int (sint (newFlags on f)) :: card64) AND ucast O_NONBLOCK = 0 \<longleftrightarrow> on"
proof -
  have "(w :: card64) AND ucast O_NONBLOCK = 0 \<longleftrightarrow> \<not> bit w 11" for w
  proof
    assume "w AND ucast O_NONBLOCK = 0"
    then have "\<not> bit (w AND ucast O_NONBLOCK) 11" by simp
    then show "\<not> bit w 11" by (simp add: bit_simps bit_O_NONBLOCK)
  qed (rule bit_word_eqI, auto simp: bit_simps bit_O_NONBLOCK)
  then show ?thesis by (simp add: bit_wide) (simp add: newFlags_def bit_simps bit_O_NONBLOCK)
qed

section \<open>Options that read back\<close>

lemma fcntl_sctp:
  assumes "getSocket (SocketDescriptor s) = Some i" "Table x i = ESDT_SCTP d" "0 \<le> sint (DFlags d)"
  shows "Cpp_fcntl xe F_GETFL arg s x = Inr (sint (DFlags d), if DFlags d \<noteq> 0 then s\<lparr>LastError := errno x\<rparr> else s, x)"
    "Cpp_fcntl xe F_SETFL arg s x = Inr (0, s, x\<lparr>Table := (Table x)(i := ESDT_SCTP (d\<lparr>DFlags := ucast arg\<rparr>))\<rparr>)"
  using assms
  by (simp_all add: Cpp_fcntl_def note_nonzero_def ext_fcntl_def errno_return_def updD_def F_GETFL_def F_SETFL_def signed_eq_0_iff)

text \<open>
  C36. Blocking mode and linger time of an SCTP socket read back as they were set. Reading the flags of the
  descriptor counts as an error although it succeeds: unless all flags are zero, \<^verbatim>\<open>LastError\<close> becomes the old \<^verbatim>\<open>errno\<close>.
\<close>

theorem cpp_options_read_back:
  assumes "getSocket (SocketDescriptor s) = Some i" "Table x i = ESDT_SCTP d" "0 \<le> sint (DFlags d)" "0 \<le> sint time"
  shows "(\<exists>s' x' s''. setBlockingMode xe on s x = Inr (True, s', x') \<and> getBlockingMode xe s' x' = Inr (on, s'', x') \<and>
       (DFlags d \<noteq> 0 \<longrightarrow> LastError s' = errno x)) \<and>
    (\<exists>x'. setSoLinger xe on time s x = Inr (True, s, x') \<and> getSoLinger xe s x' = Inr (time, s, x'))"
proof (rule conjI)
  let ?s = "if DFlags d \<noteq> 0 then s\<lparr>LastError := errno x\<rparr> else s"
  let ?d = "d\<lparr>DFlags := newFlags on (DFlags d)\<rparr>"
  let ?x = "x\<lparr>Table := (Table x)(i := ESDT_SCTP ?d)\<rparr>"
  have fd: "getSocket (SocketDescriptor ?s) = Some i" using assms(1) by simp
  have "sint (DFlags d) \<noteq> - 1" using assms(3) by simp
  then have "setBlockingMode xe on s x = Inr (True, ?s, ?x)"
    using fcntl_sctp(1) [OF assms(1-3)] fcntl_sctp(2) [OF fd assms(2,3)]
    by (simp add: setBlockingMode_def flags_word Let_def del: of_int_sint)
  moreover have "getBlockingMode xe ?s ?x = Inr (on, if newFlags on (DFlags d) \<noteq> 0 then ?s\<lparr>LastError := errno x\<rparr> else ?s, ?x)"
    using fcntl_sctp(1) [OF fd, of ?x ?d] newFlags_sign [OF assms(3), of on]
    by (simp add: getBlockingMode_def newFlags_nonblock del: of_int_sint)
  ultimately show "\<exists>s' x' s''. setBlockingMode xe on s x = Inr (True, s', x') \<and> getBlockingMode xe s' x' = Inr (on, s'', x') \<and>
       (DFlags d \<noteq> 0 \<longrightarrow> LastError s' = errno x)"
    by (intro exI conjI) (assumption, assumption, simp)
  show "\<exists>x'. setSoLinger xe on time s x = Inr (True, s, x') \<and> getSoLinger xe s x' = Inr (time, s, x')"
    using assms
    by (intro exI [of _ "x\<lparr>Table := (Table x)(i := ESDT_SCTP (d\<lparr>Linger := \<lparr>l_onoff = (if on then 1 else 0), l_linger = sint time\<rparr>\<rparr>))\<rparr>"])
      (simp add: setSoLinger_def getSoLinger_def setSucceeds_def setSocketOption_def getSocketOption_def ext_setsockopt_def
        ext_getsockopt_def setLinger_def errno_return_def optDone_def updD_def level_defs Let_def)
qed

text \<open>The sample socket with non-blocking mode gets a linger time of 30 seconds and the blocking mode.\<close>

theorem cpp_options_read_back_witness:
  "let d = (newDesc AF_INET SOCK_STREAM 1)\<lparr>DFlags := O_NONBLOCK\<rparr>;
       s = Socket_init\<lparr>SocketDescriptor := 5\<rparr>; x = open_ext\<lparr>Table := initialTable(5 := ESDT_SCTP d), errno := 11\<rparr>
   in (\<exists>s' x' s''. setBlockingMode sample_xenv True s x = Inr (True, s', x') \<and> getBlockingMode sample_xenv s' x' = Inr (True, s'', x') \<and>
         LastError s' = 11) \<and>
      (\<exists>x'. setSoLinger sample_xenv True 30 s x = Inr (True, s, x') \<and> getSoLinger sample_xenv s x' = Inr (30, s, x'))"
proof -
  let ?d = "(newDesc AF_INET SOCK_STREAM 1)\<lparr>DFlags := O_NONBLOCK\<rparr>"
  let ?s = "Socket_init\<lparr>SocketDescriptor := 5\<rparr>"
  let ?x = "open_ext\<lparr>Table := initialTable(5 := ESDT_SCTP ?d), errno := 11\<rparr>"
  have "getSocket (SocketDescriptor ?s) = Some 5" "Table ?x 5 = ESDT_SCTP ?d" "0 \<le> sint (DFlags ?d)" "0 \<le> sint (30 :: card32)"
    by (simp_all add: getSocket_def MaxSockets_def O_NONBLOCK_def)
  from cpp_options_read_back [OF this, of sample_xenv True] show ?thesis by (simp add: Let_def O_NONBLOCK_def)
qed

section \<open>Multicast groups\<close>

text \<open>
  Joining or leaving a multicast group reports success when it cannot even be tried: for a socket that is
  neither IPv4 nor IPv6, and for an address that does not fit the socket. No call is made and nothing changes.
  When the call is made, the report is right.
\<close>

theorem multicast_errors_succeed:
  fixes xe :: "('l, 'o) xenv"
  shows "(SocketFamily s \<notin> {int AF_INET, int AF_INET6} \<or>
     SocketFamily s = int AF_INET \<and> fst (Any_getSystemAddress (UseIPv6 (AE (E xe))) address sizeof_sockaddr_in AF_INET) = 0 \<or>
     SocketFamily s = int AF_INET6 \<and> fst (Any_getSystemAddress (UseIPv6 (AE (E xe))) address sizeof_sockaddr_in6 AF_INET6) = 0 \<longrightarrow>
     addMulticastMembership xe ifs address interface s x = Inr (True, s, x) \<and>
     dropMulticastMembership xe ifs address interface s x = Inr (True, s, x)) \<and>
   (SocketFamily s = int AF_INET6 \<and>
     Any_getSystemAddress (UseIPv6 (AE (E xe))) address sizeof_sockaddr_in6 AF_INET6 = (28, Some sa) \<and>
     setSocketOption xe IPPROTO_IPV6 IPV6_JOIN_GROUP
       (OptMulticast6 \<lparr>ipv6mr_multiaddr = sin6_addr sa, ipv6mr_interface = 0\<rparr>) s x = Inr ((r, v), s', x') \<longrightarrow>
     addMulticastMembership xe ifs address None s x = Inr (r = 0, s', x'))"
  by (auto simp: addMulticastMembership_def dropMulticastMembership_def multicastMembership_def Let_def af_defs case_prod_unfold)

text \<open>A Unix domain socket joins any group.\<close>

theorem multicast_errors_succeed_witness:
  "addMulticastMembership sample_xenv \<lparr>if_address = \<lambda>_. [0, 0], if_nametoindex = \<lambda>_. 0\<rparr>
     (Plain (Internet \<lparr>Host16 = replicate 8 0, Port = 0, ScopeID = 0, Valid = True, Format = 0\<rparr>)) None
     (Socket_init\<lparr>SocketFamily := 1\<rparr>) start_ext = Inr (True, Socket_init\<lparr>SocketFamily := 1\<rparr>, start_ext)"
  using multicast_errors_succeed [of "Socket_init\<lparr>SocketFamily := 1\<rparr>" sample_xenv] by (simp add: af_defs)

end
