(* ===== verification/Sorting.thy ===== *)
theory Sorting
  imports Prelude "HOL-Library.Multiset"
begin

text \<open>
  The sorting templates of \<^verbatim>\<open>tools.icc\<close>. An array is a list; reading or writing outside of it is a fault, and so
  is a sum of indices that does not fit in an \<^verbatim>\<open>integer\<close> of 32 bits. The partition moves two indices towards each
  other; that they stay inside the array is part of what is proved.
\<close>

section \<open>The templates\<close>

definition inside :: "int \<Rightarrow> 'a list \<Rightarrow> bool" where
  "inside i xs = (0 \<le> i \<and> i < int (length xs))"

definition at :: "'a list \<Rightarrow> int \<Rightarrow> 'a" where
  "at xs i = xs ! nat i"

lemma andThen_cong [fundef_cong]:
  "r = r' \<Longrightarrow> (\<And>x. r' = Inr x \<Longrightarrow> f x = g x) \<Longrightarrow> andThen r f = andThen r' g"
  by (cases r') (auto simp: andThen_def)

text \<open>\<^verbatim>\<open>while(lt(array[i],v)) i++;\<close> and \<^verbatim>\<open>while(gt(array[j],v)) j--;\<close>.\<close>

function scan_up :: "('a \<Rightarrow> bool) \<Rightarrow> 'a list \<Rightarrow> int \<Rightarrow> int result" where
  "scan_up smaller xs i =
     (if inside i xs then if smaller (at xs i) then scan_up smaller xs (i + 1) else Inr i else Inl BadPointer)"
  by auto
termination by (relation "measure (\<lambda>(_, xs, i). nat (int (length xs) - i))") (auto simp: inside_def)

function scan_down :: "('a \<Rightarrow> bool) \<Rightarrow> 'a list \<Rightarrow> int \<Rightarrow> int result" where
  "scan_down bigger xs j =
     (if inside j xs then if bigger (at xs j) then scan_down bigger xs (j - 1) else Inr j else Inl BadPointer)"
  by auto
termination by (relation "measure (\<lambda>(_, xs, j). nat (j + 1))") (auto simp: inside_def)

declare scan_up.simps [simp del] scan_down.simps [simp del]

definition swap :: "'a list \<Rightarrow> int \<Rightarrow> int \<Rightarrow> 'a list" where
  "swap xs i j = xs[nat i := at xs j, nat j := at xs i]"

lemma scan_up_stops: "scan_up smaller xs i = Inr i' \<Longrightarrow> i \<le> i' \<and> inside i' xs \<and> \<not> smaller (at xs i')"
proof (induction smaller xs i rule: scan_up.induct)
  case (1 smaller xs i)
  from 1(2) show ?case
    by (subst (asm) scan_up.simps) (use 1(1) in \<open>fastforce split: if_splits\<close>)
qed

lemma scan_down_stops: "scan_down bigger xs j = Inr j' \<Longrightarrow> j' \<le> j \<and> inside j' xs \<and> \<not> bigger (at xs j')"
proof (induction bigger xs j rule: scan_down.induct)
  case (1 bigger xs j)
  from 1(2) show ?case
    by (subst (asm) scan_down.simps) (use 1(1) in \<open>fastforce split: if_splits\<close>)
qed

text \<open>The loop that partitions the array around \<open>v\<close>.\<close>

function partition_loop ::
  "('a \<Rightarrow> 'a \<Rightarrow> bool) \<Rightarrow> ('a \<Rightarrow> 'a \<Rightarrow> bool) \<Rightarrow> 'a \<Rightarrow> 'a list \<Rightarrow> int \<Rightarrow> int \<Rightarrow> ('a list \<times> int \<times> int) result" where
  "partition_loop lt gt v xs i j =
     andThen (scan_up (\<lambda>x. lt x v) xs i) (\<lambda>i.
     andThen (scan_down (\<lambda>x. gt x v) xs j) (\<lambda>j.
     if i \<le> j then
       if i + 1 \<le> j - 1 then partition_loop lt gt v (swap xs i j) (i + 1) (j - 1)
       else Inr (swap xs i j, i + 1, j - 1)
     else Inr (xs, i, j)))"
  by auto
termination
  by (relation "measure (\<lambda>(_, _, _, _, i, j). nat (j - i + 1))") (auto dest!: scan_up_stops scan_down_stops)

declare partition_loop.simps [simp del]

text \<open>The recursion; \<open>n\<close> bounds its depth.\<close>

fun quickSortPtr ::
  "nat \<Rightarrow> 'a list \<Rightarrow> int \<Rightarrow> int \<Rightarrow> ('a \<Rightarrow> 'a \<Rightarrow> bool) \<Rightarrow> ('a \<Rightarrow> 'a \<Rightarrow> bool) \<Rightarrow> 'a list result" where
  "quickSortPtr 0 array start stop lt gt = Inl OutOfFuel"
| "quickSortPtr (Suc n) array start stop lt gt =
     (if start + stop < 2 ^ 31 \<and> inside ((start + stop) div 2) array then
        andThen (partition_loop lt gt (at array ((start + stop) div 2)) array start stop) (\<lambda>(array, i, j).
        andThen (if start < j then quickSortPtr n array start j lt gt else Inr array) (\<lambda>array.
        if i < stop then quickSortPtr n array i stop lt gt else Inr array))
      else Inl BadPointer)"

definition quickSort :: "nat \<Rightarrow> 'a :: linorder list \<Rightarrow> int \<Rightarrow> int \<Rightarrow> 'a list result" where
  "quickSort n array start stop = quickSortPtr n array start stop (\<lambda>x y. x < y) (\<lambda>x y. x > y)"

text \<open>Sorting of groups: \<open>s\<close> is the start of the group. After the loop \<^verbatim>\<open>i\<close> is \<^verbatim>\<open>end + 1\<close>.\<close>

definition close_group ::
  "nat \<Rightarrow> ('a \<Rightarrow> 'a \<Rightarrow> bool) \<Rightarrow> ('a \<Rightarrow> 'a \<Rightarrow> bool) \<Rightarrow> ('a \<Rightarrow> 'a \<Rightarrow> bool) \<Rightarrow> int \<Rightarrow> 'a list \<times> int \<Rightarrow>
   ('a list \<times> int) result" where
  "close_group n lt gt geq i st = (case st of (array, s) \<Rightarrow>
     if inside s array \<and> inside i array then
       if \<not> geq (at array s) (at array i)
       then andThen (quickSortPtr n array s (i - 1) lt gt) (\<lambda>array. Inr (array, i))
       else Inr (array, s)
     else Inl BadPointer)"

definition quickSortGroupPtr ::
  "nat \<Rightarrow> 'a list \<Rightarrow> int \<Rightarrow> int \<Rightarrow> ('a \<Rightarrow> 'a \<Rightarrow> bool) \<Rightarrow> ('a \<Rightarrow> 'a \<Rightarrow> bool) \<Rightarrow> ('a \<Rightarrow> 'a \<Rightarrow> bool) \<Rightarrow>
   'a list result" where
  "quickSortGroupPtr n array start stop lt gt geq =
     (if stop - start > 1 then
        andThen (forEach (close_group n lt gt geq) [start + 1..stop] (array, start)) (\<lambda>st.
        andThen (close_group n lt gt geq (stop + 1) st) (\<lambda>(array, _). Inr array))
      else Inr array)"

section \<open>Scans and swaps\<close>

lemma scan_up_ends:
  assumes "i \<le> k" "inside i xs" "inside k xs" "\<not> smaller (at xs k)"
  shows "\<exists>i'. scan_up smaller xs i = Inr i' \<and> i' \<le> k \<and> (\<forall>l\<in>{i..<i'}. smaller (at xs l))"
  using assms
proof (induction smaller xs i rule: scan_up.induct)
  case (1 smaller xs i)
  show ?case
  proof (cases "smaller (at xs i)")
    case True
    with 1(2,5) have "i + 1 \<le> k" by (cases "i = k") auto
    moreover from this 1(3,4) have "inside (i + 1) xs" by (simp add: inside_def)
    ultimately obtain i' where i': "scan_up smaller xs (i + 1) = Inr i'" "i' \<le> k" "\<forall>l\<in>{i + 1..<i'}. smaller (at xs l)"
      using 1(1) [OF 1(3) True] 1(4,5) by blast
    have "l = i \<or> l \<in> {i + 1..<i'}" if "l \<in> {i..<i'}" for l using that by auto
    with i' True have "\<forall>l\<in>{i..<i'}. smaller (at xs l)" by blast
    with i' True 1(3) show ?thesis by (subst scan_up.simps) auto
  next
    case False
    with 1(2,3) show ?thesis by (subst scan_up.simps) auto
  qed
qed

lemma scan_down_ends:
  assumes "k \<le> j" "inside j xs" "inside k xs" "\<not> bigger (at xs k)"
  shows "\<exists>j'. scan_down bigger xs j = Inr j' \<and> k \<le> j' \<and> (\<forall>l\<in>{j'<..j}. bigger (at xs l))"
  using assms
proof (induction bigger xs j rule: scan_down.induct)
  case (1 bigger xs j)
  show ?case
  proof (cases "bigger (at xs j)")
    case True
    with 1(2,5) have "k \<le> j - 1" by (cases "j = k") auto
    moreover from this 1(3,4) have "inside (j - 1) xs" by (simp add: inside_def)
    ultimately obtain j' where j': "scan_down bigger xs (j - 1) = Inr j'" "k \<le> j'" "\<forall>l\<in>{j'<..j - 1}. bigger (at xs l)"
      using 1(1) [OF 1(3) True] 1(4,5) by blast
    have "l = j \<or> l \<in> {j'<..j - 1}" if "l \<in> {j'<..j}" for l using that by auto
    with j' True have "\<forall>l\<in>{j'<..j}. bigger (at xs l)" by blast
    with j' True 1(3) show ?thesis by (subst scan_down.simps) auto
  next
    case False
    with 1(2,3) show ?thesis by (subst scan_down.simps) auto
  qed
qed

lemma length_swap [simp]: "length (swap xs i j) = length xs"
  by (simp add: swap_def)

lemma inside_swap [simp]: "inside k (swap xs i j) = inside k xs"
  by (simp add: inside_def)

lemma at_swap:
  assumes "inside i xs" "inside j xs" "inside k xs"
  shows "at (swap xs i j) k = at xs (if k = j then i else if k = i then j else k)"
  using assms by (auto simp: at_def swap_def inside_def nth_list_update nat_eq_iff)

lemma mset_swap_at: "inside i xs \<Longrightarrow> inside j xs \<Longrightarrow> mset (swap xs i j) = mset xs"
  using mset_swap [of "nat j" xs "nat i"] by (simp add: swap_def at_def inside_def nat_less_iff)

text \<open>Rearranging the elements at \<open>lo\<close> to \<open>hi\<close> only.\<close>

definition rearranged :: "int \<Rightarrow> int \<Rightarrow> 'a list \<Rightarrow> 'a list \<Rightarrow> bool" where
  "rearranged lo hi xs ys \<longleftrightarrow>
     length ys = length xs \<and> mset ys = mset xs \<and>
     (\<forall>k. inside k xs \<and> \<not> (lo \<le> k \<and> k \<le> hi) \<longrightarrow> at ys k = at xs k) \<and> at ys ` {lo..hi} = at xs ` {lo..hi}"

lemma rearranged_refl: "rearranged lo hi xs xs"
  by (simp add: rearranged_def)

lemma rearranged_trans: "rearranged lo hi xs ys \<Longrightarrow> rearranged lo hi ys zs \<Longrightarrow> rearranged lo hi xs zs"
  by (auto simp: rearranged_def inside_def)

lemma rearranged_swap:
  assumes "lo \<le> i" "i \<le> hi" "lo \<le> j" "j \<le> hi" "inside lo xs" "inside hi xs"
  shows "rearranged lo hi xs (swap xs i j)"
proof -
  have ins: "inside k xs" if "lo \<le> k" "k \<le> hi" for k using assms(5,6) that by (simp add: inside_def)
  let ?p = "\<lambda>k. if k = j then i else if k = i then j else k"
  have "at (swap xs i j) k = at xs (?p k)" if "inside k xs" for k
    using that ins assms(1-4) by (simp add: at_swap)
  moreover have "?p ` {lo..hi} = {lo..hi}" using assms(1-4) by (auto simp: image_iff)
  ultimately have "at (swap xs i j) ` {lo..hi} = at xs ` {lo..hi}"
    using ins by (smt (verit) atLeastAtMost_iff image_cong image_image)
  then show ?thesis
    using assms ins by (auto simp: rearranged_def at_swap mset_swap_at)
qed

lemma rearranged_mono:
  assumes "rearranged a b xs ys" "lo \<le> a" "b \<le> hi" "inside lo xs" "inside hi xs"
  shows "rearranged lo hi xs ys"
proof -
  have "{lo..hi} = {lo..hi} - {a..b} \<union> {a..b} \<inter> {lo..hi}" by auto
  have out: "at ys k = at xs k" if "k \<in> {lo..hi} - {a..b}" for k
    using assms that by (auto simp: rearranged_def inside_def)
  have "{lo..hi} = ({lo..hi} - {a..b}) \<union> {a..b}" if "a \<le> b" using assms(2,3) that by auto
  moreover have "at ys ` ({lo..hi} - {a..b}) = at xs ` ({lo..hi} - {a..b})" using out by (rule image_cong [OF refl])
  moreover have "at ys ` {a..b} = at xs ` {a..b}" using assms(1) by (simp add: rearranged_def)
  ultimately have "at ys ` {lo..hi} = at xs ` {lo..hi}" by (cases "a \<le> b") (metis image_Un, simp)
  with assms show ?thesis by (auto simp: rearranged_def)
qed

section \<open>Comparisons\<close>

text \<open>
  The interface of the comparison routines: they compare keys of a linear order. The laws of the partition and
  the recursion are proved for any such routines.
\<close>

locale comparison =
  fixes lt gt :: "'a \<Rightarrow> 'a \<Rightarrow> bool" and key :: "'a \<Rightarrow> 'k :: linorder"
  assumes lt_key: "lt x y = (key x < key y)"
    and gt_key: "gt x y = (key x > key y)"
begin

definition low :: "'a \<Rightarrow> 'a list \<Rightarrow> int \<Rightarrow> int \<Rightarrow> bool" where
  "low v xs a b = (\<forall>k. a \<le> k \<and> k < b \<longrightarrow> key (at xs k) \<le> key v)"

definition high :: "'a \<Rightarrow> 'a list \<Rightarrow> int \<Rightarrow> int \<Rightarrow> bool" where
  "high v xs a b = (\<forall>k. a < k \<and> k \<le> b \<longrightarrow> key v \<le> key (at xs k))"

text \<open>
  The state of the loop for the part \<open>lo\<close> to \<open>hi\<close>: the passed elements are on their sides, and each scan will
  find an element to stop at, in the first pass a common one.
\<close>

definition splitting :: "'a \<Rightarrow> 'a list \<Rightarrow> int \<Rightarrow> int \<Rightarrow> int \<Rightarrow> int \<Rightarrow> bool" where
  "splitting v xs lo hi i j \<longleftrightarrow>
     inside lo xs \<and> inside hi xs \<and> lo \<le> i \<and> i \<le> j \<and> j \<le> hi \<and> low v xs lo i \<and> high v xs j hi \<and>
     (lo < i \<and> j < hi \<or> (\<exists>m. i \<le> m \<and> m \<le> j \<and> key (at xs m) = key v))"

lemma scans_meet:
  assumes "splitting v xs lo hi i j"
  obtains i' j' where "scan_up (\<lambda>x. lt x v) xs i = Inr i'" "scan_down (\<lambda>x. gt x v) xs j = Inr j'"
    "i \<le> i'" "i' \<le> hi" "j' \<le> j" "lo \<le> j'" "low v xs lo i'" "high v xs j' hi"
    "key v \<le> key (at xs i')" "key (at xs j') \<le> key v" "i' \<le> j' \<or> lo < i' \<and> j' < hi"
proof -
  have ins: "inside k xs" if "lo \<le> k" "k \<le> hi" for k
    using assms that by (auto simp: splitting_def inside_def)
  from assms have ord: "lo \<le> i" "i \<le> j" "j \<le> hi" by (auto simp: splitting_def)
  obtain a b where a: "i \<le> a" "a \<le> hi" "key v \<le> key (at xs a)" and b: "lo \<le> b" "b \<le> j" "key (at xs b) \<le> key v"
    and ab: "a \<le> b \<or> lo < i \<and> j < hi"
  proof (cases "\<exists>m. i \<le> m \<and> m \<le> j \<and> key (at xs m) = key v")
    case True
    then obtain m where m: "i \<le> m" "m \<le> j" "key (at xs m) = key v" by blast
    show ?thesis by (rule that [of m m]) (use m ord in auto)
  next
    case False
    with assms have "lo < i" "j < hi" "low v xs lo i" "high v xs j hi" by (auto simp: splitting_def)
    then have "key v \<le> key (at xs (j + 1))" "key (at xs (i - 1)) \<le> key v" by (auto simp: low_def high_def)
    then show ?thesis by (intro that [of "j + 1" "i - 1"]) (use \<open>lo < i\<close> \<open>j < hi\<close> ord in auto)
  qed
  obtain i' where i': "scan_up (\<lambda>x. lt x v) xs i = Inr i'" "i' \<le> a" "\<forall>l\<in>{i..<i'}. lt (at xs l) v"
    using scan_up_ends [of i a xs "\<lambda>x. lt x v"] a ord ins by (auto simp: lt_key not_less)
  obtain j' where j': "scan_down (\<lambda>x. gt x v) xs j = Inr j'" "b \<le> j'" "\<forall>l\<in>{j'<..j}. gt (at xs l) v"
    using scan_down_ends [of b j xs "\<lambda>x. gt x v"] b ord ins by (auto simp: gt_key not_less)
  have stop: "i \<le> i'" "\<not> lt (at xs i') v" "j' \<le> j" "\<not> gt (at xs j') v"
    using scan_up_stops [OF i'(1)] scan_down_stops [OF j'(1)] by auto
  have "key (at xs k) \<le> key v" if "lo \<le> k" "k < i'" for k
    using assms i'(3) that by (cases "k < i") (auto simp: splitting_def low_def lt_key less_imp_le)
  then have "low v xs lo i'" by (simp add: low_def)
  moreover have "key v \<le> key (at xs k)" if "j' < k" "k \<le> hi" for k
    using assms j'(3) that by (cases "j < k") (auto simp: splitting_def high_def gt_key less_imp_le)
  then have "high v xs j' hi" by (simp add: high_def)
  ultimately show thesis
    by (intro that [of i' j']) (use i' j' stop a b ab in \<open>auto simp: lt_key gt_key not_less\<close>)
qed

lemma splitting_swap:
  assumes "lo \<le> i" "i \<le> j" "j \<le> hi" "inside lo xs" "inside hi xs" "low v xs lo i" "high v xs j hi"
    and "key v \<le> key (at xs i)" "key (at xs j) \<le> key v"
  shows "low v (swap xs i j) lo (i + 1)" "high v (swap xs i j) (j - 1) hi"
proof -
  have ins: "inside k xs" if "lo \<le> k" "k \<le> hi" for k using assms(4,5) that by (simp add: inside_def)
  have sw: "at (swap xs i j) k = at xs (if k = j then i else if k = i then j else k)" if "lo \<le> k" "k \<le> hi" for k
    using that assms(1-3) ins by (intro at_swap) auto
  show "low v (swap xs i j) lo (i + 1)"
    unfolding low_def
  proof (intro allI impI)
    fix k
    assume k: "lo \<le> k \<and> k < i + 1"
    with sw [of k] assms show "key (at (swap xs i j) k) \<le> key v" by (cases "k = i") (auto simp: low_def)
  qed
  show "high v (swap xs i j) (j - 1) hi"
    unfolding high_def
  proof (intro allI impI)
    fix k
    assume k: "j - 1 < k \<and> k \<le> hi"
    with sw [of k] assms show "key v \<le> key (at (swap xs i j) k)" by (cases "k = j") (auto simp: high_def)
  qed
qed

lemma partition_splits:
  assumes "splitting v xs lo hi i j"
  shows "\<exists>ys i' j'. partition_loop lt gt v xs i j = Inr (ys, i', j') \<and> rearranged lo hi xs ys \<and>
           lo < i' \<and> i' \<le> hi + 1 \<and> lo - 1 \<le> j' \<and> j' < hi \<and> j' < i' \<and> low v ys lo i' \<and> high v ys j' hi"
  using assms
proof (induction "nat (j - i)" arbitrary: xs i j rule: less_induct)
  case less
  obtain i' j' where s: "scan_up (\<lambda>x. lt x v) xs i = Inr i'" "scan_down (\<lambda>x. gt x v) xs j = Inr j'"
    and b: "i \<le> i'" "i' \<le> hi" "j' \<le> j" "lo \<le> j'" and p: "low v xs lo i'" "high v xs j' hi"
    and stop: "key v \<le> key (at xs i')" "key (at xs j') \<le> key v" "i' \<le> j' \<or> lo < i' \<and> j' < hi"
    using scans_meet [OF less.prems] by blast
  from less.prems have ends: "inside lo xs" "inside hi xs" "lo \<le> i" "j \<le> hi" by (auto simp: splitting_def)
  show ?case
  proof (cases "i' \<le> j'")
    case False
    then show ?thesis
      using s b p stop rearranged_refl [of lo hi xs] by (subst partition_loop.simps) auto
  next
    case True
    let ?ys = "swap xs i' j'"
    have sw: "low v ?ys lo (i' + 1)" "high v ?ys (j' - 1) hi"
      using splitting_swap [of lo i' j' hi xs v] True b ends p stop by auto
    have re: "rearranged lo hi xs ?ys" using True b ends by (intro rearranged_swap) auto
    show ?thesis
    proof (cases "i' + 1 \<le> j' - 1")
      case True
      then have "splitting v ?ys lo hi (i' + 1) (j' - 1)" using sw b ends by (auto simp: splitting_def)
      with less.hyps [of "j' - 1" "i' + 1" ?ys] True b obtain zs i2 j2 where
        "partition_loop lt gt v ?ys (i' + 1) (j' - 1) = Inr (zs, i2, j2)" "rearranged lo hi ?ys zs"
        "lo < i2" "i2 \<le> hi + 1" "lo - 1 \<le> j2" "j2 < hi" "j2 < i2" "low v zs lo i2" "high v zs j2 hi"
        by auto
      with s True re rearranged_trans show ?thesis by (subst partition_loop.simps) auto
    next
      case False
      with s \<open>i' \<le> j'\<close> re sw b ends show ?thesis by (subst partition_loop.simps) auto
    qed
  qed
qed

text \<open>The part \<open>lo\<close> to \<open>hi\<close> is in order.\<close>

definition ordered :: "'a list \<Rightarrow> int \<Rightarrow> int \<Rightarrow> bool" where
  "ordered xs lo hi = (\<forall>a b. lo \<le> a \<and> a \<le> b \<and> b \<le> hi \<longrightarrow> key (at xs a) \<le> key (at xs b))"

lemma low_rearranged:
  assumes "rearranged a b xs ys" "lo \<le> a" "b < c" "inside lo xs" "c \<le> int (length xs)" "low v xs lo c"
  shows "low v ys lo c"
  unfolding low_def
proof (intro allI impI)
  fix k
  assume k: "lo \<le> k \<and> k < c"
  show "key (at ys k) \<le> key v"
  proof (cases "a \<le> k \<and> k \<le> b")
    case True
    then have "at ys k \<in> at xs ` {a..b}" using assms(1) by (auto simp: rearranged_def)
    then obtain l where "a \<le> l" "l \<le> b" "at ys k = at xs l" by auto
    with assms(2,3,6) show ?thesis by (auto simp: low_def)
  next
    case False
    with assms k show ?thesis by (auto simp: rearranged_def low_def inside_def)
  qed
qed

lemma high_rearranged:
  assumes "rearranged a b xs ys" "c < a" "b \<le> hi" "inside hi xs" "- 1 \<le> c" "high v xs c hi"
  shows "high v ys c hi"
  unfolding high_def
proof (intro allI impI)
  fix k
  assume k: "c < k \<and> k \<le> hi"
  show "key v \<le> key (at ys k)"
  proof (cases "a \<le> k \<and> k \<le> b")
    case True
    then have "at ys k \<in> at xs ` {a..b}" using assms(1) by (auto simp: rearranged_def)
    then obtain l where "a \<le> l" "l \<le> b" "at ys k = at xs l" by auto
    with assms(2,3,6) show ?thesis by (auto simp: high_def)
  next
    case False
    with assms k show ?thesis by (auto simp: rearranged_def high_def inside_def)
  qed
qed

lemma sides_outside:
  assumes "rearranged a b xs ys" "0 \<le> lo" "hi < int (length xs)"
  shows "low v xs lo c \<Longrightarrow> c \<le> a \<Longrightarrow> c \<le> hi + 1 \<Longrightarrow> low v ys lo c"
    and "high v xs c hi \<Longrightarrow> b \<le> c \<Longrightarrow> lo - 1 \<le> c \<Longrightarrow> high v ys c hi"
  using assms by (simp_all add: low_def high_def rearranged_def inside_def)

lemma ordered_joins:
  assumes "ordered ys lo j" "ordered ys i hi" "j < i" "low v ys lo i" "high v ys j hi"
  shows "ordered ys lo hi"
  unfolding ordered_def
proof (intro allI impI)
  fix a b
  assume ab: "lo \<le> a \<and> a \<le> b \<and> b \<le> hi"
  consider "b \<le> j" | "i \<le> a" | "a < i" "j < b" by linarith
  then show "key (at ys a) \<le> key (at ys b)"
  proof cases
    case 3
    with assms(4,5) ab have "key (at ys a) \<le> key v" "key v \<le> key (at ys b)" by (auto simp: low_def high_def)
    then show ?thesis by simp
  qed (use assms(1,2) ab in \<open>auto simp: ordered_def\<close>)
qed

lemma ordered_outside:
  assumes "ordered xs lo hi" "rearranged a b xs ys" "hi < a \<or> b < lo" "0 \<le> lo" "hi < int (length xs)"
  shows "ordered ys lo hi"
  using assms by (auto simp: ordered_def rearranged_def inside_def)

lemma ordered_trivial: "hi \<le> lo \<Longrightarrow> ordered xs lo hi"
proof -
  assume "hi \<le> lo"
  then have "a = b" if "lo \<le> a" "a \<le> b" "b \<le> hi" for a b using that by linarith
  then show ?thesis by (auto simp: ordered_def)
qed

lemma middle_between: "(lo :: int) \<le> hi \<Longrightarrow> lo \<le> (lo + hi) div 2 \<and> (lo + hi) div 2 \<le> hi"
  by presburger

lemma quickSortPtr_sorts:
  assumes "lo \<le> hi" "inside lo xs" "inside hi xs" "length xs \<le> 2 ^ 30" "nat (hi - lo) < n"
  shows "\<exists>ys. quickSortPtr n xs lo hi lt gt = Inr ys \<and> rearranged lo hi xs ys \<and> ordered ys lo hi"
  using assms
proof (induction n arbitrary: xs lo hi)
  case (Suc n)
  let ?m = "(lo + hi) div 2" and ?v = "at xs ((lo + hi) div 2)"
  note m = middle_between [OF Suc.prems(1)]
  have guard: "lo + hi < 2 ^ 31 \<and> inside ?m xs" using Suc.prems m by (auto simp: inside_def)
  have "splitting ?v xs lo hi lo hi"
    using Suc.prems m by (auto simp: splitting_def low_def high_def)
  then obtain ys i j where part: "partition_loop lt gt ?v xs lo hi = Inr (ys, i, j)" "rearranged lo hi xs ys"
    and ij: "lo < i" "i \<le> hi + 1" "lo - 1 \<le> j" "j < hi" "j < i" and sides: "low ?v ys lo i" "high ?v ys j hi"
    using partition_splits by blast
  have len: "length ys = length xs" using part(2) by (simp add: rearranged_def)
  have bounds: "0 \<le> lo" "hi < int (length xs)" using Suc.prems by (auto simp: inside_def)
  have small: "lo < j \<Longrightarrow> nat (j - lo) < n" "i < hi \<Longrightarrow> nat (hi - i) < n" using Suc.prems(1,5) ij by linarith+
  obtain zs where left: "(if lo < j then quickSortPtr n ys lo j lt gt else Inr ys) = Inr zs"
    and zs: "rearranged lo j ys zs" "ordered zs lo j"
    using Suc.IH [of lo j ys] small Suc.prems ij len by (cases "lo < j") (auto simp: inside_def rearranged_refl ordered_trivial)
  have lenz: "length zs = length xs" using zs len by (simp add: rearranged_def)
  obtain ws where right: "(if i < hi then quickSortPtr n zs i hi lt gt else Inr zs) = Inr ws"
    and ws: "rearranged i hi zs ws" "ordered ws i hi"
    using Suc.IH [of i hi zs] small Suc.prems ij lenz by (cases "i < hi") (auto simp: inside_def rearranged_refl ordered_trivial)
  have "low ?v zs lo i" by (rule low_rearranged [OF zs(1)]) (use sides ij bounds len in \<open>auto simp: inside_def\<close>)
  moreover have "high ?v zs j hi" using sides_outside(2) [OF zs(1)] sides(2) ij bounds len by simp
  ultimately have sidesw: "low ?v ws lo i" "high ?v ws j hi"
    using sides_outside(1) [OF ws(1), of lo hi ?v i] high_rearranged [OF ws(1), of j hi ?v] ij bounds lenz
    by (simp_all add: inside_def)
  have "ordered ws lo j" using ij bounds lenz by (intro ordered_outside [OF zs(2) ws(1)]) simp_all
  then have "ordered ws lo hi" by (rule ordered_joins [OF _ ws(2) ij(5) sidesw])
  moreover have "rearranged lo hi xs ws"
    using part(2) rearranged_mono [OF zs(1), of lo hi] rearranged_mono [OF ws(1), of lo hi] ij bounds len lenz
    by (intro rearranged_trans [OF part(2) rearranged_trans [of lo hi ys zs]]) (auto simp: inside_def)
  ultimately show ?case using guard part(1) left right by simp
qed simp

end

section \<open>The templates sort\<close>

interpretation less_than: comparison "\<lambda>x y. x < y" "\<lambda>x y. x > y" "\<lambda>x. x :: 'a :: linorder"
  by unfold_locales auto

text \<open>
  C16. \<^verbatim>\<open>quickSort\<close> sorts. For a part of an array it ends without reading or writing outside of the part, keeps
  the elements before and behind it, and leaves the elements of the part in ascending order. The depth of the
  recursion is at most the length of the part.
\<close>

theorem quickSort_sorts:
  assumes "0 \<le> start" "start \<le> stop" "stop < int (length array)" "length array \<le> 2 ^ 30" "nat (stop - start) < n"
  shows "\<exists>sorted. quickSort n array start stop = Inr sorted \<and> length sorted = length array \<and> mset sorted = mset array \<and>
           (\<forall>k < length array. int k < start \<or> stop < int k \<longrightarrow> sorted ! k = array ! k) \<and>
           (\<forall>a b. start \<le> int a \<and> a \<le> b \<and> int b \<le> stop \<longrightarrow> sorted ! a \<le> sorted ! b)"
proof -
  have "inside start array" "inside stop array" using assms by (auto simp: inside_def)
  with assms obtain ys where ys: "quickSort n array start stop = Inr ys" "rearranged start stop array ys"
      "less_than.ordered ys start stop"
    using less_than.quickSortPtr_sorts [of start stop array n] by (auto simp: quickSort_def)
  have "ys ! k = array ! k" if "k < length array" "int k < start \<or> stop < int k" for k
    using ys(2) that assms by (auto simp: rearranged_def inside_def at_def dest!: spec [of _ "int k"])
  moreover have "ys ! a \<le> ys ! b" if "start \<le> int a" "a \<le> b" "int b \<le> stop" for a b
  proof -
    have "at ys (int a) \<le> at ys (int b)" using ys(3) that by (simp add: less_than.ordered_def)
    then show ?thesis by (simp add: at_def)
  qed
  ultimately show ?thesis using ys by (auto simp: rearranged_def)
qed

theorem quickSort_sorts_witness:
  "\<exists>sorted. quickSort 6 [9 :: int, 5, 3, 5, 1, 4, 0] 1 5 = Inr sorted \<and> sorted ! 0 = 9 \<and> sorted ! 1 \<le> sorted ! 3"
proof -
  let ?xs = "[9 :: int, 5, 3, 5, 1, 4, 0]"
  have "(0 :: int) \<le> 1" "(1 :: int) \<le> 5" "5 < int (length ?xs)" "length ?xs \<le> 2 ^ 30" "nat (5 - 1) < 6" by simp_all
  from quickSort_sorts [OF this] obtain sorted where s: "quickSort 6 ?xs 1 5 = Inr sorted"
    and out: "\<forall>k < length ?xs. int k < 1 \<or> 5 < int k \<longrightarrow> sorted ! k = ?xs ! k"
    and order: "\<forall>a b. 1 \<le> int a \<and> a \<le> b \<and> int b \<le> 5 \<longrightarrow> sorted ! a \<le> sorted ! b"
    by blast
  have "sorted ! 0 = 9" using out [rule_format, of 0] by simp
  moreover have "sorted ! 1 \<le> sorted ! 3" using order [rule_format, of 1 3] by simp
  ultimately show ?thesis using s by blast
qed

text \<open>
  Sorting groups reads the element behind the part. If the part ends with the array, this is outside of it.
\<close>

theorem group_sort_reads_past_end:
  assumes "stop - start > 1"
    and "forEach (close_group n lt gt geq) [start + 1..stop] (array, start) = Inr (xs, s)" "stop + 1 = int (length xs)"
  shows "quickSortGroupPtr n array start stop lt gt geq = Inl BadPointer"
  using assms by (simp add: quickSortGroupPtr_def close_group_def inside_def)

end
