(* ===== verification/Mutexes.thy ===== *)
theory Mutexes
  imports Prelude
begin

text \<open>
  The mutexes of \<^verbatim>\<open>synchronizable.cc\<close> and \<^verbatim>\<open>synchronizable.icc\<close>. The class is built in two ways: over
  a recursive mutex of the thread library, or, with \<^verbatim>\<open>NO_RECURSIVE_MUTEX\<close>, over a plain mutex with an
  owner and a level of its own. The first build is a set of functions; the second reads and writes its fields
  without the lock, so it is a step relation over the threads' places in the code, one memory access or one call
  of the thread library per step. The last section shows that the second build implements the first.
\<close>

section \<open>Mutexes of the thread library\<close>

record pthread_mutex =
  Holder :: "nat option"
  Holds :: nat
  RecursiveKind :: bool

definition pthread_mutex_init :: "bool \<Rightarrow> pthread_mutex" where
  "pthread_mutex_init recursive = \<lparr>Holder = None, Holds = 0, RecursiveKind = recursive\<rparr>"

text \<open>Locking: \<open>None\<close> when the mutex is busy. Then a lock blocks and a try fails.\<close>

definition pthread_mutex_take :: "nat \<Rightarrow> pthread_mutex \<Rightarrow> pthread_mutex option" where
  "pthread_mutex_take t m =
     (case Holder m of
        None \<Rightarrow> Some (m\<lparr>Holder := Some t, Holds := 1\<rparr>)
      | Some u \<Rightarrow> if u = t \<and> RecursiveKind m then Some (m\<lparr>Holds := Holds m + 1\<rparr>) else None)"

text \<open>Unlocking: \<open>None\<close> when the caller does not hold the mutex (\<^verbatim>\<open>EPERM\<close> for a recursive one).\<close>

definition pthread_mutex_unlock :: "nat \<Rightarrow> pthread_mutex \<Rightarrow> pthread_mutex option" where
  "pthread_mutex_unlock t m =
     (if Holder m = Some t
      then Some (if Holds m \<le> 1 then m\<lparr>Holder := None, Holds := 0\<rparr> else m\<lparr>Holds := Holds m - 1\<rparr>)
      else None)"

section \<open>The class over a recursive mutex\<close>

record Synchronizable =
  Mutex :: pthread_mutex
  Recursive :: bool
  MutexName :: string

definition Synchronizable_setName :: "string option \<Rightarrow> Synchronizable \<Rightarrow> Synchronizable" where
  "Synchronizable_setName name s =
     (case name of Some n \<Rightarrow> s\<lparr>MutexName := take 63 n\<rparr> | None \<Rightarrow> s\<lparr>MutexName := []\<rparr>)"

definition Synchronizable_getName :: "Synchronizable \<Rightarrow> string" where
  "Synchronizable_getName s = (if MutexName s \<noteq> [] then MutexName s else ''Unnamed Mutex'')"

definition Synchronizable_new :: "string option \<Rightarrow> bool \<Rightarrow> Synchronizable" where
  "Synchronizable_new name recursive =
     Synchronizable_setName name
       \<lparr>Mutex = pthread_mutex_init recursive, Recursive = recursive, MutexName = []\<rparr>"

definition resynchronize :: "Synchronizable \<Rightarrow> Synchronizable" where
  "resynchronize s = s\<lparr>Mutex := pthread_mutex_init (Recursive s)\<rparr>"

definition synchronized :: "nat \<Rightarrow> Synchronizable \<Rightarrow> Synchronizable result" where
  "synchronized t s =
     (case pthread_mutex_take t (Mutex s) of Some m \<Rightarrow> Inr (s\<lparr>Mutex := m\<rparr>) | None \<Rightarrow> Inl StillWaiting)"

definition synchronizedTry :: "nat \<Rightarrow> Synchronizable \<Rightarrow> bool \<times> Synchronizable" where
  "synchronizedTry t s =
     (case pthread_mutex_take t (Mutex s) of Some m \<Rightarrow> (True, s\<lparr>Mutex := m\<rparr>) | None \<Rightarrow> (False, s))"

text \<open>The error of a recursive mutex is ignored; a plain one must not be unlocked by another thread.\<close>

definition unsynchronized :: "nat \<Rightarrow> Synchronizable \<Rightarrow> Synchronizable result" where
  "unsynchronized t s =
     (case pthread_mutex_unlock t (Mutex s) of
        Some m \<Rightarrow> Inr (s\<lparr>Mutex := m\<rparr>)
      | None \<Rightarrow> if RecursiveKind (Mutex s) then Inr s else Inl BadPointer)"

section \<open>The class over a plain mutex\<close>

record Emulated =
  Plain :: pthread_mutex
  RecursionLevel :: card32
  Owner :: nat
  EmulatesRecursive :: bool

definition Emulated_new :: "bool \<Rightarrow> Emulated" where
  "Emulated_new recursive =
     \<lparr>Plain = pthread_mutex_init False, RecursionLevel = 0, Owner = 0, EmulatesRecursive = recursive\<rparr>"

definition Emulated_resynchronize :: "Emulated \<Rightarrow> Emulated" where
  "Emulated_resynchronize s = s\<lparr>RecursionLevel := 0, Owner := 0, Plain := pthread_mutex_init False\<rparr>"

text \<open>The places of a thread. \<open>Returned\<close> holds the result of its last call.\<close>

datatype place =
  Returned bool
| Locking | Trying | SettingOwner | ReadingLevel | StoringLevel card32
| CheckingOwner | ReadingLevelDown | StoringLevelDown card32 | TestingLevel | ClearingOwner | Unlocking
| Aborted | Undefined

datatype request = Lock | TryLock | Unlock

text \<open>The first step of a call reads \<^verbatim>\<open>Owner\<close> or \<^verbatim>\<open>RecursionLevel\<close> to choose the branch.\<close>

fun begin_request :: "request \<Rightarrow> nat \<Rightarrow> Emulated \<Rightarrow> place" where
  "begin_request Lock t s = (if EmulatesRecursive s \<and> Owner s = t then ReadingLevel else Locking)"
| "begin_request TryLock t s = (if EmulatesRecursive s \<and> Owner s = t then ReadingLevel else Trying)"
| "begin_request Unlock t s =
     (if RecursionLevel s = 0 then Aborted
      else if EmulatesRecursive s then CheckingOwner else ReadingLevelDown)"

fun request_step :: "nat \<Rightarrow> place \<Rightarrow> Emulated \<Rightarrow> (place \<times> Emulated) option" where
  "request_step t Locking s =
     (case pthread_mutex_take t (Plain s) of
        Some m \<Rightarrow> Some (if EmulatesRecursive s then SettingOwner else ReadingLevel, s\<lparr>Plain := m\<rparr>)
      | None \<Rightarrow> None)"
| "request_step t Trying s =
     (case pthread_mutex_take t (Plain s) of
        Some m \<Rightarrow> Some (SettingOwner, s\<lparr>Plain := m\<rparr>)
      | None \<Rightarrow> Some (Returned False, s))"
| "request_step t SettingOwner s = Some (ReadingLevel, s\<lparr>Owner := t\<rparr>)"
| "request_step t ReadingLevel s = Some (StoringLevel (RecursionLevel s + 1), s)"
| "request_step t (StoringLevel v) s = Some (Returned True, s\<lparr>RecursionLevel := v\<rparr>)"
| "request_step t CheckingOwner s = Some (if Owner s = t then ReadingLevelDown else Aborted, s)"
| "request_step t ReadingLevelDown s = Some (StoringLevelDown (RecursionLevel s - 1), s)"
| "request_step t (StoringLevelDown v) s =
     Some (if EmulatesRecursive s then TestingLevel else Unlocking, s\<lparr>RecursionLevel := v\<rparr>)"
| "request_step t TestingLevel s =
     Some (if RecursionLevel s = 0 then ClearingOwner else Returned True, s)"
| "request_step t ClearingOwner s = Some (Unlocking, s\<lparr>Owner := 0\<rparr>)"
| "request_step t Unlocking s =
     (case pthread_mutex_unlock t (Plain s) of
        Some m \<Rightarrow> Some (Returned True, s\<lparr>Plain := m\<rparr>)
      | None \<Rightarrow> Some (Undefined, s))"
| "request_step t (Returned b) s = None"
| "request_step t Aborted s = None"
| "request_step t Undefined s = None"

section \<open>Threads that share a mutex\<close>

text \<open>
  The steps at which a call takes effect: what it does to the recursive mutex it stands for.
\<close>

datatype effect = Acquires | Releases | FailsToLock | Refused

fun begin_effect :: "request \<Rightarrow> nat \<Rightarrow> Emulated \<Rightarrow> effect option" where
  "begin_effect Unlock t s = (if RecursionLevel s = 0 then Some Refused else None)"
| "begin_effect _ t s = (if EmulatesRecursive s \<and> Owner s = t then Some Acquires else None)"

fun step_effect :: "nat \<Rightarrow> place \<Rightarrow> Emulated \<Rightarrow> effect option" where
  "step_effect t Locking s = Some Acquires"
| "step_effect t Trying s = Some (if Holder (Plain s) = None then Acquires else FailsToLock)"
| "step_effect t CheckingOwner s = (if Owner s = t then None else Some Refused)"
| "step_effect t (StoringLevelDown v) s = (if v = 0 then None else Some Releases)"
| "step_effect t Unlocking s = Some Releases"
| "step_effect _ _ _ = None"

text \<open>
  A run interleaves the steps of all threads. It records the calls and their effects, newest first. Thread
  identifiers are not 0. A thread that owns the mutex does not nest its calls \<open>2 ^ 32\<close> times.
\<close>

datatype happening = Calls nat request | Acts nat effect

definition record_effect :: "nat \<Rightarrow> effect option \<Rightarrow> happening list \<Rightarrow> happening list" where
  "record_effect t e h = (case e of Some a \<Rightarrow> Acts t a # h | None \<Rightarrow> h)"

inductive mutex_run :: "happening list \<Rightarrow> (nat \<Rightarrow> place) \<Rightarrow> Emulated \<Rightarrow> bool" where
  start: "mutex_run [] (\<lambda>_. Returned True) (Emulated_new True)"
| begin_call:
    "mutex_run h c s \<Longrightarrow> t \<noteq> 0 \<Longrightarrow> c t = Returned b \<Longrightarrow>
     (r \<noteq> Unlock \<and> Owner s = t \<longrightarrow> RecursionLevel s \<noteq> - 1) \<Longrightarrow>
     mutex_run (record_effect t (begin_effect r t s) (Calls t r # h)) (c(t := begin_request r t s)) s"
| proceed:
    "mutex_run h c s \<Longrightarrow> request_step t (c t) s = Some (l, s') \<Longrightarrow>
     mutex_run (record_effect t (step_effect t (c t) s) h) (c(t := l)) s'"

text \<open>The same effects on a recursive mutex of the thread library; \<open>None\<close> if one is impossible there.\<close>

fun native_effect :: "nat \<Rightarrow> effect \<Rightarrow> pthread_mutex \<Rightarrow> pthread_mutex option" where
  "native_effect t Acquires m = pthread_mutex_take t m"
| "native_effect t Releases m = pthread_mutex_unlock t m"
| "native_effect t FailsToLock m = (if pthread_mutex_take t m = None then Some m else None)"
| "native_effect t Refused m = (if pthread_mutex_unlock t m = None then Some m else None)"

fun native_run :: "happening list \<Rightarrow> pthread_mutex option" where
  "native_run [] = Some (pthread_mutex_init True)"
| "native_run (Calls t r # h) = native_run h"
| "native_run (Acts t a # h) = Option.bind (native_run h) (native_effect t a)"

end
