(* ===== verification/MutexLaws.thy ===== *)
theory MutexLaws
  imports Mutexes
begin

text \<open>
  The mutex that \<^verbatim>\<open>synchronizable.icc\<close> builds from a plain mutex, an owner and a level implements a recursive
  mutex: every interleaving of its steps is explained by a sequence of operations on a recursive mutex of the
  thread library, one for each call, which takes effect while the call runs.
\<close>

section \<open>The invariant\<close>

text \<open>Places a thread can be at while it does not hold the plain mutex.\<close>

fun outside :: "place \<Rightarrow> bool" where
  "outside (Returned b) = True"
| "outside Locking = True"
| "outside Trying = True"
| "outside CheckingOwner = True"
| "outside Aborted = True"
| "outside _ = False"

text \<open>What the holder's place says about the owner and the level.\<close>

fun holder_state :: "nat \<Rightarrow> place \<Rightarrow> Emulated \<Rightarrow> bool" where
  "holder_state t (Returned b) s = (Owner s = t \<and> RecursionLevel s \<noteq> 0)"
| "holder_state t SettingOwner s = (Owner s = 0 \<and> RecursionLevel s = 0)"
| "holder_state t ReadingLevel s = (Owner s = t \<and> RecursionLevel s \<noteq> - 1)"
| "holder_state t (StoringLevel v) s =
     (Owner s = t \<and> RecursionLevel s \<noteq> - 1 \<and> v = RecursionLevel s + 1)"
| "holder_state t CheckingOwner s = (Owner s = t \<and> RecursionLevel s \<noteq> 0)"
| "holder_state t ReadingLevelDown s = (Owner s = t \<and> RecursionLevel s \<noteq> 0)"
| "holder_state t (StoringLevelDown v) s =
     (Owner s = t \<and> RecursionLevel s \<noteq> 0 \<and> v = RecursionLevel s - 1)"
| "holder_state t TestingLevel s = (Owner s = t)"
| "holder_state t ClearingOwner s = (Owner s = t \<and> RecursionLevel s = 0)"
| "holder_state t Unlocking s = (Owner s = 0 \<and> RecursionLevel s = 0)"
| "holder_state t _ s = False"

definition mutex_ok :: "(nat \<Rightarrow> place) \<Rightarrow> Emulated \<Rightarrow> bool" where
  "mutex_ok c s \<longleftrightarrow>
     EmulatesRecursive s \<and> \<not> RecursiveKind (Plain s) \<and> (\<exists>b. c 0 = Returned b) \<and>
     (case Holder (Plain s) of
        None \<Rightarrow> Holds (Plain s) = 0 \<and> Owner s = 0 \<and> RecursionLevel s = 0 \<and> (\<forall>t. outside (c t))
      | Some h \<Rightarrow> Holds (Plain s) = 1 \<and> h \<noteq> 0 \<and> holder_state h (c h) s \<and> (\<forall>t. t \<noteq> h \<longrightarrow> outside (c t)))"

text \<open>The count of the recursive mutex the state stands for, and that mutex.\<close>

fun native_count :: "place \<Rightarrow> card32 \<Rightarrow> nat" where
  "native_count SettingOwner v = unat v + 1"
| "native_count ReadingLevel v = unat v + 1"
| "native_count (StoringLevel w) v = unat v + 1"
| "native_count TestingLevel v = max 1 (unat v)"
| "native_count ClearingOwner v = 1"
| "native_count Unlocking v = 1"
| "native_count _ v = unat v"

definition native_of :: "(nat \<Rightarrow> place) \<Rightarrow> Emulated \<Rightarrow> pthread_mutex" where
  "native_of c s =
     \<lparr>Holder = Holder (Plain s),
      Holds = (case Holder (Plain s) of None \<Rightarrow> 0 | Some h \<Rightarrow> native_count (c h) (RecursionLevel s)),
      RecursiveKind = True\<rparr>"

lemma unat_Suc: "(v :: card32) \<noteq> - 1 \<Longrightarrow> unat (v + 1) = unat v + 1"
  by (metis add.commute add.left_inverse unatSuc Suc_eq_plus1 add_eq_0_iff2)

lemma unat_pred: "(v :: card32) \<noteq> 0 \<Longrightarrow> unat (v - 1) = unat v - 1"
  using unat_minus_one by blast

lemma max_1_unat: "(v :: card32) \<noteq> 0 \<Longrightarrow> max (Suc 0) (unat v) = unat v"
  by (simp add: unat_gt_0 Suc_le_eq max_def)

lemma unat_le_1: "unat (v :: card32) \<le> Suc 0 \<longleftrightarrow> v = 0 \<or> v = 1"
  by (simp add: word_unat_eq_iff [of v] le_Suc_eq)

lemma max_1_unat_pred:
  "(v :: card32) \<noteq> 0 \<Longrightarrow> v \<noteq> 1 \<Longrightarrow> max (Suc 0) (unat v - Suc 0) = unat v - Suc 0"
  using unat_le_1 [of v] by (simp add: max_def)

lemma incremented_nonzero: "v + 1 = (0 :: card32) \<longleftrightarrow> v = - 1"
  by (simp add: add_eq_0_iff2)

lemmas level_arith = unat_Suc unat_pred max_1_unat unat_le_1 max_1_unat_pred incremented_nonzero

lemmas mutex_defs = mutex_ok_def native_of_def pthread_mutex_take_def pthread_mutex_unlock_def

lemma mutex_ok_holder:
  assumes "mutex_ok c s" "\<not> outside (c t)"
  shows "Holder (Plain s) = Some t" "holder_state t (c t) s" "t \<noteq> 0"
  using assms by (cases "Holder (Plain s)"; force simp: mutex_ok_def)+

lemma mutex_ok_owner:
  assumes "mutex_ok c s" "Owner s = t" "t \<noteq> 0"
  shows "Holder (Plain s) = Some t" "holder_state t (c t) s"
proof -
  obtain h where h: "Holder (Plain s) = Some h" "holder_state h (c h) s"
    using assms by (auto simp: mutex_ok_def split: option.splits)
  then have "Owner s = h \<or> Owner s = 0" by (cases "c h") auto
  with h assms show "Holder (Plain s) = Some t" "holder_state t (c t) s" by auto
qed

section \<open>One step\<close>

text \<open>The mutex the state stands for follows the recorded effect.\<close>

definition follows :: "nat \<Rightarrow> effect option \<Rightarrow> pthread_mutex \<Rightarrow> pthread_mutex \<Rightarrow> bool" where
  "follows t e m m' = (case e of None \<Rightarrow> m' = m | Some a \<Rightarrow> native_effect t a m = Some m')"

lemma begin_simulates:
  assumes ok: "mutex_ok c s" and t: "t \<noteq> 0" and at: "c t = Returned b"
    and depth: "r \<noteq> Unlock \<and> Owner s = t \<longrightarrow> RecursionLevel s \<noteq> - 1"
  shows "mutex_ok (c(t := begin_request r t s)) s \<and>
         follows t (begin_effect r t s) (native_of c s) (native_of (c(t := begin_request r t s)) s)"
proof (cases "Owner s = t")
  case True
  note h = mutex_ok_owner [OF ok True t]
  with ok t at depth True show ?thesis
    by (cases r) (auto simp: mutex_defs follows_def)
next
  case False
  then have "Holder (Plain s) \<noteq> Some t" using ok at by (auto simp: mutex_ok_def)
  with ok t at False show ?thesis
    by (cases r) (auto simp: mutex_defs follows_def split: option.splits)
qed

lemma step_simulates:
  assumes ok: "mutex_ok c s" and step: "request_step t (c t) s = Some (l, s')"
  shows "mutex_ok (c(t := l)) s' \<and>
         follows t (step_effect t (c t) s) (native_of c s) (native_of (c(t := l)) s')"
proof (cases "outside (c t)")
  case False
  note h = mutex_ok_holder [OF ok False]
  show ?thesis
    using ok step h
    by (cases "c t") (auto simp: mutex_defs follows_def level_arith)
next
  case out: True
  have "t \<noteq> 0" using ok step by (cases "t = 0") (auto simp: mutex_ok_def)
  show ?thesis
  proof (cases "Holder (Plain s) = Some t")
    case True
    with ok step out show ?thesis
      by (cases "c t") (auto simp: mutex_defs follows_def)
  next
    case False
    then have "Owner s \<noteq> t" using mutex_ok_owner(1) [OF ok _ \<open>t \<noteq> 0\<close>] by blast
    with ok step out False \<open>t \<noteq> 0\<close> show ?thesis
      by (cases "c t") (auto simp: mutex_defs follows_def split: option.splits if_splits)
  qed
qed

section \<open>Calls and effects\<close>

fun fits :: "request \<Rightarrow> effect \<Rightarrow> bool" where
  "fits Lock a = (a = Acquires)"
| "fits TryLock a = (a = Acquires \<or> a = FailsToLock)"
| "fits Unlock a = (a = Releases \<or> a = Refused)"

definition calls_of :: "nat \<Rightarrow> happening list \<Rightarrow> request list" where
  "calls_of t h = concat (map (\<lambda>e. case e of Calls u r \<Rightarrow> if u = t then [r] else [] | _ \<Rightarrow> []) h)"

definition acts_of :: "nat \<Rightarrow> happening list \<Rightarrow> effect list" where
  "acts_of t h = concat (map (\<lambda>e. case e of Acts u a \<Rightarrow> if u = t then [a] else [] | _ \<Rightarrow> []) h)"

text \<open>The call that has not taken effect yet.\<close>

fun pending :: "place \<Rightarrow> card32 \<Rightarrow> request list" where
  "pending Locking v = [Lock]"
| "pending Trying v = [TryLock]"
| "pending CheckingOwner v = [Unlock]"
| "pending ReadingLevelDown v = [Unlock]"
| "pending (StoringLevelDown w) v = [Unlock]"
| "pending TestingLevel v = (if v = 0 then [Unlock] else [])"
| "pending ClearingOwner v = [Unlock]"
| "pending Unlocking v = [Unlock]"
| "pending _ v = []"

text \<open>What the newest effect of a thread says about its place.\<close>

fun newest_fits :: "place \<Rightarrow> card32 \<Rightarrow> effect list \<Rightarrow> bool" where
  "newest_fits (Returned b) v as = (b = (as = [] \<or> hd as \<noteq> FailsToLock))"
| "newest_fits SettingOwner v as = (as \<noteq> [] \<and> hd as = Acquires)"
| "newest_fits ReadingLevel v as = (as \<noteq> [] \<and> hd as = Acquires)"
| "newest_fits (StoringLevel w) v as = (as \<noteq> [] \<and> hd as = Acquires)"
| "newest_fits TestingLevel v as = (v \<noteq> 0 \<longrightarrow> as \<noteq> [] \<and> hd as = Releases)"
| "newest_fits Aborted v as = (as \<noteq> [] \<and> hd as = Refused)"
| "newest_fits _ v as = True"

definition answered :: "happening list \<Rightarrow> nat \<Rightarrow> place \<Rightarrow> card32 \<Rightarrow> bool" where
  "answered h t l v \<longleftrightarrow>
     (\<exists>cs. calls_of t h = pending l v @ cs \<and> list_all2 fits cs (acts_of t h)) \<and> newest_fits l v (acts_of t h)"

lemma calls_of_simps [simp]:
  "calls_of t [] = []"
  "calls_of t (Calls u r # h) = (if u = t then r # calls_of t h else calls_of t h)"
  "calls_of t (Acts u a # h) = calls_of t h"
  "calls_of t (record_effect u e h) = calls_of t h"
  by (auto simp: calls_of_def record_effect_def split: option.splits)

lemma acts_of_simps [simp]:
  "acts_of t [] = []"
  "acts_of t (Calls u r # h) = acts_of t h"
  "acts_of t (Acts u a # h) = (if u = t then a # acts_of t h else acts_of t h)"
  "acts_of t (record_effect u e h) =
     (case e of Some a \<Rightarrow> if u = t then a # acts_of t h else acts_of t h | None \<Rightarrow> acts_of t h)"
  by (auto simp: acts_of_def record_effect_def split: option.splits)

lemma native_run_record:
  "native_run (record_effect t e h) =
     (case e of Some a \<Rightarrow> Option.bind (native_run h) (native_effect t a) | None \<Rightarrow> native_run h)"
  by (auto simp: record_effect_def split: option.splits)

lemma begin_answered:
  assumes "answered h t (Returned b) v" "EmulatesRecursive s"
  shows "answered (record_effect t (begin_effect r t s) (Calls t r # h)) t (begin_request r t s) (RecursionLevel s)"
  using assms by (cases r) (auto simp: answered_def)

lemma step_answered:
  assumes "answered h t l (RecursionLevel s)" "request_step t l s = Some (l', s')"
    and "EmulatesRecursive s" "\<not> RecursiveKind (Plain s)"
  shows "answered (record_effect t (step_effect t l s) h) t l' (RecursionLevel s')"
  using assms
  by (cases l) (auto simp: answered_def pthread_mutex_take_def pthread_mutex_unlock_def split: option.splits if_splits)

text \<open>A thread's steps leave the other threads' calls as they are.\<close>

lemma outside_answered:
  "outside l \<Longrightarrow> answered h t l v \<Longrightarrow> answered h t l w"
  by (cases l) (auto simp: answered_def)

lemma outside_step_level:
  "outside l \<Longrightarrow> request_step t l s = Some (l', s') \<Longrightarrow> RecursionLevel s' = RecursionLevel s"
  by (cases l) (auto split: option.splits)

lemma other_answered:
  assumes "mutex_ok c s" "request_step t (c t) s = Some (l, s')" "u \<noteq> t" "answered h u (c u) (RecursionLevel s)"
  shows "answered h u (c u) (RecursionLevel s')"
proof (cases "outside (c t)")
  case True
  with assms show ?thesis by (simp add: outside_step_level)
next
  case False
  then have "outside (c u)" using assms(1,3) mutex_ok_holder(1) [of c s] by (metis option.inject)
  with assms show ?thesis by (blast intro: outside_answered)
qed

lemma answered_others [simp]:
  "u \<noteq> t \<Longrightarrow> answered (record_effect t e h) u l v = answered h u l v"
  "u \<noteq> t \<Longrightarrow> answered (Calls t r # h) u l v = answered h u l v"
  by (auto simp: answered_def split: option.splits)

section \<open>All runs\<close>

lemma follows_native_run:
  assumes "native_run h = Some m" "follows t e m m'"
  shows "native_run (record_effect t e h) = Some m'"
  using assms by (auto simp: native_run_record follows_def split: option.splits)

lemma run_invariant:
  assumes "mutex_run h c s"
  shows "mutex_ok c s \<and> native_run h = Some (native_of c s) \<and> (\<forall>t. answered h t (c t) (RecursionLevel s))"
  using assms
proof induction
  case start
  show ?case
    by (auto simp: mutex_ok_def native_of_def answered_def Emulated_new_def pthread_mutex_init_def)
next
  case (begin_call h c s t b r)
  let ?h = "record_effect t (begin_effect r t s) (Calls t r # h)" and ?c = "c(t := begin_request r t s)"
  from begin_call have ok: "mutex_ok c s" and run: "native_run (Calls t r # h) = Some (native_of c s)"
    and before: "answered h u (c u) (RecursionLevel s)" for u
    by auto
  note sim = begin_simulates [OF ok begin_call(2-4)]
  have "answered ?h u (?c u) (RecursionLevel s)" for u
  proof (cases "u = t")
    case True
    have "EmulatesRecursive s" using ok by (simp add: mutex_ok_def)
    with begin_answered before [of t] begin_call(3) True show ?thesis by fastforce
  qed (use before in simp)
  with sim follows_native_run [OF run] show ?case by blast
next
  case (proceed h c s t l s')
  let ?h = "record_effect t (step_effect t (c t) s) h" and ?c = "c(t := l)"
  from proceed have ok: "mutex_ok c s" and run: "native_run h = Some (native_of c s)"
    and before: "answered h u (c u) (RecursionLevel s)" for u
    by auto
  note sim = step_simulates [OF ok proceed(2)]
  have "answered ?h u (?c u) (RecursionLevel s')" for u
  proof (cases "u = t")
    case True
    have "EmulatesRecursive s" "\<not> RecursiveKind (Plain s)" using ok by (simp_all add: mutex_ok_def)
    with step_answered [OF before proceed(2)] True show ?thesis by simp
  next
    case False
    with other_answered [OF ok proceed(2) False before] show ?thesis by simp
  qed
  with sim follows_native_run [OF run] show ?case by blast
qed

text \<open>A thread waits only for another one that holds the mutex.\<close>

lemma blocked_by_holder:
  assumes "mutex_ok c s" "request_step t (c t) s = None"
  shows "(\<exists>b. c t = Returned b) \<or> c t = Aborted \<or> c t = Locking \<and> (\<exists>u. u \<noteq> t \<and> Holder (Plain s) = Some u)"
proof (cases "outside (c t)")
  case True
  with assms show ?thesis
    by (cases "c t") (auto simp: mutex_ok_def pthread_mutex_take_def split: option.splits if_splits)
next
  case False
  from assms(2) mutex_ok_holder [OF assms(1) False] show ?thesis
    by (cases "c t") (auto simp: pthread_mutex_unlock_def)
qed

text \<open>
  C9. The mutex built over a plain one is a recursive mutex, whatever the threads interleave. The effects of a
  run are, in their order, possible on a recursive mutex of the thread library, which they take from its first
  state to one with the same holder. Every thread's calls have had one fitting effect each, in order, but
  perhaps the one that runs; \<^verbatim>\<open>synchronizedTry\<close> returns \<^verbatim>\<open>false\<close> exactly if it failed to lock. A thread
  that cannot proceed has returned, was stopped because it unlocked a mutex it did not hold, or waits for
  another thread that holds the mutex.
\<close>

theorem emulated_mutex_refines:
  assumes "mutex_run h c s"
  shows "native_run h = Some (native_of c s) \<and>
         (\<exists>cs. calls_of t h = pending (c t) (RecursionLevel s) @ cs \<and> list_all2 fits cs (acts_of t h)) \<and>
         (c t = Returned b \<longrightarrow> b = (acts_of t h = [] \<or> hd (acts_of t h) \<noteq> FailsToLock)) \<and>
         (request_step t (c t) s = None \<longrightarrow>
           (\<exists>b. c t = Returned b) \<or> c t = Aborted \<and> hd (acts_of t h) = Refused \<or>
           c t = Locking \<and> (\<exists>u. u \<noteq> t \<and> Holder (native_of c s) = Some u))"
proof -
  from run_invariant [OF assms] have ok: "mutex_ok c s" and run: "native_run h = Some (native_of c s)"
    and ans: "answered h t (c t) (RecursionLevel s)"
    by auto
  have "Holder (native_of c s) = Holder (Plain s)" by (simp add: native_of_def)
  moreover have "c t = Aborted \<Longrightarrow> hd (acts_of t h) = Refused"
    and "c t = Returned b \<Longrightarrow> b = (acts_of t h = [] \<or> hd (acts_of t h) \<noteq> FailsToLock)"
    using ans by (auto simp: answered_def)
  ultimately show ?thesis
    using run ans blocked_by_holder [OF ok] unfolding answered_def by metis
qed

text \<open>Schedules: the steps of the threads, newest first, with the call a thread begins.\<close>

fun perform :: "(nat \<times> request option) list \<Rightarrow> (happening list \<times> (nat \<Rightarrow> place) \<times> Emulated) option" where
  "perform [] = Some ([], \<lambda>_. Returned True, Emulated_new True)"
| "perform ((t, Some r) # p) =
     (case perform p of
        Some (h, c, s) \<Rightarrow>
          if t \<noteq> 0 \<and> (\<exists>b\<in>{True, False}. c t = Returned b) \<and> RecursionLevel s \<noteq> - 1
          then Some (record_effect t (begin_effect r t s) (Calls t r # h), c(t := begin_request r t s), s)
          else None
      | None \<Rightarrow> None)"
| "perform ((t, None) # p) =
     (case perform p of
        Some (h, c, s) \<Rightarrow>
          (case request_step t (c t) s of
             Some (l, s') \<Rightarrow> Some (record_effect t (step_effect t (c t) s) h, c(t := l), s')
           | None \<Rightarrow> None)
      | None \<Rightarrow> None)"

lemma perform_run: "perform p = Some (h, c, s) \<Longrightarrow> mutex_run h c s"
proof (induction p arbitrary: h c s rule: perform.induct)
  case 1
  then show ?case by (auto intro: mutex_run.start)
qed (auto split: option.splits prod.splits if_splits intro: mutex_run.intros)

definition contended :: "(nat \<times> request option) list" where
  "contended =
     rev [(1, Some Lock), (2, Some TryLock), (1, None), (1, None), (2, None), (1, None), (1, None), (1, Some TryLock),
          (2, Some Lock), (1, None), (1, None), (1, Some Unlock), (1, None), (1, None), (1, None), (1, None),
          (1, Some Unlock), (1, None), (1, None), (1, None), (1, None), (1, None), (1, None),
          (2, None), (2, None), (2, None), (2, None)]"

theorem emulated_mutex_refines_witness:
  "case perform contended of
     None \<Rightarrow> False
   | Some (h, c, s) \<Rightarrow>
       native_run h = Some (native_of c s) \<and> Holder (native_of c s) = Some 2 \<and>
       list_all2 fits (calls_of 1 h) (acts_of 1 h) \<and> acts_of 2 h = [Acquires, FailsToLock]"
proof -
  have "\<exists>h c s. perform contended = Some (h, c, s) \<and> Holder (native_of c s) = Some 2 \<and>
          pending (c 1) (RecursionLevel s) = [] \<and> acts_of 2 h = [Acquires, FailsToLock]"
    by (simp add: contended_def Emulated_new_def pthread_mutex_init_def pthread_mutex_take_def
        pthread_mutex_unlock_def record_effect_def native_of_def acts_of_def)
  then obtain h c s where p: "perform contended = Some (h, c, s)" and f: "Holder (native_of c s) = Some 2"
      "pending (c 1) (RecursionLevel s) = []" "acts_of 2 h = [Acquires, FailsToLock]"
    by blast
  from emulated_mutex_refines [OF perform_run [OF p], of 1] p f show ?thesis by auto
qed

end
