(* ===== verification/Threads.thy ===== *)
theory Threads
  imports Mutexes
begin

text \<open>
  The threads of \<^verbatim>\<open>thread.cc\<close> and \<^verbatim>\<open>thread.icc\<close>: starting, stopping and joining over the thread library, the
  handshake between a starting thread and its creator, and sleeping. The thread library is the parameter
  \<open>pthread_env\<close>; its state is the map of the threads that have not been joined.
\<close>

section \<open>The thread library\<close>

text \<open>A thread runs, perhaps with a cancellation pending, or has ended with a result.\<close>

datatype pthread = Alive bool | Ended int

text \<open>
  \<open>create\<close>: the result of \<^verbatim>\<open>pthread_create\<close> and the identifier it stores; \<open>ends\<close>: the result a thread that is
  waited for ends with, \<open>None\<close> if it never does; \<open>process\<close>: the process identifier.
\<close>

record pthread_env =
  create :: "(nat \<rightharpoonup> pthread) \<Rightarrow> int \<times> nat"
  ends :: "nat \<Rightarrow> (nat \<rightharpoonup> pthread) \<Rightarrow> int option"
  process :: int

definition pthread_create :: "pthread_env \<Rightarrow> (nat \<rightharpoonup> pthread) \<Rightarrow> int \<times> nat \<times> (nat \<rightharpoonup> pthread)" where
  "pthread_create pe ps =
     (case create pe ps of (r, t) \<Rightarrow> (r, t, if r = 0 then ps(t \<mapsto> Alive False) else ps))"

definition pthread_cancel :: "nat \<Rightarrow> (nat \<rightharpoonup> pthread) \<Rightarrow> (nat \<rightharpoonup> pthread) result" where
  "pthread_cancel t ps =
     (case ps t of
        Some (Alive c) \<Rightarrow> Inr (ps(t \<mapsto> Alive True))
      | Some (Ended r) \<Rightarrow> Inr ps
      | None \<Rightarrow> Inl BadPointer)"

definition pthread_join :: "pthread_env \<Rightarrow> nat \<Rightarrow> (nat \<rightharpoonup> pthread) \<Rightarrow> (int \<times> (nat \<rightharpoonup> pthread)) result" where
  "pthread_join pe t ps =
     (case ps t of
        Some (Ended r) \<Rightarrow> Inr (r, ps(t := None))
      | Some (Alive c) \<Rightarrow> (case ends pe t ps of Some r \<Rightarrow> Inr (r, ps(t := None)) | None \<Rightarrow> Inl StillWaiting)
      | None \<Rightarrow> Inl BadPointer)"

section \<open>Thread objects\<close>

record Thread = Synchronizable +
  PThread :: nat
  PID :: int
  Flags :: card32

definition TF_CancelAsynchronous :: card32 where "TF_CancelAsynchronous = 0"

definition TF_CancelDeferred :: card32 where "TF_CancelDeferred = 1"

definition on_mutex :: "(Synchronizable \<Rightarrow> Synchronizable result) \<Rightarrow> Thread \<Rightarrow> Thread result" where
  "on_mutex f th =
     andThen (f (Synchronizable.truncate th)) (\<lambda>s. Inr (Synchronizable.extend s (Thread.fields (PThread th) (PID th) (Flags th))))"

definition Thread_new :: "string option \<Rightarrow> card32 \<Rightarrow> Thread" where
  "Thread_new name flags =
     Synchronizable.extend (Synchronizable_new name True) (Thread.fields 0 0 flags)"

definition running :: "Thread \<Rightarrow> bool" where
  "running th = (PThread th \<noteq> 0)"

definition getPID :: "Thread \<Rightarrow> int" where
  "getPID th = PID th"

text \<open>
  Starting. The new thread stores its process identifier before the creator goes on (see the handshake below).
\<close>

definition Thread_start ::
  "pthread_env \<Rightarrow> nat \<Rightarrow> string option \<Rightarrow> Thread \<Rightarrow> (nat \<rightharpoonup> pthread) \<Rightarrow> (bool \<times> Thread \<times> (nat \<rightharpoonup> pthread)) result" where
  "Thread_start pe me name th ps =
     andThen (on_mutex (synchronized me) th) (\<lambda>th.
     let (result, th, ps) =
           (if PThread th = 0 then
              let th = th\<lparr>PID := 0\<rparr>;
                  th = (case name of
                          Some n \<Rightarrow> th\<lparr>MutexName := MutexName (Synchronizable_setName (Some n) (Synchronizable.truncate th))\<rparr>
                        | None \<Rightarrow> th);
                  (result, t, ps) = pthread_create pe ps;
                  th = th\<lparr>PThread := t\<rparr>
              in (result, if result = 0 then th\<lparr>PID := process pe\<rparr> else th, ps)
            else (- 1, th, ps))
     in andThen (on_mutex (unsynchronized me) th) (\<lambda>th. Inr (result = 0, th, ps)))"

text \<open>
  Stopping: the request is made with the mutex held, the join after it was released.
\<close>

definition stop_request ::
  "nat \<Rightarrow> Thread \<Rightarrow> (nat \<rightharpoonup> pthread) \<Rightarrow> (bool \<times> Thread \<times> (nat \<rightharpoonup> pthread)) result" where
  "stop_request me th ps =
     andThen (on_mutex (synchronized me) th) (\<lambda>th.
     andThen (if running th then pthread_cancel (PThread th) ps else Inr ps) (\<lambda>ps.
     andThen (on_mutex (unsynchronized me) th) (\<lambda>th. Inr (running th, th, ps))))"

definition stop_finish ::
  "pthread_env \<Rightarrow> Thread \<Rightarrow> (nat \<rightharpoonup> pthread) \<Rightarrow> (int \<times> Thread \<times> (nat \<rightharpoonup> pthread)) result" where
  "stop_finish pe th ps =
     andThen (pthread_join pe (PThread th) ps) (\<lambda>(result, ps).
     andThen (on_mutex (\<lambda>s. Inr (resynchronize s)) (th\<lparr>PThread := 0\<rparr>)) (\<lambda>th. Inr (result, th, ps)))"

definition Thread_stop ::
  "pthread_env \<Rightarrow> nat \<Rightarrow> Thread \<Rightarrow> (nat \<rightharpoonup> pthread) \<Rightarrow> (int \<times> Thread \<times> (nat \<rightharpoonup> pthread)) result" where
  "Thread_stop pe me th ps =
     andThen (stop_request me th ps) (\<lambda>(wasRunning, th, ps).
     if wasRunning then stop_finish pe th ps else Inr (0, th, ps))"

definition Thread_delete ::
  "pthread_env \<Rightarrow> nat \<Rightarrow> Thread \<Rightarrow> (nat \<rightharpoonup> pthread) \<Rightarrow> (nat \<rightharpoonup> pthread) result" where
  "Thread_delete pe me th ps = andThen (Thread_stop pe me th ps) (\<lambda>(_, _, ps). Inr ps)"

definition Thread_cancel ::
  "nat \<Rightarrow> Thread \<Rightarrow> (nat \<rightharpoonup> pthread) \<Rightarrow> (Thread \<times> (nat \<rightharpoonup> pthread)) result" where
  "Thread_cancel me th ps =
     andThen (on_mutex (synchronized me) th) (\<lambda>th.
     andThen (if running th then pthread_cancel (PThread th) ps else Inr ps) (\<lambda>ps.
     andThen (on_mutex (unsynchronized me) th) (\<lambda>th. Inr (th, ps))))"

definition Thread_join ::
  "pthread_env \<Rightarrow> Thread \<Rightarrow> (nat \<rightharpoonup> pthread) \<Rightarrow> (int \<times> Thread \<times> (nat \<rightharpoonup> pthread)) result" where
  "Thread_join pe th ps =
     (if running th
      then andThen (pthread_join pe (PThread th) ps) (\<lambda>(result, ps). Inr (result, th\<lparr>PThread := 0\<rparr>, ps))
      else Inr (0, th, ps))"

section \<open>The start-up handshake\<close>

text \<open>
  The creator (\<^verbatim>\<open>Thread::start\<close>) and the new thread (\<^verbatim>\<open>Thread::go\<close>) synchronize over a mutex and a condition
  that exist only during the start. \<open>HeldBy True\<close> is the creator. Steps on a destroyed object give \<open>Broken\<close>.
\<close>

datatype startup_mutex = Absent | Free | HeldBy bool

datatype creator_place =
  CreatorInit | CreatorLock | CreatorCreate | CreatorWait | CreatorWaiting | CreatorRelock
| CreatorDestroyCondition | CreatorUnlock | CreatorDestroyMutex | CreatorReturns

datatype child_place =
  ChildAbsent | ChildSetsType | ChildSetsPID | ChildLock | ChildSignal | ChildUnlock | ChildRuns

record handshake =
  Creator :: creator_place
  Child :: child_place
  StartupMutex :: startup_mutex
  StartupCondition :: bool
  CancelType :: "card32 option"
  ChildPID :: int
  Broken :: bool

definition handshake_new :: handshake where
  "handshake_new = \<lparr>Creator = CreatorInit, Child = ChildAbsent, StartupMutex = Absent, StartupCondition = False,
     CancelType = None, ChildPID = 0, Broken = False\<rparr>"

text \<open>
  The steps of the creator, \<open>None\<close> when it has to wait; \<open>created\<close> says whether \<^verbatim>\<open>pthread_create\<close> succeeds. With \<open>spurious\<close> the wait for the condition may also end
  without a signal, as the thread library allows.
\<close>

fun creator_step :: "bool \<Rightarrow> bool \<Rightarrow> creator_place \<Rightarrow> handshake \<Rightarrow> handshake option" where
  "creator_step created spurious CreatorInit k =
     Some (k\<lparr>StartupMutex := Free, StartupCondition := True, Creator := CreatorLock\<rparr>)"
| "creator_step created spurious CreatorLock k =
     (if StartupMutex k = Free then Some (k\<lparr>StartupMutex := HeldBy True, Creator := CreatorCreate\<rparr>) else None)"
| "creator_step created spurious CreatorCreate k =
     Some (if created then k\<lparr>Child := ChildSetsType, Creator := CreatorWait\<rparr>
           else k\<lparr>Creator := CreatorDestroyCondition\<rparr>)"
| "creator_step created spurious CreatorWait k = Some (k\<lparr>StartupMutex := Free, Creator := CreatorWaiting\<rparr>)"
| "creator_step created spurious CreatorWaiting k = (if spurious then Some (k\<lparr>Creator := CreatorRelock\<rparr>) else None)"
| "creator_step created spurious CreatorRelock k =
     (if StartupMutex k = Free then Some (k\<lparr>StartupMutex := HeldBy True, Creator := CreatorDestroyCondition\<rparr>)
      else None)"
| "creator_step created spurious CreatorDestroyCondition k =
     Some (k\<lparr>StartupCondition := False, Creator := CreatorUnlock\<rparr>)"
| "creator_step created spurious CreatorUnlock k = Some (k\<lparr>StartupMutex := Free, Creator := CreatorDestroyMutex\<rparr>)"
| "creator_step created spurious CreatorDestroyMutex k =
     Some (k\<lparr>Broken := Broken k \<or> StartupMutex k \<noteq> Free, StartupMutex := Absent, Creator := CreatorReturns\<rparr>)"
| "creator_step created spurious CreatorReturns k = None"

fun go_step :: "card32 \<Rightarrow> int \<Rightarrow> child_place \<Rightarrow> handshake \<Rightarrow> handshake option" where
  "go_step flags pid ChildAbsent k = None"
| "go_step flags pid ChildSetsType k =
     Some (k\<lparr>CancelType := Some (if flags AND TF_CancelDeferred \<noteq> 0 then TF_CancelDeferred else TF_CancelAsynchronous),
             Child := ChildSetsPID\<rparr>)"
| "go_step flags pid ChildSetsPID k = Some (k\<lparr>ChildPID := pid, Child := ChildLock\<rparr>)"
| "go_step flags pid ChildLock k =
     (case StartupMutex k of
        Absent \<Rightarrow> Some (k\<lparr>Broken := True, Child := ChildSignal\<rparr>)
      | Free \<Rightarrow> Some (k\<lparr>StartupMutex := HeldBy False, Child := ChildSignal\<rparr>)
      | HeldBy b \<Rightarrow> None)"
| "go_step flags pid ChildSignal k =
     Some (k\<lparr>Broken := Broken k \<or> \<not> StartupCondition k,
             Creator := (if Creator k = CreatorWaiting then CreatorRelock else Creator k), Child := ChildUnlock\<rparr>)"
| "go_step flags pid ChildUnlock k =
     Some (k\<lparr>Broken := Broken k \<or> StartupMutex k \<noteq> HeldBy False,
             StartupMutex := (if StartupMutex k = HeldBy False then Free else StartupMutex k), Child := ChildRuns\<rparr>)"
| "go_step flags pid ChildRuns k = None"

inductive handshake_run :: "bool \<Rightarrow> bool \<Rightarrow> card32 \<Rightarrow> int \<Rightarrow> handshake \<Rightarrow> bool" for created spurious flags pid where
  handshake_start: "handshake_run created spurious flags pid handshake_new"
| creator_moves:
    "handshake_run created spurious flags pid k \<Longrightarrow> creator_step created spurious (Creator k) k = Some k' \<Longrightarrow>
     handshake_run created spurious flags pid k'"
| child_moves:
    "handshake_run created spurious flags pid k \<Longrightarrow> go_step flags pid (Child k) k = Some k' \<Longrightarrow>
     handshake_run created spurious flags pid k'"

section \<open>Sleeping\<close>

text \<open>Outcomes of \<^verbatim>\<open>nanosleep\<close>: it ends, is interrupted with a rest, or fails otherwise.\<close>

datatype nap = Slept | NapInterrupted nat nat | NapFailed

text \<open>The naps a call of \<^verbatim>\<open>delay\<close> takes: their lengths, given the outcomes of its calls of \<^verbatim>\<open>nanosleep\<close>.\<close>

fun nanosleep_again :: "nat \<times> nat \<Rightarrow> nap list \<Rightarrow> (nat \<times> nat) list result" where
  "nanosleep_again timeout [] = Inl StillWaiting"
| "nanosleep_again timeout (NapInterrupted sec nsec # naps) =
     andThen (nanosleep_again (sec, nsec) naps) (\<lambda>rest. Inr (timeout # rest))"
| "nanosleep_again timeout (_ # naps) = Inr [timeout]"

definition delay :: "card64 \<Rightarrow> bool \<Rightarrow> nap list \<Rightarrow> (card64 \<times> (nat \<times> nat) list) result" where
  "delay delayTimeout interruptable naps =
     (let timeout = (unat (delayTimeout div 1000000), unat (1000 * (delayTimeout mod 1000000)))
      in if interruptable then
           (case naps of
              [] \<Rightarrow> Inl StillWaiting
            | NapInterrupted sec nsec # _ \<Rightarrow> Inr (of_nat sec * 1000000 + of_nat nsec div 1000, [timeout])
            | _ \<Rightarrow> Inr (0, [timeout]))
         else andThen (nanosleep_again timeout naps) (\<lambda>slept. Inr (0, slept)))"

end
