(* ===== verification/ThreadLaws.thy ===== *)
theory ThreadLaws
  imports Threads
begin

text \<open>
  The properties of the threads: a thread object owns at most one thread of the thread library and leaves none
  behind, the start-up handshake is safe unless the wait ends without a signal, and an uninterruptable delay
  sleeps its whole time.
\<close>

section \<open>The start-up handshake\<close>

definition child_starting :: "child_place \<Rightarrow> bool" where
  "child_starting p = (p \<in> {ChildSetsType, ChildSetsPID, ChildLock})"

definition handshake_ok :: "bool \<Rightarrow> int \<Rightarrow> handshake \<Rightarrow> bool" where
  "handshake_ok created pid k \<longleftrightarrow>
     \<not> Broken k \<and>
     (Child k \<in> {ChildLock, ChildSignal, ChildUnlock, ChildRuns} \<longrightarrow> ChildPID k = pid) \<and>
     (Child k \<notin> {ChildAbsent, ChildSetsType} \<longrightarrow> CancelType k \<noteq> None) \<and>
     (case Creator k of
        CreatorInit \<Rightarrow> Child k = ChildAbsent \<and> StartupMutex k = Absent
      | CreatorLock \<Rightarrow> Child k = ChildAbsent \<and> StartupMutex k = Free \<and> StartupCondition k
      | CreatorCreate \<Rightarrow> Child k = ChildAbsent \<and> StartupMutex k = HeldBy True \<and> StartupCondition k
      | CreatorWait \<Rightarrow> created \<and> child_starting (Child k) \<and> StartupMutex k = HeldBy True \<and> StartupCondition k
      | CreatorWaiting \<Rightarrow> created \<and> StartupCondition k \<and>
          (child_starting (Child k) \<and> StartupMutex k = Free \<or> Child k = ChildSignal \<and> StartupMutex k = HeldBy False)
      | CreatorRelock \<Rightarrow> created \<and> StartupCondition k \<and>
          (Child k = ChildUnlock \<and> StartupMutex k = HeldBy False \<or> Child k = ChildRuns \<and> StartupMutex k = Free)
      | CreatorDestroyCondition \<Rightarrow> Child k = (if created then ChildRuns else ChildAbsent) \<and> StartupMutex k = HeldBy True
      | CreatorUnlock \<Rightarrow> Child k = (if created then ChildRuns else ChildAbsent) \<and> StartupMutex k = HeldBy True
      | CreatorDestroyMutex \<Rightarrow> Child k = (if created then ChildRuns else ChildAbsent) \<and> StartupMutex k = Free
      | CreatorReturns \<Rightarrow> Child k = (if created then ChildRuns else ChildAbsent))"

lemma creator_keeps_ok:
  assumes "handshake_ok created pid k" "creator_step created False (Creator k) k = Some k'"
  shows "handshake_ok created pid k'"
proof (cases k)
  case (fields creator child mutex condition canceltype childpid broken)
  with assms show ?thesis
    by (cases creator; clarsimp simp: handshake_ok_def child_starting_def split: if_splits)
qed

lemma child_keeps_ok:
  assumes "handshake_ok created pid k" "go_step flags pid (Child k) k = Some k'"
  shows "handshake_ok created pid k'"
proof (cases k)
  case (fields creator child mutex condition canceltype childpid broken)
  with assms show ?thesis
    by (cases child; cases creator; clarsimp simp: handshake_ok_def child_starting_def split: if_splits startup_mutex.splits)
qed

lemma handshake_keeps_ok:
  assumes "handshake_run created False flags pid k"
  shows "handshake_ok created pid k"
  using assms
proof induction
  case handshake_start
  show ?case by (simp add: handshake_ok_def handshake_new_def)
qed (blast intro: creator_keeps_ok child_keeps_ok)+

lemma handshake_progress:
  assumes "handshake_ok created pid k" "Creator k \<noteq> CreatorReturns"
  shows "creator_step created spurious (Creator k) k \<noteq> None \<or> go_step flags pid (Child k) k \<noteq> None"
  using assms
  by (cases "Creator k") (auto simp: handshake_ok_def child_starting_def)

text \<open>
  C15. The start-up handshake of a thread. Where the wait for the condition ends only when it is signalled,
  neither side uses the mutex or the condition before it exists or after it was destroyed, one of them can
  always proceed until \<^verbatim>\<open>start\<close> returns, and when it returns the new thread has stored its process identifier,
  set its type of cancellation and entered \<^verbatim>\<open>run\<close>; if it could not be created, there is none.
\<close>

theorem startup_handshake_safe:
  assumes "handshake_run created False flags pid k"
  shows "\<not> Broken k \<and>
         (Creator k \<noteq> CreatorReturns \<longrightarrow>
           creator_step created False (Creator k) k \<noteq> None \<or> go_step flags pid (Child k) k \<noteq> None) \<and>
         (Creator k = CreatorReturns \<longrightarrow>
           (if created then Child k = ChildRuns \<and> ChildPID k = pid \<and> CancelType k \<noteq> None else Child k = ChildAbsent))"
proof -
  from assms have ok: "handshake_ok created pid k" by (rule handshake_keeps_ok)
  with handshake_progress [OF ok] show ?thesis
    by (auto simp: handshake_ok_def)
qed

text \<open>Schedules of the handshake, newest step first: \<open>True\<close> is a step of the creator.\<close>

fun handshake_perform :: "bool \<Rightarrow> bool \<Rightarrow> card32 \<Rightarrow> int \<Rightarrow> bool list \<Rightarrow> handshake option" where
  "handshake_perform created spurious flags pid [] = Some handshake_new"
| "handshake_perform created spurious flags pid (b # bs) =
     (case handshake_perform created spurious flags pid bs of
        None \<Rightarrow> None
      | Some k \<Rightarrow> if b then creator_step created spurious (Creator k) k else go_step flags pid (Child k) k)"

lemma handshake_performed:
  "handshake_perform created spurious flags pid bs = Some k \<Longrightarrow> handshake_run created spurious flags pid k"
  by (induction bs arbitrary: k) (auto split: option.splits if_splits intro: handshake_run.intros)

theorem startup_handshake_safe_witness:
  "case handshake_perform True False 1 42
     [True, True, True, True, False, False, False, False, False, True, True, True, True] of
     Some k \<Rightarrow> Creator k = CreatorReturns \<and> \<not> Broken k \<and> Child k = ChildRuns \<and> ChildPID k = 42
   | None \<Rightarrow> False"
proof -
  have "\<exists>k. handshake_perform True False 1 42
       [True, True, True, True, False, False, False, False, False, True, True, True, True] = Some k \<and>
     Creator k = CreatorReturns"
    by (simp add: handshake_new_def)
  then obtain k where p: "handshake_perform True False 1 42
       [True, True, True, True, False, False, False, False, False, True, True, True, True] = Some k"
    and r: "Creator k = CreatorReturns"
    by blast
  from startup_handshake_safe [OF handshake_performed [OF p]] r p show ?thesis by simp
qed

text \<open>A wake-up without a signal breaks it: the new thread locks the mutex after it was destroyed.\<close>

theorem spurious_wakeup_breaks_startup:
  "\<exists>k. handshake_run True True 1 42 k \<and> Broken k \<and> Creator k = CreatorReturns"
proof -
  have "\<exists>k. handshake_perform True True 1 42 [False, False, False, True, True, True, True, True, True, True, True, True] = Some k \<and>
     Broken k \<and> Creator k = CreatorReturns"
    by (simp add: handshake_new_def)
  then show ?thesis by (blast intro: handshake_performed)
qed

section \<open>Life cycle\<close>

text \<open>
  What the thread library promises: the identifier of a new thread is not that of another thread it still holds. A failing
  creation leaves an arbitrary identifier.
\<close>

definition creates_fresh :: "pthread_env \<Rightarrow> bool" where
  "creates_fresh pe = (\<forall>ps t. create pe ps = (0, t) \<longrightarrow> ps t = None)"

text \<open>
  The class tells by the identifier whether there is a thread, 0 being none. A creation agrees with that when a new
  thread has another identifier and a failing creation leaves 0.
\<close>

definition agrees :: "pthread_env \<Rightarrow> (nat \<rightharpoonup> pthread) \<Rightarrow> bool" where
  "agrees pe ps = (case create pe ps of (r, t) \<Rightarrow> (r = 0) = (t \<noteq> 0))"

text \<open>
  A controller starts, cancels, stops and joins; the thread may end in between. \<open>ok\<close> says whether all creations so far agreed.
\<close>

inductive thread_life :: "pthread_env \<Rightarrow> (nat \<rightharpoonup> pthread) \<Rightarrow> bool \<Rightarrow> Thread \<Rightarrow> (nat \<rightharpoonup> pthread) \<Rightarrow> bool" for pe ps0 where
  created: "thread_life pe ps0 True (Thread_new name flags) ps0"
| started: "thread_life pe ps0 ok th ps \<Longrightarrow> Thread_start pe me name th ps = Inr (b, th', ps') \<Longrightarrow>
    thread_life pe ps0 (ok \<and> (running th \<or> agrees pe ps)) th' ps'"
| cancelled: "thread_life pe ps0 ok th ps \<Longrightarrow> Thread_cancel me th ps = Inr (th', ps') \<Longrightarrow> thread_life pe ps0 ok th' ps'"
| stopped: "thread_life pe ps0 ok th ps \<Longrightarrow> Thread_stop pe me th ps = Inr (r, th', ps') \<Longrightarrow> thread_life pe ps0 ok th' ps'"
| joined: "thread_life pe ps0 ok th ps \<Longrightarrow> Thread_join pe th ps = Inr (r, th', ps') \<Longrightarrow> thread_life pe ps0 ok th' ps'"
| ended: "thread_life pe ps0 ok th ps \<Longrightarrow> ps (PThread th) = Some (Alive c) \<Longrightarrow> PThread th \<noteq> 0 \<Longrightarrow>
    thread_life pe ps0 ok th (ps(PThread th \<mapsto> Ended r))"

definition owns_thread :: "(nat \<rightharpoonup> pthread) \<Rightarrow> Thread \<Rightarrow> (nat \<rightharpoonup> pthread) \<Rightarrow> bool" where
  "owns_thread ps0 th ps \<longleftrightarrow>
     Mutex th = pthread_mutex_init True \<and> Recursive th \<and>
     (if PThread th = 0 then ps = ps0 else ps0 (PThread th) = None \<and> (\<exists>p. ps = ps0(PThread th \<mapsto> p)))"

lemmas mutex_calls = on_mutex_def synchronized_def unsynchronized_def pthread_mutex_take_def pthread_mutex_unlock_def
  pthread_mutex_init_def Synchronizable.defs Thread.defs

abbreviation held :: "nat \<Rightarrow> Thread \<Rightarrow> Thread" where
  "held me th \<equiv> th\<lparr>Mutex := \<lparr>Holder = Some me, Holds = 1, RecursiveKind = True\<rparr>\<rparr>"

lemma lock_free: "Mutex th = pthread_mutex_init True \<Longrightarrow> on_mutex (synchronized me) th = Inr (held me th)"
  by (simp add: mutex_calls)

lemma unlock_held:
  "Mutex th = \<lparr>Holder = Some me, Holds = 1, RecursiveKind = True\<rparr> \<Longrightarrow>
   on_mutex (unsynchronized me) th = Inr (th\<lparr>Mutex := pthread_mutex_init True\<rparr>)"
  by (simp add: mutex_calls)

lemma owns_cancel:
  assumes "owns_thread ps0 th ps" "PThread th \<noteq> 0"
  shows "\<exists>p. pthread_cancel (PThread th) ps = Inr (ps0(PThread th \<mapsto> p))"
  using assms by (auto simp: owns_thread_def pthread_cancel_def split: pthread.splits)

lemma owns_join:
  assumes "owns_thread ps0 th ps" "PThread th \<noteq> 0"
  shows "pthread_join pe (PThread th) ps = Inl StillWaiting \<and> ends pe (PThread th) ps = None \<or>
         (\<exists>r. pthread_join pe (PThread th) ps = Inr (r, ps0))"
  using assms by (auto simp: owns_thread_def pthread_join_def fun_upd_idem split: pthread.splits option.splits)

lemma owns_Thread_join:
  assumes "owns_thread ps0 th ps"
  shows "Thread_join pe th ps = Inl StillWaiting \<or>
         (\<exists>r. Thread_join pe th ps = Inr (r, th\<lparr>PThread := 0\<rparr>, ps0) \<and> owns_thread ps0 (th\<lparr>PThread := 0\<rparr>) ps0)"
proof (cases "PThread th = 0")
  case True
  with assms show ?thesis by (auto simp: Thread_join_def running_def owns_thread_def)
next
  case False
  with assms owns_join [OF assms False, of pe] show ?thesis
    by (auto simp: Thread_join_def running_def owns_thread_def)
qed

lemma owns_stop_request:
  assumes "owns_thread ps0 th ps"
  shows "\<exists>ps'. stop_request me th ps = Inr (running th, th, ps') \<and> owns_thread ps0 th ps' \<and>
           Thread_cancel me th ps = Inr (th, ps')"
proof -
  have free: "Mutex th = pthread_mutex_init True" using assms by (simp add: owns_thread_def)
  have "\<exists>ps'. (if running th then pthread_cancel (PThread th) ps else Inr ps) = Inr ps' \<and> owns_thread ps0 th ps'"
  proof (cases "running th")
    case True
    then obtain p where "pthread_cancel (PThread th) ps = Inr (ps0(PThread th \<mapsto> p))"
      using owns_cancel [OF assms] by (auto simp: running_def)
    with True assms show ?thesis by (auto simp: running_def owns_thread_def)
  qed (use assms in simp)
  then obtain ps' where "(if running th then pthread_cancel (PThread th) ps else Inr ps) = Inr ps'" "owns_thread ps0 th ps'"
    by blast
  moreover have "th\<lparr>Mutex := pthread_mutex_init True\<rparr> = th" using free by (cases th) simp
  ultimately show ?thesis
    using free by (auto simp: stop_request_def Thread_cancel_def lock_free unlock_held running_def)
qed

lemma stop_finish_eq:
  "stop_finish pe th ps =
     andThen (pthread_join pe (PThread th) ps)
       (\<lambda>(r, ps). Inr (r, th\<lparr>PThread := 0, Mutex := pthread_mutex_init (Recursive th)\<rparr>, ps))"
  by (cases th) (simp add: stop_finish_def on_mutex_def resynchronize_def Synchronizable.defs Thread.defs)

lemma owns_stop:
  assumes "owns_thread ps0 th ps"
  shows "Thread_stop pe me th ps = Inl StillWaiting \<or>
         (\<exists>r. Thread_stop pe me th ps = Inr (r, th\<lparr>PThread := 0\<rparr>, ps0) \<and> owns_thread ps0 (th\<lparr>PThread := 0\<rparr>) ps0)"
proof -
  obtain ps' where req: "stop_request me th ps = Inr (running th, th, ps')" and own: "owns_thread ps0 th ps'"
    using owns_stop_request [OF assms] by blast
  have free: "Mutex th = pthread_mutex_init True" "Recursive th" using assms by (simp_all add: owns_thread_def)
  then have "th\<lparr>PThread := 0, Mutex := pthread_mutex_init (Recursive th)\<rparr> = th\<lparr>PThread := 0\<rparr>"
    by (cases th) simp
  with req own owns_join [OF own, of pe] free show ?thesis
    by (auto simp: Thread_stop_def stop_finish_eq running_def owns_thread_def)
qed

text \<open>What \<^verbatim>\<open>start\<close> does to an object whose mutex is free.\<close>

lemma start_exact:
  assumes "Mutex th = pthread_mutex_init True"
  shows "\<exists>th'. Mutex th' = pthread_mutex_init True \<and> Recursive th' = Recursive th \<and>
     (if running th then Thread_start pe me name th ps = Inr (False, th', ps) \<and> th' = th
      else case create pe ps of (r, t) \<Rightarrow>
        Thread_start pe me name th ps = Inr (r = 0, th', if r = 0 then ps(t \<mapsto> Alive False) else ps) \<and> PThread th' = t \<and>
        getPID th' = (if r = 0 then process pe else 0))"
proof (cases "running th")
  case True
  have "th\<lparr>Mutex := pthread_mutex_init True\<rparr> = th" using assms by (cases th) simp
  with True assms show ?thesis
    by (intro exI [of _ th]) (simp add: Thread_start_def lock_free unlock_held running_def)
next
  case False
  obtain r t where "create pe ps = (r, t)" by fastforce
  with assms False show ?thesis
    by (cases name; cases "r = 0") (simp_all add: Thread_start_def Let_def lock_free unlock_held pthread_create_def running_def getPID_def)
qed

lemma owns_start:
  assumes "owns_thread ps0 th ps" "creates_fresh pe" "running th \<or> agrees pe ps" "Thread_start pe me name th ps = Inr (b, th', ps')"
  shows "owns_thread ps0 th' ps'"
proof -
  have free: "Mutex th = pthread_mutex_init True" "Recursive th" using assms(1) by (simp_all add: owns_thread_def)
  obtain v where v: "Mutex v = pthread_mutex_init True" "Recursive v = Recursive th"
    "if running th then Thread_start pe me name th ps = Inr (False, v, ps) \<and> v = th
      else case create pe ps of (r, t) \<Rightarrow>
        Thread_start pe me name th ps = Inr (r = 0, v, if r = 0 then ps(t \<mapsto> Alive False) else ps) \<and> PThread v = t \<and>
        getPID v = (if r = 0 then process pe else 0)"
    using start_exact [OF free(1), of pe me name ps] by blast
  show ?thesis
  proof (cases "running th")
    case True
    with v(3) assms(1,4) show ?thesis by simp
  next
    case False
    obtain r t where c: "create pe ps = (r, t)" by fastforce
    with assms(2,3) False have "(r = 0) = (t \<noteq> 0)" "r = 0 \<Longrightarrow> ps t = None" by (auto simp: creates_fresh_def agrees_def)
    with v False c assms(1,4) free show ?thesis by (auto simp: owns_thread_def running_def split: if_splits)
  qed
qed

lemma thread_life_owns:
  assumes "thread_life pe ps0 ok th ps" "creates_fresh pe" "ok"
  shows "owns_thread ps0 th ps"
  using assms(1,3)
proof induction
  case (created name flags)
  show ?case
    by (auto simp: owns_thread_def Thread_new_def Synchronizable_new_def Synchronizable_setName_def
        Synchronizable.defs Thread.defs split: option.splits)
next
  case (started ok th ps me name b th' ps')
  then show ?case using owns_start [OF _ assms(2)] by blast
next
  case (cancelled ok th ps me th' ps')
  with owns_stop_request [of ps0 th ps me] show ?case by auto
next
  case (stopped ok th ps me r th' ps')
  with owns_stop [of ps0 th ps pe me] show ?case by auto
next
  case (joined ok th ps r th' ps')
  with owns_Thread_join [of ps0 th ps pe] show ?case by auto
next
  case (ended ok th ps c r)
  then obtain p where "ps = ps0(PThread th \<mapsto> p)" by (auto simp: owns_thread_def)
  then have "ps(PThread th \<mapsto> Ended r) = ps0(PThread th \<mapsto> Ended r)" by simp
  with ended show ?case unfolding owns_thread_def by metis
qed


text \<open>A thread library with one thread, which fails then and leaves its identifier.\<close>

definition sample_threads :: pthread_env where
  "sample_threads = \<lparr>create = (\<lambda>ps. if ps 7 = None then (0, 7) else (11, 8)), ends = (\<lambda>t ps. Some (- 1)), process = 42\<rparr>"


text \<open>
  Two threads that stop the same one: both find it running before either has joined it, and the second joins
  a thread that is gone.
\<close>

theorem concurrent_stops_join_twice:
  assumes "owns_thread ps0 th ps" "running th" "ends pe (PThread th) (ps0(PThread th \<mapsto> Alive True)) = Some r"
    and "ps = ps0(PThread th \<mapsto> Alive False)" "ps0 0 = None"
  shows "\<exists>ps1 th2 ps2. stop_request a th ps = Inr (True, th, ps1) \<and> stop_request b th ps1 = Inr (True, th, ps1) \<and>
           stop_finish pe th ps1 = Inr (r, th2, ps2) \<and> stop_finish pe th2 ps2 = Inl BadPointer"
proof -
  have free: "Mutex th = pthread_mutex_init True" "ps0 (PThread th) = None" "th\<lparr>Mutex := pthread_mutex_init True\<rparr> = th"
    using assms by (auto simp: owns_thread_def running_def split: if_splits)
  with assms show ?thesis
    by (simp add: stop_request_def lock_free unlock_held running_def pthread_cancel_def stop_finish_eq pthread_join_def)
qed

section \<open>Sleeping\<close>

definition nanoseconds :: "nat \<times> nat \<Rightarrow> nat" where
  "nanoseconds t = fst t * 10 ^ 9 + snd t"

text \<open>The time each nap lasted: an interrupted one its length less the rest.\<close>

fun slept :: "(nat \<times> nat) list \<Rightarrow> nat" where
  "slept (a # b # ts) = (nanoseconds a - nanoseconds b) + slept (b # ts)"
| "slept [a] = nanoseconds a"
| "slept [] = 0"

fun rests_shrink :: "nat \<times> nat \<Rightarrow> nap list \<Rightarrow> bool" where
  "rests_shrink t (NapInterrupted sec nsec # naps) = (nanoseconds (sec, nsec) \<le> nanoseconds t \<and> rests_shrink (sec, nsec) naps)"
| "rests_shrink t _ = True"

lemma again_sleeps:
  "rests_shrink t naps \<Longrightarrow> nanosleep_again t naps = Inr ts \<Longrightarrow> ts \<noteq> [] \<and> hd ts = t \<and> slept ts = nanoseconds t"
proof (induction t naps arbitrary: ts rule: nanosleep_again.induct)
  case (2 t sec nsec naps)
  then obtain rest where r: "nanosleep_again (sec, nsec) naps = Inr rest" "ts = t # rest"
    by (auto simp: andThen_def split: sum.splits)
  with 2 have "rest \<noteq> []" "hd rest = (sec, nsec)" "slept rest = nanoseconds (sec, nsec)" by auto
  with 2(2) r show ?case by (cases rest) auto
qed auto

lemma micro_nanoseconds:
  "nanoseconds (unat ((d :: card64) div 1000000), unat (1000 * (d mod 1000000))) = 1000 * unat d"
proof -
  have "unat (d mod 1000000) < 1000000" by (simp add: unat_mod)
  then have "unat (1000 * (d mod 1000000)) = 1000 * unat (d mod 1000000)"
    by (simp add: unat_word_ariths unat_mod)
  moreover have "unat d = 1000000 * unat (d div 1000000) + unat (d mod 1000000)"
    by (simp add: unat_div unat_mod)
  ultimately show ?thesis by (simp add: nanoseconds_def)
qed

lemma delay_sleeps_full_time:
  assumes "delay d False naps = Inr (r, ts)"
    and "rests_shrink (unat (d div 1000000), unat (1000 * (d mod 1000000))) naps"
  shows "r = 0 \<and> slept ts = 1000 * unat d"
  using assms again_sleeps micro_nanoseconds
  by (fastforce simp: delay_def Let_def andThen_def split: sum.splits)

end
