(* ===== verification/MultiTimers.thy ===== *)
theory MultiTimers
  imports Randomizers Threads
begin

text \<open>
  The timer threads of \<^verbatim>\<open>multitimerthread.icc\<close> and \<^verbatim>\<open>timedthread.cc\<close>: the parameters of the timers, which any
  thread may set, and the loop of the timer thread, which copies them, sleeps until the first timer is due, calls
  the handler \<^verbatim>\<open>timerEvent\<close> and repeats events that are late. Also the break detector of \<^verbatim>\<open>breakdetector.cc\<close>.
\<close>

section \<open>Parameters\<close>

record TimerParameters =
  Interval :: card64
  CallLimit :: card64
  TimerCorrection :: card32
  FastStart :: bool
  Running :: bool
  Updated :: bool

text \<open>\<open>Surroundings\<close> is the state of the rest of the program, with the clock.\<close>

record 'w MultiTimerThread =
  Parameters :: "TimerParameters list"
  ParametersUpdated :: bool
  Shutdown :: bool
  LeaveCorrectionLoop :: "bool list"
  Surroundings :: 'w

text \<open>
  What the loop calls: the clock, the handler and the delay. Each may change the whole state, since the handler
  and, while the thread does not hold its mutex, other threads may set parameters.
\<close>

record 'w timer_env =
  getMicroTime :: "'w MultiTimerThread \<Rightarrow> card64 \<times> 'w MultiTimerThread"
  timerEvent :: "nat \<Rightarrow> 'w MultiTimerThread \<Rightarrow> 'w MultiTimerThread"
  delayed :: "card64 \<Rightarrow> 'w MultiTimerThread \<Rightarrow> 'w MultiTimerThread"

definition UpdateResolution :: card64 where "UpdateResolution = 100000"

text \<open>The constructor leaves \<^verbatim>\<open>ParametersUpdated\<close> and \<^verbatim>\<open>Shutdown\<close> as they are in memory.\<close>

definition MultiTimerThread_new :: "nat \<Rightarrow> bool \<Rightarrow> bool \<Rightarrow> 'w \<Rightarrow> 'w MultiTimerThread" where
  "MultiTimerThread_new timers updated shutdown w =
     \<lparr>Parameters = replicate timers \<lparr>Interval = - 1, CallLimit = 0, TimerCorrection = 10, FastStart = True,
        Running = False, Updated = True\<rparr>,
      ParametersUpdated = updated, Shutdown = shutdown, LeaveCorrectionLoop = replicate timers False,
      Surroundings = w\<rparr>"

definition MultiTimerThread_cancel :: "'w MultiTimerThread \<Rightarrow> 'w MultiTimerThread" where
  "MultiTimerThread_cancel m = m\<lparr>Shutdown := True\<rparr>"

text \<open>\<^verbatim>\<open>stop\<close> requests the end; it then joins the thread, which ends when its loop sees the request.\<close>

definition MultiTimerThread_stop ::
  "pthread_env \<Rightarrow> Thread \<Rightarrow> (nat \<rightharpoonup> pthread) \<Rightarrow> 'w MultiTimerThread \<Rightarrow>
   (Thread \<times> (nat \<rightharpoonup> pthread) \<times> 'w MultiTimerThread) result" where
  "MultiTimerThread_stop pe th ps m =
     (let m = MultiTimerThread_cancel m
      in andThen (Thread_join pe th ps) (\<lambda>(_, th, ps). Inr (th, ps, m)))"

definition isShuttingDown :: "'w MultiTimerThread \<Rightarrow> bool" where
  "isShuttingDown m = Shutdown m"

definition getInterval :: "nat \<Rightarrow> 'w MultiTimerThread \<Rightarrow> card64" where
  "getInterval timer m = (if timer < length (Parameters m) then Interval (Parameters m ! timer) else 0)"

definition setInterval :: "nat \<Rightarrow> card64 \<Rightarrow> card64 \<Rightarrow> 'w MultiTimerThread \<Rightarrow> 'w MultiTimerThread" where
  "setInterval timer usec callLimit m =
     (if timer < length (Parameters m) then
        m\<lparr>LeaveCorrectionLoop := (LeaveCorrectionLoop m)[timer := False],
          Parameters := (Parameters m)[timer := (Parameters m ! timer)
            \<lparr>Interval := usec, Updated := True, CallLimit := callLimit, Running := (usec > 0)\<rparr>],
          ParametersUpdated := True\<rparr>
      else m)"

definition getTimerCorrection :: "nat \<Rightarrow> 'w MultiTimerThread \<Rightarrow> card32" where
  "getTimerCorrection timer m =
     (if timer < length (Parameters m) then TimerCorrection (Parameters m ! timer) else 0)"

definition leaveCorrectionLoop :: "nat \<Rightarrow> 'w MultiTimerThread \<Rightarrow> 'w MultiTimerThread" where
  "leaveCorrectionLoop timer m =
     (if timer < length (Parameters m)
      then m\<lparr>LeaveCorrectionLoop := (LeaveCorrectionLoop m)[timer := True]\<rparr> else m)"

definition setTimerCorrection :: "nat \<Rightarrow> card32 \<Rightarrow> 'w MultiTimerThread \<Rightarrow> 'w MultiTimerThread" where
  "setTimerCorrection timer maxCorrection m =
     (if timer < length (Parameters m) then
        m\<lparr>Parameters := (Parameters m)[timer := (Parameters m ! timer)
            \<lparr>TimerCorrection := maxCorrection, Updated := True\<rparr>],
          ParametersUpdated := True\<rparr>
      else m)"

definition getFastStart :: "nat \<Rightarrow> 'w MultiTimerThread \<Rightarrow> bool" where
  "getFastStart timer m = (timer < length (Parameters m) \<and> FastStart (Parameters m ! timer))"

definition setFastStart :: "nat \<Rightarrow> bool \<Rightarrow> 'w MultiTimerThread \<Rightarrow> 'w MultiTimerThread" where
  "setFastStart timer on m =
     (if timer < length (Parameters m)
      then m\<lparr>Parameters := (Parameters m)[timer := (Parameters m ! timer)\<lparr>FastStart := on\<rparr>]\<rparr> else m)"

definition setNextAction :: "nat \<Rightarrow> card64 \<Rightarrow> card64 \<Rightarrow> 'w MultiTimerThread \<Rightarrow> 'w MultiTimerThread" where
  "setNextAction timer usec callLimit m = setInterval timer usec callLimit (setFastStart timer False m)"

definition setNextActionAbs ::
  "'w timer_env \<Rightarrow> nat \<Rightarrow> card64 \<Rightarrow> card64 \<Rightarrow> 'w MultiTimerThread \<Rightarrow> 'w MultiTimerThread" where
  "setNextActionAbs te timer timeStamp callLimit m =
     (let (now, m) = getMicroTime te m;
          m = setFastStart timer False m
      in if 0 <s timeStamp - now then setInterval timer (timeStamp - now) callLimit m
         else setInterval timer 1 callLimit m)"

section \<open>The loop of the thread\<close>

text \<open>The local variables of \<^verbatim>\<open>run\<close>.\<close>

record timer_run =
  parameters :: "TimerParameters list"
  calls :: "card64 list"
  nextAt :: "card64 list"
  now :: card64
  nextTimeStamp :: card64
  random :: Randomizer

definition run_init :: "'w timer_env \<Rightarrow> 'w MultiTimerThread \<Rightarrow> timer_run \<times> 'w MultiTimerThread" where
  "run_init te m =
     (let m = m\<lparr>Shutdown := False, ParametersUpdated := True\<rparr>;
          (seed, m) = getMicroTime te m;
          n = length (Parameters m);
          ps = map (\<lambda>p. p\<lparr>Updated := True\<rparr>) (Parameters m);
          (t, m) = getMicroTime te m
      in (\<lparr>parameters = ps, calls = replicate n 0, nextAt = replicate n 0, now = t, nextTimeStamp = t,
           random = Randomizer_new seed\<rparr>, m))"

definition update_timer :: "nat \<Rightarrow> timer_run \<times> 'w MultiTimerThread \<Rightarrow> timer_run \<times> 'w MultiTimerThread" where
  "update_timer i rm = (case rm of (r, m) \<Rightarrow>
     if Updated (Parameters m ! i) then
       let p = Parameters m ! i;
           r = r\<lparr>parameters := (parameters r)[i := p]\<rparr>;
           m = m\<lparr>Parameters := (Parameters m)[i := p\<lparr>Updated := False\<rparr>]\<rparr>;
           (v, g) = random32 (random r);
           r = (if Running p then
                  (if \<not> FastStart p then
                     (if Interval p \<noteq> 0 \<and> CallLimit p = 0
                      then r\<lparr>nextAt := (nextAt r)[i := now r + ucast v mod Interval p], random := g\<rparr>
                      else r\<lparr>nextAt := (nextAt r)[i := now r + Interval p]\<rparr>)
                   else r\<lparr>nextAt := (nextAt r)[i := now r]\<rparr>)
                else r)
       in (r\<lparr>calls := (calls r)[i := 0]\<rparr>, m)
     else rm)"

definition update_timers :: "timer_run \<times> 'w MultiTimerThread \<Rightarrow> timer_run \<times> 'w MultiTimerThread" where
  "update_timers rm = (case rm of (r, m) \<Rightarrow>
     if ParametersUpdated m
     then fold update_timer [0..<length (Parameters m)] (r, m\<lparr>ParametersUpdated := False\<rparr>)
     else rm)"

definition first_due :: "timer_run \<Rightarrow> card64" where
  "first_due r =
     fold (\<lambda>i t. if Running (parameters r ! i) then min t (nextAt r ! i) else t) [0..<length (parameters r)]
       (now r + UpdateResolution)"

definition run_wait :: "'w timer_env \<Rightarrow> timer_run \<times> 'w MultiTimerThread \<Rightarrow> timer_run \<times> 'w MultiTimerThread" where
  "run_wait te rm = (case rm of (r, m) \<Rightarrow>
     let (t, m) = getMicroTime te m;
         r = r\<lparr>now := t\<rparr>;
         r = r\<lparr>nextTimeStamp := first_due r\<rparr>;
         m = (if now r \<le> nextTimeStamp r then delayed te (nextTimeStamp r - now r) m else m);
         (t, m) = getMicroTime te m
     in (r\<lparr>now := t\<rparr>, m))"

text \<open>The event of a timer that is due, and the number of its calls.\<close>

definition fire_timer ::
  "'w timer_env \<Rightarrow> nat \<Rightarrow> timer_run \<times> 'w MultiTimerThread \<Rightarrow> timer_run \<times> 'w MultiTimerThread" where
  "fire_timer te i rm = (case rm of (r, m) \<Rightarrow>
     (r\<lparr>nextAt := (nextAt r)[i := nextAt r ! i + Interval (parameters r ! i)], calls := (calls r)[i := calls r ! i + 1]\<rparr>,
      timerEvent te i m))"

definition limit_reached :: "nat \<Rightarrow> timer_run \<Rightarrow> bool" where
  "limit_reached i r = (CallLimit (parameters r ! i) > 0 \<and> calls r ! i \<ge> CallLimit (parameters r ! i))"

definition stop_at_limit :: "nat \<Rightarrow> timer_run \<Rightarrow> timer_run" where
  "stop_at_limit i r =
     (if limit_reached i r then r\<lparr>parameters := (parameters r)[i := (parameters r ! i)\<lparr>Running := False\<rparr>]\<rparr> else r)"

definition invoke_timer ::
  "'w timer_env \<Rightarrow> nat \<Rightarrow> timer_run \<times> 'w MultiTimerThread \<Rightarrow> timer_run \<times> 'w MultiTimerThread" where
  "invoke_timer te i rm = (case rm of (r, m) \<Rightarrow>
     if Running (parameters r ! i) \<and> nextAt r ! i \<le> now r then fire_timer te i (stop_at_limit i r, m) else rm)"

text \<open>The correction loop of a late timer; \<open>n\<close> bounds the passes.\<close>

fun correction_loop ::
  "nat \<Rightarrow> 'w timer_env \<Rightarrow> nat \<Rightarrow> timer_run \<times> 'w MultiTimerThread \<Rightarrow> (timer_run \<times> 'w MultiTimerThread) result" where
  "correction_loop 0 te i rm = Inl OutOfFuel"
| "correction_loop (Suc n) te i rm = (case rm of (r, m) \<Rightarrow>
     if nextAt r ! i < now r then
       if LeaveCorrectionLoop m ! i
       then Inr (r, m\<lparr>LeaveCorrectionLoop := (LeaveCorrectionLoop m)[i := False]\<rparr>)
       else
         let (r, m) = fire_timer te i (r, m);
             (t, m) = getMicroTime te m;
             r = stop_at_limit i (r\<lparr>now := t\<rparr>)
         in if now r \<le> nextAt r ! i then Inr (r, m) else correction_loop n te i (r, m)
     else Inr rm)"

definition correct_timer ::
  "nat \<Rightarrow> 'w timer_env \<Rightarrow> nat \<Rightarrow> timer_run \<times> 'w MultiTimerThread \<Rightarrow> (timer_run \<times> 'w MultiTimerThread) result" where
  "correct_timer n te i rm = (case rm of (r, m) \<Rightarrow>
     let p = parameters r ! i in
     if Running p \<and> nextAt r ! i \<le> now r then
       if now r < nextAt r ! i + ucast (TimerCorrection p) * Interval p then correction_loop n te i (r, m)
       else let (t, m) = getMicroTime te m
            in Inr (r\<lparr>now := t, nextAt := (nextAt r)[i := t + Interval p]\<rparr>, m)
     else Inr rm)"

definition run_pass ::
  "nat \<Rightarrow> 'w timer_env \<Rightarrow> timer_run \<times> 'w MultiTimerThread \<Rightarrow> (timer_run \<times> 'w MultiTimerThread) result" where
  "run_pass n te rm =
     (let rm = run_wait te (update_timers rm);
          timers = [0..<length (parameters (fst rm))];
          (r, m) = fold (invoke_timer te) timers rm
      in forEach (correct_timer n te) timers (r\<lparr>nextTimeStamp := now r + UpdateResolution\<rparr>, m))"

text \<open>The loop until the end is requested; \<open>k\<close> bounds its passes, \<open>n\<close> those of a correction loop.\<close>

fun run_loop ::
  "nat \<Rightarrow> nat \<Rightarrow> 'w timer_env \<Rightarrow> timer_run \<times> 'w MultiTimerThread \<Rightarrow> (timer_run \<times> 'w MultiTimerThread) result" where
  "run_loop 0 n te rm = Inl OutOfFuel"
| "run_loop (Suc k) n te rm =
     (if isShuttingDown (snd rm) then Inr rm else andThen (run_pass n te rm) (run_loop k n te))"

definition run :: "nat \<Rightarrow> nat \<Rightarrow> 'w timer_env \<Rightarrow> 'w MultiTimerThread \<Rightarrow> (timer_run \<times> 'w MultiTimerThread) result" where
  "run k n te m = run_loop k n te (run_init te m)"

section \<open>Threads with one timer\<close>

definition TimedThread_setInterval :: "card64 \<Rightarrow> 'w MultiTimerThread \<Rightarrow> 'w MultiTimerThread" where
  "TimedThread_setInterval usec m = setInterval 0 usec 0 m"

definition TimedThread_new :: "card64 \<Rightarrow> bool \<Rightarrow> bool \<Rightarrow> 'w \<Rightarrow> 'w MultiTimerThread" where
  "TimedThread_new usec updated shutdown w =
     TimedThread_setInterval usec (MultiTimerThread_new 1 updated shutdown w)"

definition TimedThread_getInterval :: "'w MultiTimerThread \<Rightarrow> card64" where
  "TimedThread_getInterval m = getInterval 0 m"

definition TimedThread_getTimerCorrection :: "'w MultiTimerThread \<Rightarrow> card32" where
  "TimedThread_getTimerCorrection m = getTimerCorrection 0 m"

definition TimedThread_setTimerCorrection :: "card32 \<Rightarrow> 'w MultiTimerThread \<Rightarrow> 'w MultiTimerThread" where
  "TimedThread_setTimerCorrection maxCorrection m = setTimerCorrection 0 maxCorrection m"

definition TimedThread_leaveCorrectionLoop :: "'w MultiTimerThread \<Rightarrow> 'w MultiTimerThread" where
  "TimedThread_leaveCorrectionLoop m = leaveCorrectionLoop 0 m"

definition TimedThread_getFastStart :: "'w MultiTimerThread \<Rightarrow> bool" where
  "TimedThread_getFastStart m = getFastStart 0 m"

definition TimedThread_setFastStart :: "bool \<Rightarrow> 'w MultiTimerThread \<Rightarrow> 'w MultiTimerThread" where
  "TimedThread_setFastStart on m = setFastStart 0 on m"

definition TimedThread_setNextAction :: "card64 \<Rightarrow> card64 \<Rightarrow> 'w MultiTimerThread \<Rightarrow> 'w MultiTimerThread" where
  "TimedThread_setNextAction usec callLimit m = setNextAction 0 usec callLimit m"

definition TimedThread_setNextActionAbs ::
  "'w timer_env \<Rightarrow> card64 \<Rightarrow> card64 \<Rightarrow> 'w MultiTimerThread \<Rightarrow> 'w MultiTimerThread" where
  "TimedThread_setNextActionAbs te usec timeStamp m = setNextActionAbs te 0 usec timeStamp m"

section \<open>The break detector\<close>

record break_detector =
  DetectedBreak :: bool
  PrintedBreak :: bool
  Quiet :: bool
  PrintedKill :: bool
  LastDetection :: card64
  HandlerInstalled :: bool

datatype break_output = PrintBreak | PrintKill | KillMain

definition breakDetector :: "card64 \<Rightarrow> break_detector \<Rightarrow> break_output list \<times> break_detector" where
  "breakDetector microTime b =
     (let b = b\<lparr>DetectedBreak := True\<rparr> in
      if \<not> PrintedKill b then
        if LastDetection b = - 1 then ([], b\<lparr>LastDetection := microTime\<rparr>)
        else if microTime - LastDetection b \<ge> 2000000 then ([PrintKill, KillMain], b\<lparr>PrintedKill := True\<rparr>)
        else ([], b)
      else ([], b))"

definition installBreakDetector :: "break_detector \<Rightarrow> break_detector" where
  "installBreakDetector b =
     b\<lparr>DetectedBreak := False, PrintedBreak := False, Quiet := False, PrintedKill := False, LastDetection := - 1,
       HandlerInstalled := True\<rparr>"

definition uninstallBreakDetector :: "break_detector \<Rightarrow> break_detector" where
  "uninstallBreakDetector b =
     b\<lparr>HandlerInstalled := False, PrintedKill := False, LastDetection := - 1, DetectedBreak := False,
       PrintedBreak := False, Quiet := False\<rparr>"

text \<open>A flag is set to a time: it becomes true unless the time is 0.\<close>

definition breakDetected :: "card64 \<Rightarrow> break_detector \<Rightarrow> bool \<times> break_output list \<times> break_detector" where
  "breakDetected microTime b =
     (if DetectedBreak b \<and> \<not> PrintedBreak b
      then (True, if \<not> Quiet b then [PrintBreak] else [], b\<lparr>PrintedBreak := (microTime \<noteq> 0)\<rparr>)
      else (DetectedBreak b, [], b))"

text \<open>The signal reaches the handler if it is installed; otherwise it ends the process.\<close>

definition sendBreak :: "bool \<Rightarrow> card64 \<Rightarrow> break_detector \<Rightarrow> (break_output list \<times> break_detector) result" where
  "sendBreak quiet microTime b =
     (let b = b\<lparr>Quiet := quiet\<rparr>
      in if HandlerInstalled b then Inr (breakDetector microTime b) else Inl ProcessAbort)"

end
