(* ===== verification/TimerLaws.thy ===== *)
theory TimerLaws
  imports MultiTimers
begin

text \<open>
  The properties of the timer threads: how often late events are repeated, when a handler is so slow that the
  repetition never ends, how often a timer with a limit calls its handler, and which calls of \<^verbatim>\<open>stop\<close> are lost.
\<close>

section \<open>Times without overflow\<close>

lemma advance_unat:
  assumes "unat (a :: card64) + k * unat d < 2 ^ 64"
  shows "unat (a + of_nat k * d) = unat a + k * unat d"
proof -
  have "a + of_nat k * d = of_nat (unat a + k * unat d)" by simp
  then have "unat (a + of_nat k * d) = (unat a + k * unat d) mod 2 ^ 64" by (simp only: unat_of_nat) simp
  with assms show ?thesis by simp
qed

definition indexed :: "nat \<Rightarrow> timer_run \<Rightarrow> bool" where
  "indexed i r = (i < length (parameters r) \<and> i < length (calls r) \<and> i < length (nextAt r))"

lemma stop_at_limit_simps [simp]:
  "calls (stop_at_limit i r) = calls r" "nextAt (stop_at_limit i r) = nextAt r" "now (stop_at_limit i r) = now r"
  "length (parameters (stop_at_limit i r)) = length (parameters r)" "indexed j (stop_at_limit i r) = indexed j r"
  "i < length (parameters r) \<Longrightarrow> Interval (parameters (stop_at_limit i r) ! i) = Interval (parameters r ! i)"
  "i < length (parameters r) \<Longrightarrow> CallLimit (parameters (stop_at_limit i r) ! i) = CallLimit (parameters r ! i)"
  "i < length (parameters r) \<Longrightarrow>
   Running (parameters (stop_at_limit i r) ! i) = (Running (parameters r ! i) \<and> \<not> limit_reached i r)"
  by (simp_all add: stop_at_limit_def indexed_def)

section \<open>Correction of late timers\<close>

text \<open>The outcome of correcting timer \<open>i\<close> with \<open>k\<close> events: it caught up, or was told to leave.\<close>

definition corrected ::
  "nat \<Rightarrow> nat \<Rightarrow> timer_run \<Rightarrow> timer_run \<Rightarrow> 'w MultiTimerThread \<Rightarrow> bool" where
  "corrected i k r r' m' \<longleftrightarrow>
     calls r' ! i = calls r ! i + of_nat k \<and>
     nextAt r' ! i = nextAt r ! i + of_nat k * Interval (parameters r ! i) \<and>
     (now r' \<le> nextAt r' ! i \<or>
      (\<exists>m. LeaveCorrectionLoop m ! i \<and> m' = m\<lparr>LeaveCorrectionLoop := (LeaveCorrectionLoop m)[i := False]\<rparr>))"

lemma corrected_0:
  "now r \<le> nextAt r ! i \<or>
   (\<exists>m. LeaveCorrectionLoop m ! i \<and> m' = m\<lparr>LeaveCorrectionLoop := (LeaveCorrectionLoop m)[i := False]\<rparr>) \<Longrightarrow>
   corrected i 0 r r m'"
  by (simp add: corrected_def)

lemma corrected_Suc:
  assumes "corrected i k r2 r' m'" "calls r2 ! i = calls r ! i + 1"
    and "nextAt r2 ! i = nextAt r ! i + Interval (parameters r ! i)" "Interval (parameters r2 ! i) = Interval (parameters r ! i)"
  shows "corrected i (Suc k) r r' m'"
proof -
  have "nextAt r' ! i = nextAt r ! i + of_nat (Suc k) * Interval (parameters r ! i)"
    using assms by (simp add: corrected_def algebra_simps)
  moreover have "calls r' ! i = calls r ! i + of_nat (Suc k)" using assms by (simp add: corrected_def)
  ultimately show ?thesis using assms(1) unfolding corrected_def by blast
qed

text \<open>One pass of the correction loop.\<close>

lemma correction_pass:
  assumes "indexed i r" "nextAt r ! i < now r" "\<not> LeaveCorrectionLoop m ! i"
  obtains r2 m2 where "getMicroTime te (timerEvent te i m) = (now r2, m2)" "indexed i r2"
    "nextAt r2 ! i = nextAt r ! i + Interval (parameters r ! i)" "calls r2 ! i = calls r ! i + 1"
    "Interval (parameters r2 ! i) = Interval (parameters r ! i)"
    "\<And>n. correction_loop (Suc n) te i (r, m) =
       (if now r2 \<le> nextAt r2 ! i then Inr (r2, m2) else correction_loop n te i (r2, m2))"
proof -
  obtain r1 where f: "fire_timer te i (r, m) = (r1, timerEvent te i m)" and r1: "indexed i r1" "parameters r1 = parameters r"
      "nextAt r1 ! i = nextAt r ! i + Interval (parameters r ! i)" "calls r1 ! i = calls r ! i + 1"
    using assms(1) by (auto simp: fire_timer_def indexed_def)
  obtain t m2 where t: "getMicroTime te (timerEvent te i m) = (t, m2)" by fastforce
  show thesis
    by (rule that [of "stop_at_limit i (r1\<lparr>now := t\<rparr>)" m2]) (use assms f t r1 in \<open>simp_all add: indexed_def\<close>)
qed

lemma correction_loop_bounded:
  assumes "indexed i r" "j < n" "unat (nextAt r ! i) + j * unat (Interval (parameters r ! i)) < 2 ^ 64"
    and "now r \<le> nextAt r ! i + of_nat j * Interval (parameters r ! i)"
    and clock: "\<And>m. fst (getMicroTime te m) \<le> nextAt r ! i + of_nat j * Interval (parameters r ! i)"
  shows "\<exists>r' m' k. correction_loop n te i (r, m) = Inr (r', m') \<and> k \<le> j \<and> corrected i k r r' m'"
  using assms
proof (induction j arbitrary: n r m)
  case 0
  then obtain n' where "n = Suc n'" by (cases n) auto
  with 0 show ?case by (auto simp: not_less intro: corrected_0)
next
  case (Suc j)
  then obtain n' where n: "n = Suc n'" by (cases n) auto
  let ?d = "Interval (parameters r ! i)"
  show ?case
  proof (cases "nextAt r ! i < now r \<and> \<not> LeaveCorrectionLoop m ! i")
    case False
    then have "\<exists>m'. correction_loop n te i (r, m) = Inr (r, m') \<and> corrected i 0 r r m'"
      using n by (auto intro!: corrected_0)
    then show ?thesis by blast
  next
    case True
    then obtain r2 m2 where t: "getMicroTime te (timerEvent te i m) = (now r2, m2)" and r2: "indexed i r2"
        "nextAt r2 ! i = nextAt r ! i + ?d" "calls r2 ! i = calls r ! i + 1" "Interval (parameters r2 ! i) = ?d"
      and step: "correction_loop n te i (r, m) =
        (if now r2 \<le> nextAt r2 ! i then Inr (r2, m2) else correction_loop n' te i (r2, m2))"
      using correction_pass [OF Suc.prems(1)] n by metis
    have end_eq: "nextAt r2 ! i + of_nat j * Interval (parameters r2 ! i) = nextAt r ! i + of_nat (Suc j) * ?d"
      by (simp add: r2 algebra_simps)
    show ?thesis
    proof (cases "now r2 \<le> nextAt r2 ! i")
      case True
      then have "corrected i 1 r r2 m2" using r2 by (simp add: corrected_def)
      with step True show ?thesis by (intro exI [of _ r2] exI [of _ m2] exI [of _ 1]) simp
    next
      case False
      have "unat (nextAt r2 ! i) + j * unat (Interval (parameters r2 ! i)) < 2 ^ 64"
        using advance_unat [of "nextAt r ! i" 1 ?d] Suc.prems(3) r2 by simp
      moreover have "now r2 \<le> nextAt r2 ! i + of_nat j * Interval (parameters r2 ! i)"
        using Suc.prems(5) [of "timerEvent te i m"] t by (simp only: end_eq fst_conv)
      ultimately obtain r' m' k where
        "correction_loop n' te i (r2, m2) = Inr (r', m')" "k \<le> j" "corrected i k r2 r' m'"
        using Suc.IH [OF r2(1), of n' m2] Suc.prems(2,5) n unfolding end_eq by (metis Suc_less_eq)
      then show ?thesis using step False corrected_Suc [OF _ r2(3,2,4)] by (metis Suc_le_mono)
    qed
  qed
qed


text \<open>
  A program with a clock in which every event takes \<open>d\<close> microseconds; the list holds the timers of the events.
\<close>

definition busy_timers :: "card64 \<Rightarrow> (card64 \<times> nat list) timer_env" where
  "busy_timers d =
     \<lparr>getMicroTime = (\<lambda>m. (fst (Surroundings m), m)),
      timerEvent = (\<lambda>i m. m\<lparr>Surroundings := (fst (Surroundings m) + d, i # snd (Surroundings m))\<rparr>),
      delayed = (\<lambda>t m. m\<lparr>Surroundings := (fst (Surroundings m) + t, snd (Surroundings m))\<rparr>)\<rparr>"

definition late_run :: timer_run where
  "late_run = \<lparr>parameters = [\<lparr>Interval = 10, CallLimit = 0, TimerCorrection = 4, FastStart = True, Running = True,
      Updated = False\<rparr>], calls = [3], nextAt = [1000], now = 1025, nextTimeStamp = 0, random = \<lparr>Value = 0\<rparr>\<rparr>"

definition late_thread :: "(card64 \<times> nat list) MultiTimerThread" where
  "late_thread = (MultiTimerThread_new 1 False False (1025, []))"

definition still_clock :: "(card64 \<times> nat list) timer_env" where
  "still_clock = (busy_timers 0)\<lparr>getMicroTime := (\<lambda>m. (1025, m))\<rparr>"


text \<open>
  A handler that takes at least an interval is never caught up with: the loop goes on for as many passes as it
  gets, until the clock wraps around. It does not look for a request to end the thread.
\<close>

theorem slow_handler_never_caught_up:
  assumes "indexed i r" "unat (nextAt r ! i) < unat (now r)" "fst (Surroundings m) = now r"
    and "unat (Interval (parameters r ! i)) \<le> unat d" "unat (now r) + n * unat d < 2 ^ 64"
    and "\<not> LeaveCorrectionLoop m ! i"
  shows "correction_loop n (busy_timers d) i (r, m) = Inl OutOfFuel"
  using assms
proof (induction n arbitrary: r m)
  case (Suc n)
  let ?I = "Interval (parameters r ! i)" and ?m = "timerEvent (busy_timers d) i m"
  have late: "nextAt r ! i < now r" using Suc.prems(2) by (simp add: word_less_nat_alt)
  obtain r2 where r2: "now r2 = now r + d" "indexed i r2" "nextAt r2 ! i = nextAt r ! i + ?I" "Interval (parameters r2 ! i) = ?I"
    and step: "correction_loop (Suc n) (busy_timers d) i (r, m) =
      (if now r2 \<le> nextAt r2 ! i then Inr (r2, ?m) else correction_loop n (busy_timers d) i (r2, ?m))"
    by (rule correction_pass [OF Suc.prems(1) late Suc.prems(6), of "busy_timers d"])
      (use Suc.prems(3) in \<open>auto simp: busy_timers_def\<close>)
  have m: "fst (Surroundings ?m) = now r2" "\<not> LeaveCorrectionLoop ?m ! i"
    using Suc.prems(3,6) r2(1) by (simp_all add: busy_timers_def)
  have nums: "unat (now r2) = unat (now r) + unat d" "unat (nextAt r2 ! i) = unat (nextAt r ! i) + unat ?I"
    using advance_unat [of "now r" 1 d] advance_unat [of "nextAt r ! i" 1 ?I] Suc.prems(2,4,5) r2 by simp_all
  have "correction_loop n (busy_timers d) i (r2, ?m) = Inl OutOfFuel"
    by (rule Suc.IH) (use r2 m nums Suc.prems(2,4,5) in simp_all)
  with step nums Suc.prems(2,4) show ?case by (simp add: word_le_nat_alt)
qed simp

section \<open>Limits\<close>

lemma invoke_due:
  assumes "indexed i r" "Running (parameters r ! i)" "nextAt r ! i \<le> now r"
  obtains r' where "invoke_timer te i (r, m) = (r', timerEvent te i m)" "indexed i r'"
    "calls r' ! i = calls r ! i + 1" "nextAt r' ! i = nextAt r ! i + Interval (parameters r ! i)"
    "Interval (parameters r' ! i) = Interval (parameters r ! i)"
    "CallLimit (parameters r' ! i) = CallLimit (parameters r ! i)"
    "Running (parameters r' ! i) = (\<not> limit_reached i r)"
proof -
  let ?s = "stop_at_limit i r"
  let ?r = "?s\<lparr>nextAt := (nextAt ?s)[i := nextAt ?s ! i + Interval (parameters ?s ! i)],
               calls := (calls ?s)[i := calls ?s ! i + 1]\<rparr>"
  show thesis
    by (rule that [of ?r]) (use assms in \<open>simp_all add: invoke_timer_def fire_timer_def indexed_def\<close>)
qed

text \<open>The events of timer \<open>i\<close> in passes of the loop at the times \<open>ts\<close>.\<close>

fun invoke_at :: "'w timer_env \<Rightarrow> nat \<Rightarrow> card64 list \<Rightarrow> timer_run \<times> 'w MultiTimerThread \<Rightarrow> timer_run \<times> 'w MultiTimerThread" where
  "invoke_at te i [] rm = rm"
| "invoke_at te i (t # ts) rm = invoke_at te i ts (invoke_timer te i ((fst rm)\<lparr>now := t\<rparr>, snd rm))"

lemma invoke_stopped:
  "\<not> Running (parameters r ! i) \<Longrightarrow>
   snd (invoke_at te i ts (r, m)) = m \<and> \<not> Running (parameters (fst (invoke_at te i ts (r, m))) ! i)"
  by (induction ts arbitrary: r) (simp_all add: invoke_timer_def)

fun due_at :: "card64 \<Rightarrow> card64 \<Rightarrow> card64 list \<Rightarrow> bool" where
  "due_at d a [] = True"
| "due_at d a (t # ts) = (a \<le> t \<and> due_at d (a + d) ts)"

lemma invoke_limited:
  assumes "indexed i r" "Running (parameters r ! i)" "L = unat (CallLimit (parameters r ! i))"
    and "0 < L" "c \<le> L" "calls r ! i = of_nat c" "due_at (Interval (parameters r ! i)) (nextAt r ! i) ts"
  shows "snd (invoke_at te i ts (r, m)) = (timerEvent te i ^^ min (length ts) (L + 1 - c)) m \<and>
         Running (parameters (fst (invoke_at te i ts (r, m))) ! i) = (length ts \<le> L - c)"
  using assms
proof (induction ts arbitrary: r m c)
  case (Cons t ts)
  have L: "L < 2 ^ 64" using Cons.prems(3) unsigned_less [of "CallLimit (parameters r ! i)"] by simp
  then have c: "unat (calls r ! i) = c" using Cons.prems(5,6) by (simp add: unat_of_nat)
  let ?r = "r\<lparr>now := t\<rparr>"
  have "indexed i ?r" "Running (parameters ?r ! i)" "nextAt ?r ! i \<le> now ?r"
    using Cons.prems by (simp_all add: indexed_def)
  then obtain r' where r': "invoke_timer te i (?r, m) = (r', timerEvent te i m)" "indexed i r'"
    "calls r' ! i = calls ?r ! i + 1" "nextAt r' ! i = nextAt ?r ! i + Interval (parameters ?r ! i)"
    "Interval (parameters r' ! i) = Interval (parameters ?r ! i)"
    "CallLimit (parameters r' ! i) = CallLimit (parameters ?r ! i)"
    "Running (parameters r' ! i) = (\<not> limit_reached i ?r)"
    by (rule invoke_due)
  have reached: "limit_reached i ?r = (c = L)"
    using c Cons.prems(3-5) by (auto simp: limit_reached_def word_less_nat_alt word_le_nat_alt)
  show ?case
  proof (cases "c = L")
    case True
    with r' reached invoke_stopped [of r' i te ts "timerEvent te i m"] show ?thesis by simp
  next
    case False
    with Cons.prems r' reached have "snd (invoke_at te i ts (r', timerEvent te i m)) =
        (timerEvent te i ^^ min (length ts) (L + 1 - Suc c)) (timerEvent te i m) \<and>
      Running (parameters (fst (invoke_at te i ts (r', timerEvent te i m))) ! i) = (length ts \<le> L - Suc c)"
      by (intro Cons.IH) simp_all
    moreover have "min (length (t # ts)) (L + 1 - c) = Suc (min (length ts) (L + 1 - Suc c))"
      using False Cons.prems(5) by simp
    ultimately show ?thesis using r'(1) False Cons.prems(5) by (auto simp: funpow_swap1)
  qed
qed simp


definition single_shot_run :: timer_run where
  "single_shot_run = fst (update_timers (run_init (busy_timers 0)
     (setNextAction 0 10 1 (MultiTimerThread_new 1 False False (1000, [])))))"


section \<open>Requests to end\<close>

text \<open>A request made before the thread has entered \<^verbatim>\<open>run\<close> is lost.\<close>

theorem early_stop_lost:
  assumes "\<And>m. Shutdown (snd (getMicroTime te m)) = Shutdown m"
  shows "\<not> isShuttingDown (snd (run_init te (MultiTimerThread_cancel m)))"
proof -
  have "Shutdown (snd (run_init te m')) = False" for m'
    using assms by (simp add: run_init_def Let_def case_prod_beta)
  then show ?thesis by (simp add: isShuttingDown_def)
qed

end
