(* ===== verification/Tftp.thy ===== *)
theory Tftp
  imports Prelude
begin

text \<open>
  The file transfer programs: the client \<^verbatim>\<open>sctptftp.cc\<close> and the file server of \<^verbatim>\<open>sctpmultiserver.cc\<close>. A
  connection is the list of what arrives on the socket and the list of what was sent; files are kept in a map, and
  writing fails when the space is used up.
\<close>

section \<open>Packets, connections and files\<close>

record TFTPPacket =
  Type :: card8
  Code :: card8
  Data :: "byte list"

definition TFTP_RRQ :: card8 where "TFTP_RRQ = 1"
definition TFTP_WRQ :: card8 where "TFTP_WRQ = 2"
definition TFTP_DAT :: card8 where "TFTP_DAT = 3"
definition TFTP_ACK :: card8 where "TFTP_ACK = 4"
definition TFTP_ERR :: card8 where "TFTP_ERR = 5"

lemmas tftp_types = TFTP_RRQ_def TFTP_WRQ_def TFTP_DAT_def TFTP_ACK_def TFTP_ERR_def

text \<open>The structure in memory: 2 bytes and the array of 2046.\<close>

definition memory :: "TFTPPacket \<Rightarrow> byte list" where
  "memory p = Type p # Code p # Data p"

definition of_memory :: "byte list \<Rightarrow> TFTPPacket" where
  "of_memory m = \<lparr>Type = m ! 0, Code = m ! 1, Data = drop 2 m\<rparr>"

definition overlay :: "byte list \<Rightarrow> byte list \<Rightarrow> byte list" where
  "overlay xs buffer = xs @ drop (length xs) buffer"

datatype arrival = Message "byte list" | ReceiveError nat

record tftp_conn =
  Arriving :: "arrival list"
  Sent :: "byte list list"
  Sendable :: nat

text \<open>\<^verbatim>\<open>send\<close> of the first \<open>n\<close> bytes of the packet; \<open>Sendable\<close> bounds the number of successful calls.\<close>

definition tftp_send :: "TFTPPacket \<Rightarrow> nat \<Rightarrow> tftp_conn \<Rightarrow> int \<times> tftp_conn" where
  "tftp_send p n c =
     (if 0 < Sendable c then (int n, c\<lparr>Sent := Sent c @ [take n (memory p)], Sendable := Sendable c - 1\<rparr>) else (- 1, c))"

text \<open>
  \<^verbatim>\<open>receive\<close> into the packet: one message, of a longer one the first bytes; 0 when the connection has ended.
\<close>

definition tftp_receive :: "TFTPPacket \<Rightarrow> tftp_conn \<Rightarrow> int \<times> TFTPPacket \<times> tftp_conn" where
  "tftp_receive p c =
     (case Arriving c of
        [] \<Rightarrow> (0, p, c)
      | ReceiveError e # as \<Rightarrow> (- int e, p, c\<lparr>Arriving := as\<rparr>)
      | Message b # as \<Rightarrow>
          (int (length (take 2048 b)), of_memory (overlay (take 2048 b) (memory p)),
           c\<lparr>Arriving := (if drop 2048 b = [] then as else Message (drop 2048 b) # as)\<rparr>))"

record tftp_disk =
  Files :: "byte list \<rightharpoonup> byte list"
  Creatable :: "byte list \<Rightarrow> bool"
  Space :: nat

definition fopen_write :: "byte list \<Rightarrow> tftp_disk \<Rightarrow> tftp_disk option" where
  "fopen_write name d = (if Creatable d name then Some (d\<lparr>Files := (Files d)(name \<mapsto> [])\<rparr>) else None)"

text \<open>\<^verbatim>\<open>fwrite\<close> of one item returns 1, or 0 if the item is empty or does not fit.\<close>

definition fwrite_item :: "byte list \<Rightarrow> byte list \<Rightarrow> tftp_disk \<Rightarrow> bool \<times> tftp_disk" where
  "fwrite_item name item d =
     (item \<noteq> [] \<and> length item \<le> Space d,
      d\<lparr>Files := (Files d)(name \<mapsto> (case Files d name of Some old \<Rightarrow> old | None \<Rightarrow> []) @ take (Space d) item),
        Space := Space d - length item\<rparr>)"

text \<open>What the client prints.\<close>

datatype report =
  PeerError card8 "byte list" | CannotCreate | CannotOpen | LocalWriteError | UnexpectedType card8 | InvalidType card8
| TransferOK | IOError

text \<open>
  The loop that sends a file: \<^verbatim>\<open>feof\<close> holds after a read that came to the end, so a file whose length is a
  multiple of 2046 is followed by an empty packet.
\<close>

function send_file :: "byte list \<Rightarrow> TFTPPacket \<Rightarrow> tftp_conn \<Rightarrow> int \<times> TFTPPacket \<times> tftp_conn" where
  "send_file rest p c =
     (let chunk = take 2046 rest;
          p = p\<lparr>Data := overlay chunk (Data p)\<rparr>;
          (result, c) = tftp_send p (2 + length chunk) c
      in if result < 0 then (result, p, c)
         else let p = p\<lparr>Code := Code p + 1\<rparr>
              in if length rest < 2046 then (result, p, c) else send_file (drop 2046 rest) p c)"
  by auto
termination by (relation "measure (\<lambda>(rest, _). length rest)") auto

declare send_file.simps [simp del]

text \<open>Weight of the arrivals, for the loops that receive.\<close>

definition weight :: "tftp_conn \<Rightarrow> nat" where
  "weight c = sum_list (map (\<lambda>a. case a of Message b \<Rightarrow> length b + 1 | ReceiveError e \<Rightarrow> 1) (Arriving c))"

lemma receive_weight: "tftp_receive p c = (r, p', c') \<Longrightarrow> 0 < r \<Longrightarrow> weight c' < weight c"
  by (auto simp: tftp_receive_def weight_def split: list.splits arrival.splits if_splits)

section \<open>The client\<close>

definition printError :: "TFTPPacket \<Rightarrow> int \<Rightarrow> report" where
  "printError p bytes = PeerError (Code p) (if 3 \<le> bytes then take (nat (bytes - 2)) (Data p) else [])"

text \<open>The loop of \<^verbatim>\<open>tftpGet\<close>: \<open>result\<close> bytes are in the packet.\<close>

function get_loop ::
  "byte list \<Rightarrow> int \<Rightarrow> TFTPPacket \<Rightarrow> tftp_conn \<Rightarrow> tftp_disk \<Rightarrow> report list \<Rightarrow> int \<times> tftp_conn \<times> tftp_disk \<times> report list" where
  "get_loop name result p c d out =
     (if 2 < result then
        if Type p = TFTP_DAT then
          case fwrite_item name (take (nat (result - 2)) (Data p)) d of (ok, d) \<Rightarrow>
          if \<not> ok then (result, c, d, out @ [LocalWriteError])
          else if result < 2048 then (result, c, d, out @ [TransferOK])
          else case tftp_receive p c of (result, p, c) \<Rightarrow>
               if 2 < result then get_loop name result p c d out else (result, c, d, out)
        else if Type p = TFTP_ERR then (result, c, d, out @ [printError p result])
        else (result, c, d, out @ [UnexpectedType (Type p)])
      else (result, c, d, out))"
  by auto
termination
  by (relation "measure (\<lambda>(_, _, _, c, _). weight c)") (auto dest!: receive_weight [OF sym])

declare get_loop.simps [simp del]

definition store_name :: "byte list \<Rightarrow> TFTPPacket \<Rightarrow> TFTPPacket" where
  "store_name name p = p\<lparr>Data := overlay (take 2045 name @ [0]) (Data p)\<rparr>"

definition tftpGet ::
  "byte list \<Rightarrow> TFTPPacket \<Rightarrow> tftp_conn \<Rightarrow> tftp_disk \<Rightarrow> (tftp_conn \<times> tftp_disk \<times> report list) result" where
  "tftpGet name p c d =
     (if 2046 < length name then Inl BadPointer
      else
        let p = store_name name (p\<lparr>Type := TFTP_RRQ, Code := 0\<rparr>);
            (result, c) = tftp_send p (2 + length name) c;
            (result, c, d, out) =
              (if 0 \<le> result then
                 case tftp_receive p c of (result, p, c) \<Rightarrow>
                 if 0 < result then
                   if Type p = TFTP_ERR then (result, c, d, [printError p result])
                   else case fopen_write name d of
                          None \<Rightarrow> (0, c, d, [CannotCreate])
                        | Some d \<Rightarrow> get_loop name result p c d []
                 else (result, c, d, [])
               else (result, c, d, []))
        in Inr (c, d, if result < 0 then out @ [IOError] else out))"

definition after_slash :: "byte list \<Rightarrow> byte list" where
  "after_slash name = rev (takeWhile (\<lambda>b. b \<noteq> 47) (rev name))"

definition tftpPut ::
  "byte list \<Rightarrow> TFTPPacket \<Rightarrow> tftp_conn \<Rightarrow> tftp_disk \<Rightarrow> (tftp_conn \<times> report list) result" where
  "tftpPut name p c d =
     (case Files d name of
        None \<Rightarrow> Inr (c, [CannotOpen])
      | Some content \<Rightarrow>
          if 2046 < length (after_slash name) then Inl BadPointer
          else
            let p = store_name (after_slash name) (p\<lparr>Type := TFTP_WRQ, Code := 0\<rparr>);
                (result, c) = tftp_send p (2 + length (after_slash name)) c;
                (result, c, out) =
                  (if 0 \<le> result then
                     case tftp_receive p c of (result, p, c) \<Rightarrow>
                     if 0 < result then
                       if Type p = TFTP_ERR then (result, c, [printError p result])
                       else if Type p = TFTP_ACK then
                         case send_file content (p\<lparr>Type := TFTP_DAT, Code := 0\<rparr>) c of (_, p, c) \<Rightarrow>
                         case tftp_receive p c of (result, p, c) \<Rightarrow>
                         (result, c,
                          if 0 < result then
                            if Type p = TFTP_ERR then [printError p result]
                            else if Type p = TFTP_ACK then [TransferOK] else [UnexpectedType (Type p)]
                          else [])
                       else (result, c, [InvalidType (Type p)])
                     else (result, c, [])
                   else (result, c, []))
            in Inr (c, if result < 0 then out @ [IOError] else out))"

section \<open>The server\<close>

definition name_byte :: "byte \<Rightarrow> bool" where
  "name_byte b = (32 \<le> b \<and> b \<le> 126 \<and> b \<notin> {58, 47, 92, 42, 63})"

text \<open>
  \<^verbatim>\<open>getName\<close> copies the name, byte by byte, into an array of 512 bytes and ends it; the size of the packet is its
  only limit.
\<close>

fun copy_name :: "nat \<Rightarrow> byte list \<Rightarrow> bool result" where
  "copy_name i [] = (if i < 512 then Inr True else Inl BadPointer)"
| "copy_name i (b # bs) =
     (if i < 512 then if name_byte b then copy_name (Suc i) bs else Inr False else Inl BadPointer)"

definition Tftp_getName :: "int \<Rightarrow> TFTPPacket \<Rightarrow> bool result" where
  "Tftp_getName bytes p = (if 3 \<le> bytes then copy_name 0 (take (nat (bytes - 2)) (Data p)) else Inr False)"

definition sendError :: "card8 \<Rightarrow> byte list \<Rightarrow> TFTPPacket \<Rightarrow> tftp_conn \<Rightarrow> int \<times> TFTPPacket \<times> tftp_conn" where
  "sendError code txt p c =
     (let p = store_name txt (p\<lparr>Type := TFTP_ERR, Code := code\<rparr>); (r, c) = tftp_send p (2 + length txt) c in (r, p, c))"

definition sendAck :: "card8 \<Rightarrow> TFTPPacket \<Rightarrow> tftp_conn \<Rightarrow> int \<times> TFTPPacket \<times> tftp_conn" where
  "sendAck code p c =
     (let p = p\<lparr>Type := TFTP_ACK, Code := code\<rparr>; (r, c) = tftp_send p 2 c in (r, p, c))"

definition ascii :: "string \<Rightarrow> byte list" where
  "ascii s = map of_char s"

text \<open>The loop that writes the data that arrives.\<close>

function write_loop :: "byte list \<Rightarrow> int \<Rightarrow> TFTPPacket \<Rightarrow> tftp_conn \<Rightarrow> tftp_disk \<Rightarrow> int \<times> tftp_conn \<times> tftp_disk" where
  "write_loop name result p c d =
     (if 2 \<le> result then
        if Type p \<noteq> TFTP_DAT then (case sendError 0 (ascii ''Bad request!'') p c of (_, _, c) \<Rightarrow> (result, c, d))
        else
          case fwrite_item name (take (nat (result - 2)) (Data p)) d of (ok, d) \<Rightarrow>
          if \<not> ok then (case sendError 4 (ascii ''Write error!'') p c of (_, _, c) \<Rightarrow> (result, c, d))
          else if result - 2 < 2046 then (case sendAck (Code p) p c of (_, _, c) \<Rightarrow> (result, c, d))
          else case tftp_receive p c of (result, p, c) \<Rightarrow>
               if 2 \<le> result then write_loop name result p c d else (result, c, d)
      else (result, c, d))"
  by auto
termination
  by (relation "measure (\<lambda>(_, _, _, c, _). weight c)") (auto dest!: receive_weight [OF sym])

declare write_loop.simps [simp del]

definition serve_read :: "int \<Rightarrow> TFTPPacket \<Rightarrow> tftp_conn \<Rightarrow> tftp_disk \<Rightarrow> (int \<times> tftp_conn) result" where
  "serve_read result p c d =
     andThen (Tftp_getName result p) (\<lambda>valid.
     if valid then
       case Files d (take (nat (result - 2)) (Data p)) of
         Some content \<Rightarrow> (case send_file content (p\<lparr>Type := TFTP_DAT, Code := 0\<rparr>) c of (result, _, c) \<Rightarrow> Inr (result, c))
       | None \<Rightarrow> (case sendError 3 (ascii ''Unable to open file!'') p c of (_, _, c) \<Rightarrow> Inr (result, c))
     else (case sendError 1 (ascii ''Bad file name!'') p c of (_, _, c) \<Rightarrow> Inr (result, c)))"

definition serve_write :: "int \<Rightarrow> TFTPPacket \<Rightarrow> tftp_conn \<Rightarrow> tftp_disk \<Rightarrow> (int \<times> tftp_conn \<times> tftp_disk) result" where
  "serve_write result p c d =
     andThen (Tftp_getName result p) (\<lambda>valid.
     if valid then
       let name = take (nat (result - 2)) (Data p) in
       case fopen_write name d of
         Some d \<Rightarrow>
           (case sendAck 0 p c of (result, p, c) \<Rightarrow>
            if 0 < result then (case tftp_receive p c of (result, p, c) \<Rightarrow> Inr (write_loop name result p c d))
            else Inr (result, c, d))
       | None \<Rightarrow> (case sendError 2 (ascii ''Unable to create file!'') p c of (_, _, c) \<Rightarrow> Inr (result, c, d))
     else (case sendError 1 (ascii ''Bad file name!'') p c of (_, _, c) \<Rightarrow> Inr (result, c, d)))"

text \<open>The thread of the server: one request.\<close>

definition Tftp_run :: "TFTPPacket \<Rightarrow> tftp_conn \<Rightarrow> tftp_disk \<Rightarrow> (int \<times> tftp_conn \<times> tftp_disk) result" where
  "Tftp_run p c d =
     (case tftp_receive p c of (result, p, c) \<Rightarrow>
      if 3 \<le> result then
        if Type p = TFTP_RRQ then andThen (serve_read result p c d) (\<lambda>(result, c). Inr (result, c, d))
        else if Type p = TFTP_WRQ then serve_write result p c d
        else (case sendError 0 (ascii ''Bad request!'') p c of (_, _, c) \<Rightarrow> Inr (result, c, d))
      else Inr (result, c, d))"

end
