(* ===== verification/TftpLaws.thy ===== *)
theory TftpLaws
  imports Tftp
begin

text \<open>
  The file transfer: what is downloaded and uploaded is the file, which transfers are reported as successful, and
  which names the server cannot take.
\<close>

section \<open>Packets of a file\<close>

lemma tftp_distinct [simp]:
  "TFTP_DAT \<noteq> TFTP_ERR" "TFTP_ACK \<noteq> TFTP_ERR" "TFTP_ACK \<noteq> TFTP_DAT" "TFTP_ERR \<noteq> TFTP_ACK" "TFTP_WRQ \<noteq> TFTP_RRQ"
  by (simp_all add: tftp_types)

function chunks :: "byte list \<Rightarrow> byte list list" where
  "chunks rest = take 2046 rest # (if length rest < 2046 then [] else chunks (drop 2046 rest))"
  by auto
termination by (relation "measure length") auto

declare chunks.simps [simp del]

fun dat_packets :: "card8 \<Rightarrow> byte list list \<Rightarrow> byte list list" where
  "dat_packets k [] = []"
| "dat_packets k (x # xs) = (TFTP_DAT # k # x) # dat_packets (k + 1) xs"

lemma length_dat_packets [simp]: "length (dat_packets k xs) = length xs"
  by (induction xs arbitrary: k) auto

lemma of_memory_overlay:
  "2 \<le> length b \<Longrightarrow> of_memory (overlay b m) = \<lparr>Type = b ! 0, Code = b ! 1, Data = overlay (drop 2 b) (drop 2 m)\<rparr>"
  by (cases b; cases "tl b") (auto simp: overlay_def of_memory_def)

lemma overlay_simps [simp]:
  "length b \<le> length m \<Longrightarrow> length (overlay b m) = length m"
  "take (length b) (overlay b m) = b" "n = length b \<Longrightarrow> take n (overlay b m) = b"
  by (auto simp: overlay_def)

lemma send_packet:
  assumes "0 < Sendable c" "length (Data p) = 2046" "length x \<le> 2046"
  shows "tftp_send (p\<lparr>Data := overlay x (Data p)\<rparr>) (2 + length x) c =
    (2 + int (length x), c\<lparr>Sent := Sent c @ [Type p # Code p # x], Sendable := Sendable c - 1\<rparr>)"
  using assms by (simp add: tftp_send_def memory_def)

lemma receive_packet:
  assumes "Arriving c = Message (t # k # x) # as" "length x \<le> 2046"
  shows "tftp_receive p c =
    (2 + int (length x), \<lparr>Type = t, Code = k, Data = overlay x (Data p)\<rparr>, c\<lparr>Arriving := as\<rparr>)"
  using assms of_memory_overlay [of "t # k # x" "memory p"]
  by (simp add: tftp_receive_def memory_def)

lemma send_file_sends:
  assumes "Type p = TFTP_DAT" "length (Data p) = 2046" "length (chunks rest) \<le> Sendable c"
  shows "\<exists>r p'. send_file rest p c = (r, p', c\<lparr>Sent := Sent c @ dat_packets (Code p) (chunks rest),
      Sendable := Sendable c - length (chunks rest)\<rparr>) \<and> 2 \<le> r \<and> length (Data p') = 2046"
  using assms
proof (induction rest p c rule: send_file.induct)
  case (1 rest p c)
  let ?x = "take 2046 rest"
  let ?p = "p\<lparr>Data := overlay ?x (Data p), Code := Code p + 1\<rparr>"
  let ?c = "c\<lparr>Sent := Sent c @ [TFTP_DAT # Code p # ?x], Sendable := Sendable c - 1\<rparr>"
  have pos: "0 < Sendable c" using 1(4) by (subst (asm) chunks.simps) auto
  have sent: "tftp_send (p\<lparr>Data := overlay ?x (Data p)\<rparr>) (2 + length ?x) c = (2 + int (length ?x), ?c)"
    using send_packet [of c p ?x] pos 1(2,3) by simp
  have step: "send_file rest p c =
      (if length rest < 2046 then (2 + int (length ?x), ?p, ?c) else send_file (drop 2046 rest) ?p ?c)"
    by (subst send_file.simps) (simp only: Let_def sent prod.case, simp)
  show ?case
  proof (cases "length rest < 2046")
    case True
    with step 1(3) show ?thesis by (simp add: chunks.simps [of rest])
  next
    case False
    have "\<exists>r p'. send_file (drop 2046 rest) ?p ?c = (r, p', ?c\<lparr>Sent := Sent ?c @ dat_packets (Code ?p) (chunks (drop 2046 rest)),
        Sendable := Sendable ?c - length (chunks (drop 2046 rest))\<rparr>) \<and> 2 \<le> r \<and> length (Data p') = 2046"
      by (rule 1(1) [OF refl refl sent [symmetric] refl])
        (use 1(2-4) False in \<open>auto simp: chunks.simps [of rest]\<close>)
    with step False show ?thesis by (simp add: chunks.simps [of rest])
  qed
qed

section \<open>Storing the packets\<close>

definition stored :: "byte list \<Rightarrow> byte list \<Rightarrow> tftp_disk \<Rightarrow> tftp_disk" where
  "stored name xs d =
     d\<lparr>Files := (Files d)(name \<mapsto> (case Files d name of Some old \<Rightarrow> old | None \<Rightarrow> []) @ xs), Space := Space d - length xs\<rparr>"

lemma fwrite_stored: "length xs \<le> Space d \<Longrightarrow> fwrite_item name xs d = (xs \<noteq> [], stored name xs d)"
  by (simp add: fwrite_item_def stored_def)

lemma stored_stored: "stored name ys (stored name xs d) = stored name (xs @ ys) d"
  by (simp add: stored_def)

lemma stored_nothing: "Files d name \<noteq> None \<Longrightarrow> stored name [] d = d"
  by (cases d) (auto simp: stored_def map_upd_triv)

lemma Space_stored [simp]: "Space (stored name xs d) = Space d - length xs"
  by (simp add: stored_def)

lemma Files_stored [simp]: "Files (stored name xs d) name \<noteq> None"
  by (simp add: stored_def)

text \<open>Both receiving loops store the packets of a file; they differ in how they end.\<close>

lemma loops_short:
  "result \<le> 2 \<Longrightarrow> get_loop name result p c d out = (result, c, d, out)"
  "result < 2 \<Longrightarrow> write_loop name result p c d = (result, c, d)"
  by (simp_all add: get_loop.simps [of name result] write_loop.simps [of name result])

lemma get_loop_stores:
  assumes "Type p = TFTP_DAT" "take (length (take 2046 rest)) (Data p) = take 2046 rest"
    and "Arriving c = map Message (dat_packets k (tl (chunks rest)))" "length rest \<le> Space d" "Files d name \<noteq> None"
  shows "\<exists>r. get_loop name (2 + int (length (take 2046 rest))) p c d out =
      (r, c\<lparr>Arriving := []\<rparr>, stored name rest d, out @ (if length rest mod 2046 = 0 then [] else [TransferOK])) \<and> 0 \<le> r"
  using assms
proof (induction rest arbitrary: p c k d rule: chunks.induct)
  case (1 rest)
  let ?x = "take 2046 rest" and ?ys = "drop 2046 rest"
  have n: "nat (2 + int (length ?x) - 2) = length ?x" by simp
  show ?case
  proof (cases "length rest < 2046")
    case True
    then have "Arriving c = []" using 1(4) by (simp add: chunks.simps [of rest])
    then have "c\<lparr>Arriving := []\<rparr> = c" by (cases c) simp
    with True 1(2,3,5,6) show ?thesis
      by (cases "rest = []") (auto simp: get_loop.simps fwrite_stored stored_nothing)
  next
    case False
    let ?as = "map Message (dat_packets (k + 1) (tl (chunks ?ys)))" and ?y = "take 2046 ?ys"
    have arr: "Arriving c = Message (TFTP_DAT # k # ?y) # ?as"
      using 1(4) False by (simp add: chunks.simps [of rest] chunks.simps [of ?ys])
    let ?p = "\<lparr>Type = TFTP_DAT, Code = k, Data = overlay ?y (Data p)\<rparr>" and ?c = "c\<lparr>Arriving := ?as\<rparr>"
    have "\<exists>r. get_loop name (2 + int (length ?y)) ?p ?c (stored name ?x d) out = (r, ?c\<lparr>Arriving := []\<rparr>,
        stored name ?ys (stored name ?x d), out @ (if length ?ys mod 2046 = 0 then [] else [TransferOK])) \<and> 0 \<le> r"
      by (rule 1(1) [OF False]) (use 1(5) False in auto)
    moreover have "get_loop name (2 + int (length ?x)) p c d out = get_loop name (2 + int (length ?y)) ?p ?c (stored name ?x d) out"
      using False 1(2,3,5) receive_packet [OF arr, of p]
      by (subst get_loop.simps) (auto simp: fwrite_stored loops_short min_def)
    moreover have "length ?ys mod 2046 = length rest mod 2046" using False by (simp add: le_mod_geq)
    ultimately show ?thesis by (simp add: stored_stored)
  qed
qed

lemma send_name:
  assumes "0 < Sendable c" "length txt \<le> 2045" "length (Data p) = 2046"
  shows "tftp_send (store_name txt p) (2 + length txt) c =
    (2 + int (length txt), c\<lparr>Sent := Sent c @ [Type p # Code p # txt], Sendable := Sendable c - 1\<rparr>)"
  using assms by (simp add: tftp_send_def memory_def store_name_def overlay_def)

lemma sendError_sends:
  assumes "0 < Sendable c" "length txt \<le> 2045" "length (Data p) = 2046"
  shows "\<exists>p'. sendError code txt p c =
    (2 + int (length txt), p', c\<lparr>Sent := Sent c @ [TFTP_ERR # code # txt], Sendable := Sendable c - 1\<rparr>)"
  using send_name [OF assms(1,2), of "p\<lparr>Type := TFTP_ERR, Code := code\<rparr>"] assms(3)
  by (simp add: sendError_def Let_def)

lemma sendAck_sends:
  assumes "0 < Sendable c"
  shows "sendAck k p c = (2, p\<lparr>Type := TFTP_ACK, Code := k\<rparr>, c\<lparr>Sent := Sent c @ [[TFTP_ACK, k]], Sendable := Sendable c - 1\<rparr>)"
  using assms by (simp add: sendAck_def tftp_send_def memory_def)

lemma write_loop_ends:
  assumes "Type p = TFTP_DAT" "take (length rest) (Data p) = rest" "length (Data p) = 2046" "length rest < 2046"
    and "length rest \<le> Space d" "Files d name \<noteq> None" "0 < Sendable c"
  shows "\<exists>k. write_loop name (2 + int (length rest)) p c d = (2 + int (length rest),
      c\<lparr>Sent := Sent c @ [if rest = [] then TFTP_ERR # 4 # ascii ''Write error!'' else [TFTP_ACK, k]], Sendable := Sendable c - 1\<rparr>,
      stored name rest d)"
proof (cases "rest = []")
  case True
  obtain p' where "sendError 4 (ascii ''Write error!'') p c =
      (14, p', c\<lparr>Sent := Sent c @ [TFTP_ERR # 4 # ascii ''Write error!''], Sendable := Sendable c - 1\<rparr>)"
    using sendError_sends [OF assms(7) _ assms(3), of "ascii ''Write error!''" 4] by (auto simp: ascii_def)
  with True assms show ?thesis by (simp add: write_loop.simps [of name 2] fwrite_stored)
next
  case False
  with assms show ?thesis
    by (intro exI [of _ "Code p"]) (subst write_loop.simps, simp add: fwrite_stored sendAck_sends)
qed

lemma write_loop_stores:
  assumes "Type p = TFTP_DAT" "take (length (take 2046 rest)) (Data p) = take 2046 rest" "length (Data p) = 2046"
    and "Arriving c = map Message (dat_packets k (tl (chunks rest)))" "length rest \<le> Space d" "Files d name \<noteq> None"
    and "0 < Sendable c"
  shows "\<exists>r k. write_loop name (2 + int (length (take 2046 rest))) p c d =
      (r, c\<lparr>Arriving := [], Sent := Sent c @
         [if length rest mod 2046 = 0 then TFTP_ERR # 4 # ascii ''Write error!'' else [TFTP_ACK, k]],
         Sendable := Sendable c - 1\<rparr>, stored name rest d) \<and> 0 \<le> r"
  using assms
proof (induction rest arbitrary: p c k d rule: chunks.induct)
  case (1 rest)
  let ?x = "take 2046 rest" and ?ys = "drop 2046 rest"
  show ?case
  proof (cases "length rest < 2046")
    case True
    then have "Arriving c = []" using 1(5) by (simp add: chunks.simps [of rest])
    then have "c\<lparr>Arriving := []\<rparr> = c" by (cases c) simp
    with True write_loop_ends [of p rest d name c] 1(2-4,6-8) show ?thesis by (cases "rest = []") auto
  next
    case False
    let ?as = "map Message (dat_packets (k + 1) (tl (chunks ?ys)))" and ?y = "take 2046 ?ys"
    have arr: "Arriving c = Message (TFTP_DAT # k # ?y) # ?as"
      using 1(5) False by (simp add: chunks.simps [of rest] chunks.simps [of ?ys])
    let ?p = "\<lparr>Type = TFTP_DAT, Code = k, Data = overlay ?y (Data p)\<rparr>" and ?c = "c\<lparr>Arriving := ?as\<rparr>"
    have "\<exists>r k. write_loop name (2 + int (length ?y)) ?p ?c (stored name ?x d) = (r, ?c\<lparr>Arriving := [], Sent := Sent ?c @
          [if length ?ys mod 2046 = 0 then TFTP_ERR # 4 # ascii ''Write error!'' else [TFTP_ACK, k]],
          Sendable := Sendable ?c - 1\<rparr>, stored name ?ys (stored name ?x d)) \<and> 0 \<le> r"
      by (rule 1(1) [OF False]) (use 1(4,6,8) False in auto)
    moreover have "write_loop name (2 + int (length ?x)) p c d = write_loop name (2 + int (length ?y)) ?p ?c (stored name ?x d)"
      using False 1(2,3,6) receive_packet [OF arr, of p]
      by (subst write_loop.simps) (auto simp: fwrite_stored loops_short min_def)
    moreover have "length ?ys mod 2046 = length rest mod 2046" using False by (simp add: le_mod_geq)
    ultimately show ?thesis by (simp add: stored_stored)
  qed
qed

section \<open>Names\<close>

lemma copy_name_valid:
  "\<forall>b \<in> set bs. name_byte b \<Longrightarrow> copy_name i bs = (if i + length bs < 512 then Inr True else Inl BadPointer)"
  by (induction bs arbitrary: i) auto

definition plain_name :: "byte list \<Rightarrow> bool" where
  "plain_name name = (name \<noteq> [] \<and> (\<forall>b \<in> set name. name_byte b) \<and> length name < 512)"

lemma plain_after_slash: "plain_name name \<Longrightarrow> after_slash name = name"
  by (auto simp: plain_name_def after_slash_def name_byte_def takeWhile_eq_all_conv [THEN iffD2])

lemma getName_plain:
  assumes "plain_name name" "take (length name) (Data p) = name"
  shows "Tftp_getName (2 + int (length name)) p = Inr True"
  using assms copy_name_valid [of name 0] by (auto simp: Tftp_getName_def plain_name_def Suc_le_eq)

text \<open>A request with a longer name of valid bytes writes behind the array of the server.\<close>

theorem long_name_overflows:
  assumes "\<forall>b \<in> set name. name_byte b" "512 \<le> length name" "length name \<le> 2046"
    and "Arriving c = [Message (t # k # name)]" "t = TFTP_RRQ \<or> t = TFTP_WRQ"
  shows "Tftp_run p c d = Inl BadPointer"
  using assms receive_packet [of c t k name "[]" p] copy_name_valid [OF assms(1), of 0]
  by (auto simp: Tftp_run_def serve_read_def serve_write_def Tftp_getName_def tftp_types)

section \<open>Transfers\<close>

definition fresh :: "byte list list \<Rightarrow> nat \<Rightarrow> tftp_conn" where
  "fresh ms n = \<lparr>Arriving = map Message ms, Sent = [], Sendable = n\<rparr>"

lemma fresh_simps [simp]: "Arriving (fresh ms n) = map Message ms" "Sent (fresh ms n) = []" "Sendable (fresh ms n) = n"
  by (simp_all add: fresh_def)

lemma serve_read_file:
  assumes "plain_name name" "length (Data p) = 2046" "Files d name = Some content" "length (chunks content) \<le> n"
  shows "\<exists>r c. Tftp_run p (fresh [TFTP_RRQ # 0 # name] n) d = Inr (r, c, d) \<and> Sent c = dat_packets 0 (chunks content)"
proof -
  let ?p = "\<lparr>Type = TFTP_RRQ, Code = 0, Data = overlay name (Data p)\<rparr>" and ?c = "fresh [] n"
  have name: "length name \<le> 2046" "name \<noteq> []" using assms(1) by (auto simp: plain_name_def)
  have rec: "tftp_receive p (fresh [TFTP_RRQ # 0 # name] n) = (2 + int (length name), ?p, ?c)"
    using receive_packet [of "fresh [TFTP_RRQ # 0 # name] n" TFTP_RRQ 0 name "[]" p] name by (simp add: fresh_def)
  have "Tftp_getName (2 + int (length name)) ?p = Inr True" using getName_plain [of name ?p] assms(1) by simp
  moreover obtain r p' where "send_file content (?p\<lparr>Type := TFTP_DAT, Code := 0\<rparr>) ?c =
      (r, p', ?c\<lparr>Sent := Sent ?c @ dat_packets 0 (chunks content), Sendable := Sendable ?c - length (chunks content)\<rparr>)"
    using send_file_sends [of "?p\<lparr>Type := TFTP_DAT, Code := 0\<rparr>" content ?c] assms(2,4) name by auto
  ultimately show ?thesis
    using rec assms(3) name by (simp add: Tftp_run_def serve_read_def Suc_le_eq)
qed

lemma chunks_Cons: "chunks xs = take 2046 xs # tl (chunks xs)"
  by (subst chunks.simps) (simp add: chunks.simps [of xs])

text \<open>
  C18. Downloading a file. The packets the server sends for a valid name let the client store exactly the contents
  of the file, whatever their length; that the transfer is complete is only printed if the length is not a
  multiple of 2046.
\<close>

theorem tftp_download:
  assumes "plain_name name" "length (Data sp) = 2046" "length (Data cp) = 2046" "Files sd name = Some content"
    and "length (chunks content) \<le> n" "0 < m" "Creatable cd name" "length content \<le> Space cd"
  shows "\<exists>r sc c d out. Tftp_run sp (fresh [TFTP_RRQ # 0 # name] n) sd = Inr (r, sc, sd) \<and>
           tftpGet name cp (fresh (Sent sc) m) cd = Inr (c, d, out) \<and> Sent c = [TFTP_RRQ # 0 # name] \<and>
           Files d = (Files cd)(name \<mapsto> content) \<and>
           out = (if length content mod 2046 = 0 then [] else [TransferOK])"
proof -
  obtain r sc where server: "Tftp_run sp (fresh [TFTP_RRQ # 0 # name] n) sd = Inr (r, sc, sd)"
    and sent: "Sent sc = dat_packets 0 (chunks content)"
    using serve_read_file [OF assms(1,2,4,5)] by blast
  let ?x = "take 2046 content" and ?as = "map Message (dat_packets 1 (tl (chunks content)))"
  let ?p = "store_name name (cp\<lparr>Type := TFTP_RRQ, Code := 0\<rparr>)" and ?d = "cd\<lparr>Files := (Files cd)(name \<mapsto> [])\<rparr>"
  let ?c = "(fresh (Sent sc) m)\<lparr>Sent := [TFTP_RRQ # 0 # name], Sendable := m - 1\<rparr>"
  have len: "length name \<le> 2045" using assms(1) by (simp add: plain_name_def)
  have request: "tftp_send ?p (2 + length name) (fresh (Sent sc) m) = (2 + int (length name), ?c)"
    using send_name [of "fresh (Sent sc) m" name "cp\<lparr>Type := TFTP_RRQ, Code := 0\<rparr>"] assms(3,6) len by simp
  have "Arriving ?c = Message (TFTP_DAT # 0 # ?x) # ?as" by (simp add: sent) (subst chunks_Cons, simp)
  then have answer: "tftp_receive ?p ?c =
      (2 + int (length ?x), \<lparr>Type = TFTP_DAT, Code = 0, Data = overlay ?x (Data ?p)\<rparr>, ?c\<lparr>Arriving := ?as\<rparr>)"
    by (rule receive_packet) simp
  obtain r' where loop: "get_loop name (2 + int (length ?x)) \<lparr>Type = TFTP_DAT, Code = 0, Data = overlay ?x (Data ?p)\<rparr>
      (?c\<lparr>Arriving := ?as\<rparr>) ?d [] =
    (r', ?c\<lparr>Arriving := []\<rparr>, stored name content ?d, if length content mod 2046 = 0 then [] else [TransferOK])" "0 \<le> r'"
    using get_loop_stores [of "\<lparr>Type = TFTP_DAT, Code = 0, Data = overlay ?x (Data ?p)\<rparr>" content "?c\<lparr>Arriving := ?as\<rparr>" 1 ?d name "[]"]
      assms(8) by auto
  then have "tftpGet name cp (fresh (Sent sc) m) cd = Inr (?c\<lparr>Arriving := []\<rparr>, stored name content ?d,
      if length content mod 2046 = 0 then [] else [TransferOK])"
    using len assms(7) loop(2) unfolding tftpGet_def Let_def request prod.case answer
    by (simp add: fopen_write_def loop(1) del: length_take)
  with server show ?thesis by (auto simp: stored_def)
qed

definition sample_packet :: TFTPPacket where
  "sample_packet = \<lparr>Type = 0, Code = 0, Data = replicate 2046 0\<rparr>"

definition sample_disk :: "(byte list \<rightharpoonup> byte list) \<Rightarrow> tftp_disk" where
  "sample_disk files = \<lparr>Files = files, Creatable = (\<lambda>_. True), Space = 10000\<rparr>"

lemma sample_simps [simp]:
  "length (Data sample_packet) = 2046" "Files (sample_disk files) = files" "Creatable (sample_disk files) name"
  "Space (sample_disk files) = 10000" "chunks [1, 2, 3] = [[1, 2, 3]]" "plain_name [97]"
  by (simp_all add: sample_packet_def sample_disk_def chunks.simps plain_name_def name_byte_def)

theorem tftp_download_witness:
  "\<exists>r sc c d. Tftp_run sample_packet (fresh [TFTP_RRQ # 0 # [97]] 1) (sample_disk [[97] \<mapsto> [1, 2, 3]]) =
       Inr (r, sc, sample_disk [[97] \<mapsto> [1, 2, 3]]) \<and>
     tftpGet [97] sample_packet (fresh (Sent sc) 1) (sample_disk Map.empty) = Inr (c, d, [TransferOK]) \<and>
     Files d = [[97] \<mapsto> [1, 2, 3]]"
  using tftp_download [of "[97]" sample_packet sample_packet "sample_disk [[97] \<mapsto> [1, 2, 3]]" "[1, 2, 3]" 1 1
      "sample_disk Map.empty"] by auto

lemma serve_write_file:
  assumes "plain_name name" "length (Data p) = 2046" "Creatable d name" "length content \<le> Space d" "2 \<le> n"
  shows "\<exists>r c d' k. Tftp_run p (fresh ((TFTP_WRQ # 0 # name) # dat_packets 0 (chunks content)) n) d = Inr (r, c, d') \<and>
    Sent c = [[TFTP_ACK, 0], if length content mod 2046 = 0 then TFTP_ERR # 4 # ascii ''Write error!'' else [TFTP_ACK, k]] \<and>
    Files d' = (Files d)(name \<mapsto> content)"
proof -
  let ?x = "take 2046 content" and ?as = "map Message (dat_packets 1 (tl (chunks content)))"
  let ?p = "\<lparr>Type = TFTP_WRQ, Code = 0, Data = overlay name (Data p)\<rparr>" and ?c = "fresh (dat_packets 0 (chunks content)) n"
  let ?p1 = "?p\<lparr>Type := TFTP_ACK, Code := 0\<rparr>" and ?c1 = "?c\<lparr>Sent := [[TFTP_ACK, 0]], Sendable := n - 1\<rparr>"
  let ?p2 = "\<lparr>Type = TFTP_DAT, Code = 0, Data = overlay ?x (Data ?p)\<rparr>" and ?d = "d\<lparr>Files := (Files d)(name \<mapsto> [])\<rparr>"
  have name: "length name \<le> 2046" "name \<noteq> []" using assms(1) by (auto simp: plain_name_def)
  have rec: "tftp_receive p (fresh ((TFTP_WRQ # 0 # name) # dat_packets 0 (chunks content)) n) = (2 + int (length name), ?p, ?c)"
    using receive_packet [of "fresh ((TFTP_WRQ # 0 # name) # dat_packets 0 (chunks content)) n" TFTP_WRQ 0 name _ p] name
    by (simp add: fresh_def)
  have ack: "sendAck 0 ?p ?c = (2, ?p1, ?c1)" using sendAck_sends [of ?c 0 ?p] assms(5) by simp
  have "Arriving ?c1 = Message (TFTP_DAT # 0 # ?x) # ?as" by simp (subst chunks_Cons, simp)
  then have first: "tftp_receive ?p1 ?c1 = (2 + int (length ?x), ?p2, ?c1\<lparr>Arriving := ?as\<rparr>)"
    using receive_packet [of ?c1 TFTP_DAT 0 ?x ?as ?p1] by simp
  obtain r k where loop: "write_loop name (2 + int (length ?x)) ?p2 (?c1\<lparr>Arriving := ?as\<rparr>) ?d =
      (r, ?c1\<lparr>Arriving := [], Sent := [[TFTP_ACK, 0],
          if length content mod 2046 = 0 then TFTP_ERR # 4 # ascii ''Write error!'' else [TFTP_ACK, k]], Sendable := n - 2\<rparr>,
       stored name content ?d)"
    using write_loop_stores [of ?p2 content "?c1\<lparr>Arriving := ?as\<rparr>" 1 ?d name] assms(2,4,5) name
    by (auto simp: numeral_2_eq_2)
  have "Tftp_getName (2 + int (length name)) ?p = Inr True" using getName_plain [of name ?p] assms(1) by simp
  then have "Tftp_run p (fresh ((TFTP_WRQ # 0 # name) # dat_packets 0 (chunks content)) n) d =
      Inr (write_loop name (2 + int (length ?x)) ?p2 (?c1\<lparr>Arriving := ?as\<rparr>) ?d)"
    using rec assms(3) name unfolding Tftp_run_def serve_write_def
    by (simp add: Suc_le_eq fopen_write_def ack [simplified] first [simplified])
  with loop show ?thesis by (simp add: stored_def del: length_take)
qed

text \<open>
  C17. Uploading a file. The server stores exactly the contents of the file under its name. It acknowledges the
  transfer, and the client reports success, if the length is not a multiple of 2046; otherwise the last, empty
  packet makes the server report a write error, although the file is complete.
\<close>

theorem tftp_upload:
  assumes "plain_name name" "length (Data sp) = 2046" "length (Data cp) = 2046" "Files cd name = Some content"
    and "Creatable sd name" "length content \<le> Space sd" "2 \<le> n" "length (chunks content) < m"
  shows "\<exists>r sc sd' c out. tftpPut name cp (fresh (Sent sc) m) cd = Inr (c, out) \<and>
           Tftp_run sp (fresh (Sent c) n) sd = Inr (r, sc, sd') \<and> Files sd' = (Files sd)(name \<mapsto> content) \<and>
           out = (if length content mod 2046 = 0 then [PeerError 4 (ascii ''Write error!'')] else [TransferOK])"
proof -
  let ?ps = "dat_packets 0 (chunks content)"
  obtain r sc sd' k where server: "Tftp_run sp (fresh ((TFTP_WRQ # 0 # name) # ?ps) n) sd = Inr (r, sc, sd')"
      "Files sd' = (Files sd)(name \<mapsto> content)"
    and sent: "Sent sc = [[TFTP_ACK, 0], if length content mod 2046 = 0 then TFTP_ERR # 4 # ascii ''Write error!'' else [TFTP_ACK, k]]"
    using serve_write_file [OF assms(1,2,5,6,7)] by blast
  let ?p = "store_name name (cp\<lparr>Type := TFTP_WRQ, Code := 0\<rparr>)" and ?start = "fresh (Sent sc) m"
  let ?c = "?start\<lparr>Sent := [TFTP_WRQ # 0 # name], Sendable := m - 1\<rparr>" and ?reply = "Message (Sent sc ! 1)"
  let ?p1 = "\<lparr>Type = TFTP_ACK, Code = 0, Data = overlay [] (Data ?p)\<rparr>" and ?c1 = "?c\<lparr>Arriving := [?reply]\<rparr>"
  have len: "length name \<le> 2045" using assms(1) by (simp add: plain_name_def)
  have request: "tftp_send ?p (2 + length name) ?start = (2 + int (length name), ?c)"
    using send_name [of ?start name "cp\<lparr>Type := TFTP_WRQ, Code := 0\<rparr>"] assms(3,8) len by simp
  have ack: "tftp_receive ?p ?c = (2, ?p1, ?c1)"
    using receive_packet [of ?c TFTP_ACK 0 "[]" "[?reply]" ?p] by (simp add: sent)
  have small: "length (chunks content) \<le> m - 1" using assms(8) by simp
  obtain r' p2 where data: "send_file content (?p1\<lparr>Type := TFTP_DAT, Code := 0\<rparr>) ?c1 =
      (r', p2, ?c1\<lparr>Sent := (TFTP_WRQ # 0 # name) # ?ps, Sendable := m - 1 - length (chunks content)\<rparr>)" "length (Data p2) = 2046"
    using send_file_sends [of "?p1\<lparr>Type := TFTP_DAT, Code := 0\<rparr>" content ?c1] assms(3) len small
    by (auto simp: store_name_def overlay_def)
  let ?c2 = "?c1\<lparr>Sent := (TFTP_WRQ # 0 # name) # ?ps, Sendable := m - 1 - length (chunks content)\<rparr>"
  let ?ok = "length content mod 2046 \<noteq> 0"
  have final: "tftp_receive p2 ?c2 = (if ?ok then 2 else 14,
      \<lparr>Type = if ?ok then TFTP_ACK else TFTP_ERR, Code = if ?ok then k else 4,
       Data = overlay (if ?ok then [] else ascii ''Write error!'') (Data p2)\<rparr>, ?c2\<lparr>Arriving := []\<rparr>)"
    using receive_packet [of ?c2 TFTP_ACK k "[]" "[]" p2] receive_packet [of ?c2 TFTP_ERR 4 "ascii ''Write error!''" "[]" p2]
    by (simp add: sent ascii_def)
  have "tftpPut name cp ?start cd = Inr (?c2\<lparr>Arriving := []\<rparr>, if ?ok then [TransferOK] else [PeerError 4 (ascii ''Write error!'')])"
    using len assms(4) unfolding tftpPut_def plain_after_slash [OF assms(1)] Let_def request prod.case ack
    by (simp add: data(1) [simplified] final [simplified] printError_def) (simp add: ascii_def)
  with server show ?thesis
    by (intro exI [of _ r] exI [of _ sc] exI [of _ sd'] exI [of _ "?c2\<lparr>Arriving := []\<rparr>"] exI) auto
qed

theorem tftp_upload_witness:
  "\<exists>r sc sd' c. tftpPut [97] sample_packet (fresh (Sent sc) 2) (sample_disk [[97] \<mapsto> [1, 2, 3]]) = Inr (c, [TransferOK]) \<and>
     Tftp_run sample_packet (fresh (Sent c) 2) (sample_disk Map.empty) = Inr (r, sc, sd') \<and> Files sd' = [[97] \<mapsto> [1, 2, 3]]"
  using tftp_upload [of "[97]" sample_packet sample_packet "sample_disk [[97] \<mapsto> [1, 2, 3]]" "[1, 2, 3]"
      "sample_disk Map.empty" 2 2] by auto

end
