(* ===== verification/PortableAddresses.thy ===== *)
theory PortableAddresses
  imports AddressLaws
begin

text \<open>
  The class \<^verbatim>\<open>PortableAddress\<close> of \<^verbatim>\<open>portableaddress.icc\<close>, its conversion from and to \<^verbatim>\<open>InternetAddress\<close>, and the
  scopes of multicast addresses of \<^verbatim>\<open>internetaddress.icc\<close>. The operators of \<^verbatim>\<open>PortableAddress\<close> are compared with
  the lexicographic order of lists.
\<close>

section \<open>Portable addresses\<close>

record PortableAddress =
  PHost :: "card16 list"
  PPort :: card16

definition Portable_reset :: "PortableAddress \<Rightarrow> PortableAddress" where
  "Portable_reset a = a\<lparr>PHost := replicate 8 0, PPort := 0\<rparr>"

text \<open>The loops over the words; behind the last one the ports decide.\<close>

fun portable_less_loop :: "card16 list \<Rightarrow> card16 list \<Rightarrow> bool \<Rightarrow> bool" where
  "portable_less_loop (x # xs) (y # ys) p =
     (if x < y then True else if x > y then False else portable_less_loop xs ys p)"
| "portable_less_loop _ _ p = p"

fun portable_greater_loop :: "card16 list \<Rightarrow> card16 list \<Rightarrow> bool \<Rightarrow> bool" where
  "portable_greater_loop (x # xs) (y # ys) p =
     (if x > y then True else if x < y then False else portable_greater_loop xs ys p)"
| "portable_greater_loop _ _ p = p"

definition Portable_less :: "PortableAddress \<Rightarrow> PortableAddress \<Rightarrow> bool" where
  "Portable_less a b = portable_less_loop (PHost a) (PHost b) (PPort a < PPort b)"

definition Portable_greater :: "PortableAddress \<Rightarrow> PortableAddress \<Rightarrow> bool" where
  "Portable_greater a b = portable_greater_loop (PHost a) (PHost b) (PPort a > PPort b)"

definition Portable_eq :: "PortableAddress \<Rightarrow> PortableAddress \<Rightarrow> bool" where
  "Portable_eq a b =
     (PHost a ! 0 = PHost b ! 0 \<and> PHost a ! 1 = PHost b ! 1 \<and> PHost a ! 2 = PHost b ! 2 \<and> PHost a ! 3 = PHost b ! 3 \<and>
      PHost a ! 4 = PHost b ! 4 \<and> PHost a ! 5 = PHost b ! 5 \<and> PHost a ! 6 = PHost b ! 6 \<and> PHost a ! 7 = PHost b ! 7 \<and>
      PPort a = PPort b)"

definition Portable_neq :: "PortableAddress \<Rightarrow> PortableAddress \<Rightarrow> bool" where
  "Portable_neq a b =
     (PHost a ! 0 \<noteq> PHost b ! 0 \<or> PHost a ! 1 \<noteq> PHost b ! 1 \<or> PHost a ! 2 \<noteq> PHost b ! 2 \<or> PHost a ! 3 \<noteq> PHost b ! 3 \<or>
      PHost a ! 4 \<noteq> PHost b ! 4 \<or> PHost a ! 5 \<noteq> PHost b ! 5 \<or> PHost a ! 6 \<noteq> PHost b ! 6 \<or> PHost a ! 7 \<noteq> PHost b ! 7 \<or>
      PPort a \<noteq> PPort b)"

definition Portable_less_eq :: "PortableAddress \<Rightarrow> PortableAddress \<Rightarrow> bool" where
  "Portable_less_eq a b = (Portable_less a b \<or> Portable_eq a b)"

definition Portable_greater_eq :: "PortableAddress \<Rightarrow> PortableAddress \<Rightarrow> bool" where
  "Portable_greater_eq a b = (Portable_greater a b \<or> Portable_eq a b)"

section \<open>Conversion\<close>

definition getPortableAddress :: "InternetAddress \<Rightarrow> PortableAddress" where
  "getPortableAddress a = \<lparr>PHost = map (word_at a) [0..<8], PPort = Port a\<rparr>"

definition init_portable :: "InternetAddress \<Rightarrow> PortableAddress \<Rightarrow> InternetAddress" where
  "init_portable a p = setPrintFormat
     (a\<lparr>Host16 := map (\<lambda>i. PHost p ! i) [0..<8], Port := PPort p, ScopeID := 0, Valid := True\<rparr>) PF_Default"

text \<open>The constructor.\<close>

definition InternetAddress_of_portable :: "InternetAddress \<Rightarrow> PortableAddress \<Rightarrow> InternetAddress" where
  "InternetAddress_of_portable raw p = setPrintFormat
     (raw\<lparr>Host16 := map (\<lambda>i. PHost p ! i) [0..<8], Port := PPort p, ScopeID := 0, Valid := True\<rparr>) PF_Default"

definition InternetAddress_greater_eq :: "InternetAddress \<Rightarrow> InternetAddress \<Rightarrow> bool" where
  "InternetAddress_greater_eq a b = (InternetAddress_greater a b \<or> InternetAddress_eq a b)"

section \<open>Multicast scopes\<close>

text \<open>The macros for IPv6: the low four bits of the second byte are the scope.\<close>

definition mc_scope :: "card16 \<Rightarrow> card16 list \<Rightarrow> bool" where
  "mc_scope s h = (isMulticast6 h \<and> ntohs (h ! 0) AND 0x000f = s)"

definition isIPv4compatible :: "InternetAddress \<Rightarrow> bool" where
  "isIPv4compatible a = ((\<forall>i < 6. word_at a i = 0) \<and> ntohl (Host32_3 a) > 1)"

definition isNodeLocalMulticast :: "InternetAddress \<Rightarrow> bool" where
  "isNodeLocalMulticast a = (if isIPv6 a then mc_scope 1 (Host16 a) else False)"

definition isLinkLocalMulticast :: "InternetAddress \<Rightarrow> bool" where
  "isLinkLocalMulticast a =
     (if isIPv6 a then mc_scope 2 (Host16 a)
      else if (ntohl (Host32_3 a) AND 0xf0000000) = 0xe0000000
      then ntohl (Host32_3 a) AND 0xe00000ff = ntohl (Host32_3 a)
      else False)"

definition isSiteLocalMulticast :: "InternetAddress \<Rightarrow> bool" where
  "isSiteLocalMulticast a = (if isIPv6 a then mc_scope 5 (Host16 a) else False)"

definition isOrgLocalMulticast :: "InternetAddress \<Rightarrow> bool" where
  "isOrgLocalMulticast a = (if isIPv6 a then mc_scope 8 (Host16 a) else False)"

definition isGlobalMulticast :: "InternetAddress \<Rightarrow> bool" where
  "isGlobalMulticast a = (if isIPv6 a then mc_scope 14 (Host16 a) else False)"

section \<open>Laws\<close>

definition portable_key :: "PortableAddress \<Rightarrow> card16 list" where
  "portable_key a = PHost a @ [PPort a]"

lemma portable_less_loop_lexord:
  "length xs = length ys \<Longrightarrow> portable_less_loop xs ys (p < q) = (xs @ [p] < ys @ [q])"
proof (induction xs ys rule: list_induct2)
  case (Cons x xs y ys)
  then show ?case by (auto simp: not_less_iff_gr_or_eq)
qed simp

lemma portable_greater_loop_swap: "portable_greater_loop xs ys p = portable_less_loop ys xs p"
  by (induction xs ys p rule: portable_greater_loop.induct) auto

lemma eight_equal:
  assumes "length xs = 8" "length ys = 8"
  shows "xs = ys \<longleftrightarrow> xs ! 0 = ys ! 0 \<and> xs ! 1 = ys ! 1 \<and> xs ! 2 = ys ! 2 \<and> xs ! 3 = ys ! 3 \<and> xs ! 4 = ys ! 4 \<and>
    xs ! 5 = ys ! 5 \<and> xs ! 6 = ys ! 6 \<and> xs ! 7 = ys ! 7"
  using assms by (auto simp: list8)

text \<open>
  C20. The operators of portable addresses are those of one linear order: the lexicographic order of the words of
  the host followed by the port, as lists compare. An internet address survives the conversion to a portable
  address and back, but for its scope.
\<close>

theorem portable_order_lexicographic:
  assumes "length (PHost a) = 8" "length (PHost b) = 8" "length (Host16 i) = 8"
  shows "Portable_less a b = (portable_key a < portable_key b) \<and> Portable_greater a b = (portable_key a > portable_key b) \<and>
         Portable_eq a b = (portable_key a = portable_key b) \<and> Portable_neq a b = (portable_key a \<noteq> portable_key b) \<and>
         Portable_less_eq a b = (portable_key a \<le> portable_key b) \<and>
         Portable_greater_eq a b = (portable_key a \<ge> portable_key b) \<and>
         init_portable r (getPortableAddress i) = i\<lparr>ScopeID := 0, Valid := True, Format := PF_Default\<rparr> \<and>
         InternetAddress_of_portable r (getPortableAddress i) = init_portable r (getPortableAddress i)"
proof -
  have less: "Portable_less a b = (portable_key a < portable_key b)" "Portable_greater a b = (portable_key a > portable_key b)"
    using assms by (simp_all add: Portable_less_def Portable_greater_def portable_key_def portable_less_loop_lexord
        portable_greater_loop_swap)
  have eq: "Portable_eq a b = (portable_key a = portable_key b)"
    using eight_equal [OF assms(1,2)] by (auto simp: Portable_eq_def portable_key_def)
  have "map (\<lambda>k. PHost (getPortableAddress i) ! k) [0..<8] = Host16 i"
    using assms(3) by (simp add: getPortableAddress_def word_at_def list_eq_iff_nth_eq)
  then have "init_portable r (getPortableAddress i) = i\<lparr>ScopeID := 0, Valid := True, Format := PF_Default\<rparr>"
    by (cases i; cases r) (simp add: init_portable_def setPrintFormat_def getPortableAddress_def)
  moreover have "InternetAddress_of_portable r (getPortableAddress i) = init_portable r (getPortableAddress i)"
    by (simp add: InternetAddress_of_portable_def init_portable_def)
  moreover have "Portable_neq a b = (\<not> Portable_eq a b)" by (auto simp: Portable_neq_def Portable_eq_def)
  ultimately show ?thesis
    using less eq by (auto simp: Portable_less_eq_def Portable_greater_eq_def order.order_iff_strict)
qed

theorem portable_order_lexicographic_witness:
  "Portable_less (getPortableAddress sample_v4) (getPortableAddress sample_v6) =
     (portable_key (getPortableAddress sample_v4) < portable_key (getPortableAddress sample_v6)) \<and>
   ScopeID (init_portable sample_v4 (getPortableAddress sample_v6)) = 0"
  using portable_order_lexicographic [of "getPortableAddress sample_v4" "getPortableAddress sample_v6" sample_v6 sample_v4]
  by (simp add: getPortableAddress_def sample_v6_def sample_v4_def)

text \<open>
  The words are compared in network byte order: on a little-endian host portable addresses are ordered otherwise
  than the internet addresses they come from.
\<close>

theorem portable_order_differs:
  "\<exists>a b. wf_address a \<and> wf_address b \<and> InternetAddress_less a b \<and> Portable_less (getPortableAddress b) (getPortableAddress a)"
proof -
  let ?a = "sample_v4\<lparr>Host16 := [0, 0, 0, 0, 0, 0xffff, 0x0a0a, 0x0100]\<rparr>"
  let ?b = "sample_v4\<lparr>Host16 := [0, 0, 0, 0, 0, 0xffff, 0x0a0a, 0x0001]\<rparr>"
  have "wf_address ?a" "wf_address ?b" "InternetAddress_less ?a ?b"
    by (simp_all add: wf_address_def InternetAddress_less_def translate16_def)
  moreover have "Portable_less (getPortableAddress ?b) (getPortableAddress ?a)"
    by (simp add: Portable_less_def getPortableAddress_def word_at_def upt_rec)
  ultimately show ?thesis by blast
qed

text \<open>For IPv4 the test for link-local groups accepts exactly 224.0.0.0/24.\<close>

lemma local_group_block:
  "(x :: card32) AND 0xf0000000 = 0xe0000000 \<Longrightarrow> (x AND 0xe00000ff = x) = (drop_bit 8 x = 0xe00000)"
proof -
  assume m: "x AND 0xf0000000 = 0xe0000000"
  show ?thesis
  proof
    assume e: "x AND 0xe00000ff = x"
    have "drop_bit 8 x = drop_bit 8 (x AND 0xe00000ff)" by (simp only: e)
    also have "\<dots> = drop_bit 8 x AND 0xe00000" by (simp add: drop_bit_and)
    also have "\<dots> = drop_bit 8 (x AND 0xf0000000) AND 0xe00000" by (simp add: drop_bit_and and.assoc)
    finally show "drop_bit 8 x = 0xe00000" by (simp add: m)
  next
    assume d: "drop_bit 8 x = 0xe00000"
    have "x = push_bit 8 (drop_bit 8 x) OR take_bit 8 x" by (rule bit_eqI) (auto simp: bit_simps)
    then have x: "x = 0xe0000000 OR take_bit 8 x" by (simp add: d)
    have "take_bit 8 x AND 0xe00000ff = take_bit 8 x" by (simp add: take_bit_eq_mask mask_numeral and.assoc)
    then have "(0xe0000000 OR take_bit 8 x) AND 0xe00000ff = 0xe0000000 OR take_bit 8 x"
      by (simp only: bit.conj_disj_distrib2) simp
    with x show "x AND 0xe00000ff = x" by simp
  qed
qed

end
