(* ===== verification/Probing.thy ===== *)
theory Probing
  imports CppTransfer DescriptorLaws ExtSamples
begin

text \<open>
  The local address towards a peer: \<^verbatim>\<open>InternetAddress::getLocalAddress\<close>, \<^verbatim>\<open>SocketAddress::getLocalAddress\<close> and
  \<^verbatim>\<open>InternetAddress::checkIPv6\<close>. They open a datagram socket of the descriptor layer, connect it, read its name and
  close it.
\<close>

section \<open>The calls\<close>

definition IPPROTO_UDP :: int where "IPPROTO_UDP = 17"

text \<open>
  The common part: connect and read the name, whose buffer holds the address of the peer before; and all the calls
  from \<^verbatim>\<open>ext_socket\<close> to \<^verbatim>\<open>ext_close\<close>. The result is the name of the socket, if all calls succeed.
\<close>

definition probe_name ::
  "('l, 'o) xenv \<Rightarrow> 'l callback \<Rightarrow> int \<Rightarrow> nat \<times> sockaddr option \<Rightarrow> ('l, 'o) ext \<Rightarrow> (sockaddr option \<times> ('l, 'o) ext) result" where
  "probe_name xe cb sd peer x =
     (case peer of
        (socketAddressLength, buffer) \<Rightarrow>
          if socketAddressLength > 0 then
            andThen (ofOption buffer) (\<lambda>socketAddress.
            andThen (ext_connect xe cb sd socketAddress socketAddressLength x) (\<lambda>(result, x).
            if result = 0 then
              andThen (ext_getsockname xe sd (Some socketAddressLength) x) (\<lambda>(result, name, x).
              Inr (if result = 0 then Some (case name of Some sa \<Rightarrow> sa | None \<Rightarrow> socketAddress) else None, x))
            else Inr (None, x)))
          else Inr (None, x))"

definition probe ::
  "('l, 'o) xenv \<Rightarrow> 'l callback \<Rightarrow> nat \<Rightarrow> int \<Rightarrow> nat \<times> sockaddr option \<Rightarrow> ('l, 'o) ext \<Rightarrow> (sockaddr option \<times> ('l, 'o) ext) result" where
  "probe xe cb family protocol peer x =
     andThen (ext_socket xe cb family SOCK_DGRAM protocol x) (\<lambda>(sd, x).
     if sd \<ge> 0 then
       andThen (probe_name xe cb sd peer x) (\<lambda>(found, x).
       andThen (ext_close xe cb sd x) (\<lambda>(_, x).
       Inr (found, x)))
     else Inr (None, x))"

definition Internet_getLocalAddress ::
  "('l, 'o) xenv \<Rightarrow> 'l callback \<Rightarrow> InternetAddress \<Rightarrow> ('l, 'o) ext \<Rightarrow> (InternetAddress \<times> ('l, 'o) ext) result" where
  "Internet_getLocalAddress xe cb peer x =
     (let useIPv6 = UseIPv6 (AE (E xe));
          family = (if useIPv6 then AF_INET6 else AF_INET);
          address = InternetAddress_default (RawInternet (AE (E xe)))
      in andThen (probe xe cb family IPPROTO_UDP (getSystemAddress useIPv6 peer MaxSockLen family) x) (\<lambda>(found, x).
         Inr (case found of
                Some sa \<Rightarrow> setPort (snd (setSystemAddress address sa)) 0
              | None \<Rightarrow> address, x)))"

fun Any_getFamily :: "bool \<Rightarrow> AnyAddress \<Rightarrow> nat" where
  "Any_getFamily v6 (Plain a) = SA_getFamily v6 a"
| "Any_getFamily v6 (Flow f) = getFamily v6 (FlowAddress f)"

definition SocketAddress_getLocalAddress ::
  "('l, 'o) xenv \<Rightarrow> 'l callback \<Rightarrow> AnyAddress \<Rightarrow> ('l, 'o) ext \<Rightarrow> (AnyAddress option \<times> ('l, 'o) ext) result" where
  "SocketAddress_getLocalAddress xe cb peer x =
     (let useIPv6 = UseIPv6 (AE (E xe)); family = Any_getFamily useIPv6 peer
      in case createSocketAddress_family (AE (E xe)) family of
           None \<Rightarrow> Inr (None, x)
         | Some address \<Rightarrow>
             andThen (probe xe cb family 0 (Any_getSystemAddress useIPv6 peer MaxSockLen family) x) (\<lambda>(found, x).
             Inr (Some (case found of
                          Some sa \<Rightarrow> Any_setPort (snd (Any_setSystemAddress (Plain address) sa)) 0
                        | None \<Rightarrow> Plain address), x)))"

text \<open>The test for IPv6 makes a socket of the system directly.\<close>

definition checkIPv6 :: "('l, 'o) xenv \<Rightarrow> ('l, 'o) ext \<Rightarrow> bool \<times> ('l, 'o) ext" where
  "checkIPv6 xe x =
     (case system xe (Sys_socket AF_INET6 SOCK_DGRAM 0) x of
        (reply, x) \<Rightarrow>
          if Ret reply \<noteq> - 1 then (True, snd (system xe (Sys_close (Ret reply)) x)) else (False, x))"

section \<open>No descriptor is leaked\<close>

text \<open>
  What POSIX says of descriptors: a new socket has a descriptor that was not open, closing ends it, and connecting
  and reading the name keep all.
\<close>

definition accounts :: "('o \<Rightarrow> syscall \<Rightarrow> sysreply \<times> 'o) \<Rightarrow> ('o \<Rightarrow> int set) \<Rightarrow> bool" where
  "accounts sys opens =
     ((\<forall>os fam ty pr. case sys os (Sys_socket fam ty pr) of (r, os') \<Rightarrow>
         Ret r \<ge> - 1 \<and> (if Ret r \<ge> 0 then Ret r \<notin> opens os \<and> opens os' = insert (Ret r) (opens os) else opens os' = opens os)) \<and>
      (\<forall>os fd. opens (snd (sys os (Sys_close fd))) = opens os - {fd}) \<and>
      (\<forall>os fd sa n. opens (snd (sys os (Sys_connect fd sa n))) = opens os) \<and>
      (\<forall>os fd n. opens (snd (sys os (Sys_getsockname fd n))) = opens os))"

lemma system_call_fields [simp]:
  "Table (snd (system xe c x)) = Table x" "Core (snd (system xe c x)) = Core x"
  "OS (snd (system xe c x)) = snd (Sys xe (OS x) c)"
  by (simp_all add: system_def split: prod.split)

lemma system_lockX: "snd (system xe c (lockX x)) = lockX (snd (system xe c x))"
  by (simp add: system_def lockX_def split: prod.split)

lemma accountsD:
  assumes "accounts sys opens"
  shows "opens (snd (sys os (Sys_close fd))) = opens os - {fd}"
    "opens (snd (sys os (Sys_connect fd sa n))) = opens os" "opens (snd (sys os (Sys_getsockname fd k))) = opens os"
  using assms by (simp_all add: accounts_def)

lemma accounts_socket:
  assumes "accounts (Sys xe) opens" "system xe (Sys_socket fam ty pr) x = (r, x')"
  shows "if Ret r \<ge> 0 then Ret r \<notin> opens (OS x) \<and> opens (OS x') = insert (Ret r) (opens (OS x))
         else Ret r = - 1 \<and> opens (OS x') = opens (OS x)"
proof -
  obtain r' os where s: "Sys xe (OS x) (Sys_socket fam ty pr) = (r', os)" by (rule prod.exhaust)
  have "case Sys xe (OS x) (Sys_socket fam ty pr) of (r, os') \<Rightarrow>
      Ret r \<ge> - 1 \<and> (if Ret r \<ge> 0 then Ret r \<notin> opens (OS x) \<and> opens os' = insert (Ret r) (opens (OS x)) else opens os' = opens (OS x))"
    by (rule conjunct1 [OF assms(1) [unfolded accounts_def], rule_format])
  moreover have "r = r'" "OS x' = os" using assms(2) s by (auto simp: system_def)
  ultimately show ?thesis using s by (cases "Ret r \<ge> 0") simp_all
qed

text \<open>The two changes of the table, as they are.\<close>

lemma unlock_lockX_exact:
  assumes "xgood x"
  obtains w where "coreDo unlock ((lockX x)\<lparr>Table := t\<rparr>) = Inr (x\<lparr>Core := w, Table := t\<rparr>)" "good w" "lstate w = lstate (Core x)"
proof -
  obtain w where "unlock (lock (Core x)) = Inr w" "good w" "lstate w = lstate (Core x)"
    using unlock_back [of "lock (Core x)" "Core x"] xgoodD [OF assms] by auto
  then show thesis by (intro that [of w]) (simp_all add: coreDo_def lockX_def)
qed

lemma setSocket_exact:
  assumes "xgood x" "findFree (min MaxSockets (getdtablesize xe)) (Table x) = Some i"
  obtains w where "setSocket xe d x = Inr (int i, x\<lparr>Core := w, Table := (Table x)(i := d)\<rparr>)" "good w" "lstate w = lstate (Core x)"
proof -
  obtain w where "coreDo unlock ((lockX x)\<lparr>Table := (Table x)(i := d)\<rparr>) = Inr (x\<lparr>Core := w, Table := (Table x)(i := d)\<rparr>)"
    "good w" "lstate w = lstate (Core x)" by (rule unlock_lockX_exact [OF assms(1)])
  then show thesis using assms(2) by (intro that [of w]) (auto simp: setSocket_def Let_def lockX_def)
qed

lemma close_system_exact:
  assumes "xgood x" "i < MaxSockets" "Table x i = ESDT_System fd"
  obtains w where "ext_close xe cb (int i) x =
      Inr (0, (snd (system xe (Sys_close fd) x))\<lparr>Core := w, Table := (Table x)(i := ESDT_Invalid 0)\<rparr>)"
    "good w" "lstate w = lstate (Core x)"
proof -
  let ?y = "snd (system xe (Sys_close fd) x)"
  have "xgood ?y" using assms(1) by simp
  then obtain w where "coreDo unlock ((lockX ?y)\<lparr>Table := (Table x)(i := ESDT_Invalid 0)\<rparr>) =
      Inr (?y\<lparr>Core := w, Table := (Table x)(i := ESDT_Invalid 0)\<rparr>)" "good w" "lstate w = lstate (Core x)"
    by (rule unlock_lockX_exact [of ?y "(Table x)(i := ESDT_Invalid 0)"]) simp
  moreover have "Table (lockX x) = Table x" "Table (lockX ?y) = Table x" by (simp_all add: lockX_def)
  ultimately show thesis using assms(2,3)
    by (intro that [of w]) (simp_all add: ext_close_def getSocket_def Let_def system_lockX errno_return_def)
qed

text \<open>Connecting and reading the name only call the system.\<close>

lemma probe_name_exact:
  assumes "accounts (Sys xe) opens" "i < MaxSockets" "Table x i = ESDT_System fd" "fst peer > 0 \<longrightarrow> snd peer \<noteq> None"
  obtains found y where "probe_name xe cb (int i) peer x = Inr (found, y)" "Table y = Table x" "Core y = Core x"
    "opens (OS y) = opens (OS x)"
proof (cases "fst peer > 0")
  case True
  then obtain n sa where p: "peer = (n, Some sa)" "n > 0" using assms(4) by (cases peer) auto
  obtain r y where s: "system xe (Sys_connect fd sa n) x = (r, y)" by (rule prod.exhaust)
  obtain q z where t: "system xe (Sys_getsockname fd (Some n)) y = (q, z)" by (rule prod.exhaust)
  have y: "Table y = Table x" "Core y = Core x" "opens (OS y) = opens (OS x)"
    using system_call_fields [of xe "Sys_connect fd sa n" x] accountsD(2) [OF assms(1)] s by simp_all
  have z: "Table z = Table x" "Core z = Core x" "opens (OS z) = opens (OS x)"
    using system_call_fields [of xe "Sys_getsockname fd (Some n)" y] accountsD(3) [OF assms(1)] t y by simp_all
  show thesis
  proof (cases "Ret r = 0")
    case True
    then show thesis using assms(2,3) p s t y z
      by (intro that [of _ z]) (simp_all add: probe_name_def ofOption_def ext_connect_def ext_getsockname_def getSocket_def
          sysReturn_def sysName_def)
  next
    case False
    then show thesis using assms(2,3) p s y
      by (intro that [of _ y]) (simp_all add: probe_name_def ofOption_def ext_connect_def getSocket_def sysReturn_def)
  qed
next
  case False
  then show thesis by (intro that [of None x]) (auto simp: probe_name_def split: prod.split)
qed

definition rested :: "('o \<Rightarrow> int set) \<Rightarrow> ('l, 'o) ext \<Rightarrow> ('l, 'o) ext \<Rightarrow> bool" where
  "rested opens x y =
     (xgood y \<and> lstate (Core y) = lstate (Core x) \<and> opens (OS y) = opens (OS x) \<and>
      (\<forall>j. isInvalid (Table y j) = isInvalid (Table x j) \<and> (\<not> isInvalid (Table x j) \<longrightarrow> Table y j = Table x j)))"

lemma probe_rested:
  assumes "xgood x" "accounts (Sys xe) opens" "findFree (min MaxSockets (getdtablesize xe)) (Table x) = Some i"
    "protocol \<noteq> IPPROTO_SCTP" "fst peer > 0 \<longrightarrow> snd peer \<noteq> None"
  obtains found y where "probe xe cb family protocol peer x = Inr (found, y)" "rested opens x y"
proof -
  obtain r u where s: "system xe (Sys_socket family SOCK_DGRAM protocol) x = (r, u)" by (rule prod.exhaust)
  have u: "Table u = Table x" "Core u = Core x"
    using system_call_fields [of xe "Sys_socket family SOCK_DGRAM protocol" x] s by simp_all
  have o: "if Ret r \<ge> 0 then Ret r \<notin> opens (OS x) \<and> opens (OS u) = insert (Ret r) (opens (OS x))
      else Ret r = - 1 \<and> opens (OS u) = opens (OS x)" by (rule accounts_socket [OF assms(2) s])
  have i: "i < MaxSockets" "isInvalid (Table x i)" using findFree_Some [OF assms(3)] by simp_all
  show thesis
  proof (cases "Ret r \<ge> 0")
    case True
    have "xgood u" using assms(1) u by (simp add: xgood_def)
    then obtain w where v: "setSocket xe (ESDT_System (Ret r)) u = Inr (int i, u\<lparr>Core := w, Table := (Table x)(i := ESDT_System (Ret r))\<rparr>)"
      "good w" "lstate w = lstate (Core x)"
      by (rule setSocket_exact [where d = "ESDT_System (Ret r)"]) (use assms(3) u in simp_all)
    let ?v = "u\<lparr>Core := w, Table := (Table x)(i := ESDT_System (Ret r))\<rparr>"
    obtain found y where y: "probe_name xe cb (int i) peer ?v = Inr (found, y)" "Table y = Table ?v" "Core y = w" "opens (OS y) = opens (OS u)"
      by (rule probe_name_exact [OF assms(2) i(1) _ assms(5), of ?v "Ret r" cb]) simp_all
    have "xgood y" using y(3) v(2) by (simp add: xgood_def)
    then obtain w' where z: "ext_close xe cb (int i) y =
        Inr (0, (snd (system xe (Sys_close (Ret r)) y))\<lparr>Core := w', Table := (Table y)(i := ESDT_Invalid 0)\<rparr>)"
      "good w'" "lstate w' = lstate (Core y)"
      by (rule close_system_exact [OF _ i(1), where cb = cb and xe = xe and fd = "Ret r"]) (use y(2) in simp_all)
    let ?z = "(snd (system xe (Sys_close (Ret r)) y))\<lparr>Core := w', Table := (Table y)(i := ESDT_Invalid 0)\<rparr>"
    have "opens (OS ?z) = opens (OS x)" using y(4) o True accountsD(1) [OF assms(2)] by simp
    then have "rested opens x ?z" using z(2,3) v(3) y(2,3) i(2) by (simp add: rested_def xgood_def)
    moreover have "probe xe cb family protocol peer x = Inr (found, ?z)"
      using s v(1) y(1) z(1) True assms(4) by (simp add: probe_def ext_socket_def wrapSystem_def errno_return_def)
    ultimately show thesis by (intro that)
  next
    case False
    then show thesis using s o u assms(1,4)
      by (intro that [of None "u\<lparr>errno := 1\<rparr>"]) (simp_all add: probe_def ext_socket_def wrapSystem_def errno_return_def rested_def xgood_def)
  qed
qed

lemma any_address_written:
  "fst (Any_getSystemAddress v6 a len fam) > 0 \<longrightarrow> snd (Any_getSystemAddress v6 a len fam) \<noteq> None"
  by (cases a; cases "plain a")
    (auto simp: getSystemAddress_def Unix_getSystemAddress_def Flow_getSystemAddress_def Let_def split: prod.split)

lemma zero_port [simp]: "htons (htons 0) = 0"
  by (simp add: translate16_def)

lemma family_created: "\<exists>address. createSocketAddress_family e (Any_getFamily v6 a) = Some address \<and> SA_getPort address = 0"
proof -
  have "Any_getFamily v6 a \<in> {AF_INET, AF_INET6, AF_UNIX}"
    by (cases a; cases "plain a") (auto simp: getFamily_def)
  then show ?thesis
    by (auto simp: createSocketAddress_family_def InternetAddress_default_def getPort_def reset_def setPort_def setPrintFormat_def af_defs)
qed

lemma port_cleared: "getPort (setPort a 0) = 0" "Any_getPort (Any_setPort b 0) = 0"
proof -
  show *: "getPort (setPort a 0) = 0" for a by (simp add: getPort_def setPort_def)
  show "Any_getPort (Any_setPort b 0) = 0"
  proof (cases b)
    case (Plain a)
    then show ?thesis by (cases a) (simp_all add: *)
  qed (simp add: *)
qed

lemma checkIPv6_rested:
  assumes "xgood x" "accounts (Sys xe) opens"
  shows "rested opens x (snd (checkIPv6 xe x))"
proof -
  obtain r u where s: "system xe (Sys_socket AF_INET6 SOCK_DGRAM 0) x = (r, u)" by (rule prod.exhaust)
  have u: "Table u = Table x" "Core u = Core x" using system_call_fields [of xe "Sys_socket AF_INET6 SOCK_DGRAM 0" x] s by simp_all
  show ?thesis
    using accounts_socket [OF assms(2) s] s u assms(1)
    by (cases "Ret r \<ge> 0") (auto simp: checkIPv6_def rested_def xgood_def accountsD [OF assms(2)])
qed

text \<open>
  C22. Asking for the local address towards a peer returns with an address without port, whichever calls of the
  system fail, and leaves no descriptor behind: not in the table, in which the entries in use stay as they are, and
  not in the system; nor does the lock stay held. The test for IPv6 closes its socket too. The table must have a free entry.
\<close>

theorem local_address_leaves_nothing:
  assumes "xgood x" "accounts (Sys xe) opens" "k < min MaxSockets (getdtablesize xe)" "isInvalid (Table x k)"
  shows "(\<exists>a y. Internet_getLocalAddress xe cb p x = Inr (a, y) \<and> getPort a = 0 \<and> rested opens x y) \<and>
         (\<exists>b z. SocketAddress_getLocalAddress xe cb q x = Inr (Some b, z) \<and> Any_getPort b = 0 \<and> rested opens x z) \<and>
         rested opens x (snd (checkIPv6 xe x))"
proof -
  obtain i where i: "findFree (min MaxSockets (getdtablesize xe)) (Table x) = Some i"
    using findFree_None assms(3,4) by (metis option.exhaust)
  let ?v6 = "UseIPv6 (AE (E xe))"
  have protocols: "IPPROTO_UDP \<noteq> IPPROTO_SCTP" "0 \<noteq> IPPROTO_SCTP" by (simp_all add: IPPROTO_UDP_def IPPROTO_SCTP_def)
  have "fst (getSystemAddress ?v6 p n fam) > 0 \<longrightarrow> snd (getSystemAddress ?v6 p n fam) \<noteq> None" for n fam
    using any_address_written [of ?v6 "Plain (Internet p)" n fam] by simp
  then obtain found y where "probe xe cb (if ?v6 then AF_INET6 else AF_INET) IPPROTO_UDP
      (getSystemAddress ?v6 p MaxSockLen (if ?v6 then AF_INET6 else AF_INET)) x = Inr (found, y)" "rested opens x y"
    by (rule probe_rested [OF assms(1,2) i protocols(1)])
  then have "\<exists>a y. Internet_getLocalAddress xe cb p x = Inr (a, y) \<and> getPort a = 0 \<and> rested opens x y"
    by (auto simp: Internet_getLocalAddress_def Let_def port_cleared InternetAddress_default_def reset_def setPrintFormat_def
        setPort_def getPort_def split: option.split)
  moreover obtain found z where z: "probe xe cb (Any_getFamily ?v6 q) 0
      (Any_getSystemAddress ?v6 q MaxSockLen (Any_getFamily ?v6 q)) x = Inr (found, z)" "rested opens x z"
    by (rule probe_rested [OF assms(1,2) i protocols(2) any_address_written])
  obtain address where "createSocketAddress_family (AE (E xe)) (Any_getFamily ?v6 q) = Some address" "SA_getPort address = 0"
    using family_created by blast
  then have "\<exists>b z. SocketAddress_getLocalAddress xe cb q x = Inr (Some b, z) \<and> Any_getPort b = 0 \<and> rested opens x z"
    using z by (auto simp: SocketAddress_getLocalAddress_def Let_def port_cleared split: option.split)
  moreover have "rested opens x (snd (checkIPv6 xe x))" by (rule checkIPv6_rested [OF assms(1,2)])
  ultimately show ?thesis by blast
qed

text \<open>A system that gives descriptor 5 while it is not in use, and whose names are those of the caller's buffer.\<close>

fun single_sys :: "nat \<Rightarrow> syscall \<Rightarrow> sysreply \<times> nat" where
  "single_sys os (Sys_socket fam ty pr) = (if os = 0 then (sample_reply 5 0, 1) else (sample_reply (- 1) 24, os))"
| "single_sys os (Sys_close fd) = (if fd = 5 then (sample_reply 0 0, 0) else (sample_reply (- 1) 9, os))"
| "single_sys os _ = (sample_reply 0 0, os)"

definition single_opens :: "nat \<Rightarrow> int set" where
  "single_opens os = (if os = 0 then {} else {5})"

lemma single_accounts: "accounts single_sys single_opens"
  by (simp add: accounts_def single_opens_def sample_reply_def)

theorem local_address_leaves_nothing_witness:
  "\<exists>a y. Internet_getLocalAddress (sample_xenv\<lparr>Sys := single_sys\<rparr>) (deliver sample 1) sample_v4 (start_ext\<lparr>OS := 0\<rparr>) = Inr (a, y) \<and>
     getPort a = 0 \<and> single_opens (OS y) = {}"
proof -
  have "\<exists>a y. Internet_getLocalAddress (sample_xenv\<lparr>Sys := single_sys\<rparr>) (deliver sample 1) sample_v4 (start_ext\<lparr>OS := 0\<rparr>) = Inr (a, y) \<and>
     getPort a = 0 \<and> rested single_opens (start_ext\<lparr>OS := 0\<rparr>) y"
    by (rule local_address_leaves_nothing [of "start_ext\<lparr>OS := 0\<rparr>" "sample_xenv\<lparr>Sys := single_sys\<rparr>" single_opens 7
      "deliver sample 1" sample_v4 "Plain (Internet sample_v4)", THEN conjunct1])
      (use single_accounts start_good in \<open>simp_all add: xgood_def initialTable_def MaxSockets_def\<close>)
  moreover have "single_opens 0 = {}" by (simp add: single_opens_def)
  ultimately show ?thesis by (auto simp: rested_def)
qed

text \<open>With a full table the socket of the system stays open: \<^verbatim>\<open>ext_socket\<close> forgets it.\<close>

theorem full_table_leaks_socket:
  assumes "xgood x" "accounts (Sys xe) opens" "\<forall>i < min MaxSockets (getdtablesize xe). \<not> isInvalid (Table x i)"
    "system xe (Sys_socket family SOCK_DGRAM protocol) x = (r, u)" "Ret r \<ge> 0" "protocol \<noteq> IPPROTO_SCTP"
  shows "\<exists>y. probe xe cb family protocol peer x = Inr (None, y) \<and> opens (OS y) = insert (Ret r) (opens (OS x)) \<and> Ret r \<notin> opens (OS x)"
proof -
  have u: "Table u = Table x" "Core u = Core x"
    using system_call_fields [of xe "Sys_socket family SOCK_DGRAM protocol" x] assms(4) by simp_all
  have "xgood u" using assms(1) u by (simp add: xgood_def)
  then obtain w where w: "coreDo unlock ((lockX u)\<lparr>Table := Table x\<rparr>) = Inr (u\<lparr>Core := w, Table := Table x\<rparr>)"
    by (rule unlock_lockX_exact)
  have same: "(lockX u)\<lparr>Table := Table x\<rparr> = lockX u" and "Table (lockX u) = Table x" using u by (simp_all add: lockX_def)
  moreover have "findFree (min MaxSockets (getdtablesize xe)) (Table x) = None" using assms(3) findFree_None by blast
  ultimately have "setSocket xe d u = Inr (- EMFILE, u\<lparr>Core := w, Table := Table x\<rparr>)" for d
    using w [unfolded same] by (simp add: setSocket_def Let_def)
  then show ?thesis
    using assms(4-6) accounts_socket [OF assms(2,4)]
    by (simp add: probe_def ext_socket_def wrapSystem_def errno_return_def EMFILE_def)
qed

end
