(* ===== verification/Rates.thy ===== *)
theory Rates
  imports Prelude
begin

text \<open>
  \<^verbatim>\<open>calculatePacketsPerSecond\<close> and \<^verbatim>\<open>calculateBytesPerSecond\<close> of \<^verbatim>\<open>tools.cc\<close>. They divide 32-bit numbers as
  \<^verbatim>\<open>double\<close>, round the quotient up and convert it back. The quotient \<open>a / b\<close> is off by at most
  \<open>2\<^sup>-\<^sup>2\<^sup>1 / b\<close>, as \<open>a < 2\<^sup>3\<^sup>2\<close> and the mantissa has 53 bits, while a quotient that is no integer is at least \<open>1 / b\<close> away
  from the next one: the result is the exact quotient rounded up. Division by zero gives no number, whose conversion to
  an integer is undefined; this is \<open>None\<close>.
\<close>

section \<open>The functions\<close>

definition ceilQuotient :: "32 word \<Rightarrow> 32 word \<Rightarrow> 32 word option" where
  "ceilQuotient a b = (if b = 0 then None else Some (of_nat ((unat a + unat b - 1) div unat b)))"

definition calculatePacketsPerSecond :: "32 word \<Rightarrow> 32 word \<Rightarrow> 32 word \<Rightarrow> 32 word \<Rightarrow> 32 word option" where
  "calculatePacketsPerSecond payloadBytesPerSecond framesPerSecond maxPacketSize headerLength =
     Option.bind (ceilQuotient payloadBytesPerSecond framesPerSecond) (\<lambda>frameSize.
     Option.bind (ceilQuotient frameSize (maxPacketSize - headerLength)) (\<lambda>packets.
     Option.bind (ceilQuotient payloadBytesPerSecond frameSize) (\<lambda>frames.
     Some (packets * frames))))"

definition calculateBytesPerSecond :: "32 word \<Rightarrow> 32 word \<Rightarrow> 32 word \<Rightarrow> 32 word \<Rightarrow> 32 word option" where
  "calculateBytesPerSecond payloadBytesPerSecond framesPerSecond maxPacketSize headerLength =
     Option.bind (ceilQuotient payloadBytesPerSecond framesPerSecond) (\<lambda>frameSize.
     Option.bind (ceilQuotient frameSize (maxPacketSize - headerLength)) (\<lambda>packets.
     let headerBytesPerFrame = packets * headerLength in
     Option.bind (ceilQuotient payloadBytesPerSecond frameSize) (\<lambda>frames.
     Some ((headerBytesPerFrame + frameSize) * frames))))"

section \<open>Rounding up\<close>

lemma ceil_div:
  fixes a b :: nat
  assumes "0 < b"
  shows "a \<le> (a + b - 1) div b * b" "(a + b - 1) div b * b < a + b" "(a + b - 1) div b \<le> a"
proof -
  let ?q = "(a + b - 1) div b"
  have e: "?q * b + (a + b - 1) mod b = a + b - 1" by simp
  have r: "(a + b - 1) mod b < b" using assms by simp
  show "a \<le> ?q * b" "?q * b < a + b" using e r assms by linarith+
  moreover have "a + b \<le> (a + 1) * b" using assms by (cases b) auto
  ultimately have "?q * b < (a + 1) * b" by linarith
  then have "?q < a + 1" using mult_less_cancel2 by blast
  then show "?q \<le> a" by simp
qed

lemma ceilQuotient_Some:
  assumes "b \<noteq> 0"
  obtains q where "ceilQuotient a b = Some q" "unat q = (unat a + unat b - 1) div unat b"
    "unat a \<le> unat q * unat b" "unat q * unat b < unat a + unat b" "unat q \<le> unat a" "a \<noteq> 0 \<Longrightarrow> q \<noteq> 0"
proof -
  let ?q = "(unat a + unat b - 1) div unat b"
  have b: "0 < unat b" using assms by (simp add: unat_gt_0)
  note c = ceil_div [OF b, of "unat a"]
  have "unat a < 2 ^ LENGTH(32)" by (rule unsigned_less)
  then have "?q < 2 ^ 32" using c(3) by simp
  then have q: "unat (of_nat ?q :: 32 word) = ?q" by (simp add: unat_of_nat)
  have "(of_nat ?q :: 32 word) \<noteq> 0" if "a \<noteq> 0" using c(1) that q by (metis mult_0 le_zero_eq unat_0 unat_eq_zero)
  then show thesis using assms q c by (intro that [of "of_nat ?q"]) (simp_all add: ceilQuotient_def)
qed

lemma unat_exact:
  fixes a b :: "32 word"
  shows "unat a * unat b < 2 ^ 32 \<Longrightarrow> unat (a * b) = unat a * unat b"
    "unat a + unat b < 2 ^ 32 \<Longrightarrow> unat (a + b) = unat a + unat b"
  by (simp_all add: unat_word_ariths)

text \<open>
  The rates suffice and are not larger than needed: the packets of a second have room for the payload, at most
  one frame more than the payload is counted, and the bytes are the payload of the frames and a header for each
  packet. A header that does not fit into a packet, no frames and no payload at all have no defined result.
\<close>

theorem packet_rates:
  fixes p f m h :: "32 word"
  assumes "p \<noteq> 0" "f \<noteq> 0" "h < m" "2 * unat p * (unat h + 1) \<le> 2 ^ 32"
  shows "\<exists>k b s. calculatePacketsPerSecond p f m h = Some k \<and> calculateBytesPerSecond p f m h = Some b \<and>
           unat p \<le> unat k * (unat m - unat h) \<and>
           ceilQuotient p f = Some s \<and> unat s * unat f < unat p + unat f \<and>
           unat p + unat h * unat k \<le> unat b \<and> unat b < unat p + unat s + unat h * unat k \<and>
           calculatePacketsPerSecond p f m m = None \<and> calculatePacketsPerSecond p 0 m h = None \<and>
           calculatePacketsPerSecond 0 f m h = None"
proof -
  have d: "unat (m - h) = unat m - unat h" "m - h \<noteq> 0"
    using assms(3) by (simp_all add: unat_sub less_imp_le)
  obtain s where s: "ceilQuotient p f = Some s" "unat s * unat f < unat p + unat f" "unat s \<le> unat p" "s \<noteq> 0"
    using ceilQuotient_Some [OF assms(2), of p] assms(1) by metis
  obtain q where q: "ceilQuotient s (m - h) = Some q" "unat s \<le> unat q * unat (m - h)" "unat q \<le> unat s"
    using ceilQuotient_Some [OF d(2), of s] by metis
  obtain g where g: "ceilQuotient p s = Some g" "unat p \<le> unat g * unat s" "unat g * unat s < unat p + unat s"
    using ceilQuotient_Some [OF s(4), of p] by metis
  have b0: "unat g * unat s < 2 * unat p" using g(3) s(3) by linarith
  have b1: "unat q * unat g \<le> unat g * unat s" using q(3) by simp
  have h0: "unat h * (unat q * unat g) + unat g * unat s \<le> (unat h + 1) * (unat g * unat s)"
    using mult_le_mono2 [OF b1, of "unat h"] by (simp add: algebra_simps)
  have "(unat h + 1) * (unat g * unat s) < (unat h + 1) * (2 * unat p)" using b0 by (intro mult_strict_left_mono) simp_all
  also have "\<dots> \<le> 2 ^ 32" using assms(4) by (simp only: mult_ac)
  finally have h1: "(unat h + 1) * (unat g * unat s) < 2 ^ 32" .
  have g1: "1 \<le> unat g" using g(2) assms(1) by (cases "unat g") (auto simp: unat_eq_0)
  have k: "unat (q * g) = unat q * unat g"
  proof (rule unat_exact(1))
    have "unat g * unat s \<le> (unat h + 1) * (unat g * unat s)" by simp
    then show "unat q * unat g < 2 ^ 32" using b1 h1 by linarith
  qed
  have f: "(unat q * unat h + unat s) * unat g < 2 ^ 32"
    using order.strict_trans1 [OF h0 h1] by (simp add: algebra_simps)
  then have "unat q * unat h + unat s < 2 ^ 32" using g1 by (cases "unat g") auto
  then have e: "unat (q * h + s) = unat q * unat h + unat s" by (simp add: unat_exact)
  have b: "unat ((q * h + s) * g) = unat h * (unat q * unat g) + unat g * unat s"
    using unat_exact(1) [of "q * h + s" g] f unfolding e by (simp add: distrib_left distrib_right mult_ac)
  have "unat p \<le> unat q * unat g * (unat m - unat h)"
    using g(2) mult_le_mono2 [OF q(2), of "unat g"] d(1) by (simp add: algebra_simps)
  moreover have "calculatePacketsPerSecond p f m h = Some (q * g)" "calculateBytesPerSecond p f m h = Some ((q * h + s) * g)"
    using s(1) q(1) g(1) by (simp_all add: calculatePacketsPerSecond_def calculateBytesPerSecond_def Let_def)
  moreover have none: "(unat f - Suc 0) div unat f = 0" using assms(2) by (simp add: unat_gt_0)
  moreover have "calculatePacketsPerSecond p f m m = None" "calculatePacketsPerSecond p 0 m h = None"
    "calculatePacketsPerSecond 0 f m h = None"
    using assms(2) d(2) none by (auto simp: calculatePacketsPerSecond_def ceilQuotient_def unat_eq_0 split: Option.bind_splits)
  ultimately show ?thesis using s(1,2) g(2,3) b k by auto
qed

theorem packet_rates_witness:
  "\<exists>k. calculatePacketsPerSecond 100000 25 1500 40 = Some k \<and> 100000 \<le> unat k * 1460"
  using packet_rates [of 100000 25 40 1500] by auto

text \<open>A header longer than the packet wraps around: one packet per frame seems to do.\<close>

theorem header_wraps: "calculatePacketsPerSecond 100000 25 40 1500 = Some 25"
  by (simp add: calculatePacketsPerSecond_def ceilQuotient_def)

end
