(* ===== verification/ServerSets.thy ===== *)
theory ServerSets
  imports Prelude
begin

text \<open>
  The class \<^verbatim>\<open>ServerSet\<close> of \<^verbatim>\<open>sctpmultiserver.cc\<close>: server threads that register, hand themselves over for deletion
  when they end, and are deleted by the main thread. Every action of a thread is a step; the mutex, the two sets, the
  requests for cancellation and the deleted objects are shared. Objects are numbers in the order of their addresses.
\<close>

section \<open>Threads and the shared state\<close>

text \<open>
  Where the object is: the accepting thread runs its constructor, with the mutex from \<open>CreatorInserts\<close> to
  \<open>CreatorUnlocks\<close>, and starts the thread of the server; that one serves and calls \<^verbatim>\<open>killMe\<close>, with the mutex from
  \<open>KillErases\<close> to \<open>KillUnlocks\<close>. Without the mutex it still has to return, from \<^verbatim>\<open>killMe\<close>, \<^verbatim>\<open>run\<close> and
  \<^verbatim>\<open>Thread::go\<close>, before it has ended. A thread that could not be created never runs; whether the object then
  seems to be running depends on the identifier that \<^verbatim>\<open>pthread_create\<close> left, which is not specified.
\<close>

datatype server_place =
  Absent | CreatorWaits | CreatorInserts | CreatorUnlocks | CreatorStarts | Serving | KillDelays | KillCloses | KillWaits |
  KillErases | KillInserts | KillUnlocks | KillReturns | Ended | NeverRuns bool

text \<open>The collection of deleted servers in the main loop, and the two collections of \<^verbatim>\<open>shutdown\<close>.\<close>

datatype gc_goal = Periodic | ShutdownDeleted | ShutdownServers

datatype gc_place =
  GCIdle | GCWaits gc_goal | GCLoop gc_goal | GCStops gc_goal nat | GCJoins gc_goal nat | GCFrees gc_goal nat |
  GCErases gc_goal nat | GCUnlocks gc_goal | GCDone

datatype mutex_user = OfServer nat | OfCollector

record ServerSet =
  MutexOwner :: "mutex_user option"
  Servers :: "nat list"
  DeletedServers :: "nat list"
  Place :: "nat \<Rightarrow> server_place"
  Collector :: gc_place
  CancelRequests :: "nat set"
  Freed :: "nat set"
  Broken :: bool

text \<open>A \<^verbatim>\<open>std::set\<close> of pointers, in ascending order.\<close>

definition set_insert :: "nat \<Rightarrow> nat list \<Rightarrow> nat list" where
  "set_insert s xs = (if s \<in> set xs then xs else insort s xs)"

definition set_erase :: "nat \<Rightarrow> nat list \<Rightarrow> nat list" where
  "set_erase s xs = removeAll s xs"

definition gcSet :: "gc_goal \<Rightarrow> ServerSet \<Rightarrow> nat list" where
  "gcSet goal st = (if goal = ShutdownServers then Servers st else DeletedServers st)"

section \<open>Steps\<close>

definition at_place :: "nat \<Rightarrow> server_place \<Rightarrow> ServerSet \<Rightarrow> ServerSet" where
  "at_place s p st = st\<lparr>Place := (Place st)(s := p)\<rparr>"

text \<open>A call of \<^verbatim>\<open>synchronized\<close>, which waits while another thread has the mutex.\<close>

definition synchronized_as :: "mutex_user \<Rightarrow> ServerSet \<Rightarrow> ServerSet option" where
  "synchronized_as u st = (if MutexOwner st = None then Some (st\<lparr>MutexOwner := Some u\<rparr>) else None)"

definition unsynchronized_by :: "ServerSet \<Rightarrow> ServerSet" where
  "unsynchronized_by st = st\<lparr>MutexOwner := None\<rparr>"

text \<open>Using an object that was deleted breaks the program.\<close>

definition touch :: "nat \<Rightarrow> ServerSet \<Rightarrow> ServerSet" where
  "touch s st = (if s \<in> Freed st then st\<lparr>Broken := True\<rparr> else st)"

definition constructor_step :: "nat \<Rightarrow> ServerSet \<Rightarrow> ServerSet option" where
  "constructor_step s st =
     (case Place st s of
        Absent \<Rightarrow> Some (at_place s CreatorWaits st)
      | CreatorWaits \<Rightarrow> map_option (at_place s CreatorInserts) (synchronized_as (OfServer s) st)
      | CreatorInserts \<Rightarrow> Some (at_place s CreatorUnlocks (st\<lparr>Servers := set_insert s (Servers st)\<rparr>))
      | CreatorUnlocks \<Rightarrow> Some (at_place s CreatorStarts (unsynchronized_by st))
      | CreatorStarts \<Rightarrow> Some (at_place s Serving (touch s st))
      | _ \<Rightarrow> None)"

text \<open>The constructors ignore the result of \<^verbatim>\<open>start\<close>; \<open>left\<close> says whether the failure left an identifier other than 0.\<close>

definition start_fails_step :: "nat \<Rightarrow> bool \<Rightarrow> ServerSet \<Rightarrow> ServerSet option" where
  "start_fails_step s left st = (if Place st s = CreatorStarts then Some (at_place s (NeverRuns left) (touch s st)) else None)"

definition killMe_step :: "nat \<Rightarrow> ServerSet \<Rightarrow> ServerSet option" where
  "killMe_step s st =
     (case Place st s of
        Serving \<Rightarrow> Some (at_place s KillDelays (touch s st))
      | KillDelays \<Rightarrow> Some (at_place s KillCloses st)
      | KillCloses \<Rightarrow> Some (at_place s KillWaits (touch s st))
      | KillWaits \<Rightarrow> map_option (at_place s KillErases) (synchronized_as (OfServer s) st)
      | KillErases \<Rightarrow> Some (at_place s KillInserts (st\<lparr>Servers := set_erase s (Servers st)\<rparr>))
      | KillInserts \<Rightarrow> Some (at_place s KillUnlocks (st\<lparr>DeletedServers := set_insert s (DeletedServers st)\<rparr>))
      | KillUnlocks \<Rightarrow> Some (at_place s KillReturns (unsynchronized_by st))
      | KillReturns \<Rightarrow> Some (at_place s Ended st)
      | _ \<Rightarrow> None)"

text \<open>A request takes effect where the thread waits for data or sleeps.\<close>

definition cancel_step :: "nat \<Rightarrow> ServerSet \<Rightarrow> ServerSet option" where
  "cancel_step s st =
     (if s \<in> CancelRequests st \<and> Place st s \<in> {Serving, KillDelays} then Some (at_place s Ended st) else None)"

text \<open>
  \<^verbatim>\<open>garbageCollection\<close> with the destructor: \<^verbatim>\<open>stop\<close> requests the end of a thread that was started and joins it.
  To cancel and join a thread that does not exist breaks the program.
\<close>

definition started :: "server_place \<Rightarrow> bool" where
  "started p = (p \<notin> {Absent, CreatorWaits, CreatorInserts, CreatorUnlocks, CreatorStarts, NeverRuns False})"

definition collector_step :: "ServerSet \<Rightarrow> ServerSet option" where
  "collector_step st =
     (case Collector st of
        GCIdle \<Rightarrow> None
      | GCWaits goal \<Rightarrow> map_option (\<lambda>st. st\<lparr>Collector := GCLoop goal\<rparr>) (synchronized_as OfCollector st)
      | GCLoop goal \<Rightarrow>
          Some (st\<lparr>Collector := (case gcSet goal st of [] \<Rightarrow> GCUnlocks goal | server # _ \<Rightarrow> GCStops goal server)\<rparr>)
      | GCStops goal server \<Rightarrow>
          let st = touch server st in
          Some (if Place st server = NeverRuns True then st\<lparr>Broken := True, Collector := GCFrees goal server\<rparr>
                else if started (Place st server)
                then st\<lparr>CancelRequests := insert server (CancelRequests st), Collector := GCJoins goal server\<rparr>
                else st\<lparr>Collector := GCFrees goal server\<rparr>)
      | GCJoins goal server \<Rightarrow> if Place st server = Ended then Some (st\<lparr>Collector := GCFrees goal server\<rparr>) else None
      | GCFrees goal server \<Rightarrow>
          let st = touch server st in Some (st\<lparr>Freed := insert server (Freed st), Collector := GCErases goal server\<rparr>)
      | GCErases goal server \<Rightarrow>
          Some (if goal = ShutdownServers
                then st\<lparr>Servers := set_erase server (Servers st), Collector := GCLoop goal\<rparr>
                else st\<lparr>DeletedServers := set_erase server (DeletedServers st), Collector := GCLoop goal\<rparr>)
      | GCUnlocks goal \<Rightarrow>
          Some ((unsynchronized_by st)\<lparr>Collector :=
            (case goal of Periodic \<Rightarrow> GCIdle | ShutdownDeleted \<Rightarrow> GCWaits ShutdownServers | ShutdownServers \<Rightarrow> GCDone)\<rparr>)
      | GCDone \<Rightarrow> None)"

text \<open>The main loop calls for the next collection of the deleted servers, or for the shutdown, which begins with them.\<close>

definition main_step :: "gc_goal \<Rightarrow> ServerSet \<Rightarrow> ServerSet option" where
  "main_step goal st = (if Collector st = GCIdle \<and> goal \<noteq> ShutdownServers then Some (st\<lparr>Collector := GCWaits goal\<rparr>) else None)"

datatype action = Constructs nat | StartFails nat bool | Runs nat | Cancels nat | Collects | Calls gc_goal

fun perform :: "action \<Rightarrow> ServerSet \<Rightarrow> ServerSet option" where
  "perform (Constructs s) = constructor_step s"
| "perform (StartFails s left) = start_fails_step s left"
| "perform (Runs s) = killMe_step s"
| "perform (Cancels s) = cancel_step s"
| "perform Collects = collector_step"
| "perform (Calls goal) = main_step goal"

fun performs :: "action list \<Rightarrow> ServerSet \<Rightarrow> ServerSet option" where
  "performs [] st = Some st"
| "performs (a # as) st = Option.bind (perform a st) (performs as)"

definition no_servers :: ServerSet where
  "no_servers = \<lparr>MutexOwner = None, Servers = [], DeletedServers = [], Place = (\<lambda>s. Absent), Collector = GCIdle,
     CancelRequests = {}, Freed = {}, Broken = False\<rparr>"

section \<open>Collections while the program runs\<close>

lemma set_of_sets [simp]: "set (set_insert s xs) = insert s (set xs)" "set (set_erase s xs) = set xs - {s}"
  by (auto simp: set_insert_def set_erase_def set_insort_key)

definition critical :: "server_place \<Rightarrow> bool" where
  "critical p = (p \<in> {CreatorInserts, CreatorUnlocks, KillErases, KillInserts, KillUnlocks})"

definition registered :: "server_place \<Rightarrow> bool" where
  "registered p = (p \<in> {CreatorUnlocks, CreatorStarts, Serving, KillDelays, KillCloses, KillWaits, KillErases, NeverRuns False, NeverRuns True})"

definition over :: "server_place \<Rightarrow> bool" where
  "over p = (p \<in> {KillReturns, Ended})"

definition handed_over :: "server_place \<Rightarrow> bool" where
  "handed_over p = (p = KillUnlocks \<or> over p)"

lemma over_Ended [simp]: "over Ended" "handed_over Ended" "\<not> over KillUnlocks" "handed_over KillUnlocks" "\<not> handed_over Absent"
  by (simp_all add: over_def handed_over_def)

definition server_ok :: "ServerSet \<Rightarrow> nat \<Rightarrow> bool" where
  "server_ok st s =
     (critical (Place st s) = (MutexOwner st = Some (OfServer s)) \<and>
      (s \<in> set (Servers st)) = registered (Place st s) \<and>
      (s \<in> set (DeletedServers st) \<longrightarrow> handed_over (Place st s)) \<and>
      (s \<in> Freed st \<longrightarrow> Place st s = Ended \<and> (s \<in> set (DeletedServers st) \<longrightarrow> Collector st = GCErases Periodic s)) \<and>
      (s \<in> CancelRequests st \<longrightarrow> over (Place st s)) \<and>
      (handed_over (Place st s) \<longrightarrow> s \<in> set (DeletedServers st) \<or> s \<in> Freed st \<and> Place st s = Ended))"

fun collector_ok :: "ServerSet \<Rightarrow> gc_place \<Rightarrow> bool" where
  "collector_ok st GCIdle = (MutexOwner st \<noteq> Some OfCollector)"
| "collector_ok st (GCWaits g) = (g = Periodic \<and> MutexOwner st \<noteq> Some OfCollector)"
| "collector_ok st (GCLoop g) = (g = Periodic \<and> MutexOwner st = Some OfCollector)"
| "collector_ok st (GCUnlocks g) = (g = Periodic \<and> MutexOwner st = Some OfCollector)"
| "collector_ok st (GCStops g s) = (g = Periodic \<and> MutexOwner st = Some OfCollector \<and> s \<in> set (DeletedServers st) - Freed st)"
| "collector_ok st (GCJoins g s) = (g = Periodic \<and> MutexOwner st = Some OfCollector \<and> s \<in> set (DeletedServers st) - Freed st)"
| "collector_ok st (GCFrees g s) = (g = Periodic \<and> MutexOwner st = Some OfCollector \<and> s \<in> set (DeletedServers st) - Freed st \<and> Place st s = Ended)"
| "collector_ok st (GCErases g s) = (g = Periodic \<and> MutexOwner st = Some OfCollector \<and> s \<in> set (DeletedServers st) \<inter> Freed st)"
| "collector_ok st GCDone = False"

definition servers_ok :: "ServerSet \<Rightarrow> bool" where
  "servers_ok st = (\<not> Broken st \<and> collector_ok st (Collector st) \<and> (\<forall>s. server_ok st s))"

lemmas step_defs = at_place_def synchronized_as_def unsynchronized_by_def touch_def

lemma collector_alone:
  assumes "servers_ok st" "MutexOwner st = Some OfCollector" "s \<in> set (DeletedServers st)"
  shows "over (Place st s)"
  using assms by (fastforce simp: servers_ok_def server_ok_def critical_def handed_over_def)

text \<open>The step of a server changes its own place; the others see at most the mutex.\<close>

lemma collector_sees:
  assumes "collector_ok st g" "Freed st' = Freed st" "\<And>s. Place st s = Ended \<Longrightarrow> Place st' s = Ended" "set (DeletedServers st) \<subseteq> set (DeletedServers st')"
    "MutexOwner st' = MutexOwner st \<or> {MutexOwner st, MutexOwner st'} \<subseteq> insert None (range (Some \<circ> OfServer))"
  shows "collector_ok st' g"
  using assms by (cases g) auto

lemma servers_okI:
  assumes "servers_ok st" "\<not> Broken st'" "Collector st' = Collector st" "Freed st' = Freed st"
    "\<And>s. Place st s = Ended \<Longrightarrow> Place st' s = Ended" "set (DeletedServers st) \<subseteq> set (DeletedServers st')"
    "MutexOwner st' = MutexOwner st \<or> {MutexOwner st, MutexOwner st'} \<subseteq> insert None (range (Some \<circ> OfServer))"
    "\<And>t. server_ok st t \<Longrightarrow> server_ok st s \<Longrightarrow> server_ok st' t"
  shows "servers_ok st'"
  using assms collector_sees [of st "Collector st" st'] by (simp add: servers_ok_def)

lemma not_freed: "servers_ok st \<Longrightarrow> Place st s \<noteq> Ended \<Longrightarrow> s \<notin> Freed st"
  by (auto simp: servers_ok_def server_ok_def)

lemma constructor_cases:
  assumes "constructor_step s st = Some st'"
  obtains (1) "Place st s = Absent" "st' = at_place s CreatorWaits st"
  | (2) "Place st s = CreatorWaits" "MutexOwner st = None" "st' = at_place s CreatorInserts (st\<lparr>MutexOwner := Some (OfServer s)\<rparr>)"
  | (3) "Place st s = CreatorInserts" "st' = at_place s CreatorUnlocks (st\<lparr>Servers := set_insert s (Servers st)\<rparr>)"
  | (4) "Place st s = CreatorUnlocks" "st' = at_place s CreatorStarts (st\<lparr>MutexOwner := None\<rparr>)"
  | (5) "Place st s = CreatorStarts" "st' = at_place s Serving (touch s st)"
  using assms by (cases "Place st s") (auto simp: constructor_step_def synchronized_as_def unsynchronized_by_def split: if_splits)

lemma constructor_keeps:
  assumes "servers_ok st" "constructor_step s st = Some st'"
  shows "servers_ok st'"
proof -
  have ok: "server_ok st s" "\<not> Broken st" using assms(1) by (auto simp: servers_ok_def)
  have fresh: "s \<notin> Freed st" if "Place st s \<noteq> Ended" using ok(1) that by (auto simp: server_ok_def)
  note keeps = servers_okI [OF assms(1), where s = s]
  note simps = at_place_def touch_def server_ok_def critical_def registered_def over_def handed_over_def
  from assms(2) show ?thesis
  proof (cases rule: constructor_cases)
    case 1 then show ?thesis using ok by (intro keeps) (auto simp: simps)
  next
    case 2 then show ?thesis using ok by (intro keeps) (auto simp: simps)
  next
    case 3 then show ?thesis using ok by (intro keeps) (auto simp: simps)
  next
    case 4 then show ?thesis using ok by (intro keeps) (auto simp: simps)
  next
    case 5 then show ?thesis using ok fresh by (intro keeps) (auto simp: simps)
  qed
qed

lemma start_fails_keeps:
  assumes "servers_ok st" "start_fails_step s left st = Some st'"
  shows "servers_ok st'"
proof -
  have ok: "server_ok st s" "\<not> Broken st" using assms(1) by (auto simp: servers_ok_def)
  have s: "Place st s = CreatorStarts" "st' = at_place s (NeverRuns left) st"
    using assms(2) not_freed [OF assms(1), of s] by (auto simp: start_fails_step_def touch_def split: if_splits)
  then show ?thesis
    using ok by (cases left; intro servers_okI [OF assms(1), where s = s]) (auto simp: at_place_def server_ok_def critical_def registered_def over_def handed_over_def)
qed

lemma killMe_cases:
  assumes "killMe_step s st = Some st'"
  obtains (1) "Place st s = Serving" "st' = at_place s KillDelays (touch s st)"
  | (2) "Place st s = KillDelays" "st' = at_place s KillCloses st"
  | (3) "Place st s = KillCloses" "st' = at_place s KillWaits (touch s st)"
  | (4) "Place st s = KillWaits" "MutexOwner st = None" "st' = at_place s KillErases (st\<lparr>MutexOwner := Some (OfServer s)\<rparr>)"
  | (5) "Place st s = KillErases" "st' = at_place s KillInserts (st\<lparr>Servers := set_erase s (Servers st)\<rparr>)"
  | (6) "Place st s = KillInserts" "st' = at_place s KillUnlocks (st\<lparr>DeletedServers := set_insert s (DeletedServers st)\<rparr>)"
  | (7) "Place st s = KillUnlocks" "st' = at_place s KillReturns (st\<lparr>MutexOwner := None\<rparr>)"
  | (8) "Place st s = KillReturns" "st' = at_place s Ended st"
  using assms by (cases "Place st s") (auto simp: killMe_step_def synchronized_as_def unsynchronized_by_def split: if_splits)

lemma killMe_keeps:
  assumes "servers_ok st" "killMe_step s st = Some st'"
  shows "servers_ok st'"
proof -
  have ok: "server_ok st s" "\<not> Broken st" using assms(1) by (auto simp: servers_ok_def)
  have fresh: "s \<notin> Freed st" if "Place st s \<noteq> Ended" using ok(1) that by (auto simp: server_ok_def)
  note keeps = servers_okI [OF assms(1), where s = s]
  note simps = at_place_def touch_def server_ok_def critical_def registered_def over_def handed_over_def
  from assms(2) show ?thesis
  proof (cases rule: killMe_cases)
    case 1 then show ?thesis using ok fresh by (intro keeps) (auto simp: simps)
  next
    case 2 then show ?thesis using ok by (intro keeps) (auto simp: simps)
  next
    case 3 then show ?thesis using ok fresh by (intro keeps) (auto simp: simps)
  next
    case 4 then show ?thesis using ok by (intro keeps) (auto simp: simps)
  next
    case 5 then show ?thesis using ok by (intro keeps) (auto simp: simps)
  next
    case 6 then show ?thesis using ok fresh by (intro keeps) (auto simp: simps)
  next
    case 7 then show ?thesis using ok fresh by (intro keeps) (auto simp: simps)
  next
    case 8 then show ?thesis using ok fresh by (intro keeps) (auto simp: simps)
  qed
qed

lemma freed_ok:
  assumes "server_ok st t" "Place st s = Ended" "s \<in> set (DeletedServers st)" "t \<in> set (DeletedServers st) \<longrightarrow> t \<notin> Freed st"
  shows "server_ok (st\<lparr>Freed := insert s (Freed st), Collector := GCErases Periodic s\<rparr>) t"
  using assms unfolding server_ok_def by (cases "t = s") (simp_all, blast)

lemma erased_ok:
  assumes "server_ok st t" "Place st s = Ended" "s \<in> Freed st" "t \<noteq> s \<longrightarrow> t \<in> set (DeletedServers st) \<longrightarrow> t \<notin> Freed st"
  shows "server_ok (st\<lparr>DeletedServers := set_erase s (DeletedServers st), Collector := GCLoop Periodic\<rparr>) t"
  using assms unfolding server_ok_def by (cases "t = s") (simp_all, blast)

text \<open>The collector holds the mutex: the servers in the set have ended, or are returning.\<close>

lemma collector_keeps:
  assumes "servers_ok st" "collector_step st = Some st'"
  shows "servers_ok st'"
proof -
  have ok: "\<not> Broken st" "collector_ok st (Collector st)" "\<And>s. server_ok st s" using assms(1) by (auto simp: servers_ok_def)
  note simps = servers_ok_def collector_step_def synchronized_as_def unsynchronized_by_def touch_def
  have unfreed: "s \<notin> Freed st" if "s \<in> set (DeletedServers st)" "Collector st \<noteq> GCErases Periodic s" for s
    using ok(3) [of s] that by (auto simp: server_ok_def)
  have ended: "over (Place st s)" if "s \<in> set (DeletedServers st)" "MutexOwner st = Some OfCollector" for s
    using collector_alone [OF assms(1)] that by blast
  have others: "server_ok u s" if "MutexOwner u = MutexOwner st \<or> {MutexOwner st, MutexOwner u} \<subseteq> {None, Some OfCollector}"
    "Servers u = Servers st" "Place u = Place st" "DeletedServers u = DeletedServers st" "Freed u = Freed st"
    "\<forall>t. Collector st \<noteq> GCErases Periodic t" "\<forall>s \<in> CancelRequests u. over (Place st s)" for s u
    using ok(3) [of s] that by (auto simp: server_ok_def)
  have still: "\<forall>s \<in> CancelRequests st. over (Place st s)" using ok(3) by (auto simp: server_ok_def)
  show ?thesis
  proof (cases "Collector st")
    case (GCWaits g)
    then show ?thesis using assms(2) ok still by (auto simp: simps split: if_splits intro!: others)
  next
    case (GCLoop g)
    then show ?thesis using assms(2) ok still unfreed by (auto simp: simps gcSet_def split: list.splits intro!: others)
  next
    case (GCStops g s)
    then have "over (Place st s)" using ok(2) ended by auto
    then show ?thesis using GCStops assms(2) ok still by (auto simp: simps started_def over_def Let_def intro!: others)
  next
    case (GCJoins g s)
    then show ?thesis using assms(2) ok still by (auto simp: simps split: if_splits intro!: others)
  next
    case (GCFrees g s)
    then have s: "g = Periodic" "MutexOwner st = Some OfCollector" "s \<in> set (DeletedServers st)" "s \<notin> Freed st"
      and "Place st s = Ended" using ok(2) by auto
    then have st': "st' = st\<lparr>Freed := insert s (Freed st), Collector := GCErases g s\<rparr>"
      using GCFrees assms(2) by (simp add: collector_step_def touch_def Let_def)
    have "server_ok st' t" for t
      unfolding st' s(1) by (rule freed_ok [OF ok(3) \<open>Place st s = Ended\<close> s(3)]) (use unfreed [of t] GCFrees in auto)
    then show ?thesis using s ok(1) by (simp add: servers_ok_def st')
  next
    case (GCErases g s)
    then have s: "g = Periodic" "MutexOwner st = Some OfCollector" "s \<in> set (DeletedServers st)" "s \<in> Freed st" using ok(2) by auto
    then have st': "st' = st\<lparr>DeletedServers := set_erase s (DeletedServers st), Collector := GCLoop g\<rparr>"
      using GCErases assms(2) by (simp add: collector_step_def)
    have "Place st s = Ended" using ok(3) [of s] s(4) by (simp add: server_ok_def)
    then have "server_ok st' t" for t
      unfolding st' s(1) by (rule erased_ok [OF ok(3) _ s(4)]) (use unfreed [of t] GCErases in auto)
    then show ?thesis using s ok(1) by (simp add: servers_ok_def st')
  next
    case (GCUnlocks g)
    then show ?thesis using assms(2) ok still by (auto simp: simps split: gc_goal.splits intro!: others)
  qed (use assms(2) in \<open>simp_all add: collector_step_def\<close>)
qed

lemma call_keeps: "servers_ok st \<Longrightarrow> main_step Periodic st = Some st' \<Longrightarrow> servers_ok st'"
  by (auto simp: servers_ok_def main_step_def server_ok_def split: if_splits)

lemma cancel_keeps: "servers_ok st \<Longrightarrow> cancel_step s st = Some st' \<Longrightarrow> servers_ok st'"
  by (auto simp: servers_ok_def cancel_step_def server_ok_def over_def split: if_splits)

definition running_program :: "action list \<Rightarrow> bool" where
  "running_program as = (Calls ShutdownDeleted \<notin> set as \<and> Calls ShutdownServers \<notin> set as)"

lemma performs_keep:
  "servers_ok st \<Longrightarrow> running_program as \<Longrightarrow> performs as st = Some st' \<Longrightarrow> servers_ok st'"
proof (induction as arbitrary: st)
  case (Cons a as)
  then obtain u where u: "perform a st = Some u" "performs as u = Some st'" by (auto simp: bind_eq_Some_conv)
  have "servers_ok u"
  proof (cases a)
    case (Calls g)
    then have "g = Periodic" using Cons.prems(2) by (cases g) (auto simp: running_program_def)
    then show ?thesis using Calls u(1) call_keeps [OF Cons.prems(1)] by simp
  qed (use u(1) constructor_keeps [OF Cons.prems(1)] start_fails_keeps [OF Cons.prems(1)] killMe_keeps [OF Cons.prems(1)] cancel_keeps [OF Cons.prems(1)]
      collector_keeps [OF Cons.prems(1)] in simp_all)
  then show ?case using Cons.IH u(2) Cons.prems(2) by (simp add: running_program_def)
qed simp

lemma start_ok: "servers_ok no_servers"
  by (simp add: servers_ok_def no_servers_def server_ok_def critical_def registered_def)

lemma performs_append: "performs (as @ bs) st = Option.bind (performs as st) (performs bs)"
  by (induction as arbitrary: st) (auto split: Option.bind_splits)

text \<open>Five steps of the collector delete the first server of the set, whose thread may have to return first.\<close>

definition join_run :: "nat \<Rightarrow> ServerSet \<Rightarrow> action list" where
  "join_run s st = [Collects, Collects] @ (if Place st s = KillReturns then [Runs s] else []) @ [Collects, Collects, Collects]"

lemma collector_round:
  assumes "servers_ok st" "Collector st = GCLoop Periodic" "DeletedServers st = s # rest"
  shows "performs (join_run s st) st =
    Some (st\<lparr>Place := (Place st)(s := Ended), CancelRequests := insert s (CancelRequests st), Freed := insert s (Freed st),
      DeletedServers := set_erase s (DeletedServers st), Collector := GCLoop Periodic\<rparr>)"
proof -
  have "MutexOwner st = Some OfCollector" using assms(1,2) by (auto simp: servers_ok_def)
  then have "over (Place st s)" by (rule collector_alone [OF assms(1)]) (simp add: assms(3))
  moreover have "s \<notin> Freed st" using assms by (auto simp: servers_ok_def server_ok_def)
  ultimately show ?thesis
    using assms(2,3)
    by (auto simp: over_def join_run_def collector_step_def killMe_step_def at_place_def gcSet_def touch_def started_def Let_def fun_upd_idem)
qed

lemma collection_ends:
  assumes "servers_ok st" "Collector st = GCLoop Periodic"
  shows "\<exists>as u. length as \<le> 6 * length (DeletedServers st) + 2 \<and> set as \<subseteq> insert Collects (Runs ` set (DeletedServers st)) \<and>
    performs as st = Some u \<and> Collector u = GCIdle \<and> MutexOwner u = None \<and> DeletedServers u = [] \<and>
    Freed u = Freed st \<union> set (DeletedServers st)"
  using assms
proof (induction "length (DeletedServers st)" arbitrary: st rule: less_induct)
  case less
  show ?case
  proof (cases "DeletedServers st")
    case Nil
    then show ?thesis using less.prems(2)
      by (intro exI [of _ "[Collects, Collects]"]) (simp add: collector_step_def gcSet_def unsynchronized_by_def)
  next
    case (Cons s rest)
    let ?v = "st\<lparr>Place := (Place st)(s := Ended), CancelRequests := insert s (CancelRequests st), Freed := insert s (Freed st),
      DeletedServers := set_erase s (DeletedServers st), Collector := GCLoop Periodic\<rparr>"
    have round: "performs (join_run s st) st = Some ?v" by (rule collector_round [OF less.prems Cons])
    have "servers_ok ?v" by (rule performs_keep [OF less.prems(1) _ round]) (auto simp: running_program_def join_run_def)
    moreover have shorter: "length (DeletedServers ?v) < length (DeletedServers st)"
      using Cons by (simp add: set_erase_def less_Suc_eq_le length_removeAll_less_eq)
    ultimately obtain as u where as: "length as \<le> 6 * length (DeletedServers ?v) + 2"
      "set as \<subseteq> insert Collects (Runs ` set (DeletedServers ?v))" "performs as ?v = Some u"
      "Collector u = GCIdle" "MutexOwner u = None" "DeletedServers u = []" "Freed u = Freed ?v \<union> set (DeletedServers ?v)"
      using less.hyps [of ?v] by auto
    have "performs (join_run s st @ as) st = Some u"
      using round as(3) by (simp only: performs_append bind.bind_lunit)
    moreover have "length (join_run s st @ as) \<le> 6 * length (DeletedServers st) + 2"
      using as(1) shorter by (simp add: join_run_def)
    moreover have "set (join_run s st @ as) \<subseteq> insert Collects (Runs ` set (DeletedServers st))"
      using as(2) Cons by (auto simp: join_run_def)
    moreover have "Freed u = Freed st \<union> set (DeletedServers st)" using as(7) Cons by auto
    ultimately show ?thesis using as(4-6) by blast
  qed
qed


text \<open>
  One server is accepted and has given the mutex back, another one could not be started, and the collector has taken the mutex.
\<close>

definition one_ended :: "action list" where
  "one_ended = (replicate 5 (Constructs 1) @ replicate 7 (Runs 1)) @
     (replicate 4 (Constructs 0) @ [StartFails 0 True, Calls Periodic, Collects])"


text \<open>
  The collection of the servers that still run, at the shutdown, is not safe. A server that waits for the mutex in
  \<^verbatim>\<open>killMe\<close> is joined by the collector, which holds it: neither goes on, whatever the other threads do.
\<close>

definition stuck :: "nat \<Rightarrow> ServerSet \<Rightarrow> bool" where
  "stuck s st = (Collector st = GCJoins ShutdownServers s \<and> Place st s = KillWaits \<and> MutexOwner st = Some OfCollector \<and>
     (\<forall>t. \<not> critical (Place st t)))"

lemma stuck_step: "stuck s st \<Longrightarrow> perform a st = Some st' \<Longrightarrow> stuck s st'"
  by (cases a) (auto simp: stuck_def constructor_step_def start_fails_step_def killMe_step_def cancel_step_def collector_step_def main_step_def
      step_defs critical_def split: server_place.splits if_splits)

lemma stuck_forever: "stuck s st \<Longrightarrow> performs as st = Some st' \<Longrightarrow> stuck s st'"
  by (induction as arbitrary: st) (auto simp: bind_eq_Some_conv dest: stuck_step)

definition late_shutdown :: "action list" where
  "late_shutdown = replicate 5 (Constructs 1) @ replicate 3 (Runs 1) @ [Calls ShutdownDeleted] @ replicate 6 Collects"

theorem shutdown_deadlocks:
  "\<exists>st. performs late_shutdown no_servers = Some st \<and>
     (\<forall>as u. performs as st = Some u \<longrightarrow> Collector u = GCJoins ShutdownServers 1 \<and> Place u 1 = KillWaits)"
proof -
  obtain st where st: "performs late_shutdown no_servers = Some st" "stuck 1 st"
    by (simp add: late_shutdown_def numeral_eq_Suc no_servers_def constructor_step_def killMe_step_def main_step_def
        collector_step_def step_defs set_insert_def set_erase_def gcSet_def started_def stuck_def critical_def)
  then show ?thesis using stuck_forever [OF st(2)] by (auto simp: stuck_def)
qed

text \<open>
  The accepting threads still run at the shutdown: a server that is registered but not yet started is deleted, and
  its thread started afterwards.
\<close>

theorem shutdown_deletes_new_server:
  "\<exists>as st. performs as no_servers = Some st \<and> Broken st"
  by (rule exI [of _ "replicate 4 (Constructs 1) @ [Calls ShutdownDeleted] @ replicate 7 Collects @ [Constructs 1]"])
    (simp add: numeral_eq_Suc no_servers_def constructor_step_def main_step_def collector_step_def step_defs set_insert_def
      set_erase_def gcSet_def started_def)

end
