(* ===== verification/EchoServers.thy ===== *)
theory EchoServers
  imports Flows ExtData
begin

text \<open>
  The servers of \<^verbatim>\<open>sctpmultiserver.cc\<close> for echo, discard, characters and the time of day. As for the file transfer, a
  connection is the list of what arrives on the socket and the list of what was sent. All of them end by \<^verbatim>\<open>killMe\<close>.
\<close>

section \<open>Connections\<close>

text \<open>The stream and the payload protocol identifier, as they are in the control header.\<close>

datatype echo_arrival =
    EchoData "byte list" "(card16 \<times> card32) option"
  | AssocChange card16
  | ShutdownArrives
  | OtherNotification
  | EchoError nat

record echo_reply =
  ReplyBytes :: "byte list"
  ReplyStream :: card16
  ReplyPPID :: card32
  ReplyFlags :: card32

record echo_conn =
  EchoArriving :: "echo_arrival list"
  EchoSent :: "echo_reply list"
  EchoSendable :: nat

definition EchoBufferSize :: nat where "EchoBufferSize = 16384 + 1"

text \<open>Of a message longer than the buffer the rest comes with the next call. \<open>None\<close>: the connection has ended.\<close>

definition echo_receive :: "echo_conn \<Rightarrow> echo_arrival option \<times> echo_conn" where
  "echo_receive c =
     (case EchoArriving c of
        [] \<Rightarrow> (None, c)
      | EchoData b i # as \<Rightarrow>
          if b = [] then (None, c\<lparr>EchoArriving := as\<rparr>)
          else (Some (EchoData (take EchoBufferSize b) i),
                c\<lparr>EchoArriving := (if drop EchoBufferSize b = [] then as else EchoData (drop EchoBufferSize b) i # as)\<rparr>)
      | a # as \<Rightarrow> (Some a, c\<lparr>EchoArriving := as\<rparr>))"

definition echo_send :: "echo_reply \<Rightarrow> echo_conn \<Rightarrow> bool \<times> echo_conn" where
  "echo_send r c =
     (if 0 < EchoSendable c then (True, c\<lparr>EchoSent := EchoSent c @ [r], EchoSendable := EchoSendable c - 1\<rparr>) else (False, c))"

fun arrival_weight :: "echo_arrival \<Rightarrow> nat" where
  "arrival_weight (EchoData b i) = length b + 1"
| "arrival_weight _ = 1"

definition echo_weight :: "echo_conn \<Rightarrow> nat" where
  "echo_weight c = sum_list (map arrival_weight (EchoArriving c))"

lemma echo_receive_weight: "echo_receive c = (Some a, c') \<Longrightarrow> echo_weight c' < echo_weight c"
  by (auto simp: echo_receive_def echo_weight_def EchoBufferSize_def split: list.splits echo_arrival.splits if_splits)

lemma echo_send_weight: "echo_send r c = (ok, c') \<Longrightarrow> echo_weight c' = echo_weight c"
  by (auto simp: echo_send_def echo_weight_def split: if_splits)

section \<open>The echo server\<close>

text \<open>The text printed for a block: \<^verbatim>\<open>char\<close> is signed. The last byte of the block is overwritten.\<close>

definition shown :: "byte \<Rightarrow> byte" where
  "shown b = (if sint b \<ge> 32 then b else 46)"

fun clear_tail :: "byte list \<Rightarrow> nat \<Rightarrow> byte list \<Rightarrow> byte list" where
  "clear_tail buf 0 out = out"
| "clear_tail buf (Suc i) out = (if sint (buf ! i) < 32 then clear_tail buf i (out[i := 0]) else out)"

definition output_buffer :: "byte list \<Rightarrow> byte \<Rightarrow> byte list" where
  "output_buffer dataBuffer raw =
     (let n = length dataBuffer;
          dataBuffer = dataBuffer[n - 1 := 0];
          outputDataBuffer = map (\<lambda>i. if i < n - 1 then shown (dataBuffer ! i) else raw) [0..<n]
      in clear_tail dataBuffer n outputDataBuffer)"

definition printed :: "byte list \<Rightarrow> byte list" where
  "printed out = takeWhile (\<lambda>b. b \<noteq> 0) out"

text \<open>The reply, if the number of outgoing streams is not zero.\<close>

definition echo_answer :: "card32 \<Rightarrow> card32 \<Rightarrow> byte list \<Rightarrow> (card16 \<times> card32) option \<Rightarrow> echo_reply option" where
  "echo_answer unreliable outs dataBuffer info =
     (let (streamID, protoID) = (case info of Some (s, p) \<Rightarrow> (s, ntohl p) | None \<Rightarrow> (0, 0))
      in if outs = 0 then None
         else let stream = ucast (ucast streamID mod outs)
              in Some \<lparr>ReplyBytes = dataBuffer, ReplyStream = stream, ReplyPPID = htonl protoID,
                       ReplyFlags = (if unreliable > 0 \<and> ucast stream \<le> unreliable - 1 then MSG_PR_SCTP_TTL else 0)\<rparr>)"

datatype echo_end = PeerClosed | ReceiveFailed nat | SendError | PeerShutdown | DividedByZero

text \<open>The main loop: why it ends, what was printed, and the connection.\<close>

function Echo_run ::
  "bool \<Rightarrow> card32 \<Rightarrow> byte \<Rightarrow> card32 \<Rightarrow> echo_conn \<Rightarrow> byte list list \<Rightarrow> echo_end \<times> byte list list \<times> echo_conn" where
  "Echo_run discardMode unreliable raw outs c out =
     (case echo_receive c of
        (None, c) \<Rightarrow> (PeerClosed, out, c)
      | (Some (EchoError e), c) \<Rightarrow> (ReceiveFailed e, out, c)
      | (Some (EchoData dataBuffer info), c) \<Rightarrow>
          let out' = out @ [printed (output_buffer dataBuffer raw)] in
          if discardMode then Echo_run discardMode unreliable raw outs c out'
          else (case echo_answer unreliable outs dataBuffer info of
                  None \<Rightarrow> (DividedByZero, out, c)
                | Some reply \<Rightarrow>
                    (case echo_send reply c of
                       (False, c) \<Rightarrow> (SendError, out, c)
                     | (True, c) \<Rightarrow> Echo_run discardMode unreliable raw outs c out'))
      | (Some (AssocChange n), c) \<Rightarrow> Echo_run discardMode unreliable raw (ucast n) c out
      | (Some ShutdownArrives, c) \<Rightarrow> (PeerShutdown, out, c)
      | (Some OtherNotification, c) \<Rightarrow> Echo_run discardMode unreliable raw outs c out)"
  by pat_completeness auto

termination
  by (relation "measure (\<lambda>(_, _, _, _, c, _). echo_weight c)")
    (auto dest!: echo_receive_weight [OF sym] echo_send_weight [OF sym])

declare Echo_run.simps [simp del]

section \<open>Characters and the time of day\<close>

definition bytes_of :: "string \<Rightarrow> byte list" where
  "bytes_of = map (\<lambda>c. of_nat (of_char c))"

definition dec_padded :: "nat \<Rightarrow> nat \<Rightarrow> string" where
  "dec_padded width n = (let s = dec_string n in replicate (width - length s) CHR ''0'' @ s)"

text \<open>One line: its number, the characters from 30 to 127 and a line feed, in a buffer of 512 bytes.\<close>

definition chargen_line :: "64 word \<Rightarrow> byte list" where
  "chargen_line line = bytes_of (''#'' @ dec_padded 8 (unat line) @ '': '') @ map of_nat [30..<128] @ [10]"

definition chargen_reply :: "card32 \<Rightarrow> 64 word \<Rightarrow> echo_reply" where
  "chargen_reply unreliable line =
     \<lparr>ReplyBytes = chargen_line line, ReplyStream = 0, ReplyPPID = 0,
      ReplyFlags = (if unreliable > 0 \<and> 0 \<le> unreliable - 1 then MSG_PR_SCTP_TTL else 0)\<rparr>"

text \<open>The loop ends when a line cannot be sent.\<close>

function CharGen_run :: "card32 \<Rightarrow> 64 word \<Rightarrow> echo_conn \<Rightarrow> echo_end \<times> echo_conn" where
  "CharGen_run unreliable line c =
     (case echo_send (chargen_reply unreliable line) c of
        (False, c) \<Rightarrow> (SendError, c)
      | (True, c) \<Rightarrow> CharGen_run unreliable (line + 1) c)"
  by pat_completeness auto
termination
  by (relation "measure (\<lambda>(_, _, c). EchoSendable c)") (auto simp: echo_send_def split: if_splits)

declare CharGen_run.simps [simp del]

text \<open>
  The date and the zone are what \<^verbatim>\<open>strftime\<close> writes into its buffers; the array for the text has 256 bytes, with the NUL.
\<close>

definition daytime_text :: "string \<Rightarrow> string \<Rightarrow> 64 word \<Rightarrow> byte list result" where
  "daytime_text date zone microTime =
     (let str1 = date @ ''.'' @ dec_padded 6 (unat (microTime mod 1000000)) @ '' '' @ zone
      in if length str1 < 256 then Inr (bytes_of str1) else Inl BadPointer)"

definition Daytime_run :: "string \<Rightarrow> string \<Rightarrow> 64 word \<Rightarrow> echo_conn \<Rightarrow> (bool \<times> echo_conn) result" where
  "Daytime_run date zone microTime c =
     andThen (daytime_text date zone microTime) (\<lambda>str1.
     Inr (echo_send \<lparr>ReplyBytes = str1, ReplyStream = 0, ReplyPPID = 0, ReplyFlags = 0\<rparr> c))"

section \<open>The printed text\<close>

lemma length_clear_tail [simp]: "length (clear_tail buf n out) = length out"
  by (induction n arbitrary: out) auto

text \<open>The loop clears the bytes behind the last one that is not a control character.\<close>

lemma clear_tail_eq:
  assumes "n \<le> length buf" "length out = length buf"
  shows "clear_tail buf n out =
    (let k = length (dropWhile (\<lambda>b. sint b < 32) (rev (take n buf))) in take k out @ replicate (n - k) 0 @ drop n out)"
  using assms
proof (induction n arbitrary: out)
  case (Suc i)
  have t: "rev (take (Suc i) buf) = buf ! i # rev (take i buf)" using Suc.prems(1) by (simp add: take_Suc_conv_app_nth)
  show ?case
  proof (cases "sint (buf ! i) < 32")
    case True
    let ?k = "length (dropWhile (\<lambda>b. sint b < 32) (rev (take i buf)))"
    have k: "?k \<le> i" using length_dropWhile_le [of "\<lambda>b. sint b < 32" "rev (take i buf)"] by simp
    have "clear_tail buf (Suc i) out = take ?k (out[i := 0]) @ replicate (i - ?k) 0 @ drop i (out[i := 0])"
      using True Suc.IH [of "out[i := 0]"] Suc.prems by (simp add: Let_def)
    also have "drop i (out[i := 0]) = 0 # drop (Suc i) out"
      using Suc.prems by (simp add: Cons_nth_drop_Suc [symmetric] drop_update_swap)
    also have "replicate (i - ?k) 0 @ 0 # drop (Suc i) out = replicate (Suc i - ?k) 0 @ drop (Suc i) out"
      using k by (simp add: Suc_diff_le replicate_app_Cons_same [symmetric])
    finally show ?thesis using True t k by (simp add: Let_def)
  next
    case False
    then show ?thesis using t Suc.prems by (simp add: Let_def)
  qed
qed simp

lemma shown_not_0 [simp]: "shown b \<noteq> 0"
  by (auto simp: shown_def)

lemma rev_dropWhile_take: "rev (dropWhile P (rev xs)) = take (length (dropWhile P (rev xs))) xs"
  by (subst (1 2) dropWhile_eq_drop) (simp add: rev_drop)

text \<open>
  The text printed for a block is the block without its last byte and the control characters at its end,
  with the others shown as dots; it ends inside the array, whatever bytes arrive.
\<close>

theorem printed_text:
  assumes "data \<noteq> []"
  shows "printed (output_buffer data raw) = map shown (rev (dropWhile (\<lambda>b. sint b < 32) (rev (butlast data)))) \<and>
         length (output_buffer data raw) = length data \<and> 0 \<in> set (output_buffer data raw)"
proof -
  obtain ys y where ys: "data = ys @ [y]" using assms by (cases data rule: rev_cases) auto
  let ?n = "Suc (length ys)" and ?c = "\<lambda>b :: byte. sint b < 32"
  let ?k = "length (dropWhile ?c (rev ys))"
  have o: "map (\<lambda>i. if i < length ys then shown ((ys @ [0]) ! i) else raw) [0..<?n] = map shown ys @ [raw]"
    by (intro nth_equalityI) (auto simp: nth_append)
  have k: "?k \<le> length ys" using length_dropWhile_le [of ?c "rev ys"] by simp
  have "output_buffer data raw = clear_tail (ys @ [0]) ?n (map shown ys @ [raw])"
    using o by (simp add: output_buffer_def ys)
  also have "\<dots> = take ?k (map shown ys @ [raw]) @ replicate (?n - ?k) 0 @ drop ?n (map shown ys @ [raw])"
    by (subst clear_tail_eq) (simp_all add: Let_def)
  also have "\<dots> = map shown (rev (dropWhile ?c (rev ys))) @ replicate (?n - ?k) 0"
    using k by (simp add: rev_dropWhile_take take_map)
  finally have e: "output_buffer data raw = map shown (rev (dropWhile ?c (rev ys))) @ replicate (?n - ?k) 0" .
  obtain m where m: "?n - ?k = Suc m" using k by (metis Suc_diff_le)
  have "printed (output_buffer data raw) = map shown (rev (dropWhile ?c (rev ys)))"
    unfolding e printed_def m by (subst takeWhile_append2) auto
  moreover have "length (output_buffer data raw) = ?n" using k unfolding e by simp
  moreover have "0 \<in> set (output_buffer data raw)" unfolding e m by simp
  ultimately show ?thesis by (simp add: ys)
qed

theorem printed_text_witness: "printed (output_buffer [72, 105, 7, 33, 10, 0] 0) = [72, 105, 46, 33]"
  using printed_text [of "[72, 105, 7, 33, 10, 0]" 0] by (simp add: shown_def)

section \<open>Echoes\<close>

text \<open>A message as the blocks the buffer holds, and the replies to a list of arrivals.\<close>

function blocks :: "byte list \<Rightarrow> byte list list" where
  "blocks b = (if b = [] then [] else take EchoBufferSize b # blocks (drop EchoBufferSize b))"
  by pat_completeness auto
termination by (relation "measure length") (auto simp: EchoBufferSize_def)

declare blocks.simps [simp del]

fun echoes :: "card32 \<Rightarrow> card32 \<Rightarrow> echo_arrival list \<Rightarrow> echo_reply list" where
  "echoes unreliable outs [] = []"
| "echoes unreliable outs (EchoData b i # as) = map (\<lambda>x. the (echo_answer unreliable outs x i)) (blocks b) @ echoes unreliable outs as"
| "echoes unreliable outs (AssocChange n # as) = echoes unreliable (ucast n) as"
| "echoes unreliable outs (OtherNotification # as) = echoes unreliable outs as"
| "echoes unreliable outs (ShutdownArrives # as) = []"
| "echoes unreliable outs (EchoError e # as) = []"

fun proper :: "echo_arrival \<Rightarrow> bool" where
  "proper (EchoData b i) = (b \<noteq> [])"
| "proper (AssocChange n) = (n \<noteq> 0)"
| "proper _ = True"

lemma concat_blocks: "concat (blocks b) = b"
proof (induction b rule: blocks.induct)
  case (1 b)
  then show ?case by (subst blocks.simps) (simp add: append_take_drop_id)
qed

lemma echo_answer_Some:
  assumes "outs \<noteq> 0"
  shows "echo_answer unreliable outs b i = Some (the (echo_answer unreliable outs b i))"
  using assms by (simp add: echo_answer_def Let_def split: prod.split)

text \<open>One round of the loop, for each kind of arrival.\<close>

lemma echo_rounds:
  "EchoArriving c = EchoError e # as \<Longrightarrow> Echo_run d u raw outs c out = (ReceiveFailed e, out, c\<lparr>EchoArriving := as\<rparr>)"
  "EchoArriving c = ShutdownArrives # as \<Longrightarrow> Echo_run d u raw outs c out = (PeerShutdown, out, c\<lparr>EchoArriving := as\<rparr>)"
  "EchoArriving c = OtherNotification # as \<Longrightarrow> Echo_run d u raw outs c out = Echo_run d u raw outs (c\<lparr>EchoArriving := as\<rparr>) out"
  "EchoArriving c = AssocChange n # as \<Longrightarrow> Echo_run d u raw outs c out = Echo_run d u raw (ucast n) (c\<lparr>EchoArriving := as\<rparr>) out"
  "EchoArriving c = [] \<Longrightarrow> Echo_run d u raw outs c out = (PeerClosed, out, c)"
  by (simp_all add: Echo_run.simps [of _ _ _ _ c] echo_receive_def)

definition rest_of :: "byte list \<Rightarrow> (card16 \<times> card32) option \<Rightarrow> echo_arrival list \<Rightarrow> echo_arrival list" where
  "rest_of b i as = (if drop EchoBufferSize b = [] then as else EchoData (drop EchoBufferSize b) i # as)"

lemma echo_round_data:
  assumes "EchoArriving c = EchoData b i # as" "b \<noteq> []" "outs \<noteq> 0" "0 < EchoSendable c"
  shows "Echo_run False u raw outs c out =
    Echo_run False u raw outs (c\<lparr>EchoArriving := rest_of b i as, EchoSent := EchoSent c @ [the (echo_answer u outs (take EchoBufferSize b) i)],
      EchoSendable := EchoSendable c - 1\<rparr>)
     (out @ [printed (output_buffer (take EchoBufferSize b) raw)])"
proof -
  obtain r where "echo_answer u outs (take EchoBufferSize b) i = Some r" using echo_answer_Some [OF assms(3)] by blast
  then show ?thesis
    using assms by (subst Echo_run.simps) (simp add: echo_receive_def echo_send_def rest_of_def Let_def)
qed

lemma echoes_rest:
  "b \<noteq> [] \<Longrightarrow> echoes u outs (EchoData b i # as) = the (echo_answer u outs (take EchoBufferSize b) i) # echoes u outs (rest_of b i as)"
  by (subst echoes.simps, subst blocks.simps) (auto simp: rest_of_def blocks.simps [of "[]"])

lemma ucast_nonzero:
  assumes "(n :: card16) \<noteq> 0"
  shows "(ucast n :: card32) \<noteq> 0"
proof
  assume z: "(ucast n :: card32) = 0"
  have "unat n < 2 ^ LENGTH(16)" by (rule unsigned_less)
  then have "unat (ucast n :: card32) = unat n" by (simp add: unsigned_ucast_eq take_bit_nat_eq_self)
  then show False using z assms by (simp add: unat_eq_0)
qed

lemma echo_run_sends:
  assumes "outs \<noteq> 0" "\<forall>a \<in> set (EchoArriving c). proper a" "echo_weight c \<le> EchoSendable c"
    "Echo_run False u raw outs c out = (why, out', c')"
  shows "EchoSent c' = EchoSent c @ echoes u outs (EchoArriving c) \<and> why \<notin> {SendError, DividedByZero}"
  using assms
proof (induction "echo_weight c" arbitrary: c outs out rule: less_induct)
  case less
  show ?case
  proof (cases "EchoArriving c")
    case Nil
    then show ?thesis using less.prems(4) by (simp add: echo_rounds)
  next
    case (Cons a as)
    let ?c = "c\<lparr>EchoArriving := as\<rparr>"
    have w: "echo_weight ?c < echo_weight c" using Cons by (cases a) (simp_all add: echo_weight_def)
    have p: "\<forall>a \<in> set (EchoArriving ?c). proper a" "echo_weight ?c \<le> EchoSendable ?c" "proper a"
      using less.prems(2,3) w Cons by auto
    show ?thesis
    proof (cases a)
      case (EchoData b i)
      let ?d = "c\<lparr>EchoArriving := rest_of b i as, EchoSent := EchoSent c @ [the (echo_answer u outs (take EchoBufferSize b) i)],
          EchoSendable := EchoSendable c - 1\<rparr>"
      have b: "b \<noteq> []" using p(3) EchoData by simp
      have e: "EchoArriving c = EchoData b i # as" using Cons EchoData by simp
      have v: "echo_weight ?d < echo_weight c" using e b by (auto simp: echo_weight_def rest_of_def EchoBufferSize_def)
      have s: "0 < EchoSendable c" using e less.prems(3) by (simp add: echo_weight_def)
      have "Echo_run False u raw outs ?d (out @ [printed (output_buffer (take EchoBufferSize b) raw)]) = (why, out', c')"
        using echo_round_data [OF e b less.prems(1) s] less.prems(4) by simp
      moreover have "\<forall>a \<in> set (EchoArriving ?d). proper a" using p(1) by (simp add: rest_of_def)
      ultimately have "EchoSent c' = EchoSent ?d @ echoes u outs (EchoArriving ?d) \<and> why \<notin> {SendError, DividedByZero}"
        using less.hyps [OF v less.prems(1)] v less.prems(3) by auto
      then show ?thesis using e echoes_rest [OF b] by simp
    next
      case (AssocChange n)
      then have n: "EchoArriving c = AssocChange n # as" "(ucast n :: card32) \<noteq> 0" using p(3) Cons ucast_nonzero by auto
      show ?thesis
        using less.hyps [OF w n(2) p(1,2)] less.prems(4) n(1) by (simp add: echo_rounds(4) [OF n(1)])
    next
      case OtherNotification
      then have n: "EchoArriving c = OtherNotification # as" using Cons by simp
      show ?thesis
        using less.hyps [OF w less.prems(1) p(1,2)] less.prems(4) n by (simp add: echo_rounds(3) [OF n])
    qed (use less.prems(4) Cons in \<open>auto simp: echo_rounds\<close>)
  qed
qed

lemma discard_sends_nothing: "EchoSent (snd (snd (Echo_run True u raw outs c out))) = EchoSent c"
proof (induction "echo_weight c" arbitrary: c outs out rule: less_induct)
  case less
  show ?case
  proof (cases "EchoArriving c")
    case Nil
    then show ?thesis by (simp add: echo_rounds)
  next
    case (Cons a as)
    have "echo_weight (c\<lparr>EchoArriving := as\<rparr>) < echo_weight c" using Cons by (cases a) (simp_all add: echo_weight_def)
    note IH = less.hyps [OF this, simplified]
    show ?thesis
    proof (cases a)
      case (EchoData b i)
      show ?thesis
      proof (cases "b = []")
        case True
        then show ?thesis using Cons EchoData by (subst Echo_run.simps) (simp add: echo_receive_def)
      next
        case False
        have "echo_weight (c\<lparr>EchoArriving := rest_of b i as\<rparr>) < echo_weight c"
          using Cons EchoData False by (auto simp: echo_weight_def rest_of_def EchoBufferSize_def)
        note less.hyps [OF this, simplified]
        moreover have "Echo_run True u raw outs c out = Echo_run True u raw outs (c\<lparr>EchoArriving := rest_of b i as\<rparr>)
            (out @ [printed (output_buffer (take EchoBufferSize b) raw)])"
          using Cons EchoData False by (subst Echo_run.simps) (simp add: echo_receive_def rest_of_def Let_def)
        ultimately show ?thesis by simp
      qed
    qed (use Cons IH in \<open>simp_all add: echo_rounds\<close>)
  qed
qed

text \<open>What the peer sent before the connection came to its end.\<close>

fun goes_on :: "echo_arrival \<Rightarrow> bool" where
  "goes_on ShutdownArrives = False" | "goes_on (EchoError e) = False" | "goes_on _ = True"

fun arrival_bytes :: "echo_arrival \<Rightarrow> byte list" where
  "arrival_bytes (EchoData b i) = b" | "arrival_bytes _ = []"

lemma stream_modulo: "unat (ucast (ucast (st :: card16) mod (outs :: card32)) :: card16) = unat st mod unat outs"
proof -
  have "unat st < 2 ^ LENGTH(16)" by (rule unsigned_less)
  moreover have "unat st mod unat outs \<le> unat st" by (rule mod_less_eq_dividend)
  ultimately have "unat st mod unat outs < 2 ^ 16" by (simp del: mod_less_eq_dividend)
  then have "take_bit 16 (unat st mod unat outs) = unat st mod unat outs" by (rule take_bit_nat_eq_self)
  then show ?thesis using \<open>unat st < 2 ^ LENGTH(16)\<close> by (simp add: unsigned_ucast_eq unat_mod_distrib take_bit_nat_eq_self)
qed

lemma echo_answer_fields:
  assumes "outs \<noteq> 0"
  shows "ReplyBytes (the (echo_answer u outs b i)) = b"
    "unat (ReplyStream (the (echo_answer u outs b (Some (st, pp))))) = unat st mod unat outs"
    "ReplyPPID (the (echo_answer u outs b (Some (st, pp)))) = pp"
  using assms by (simp_all add: echo_answer_def Let_def translate32_involution stream_modulo split: prod.split)

lemma echoes_bytes:
  "outs \<noteq> 0 \<Longrightarrow> \<forall>a \<in> set as. proper a \<Longrightarrow>
   concat (map ReplyBytes (echoes u outs as)) = concat (map arrival_bytes (takeWhile goes_on as))"
proof (induction u outs as rule: echoes.induct)
  case (2 u outs b i as)
  then show ?case by (simp add: echo_answer_fields concat_blocks comp_def)
next
  case (3 u outs n as)
  then show ?case using ucast_nonzero by simp
qed simp_all

text \<open>
  C21. The echo server returns what it gets: as long as it can send, the replies are those of the reference, in their
  order, and together the bytes that arrive before the connection fails or the peer shuts down. A reply has the protocol
  identifier of the message and its stream modulo the number of outgoing streams. The discard server sends nothing.
\<close>

theorem echo_server_echoes:
  assumes "\<forall>a \<in> set (EchoArriving c). proper a" "echo_weight c \<le> EchoSendable c" "outs \<noteq> 0"
  shows "(\<exists>why texts c'. Echo_run False u raw 1 c [] = (why, texts, c') \<and> why \<notin> {SendError, DividedByZero} \<and>
            EchoSent c' = EchoSent c @ echoes u 1 (EchoArriving c)) \<and>
         concat (map ReplyBytes (echoes u 1 (EchoArriving c))) = concat (map arrival_bytes (takeWhile goes_on (EchoArriving c))) \<and>
         unat (ReplyStream (the (echo_answer u outs b (Some (st, pp))))) = unat st mod unat outs \<and>
         ReplyPPID (the (echo_answer u outs b (Some (st, pp)))) = pp \<and>
         EchoSent (snd (snd (Echo_run True u raw 1 c []))) = EchoSent c"
proof -
  obtain why texts c' where r: "Echo_run False u raw 1 c [] = (why, texts, c')" by (metis surj_pair)
  then show ?thesis
    using echo_run_sends [OF _ assms(1,2) r] echoes_bytes [OF _ assms(1)] echo_answer_fields [OF assms(3)] discard_sends_nothing
    by auto
qed

definition sample_echo :: echo_conn where
  "sample_echo = \<lparr>EchoArriving = [AssocChange 2, EchoData [72, 105] (Some (5, 7)), ShutdownArrives, EchoData [1] None],
     EchoSent = [], EchoSendable = 9\<rparr>"

theorem echo_server_echoes_witness:
  "\<exists>why texts c'. Echo_run False 0 0 1 sample_echo [] = (why, texts, c') \<and> concat (map ReplyBytes (EchoSent c')) = [72, 105]"
  using echo_server_echoes [of sample_echo 2 0 0 "[]" 5 7] by (auto simp: sample_echo_def echo_weight_def)

text \<open>A notification with no outgoing streams, as for a lost association, makes the next block of data a division by zero.\<close>

theorem no_streams_divide_by_zero:
  "Echo_run False u raw 1 \<lparr>EchoArriving = [AssocChange 0, EchoData [b] i], EchoSent = [], EchoSendable = n\<rparr> [] =
   (DividedByZero, [], \<lparr>EchoArriving = [], EchoSent = [], EchoSendable = n\<rparr>)"
  by (simp add: Echo_run.simps echo_receive_def EchoBufferSize_def echo_answer_def Let_def split: option.split prod.split)

section \<open>Lines of characters\<close>

lemma length_dec_padded: "n < 10 ^ k \<Longrightarrow> 0 < k \<Longrightarrow> w \<le> k \<Longrightarrow> length (dec_padded w n) \<le> k"
  using length_radix_string [of 10 n k] by (simp add: dec_padded_def dec_string_def Let_def)

text \<open>
  The server for characters fills its buffer of 512 bytes to at most 122, whatever the number of the line, sends lines with
  consecutive numbers, and ends when one cannot be sent.
\<close>

theorem chargen_lines:
  "length (chargen_line line) \<le> 122 \<and>
   (\<exists>c'. CharGen_run u line c = (SendError, c') \<and>
      EchoSent c' = EchoSent c @ map (\<lambda>k. chargen_reply u (line + of_nat k)) [0..<EchoSendable c])"
proof
  have "unat line < 2 ^ LENGTH(64)" by (rule unsigned_less)
  then have "length (dec_padded 8 (unat line)) \<le> 20" by (intro length_dec_padded) simp_all
  then show "length (chargen_line line) \<le> 122" by (simp add: chargen_line_def bytes_of_def)
  show "\<exists>c'. CharGen_run u line c = (SendError, c') \<and>
      EchoSent c' = EchoSent c @ map (\<lambda>k. chargen_reply u (line + of_nat k)) [0..<EchoSendable c]"
  proof (induction "EchoSendable c" arbitrary: line c)
    case 0
    then show ?case by (subst CharGen_run.simps) (simp add: echo_send_def)
  next
    case (Suc n)
    let ?c = "c\<lparr>EchoSent := EchoSent c @ [chargen_reply u line], EchoSendable := n\<rparr>"
    obtain c' where c': "CharGen_run u (line + 1) ?c = (SendError, c')"
      "EchoSent c' = EchoSent ?c @ map (\<lambda>k. chargen_reply u (line + 1 + of_nat k)) [0..<n]"
      using Suc.hyps(1) [of ?c "line + 1"] by auto
    have "CharGen_run u line c = CharGen_run u (line + 1) ?c"
      using Suc.hyps(2) [symmetric] by (subst CharGen_run.simps) (simp add: echo_send_def)
    moreover have "[0..<EchoSendable c] = 0 # map Suc [0..<n]" using Suc.hyps(2) [symmetric] by (simp add: upt_conv_Cons map_Suc_upt del: upt_Suc)
    ultimately show ?case using c' by (simp add: comp_def add_ac)
  qed
qed

end
