(* ===== verification/MultiServers.thy ===== *)
theory MultiServers
  imports CppLaws
begin

text \<open>
  The class \<^verbatim>\<open>MultiServer\<close> of \<^verbatim>\<open>sctpmultiserver.cc\<close> on the class \<^verbatim>\<open>Socket\<close>: making the socket of a service, accepting
  associations and starting a server for each.
\<close>

section \<open>The object\<close>

text \<open>A pointer to a socket object: null, to an object, or to one that was deleted.\<close>

datatype socket_pointer = NullSocket | SocketAt CppSocket | DeletedSocket

record MultiServer =
  MaxIncoming :: card32
  MaxOutgoing :: card32
  Unreliable :: card32
  ServiceType :: card32
  ServerSocket :: socket_pointer
  Started :: bool

definition MST_Echo :: card32 where "MST_Echo = 0"
definition MST_Discard :: card32 where "MST_Discard = 1"
definition MST_Daytime :: card32 where "MST_Daytime = 2"
definition MST_CharGen :: card32 where "MST_CharGen = 3"
definition MST_TFTP :: card32 where "MST_TFTP = 4"
definition MST_Test :: card32 where "MST_Test = 999"

definition MultiServer_new :: "MultiServer \<Rightarrow> MultiServer" where
  "MultiServer_new raw = raw\<lparr>ServerSocket := NullSocket, Started := False\<rparr>"

definition initMessage :: "card32 \<Rightarrow> card32 \<Rightarrow> sctp_initmsg" where
  "initMessage outgoing incoming =
     \<lparr>sinit_num_ostreams = ucast outgoing, sinit_max_instreams = ucast incoming, sinit_max_attempts = 0,
      sinit_max_init_timeo = 60\<rparr>"

text \<open>\<^verbatim>\<open>memset\<close> sets all fields to 1.\<close>

definition allEvents :: sctp_event_subscribe where
  "allEvents = \<lparr>sctp_data_io_event = 1, sctp_association_event = 1, sctp_address_event = 1, sctp_send_failure_event = 1,
     sctp_peer_error_event = 1, sctp_shutdown_event = 1, sctp_partial_delivery_event = 1, sctp_adaptation_layer_event = 1\<rparr>"

definition MultiServer_init ::
  "('l, 'o) xenv \<Rightarrow> 'l callback \<Rightarrow> AnyAddress list \<Rightarrow> card32 \<Rightarrow> card32 \<Rightarrow> card32 \<Rightarrow> card32 \<Rightarrow> card32 \<Rightarrow> MultiServer
   \<Rightarrow> ('l, 'o) ext \<Rightarrow> (bool \<times> MultiServer \<times> AnyAddress list \<times> ('l, 'o) ext) result" where
  "MultiServer_init xe cb addressArray port type maxIncoming maxOutgoing unreliable m x =
     (let m = m\<lparr>MaxIncoming := maxIncoming, MaxOutgoing := maxOutgoing, Unreliable := unreliable, ServiceType := type\<rparr>;
          addressArray = map (\<lambda>a. Any_setPort a (ucast port)) addressArray;
          failed = (\<lambda>s x. andThen (Socket_delete xe cb s x) (\<lambda>x. Inr (False, m\<lparr>ServerSocket := DeletedSocket\<rparr>, addressArray, x)))
      in andThen (Socket_new xe cb FamilyIP SOCK_STREAM IPPROTO_SCTP x) (\<lambda>(s, x).
         andThen (setSocketOption xe IPPROTO_SCTP SCTP_INITMSG (OptInitMsg (initMessage maxOutgoing maxIncoming)) s x)
           (\<lambda>((result, _), s, x).
         if result < 0 then failed s x
         else andThen (Cpp_bindx xe cb addressArray SCTP_BINDX_ADD_ADDR s x) (\<lambda>(bound, s, x).
         if \<not> bound then failed s x
         else andThen (setSocketOption xe IPPROTO_SCTP SCTP_EVENTS (OptEvents allEvents) s x) (\<lambda>((result, _), s, x).
         if result < 0 then failed s x
         else Inr (True, m\<lparr>ServerSocket := SocketAt s, Started := True\<rparr>, addressArray, x))))))"

definition MultiServer_delete ::
  "('l, 'o) xenv \<Rightarrow> 'l callback \<Rightarrow> MultiServer \<Rightarrow> ('l, 'o) ext \<Rightarrow> (MultiServer \<times> ('l, 'o) ext) result" where
  "MultiServer_delete xe cb m x =
     (let m = m\<lparr>Started := False\<rparr>
      in case ServerSocket m of
           NullSocket \<Rightarrow> Inr (m, x)
         | SocketAt s \<Rightarrow> andThen (Socket_delete xe cb s x) (\<lambda>x. Inr (m\<lparr>ServerSocket := NullSocket\<rparr>, x))
         | DeletedSocket \<Rightarrow> Inl BadPointer)"

section \<open>Accepting\<close>

text \<open>The server made for an association.\<close>

datatype service = EchoService card32 bool | CharGenService card32 | TFTPService | DaytimeService

definition dispatch :: "MultiServer \<Rightarrow> service option" where
  "dispatch m =
     (if ServiceType m = MST_Echo then Some (EchoService (Unreliable m) False)
      else if ServiceType m = MST_Discard then Some (EchoService 0 True)
      else if ServiceType m = MST_CharGen then Some (CharGenService (Unreliable m))
      else if ServiceType m = MST_TFTP then Some TFTPService
      else if ServiceType m = MST_Test then None
      else Some DaytimeService)"

text \<open>One round of the main loop: the new server with its socket, or none.\<close>

definition MultiServer_round ::
  "('l, 'o) xenv \<Rightarrow> 'l callback \<Rightarrow> MultiServer \<Rightarrow> CppSocket \<Rightarrow> ('l, 'o) ext \<Rightarrow> ((service \<times> CppSocket) option \<times> ('l, 'o) ext) result" where
  "MultiServer_round xe cb m s x =
     andThen (Cpp_accept xe cb True s x) (\<lambda>(accepted, x).
     case accepted of
       None \<Rightarrow> Inr (None, x)
     | Some (accepted_socket, peer) \<Rightarrow>
         andThen (setSocketOption xe IPPROTO_SCTP SCTP_EVENTS (OptEvents allEvents) accepted_socket x) (\<lambda>(_, accepted_socket, x).
         case dispatch m of
           Some service \<Rightarrow> Inr (Some (service, accepted_socket), x)
         | None \<Rightarrow> andThen (Socket_delete xe cb accepted_socket x) (\<lambda>x. Inr (None, x))))"

section \<open>Descriptors of a service\<close>

lemma new_owns:
  assumes "xgood x"
  shows "holds (\<lambda>(s, x'). owns x s x') (Socket_new xe (deliver e n) cd ty pr x)"
proof -
  have "owns x Socket_init x" using assms by (simp add: owns_def opened_def Socket_init_def)
  from owns_create [OF this, of xe e n cd ty pr] show ?thesis
    unfolding Socket_new_def by (intro holds_andThen) (erule holds_mono, auto)
qed

lemma option_owns:
  assumes "owns x0 s x" "opt \<notin> leakingOptions"
  shows "holds (\<lambda>(r, s', x'). owns x0 s' x') (setSocketOption xe level opt v s x)"
  by (rule holds_mono [OF setSocketOption_contract [OF owns_xgood [OF assms(1)] assms(2)]]) (auto intro: owns_same [OF assms(1)])

lemma bindx_owns:
  assumes "owns x0 s x"
  shows "holds (\<lambda>(r, s', x'). owns x0 s' x') (Cpp_bindx xe (deliver e n) as fl s x)"
  by (rule holds_mono [OF Cpp_bindx_contract [OF owns_xgood [OF assms]]]) (auto intro: owns_same [OF assms])

lemma delete_owns:
  assumes "owns x0 s x"
  shows "holds (\<lambda>x'. xgood x' \<and> (\<forall>j. isInvalid (Table x' j) = isInvalid (Table x0 j))) (Socket_delete xe (deliver e n) s x)"
proof (cases "Cpp_close xe (deliver e n) s x")
  case (Inr p)
  obtain s' x' where p: "p = (s', x')" by (rule prod.exhaust)
  then have o: "owns x0 s' x'" "SocketDescriptor s' = - 1" using Inr owns_close [OF assms, of xe e n] by auto
  show ?thesis using Inr p owns_none [OF o] owns_xgood [OF o(1)] by (simp add: Socket_delete_def)
qed (simp add: Socket_delete_def)

lemma not_leaking: "SCTP_INITMSG \<notin> leakingOptions" "SCTP_EVENTS \<notin> leakingOptions"
  by (simp_all add: leakingOptions_def option_defs)

text \<open>The steps of the initialisation, as rules.\<close>

lemma new_step:
  assumes "xgood x" "\<And>s z. owns x s z \<Longrightarrow> holds Q (g (s, z))"
  shows "holds Q (andThen (Socket_new xe (deliver e n) cd ty pr x) g)"
  using new_owns [OF assms(1), of xe e n cd ty pr] assms(2) by (cases "Socket_new xe (deliver e n) cd ty pr x") auto

lemma option_step:
  assumes "owns x0 s x" "opt \<notin> leakingOptions" "\<And>r v s z. owns x0 s z \<Longrightarrow> holds Q (g ((r, v), s, z))"
  shows "holds Q (andThen (setSocketOption xe level opt v s x) g)"
  using option_owns [OF assms(1,2), of xe level v] assms(3) by (cases "setSocketOption xe level opt v s x") auto

lemma bindx_step:
  assumes "owns x0 s x" "\<And>ok s z. owns x0 s z \<Longrightarrow> holds Q (g (ok, s, z))"
  shows "holds Q (andThen (Cpp_bindx xe (deliver e n) as fl s x) g)"
  using bindx_owns [OF assms(1), of xe e n as fl] assms(2) by (cases "Cpp_bindx xe (deliver e n) as fl s x") auto

lemma failure_released:
  assumes "owns x0 s x" "\<And>x'. xgood x' \<Longrightarrow> \<forall>j. isInvalid (Table x' j) = isInvalid (Table x0 j) \<Longrightarrow> Q (False, m, as, x')"
  shows "holds Q (andThen (Socket_delete xe (deliver e n) s x) (\<lambda>x. Inr (False, m, as, x)))"
  using delete_owns [OF assms(1), of xe e n] assms(2) by (cases "Socket_delete xe (deliver e n) s x") auto

text \<open>
  C23. Whichever step of the initialisation fails, the descriptor of the new socket is closed and no other one touched;
  but the pointer to the deleted socket stays, and the destructor deletes it again. After success the
  object owns exactly one new descriptor, which the destructor closes.
\<close>

theorem multiserver_init_releases:
  assumes "good (Core x)"
    "MultiServer_init xe (deliver e n) addressArray port type maxIncoming maxOutgoing unreliable (MultiServer_new raw) x = Inr (ok, m, addresses, y)"
  shows "good (Core y) \<and>
    (if ok then (\<exists>s. ServerSocket m = SocketAt s \<and> Started m \<and> owns x s y) \<and>
        holds (\<lambda>(m', z). ServerSocket m' = NullSocket \<and> (\<forall>j. isInvalid (Table z j) = isInvalid (Table x j)))
          (MultiServer_delete xe (deliver e k) m y)
     else \<not> Started m \<and> (\<forall>j. isInvalid (Table y j) = isInvalid (Table x j)) \<and> MultiServer_delete xe (deliver e k) m y = Inl BadPointer)"
proof -
  let ?P = "\<lambda>(ok, m, _, y). xgood y \<and> (if ok then \<exists>s. ServerSocket m = SocketAt s \<and> Started m \<and> owns x s y
      else ServerSocket m = DeletedSocket \<and> \<not> Started m \<and> (\<forall>j. isInvalid (Table y j) = isInvalid (Table x j)))"
  have good: "xgood x" using assms(1) by (simp add: xgood_def)
  have fails: "holds ?P (andThen (Socket_delete xe (deliver e n) s z) (\<lambda>x. Inr (False, m\<lparr>ServerSocket := DeletedSocket\<rparr>, as, x)))"
    if "owns x s z" "\<not> Started m" for s z m as
    by (rule failure_released [OF that(1)]) (use that(2) in simp)
  have "holds ?P (MultiServer_init xe (deliver e n) addressArray port type maxIncoming maxOutgoing unreliable (MultiServer_new raw) x)"
    unfolding MultiServer_init_def Let_def
    apply (rule new_step [OF good])
    apply (simp only: prod.case)
    apply (erule option_step, rule not_leaking, simp only: prod.case)
    apply (rule holds_if, erule fails, simp add: MultiServer_new_def)
    apply (erule bindx_step, simp only: prod.case)
    apply (rule holds_if, erule fails, simp add: MultiServer_new_def)
    apply (erule option_step, rule not_leaking, simp only: prod.case)
    apply (rule holds_if, erule fails, simp add: MultiServer_new_def)
    apply (simp add: owns_xgood)
    done
  then have P: "?P (ok, m, addresses, y)" using assms(2) by simp
  show ?thesis
  proof (cases ok)
    case True
    then obtain s where s: "ServerSocket m = SocketAt s" "Started m" "owns x s y" "xgood y" using P by auto
    then show ?thesis using True delete_owns [OF s(3), of xe e k]
      by (cases "Socket_delete xe (deliver e k) s y") (auto simp: MultiServer_delete_def xgood_def Let_def)
  next
    case False
    then show ?thesis using P by (auto simp: MultiServer_delete_def xgood_def Let_def)
  qed
qed

text \<open>SCTP is not available: there is no socket to set the options of.\<close>

definition unavailable_ext :: "(nat, nat) ext" where
  "unavailable_ext = start_ext\<lparr>Core := empty_world\<lparr>InitializationResult := - 1\<rparr>\<rparr>"

definition raw_server :: MultiServer where
  "raw_server = \<lparr>MaxIncoming = 0, MaxOutgoing = 0, Unreliable = 0, ServiceType = 0, ServerSocket = DeletedSocket, Started = True\<rparr>"

theorem multiserver_init_releases_witness:
  "\<exists>m as y. MultiServer_init sample_xenv (deliver sample 0) [] 7 MST_Echo 128 128 0 (MultiServer_new raw_server) unavailable_ext = Inr (False, m, as, y) \<and>
     MultiServer_delete sample_xenv (deliver sample 0) m y = Inl BadPointer"
proof -
  have good: "good (Core unavailable_ext)" using start_good by (simp add: unavailable_ext_def good_def wf_def lock_inv_def)
  have "getSocket (- 1) = None" by (simp add: getSocket_def)
  then obtain m as y where i: "MultiServer_init sample_xenv (deliver sample 0) [] 7 MST_Echo 128 128 0 (MultiServer_new raw_server) unavailable_ext =
      Inr (False, m, as, y)"
    by (simp add: MultiServer_init_def Socket_new_def Cpp_create_def Cpp_close_def Socket_init_def Socket_delete_def ext_socket_def
        ext_socket_sctp_def sctp_isavailable_def unavailable_ext_def setSocketOption_def ext_setsockopt_def errno_return_def
        ENOPROTOOPT_def EBADF_def IPPROTO_SCTP_def Let_def)
  then show ?thesis using multiserver_init_releases [OF good i, of 0] by auto
qed

end
