(* ===== verification/PortScanner.thy ===== *)
theory PortScanner
  imports MultiServers
begin

text \<open>
  The scanner \<^verbatim>\<open>sctpportscanner.cc\<close> on the class \<^verbatim>\<open>Socket\<close>: several connections at a time, each in a slot, until all ports
  of the range have been tried.
\<close>

section \<open>Arguments and state\<close>

record scan_args =
  startPort :: card32
  endPort :: card32
  simultaneous :: card32
  connectTimeout :: card64
  instreams :: card32
  outstreams :: card32

definition clamp_args :: "scan_args \<Rightarrow> scan_args" where
  "clamp_args a =
     (let a = (if startPort a < 1 then a\<lparr>startPort := 1\<rparr> else a);
          a = (if startPort a > 65535 then a\<lparr>startPort := 65535\<rparr> else a);
          a = (if endPort a < 1 then a\<lparr>endPort := 1\<rparr> else a);
          a = (if endPort a > 65535 then a\<lparr>endPort := 65535\<rparr> else a);
          a = (if startPort a > endPort a then a\<lparr>startPort := endPort a\<rparr> else a);
          a = (if connectTimeout a > 300000000 then a\<lparr>connectTimeout := 300000000\<rparr> else a);
          a = (if simultaneous a < 1 then a\<lparr>simultaneous := 1\<rparr> else a)
      in if simultaneous a > 512 then a\<lparr>simultaneous := 512\<rparr> else a)"

record scanner =
  clientSocket :: "CppSocket option list"
  slotTimeout :: "card64 list"
  slotPort :: "card16 list"
  success :: "bool list"
  nextPort :: card32
  running :: card32

definition scanner_start :: "scan_args \<Rightarrow> scanner" where
  "scanner_start a =
     (let n = unat (simultaneous a)
      in \<lparr>clientSocket = replicate n None, slotTimeout = replicate n 0, slotPort = replicate n 0,
          success = replicate (unat (endPort a) + 1) False, nextPort = startPort a, running = 0\<rparr>)"

section \<open>A round of the loop\<close>

text \<open>Starting a connection in a free slot. \<open>None\<close>: the program exits with an error.\<close>

definition start_slot ::
  "('l, 'o) xenv \<Rightarrow> 'l callback \<Rightarrow> scan_args \<Rightarrow> AnyAddress list \<Rightarrow> AnyAddress \<Rightarrow> nat \<Rightarrow> scanner \<Rightarrow> ('l, 'o) ext
   \<Rightarrow> (scanner \<times> ('l, 'o) ext) option result" where
  "start_slot xe cb a locals remote i sc x =
     andThen (Socket_new xe cb FamilyIP SOCK_STREAM IPPROTO_SCTP x) (\<lambda>(s, x).
     andThen (setBlockingMode xe False s x) (\<lambda>(_, s, x).
     andThen (setSocketOption xe IPPROTO_SCTP SCTP_INITMSG (OptInitMsg (initMessage (outstreams a) (instreams a))) s x)
       (\<lambda>((result, _), s, x).
     if result < 0 then Inr None
     else andThen (Cpp_bindx xe cb locals SCTP_BINDX_ADD_ADDR s x) (\<lambda>(bound, s, x).
     if \<not> bound then Inr None
     else andThen (setSocketOption xe IPPROTO_SCTP SCTP_EVENTS (OptEvents allEvents) s x) (\<lambda>((result, _), s, x).
     if result < 0 then Inr None
     else
       let port = ucast (nextPort sc); timeout = connectTimeout a + Now (Core x) in
       andThen (Cpp_connect xe cb (Any_setPort remote port) 0 s x) (\<lambda>(connected, s, x).
       let (lastError, s) = (if connected then (0, s) else getLastError s)
       in if \<not> connected \<and> lastError \<noteq> EINPROGRESS then Inr None
          else Inr (Some (sc\<lparr>clientSocket := (clientSocket sc)[i := Some s], slotTimeout := (slotTimeout sc)[i := timeout],
                            slotPort := (slotPort sc)[i := port], nextPort := nextPort sc + 1, running := running sc + 1\<rparr>, x))))))))"

text \<open>The loop over the slots, as long as ports are left.\<close>

fun start_slots ::
  "('l, 'o) xenv \<Rightarrow> 'l callback \<Rightarrow> scan_args \<Rightarrow> AnyAddress list \<Rightarrow> AnyAddress \<Rightarrow> nat list \<Rightarrow> scanner \<Rightarrow> ('l, 'o) ext
   \<Rightarrow> (scanner \<times> ('l, 'o) ext) option result" where
  "start_slots xe cb a locals remote [] sc x = Inr (Some (sc, x))"
| "start_slots xe cb a locals remote (i # is) sc x =
     (if nextPort sc \<le> endPort a then
        if clientSocket sc ! i = None then
          andThen (start_slot xe cb a locals remote i sc x) (\<lambda>r.
          case r of None \<Rightarrow> Inr None | Some (sc, x) \<Rightarrow> start_slots xe cb a locals remote is sc x)
        else start_slots xe cb a locals remote is sc x
      else Inr (Some (sc, x)))"

text \<open>The slot is given up.\<close>

definition free_slot ::
  "('l, 'o) xenv \<Rightarrow> 'l callback \<Rightarrow> nat \<Rightarrow> CppSocket \<Rightarrow> scanner \<Rightarrow> ('l, 'o) ext \<Rightarrow> (scanner \<times> ('l, 'o) ext) result" where
  "free_slot xe cb i s sc x =
     andThen (Socket_delete xe cb s x) (\<lambda>x.
     Inr (sc\<lparr>clientSocket := (clientSocket sc)[i := None], running := running sc - 1\<rparr>, x))"

definition probe_text :: "byte list" where
  "probe_text = [84, 101, 115, 116, 10]"

definition ready_slot ::
  "('l, 'o) xenv \<Rightarrow> 'l callback \<Rightarrow> int set \<Rightarrow> nat \<Rightarrow> scanner \<Rightarrow> ('l, 'o) ext \<Rightarrow> (scanner \<times> ('l, 'o) ext) result" where
  "ready_slot xe cb fds i sc x =
     (case clientSocket sc ! i of
        None \<Rightarrow> Inr (sc, x)
      | Some s \<Rightarrow>
          if getSystemSocketDescriptor s \<in> fds then
            andThen (ext_write xe cb (getSystemSocketDescriptor s) probe_text x) (\<lambda>(result, x).
            free_slot xe cb i s
              (if result > 0 then sc\<lparr>success := (success sc)[unat (slotPort sc ! i) := True]\<rparr> else sc) x)
          else Inr (sc, x))"

definition late_slot :: "('l, 'o) xenv \<Rightarrow> 'l callback \<Rightarrow> nat \<Rightarrow> scanner \<Rightarrow> ('l, 'o) ext \<Rightarrow> (scanner \<times> ('l, 'o) ext) result" where
  "late_slot xe cb i sc x =
     (case clientSocket sc ! i of
        None \<Rightarrow> Inr (sc, x)
      | Some s \<Rightarrow> if slotTimeout sc ! i \<le> Now (Core x) then free_slot xe cb i s sc x else Inr (sc, x))"

fun each_slot ::
  "(nat \<Rightarrow> scanner \<Rightarrow> ('l, 'o) ext \<Rightarrow> (scanner \<times> ('l, 'o) ext) result) \<Rightarrow> nat list \<Rightarrow> scanner \<Rightarrow> ('l, 'o) ext
   \<Rightarrow> (scanner \<times> ('l, 'o) ext) result" where
  "each_slot f [] sc x = Inr (sc, x)"
| "each_slot f (i # is) sc x = andThen (f i sc x) (\<lambda>(sc, x). each_slot f is sc x)"

text \<open>
  The same set is passed for reading and for writing. \<^verbatim>\<open>ext_select\<close> removes all descriptors it watches from both
  and then adds the ready ones: the set is the union afterwards.
\<close>

definition selected :: "scanner \<Rightarrow> int set" where
  "selected sc = {getSystemSocketDescriptor s | s. Some s \<in> set (clientSocket sc)}"

definition highest :: "scanner \<Rightarrow> int" where
  "highest sc = fold (\<lambda>c n. case c of None \<Rightarrow> n | Some s \<Rightarrow> max n (getSystemSocketDescriptor s)) (clientSocket sc) 0"

definition in_set :: "fd_set \<Rightarrow> int set" where
  "in_set fds = (case fds of None \<Rightarrow> {} | Some s \<Rightarrow> s)"

definition scan_round ::
  "('l, 'o) xenv \<Rightarrow> 'l callback \<Rightarrow> scan_args \<Rightarrow> AnyAddress list \<Rightarrow> AnyAddress \<Rightarrow> scanner \<Rightarrow> ('l, 'o) ext
   \<Rightarrow> (scanner \<times> ('l, 'o) ext) option result" where
  "scan_round xe cb a locals remote sc x =
     (let slots = [0..<unat (simultaneous a)] in
      andThen (start_slots xe cb a locals remote slots sc x) (\<lambda>r.
      case r of
        None \<Rightarrow> Inr None
      | Some (sc, x) \<Rightarrow>
          andThen (ext_select xe cb (highest sc + 1)
                     \<lparr>readfds = Some (selected sc), writefds = Some (selected sc), exceptfds = None\<rparr> (Some (0, 250000)) x)
            (\<lambda>(result, fds, x).
          andThen (if result > 0 then each_slot (ready_slot xe cb (in_set (readfds fds) \<union> in_set (writefds fds))) slots sc x
                   else each_slot (late_slot xe cb) slots sc x) (\<lambda>(sc, x).
          Inr (Some (sc, x))))))"

definition scan_continues :: "scan_args \<Rightarrow> scanner \<Rightarrow> bool" where
  "scan_continues a sc = (nextPort sc \<le> endPort a \<or> running sc > 0)"

definition scan_cleanup :: "('l, 'o) xenv \<Rightarrow> 'l callback \<Rightarrow> CppSocket option list \<Rightarrow> ('l, 'o) ext \<Rightarrow> ('l, 'o) ext result" where
  "scan_cleanup xe cb slots x =
     forEach (\<lambda>c x. case c of None \<Rightarrow> Inr x | Some s \<Rightarrow> Socket_delete xe cb s x) slots x"

text \<open>The states at the end of the rounds. Between two, a break may have been detected, which ends the loop.\<close>

inductive scan_reaches ::
  "('l, 'o) xenv \<Rightarrow> 'l callback \<Rightarrow> scan_args \<Rightarrow> AnyAddress list \<Rightarrow> AnyAddress \<Rightarrow> scanner \<times> ('l, 'o) ext \<Rightarrow> scanner \<times> ('l, 'o) ext \<Rightarrow> bool"
  for xe cb a locals remote where
  first: "scan_round xe cb a locals remote sc x = Inr (Some (sc', x')) \<Longrightarrow> scan_reaches xe cb a locals remote (sc, x) (sc', x')"
| again: "scan_reaches xe cb a locals remote start (sc, x) \<Longrightarrow> scan_continues a sc \<Longrightarrow>
    scan_round xe cb a locals remote sc x = Inr (Some (sc', x')) \<Longrightarrow> scan_reaches xe cb a locals remote start (sc', x')"

section \<open>Accounts\<close>

definition args_ok :: "scan_args \<Rightarrow> bool" where
  "args_ok a = (1 \<le> unat (startPort a) \<and> unat (startPort a) \<le> unat (endPort a) \<and> unat (endPort a) \<le> 65535 \<and>
     1 \<le> unat (simultaneous a) \<and> unat (simultaneous a) \<le> 512 \<and> connectTimeout a \<le> 300000000)"

lemma clamp_ok: "args_ok (clamp_args a)"
  by (auto simp: args_ok_def clamp_args_def Let_def word_le_nat_alt word_less_nat_alt)

definition used_slots :: "scanner \<Rightarrow> nat set" where
  "used_slots sc = {i. i < length (clientSocket sc) \<and> clientSocket sc ! i \<noteq> None}"

definition scan_ok :: "scan_args \<Rightarrow> scanner \<Rightarrow> bool" where
  "scan_ok a sc =
     (length (clientSocket sc) = unat (simultaneous a) \<and> length (slotPort sc) = unat (simultaneous a) \<and>
      length (slotTimeout sc) = unat (simultaneous a) \<and>
      length (success sc) = unat (endPort a) + 1 \<and> unat (running sc) = card (used_slots sc) \<and>
      unat (startPort a) \<le> unat (nextPort sc) \<and> unat (nextPort sc) \<le> unat (endPort a) + 1 \<and>
      (\<forall>i \<in> used_slots sc. unat (startPort a) \<le> unat (slotPort sc ! i) \<and> unat (slotPort sc ! i) < unat (nextPort sc)) \<and>
      inj_on (\<lambda>i. slotPort sc ! i) (used_slots sc) \<and>
      (\<forall>p < length (success sc). success sc ! p \<longrightarrow> unat (startPort a) \<le> p \<and> p < unat (nextPort sc)))"

lemma finite_used [simp]: "finite (used_slots sc)"
  by (simp add: used_slots_def)

lemma card_used: "card (used_slots sc) \<le> length (clientSocket sc)"
  using card_mono [of "{..<length (clientSocket sc)}" "used_slots sc"] by (auto simp: used_slots_def)

lemma unat_step:
  fixes w :: card32
  shows "unat w < 100000 \<Longrightarrow> unat (w + 1) = unat w + 1" "0 < unat w \<Longrightarrow> unat (w - 1) = unat w - 1"
  by (simp_all add: unat_word_ariths unat_sub word_le_nat_alt)

lemma taken_ok:
  assumes "args_ok a" "scan_ok a sc" "i < unat (simultaneous a)" "clientSocket sc ! i = None" "nextPort sc \<le> endPort a"
  shows "scan_ok a (sc\<lparr>clientSocket := (clientSocket sc)[i := Some s], slotTimeout := (slotTimeout sc)[i := t],
    slotPort := (slotPort sc)[i := ucast (nextPort sc)], nextPort := nextPort sc + 1, running := running sc + 1\<rparr>)"
    (is "scan_ok a ?sc")
proof -
  have l: "length (clientSocket sc) = unat (simultaneous a)" "length (slotPort sc) = unat (simultaneous a)"
    and r: "unat (running sc) = card (used_slots sc)" using assms(2) by (simp_all add: scan_ok_def)
  have n: "unat (nextPort sc) \<le> unat (endPort a)" "unat (endPort a) \<le> 65535"
    using assms(1,5) by (simp_all add: args_ok_def word_le_nat_alt)
  have u: "used_slots ?sc = insert i (used_slots sc)" "i \<notin> used_slots sc"
    using assms(3,4) l by (auto simp: used_slots_def nth_list_update split: if_splits)
  have "card (used_slots sc) \<le> 512" using card_used [of sc] l assms(1) by (simp add: args_ok_def)
  then have "unat (running ?sc) = card (used_slots ?sc)" using u r unat_step(1) [of "running sc"] by simp
  moreover have next1: "unat (nextPort sc + 1) = unat (nextPort sc) + 1" using n unat_step(1) by simp
  have port: "unat (ucast (nextPort sc) :: card16) = unat (nextPort sc)"
    using n by (simp add: unsigned_ucast_eq take_bit_nat_eq_self)
  have old: "slotPort ?sc ! j = slotPort sc ! j" "unat (slotPort sc ! j) < unat (nextPort sc)" "unat (startPort a) \<le> unat (slotPort sc ! j)"
    if "j \<in> used_slots sc" for j
  proof -
    have "j \<noteq> i" using that u(2) by blast
    then show "slotPort ?sc ! j = slotPort sc ! j" "unat (slotPort sc ! j) < unat (nextPort sc)" "unat (startPort a) \<le> unat (slotPort sc ! j)"
      using that assms(2) by (simp_all add: scan_ok_def)
  qed
  have new: "slotPort ?sc ! i = ucast (nextPort sc)" using assms(3) l by simp
  moreover have "inj_on (\<lambda>i. slotPort ?sc ! i) (used_slots ?sc)"
  proof -
    have "inj_on (\<lambda>i. slotPort sc ! i) (used_slots sc)" using assms(2) by (simp add: scan_ok_def)
    then have "inj_on (\<lambda>i. slotPort ?sc ! i) (used_slots sc)" by (subst inj_on_cong [OF old(1)])
    moreover have "slotPort ?sc ! i \<notin> (\<lambda>i. slotPort ?sc ! i) ` used_slots sc"
    proof
      assume "slotPort ?sc ! i \<in> (\<lambda>i. slotPort ?sc ! i) ` used_slots sc"
      then obtain j where j: "j \<in> used_slots sc" "slotPort ?sc ! i = slotPort ?sc ! j" by (rule imageE)
      then have "slotPort sc ! j = ucast (nextPort sc)" using old(1) [OF j(1)] new by simp
      then show False using old(2) [OF j(1)] port by simp
    qed
    ultimately show ?thesis using u by simp
  qed
  moreover have "\<forall>j \<in> used_slots ?sc. unat (startPort a) \<le> unat (slotPort ?sc ! j) \<and> unat (slotPort ?sc ! j) < unat (nextPort ?sc)"
  proof
    fix j
    assume "j \<in> used_slots ?sc"
    then consider "j = i" | "j \<in> used_slots sc" using u(1) by blast
    then show "unat (startPort a) \<le> unat (slotPort ?sc ! j) \<and> unat (slotPort ?sc ! j) < unat (nextPort ?sc)"
    proof cases
      case 1
      then show ?thesis using new port next1 assms(2) by (simp add: scan_ok_def)
    next
      case 2
      then show ?thesis using old(2,3) [OF 2] next1 unfolding old(1) [OF 2] by simp
    qed
  qed
  ultimately show ?thesis using assms(2) n next1 by (auto simp: scan_ok_def)
qed

lemma freed_slot_ok:
  assumes "scan_ok a sc" "i \<in> used_slots sc"
  shows "scan_ok a (sc\<lparr>clientSocket := (clientSocket sc)[i := None], running := running sc - 1\<rparr>)" (is "scan_ok a ?sc")
proof -
  have u: "used_slots ?sc = used_slots sc - {i}" using assms(2) by (auto simp: used_slots_def nth_list_update split: if_splits)
  have "0 < card (used_slots sc)" using assms(2) by (auto simp: card_gt_0_iff)
  then have "unat (running sc - 1) = card (used_slots sc) - 1" using assms(1) unat_step(2) by (simp add: scan_ok_def)
  then have "unat (running ?sc) = card (used_slots ?sc)" using u assms(2) by simp
  then show ?thesis using assms(1) u by (auto simp: scan_ok_def intro: inj_on_diff)
qed

lemma marked_ok:
  assumes "scan_ok a sc" "i \<in> used_slots sc"
  shows "scan_ok a (sc\<lparr>success := (success sc)[unat (slotPort sc ! i) := True]\<rparr>)" "unat (slotPort sc ! i) < length (success sc)"
proof -
  let ?p = "unat (slotPort sc ! i)"
  have u: "used_slots (sc\<lparr>success := b\<rparr>) = used_slots sc" for b by (simp add: used_slots_def)
  have b: "unat (startPort a) \<le> ?p" "?p < unat (nextPort sc)" using assms by (auto simp: scan_ok_def)
  then show l: "?p < length (success sc)" using assms(1) by (simp add: scan_ok_def)
  have "unat (startPort a) \<le> p \<and> p < unat (nextPort sc)" if "p < length (success sc)" "(success sc)[?p := True] ! p" for p
    using b that assms(1) by (cases "p = ?p") (auto simp: scan_ok_def)
  then show "scan_ok a (sc\<lparr>success := (success sc)[?p := True]\<rparr>)" using assms(1) u by (simp add: scan_ok_def)
qed

text \<open>The steps.\<close>

lemma start_slot_ok:
  assumes "args_ok a" "scan_ok a sc" "i < unat (simultaneous a)" "clientSocket sc ! i = None" "nextPort sc \<le> endPort a"
    "start_slot xe cb a locals remote i sc x = Inr (Some (sc', x'))"
  shows "scan_ok a sc'"
proof -
  obtain s t where "sc' = sc\<lparr>clientSocket := (clientSocket sc)[i := Some s], slotTimeout := (slotTimeout sc)[i := t],
      slotPort := (slotPort sc)[i := ucast (nextPort sc)], nextPort := nextPort sc + 1, running := running sc + 1\<rparr>"
    using assms(6) by (auto simp: start_slot_def getLastError_def andThen_eq_Inr Let_def split: if_splits prod.splits)
  then show ?thesis using taken_ok [OF assms(1-5)] by simp
qed

lemma start_slots_ok:
  "args_ok a \<Longrightarrow> scan_ok a sc \<Longrightarrow> set is \<subseteq> {..<unat (simultaneous a)} \<Longrightarrow>
   start_slots xe cb a locals remote is sc x = Inr (Some (sc', x')) \<Longrightarrow> scan_ok a sc'"
proof (induction "is" arbitrary: sc x)
  case (Cons i "is")
  show ?case
  proof (cases "nextPort sc \<le> endPort a \<and> clientSocket sc ! i = None")
    case True
    then obtain sc1 x1 where 1: "start_slot xe cb a locals remote i sc x = Inr (Some (sc1, x1))"
      "start_slots xe cb a locals remote is sc1 x1 = Inr (Some (sc', x'))"
      using Cons.prems(4) by (auto simp: andThen_eq_Inr split: option.splits)
    have "scan_ok a sc1" using start_slot_ok [OF Cons.prems(1,2) _ _ _ 1(1)] True Cons.prems(3) by simp
    then show ?thesis using Cons.IH [OF Cons.prems(1) _ _ 1(2)] Cons.prems(3) by simp
  next
    case False
    then show ?thesis using Cons by (auto split: if_splits)
  qed
qed simp

lemma free_slot_ok:
  "scan_ok a sc \<Longrightarrow> i \<in> used_slots sc \<Longrightarrow> free_slot xe cb i s sc x = Inr (sc', x') \<Longrightarrow> scan_ok a sc'"
  using freed_slot_ok by (auto simp: free_slot_def andThen_eq_Inr)

lemma slot_used:
  "scan_ok a sc \<Longrightarrow> i < unat (simultaneous a) \<Longrightarrow> clientSocket sc ! i = Some s \<Longrightarrow> i \<in> used_slots sc"
  by (simp add: scan_ok_def used_slots_def)

lemma slots_ok:
  assumes "scan_ok a sc" "i < unat (simultaneous a)"
  shows "ready_slot xe cb fds i sc x = Inr (sc', x') \<Longrightarrow> scan_ok a sc'"
    "late_slot xe cb i sc x = Inr (sc', x') \<Longrightarrow> scan_ok a sc'"
proof -
  have u: "used_slots (sc\<lparr>success := b\<rparr>) = used_slots sc" for b by (simp add: used_slots_def)
  show "scan_ok a sc'" if run: "ready_slot xe cb fds i sc x = Inr (sc', x')"
  proof (cases "clientSocket sc ! i")
    case None
    then show ?thesis using that assms(1) by (simp add: ready_slot_def)
  next
    case (Some s)
    then have i: "i \<in> used_slots sc" by (rule slot_used [OF assms])
    let ?sc = "\<lambda>r :: int. if r > 0 then sc\<lparr>success := (success sc)[unat (slotPort sc ! i) := True]\<rparr> else sc"
    have ok: "scan_ok a (?sc r)" "i \<in> used_slots (?sc r)" for r using assms(1) marked_ok(1) [OF assms(1) i] i u by simp_all
    show ?thesis
    proof (cases "getSystemSocketDescriptor s \<in> fds")
      case True
      then obtain r y where "free_slot xe cb i s (?sc r) y = Inr (sc', x')"
        using run Some by (auto simp: ready_slot_def andThen_eq_Inr)
      then show ?thesis by (rule free_slot_ok [OF ok])
    qed (use run Some assms(1) in \<open>simp add: ready_slot_def\<close>)
  qed
  show "scan_ok a sc'" if "late_slot xe cb i sc x = Inr (sc', x')"
  proof (cases "clientSocket sc ! i")
    case None
    then show ?thesis using that assms(1) by (simp add: late_slot_def)
  next
    case (Some s)
    then have i: "i \<in> used_slots sc" by (rule slot_used [OF assms])
    show ?thesis using that Some assms(1) free_slot_ok [OF assms(1) i] by (auto simp: late_slot_def split: if_splits)
  qed
qed

lemma each_slot_ok:
  assumes "\<And>i sc x sc' x'. scan_ok a sc \<Longrightarrow> i < unat (simultaneous a) \<Longrightarrow> f i sc x = Inr (sc', x') \<Longrightarrow> scan_ok a sc'"
  shows "scan_ok a sc \<Longrightarrow> set is \<subseteq> {..<unat (simultaneous a)} \<Longrightarrow> each_slot f is sc x = Inr (sc', x') \<Longrightarrow> scan_ok a sc'"
proof (induction "is" arbitrary: sc x)
  case (Cons i "is")
  then obtain sc1 x1 where 1: "f i sc x = Inr (sc1, x1)" "each_slot f is sc1 x1 = Inr (sc', x')" by (auto simp: andThen_eq_Inr)
  have "scan_ok a sc1" by (rule assms [OF Cons.prems(1) _ 1(1)]) (use Cons.prems(2) in simp)
  then show ?case by (rule Cons.IH [OF _ _ 1(2)]) (use Cons.prems(2) in simp)
qed simp

lemma scan_round_ok:
  assumes "args_ok a" "scan_ok a sc" "scan_round xe cb a locals remote sc x = Inr (Some (sc', x'))"
  shows "scan_ok a sc'"
proof -
  let ?is = "[0..<unat (simultaneous a)]"
  have "is": "set ?is \<subseteq> {..<unat (simultaneous a)}" by auto
  obtain sc1 x1 where s: "start_slots xe cb a locals remote ?is sc x = Inr (Some (sc1, x1))"
    and e: "(\<exists>fds x2. each_slot (ready_slot xe cb fds) ?is sc1 x2 = Inr (sc', x')) \<or> (\<exists>x2. each_slot (late_slot xe cb) ?is sc1 x2 = Inr (sc', x'))"
    using assms(3) by (auto simp: scan_round_def Let_def andThen_eq_Inr split: option.splits if_splits)
  have ok: "scan_ok a sc1" by (rule start_slots_ok [OF assms(1,2) "is" s])
  show ?thesis using e each_slot_ok [OF _ ok "is"] slots_ok by metis
qed

lemma start_scan_ok:
  assumes "args_ok a"
  shows "scan_ok a (scanner_start a)"
proof -
  have "used_slots (scanner_start a) = {}" by (auto simp: used_slots_def scanner_start_def Let_def)
  then show ?thesis using assms
    by (auto simp: scan_ok_def scanner_start_def Let_def args_ok_def nth_append simp del: replicate.simps)
qed

text \<open>
  After every round the number of running connections is that of the used slots, these have different ports of
  the range, all of them tried already, and successes are reported for such ports only, inside the array. The loop
  ends by itself only when all ports of the range have been tried and all slots are free.
\<close>

theorem port_scan_accounts:
  assumes "scan_reaches xe cb (clamp_args a) locals remote (scanner_start (clamp_args a), x) (sc, x')"
  shows "unat (running sc) = card (used_slots sc) \<and> inj_on (\<lambda>i. slotPort sc ! i) (used_slots sc) \<and>
         (\<forall>i \<in> used_slots sc. unat (startPort (clamp_args a)) \<le> unat (slotPort sc ! i) \<and> unat (slotPort sc ! i) < unat (nextPort sc) \<and>
            unat (slotPort sc ! i) < length (success sc)) \<and>
         (\<forall>p < length (success sc). success sc ! p \<longrightarrow> unat (startPort (clamp_args a)) \<le> p \<and> p < unat (nextPort sc)) \<and>
         (\<not> scan_continues (clamp_args a) sc \<longrightarrow>
            unat (nextPort sc) = unat (endPort (clamp_args a)) + 1 \<and> (\<forall>c \<in> set (clientSocket sc). c = None))"
proof -
  let ?a = "clamp_args a"
  have "scan_ok ?a sc"
    using assms by (induction "(scanner_start ?a, x)" "(sc, x')" arbitrary: sc x' rule: scan_reaches.induct)
      (use scan_round_ok [OF clamp_ok] start_scan_ok [OF clamp_ok] in blast)+
  moreover have "unat (nextPort sc) = unat (endPort ?a) + 1" if "\<not> scan_continues ?a sc"
    using calculation that by (simp add: scan_ok_def scan_continues_def word_le_nat_alt)
  moreover have "\<forall>c \<in> set (clientSocket sc). c = None" if "\<not> scan_continues ?a sc"
  proof -
    have "used_slots sc = {}" using \<open>scan_ok ?a sc\<close> that by (simp add: scan_ok_def scan_continues_def word_less_nat_alt)
    then show ?thesis by (auto simp: used_slots_def in_set_conv_nth)
  qed
  ultimately show ?thesis using marked_ok(2) by (auto simp: scan_ok_def)
qed

end
