(* ===== verification/Terminals.thy ===== *)
theory Terminals
  imports EchoServers
begin

text \<open>
  The two threads of \<^verbatim>\<open>sctpterminal.cc\<close>, the one that prints what arrives and the one that sends the lines of
  the keyboard, and the echo server of \<^verbatim>\<open>sctptest.cc\<close>.
\<close>

section \<open>What the terminal prints\<close>

text \<open>
  The buffer has 16384 bytes; a block that fills it has no place for the NUL. Control characters at the end are
  cleared, the ones before become dots.
\<close>

fun clear_back :: "nat \<Rightarrow> byte list \<Rightarrow> nat \<times> byte list" where
  "clear_back 0 buffer = (0, buffer)"
| "clear_back (Suc i) buffer = (if sint (buffer ! i) < 32 then clear_back i (buffer[i := 0]) else (Suc i, buffer))"

fun dots_back :: "nat \<Rightarrow> byte list \<Rightarrow> byte list" where
  "dots_back 0 buffer = buffer"
| "dots_back (Suc i) buffer = dots_back i (if sint (buffer ! i) < 32 then buffer[i := 46] else buffer)"

definition terminal_text :: "byte list \<Rightarrow> nat \<Rightarrow> byte list result" where
  "terminal_text buffer dataLength =
     (if dataLength < length buffer then
        case clear_back dataLength (buffer[dataLength := 0]) of (i, buffer) \<Rightarrow> Inr (printed (dots_back i buffer))
      else Inl BadPointer)"

text \<open>The stream and the protocol in front of the text, when there is more than one stream.\<close>

definition terminal_prefix :: "card32 \<Rightarrow> card16 \<Rightarrow> card32 \<Rightarrow> string" where
  "terminal_prefix incoming streamID protoID =
     (if incoming > 1 then
        if protoID = 0 then ''#'' @ dec_string (unat streamID) @ '': ''
        else ''#'' @ dec_string (unat streamID) @ ''/$'' @ hex_padded 8 (unat protoID) @ '': ''
      else '''')"

section \<open>Lines of the keyboard\<close>

text \<open>
  \<^verbatim>\<open>%d\<close> and \<^verbatim>\<open>%x\<close> of \<^verbatim>\<open>sscanf\<close>: white space, a sign, digits; the values are limited as those of \<^verbatim>\<open>strtol\<close> and
  \<^verbatim>\<open>strtoul\<close> with 64 bits, and stored with 32 bits.
\<close>

definition scan_space :: "char \<Rightarrow> bool" where
  "scan_space c = (c \<in> {CHR '' '', char_of (9 :: nat), char_of (10 :: nat), char_of (11 :: nat), char_of (12 :: nat), char_of (13 :: nat)})"

definition is_dec :: "char \<Rightarrow> bool" where
  "is_dec c = (48 \<le> (of_char c :: nat) \<and> (of_char c :: nat) \<le> 57)"

definition is_xdigit :: "char \<Rightarrow> bool" where
  "is_xdigit c = (is_dec c \<or> 97 \<le> (of_char c :: nat) \<and> (of_char c :: nat) \<le> 102 \<or> 65 \<le> (of_char c :: nat) \<and> (of_char c :: nat) \<le> 70)"

definition xdigit_value :: "char \<Rightarrow> nat" where
  "xdigit_value c = (if 65 \<le> (of_char c :: nat) \<and> (of_char c :: nat) \<le> 70 then of_char c - 55 else digit_value c)"

fun scan_sign :: "string \<Rightarrow> bool \<times> string" where
  "scan_sign (c # s) = (if c = CHR ''-'' then (True, s) else if c = CHR ''+'' then (False, s) else (False, c # s))"
| "scan_sign [] = (False, [])"

definition scan_d :: "string \<Rightarrow> (card32 \<times> string) option" where
  "scan_d str =
     (let (negative, s) = scan_sign (dropWhile scan_space str);
          ds = takeWhile is_dec s;
          n = int (radix_value 10 digit_value 0 ds)
      in if ds = [] then None
         else Some (of_int (if negative then max (- (2 ^ 63)) (- n) else min (2 ^ 63 - 1) n), drop (length ds) s))"

definition skip_0x :: "string \<Rightarrow> string" where
  "skip_0x s = (case s of c # x # r \<Rightarrow> if c = CHR ''0'' \<and> (x = CHR ''x'' \<or> x = CHR ''X'') then r else s | _ \<Rightarrow> s)"

definition scan_x :: "string \<Rightarrow> (card32 \<times> string) option" where
  "scan_x str =
     (let (negative, s) = scan_sign (dropWhile scan_space str);
          s = skip_0x s;
          ds = takeWhile is_xdigit s;
          n = int (radix_value 16 xdigit_value 0 ds);
          n = (if n > 2 ^ 64 - 1 then 2 ^ 64 - 1 else if negative then - n else n)
      in if ds = [] then None else Some (of_int n, drop (length ds) s))"

fun literally :: "string \<Rightarrow> string \<Rightarrow> string option" where
  "literally [] s = Some s"
| "literally (c # cs) (d # ds) = (if c = d then literally cs ds else None)"
| "literally (c # cs) [] = None"

text \<open>
  The variables that \<^verbatim>\<open>sscanf\<close> writes: stream, protocol identifier and position. The formats are \<^verbatim>\<open>#%d/$%x:%n\<close>, the
  same without the dollar, and \<^verbatim>\<open>#%d:%n\<close>; the result is the number of values read.
\<close>

type_synonym scan_vars = "card32 \<times> card32 \<times> nat"

definition scan_both :: "string \<Rightarrow> string \<Rightarrow> scan_vars \<Rightarrow> nat \<times> scan_vars" where
  "scan_both between str v =
     (case v of (stream, ppid, position) \<Rightarrow>
      (case Option.bind (literally ''#'' str) scan_d of
         None \<Rightarrow> (0, v)
       | Some (stream, s) \<Rightarrow>
           (case Option.bind (literally between s) scan_x of
              None \<Rightarrow> (1, stream, ppid, position)
            | Some (ppid, s) \<Rightarrow>
                (2, stream, ppid, (case literally '':'' s of None \<Rightarrow> position | Some s \<Rightarrow> length str - length s)))))"

definition scan_stream :: "string \<Rightarrow> scan_vars \<Rightarrow> nat \<times> scan_vars" where
  "scan_stream str v =
     (case v of (stream, ppid, position) \<Rightarrow>
      (case Option.bind (literally ''#'' str) scan_d of
         None \<Rightarrow> (0, v)
       | Some (stream, s) \<Rightarrow> (1, stream, ppid, (case literally '':'' s of None \<Rightarrow> position | Some s \<Rightarrow> length str - length s))))"

text \<open>
  One round for a line that was read: the new stream and identifier, whether the stream was bad, and the message. The line
  feed is written over the NUL and then replaced by another NUL, which is sent.
\<close>

definition copy_line :: "card32 \<Rightarrow> card32 \<Rightarrow> string \<Rightarrow> card32 \<times> card32 \<Rightarrow> (card32 \<times> card32) \<times> bool \<times> echo_reply option" where
  "copy_line outgoing unreliable str st =
     (let (stream, ppid) = st;
          (n, v) = scan_both ''/$'' str (stream, ppid, 0);
          (n, v) = (if n < 2 then scan_both ''/'' str v else (n, v));
          (update, v) = (if n < 2
                         then (case scan_stream str v of (m, v) \<Rightarrow> if m < 1 then (False, fst v, fst (snd v), 0) else (True, v))
                         else (True, v));
          (stream, ppid, position) = v;
          toSend = drop position str;
          bad = stream \<ge> outgoing;
          stream = (if bad then 0 else stream)
      in ((stream, ppid), bad,
          if toSend = [] then None
          else Some \<lparr>ReplyBytes = bytes_of toSend @ [0], ReplyStream = ucast stream, ReplyPPID = htonl ppid,
                     ReplyFlags = MSG_PR_SCTP_TTL\<rparr>))"

section \<open>The echo server of the test program\<close>

text \<open>
  The text of the reply is read from the buffer before the NUL behind the block is written; reading or writing
  behind the array is a fault. The blocks are what the calls of \<^verbatim>\<open>receive\<close> give, until one fails.
\<close>

definition test_reply :: "nat \<Rightarrow> byte list \<Rightarrow> byte list" where
  "test_reply ID dataBuffer = take (16384 + 256 - 1) (bytes_of (''T'' @ dec_string ID @ ''> '') @ printed dataBuffer)"

fun TestServer_run :: "nat \<Rightarrow> byte list \<Rightarrow> byte list list \<Rightarrow> byte list list result" where
  "TestServer_run ID dataBuffer [] = Inr []"
| "TestServer_run ID dataBuffer (b # bs) =
     (let dataBuffer = b @ drop (length b) dataBuffer in
      if b = [] then TestServer_run ID dataBuffer bs
      else if 0 \<notin> set dataBuffer then Inl BadPointer
      else if length b < length dataBuffer
      then andThen (TestServer_run ID (dataBuffer[length b := 0]) bs) (\<lambda>sent. Inr (test_reply ID dataBuffer # sent))
      else Inl BadPointer)"

section \<open>Laws\<close>

lemma clear_back_eq:
  "n \<le> length buf \<Longrightarrow> clear_back n buf =
    (let k = length (dropWhile (\<lambda>b. sint b < 32) (rev (take n buf))) in (k, take k buf @ replicate (n - k) 0 @ drop n buf))"
proof (induction n arbitrary: buf)
  case (Suc i)
  have t: "rev (take (Suc i) buf) = buf ! i # rev (take i buf)" using Suc.prems by (simp add: take_Suc_conv_app_nth)
  show ?case
  proof (cases "sint (buf ! i) < 32")
    case True
    let ?k = "length (dropWhile (\<lambda>b. sint b < 32) (rev (take i buf)))"
    have k: "?k \<le> i" using length_dropWhile_le [of "\<lambda>b. sint b < 32" "rev (take i buf)"] by simp
    have "clear_back (Suc i) buf = (?k, take ?k (buf[i := 0]) @ replicate (i - ?k) 0 @ drop i (buf[i := 0]))"
      using True Suc.IH [of "buf[i := 0]"] Suc.prems by (simp add: Let_def)
    also have "drop i (buf[i := 0]) = 0 # drop (Suc i) buf"
      using Suc.prems by (simp add: Cons_nth_drop_Suc [symmetric] drop_update_swap)
    also have "replicate (i - ?k) 0 @ 0 # drop (Suc i) buf = replicate (Suc i - ?k) 0 @ drop (Suc i) buf"
      using k by (simp add: Suc_diff_le replicate_app_Cons_same [symmetric])
    finally show ?thesis using True t k by (simp add: Let_def)
  next
    case False
    then show ?thesis using t Suc.prems id_take_nth_drop [of i buf] by (simp add: Let_def take_Suc_conv_app_nth)
  qed
qed simp

lemma dots_back_eq: "n \<le> length buf \<Longrightarrow> dots_back n buf = map shown (take n buf) @ drop n buf"
proof (induction n arbitrary: buf)
  case (Suc i)
  have b: "(if sint (buf ! i) < 32 then buf[i := 46] else buf) = buf[i := shown (buf ! i)]"
    by (simp add: shown_def)
  have d: "drop i (buf[i := shown (buf ! i)]) = shown (buf ! i) # drop (Suc i) buf"
    using Suc.prems by (simp add: Cons_nth_drop_Suc [symmetric] drop_update_swap)
  show ?case
    using Suc by (simp only: dots_back.simps b) (simp add: Suc.IH d take_Suc_conv_app_nth)
qed simp

text \<open>
  The terminal prints the block without the control characters at its end and with the others as dots, whatever
  was in the buffer before; a block that fills the buffer writes behind it.
\<close>

theorem terminal_prints:
  "terminal_text (data @ rest) (length data) =
   (if rest = [] then Inl BadPointer else Inr (map shown (rev (dropWhile (\<lambda>b. sint b < 32) (rev data)))))"
proof (cases rest)
  case Nil
  then show ?thesis by (simp add: terminal_text_def)
next
  case (Cons r rs)
  let ?ctrl = "\<lambda>b :: byte. sint b < 32"
  let ?k = "length (dropWhile ?ctrl (rev data))" and ?buf = "data @ 0 # rs"
  have k: "?k \<le> length data" using length_dropWhile_le [of ?ctrl "rev data"] by simp
  have "clear_back (length data) ?buf = (?k, take ?k data @ replicate (length data - ?k) 0 @ 0 # rs)"
    using k by (subst clear_back_eq) (simp_all add: Let_def)
  moreover have "dots_back ?k (take ?k data @ replicate (length data - ?k) 0 @ 0 # rs) =
      map shown (take ?k data) @ replicate (length data - ?k) 0 @ 0 # rs"
    using k by (subst dots_back_eq) simp_all
  moreover have "printed (map shown (take ?k data) @ replicate (length data - ?k) 0 @ 0 # rs) = map shown (take ?k data)"
    unfolding printed_def by (subst takeWhile_append2) (auto simp: takeWhile_append)
  moreover have "take ?k data = rev (dropWhile ?ctrl (rev data))" by (rule rev_dropWhile_take [symmetric])
  ultimately show ?thesis using Cons by (simp add: terminal_text_def list_update_append)
qed

text \<open>Numbers printed are read back.\<close>

lemma digit_char_cases: "d < 10 \<Longrightarrow> of_char (digit_char d) = 48 + (d :: nat)" "10 \<le> d \<Longrightarrow> d < 16 \<Longrightarrow> of_char (digit_char d) = 87 + (d :: nat)"
  by (simp_all add: digit_char_def of_char_of)

lemma digits_of_dec: "c \<in> set (dec_string n) \<Longrightarrow> is_dec c"
  using radix_string_digits [of 10 n] by (auto simp: dec_string_def is_dec_def digit_char_cases)

lemma digits_of_hex:
  assumes "c \<in> set (hex_string n)"
  shows "is_xdigit c" "xdigit_value c = digit_value c" "c \<noteq> CHR ''x''" "c \<noteq> CHR ''X''"
proof -
  obtain d where d: "d < 16" "c = digit_char d" using radix_string_digits [of 16 n] assms by (auto simp: hex_string_def)
  then have "of_char c = 48 + d \<and> d < 10 \<or> of_char c = 87 + d \<and> 10 \<le> d" by (metis digit_char_cases linorder_not_le)
  then show "is_xdigit c" "xdigit_value c = digit_value c" "c \<noteq> CHR ''x''" "c \<noteq> CHR ''X''"
    using d(1) by (auto simp: is_xdigit_def is_dec_def xdigit_value_def)
qed

lemma not_special:
  "is_dec c \<Longrightarrow> \<not> scan_space c \<and> c \<noteq> CHR ''-'' \<and> c \<noteq> CHR ''+''" "is_xdigit c \<Longrightarrow> \<not> scan_space c \<and> c \<noteq> CHR ''-'' \<and> c \<noteq> CHR ''+''"
  by (auto simp: is_dec_def is_xdigit_def scan_space_def of_char_of)

lemma scan_sign_digits: "s \<noteq> [] \<Longrightarrow> hd s \<noteq> CHR ''-'' \<Longrightarrow> hd s \<noteq> CHR ''+'' \<Longrightarrow> scan_sign s = (False, s)"
  by (cases s) auto

lemma scan_d_dec:
  assumes "n < 2 ^ 32" "rest = [] \<or> \<not> is_dec (hd rest)"
  shows "scan_d (dec_string n @ rest) = Some (of_nat n, rest)"
proof -
  have ne: "dec_string n \<noteq> []" by (simp add: dec_string_def radix_string_ne)
  then have h: "is_dec (hd (dec_string n))" by (intro digits_of_dec [of _ n] hd_in_set)
  have t: "takeWhile is_dec (dec_string n @ rest) = dec_string n"
    using assms(2) digits_of_dec by (cases rest) (auto simp: takeWhile_append)
  have "dropWhile scan_space (dec_string n @ rest) = dec_string n @ rest" using ne h not_special(1)
    by (cases "dec_string n") auto
  moreover have "scan_sign (dec_string n @ rest) = (False, dec_string n @ rest)"
    using ne h not_special(1) by (intro scan_sign_digits) auto
  moreover have "radix_value 10 digit_value 0 (dec_string n) = n" by (simp add: dec_string_def radix_value_string)
  ultimately show ?thesis using t ne assms(1) by (simp add: scan_d_def Let_def)
qed

lemma scan_x_hex:
  assumes "n < 2 ^ 32" "rest = [] \<or> \<not> is_xdigit (hd rest) \<and> hd rest \<noteq> CHR ''x'' \<and> hd rest \<noteq> CHR ''X''"
  shows "scan_x (hex_string n @ rest) = Some (of_nat n, rest)"
proof -
  have ne: "hex_string n \<noteq> []" by (simp add: hex_string_def radix_string_ne)
  then have h: "is_xdigit (hd (hex_string n))" by (intro digits_of_hex(1) [of _ n] hd_in_set)
  have t: "takeWhile is_xdigit (hex_string n @ rest) = hex_string n"
    using assms(2) digits_of_hex(1) by (cases rest) (auto simp: takeWhile_append)
  have "dropWhile scan_space (hex_string n @ rest) = hex_string n @ rest" using ne h not_special(2)
    by (cases "hex_string n") auto
  moreover have "scan_sign (hex_string n @ rest) = (False, hex_string n @ rest)"
    using ne h not_special(2) by (intro scan_sign_digits) auto
  moreover have "skip_0x (hex_string n @ rest) = hex_string n @ rest"
  proof (cases "hex_string n @ rest")
    case (Cons c s)
    have "hd s \<noteq> CHR ''x'' \<and> hd s \<noteq> CHR ''X''" if "s \<noteq> []"
    proof (cases "tl (hex_string n)")
      case Nil
      then have "s = rest" using Cons ne by (cases "hex_string n") auto
      then show ?thesis using assms(2) that by blast
    next
      case (Cons d ds)
      then have "d \<in> set (hex_string n)" "hd s = d" using \<open>hex_string n @ rest = c # s\<close> ne by (cases "hex_string n"; auto)+
      then show ?thesis using digits_of_hex(3,4) by blast
    qed
    then show ?thesis using Cons by (cases s) (auto simp: skip_0x_def)
  qed (simp add: skip_0x_def)
  moreover have "radix_value 16 xdigit_value 0 (hex_string n) = n"
  proof -
    have "radix_value 16 xdigit_value acc cs = radix_value 16 digit_value acc cs" if "\<forall>c \<in> set cs. xdigit_value c = digit_value c" for acc cs
      using that by (induction cs arbitrary: acc) auto
    then show ?thesis using digits_of_hex(2) by (simp add: hex_string_def radix_value_string)
  qed
  ultimately show ?thesis using t ne assms(1) by (simp add: scan_x_def Let_def)
qed

text \<open>
  A line with a stream and a protocol identifier in front, as the terminal prints them, is sent as the text behind the colon,
  with a NUL, on that stream and with that identifier, which stay for the next lines; a stream that does not exist
  becomes stream 0. A line without them is sent as it is with the stream and identifier of before. Every message is
  marked as unreliable, whatever the option says.
\<close>

theorem terminal_line_sent:
  assumes "msg \<noteq> []" "hd msg \<noteq> CHR ''#''"
  shows "copy_line outgoing u (''#'' @ dec_string (unat stream) @ ''/$'' @ hex_string (unat ppid) @ '':'' @ msg) old =
           (let s = (if stream < outgoing then stream else 0)
            in ((s, ppid), \<not> stream < outgoing,
                Some \<lparr>ReplyBytes = bytes_of msg @ [0], ReplyStream = ucast s, ReplyPPID = htonl ppid, ReplyFlags = MSG_PR_SCTP_TTL\<rparr>)) \<and>
         copy_line outgoing u msg old =
           (let s = (if fst old < outgoing then fst old else 0)
            in ((s, snd old), \<not> fst old < outgoing,
                Some \<lparr>ReplyBytes = bytes_of msg @ [0], ReplyStream = ucast s, ReplyPPID = htonl (snd old), ReplyFlags = MSG_PR_SCTP_TTL\<rparr>))"
proof
  have b: "unat stream < 2 ^ LENGTH(32)" "unat ppid < 2 ^ LENGTH(32)" by (rule unsigned_less)+
  have d: "scan_d (dec_string (unat stream) @ ''/$'' @ hex_string (unat ppid) @ '':'' @ msg) =
      Some (stream, ''/$'' @ hex_string (unat ppid) @ '':'' @ msg)"
    using b(1) by (subst scan_d_dec) (simp_all add: is_dec_def)
  have x: "scan_x (hex_string (unat ppid) @ '':'' @ msg) = Some (ppid, '':'' @ msg)"
    using b(2) by (subst scan_x_hex) (simp_all add: is_xdigit_def is_dec_def)
  define P where "P = ''#'' @ dec_string (unat stream) @ ''/$'' @ hex_string (unat ppid) @ '':''"
  have P: "''#'' @ dec_string (unat stream) @ ''/$'' @ hex_string (unat ppid) @ '':'' @ msg = P @ msg" by (simp add: P_def)
  have "scan_both ''/$'' (P @ msg) (fst old, snd old, 0) = (2, stream, ppid, length P)"
    using d x by (simp add: scan_both_def P [symmetric]) (simp add: P_def)
  then show "copy_line outgoing u (''#'' @ dec_string (unat stream) @ ''/$'' @ hex_string (unat ppid) @ '':'' @ msg) old =
           (let s = (if stream < outgoing then stream else 0)
            in ((s, ppid), \<not> stream < outgoing,
                Some \<lparr>ReplyBytes = bytes_of msg @ [0], ReplyStream = ucast s, ReplyPPID = htonl ppid, ReplyFlags = MSG_PR_SCTP_TTL\<rparr>))"
    unfolding P using assms(1) by (cases old) (auto simp: copy_line_def Let_def not_less)
  have "literally ''#'' msg = None" using assms by (cases msg) auto
  then show "copy_line outgoing u msg old =
           (let s = (if fst old < outgoing then fst old else 0)
            in ((s, snd old), \<not> fst old < outgoing,
                Some \<lparr>ReplyBytes = bytes_of msg @ [0], ReplyStream = ucast s, ReplyPPID = htonl (snd old), ReplyFlags = MSG_PR_SCTP_TTL\<rparr>))"
    using assms(1) by (cases old) (auto simp: copy_line_def scan_both_def scan_stream_def Let_def not_less)
qed

theorem terminal_line_sent_witness:
  "copy_line 4 0 ''#3/$1f:Hi'' (0, 0) = ((3, 31), False, Some \<lparr>ReplyBytes = [72, 105, 0], ReplyStream = 3, ReplyPPID = htonl 31, ReplyFlags = MSG_PR_SCTP_TTL\<rparr>)"
proof -
  have "dec_string 3 = ''3''" "hex_string 31 = ''1f''"
    by (simp_all add: dec_string_def hex_string_def radix_string.simps digit_char_def char_of_def bit_Suc_0_iff)
  then show ?thesis
    using terminal_line_sent [of "''Hi''" 4 0 3 31 "(0, 0)", THEN conjunct1] by (simp add: bytes_of_def)
qed

text \<open>The echo server of the test program shows the end of the block before when the next one is shorter.\<close>

theorem test_server_repeats_tail:
  assumes "0 \<notin> set b" "0 \<notin> set c" "c \<noteq> []" "length c < length b" "length b < length buffer" "0 \<in> set (drop (length b) buffer)"
  shows "\<exists>first. TestServer_run ID buffer [b, c] = Inr [first, take 16639 (bytes_of (''T'' @ dec_string ID @ ''> '') @ c @ drop (length c) b)]"
proof -
  have n: "b \<noteq> []" using assms(3,4) by auto
  obtain r rs where r: "drop (length b) buffer = r # rs" using assms(5) by (cases "drop (length b) buffer") auto
  have u: "(b @ r # rs)[length b := 0] = b @ 0 # rs" by simp
  have d: "drop (length c) (b @ 0 # rs) = drop (length c) b @ 0 # rs" using assms(4) by simp
  have "printed (c @ drop (length c) b @ 0 # rs) = c @ drop (length c) b"
    using assms(1,2) set_drop_subset [of "length c" b] unfolding printed_def
    by (simp add: takeWhile_append takeWhile_eq_all_conv subset_iff) (metis in_set_dropD takeWhile_eq_all_conv)
  then show ?thesis
    using assms n by (simp add: r u d Let_def test_reply_def)
qed

text \<open>A block that fills the buffer is written behind its end, if there is a NUL to read at all.\<close>

theorem test_server_overflows: "length b = length buffer \<Longrightarrow> b \<noteq> [] \<Longrightarrow> TestServer_run ID buffer [b] = Inl BadPointer"
  by (simp add: Let_def)

end
