(* ===== verification/Spec2Isabelle.thy ===== *)
theory Spec2Isabelle
  imports AddressText AddressLaws Delegates AssociationLaws PortLaws CppOptionLaws Sorting MutexLaws ThreadLaws TimerLaws TftpLaws
    PortableAddresses Probing Rates ServerSets EchoServers MultiServers PortScanner Terminals
begin

text \<open>
  A model of the SCTP socket API in \<^verbatim>\<open>src/socketapi\<close> and of the C++ classes in \<^verbatim>\<open>src/cppsocketapi\<close>: a library
  that offers sockets over an SCTP implementation in user space (\<^verbatim>\<open>sctplib\<close>). The application calls methods of
  \<^verbatim>\<open>SCTPSocket\<close> and \<^verbatim>\<open>SCTPAssociation\<close>; these call \<^verbatim>\<open>sctplib\<close>,
  which answers through callbacks into \<^verbatim>\<open>SCTPSocketMaster\<close>. One recursive lock, held by the
  master, protects all of them. The callbacks turn events into notifications, put them into queues
  of sockets and associations and fire conditions on which application threads wait.

  Theories, from the bottom:
  \<^item> \<open>Prelude\<close>: machine integers, results (\<open>fault + 'a\<close>), multimaps, strings of the C library.
  \<^item> \<open>TDStrings\<close>, \<open>Tools\<close>: \<^verbatim>\<open>tdstrings.cc\<close> and \<^verbatim>\<open>tools.cc\<close>.
  \<^item> \<open>InternetAddresses\<close>, \<open>AddressText\<close>, \<open>AddressLaws\<close>: \<^verbatim>\<open>internetaddress.cc\<close>, its textual notation
    and its comparison, \<^verbatim>\<open>sockaddr\<close> conversion and checksum.
  \<^item> \<open>SocketAddresses\<close>: \<^verbatim>\<open>socketaddress.cc\<close>, \<^verbatim>\<open>unixaddress.cc\<close>. \<open>PortableAddresses\<close>: \<^verbatim>\<open>portableaddress.icc\<close>, whose
    operators are those of the lexicographic order, and multicast scopes. \<open>Rates\<close>: packets and bytes per second
    of \<^verbatim>\<open>tools.cc\<close>.
  \<^item> \<open>Conditions\<close>: \<^verbatim>\<open>condition.cc\<close>, conditions with parents, and the arithmetic of time limits.
  \<^item> \<open>NotificationQueue\<close>: \<^verbatim>\<open>sctpnotificationqueue.cc\<close> as a linked list over a store of nodes, which
    refines a list. The interface is the locale \<open>fifo\<close>, interpreted by the linked list as \<open>nq\<close>.
  \<^item> \<open>World\<close>: the state all operations work on. \<open>'l world\<close> holds the state \<open>'l\<close> of \<^verbatim>\<open>sctplib\<close>, the
    objects by address (\<open>Sockets\<close>, \<open>Assocs\<close>), the tables of the master, the level of the lock and the
    cancellation state of the thread. \<open>'l sctplib\<close> is the parameter that stands for \<^verbatim>\<open>sctplib\<close>: one
    function per call, which may also return the events it calls back with.
  \<^item> \<open>Associations\<close>: \<^verbatim>\<open>sctpassociation.cc\<close> and the look-ups of the master; \<open>Master\<close>: the callbacks,
    garbage collection and auto-close of \<^verbatim>\<open>sctpsocketmaster.cc\<close>; \<open>Sockets\<close>: \<^verbatim>\<open>sctpsocket.cc\<close>;
    \<open>Delegates\<close>: accessors and operations that only call another one.
  \<^item> \<open>Contract\<close>, \<open>Discipline\<close>, \<open>Exact\<close>: for every operation a rule which says that it keeps the
    lock level and the well-formedness of the state (collection \<open>contract\<close>; locale
    \<open>callback_contract\<close>, interpreted by the callbacks as \<open>master\<close>), and the exact results of the
    operations that cannot fail (collection \<open>exact\<close>).
  \<^item> \<open>Samples\<close>: a small SCTP implementation, on which the properties are applied.
  \<^item> \<open>AssociationLaws\<close>, \<open>DeliveryLaws\<close>, \<open>SendLaws\<close>, \<open>LockLaws\<close>: the properties of the components.
  \<^item> \<open>ExtData\<close>: the state of the wrapper \<^verbatim>\<open>sctpsocketwrapper.cc\<close>: \<open>('l, 'o) ext\<close> adds the table of
    descriptors, \<^verbatim>\<open>errno\<close> and the state \<open>'o\<close> of the operating system, whose calls are the parameter
    \<open>Sys\<close>. \<open>UserNotifications\<close>: the break pipe and the user notifications of the master; \<open>Selecting\<close>:
    \<^verbatim>\<open>ext_select\<close> and \<^verbatim>\<open>ext_poll\<close>; \<open>Descriptors\<close>: making, closing and connecting descriptors;
    \<open>SocketOptions\<close>, \<open>Receiving\<close>, \<open>ExtSending\<close>: options, input and output.
  \<^item> \<open>DescriptorContract\<close>, \<open>ExtSamples\<close>, \<open>DescriptorLaws\<close>, \<open>ExtLaws\<close>, \<open>SelectLaws\<close>, \<open>MasterLaws\<close>: the rules for
    these operations, a sample of an operating system, and the properties of the wrapper.
  \<^item> \<open>Randomizers\<close>, \<open>Flows\<close>, \<open>Messages\<close>: \<^verbatim>\<open>randomizer.cc\<close> and the periods of its generator, \<^verbatim>\<open>internetflow.cc\<close>,
    \<^verbatim>\<open>tdmessage.icc\<close>.
  \<^item> \<open>CppSockets\<close>, \<open>CppTransfer\<close>, \<open>LocalAddresses\<close>: the class \<^verbatim>\<open>Socket\<close> of \<^verbatim>\<open>tdsocket.cc\<close> over the wrapper:
    making, binding (with the search for a port), connecting; input, output, flows, options and multicast; the
    list of local addresses. \<open>CppLaws\<close>, \<open>PortLaws\<close>, \<open>CppOptionLaws\<close>: an object owns its descriptor along every
    sequence of methods, the search finds a free port, and options read back as set. \<open>Probing\<close>: the local address
    towards a peer, found with a socket that is closed again whichever call fails.
  \<^item> \<open>Sorting\<close>: the sorting templates of \<^verbatim>\<open>tools.icc\<close>; the comparison routines are the locale \<open>comparison\<close>, which
    the operators of a linear order interpret as \<open>less_than\<close>.
  \<^item> \<open>Mutexes\<close>, \<open>MutexLaws\<close>: \<^verbatim>\<open>synchronizable.cc\<close> in both builds. The one over a plain mutex is a step relation on
    the places of all threads and implements the other. \<open>Threads\<close>, \<open>ThreadLaws\<close>: \<^verbatim>\<open>thread.cc\<close>, with the thread
    library as a parameter and the start-up handshake as a step relation.
  \<^item> \<open>MultiTimers\<close>, \<open>TimerLaws\<close>: \<^verbatim>\<open>multitimerthread.icc\<close>, \<^verbatim>\<open>timedthread.cc\<close> and \<^verbatim>\<open>breakdetector.cc\<close>. The clock,
    the handler and the delay are parameters, which may also change what other threads may change.
  \<^item> \<open>Tftp\<close>, \<open>TftpLaws\<close>: the file transfer client \<^verbatim>\<open>sctptftp.cc\<close> and the file server of \<^verbatim>\<open>sctpmultiserver.cc\<close>,
    over connections given by what arrives and what was sent.
  \<^item> \<open>ServerSets\<close>, \<open>EchoServers\<close>, \<open>MultiServers\<close>: the rest of \<^verbatim>\<open>sctpmultiserver.cc\<close>. The servers with their garbage
    collection are a step function over all threads; collections are safe while the program runs, those at the
    shutdown are not. The loops of the servers are total functions over connections; a service is made and
    accepts on the class \<^verbatim>\<open>Socket\<close>. \<open>PortScanner\<close>: the rounds of \<^verbatim>\<open>sctpportscanner.cc\<close>, whose slots, ports
    and results stay consistent whatever the calls return. \<open>Terminals\<close>: the text and the lines of \<^verbatim>\<open>sctpterminal.cc\<close>
    and the echo server of \<^verbatim>\<open>sctptest.cc\<close>.

  Errors of the program are results: \<^verbatim>\<open>abort()\<close>, a null pointer, a dangling pointer, an
  unlocked mutex are faults (\<open>Inl\<close>), error codes are the values the code returns. A callback that
  calls \<^verbatim>\<open>sctplib\<close> may be called back: \<open>deliver e n\<close> runs callbacks nested to depth \<open>n\<close>, deeper
  ones give the fault \<open>OutOfFuel\<close>; properties hold for every \<open>n\<close>. Waiting lets the events in \<open>Future\<close>
  happen one batch at a time; a wait with nothing left gives \<open>StillWaiting\<close>. The remaining loops get
  the length of the structure they run over as fuel; the recursion of \<^verbatim>\<open>quickSort\<close> gets the length of the part,
  and a correction loop of a timer the maximum number of corrections, which the properties show to be enough.

  Not modelled: the reading of arguments and the output of the programs in \<^verbatim>\<open>src/cppsocket_programs\<close>, the remaining
  loops of its test programs and the C programs in \<^verbatim>\<open>src/socket_programs\<close>, which are mostly input and output;
  random floating point numbers; queries of host and user names; debugging output; the build and packaging files.
\<close>

end
